(* ===== verification/Prelude.thy ===== *)
theory Prelude
  imports Main "HOL-Library.Word" "HOL-Library.Code_Target_Nat" "HOL-Library.AList"
begin

text \<open>
  Shared vocabulary of the development: Python strings as lists of code points, Python
  dictionaries as insertion-ordered association lists, exceptions as values of a sum type,
  the generic lemmas on these that the component theories use, and two contracts: a
  keyed store (what a dictionary promises) and an event-driven machine whose steps may
  raise (what every stream fold of the program promises).
\<close>

section \<open>Fact collections\<close>

named_theorems inv_step \<open>one operation keeps a component's invariant\<close>
named_theorems dict_simps \<open>reading a dictionary after an update\<close>

section \<open>Python strings\<close>

text \<open>
  A Python \<open>str\<close> is a sequence of code points, so it is a list of natural numbers, and
  \<open>len\<close> is \<open>length\<close>. An ASCII literal of the source is written \<open>u ''...''\<close>.
\<close>

type_synonym pystr = "nat list"

definition u :: "string \<Rightarrow> pystr" where
  "u s = map of_char s"

lemma u_inject [simp]: "u s = u t \<longleftrightarrow> s = t"
proof -
  have "inj (of_char :: char \<Rightarrow> nat)" by (simp add: inj_def)
  then show ?thesis by (simp add: u_def inj_map_eq_map)
qed

lemma u_empty [simp]: "u [] = []"
  by (simp add: u_def)

lemma u_eq_Nil [simp]: "u s = [] \<longleftrightarrow> s = []"
  by (simp add: u_def)

lemma Nil_eq_u [simp]: "[] = u s \<longleftrightarrow> s = []"
  by (auto simp: u_def)

lemma length_u [simp]: "length (u s) = length s"
  by (simp add: u_def)

lemma u_append: "u (s @ t) = u s @ u t"
  by (simp add: u_def)

text \<open>\<open>str.startswith\<close>, \<open>str.removeprefix\<close> and the character tests of the code.\<close>

fun startswith :: "'a list \<Rightarrow> 'a list \<Rightarrow> bool" where
  "startswith s [] = True"
| "startswith [] (p # ps) = False"
| "startswith (c # s) (p # ps) = (c = p \<and> startswith s ps)"

lemma startswith_iff: "startswith s p \<longleftrightarrow> (\<exists>r. s = p @ r)"
  by (induction s p rule: startswith.induct) auto

lemma startswith_append [simp]: "startswith (p @ r) p"
  by (simp add: startswith_iff)

definition removeprefix :: "'a list \<Rightarrow> 'a list \<Rightarrow> 'a list" where
  "removeprefix s p = (if startswith s p then drop (length p) s else s)"

lemma removeprefix_append [simp]: "removeprefix (p @ r) p = r"
  by (simp add: removeprefix_def)

definition endswith :: "'a list \<Rightarrow> 'a list \<Rightarrow> bool" where
  "endswith s p = startswith (rev s) (rev p)"

lemma endswith_iff: "endswith s p \<longleftrightarrow> (\<exists>r. s = r @ p)"
proof -
  have "endswith s p \<longleftrightarrow> (\<exists>r. rev s = rev p @ r)"
    by (simp add: endswith_def startswith_iff)
  also have "\<dots> \<longleftrightarrow> (\<exists>r. s = r @ p)"
    by (metis rev_append rev_rev_ident)
  finally show ?thesis .
qed

text \<open>\<open>str.split(c)\<close> for a one-character separator, and \<open>str.partition(c)\<close>.\<close>

fun splitc :: "'a \<Rightarrow> 'a list \<Rightarrow> 'a list list" where
  "splitc c [] = [[]]"
| "splitc c (x # xs) =
     (if x = c then [] # splitc c xs
      else (case splitc c xs of [] \<Rightarrow> [[x]] | w # ws \<Rightarrow> (x # w) # ws))"

fun partitionc :: "'a \<Rightarrow> 'a list \<Rightarrow> 'a list \<times> bool \<times> 'a list" where
  "partitionc c [] = ([], False, [])"
| "partitionc c (x # xs) =
     (if x = c then ([], True, xs)
      else (case partitionc c xs of (a, f, b) \<Rightarrow> (x # a, f, b)))"

lemma splitc_nonempty [simp]: "splitc c xs \<noteq> []"
  by (induction xs) (auto split: list.splits)

lemma splitc_no_sep: "w \<in> set (splitc c xs) \<Longrightarrow> c \<notin> set w"
  by (induction xs arbitrary: w) (auto split: if_splits list.splits)

lemma partitionc_spec:
  "partitionc c xs = (a, f, b) \<Longrightarrow>
     c \<notin> set a \<and> (if f then xs = a @ c # b else xs = a \<and> b = [])"
  by (induction xs arbitrary: a f b) (auto split: if_splits prod.splits)

section \<open>Dictionaries\<close>

text \<open>
  A Python \<open>dict\<close> keeps insertion order and one value per key: an association list with
  distinct keys, read by \<^term>\<open>map_of\<close> and written by \<^term>\<open>AList.update\<close>, which replaces
  in place or appends at the end, as \<open>d[k] = v\<close> does.
\<close>

type_synonym ('k, 'v) dict = "('k \<times> 'v) list"

definition wf_dict :: "('k, 'v) dict \<Rightarrow> bool" where
  "wf_dict d = distinct (map fst d)"

definition dset :: "'k \<Rightarrow> 'v \<Rightarrow> ('k, 'v) dict \<Rightarrow> ('k, 'v) dict" where
  "dset k v d = AList.update k v d"

definition dvalues :: "('k, 'v) dict \<Rightarrow> 'v list" where
  "dvalues d = map snd d"

text \<open>Applying a function to every value, keeping keys and order.\<close>

definition dmap :: "('v \<Rightarrow> 'w) \<Rightarrow> ('k, 'v) dict \<Rightarrow> ('k, 'w) dict" where
  "dmap f d = map (\<lambda>(k, v). (k, f v)) d"

locale keyed_store =
  fixes get :: "'s \<Rightarrow> 'k \<Rightarrow> 'v option"
    and put :: "'k \<Rightarrow> 'v \<Rightarrow> 's \<Rightarrow> 's"
    and vals :: "'s \<Rightarrow> 'v list"
    and wf :: "'s \<Rightarrow> bool"
  assumes get_put: "get (put k v s) = (get s)(k \<mapsto> v)"
    and wf_put: "wf s \<Longrightarrow> wf (put k v s)"
    and vals_get: "wf s \<Longrightarrow> v \<in> set (vals s) \<longleftrightarrow> (\<exists>k. get s k = Some v)"
begin

lemma get_put_same: "get (put k v s) k = Some v"
  by (simp add: get_put)

lemma get_put_other: "k' \<noteq> k \<Longrightarrow> get (put k v s) k' = get s k'"
  by (simp add: get_put)

text \<open>A property of all values survives a write of a value that has it.\<close>

lemma all_vals_put:
  assumes "wf s" and "\<forall>x \<in> set (vals s). P x" and "P v"
  shows "\<forall>x \<in> set (vals (put k v s)). P x"
  using assms by (auto simp: vals_get wf_put get_put split: if_splits)

text \<open>The last of two writes to a key wins.\<close>

lemma put_put_get: "get (put k w (put k v s)) = get (put k w s)"
  by (auto simp: get_put)

end

interpretation dictionary: keyed_store map_of dset dvalues wf_dict
proof unfold_locales
  show "map_of (dset k v s) = (map_of s)(k \<mapsto> v)" for k v and s :: "('a, 'b) dict"
    by (simp add: dset_def update_conv')
  show "wf_dict (dset k v s)" if "wf_dict s" for k v and s :: "('a, 'b) dict"
    using that by (simp add: wf_dict_def dset_def distinct_update)
  show "v \<in> set (dvalues s) \<longleftrightarrow> (\<exists>k. map_of s k = Some v)" if "wf_dict s"
    for v and s :: "('a, 'b) dict"
    using that by (force simp: wf_dict_def dvalues_def dest: map_of_SomeD)
qed

lemma map_of_dset [simp, dict_simps]: "map_of (dset k v d) = (map_of d)(k \<mapsto> v)"
  by (rule dictionary.get_put)

lemma wf_dict_Nil [simp]: "wf_dict []"
  by (simp add: wf_dict_def)

lemma wf_dict_dset [simp, intro]: "wf_dict d \<Longrightarrow> wf_dict (dset k v d)"
  by (rule dictionary.wf_put)

lemma dvalues_Nil [simp]: "dvalues [] = []"
  by (simp add: dvalues_def)

lemma in_dvalues: "wf_dict d \<Longrightarrow> v \<in> set (dvalues d) \<longleftrightarrow> (\<exists>k. map_of d k = Some v)"
  by (rule dictionary.vals_get)

lemma map_of_in_dvalues: "map_of d k = Some v \<Longrightarrow> v \<in> set (dvalues d)"
  by (force simp: dvalues_def dest: map_of_SomeD)

lemma map_of_dmap [simp, dict_simps]: "map_of (dmap f d) k = map_option f (map_of d k)"
  by (induction d) (auto simp: dmap_def)

lemma wf_dict_dmap [simp]: "wf_dict (dmap f d) = wf_dict d"
  by (simp add: wf_dict_def dmap_def case_prod_beta comp_def)

lemma dvalues_dmap [simp]: "dvalues (dmap f d) = map f (dvalues d)"
  by (induction d) (auto simp: dmap_def dvalues_def)

lemma keys_dset: "fst ` set (dset k v d) = insert k (fst ` set d)"
  by (simp add: dset_def dom_update)

text \<open>
  Counting and summing over the values after a write: the old value of the key leaves, the
  new one enters.
\<close>

lemma sum_dvalues_dset:
  fixes f :: "'v \<Rightarrow> int"
  assumes "wf_dict d"
  shows "sum_list (map f (dvalues (dset k v d))) =
    sum_list (map f (dvalues d)) - (case map_of d k of None \<Rightarrow> 0 | Some w \<Rightarrow> f w) + f v"
  using assms
proof (induction d)
  case Nil
  then show ?case by (simp add: dvalues_def dset_def)
next
  case (Cons p d)
  obtain k' w where p: "p = (k', w)" by (cases p)
  show ?case
  proof (cases "k' = k")
    case True
    with p show ?thesis by (simp add: dvalues_def dset_def)
  next
    case False
    have "wf_dict d" using Cons.prems by (simp add: wf_dict_def)
    from Cons.IH [OF this] False p show ?thesis by (simp add: dvalues_def dset_def)
  qed
qed

section \<open>Exceptions as values\<close>

text \<open>
  A computation that may raise returns \<open>Inl\<close> of the exception or \<open>Inr\<close> of its result.
\<close>

definition bind_res :: "'e + 'a \<Rightarrow> ('a \<Rightarrow> 'e + 'b) \<Rightarrow> 'e + 'b" where
  "bind_res r f = (case r of Inl e \<Rightarrow> Inl e | Inr x \<Rightarrow> f x)"

lemma bind_res_simps [simp]:
  "bind_res (Inl e) f = Inl e"
  "bind_res (Inr x) f = f x"
  by (simp_all add: bind_res_def)

lemma bind_res_Inr: "bind_res r f = Inr y \<longleftrightarrow> (\<exists>x. r = Inr x \<and> f x = Inr y)"
  by (cases r) auto

section \<open>Event-driven machines\<close>

text \<open>
  The folds of the program read a list of events and step a state; a step may raise, which
  ends the run. The contract of such a machine is an invariant that every returning step
  keeps; the run of the whole list then keeps it.
\<close>

fun run :: "('e \<Rightarrow> 's \<Rightarrow> 'x + 's) \<Rightarrow> 'e list \<Rightarrow> 's \<Rightarrow> 'x + 's" where
  "run f [] s = Inr s"
| "run f (e # es) s = (case f e s of Inl x \<Rightarrow> Inl x | Inr t \<Rightarrow> run f es t)"

lemma run_append:
  "run f (xs @ ys) s = (case run f xs s of Inl x \<Rightarrow> Inl x | Inr t \<Rightarrow> run f ys t)"
  by (induction xs arbitrary: s) (auto split: sum.splits)

lemma run_snoc: "run f (xs @ [y]) s = bind_res (run f xs s) (f y)"
  by (cases "run f xs s") (auto simp: run_append split: sum.splits)

locale machine =
  fixes step :: "'e \<Rightarrow> 's \<Rightarrow> 'x + 's"
    and inv :: "'s \<Rightarrow> bool"
    and ok_event :: "'e \<Rightarrow> bool"
  assumes step_inv: "ok_event e \<Longrightarrow> inv s \<Longrightarrow> step e s = Inr t \<Longrightarrow> inv t"
begin

lemma run_inv: "\<forall>e \<in> set es. ok_event e \<Longrightarrow> inv s \<Longrightarrow> run step es s = Inr t \<Longrightarrow> inv t"
proof (induction es arbitrary: s)
  case Nil
  then show ?case by simp
next
  case (Cons e es)
  then obtain r where r: "step e s = Inr r" and rest: "run step es r = Inr t"
    by (auto split: sum.splits)
  have "inv r" using Cons.prems r by (auto intro: step_inv)
  with Cons.IH [OF _ _ rest] Cons.prems show ?case by simp
qed

end

text \<open>A machine that additionally keeps a relation between its states along a run.\<close>

locale monotone_machine = machine step inv ok_event
  for step :: "'e \<Rightarrow> 's \<Rightarrow> 'x + 's" and inv ok_event +
  fixes rel :: "'s \<Rightarrow> 's \<Rightarrow> bool"
  assumes rel_refl: "rel s s"
    and rel_trans: "rel r s \<Longrightarrow> rel s t \<Longrightarrow> rel r t"
    and step_rel: "ok_event e \<Longrightarrow> inv s \<Longrightarrow> step e s = Inr t \<Longrightarrow> rel s t"
begin

lemma run_rel: "\<forall>e \<in> set es. ok_event e \<Longrightarrow> inv s \<Longrightarrow> run step es s = Inr t \<Longrightarrow> rel s t"
proof (induction es arbitrary: s)
  case Nil
  then show ?case by (simp add: rel_refl)
next
  case (Cons e es)
  then obtain r where r: "step e s = Inr r" and rest: "run step es r = Inr t"
    by (auto split: sum.splits)
  have "inv r" and "rel s r" using Cons.prems r by (auto intro: step_inv step_rel)
  with Cons.IH [OF _ _ rest] Cons.prems show ?case by (auto intro: rel_trans)
qed

end

end
