(* ===== verification/PyRegex.thy ===== *)
theory PyRegex
  imports Prelude
begin

text \<open>
  The part of Python's \<open>re\<close> module the program uses: patterns that are matched against a
  whole string (\<open>fullmatch\<close>, or a pattern that ends in \<open>\Z\<close>). A pattern is a value of the
  datatype below, with one constructor per construct that occurs in the sources; the matcher
  takes one derivative per character. The language of a pattern is its specification, and
  the matcher decides exactly it.
\<close>

section \<open>Patterns\<close>

type_synonym charset = "(nat \<times> nat) list"

text \<open>
  \<open>Rep cs m n\<close> is a character class with a counted repetition, \<open>[cs]{m,n}\<close>.
\<close>

datatype re =
    Void
  | Eps
  | Rep charset nat nat
  | Seq re re
  | Alt re re
  | Star re

definition in_charset :: "nat \<Rightarrow> charset \<Rightarrow> bool" where
  "in_charset c cs = list_ex (\<lambda>(lo, hi). lo \<le> c \<and> c \<le> hi) cs"

definition Cls :: "charset \<Rightarrow> re" where
  "Cls cs = Rep cs 1 1"

definition Plus :: "re \<Rightarrow> re" where
  "Plus r = Seq r (Star r)"

fun Lit :: "nat list \<Rightarrow> re" where
  "Lit [] = Eps"
| "Lit (c # s) = Seq (Cls [(c, c)]) (Lit s)"

fun OneOf :: "re list \<Rightarrow> re" where
  "OneOf [] = Void"
| "OneOf (r # rs) = Alt r (OneOf rs)"

section \<open>The language of a pattern\<close>

definition seq_lang :: "nat list set \<Rightarrow> nat list set \<Rightarrow> nat list set" where
  "seq_lang A B = {a @ b | a b. a \<in> A \<and> b \<in> B}"

inductive_set star_lang :: "nat list set \<Rightarrow> nat list set" for A where
  star_empty: "[] \<in> star_lang A"
| star_more: "a \<in> A \<Longrightarrow> b \<in> star_lang A \<Longrightarrow> a @ b \<in> star_lang A"

fun re_lang :: "re \<Rightarrow> nat list set" where
  "re_lang Void = {}"
| "re_lang Eps = {[]}"
| "re_lang (Rep cs m n) = {s. (\<forall>c \<in> set s. in_charset c cs) \<and> m \<le> length s \<and> length s \<le> n}"
| "re_lang (Seq r q) = seq_lang (re_lang r) (re_lang q)"
| "re_lang (Alt r q) = re_lang r \<union> re_lang q"
| "re_lang (Star r) = star_lang (re_lang r)"

section \<open>The matcher\<close>

fun mk_seq :: "re \<Rightarrow> re \<Rightarrow> re" where
  "mk_seq Void q = Void"
| "mk_seq Eps q = q"
| "mk_seq r Void = Void"
| "mk_seq r q = Seq r q"

fun mk_alt :: "re \<Rightarrow> re \<Rightarrow> re" where
  "mk_alt Void q = q"
| "mk_alt r Void = r"
| "mk_alt r q = (if r = q then r else Alt r q)"

fun nullable :: "re \<Rightarrow> bool" where
  "nullable Void = False"
| "nullable Eps = True"
| "nullable (Rep cs m n) = (m = 0)"
| "nullable (Seq r q) = (nullable r \<and> nullable q)"
| "nullable (Alt r q) = (nullable r \<or> nullable q)"
| "nullable (Star r) = True"

fun re_step :: "nat \<Rightarrow> re \<Rightarrow> re" where
  "re_step c Void = Void"
| "re_step c Eps = Void"
| "re_step c (Rep cs m n) =
     (if 0 < n \<and> in_charset c cs
      then (if n = 1 then (if m \<le> 1 then Eps else Void) else Rep cs (m - 1) (n - 1))
      else Void)"
| "re_step c (Seq r q) =
     (if nullable r then mk_alt (mk_seq (re_step c r) q) (re_step c q)
      else mk_seq (re_step c r) q)"
| "re_step c (Alt r q) = mk_alt (re_step c r) (re_step c q)"
| "re_step c (Star r) = mk_seq (re_step c r) (Star r)"

fun fullmatch :: "re \<Rightarrow> nat list \<Rightarrow> bool" where
  "fullmatch r [] = nullable r"
| "fullmatch r (c # s) = fullmatch (re_step c r) s"

section \<open>The matcher decides the language\<close>

lemma seq_lang_simps [simp]:
  "seq_lang {} B = {}" "seq_lang A {} = {}" "seq_lang {[]} B = B"
  by (auto simp: seq_lang_def)

lemma seq_lang_mono: "B \<subseteq> C \<Longrightarrow> seq_lang A B \<subseteq> seq_lang A C"
  unfolding seq_lang_def by blast

lemma re_lang_mk_seq [simp]: "re_lang (mk_seq r q) = seq_lang (re_lang r) (re_lang q)"
  by (cases "(r, q)" rule: mk_seq.cases) auto

lemma re_lang_mk_alt [simp]: "re_lang (mk_alt r q) = re_lang r \<union> re_lang q"
  by (cases "(r, q)" rule: mk_alt.cases) auto

lemma nullable_iff: "nullable r \<longleftrightarrow> [] \<in> re_lang r"
  by (induction r) (auto simp: seq_lang_def intro: star_empty)

lemma seq_lang_Cons:
  "c # s \<in> seq_lang A B \<longleftrightarrow>
     ([] \<in> A \<and> c # s \<in> B) \<or> (\<exists>a b. s = a @ b \<and> c # a \<in> A \<and> b \<in> B)"
proof
  assume "c # s \<in> seq_lang A B"
  then obtain a b where ab: "c # s = a @ b" "a \<in> A" "b \<in> B" by (auto simp: seq_lang_def)
  then show "([] \<in> A \<and> c # s \<in> B) \<or> (\<exists>a b. s = a @ b \<and> c # a \<in> A \<and> b \<in> B)"
    by (cases a) auto
next
  assume "([] \<in> A \<and> c # s \<in> B) \<or> (\<exists>a b. s = a @ b \<and> c # a \<in> A \<and> b \<in> B)"
  then show "c # s \<in> seq_lang A B"
  proof
    assume "[] \<in> A \<and> c # s \<in> B"
    then show ?thesis unfolding seq_lang_def by (metis (mono_tags, lifting) append_Nil mem_Collect_eq)
  next
    assume "\<exists>a b. s = a @ b \<and> c # a \<in> A \<and> b \<in> B"
    then show ?thesis unfolding seq_lang_def by (metis (mono_tags, lifting) append_Cons mem_Collect_eq)
  qed
qed

lemma star_lang_Cons_D:
  "t \<in> star_lang A \<Longrightarrow> t = c # s \<Longrightarrow> \<exists>a b. s = a @ b \<and> c # a \<in> A \<and> b \<in> star_lang A"
proof (induction arbitrary: s rule: star_lang.induct)
  case star_empty
  then show ?case by simp
next
  case (star_more a b)
  show ?case
  proof (cases a)
    case Nil
    with star_more show ?thesis by simp
  next
    case (Cons d a')
    with star_more show ?thesis by auto
  qed
qed

lemma star_lang_Cons:
  "c # s \<in> star_lang A \<longleftrightarrow> (\<exists>a b. s = a @ b \<and> c # a \<in> A \<and> b \<in> star_lang A)"
proof
  show "c # s \<in> star_lang A \<Longrightarrow> \<exists>a b. s = a @ b \<and> c # a \<in> A \<and> b \<in> star_lang A"
    by (rule star_lang_Cons_D [OF _ refl])
  assume "\<exists>a b. s = a @ b \<and> c # a \<in> A \<and> b \<in> star_lang A"
  then obtain a b where s: "s = a @ b" and a: "c # a \<in> A" and b: "b \<in> star_lang A" by blast
  from star_lang.star_more [OF a b] s show "c # s \<in> star_lang A" by simp
qed

lemma re_step_lang: "s \<in> re_lang (re_step c r) \<longleftrightarrow> c # s \<in> re_lang r"
proof (induction r arbitrary: s)
  case (Rep cs m n)
  show ?case by (cases s) auto
next
  case (Seq r q)
  have "s \<in> seq_lang (re_lang (re_step c r)) (re_lang q) \<longleftrightarrow>
      (\<exists>a b. s = a @ b \<and> c # a \<in> re_lang r \<and> b \<in> re_lang q)"
    by (simp add: seq_lang_def Seq.IH(1))
  with Seq.IH(2) show ?case by (auto simp: seq_lang_Cons nullable_iff)
next
  case (Star r)
  have "s \<in> seq_lang (re_lang (re_step c r)) (star_lang (re_lang r)) \<longleftrightarrow>
      (\<exists>a b. s = a @ b \<and> c # a \<in> re_lang r \<and> b \<in> star_lang (re_lang r))"
    by (simp add: seq_lang_def Star.IH)
  then show ?case by (simp add: star_lang_Cons)
qed simp_all

theorem fullmatch_iff: "fullmatch r s \<longleftrightarrow> s \<in> re_lang r"
  by (induction s arbitrary: r) (simp_all add: nullable_iff re_step_lang)

section \<open>Derived forms\<close>

lemma Cls_lang [simp]: "re_lang (Cls cs) = {[c] | c. in_charset c cs}"
  by (auto simp: Cls_def length_Suc_conv le_Suc_eq)

lemma Cls_single [simp]: "re_lang (Cls [(c, c)]) = {[c]}"
  by (auto simp: in_charset_def)

lemma Lit_lang [simp]: "re_lang (Lit s) = {s}"
proof (induction s)
  case Nil
  show ?case by simp
next
  case (Cons c s)
  have "re_lang (Lit (c # s)) = seq_lang {[c]} {s}"
    by (simp only: Lit.simps re_lang.simps Cls_single Cons.IH)
  also have "\<dots> = {c # s}" by (simp add: seq_lang_def)
  finally show ?case .
qed

lemma OneOf_lang [simp]: "re_lang (OneOf rs) = (\<Union>r \<in> set rs. re_lang r)"
  by (induction rs) auto

lemma star_class_lang:
  "s \<in> star_lang (re_lang (Cls cs)) \<longleftrightarrow> (\<forall>c \<in> set s. in_charset c cs)"
proof
  show "s \<in> star_lang (re_lang (Cls cs)) \<Longrightarrow> \<forall>c \<in> set s. in_charset c cs"
    by (induction rule: star_lang.induct) auto
  show "\<forall>c \<in> set s. in_charset c cs \<Longrightarrow> s \<in> star_lang (re_lang (Cls cs))"
  proof (induction s)
    case Nil
    show ?case by (rule star_empty)
  next
    case (Cons c s)
    then have "[c] \<in> re_lang (Cls cs)" "s \<in> star_lang (re_lang (Cls cs))" by auto
    from star_more [OF this] show ?case by simp
  qed
qed

lemma Plus_class_lang:
  "s \<in> re_lang (Plus (Cls cs)) \<longleftrightarrow> s \<noteq> [] \<and> (\<forall>c \<in> set s. in_charset c cs)"
proof (cases s)
  case Nil
  then show ?thesis by (auto simp: Plus_def seq_lang_def)
next
  case (Cons c t)
  then show ?thesis
    using star_class_lang [of t cs] by (auto simp: Plus_def seq_lang_Cons)
qed

text \<open>Every character of a matched string comes from the pattern's classes.\<close>

fun re_chars :: "re \<Rightarrow> charset" where
  "re_chars Void = []"
| "re_chars Eps = []"
| "re_chars (Rep cs m n) = cs"
| "re_chars (Seq r q) = re_chars r @ re_chars q"
| "re_chars (Alt r q) = re_chars r @ re_chars q"
| "re_chars (Star r) = re_chars r"

lemma in_charset_append [simp]: "in_charset c (a @ b) \<longleftrightarrow> in_charset c a \<or> in_charset c b"
  by (simp add: in_charset_def)

lemma star_lang_chars:
  "s \<in> star_lang A \<Longrightarrow> \<forall>a \<in> A. \<forall>c \<in> set a. P c \<Longrightarrow> \<forall>c \<in> set s. P c"
  by (induction rule: star_lang.induct) auto

lemma re_lang_chars: "s \<in> re_lang r \<Longrightarrow> c \<in> set s \<Longrightarrow> in_charset c (re_chars r)"
proof (induction r arbitrary: s c)
  case (Star r)
  from Star.prems(1) have "s \<in> star_lang (re_lang r)" by simp
  from star_lang_chars [OF this, of "\<lambda>c. in_charset c (re_chars r)"] Star
  show ?case by auto
qed (auto simp: seq_lang_def)

lemma fullmatch_chars: "fullmatch r s \<Longrightarrow> c \<in> set s \<Longrightarrow> in_charset c (re_chars r)"
  by (auto simp: fullmatch_iff intro: re_lang_chars)

end
