(* ===== verification/PyValue.thy ===== *)
theory PyValue
  imports PyRegex
begin

text \<open>
  The Python values the program reads from JSON documents, with the exceptions the code can
  raise on them: equality with Python's numeric tower (\<open>True == 1 == 1.0\<close>), \<open>dict.get\<close>, the
  membership test of a string set (which raises on an unhashable operand), decimal digits as
  the Unicode database knows them, \<open>int\<close> and \<open>str\<close> of whole numbers, and UTF-8.
\<close>

section \<open>Exceptions\<close>

text \<open>
  \<open>LedgerError\<close> is a subclass of \<open>ValueError\<close> in the source, as is \<open>UnicodeError\<close>;
  the handlers of the code distinguish them where a component says so.
\<close>

datatype exn =
    LedgerError pystr
  | ValueError pystr
  | UnicodeError
  | TypeError
  | KeyError
  | AttributeError
  | OverflowError
  | OSError
  | TimeoutError
  | SystemExit int

text \<open>The classes below \<open>ValueError\<close> in Python's hierarchy.\<close>

definition is_value_error :: "exn \<Rightarrow> bool" where
  "is_value_error e = (case e of LedgerError _ \<Rightarrow> True | ValueError _ \<Rightarrow> True | UnicodeError \<Rightarrow> True
     | _ \<Rightarrow> False)"

section \<open>JSON values\<close>

text \<open>A finite float is \<open>m * 2 ^ e\<close>; JSON parsing in Python also yields the three others.\<close>

datatype pyfloat = Finite int int | PosInf | NegInf | NaN

datatype pyval =
    PNone
  | PBool bool
  | PInt int
  | PFloat pyfloat
  | PStr pystr
  | PList "pyval list"
  | PDict "(pystr \<times> pyval) list"

type_synonym pydict = "(pystr, pyval) dict"

fun float_eq_int :: "pyfloat \<Rightarrow> int \<Rightarrow> bool" where
  "float_eq_int (Finite m e) n =
     (if 0 \<le> e then m * 2 ^ nat e = n else m = n * 2 ^ nat (- e))"
| "float_eq_int _ n = False"

fun float_eq :: "pyfloat \<Rightarrow> pyfloat \<Rightarrow> bool" where
  "float_eq (Finite m e) (Finite n f) = (m * 2 ^ nat (e - f) = n * 2 ^ nat (f - e))"
| "float_eq PosInf PosInf = True"
| "float_eq NegInf NegInf = True"
| "float_eq _ _ = False"

definition int_of_bool :: "bool \<Rightarrow> int" where
  "int_of_bool b = (if b then 1 else 0)"

text \<open>\<open>==\<close>: numbers compare by value, lists in order, dictionaries regardless of order.\<close>

fun py_eq :: "pyval \<Rightarrow> pyval \<Rightarrow> bool"
  and py_eq_list :: "pyval list \<Rightarrow> pyval list \<Rightarrow> bool"
  and py_sub_dict :: "(pystr \<times> pyval) list \<Rightarrow> (pystr \<times> pyval) list \<Rightarrow> bool" where
  "py_eq PNone w = (w = PNone)"
| "py_eq (PBool b) w = (case w of PBool c \<Rightarrow> b = c | PInt n \<Rightarrow> int_of_bool b = n
     | PFloat f \<Rightarrow> float_eq_int f (int_of_bool b) | _ \<Rightarrow> False)"
| "py_eq (PInt n) w = (case w of PBool c \<Rightarrow> n = int_of_bool c | PInt m \<Rightarrow> n = m
     | PFloat f \<Rightarrow> float_eq_int f n | _ \<Rightarrow> False)"
| "py_eq (PFloat f) w = (case w of PBool c \<Rightarrow> float_eq_int f (int_of_bool c)
     | PInt m \<Rightarrow> float_eq_int f m | PFloat g \<Rightarrow> float_eq f g | _ \<Rightarrow> False)"
| "py_eq (PStr s) w = (w = PStr s)"
| "py_eq (PList xs) w = (case w of PList ys \<Rightarrow> py_eq_list xs ys | _ \<Rightarrow> False)"
| "py_eq (PDict d) w =
     (case w of PDict d' \<Rightarrow> length d = length d' \<and> py_sub_dict d d' | _ \<Rightarrow> False)"
| "py_eq_list [] ys = (ys = [])"
| "py_eq_list (x # xs) ys = (case ys of [] \<Rightarrow> False | y # ys' \<Rightarrow> py_eq x y \<and> py_eq_list xs ys')"
| "py_sub_dict [] d' = True"
| "py_sub_dict ((k, v) # d) d' =
     ((case map_of d' k of None \<Rightarrow> False | Some w \<Rightarrow> py_eq v w) \<and> py_sub_dict d d')"

lemma py_eq_PStr_right [simp]: "py_eq v (PStr s) \<longleftrightarrow> v = PStr s"
  by (cases v) auto

lemma py_eq_PNone_right [simp]: "py_eq v PNone \<longleftrightarrow> v = PNone"
  by (cases v) auto

section \<open>Reading dictionaries\<close>

text \<open>\<open>d.get(k)\<close>, with \<open>None\<close> for an absent key, and \<open>d.get(k, default)\<close>.\<close>

definition dget :: "pydict \<Rightarrow> string \<Rightarrow> pyval" where
  "dget d k = (case map_of d (u k) of None \<Rightarrow> PNone | Some v \<Rightarrow> v)"

definition dget_or :: "pydict \<Rightarrow> string \<Rightarrow> pyval \<Rightarrow> pyval" where
  "dget_or d k v = (case map_of d (u k) of None \<Rightarrow> v | Some w \<Rightarrow> w)"

definition has_key :: "pydict \<Rightarrow> string \<Rightarrow> bool" where
  "has_key d k = (map_of d (u k) \<noteq> None)"

lemma dget_simps [simp, dict_simps]:
  "dget [] k = PNone"
  "dget ((u j, v) # d) k = (if j = k then v else dget d k)"
  by (auto simp: dget_def)

lemma dget_dset [simp, dict_simps]:
  "dget (dset (u j) v d) k = (if j = k then v else dget d k)"
  by (auto simp: dget_def)

definition is_str :: "pyval \<Rightarrow> bool" where
  "is_str v = (case v of PStr _ \<Rightarrow> True | _ \<Rightarrow> False)"

definition is_dict :: "pyval \<Rightarrow> bool" where
  "is_dict v = (case v of PDict _ \<Rightarrow> True | _ \<Rightarrow> False)"

lemma is_str_iff: "is_str v \<longleftrightarrow> (\<exists>s. v = PStr s)"
  by (cases v) (auto simp: is_str_def)

lemma is_dict_iff: "is_dict v \<longleftrightarrow> (\<exists>d. v = PDict d)"
  by (cases v) (auto simp: is_dict_def)

lemma is_str_simps [simp]: "is_str (PStr s)" "\<not> is_str PNone"
  by (simp_all add: is_str_def)

text \<open>The string in a value, and the empty string where there is none (\<open>v or ""\<close>).\<close>

definition str_or_empty :: "pyval \<Rightarrow> pystr" where
  "str_or_empty v = (case v of PStr s \<Rightarrow> s | _ \<Rightarrow> [])"

lemma str_or_empty_PStr [simp]: "str_or_empty (PStr s) = s"
  by (simp add: str_or_empty_def)

section \<open>Sets of strings\<close>

text \<open>
  \<open>v in {"a", "b"}\<close> hashes its operand first: a list or a dictionary raises \<open>TypeError\<close>.
  \<open>v in ("a", "b")\<close> only compares.
\<close>

definition hashable :: "pyval \<Rightarrow> bool" where
  "hashable v = (case v of PList _ \<Rightarrow> False | PDict _ \<Rightarrow> False | _ \<Rightarrow> True)"

definition in_tuple :: "pyval \<Rightarrow> string list \<Rightarrow> bool" where
  "in_tuple v xs = list_ex (\<lambda>s. v = PStr (u s)) xs"

definition in_strset :: "pyval \<Rightarrow> string list \<Rightarrow> exn + bool" where
  "in_strset v xs = (if hashable v then Inr (in_tuple v xs) else Inl TypeError)"

lemma in_tuple_iff: "in_tuple v xs \<longleftrightarrow> (\<exists>s \<in> set xs. v = PStr (u s))"
  by (auto simp: in_tuple_def list_ex_iff)

lemma in_tuple_simps [simp]:
  "in_tuple v [] = False"
  "in_tuple v (s # xs) = (v = PStr (u s) \<or> in_tuple v xs)"
  by (simp_all add: in_tuple_def)

lemma in_strset_PStr [simp]: "in_strset (PStr s) xs = Inr (in_tuple (PStr s) xs)"
  by (simp add: in_strset_def hashable_def)

lemma in_strset_PNone [simp]: "in_strset PNone xs = Inr False"
  by (induction xs) (simp_all add: in_strset_def hashable_def in_tuple_def)

lemma in_strset_True: "in_strset v xs = Inr True \<longleftrightarrow> in_tuple v xs"
proof
  assume "in_strset v xs = Inr True"
  then show "in_tuple v xs" by (simp add: in_strset_def split: if_splits)
next
  assume "in_tuple v xs"
  then obtain s where "v = PStr (u s)" by (auto simp: in_tuple_iff)
  with \<open>in_tuple v xs\<close> show "in_strset v xs = Inr True" by simp
qed

section \<open>Decimal digits\<close>

text \<open>
  The code points with a decimal value, as Unicode 14.0 (the database of Python 3.11) lists
  them: ten consecutive code points from each of these starts. \<open>str.isdecimal\<close> and \<open>int\<close>
  accept exactly these; \<open>str.isdigit\<close> also accepts the digits of \<open>other_digits\<close>, on which
  \<open>int\<close> raises \<open>ValueError\<close>.
\<close>

definition decimal_starts :: "nat list" where
  "decimal_starts = [48, 1632, 1776, 1984, 2406, 2534, 2662, 2790, 2918, 3046, 3174, 3302,
     3430, 3558, 3664, 3792, 3872, 4160, 4240, 6112, 6160, 6470, 6608, 6784, 6800, 6992, 7088,
     7232, 7248, 42528, 43216, 43264, 43472, 43504, 43600, 44016, 65296, 66720, 68912, 69734,
     69872, 69942, 70096, 70384, 70736, 70864, 71248, 71360, 71472, 71904, 72016, 72784, 73040,
     73120, 92768, 92864, 93008, 120782, 120792, 120802, 120812, 120822, 123200, 123632, 125264,
     130032]"

definition other_digits :: charset where
  "other_digits = [(178, 179), (185, 185), (4969, 4977), (6618, 6618), (8304, 8304),
     (8308, 8313), (8320, 8329), (9312, 9320), (9332, 9340), (9352, 9360), (9450, 9450),
     (9461, 9469), (9471, 9471), (10102, 10110), (10112, 10120), (10122, 10130),
     (68160, 68163), (69216, 69224), (69714, 69722), (127232, 127242)]"

definition digit_value :: "nat \<Rightarrow> nat option" where
  "digit_value c = map_option (\<lambda>s. c - s) (find (\<lambda>s. s \<le> c \<and> c < s + 10) decimal_starts)"

definition isdecimal :: "pystr \<Rightarrow> bool" where
  "isdecimal s = (s \<noteq> [] \<and> list_all (\<lambda>c. digit_value c \<noteq> None) s)"

definition isdigit :: "pystr \<Rightarrow> bool" where
  "isdigit s = (s \<noteq> [] \<and> list_all (\<lambda>c. digit_value c \<noteq> None \<or> in_charset c other_digits) s)"

text \<open>
  \<open>int(s)\<close> of a string of decimal digits; CPython refuses more than 4300 of them.
\<close>

definition digits_value :: "pystr \<Rightarrow> nat" where
  "digits_value s = foldl (\<lambda>n c. 10 * n + (case digit_value c of None \<Rightarrow> 0 | Some d \<Rightarrow> d)) 0 s"

definition int_of_digits :: "pystr \<Rightarrow> exn + int" where
  "int_of_digits s = (if isdecimal s \<and> length s \<le> 4300 then Inr (int (digits_value s))
     else Inl (ValueError (u ''int'')))"

text \<open>\<open>str(n)\<close>.\<close>

fun str_of_nat :: "nat \<Rightarrow> pystr" where
  "str_of_nat n = (if n < 10 then [48 + n] else str_of_nat (n div 10) @ [48 + n mod 10])"

declare str_of_nat.simps [simp del]

definition str_of_int :: "int \<Rightarrow> pystr" where
  "str_of_int n = (if n < 0 then u ''-'' @ str_of_nat (nat (- n)) else str_of_nat (nat n))"

lemma digit_value_ascii [simp]: "d < 10 \<Longrightarrow> digit_value (48 + d) = Some d"
  by (simp add: digit_value_def decimal_starts_def)

lemma digits_value_snoc:
  "digits_value (s @ [c]) =
     10 * digits_value s + (case digit_value c of None \<Rightarrow> 0 | Some d \<Rightarrow> d)"
  by (simp add: digits_value_def)

lemma str_of_nat_nonempty [simp]: "str_of_nat n \<noteq> []"
  by (subst str_of_nat.simps) simp

lemma digits_value_str_of_nat [simp]: "digits_value (str_of_nat n) = n"
proof (induction n rule: str_of_nat.induct)
  case (1 n)
  show ?case
  proof (cases "n < 10")
    case True
    then show ?thesis by (subst str_of_nat.simps) (simp add: digits_value_def)
  next
    case False
    with 1 show ?thesis by (subst str_of_nat.simps) (simp add: digits_value_snoc)
  qed
qed

lemma str_of_nat_ascii: "c \<in> set (str_of_nat n) \<Longrightarrow> 48 \<le> c \<and> c \<le> 57"
proof (induction n rule: str_of_nat.induct)
  case (1 n)
  show ?case
  proof (cases "n < 10")
    case True
    with 1 show ?thesis by (simp add: str_of_nat.simps [of n])
  next
    case False
    with 1 show ?thesis by (auto simp: str_of_nat.simps [of n])
  qed
qed

lemma digit_value_ascii_char: "48 \<le> c \<Longrightarrow> c \<le> 57 \<Longrightarrow> digit_value c = Some (c - 48)"
  using digit_value_ascii [of "c - 48"] by simp

lemma isdecimal_str_of_nat [simp]: "isdecimal (str_of_nat n)"
  by (auto simp: isdecimal_def list_all_iff digit_value_ascii_char dest: str_of_nat_ascii)

lemma str_of_nat_inject [simp]: "str_of_nat m = str_of_nat n \<longleftrightarrow> m = n"
  by (metis digits_value_str_of_nat)

lemma int_of_digits_str_of_nat [simp]:
  "length (str_of_nat n) \<le> 4300 \<Longrightarrow> int_of_digits (str_of_nat n) = Inr (int n)"
  by (simp add: int_of_digits_def)

section \<open>UTF-8\<close>

text \<open>
  \<open>str.encode("utf-8")\<close>: a lone surrogate has no encoding and raises \<open>UnicodeError\<close>.
\<close>

type_synonym bytes = "8 word list"

definition is_surrogate :: "nat \<Rightarrow> bool" where
  "is_surrogate c = (0xD800 \<le> c \<and> c \<le> 0xDFFF)"

definition byte :: "nat \<Rightarrow> 8 word" where
  "byte n = of_nat n"

lemma unat_byte [simp]: "n < 256 \<Longrightarrow> unat (byte n) = n"
  by (simp add: byte_def unat_of_nat)

definition utf8_char :: "nat \<Rightarrow> bytes" where
  "utf8_char c =
     (if c < 0x80 then [byte c]
      else if c < 0x800 then [byte (0xC0 + c div 64), byte (0x80 + c mod 64)]
      else if c < 0x10000 then
        [byte (0xE0 + c div 4096), byte (0x80 + c div 64 mod 64), byte (0x80 + c mod 64)]
      else [byte (0xF0 + c div 262144), byte (0x80 + c div 4096 mod 64),
        byte (0x80 + c div 64 mod 64), byte (0x80 + c mod 64)])"

definition utf8_encode :: "pystr \<Rightarrow> exn + bytes" where
  "utf8_encode s =
     (if list_ex is_surrogate s then Inl UnicodeError else Inr (concat (map utf8_char s)))"

lemma utf8_char_length: "1 \<le> length (utf8_char c) \<and> length (utf8_char c) \<le> 4"
  by (simp add: utf8_char_def)

lemma utf8_encode_length:
  assumes "utf8_encode s = Inr b"
  shows "length s \<le> length b" and "length b \<le> 4 * length s"
proof -
  have "length s \<le> length (concat (map utf8_char s)) \<and>
      length (concat (map utf8_char s)) \<le> 4 * length s"
  proof (induction s)
    case (Cons c s)
    then show ?case using utf8_char_length [of c] by simp
  qed simp
  with assms show "length s \<le> length b" and "length b \<le> 4 * length s"
    by (auto simp: utf8_encode_def split: if_splits)
qed

lemma utf8_encode_append:
  "utf8_encode (s @ t) = bind_res (utf8_encode s) (\<lambda>a. bind_res (utf8_encode t) (\<lambda>b. Inr (a @ b)))"
  by (simp add: utf8_encode_def)

text \<open>
  \<open>bytes.decode("utf-8")\<close>: shortest form only, no surrogates, at most 0x10FFFF.
\<close>

definition cont :: "8 word \<Rightarrow> bool" where
  "cont b = (0x80 \<le> unat b \<and> unat b \<le> 0xBF)"

fun utf8_decode :: "bytes \<Rightarrow> exn + pystr" where
  "utf8_decode [] = Inr []"
| "utf8_decode (a # r) =
     (if unat a < 0x80 then bind_res (utf8_decode r) (\<lambda>s. Inr (unat a # s))
      else (case r of [] \<Rightarrow> Inl UnicodeError | b # r2 \<Rightarrow>
        if 0xC2 \<le> unat a \<and> unat a \<le> 0xDF \<and> cont b then
          bind_res (utf8_decode r2) (\<lambda>s. Inr (((unat a - 0xC0) * 64 + (unat b - 0x80)) # s))
        else (case r2 of [] \<Rightarrow> Inl UnicodeError | c # r3 \<Rightarrow>
          if 0xE0 \<le> unat a \<and> unat a \<le> 0xEF \<and> cont b \<and> cont c \<and>
             (unat a = 0xE0 \<longrightarrow> 0xA0 \<le> unat b) \<and> (unat a = 0xED \<longrightarrow> unat b \<le> 0x9F) then
            bind_res (utf8_decode r3) (\<lambda>s.
              Inr (((unat a - 0xE0) * 4096 + (unat b - 0x80) * 64 + (unat c - 0x80)) # s))
          else (case r3 of [] \<Rightarrow> Inl UnicodeError | d # r4 \<Rightarrow>
            if 0xF0 \<le> unat a \<and> unat a \<le> 0xF4 \<and> cont b \<and> cont c \<and> cont d \<and>
               (unat a = 0xF0 \<longrightarrow> 0x90 \<le> unat b) \<and> (unat a = 0xF4 \<longrightarrow> unat b \<le> 0x8F) then
              bind_res (utf8_decode r4) (\<lambda>s.
                Inr (((unat a - 0xF0) * 262144 + (unat b - 0x80) * 4096 + (unat c - 0x80) * 64 +
                  (unat d - 0x80)) # s))
            else Inl UnicodeError))))"

definition scalar_value :: "nat \<Rightarrow> bool" where
  "scalar_value c = (c \<le> 0x10FFFF \<and> \<not> is_surrogate c)"

text \<open>Decoding one encoded character, by the number of its bytes.\<close>

lemma utf8_decode2:
  assumes "2 \<le> x" "x < 32" "y < 64"
  shows "utf8_decode (byte (0xC0 + x) # byte (0x80 + y) # r) =
    bind_res (utf8_decode r) (\<lambda>s. Inr ((x * 64 + y) # s))"
  using assms by (simp add: cont_def)

lemma utf8_decode3:
  assumes "x < 16" "y < 64" "z < 64" "x = 0 \<Longrightarrow> 32 \<le> y" "x = 13 \<Longrightarrow> y \<le> 31"
  shows "utf8_decode (byte (0xE0 + x) # byte (0x80 + y) # byte (0x80 + z) # r) =
    bind_res (utf8_decode r) (\<lambda>s. Inr ((x * 4096 + y * 64 + z) # s))"
  using assms by (simp add: cont_def)

lemma utf8_decode4:
  assumes "x \<le> 4" "y < 64" "z < 64" "w < 64" "x = 0 \<Longrightarrow> 16 \<le> y" "x = 4 \<Longrightarrow> y \<le> 15"
  shows "utf8_decode (byte (0xF0 + x) # byte (0x80 + y) # byte (0x80 + z) # byte (0x80 + w) # r) =
    bind_res (utf8_decode r) (\<lambda>s. Inr ((x * 262144 + y * 4096 + z * 64 + w) # s))"
  using assms by (simp add: cont_def)

lemma utf8_decode_char:
  assumes "scalar_value c"
  shows "utf8_decode (utf8_char c @ r) = bind_res (utf8_decode r) (\<lambda>s. Inr (c # s))"
proof -
  define w z y where "w = c mod 64" and "z = c div 64 mod 64" and "y = c div 4096 mod 64"
  have q: "c = c div 64 * 64 + w" "c div 64 = c div 4096 * 64 + z"
    "c div 4096 = c div 262144 * 64 + y"
    using div_mult2_eq [of c 64 64] div_mult2_eq [of c 4096 64] by (simp_all add: w_def z_def y_def)
  have b: "w < 64" "z < 64" "y < 64" by (simp_all add: w_def z_def y_def)
  have c: "c \<le> 0x10FFFF" "c < 0xD800 \<or> 0xDFFF < c"
    using assms by (auto simp: scalar_value_def is_surrogate_def)
  consider "c < 0x80" | "0x80 \<le> c" "c < 0x800" | "0x800 \<le> c" "c < 0x10000" | "0x10000 \<le> c"
    by linarith
  then show ?thesis
  proof cases
    case 1
    then show ?thesis by (simp add: utf8_char_def)
  next
    case 2
    then have "utf8_char c = [byte (0xC0 + c div 64), byte (0x80 + w)]"
      by (simp add: utf8_char_def w_def)
    moreover have "2 \<le> c div 64" "c div 64 < 32" using 2 q(1) b(1) by linarith+
    ultimately show ?thesis
      using utf8_decode2 [OF _ _ b(1), of "c div 64" r] by (simp only: append_Cons append_Nil q(1) [symmetric])
  next
    case 3
    then have "utf8_char c = [byte (0xE0 + c div 4096), byte (0x80 + z), byte (0x80 + w)]"
      by (simp add: utf8_char_def w_def z_def)
    moreover have "c div 4096 < 16" "c div 4096 = 0 \<Longrightarrow> 32 \<le> z" "c div 4096 = 13 \<Longrightarrow> z \<le> 31"
      using 3 q b c by linarith+
    moreover have "c div 4096 * 4096 + z * 64 + w = c" using q by linarith
    ultimately show ?thesis
      using utf8_decode3 [OF _ b(2,1), of "c div 4096" r] by (simp only: append_Cons append_Nil)
  next
    case 4
    then have "utf8_char c = [byte (0xF0 + c div 262144), byte (0x80 + y), byte (0x80 + z), byte (0x80 + w)]"
      by (simp add: utf8_char_def w_def z_def y_def)
    moreover have "c div 262144 \<le> 4" "c div 262144 = 0 \<Longrightarrow> 16 \<le> y" "c div 262144 = 4 \<Longrightarrow> y \<le> 15"
      using 4 q b c by linarith+
    moreover have "c div 262144 * 262144 + y * 4096 + z * 64 + w = c" using q by linarith
    ultimately show ?thesis
      using utf8_decode4 [OF _ b(3,2,1), of "c div 262144" r] by (simp only: append_Cons append_Nil)
  qed
qed

theorem utf8_roundtrip:
  assumes "list_all scalar_value s" and "utf8_encode s = Inr b"
  shows "utf8_decode b = Inr s"
proof -
  have "utf8_decode (concat (map utf8_char s)) = Inr s" using assms(1)
    by (induction s) (simp_all add: utf8_decode_char)
  with assms(2) show ?thesis by (simp add: utf8_encode_def split: if_splits)
qed

end
