(* ===== verification/CivilTime.thy ===== *)
theory CivilTime
  imports PyValue
begin

text \<open>
  UTC civil time as Python's \<open>datetime\<close> has it, as far as the program uses it: the calendar
  rules that \<open>strptime\<close> and the \<open>datetime\<close> constructor enforce, the conversion of seconds
  since the epoch to a civil second, and the text \<open>YYYY-MM-DDTHH:MM:SSZ\<close>.
\<close>

section \<open>Calendar\<close>

record civil =
  year :: nat
  month :: nat
  day :: nat
  hour :: nat
  minute :: nat
  second :: nat

definition leap :: "nat \<Rightarrow> bool" where
  "leap y = (y mod 4 = 0 \<and> (y mod 100 \<noteq> 0 \<or> y mod 400 = 0))"

definition month_lengths :: "nat \<Rightarrow> nat list" where
  "month_lengths y = [31, if leap y then 29 else 28, 31, 30, 31, 30, 31, 31, 30, 31, 30, 31]"

definition days_in_month :: "nat \<Rightarrow> nat \<Rightarrow> nat" where
  "days_in_month y m = month_lengths y ! (m - 1)"

definition year_length :: "nat \<Rightarrow> nat" where
  "year_length y = (if leap y then 366 else 365)"

definition valid_civil :: "civil \<Rightarrow> bool" where
  "valid_civil t = (1 \<le> year t \<and> year t \<le> 9999 \<and> 1 \<le> month t \<and> month t \<le> 12 \<and>
     1 \<le> day t \<and> day t \<le> days_in_month (year t) (month t) \<and>
     hour t \<le> 23 \<and> minute t \<le> 59 \<and> second t \<le> 59)"

section \<open>From a day number\<close>

text \<open>
  \<open>ord2ymd\<close> takes the number of days since 1 January of year 1, as the standard library
  does: 400-year, 100-year, 4-year and single-year cycles, then the month.
\<close>

fun month_day :: "nat \<Rightarrow> nat list \<Rightarrow> nat \<Rightarrow> nat \<times> nat" where
  "month_day m [] d = (m, d + 1)"
| "month_day m (l # ls) d = (if d < l then (m, d + 1) else month_day (m + 1) ls (d - l))"

definition year_and_rest :: "nat \<Rightarrow> nat \<times> nat" where
  "year_and_rest n =
     (let n400 = n div 146097; r400 = n mod 146097;
          n100 = min 3 (r400 div 36524); r100 = r400 - n100 * 36524;
          n4 = r100 div 1461; r4 = r100 mod 1461;
          n1 = min 3 (r4 div 365); r1 = r4 - n1 * 365
      in (400 * n400 + 100 * n100 + 4 * n4 + n1 + 1, r1))"

definition ord2ymd :: "nat \<Rightarrow> nat \<times> nat \<times> nat" where
  "ord2ymd n = (case year_and_rest n of (y, r) \<Rightarrow>
     (case month_day 1 (month_lengths y) r of (m, d) \<Rightarrow> (y, m, d)))"

text \<open>1 January 1970 is day 719162. The \<open>datetime\<close> type ends with the year 9999.\<close>

definition civil_of_epoch :: "int \<Rightarrow> civil option" where
  "civil_of_epoch t =
     (let n = 719162 + t div 86400; s = nat (t mod 86400)
      in if n < 0 \<or> n \<ge> 3652059 then None
         else (case ord2ymd (nat n) of (y, m, d) \<Rightarrow>
           Some \<lparr>year = y, month = m, day = d,
                 hour = s div 3600, minute = s mod 3600 div 60, second = s mod 60\<rparr>))"

lemma sum_month_lengths: "sum_list (month_lengths y) = year_length y"
  by (simp add: month_lengths_def year_length_def)

lemma month_day_bounds:
  "d < sum_list ls \<Longrightarrow> month_day m ls d = (m', d') \<Longrightarrow>
     m \<le> m' \<and> m' < m + length ls \<and> 1 \<le> d' \<and> d' \<le> ls ! (m' - m)"
proof (induction ls arbitrary: m d)
  case Nil
  then show ?case by simp
next
  case (Cons l ls)
  show ?case
  proof (cases "d < l")
    case True
    with Cons.prems show ?thesis by auto
  next
    case False
    with Cons.prems have "d - l < sum_list ls" and "month_day (m + 1) ls (d - l) = (m', d')"
      by auto
    from Cons.IH [OF this] have IH: "m + 1 \<le> m'" "m' < m + 1 + length ls" "1 \<le> d'"
      "d' \<le> ls ! (m' - (m + 1))" by auto
    then have "m' - m = Suc (m' - (m + 1))" by arith
    with IH show ?thesis by simp
  qed
qed

lemma leap_cycle:
  assumes "b \<le> 3" and "c < 25" and "e \<le> 3"
  shows "leap (400 * a + 100 * b + 4 * c + e + 1) \<longleftrightarrow> e = 3 \<and> (c = 24 \<longrightarrow> b = 3)"
proof -
  let ?y = "400 * a + 100 * b + 4 * c + e + 1"
  have e: "e = 0 \<or> e = 1 \<or> e = 2 \<or> e = 3" and b: "b = 0 \<or> b = 1 \<or> b = 2 \<or> b = 3"
    using assms by auto
  have "?y = 4 * (100 * a + 25 * b + c) + (e + 1)" by simp
  then have "?y mod 4 = (e + 1) mod 4" by (metis mod_mult_self4)
  moreover have "(e + 1) mod 4 = 0 \<longleftrightarrow> e = 3" using assms(3) by presburger
  ultimately have m4: "?y mod 4 = 0 \<longleftrightarrow> e = 3" by simp
  have "?y = 100 * (4 * a + b) + (4 * c + e + 1)" by simp
  then have "?y mod 100 = 4 * c + e + 1" if "c < 24 \<or> e < 3"
  proof -
    have "4 * c + e + 1 < 100" using that assms(2,3) by linarith
    with \<open>?y = 100 * (4 * a + b) + (4 * c + e + 1)\<close> show ?thesis
      by (simp only: mod_mult_self4 mod_less)
  qed
  then have m100: "?y mod 100 = 0 \<longleftrightarrow> c = 24" if "e = 3"
    using that assms(2) by (cases "c = 24") auto
  have "?y = 400 * a + (100 * b + 100)" if "e = 3" "c = 24" using that by simp
  then have "?y mod 400 = (100 * b + 100) mod 400" if "e = 3" "c = 24"
    using that by (simp only: mod_mult_self4)
  then have m400: "?y mod 400 = 0 \<longleftrightarrow> b = 3" if "e = 3" "c = 24" using that b by auto
  show ?thesis
    unfolding leap_def using m4 m100 m400 by (cases "e = 3"; cases "c = 24") auto
qed

text \<open>A division that is cut off at 3, as in both \<open>min 3\<close> steps of \<^const>\<open>year_and_rest\<close>.\<close>

lemma min_div_cycle:
  fixes x k q b :: nat
  assumes "0 < k" and "x \<le> 4 * k" and "b = min 3 (x div k)" and "q = x - b * k"
  shows "b \<le> 3 \<and> q \<le> k \<and> (q = k \<longrightarrow> b = 3) \<and> x = b * k + q"
proof -
  have x: "x = x div k * k + x mod k" "x mod k < k" using assms(1) by simp_all
  show ?thesis
  proof (cases "x div k \<le> 3")
    case True
    with assms(3) have "b = x div k" by simp
    with x assms(4) have "q = x mod k" by (metis add_diff_cancel_left')
    with \<open>b = x div k\<close> True x show ?thesis by auto
  next
    case False
    with assms(3) have b: "b = 3" by simp
    have "3 * k \<le> x div k * k" using False by (intro mult_le_mono1) simp
    with x have "3 * k \<le> x" by linarith
    with b assms(2,4) show ?thesis by auto
  qed
qed

lemma year_and_rest_cycles:
  assumes "year_and_rest n = (y, r)"
  obtains a b c e where "b \<le> 3" and "c < 25" and "e \<le> 3" and "r \<le> 365"
    and "r = 365 \<Longrightarrow> e = 3 \<and> (c = 24 \<longrightarrow> b = 3)"
    and "n = 146097 * a + 36524 * b + 1461 * c + 365 * e + r"
    and "y = 400 * a + 100 * b + 4 * c + e + 1"
proof -
  define a where "a = n div 146097"
  define n4 where "n4 = n mod 146097"
  define b where "b = min 3 (n4 div 36524)"
  define rb where "rb = n4 - b * 36524"
  define c where "c = rb div 1461"
  define rc where "rc = rb mod 1461"
  define e where "e = min 3 (rc div 365)"
  have y: "y = 400 * a + 100 * b + 4 * c + e + 1" and r: "r = rc - e * 365"
    using assms unfolding year_and_rest_def Let_def prod.inject a_def n4_def b_def rb_def c_def rc_def e_def
    by (metis, metis)
  have n4: "n = 146097 * a + n4" "n4 < 146097" by (simp_all add: a_def n4_def)
  have b: "b \<le> 3 \<and> rb \<le> 36524 \<and> (rb = 36524 \<longrightarrow> b = 3) \<and> n4 = b * 36524 + rb"
    using n4(2) by (intro min_div_cycle) (simp_all add: b_def rb_def)
  have c: "rb = c * 1461 + rc" "rc < 1461" by (simp_all add: c_def rc_def)
  have e: "e \<le> 3 \<and> r \<le> 365 \<and> (r = 365 \<longrightarrow> e = 3) \<and> rc = e * 365 + r"
    using c(2) by (intro min_div_cycle) (simp_all add: e_def r)
  have "c < 25" using b c by linarith
  moreover have "e = 3 \<and> (c = 24 \<longrightarrow> b = 3)" if "r = 365"
  proof -
    have "e = 3" "rc = 1460" using that e by auto
    moreover have "rb = 36524" if "c = 24" using that c b \<open>rc = 1460\<close> by linarith
    ultimately show ?thesis using b by blast
  qed
  moreover have "n = 146097 * a + 36524 * b + 1461 * c + 365 * e + r"
    using n4(1) b c(1) e by linarith
  ultimately show thesis using b e y that by blast
qed

lemma year_rest_bound:
  assumes "year_and_rest n = (y, r)"
  shows "1 \<le> y" and "r < year_length y"
proof -
  obtain a b c e where cyc: "b \<le> 3" "c < 25" "e \<le> 3" "r \<le> 365"
    "r = 365 \<Longrightarrow> e = 3 \<and> (c = 24 \<longrightarrow> b = 3)" and y: "y = 400 * a + 100 * b + 4 * c + e + 1"
    using year_and_rest_cycles [OF assms] by metis
  show "1 \<le> y" by (simp add: y)
  have "leap y \<longleftrightarrow> e = 3 \<and> (c = 24 \<longrightarrow> b = 3)"
    unfolding y using cyc(1-3) by (rule leap_cycle)
  then show "r < year_length y"
    using cyc(4,5) by (cases "r = 365") (auto simp: year_length_def)
qed

lemma ord2ymd_valid:
  assumes "ord2ymd n = (y, m, d)"
  shows "1 \<le> y \<and> 1 \<le> m \<and> m \<le> 12 \<and> 1 \<le> d \<and> d \<le> days_in_month y m"
proof -
  obtain r where r: "year_and_rest n = (y, r)" and md: "month_day 1 (month_lengths y) r = (m, d)"
    using assms by (auto simp: ord2ymd_def split: prod.splits)
  have "r < sum_list (month_lengths y)"
    using year_rest_bound(2) [OF r] by (simp add: sum_month_lengths)
  from month_day_bounds [OF this md] year_rest_bound(1) [OF r]
  show ?thesis by (simp add: days_in_month_def month_lengths_def)
qed

lemma ord2ymd_year:
  assumes "n < 3652059"
  shows "fst (ord2ymd n) \<le> 9999"
proof -
  obtain y r where yr: "year_and_rest n = (y, r)" by (cases "year_and_rest n")
  then obtain a b c e where "b \<le> 3" "c < 25" "e \<le> 3"
    "n = 146097 * a + 36524 * b + 1461 * c + 365 * e + r"
    "y = 400 * a + 100 * b + 4 * c + e + 1" by (rule year_and_rest_cycles)
  with assms have "y \<le> 9999" by linarith
  with yr show ?thesis by (simp add: ord2ymd_def split: prod.splits)
qed

lemma civil_of_epoch_valid:
  assumes "civil_of_epoch t = Some c"
  shows "valid_civil c"
proof -
  define n where "n = nat (719162 + t div 86400)"
  define s where "s = nat (t mod 86400)"
  obtain y m d where ymd: "ord2ymd n = (y, m, d)" by (cases "ord2ymd n")
  have n: "n < 3652059" and c: "c = \<lparr>year = y, month = m, day = d,
      hour = s div 3600, minute = s mod 3600 div 60, second = s mod 60\<rparr>"
    using assms ymd
    by (auto simp: civil_of_epoch_def Let_def n_def s_def split: if_splits)
  have "y \<le> 9999" using ord2ymd_year [OF n] ymd by simp
  moreover have "s < 86400" by (simp add: s_def)
  then have "s div 3600 \<le> 23" "s mod 3600 div 60 \<le> 59" "s mod 60 \<le> 59" by auto
  ultimately show ?thesis
    using ord2ymd_valid [OF ymd] by (simp add: c valid_civil_def)
qed

section \<open>Text\<close>

text \<open>Zero-padded decimal fields, \<open>%02d\<close> and \<open>%04d\<close>.\<close>

definition pad2 :: "nat \<Rightarrow> pystr" where
  "pad2 n = [48 + n div 10 mod 10, 48 + n mod 10]"

definition pad4 :: "nat \<Rightarrow> pystr" where
  "pad4 n = [48 + n div 1000 mod 10, 48 + n div 100 mod 10, 48 + n div 10 mod 10, 48 + n mod 10]"

definition iso_second :: "civil \<Rightarrow> pystr" where
  "iso_second t = pad4 (year t) @ u ''-'' @ pad2 (month t) @ u ''-'' @ pad2 (day t) @ u ''T'' @
     pad2 (hour t) @ u '':'' @ pad2 (minute t) @ u '':'' @ pad2 (second t) @ u ''Z''"

definition num2 :: "pystr \<Rightarrow> nat \<Rightarrow> nat" where
  "num2 s i = 10 * (s ! i - 48) + (s ! (i + 1) - 48)"

text \<open>Reading the fixed columns of a string of that shape back.\<close>

definition civil_of_iso :: "pystr \<Rightarrow> civil" where
  "civil_of_iso s = \<lparr>year = 100 * num2 s 0 + num2 s 2, month = num2 s 5, day = num2 s 8,
     hour = num2 s 11, minute = num2 s 14, second = num2 s 17\<rparr>"

lemma u_chars [simp]:
  "u ''-'' = [45]" "u '':'' = [58]" "u ''T'' = [84]" "u ''Z'' = [90]"
  by (simp_all add: u_def)

lemma pad2_digits: "n \<le> 99 \<Longrightarrow> 10 * (n div 10 mod 10) + n mod 10 = (n::nat)"
  by simp

lemma pad4_digits:
  assumes "n \<le> (9999::nat)"
  shows "1000 * (n div 1000 mod 10) + 100 * (n div 100 mod 10) + 10 * (n div 10 mod 10) + n mod 10 = n"
proof -
  have "n div 1000 mod 10 = n div 1000" using assms by simp
  moreover have "n div 100 = n div 1000 * 10 + n div 100 mod 10"
    using div_mult2_eq [of n 100 10] by simp
  moreover have "n div 10 = n div 100 * 10 + n div 10 mod 10"
    using div_mult2_eq [of n 10 10] by simp
  moreover have "n = n div 10 * 10 + n mod 10" by simp
  ultimately show ?thesis by linarith
qed

lemma civil_of_iso_second:
  assumes "valid_civil t"
  shows "civil_of_iso (iso_second t) = t"
proof -
  have "year t \<le> 9999" "month t \<le> 12" "hour t \<le> 23" "minute t \<le> 59" "second t \<le> 59"
    using assms by (auto simp: valid_civil_def)
  moreover have "day t \<le> 31"
  proof -
    have "\<forall>l \<in> set (month_lengths (year t)). l \<le> 31" by (simp add: month_lengths_def)
    moreover have "month t - 1 < length (month_lengths (year t))"
      using assms by (auto simp: valid_civil_def month_lengths_def)
    ultimately have "days_in_month (year t) (month t) \<le> 31"
      unfolding days_in_month_def by (meson nth_mem)
    then show ?thesis using assms by (auto simp: valid_civil_def)
  qed
  ultimately show ?thesis
    using pad2_digits [of "month t"] pad2_digits [of "day t"] pad2_digits [of "hour t"]
      pad2_digits [of "minute t"] pad2_digits [of "second t"] pad4_digits [of "year t"]
    by (cases t) (simp add: civil_of_iso_def iso_second_def pad2_def pad4_def num2_def)
qed

end
