(* ===== verification/Sha256.thy ===== *)
theory Sha256
  imports PyValue
begin

text \<open>
  SHA-256 (FIPS 180-4), the one function of \<open>hashlib\<close> the ledger uses, on 32-bit words
  with wrap-around addition, and the lower-case hexadecimal text of its result.
\<close>

unbundle bit_operations_syntax

section \<open>Constants\<close>

definition sha_k :: "32 word list" where
  "sha_k = [ 1116352408, 1899447441, 3049323471, 3921009573, 961987163, 1508970993, 2453635748,
    2870763221, 3624381080, 310598401, 607225278, 1426881987, 1925078388, 2162078206,
    2614888103, 3248222580, 3835390401, 4022224774, 264347078, 604807628, 770255983, 1249150122,
    1555081692, 1996064986, 2554220882, 2821834349, 2952996808, 3210313671, 3336571891,
    3584528711, 113926993, 338241895, 666307205, 773529912, 1294757372, 1396182291, 1695183700,
    1986661051, 2177026350, 2456956037, 2730485921, 2820302411, 3259730800, 3345764771,
    3516065817, 3600352804, 4094571909, 275423344, 430227734, 506948616, 659060556, 883997877,
    958139571, 1322822218, 1537002063, 1747873779, 1955562222, 2024104815, 2227730452,
    2361852424, 2428436474, 2756734187, 3204031479, 3329325298]"

definition sha_h0 :: "32 word list" where
  "sha_h0 = [1779033703, 3144134277, 1013904242, 2773480762, 1359893119, 2600822924, 528734635,
    1541459225]"

section \<open>Compression\<close>

definition rotr32 :: "nat \<Rightarrow> 32 word \<Rightarrow> 32 word" where
  "rotr32 n w = drop_bit n w OR push_bit (32 - n) w"

definition small_sigma0 :: "32 word \<Rightarrow> 32 word" where
  "small_sigma0 w = rotr32 7 w XOR rotr32 18 w XOR drop_bit 3 w"

definition small_sigma1 :: "32 word \<Rightarrow> 32 word" where
  "small_sigma1 w = rotr32 17 w XOR rotr32 19 w XOR drop_bit 10 w"

definition big_sigma0 :: "32 word \<Rightarrow> 32 word" where
  "big_sigma0 w = rotr32 2 w XOR rotr32 13 w XOR rotr32 22 w"

definition big_sigma1 :: "32 word \<Rightarrow> 32 word" where
  "big_sigma1 w = rotr32 6 w XOR rotr32 11 w XOR rotr32 25 w"

text \<open>The message schedule, kept in reverse: the newest word is the head.\<close>

fun extend_schedule :: "nat \<Rightarrow> 32 word list \<Rightarrow> 32 word list" where
  "extend_schedule 0 ws = ws"
| "extend_schedule (Suc n) ws =
     extend_schedule n
       ((small_sigma1 (ws ! 1) + ws ! 6 + small_sigma0 (ws ! 14) + ws ! 15) # ws)"

definition schedule :: "32 word list \<Rightarrow> 32 word list" where
  "schedule block = rev (extend_schedule 48 (rev block))"

type_synonym sha_regs =
  "32 word \<times> 32 word \<times> 32 word \<times> 32 word \<times> 32 word \<times> 32 word \<times> 32 word \<times> 32 word"

fun sha_round :: "sha_regs \<Rightarrow> 32 word \<times> 32 word \<Rightarrow> sha_regs" where
  "sha_round (a, b, c, d, e, f, g, h) (k, w) =
     (let t1 = h + big_sigma1 e + ((e AND f) XOR (NOT e AND g)) + k + w;
          t2 = big_sigma0 a + ((a AND b) XOR (a AND c) XOR (b AND c))
      in (t1 + t2, a, b, c, d + t1, e, f, g))"

fun regs_of :: "32 word list \<Rightarrow> sha_regs" where
  "regs_of [a, b, c, d, e, f, g, h] = (a, b, c, d, e, f, g, h)"
| "regs_of _ = (0, 0, 0, 0, 0, 0, 0, 0)"

fun list_of_regs :: "sha_regs \<Rightarrow> 32 word list" where
  "list_of_regs (a, b, c, d, e, f, g, h) = [a, b, c, d, e, f, g, h]"

definition compress :: "32 word list \<Rightarrow> 32 word list \<Rightarrow> 32 word list" where
  "compress hs block =
     map2 (+) hs (list_of_regs (foldl sha_round (regs_of hs) (zip sha_k (schedule block))))"

section \<open>Padding and digest\<close>

definition be_bytes :: "nat \<Rightarrow> nat \<Rightarrow> bytes" where
  "be_bytes k n = rev (map (\<lambda>i. of_nat (n div 256 ^ i mod 256)) [0..<k])"

definition sha_pad :: "bytes \<Rightarrow> bytes" where
  "sha_pad m = m @ [0x80] @ replicate ((119 - length m mod 64) mod 64) 0 @ be_bytes 8 (8 * length m)"

fun be_words :: "bytes \<Rightarrow> 32 word list" where
  "be_words (a # b # c # d # r) =
     (push_bit 24 (ucast a) OR push_bit 16 (ucast b) OR push_bit 8 (ucast c) OR ucast d) # be_words r"
| "be_words _ = []"

fun blocks16 :: "nat \<Rightarrow> 'a list \<Rightarrow> 'a list list" where
  "blocks16 0 ws = []"
| "blocks16 (Suc n) ws = take 16 ws # blocks16 n (drop 16 ws)"

definition sha256 :: "bytes \<Rightarrow> 32 word list" where
  "sha256 m = (let ws = be_words (sha_pad m)
     in foldl compress sha_h0 (blocks16 (length ws div 16) ws))"

definition hex_char :: "nat \<Rightarrow> nat" where
  "hex_char d = (if d < 10 then 48 + d else 87 + d)"

definition hex_word :: "32 word \<Rightarrow> pystr" where
  "hex_word w = map (\<lambda>i. hex_char (unat (drop_bit (4 * i) w AND 0xF))) (rev [0..<8])"

definition hexdigest :: "32 word list \<Rightarrow> pystr" where
  "hexdigest ws = concat (map hex_word ws)"

section \<open>Shape of the digest\<close>

lemma length_list_of_regs [simp]: "length (list_of_regs r) = 8"
  by (cases r rule: list_of_regs.cases) simp

lemma length_compress [simp]: "length hs = 8 \<Longrightarrow> length (compress hs b) = 8"
  by (simp add: compress_def)

lemma length_foldl_compress: "length hs = 8 \<Longrightarrow> length (foldl compress hs bs) = 8"
  by (induction bs arbitrary: hs) simp_all

lemma length_sha256 [simp]: "length (sha256 m) = 8"
  by (simp add: sha256_def Let_def length_foldl_compress sha_h0_def)

lemma length_hex_word [simp]: "length (hex_word w) = 8"
  by (simp add: hex_word_def)

lemma nibble_bound: "unat ((w :: 32 word) AND 0xF) < 16"
proof -
  have "unat (w AND 0xF) \<le> unat (0xF :: 32 word)"
    by (rule word_and_le1 [THEN word_le_nat_alt [THEN iffD1]])
  then show ?thesis by simp
qed

lemma hex_char_range: "d < 16 \<Longrightarrow> in_charset (hex_char d) [(48, 57), (97, 102)]"
  by (auto simp: hex_char_def in_charset_def)

lemma hex_word_chars: "c \<in> set (hex_word w) \<Longrightarrow> in_charset c [(48, 57), (97, 102)]"
  using hex_char_range [OF nibble_bound] by (auto simp: hex_word_def)

lemma hexdigest_chars: "c \<in> set (hexdigest ws) \<Longrightarrow> in_charset c [(48, 57), (97, 102)]"
  by (auto simp: hexdigest_def dest: hex_word_chars)

lemma length_hexdigest: "length (hexdigest ws) = 8 * length ws"
  by (induction ws) (simp_all add: hexdigest_def)

end
