(* ===== verification/LedgerText.thy ===== *)
theory LedgerText
  imports CivilTime Sha256
begin

text \<open>
  The text-level part of \<open>lib/task_ledger.py\<close>: the identifier patterns, the constant sets,
  the display filter, the deadline check, the derivation of task ids, and the two predicates
  on records (\<open>_text\<close>, \<open>_caller_matches\<close>) that the fold and the decision engine share.
\<close>

section \<open>Patterns\<close>

abbreviation "DIGIT \<equiv> [(48, 57)]"
abbreviation "ALNUM \<equiv> [(97, 122), (48, 57)]"
abbreviation "HEX \<equiv> [(48, 57), (97, 102)]"

definition RUN_RE :: re where
  "RUN_RE = Seq (Lit (u ''r-'')) (Rep HEX 12 12)"

definition TASK_RE :: re where
  "TASK_RE = Seq (Lit (u ''t-'')) (Rep HEX 12 12)"

definition TOKEN_RE :: re where
  "TOKEN_RE = Seq (Plus (Cls ALNUM)) (Star (Seq (Lit (u ''-'')) (Plus (Cls ALNUM))))"

definition UID_RE :: re where
  "UID_RE = Seq (Plus (Cls ALNUM)) (Plus (Seq (Lit (u ''-'')) (Plus (Cls ALNUM))))"

fun Seqs :: "re list \<Rightarrow> re" where
  "Seqs [] = Eps"
| "Seqs [r] = r"
| "Seqs (r # rs) = Seq r (Seqs rs)"

definition DEADLINE_RE :: re where
  "DEADLINE_RE = Seqs [Rep DIGIT 4 4, Lit (u ''-''), Rep DIGIT 2 2, Lit (u ''-''), Rep DIGIT 2 2,
     Lit (u ''T''), Rep DIGIT 2 2, Lit (u '':''), Rep DIGIT 2 2, Lit (u '':''), Rep DIGIT 2 2,
     Lit (u ''Z'')]"

definition INTENT_VIA_RE :: re where
  "INTENT_VIA_RE = Seq (Lit (u ''intent:'')) TOKEN_RE"

definition CTL_VIA_RE :: re where
  "CTL_VIA_RE = Seq (Lit (u ''ctl:'')) (Plus (Cls DIGIT))"

text \<open>Every id the patterns accept is plain ASCII of a known alphabet; a uid is also a token.\<close>

lemma uid_is_token: "fullmatch UID_RE s \<Longrightarrow> fullmatch TOKEN_RE s"
proof -
  let ?A = "re_lang (Seq (Lit (u ''-'')) (Plus (Cls ALNUM)))" and ?P = "re_lang (Plus (Cls ALNUM))"
  have "seq_lang ?A (star_lang ?A) \<subseteq> star_lang ?A"
    unfolding seq_lang_def by (auto intro: star_more)
  then have "seq_lang ?P (seq_lang ?A (star_lang ?A)) \<subseteq> seq_lang ?P (star_lang ?A)"
    by (rule seq_lang_mono)
  moreover assume "fullmatch UID_RE s"
  then have "s \<in> seq_lang ?P (seq_lang ?A (star_lang ?A))"
    by (simp only: fullmatch_iff UID_RE_def Plus_def [of "Seq _ _"] re_lang.simps(4,6))
  ultimately have "s \<in> seq_lang ?P (star_lang ?A)" by blast
  then show "fullmatch TOKEN_RE s"
    by (simp only: fullmatch_iff TOKEN_RE_def re_lang.simps(4,6))
qed

lemma token_chars: "fullmatch TOKEN_RE s \<Longrightarrow> c \<in> set s \<Longrightarrow> c \<in> {45} \<union> {48..57} \<union> {97..122}"
  by (drule (1) fullmatch_chars) (auto simp: TOKEN_RE_def Plus_def Cls_def in_charset_def)

lemma token_nonempty: "fullmatch TOKEN_RE s \<Longrightarrow> s \<noteq> []"
  by (auto simp: TOKEN_RE_def Plus_def Cls_def)

lemma hex_id_lang:
  "fullmatch (Seq (Lit p) (Rep HEX 12 12)) s \<longleftrightarrow>
     (\<exists>h. s = p @ h \<and> length h = 12 \<and> (\<forall>c \<in> set h. in_charset c HEX))"
  by (auto simp: fullmatch_iff seq_lang_def)

section \<open>Constant sets\<close>

datatype task_state =
  QUEUED | ASSIGNED | IN_PROGRESS | BLOCKED | REVIEW | DONE | FAILED | CANCELLED

definition TERMINAL :: "task_state list" where
  "TERMINAL = [DONE, FAILED, CANCELLED]"

definition NONTERMINAL :: "task_state list" where
  "NONTERMINAL = [QUEUED, ASSIGNED, IN_PROGRESS, BLOCKED, REVIEW]"

definition OPEN_LIMIT :: "task_state list" where
  "OPEN_LIMIT = [QUEUED, ASSIGNED]"

definition ENGINE_REASONS :: "string list" where
  "ENGINE_REASONS = [''turn_failed'', ''turn_budget'', ''no_report'']"

datatype run_state = RQUEUED | RRUNNING | RBLOCKED | RCOMPLETED | RFAILED | RCANCELLED

definition CLOSED_RUN :: "run_state list" where
  "CLOSED_RUN = [RCOMPLETED, RFAILED, RCANCELLED]"

datatype event_kind =
    Run_Requested | Run_Started | Run_Closed
  | Task_Created | Task_Started | Task_Reported | Task_Cancelled | Task_Reassigned
  | Task_Reopened | Task_Overdue | Task_Rejected | Task_Review_Passed | Task_Review_Failed

definition EVENT_TYPES :: "(event_kind \<times> string) list" where
  "EVENT_TYPES = [(Run_Requested, ''run.requested''), (Run_Started, ''run.started''),
     (Run_Closed, ''run.closed''), (Task_Created, ''task.created''),
     (Task_Started, ''task.started''), (Task_Reported, ''task.reported''),
     (Task_Cancelled, ''task.cancelled''), (Task_Reassigned, ''task.reassigned''),
     (Task_Reopened, ''task.reopened''), (Task_Overdue, ''task.overdue''),
     (Task_Rejected, ''task.rejected''), (Task_Review_Passed, ''task.review_passed''),
     (Task_Review_Failed, ''task.review_failed'')]"

definition kind_name :: "event_kind \<Rightarrow> string" where
  "kind_name k = (case map_of EVENT_TYPES k of Some s \<Rightarrow> s | None \<Rightarrow> '''')"

definition kind_of :: "pystr \<Rightarrow> event_kind option" where
  "kind_of s = map_option fst (find (\<lambda>(k, n). u n = s) EVENT_TYPES)"

text \<open>\<open>kind.startswith("task.")\<close>.\<close>

definition is_task_kind :: "event_kind \<Rightarrow> bool" where
  "is_task_kind k = startswith (kind_name k) ''task.''"

lemma kind_of_name [simp]: "kind_of (u (kind_name k)) = Some k"
  by (cases k) (simp_all add: kind_of_def kind_name_def EVENT_TYPES_def)

lemma kind_of_Some: "kind_of s = Some k \<longleftrightarrow> s = u (kind_name k)"
proof
  assume "kind_of s = Some k"
  then show "s = u (kind_name k)"
    by (auto simp: kind_of_def kind_name_def EVENT_TYPES_def split: if_splits)
qed simp

lemma terminal_iff: "s \<in> set TERMINAL \<longleftrightarrow> s \<notin> set NONTERMINAL"
  by (cases s) (auto simp: TERMINAL_def NONTERMINAL_def)

lemma state_set_simps [simp]:
  "s \<in> set TERMINAL \<longleftrightarrow> s = DONE \<or> s = FAILED \<or> s = CANCELLED"
  "s \<in> set OPEN_LIMIT \<longleftrightarrow> s = QUEUED \<or> s = ASSIGNED"
  "r \<in> set CLOSED_RUN \<longleftrightarrow> r = RCOMPLETED \<or> r = RFAILED \<or> r = RCANCELLED"
  by (simp_all add: TERMINAL_def OPEN_LIMIT_def CLOSED_RUN_def)

lemma nonterminal_iff: "s \<in> set NONTERMINAL \<longleftrightarrow> s \<noteq> DONE \<and> s \<noteq> FAILED \<and> s \<noteq> CANCELLED"
  by (cases s) (simp_all add: NONTERMINAL_def)

section \<open>The display filter\<close>

definition DISPLAY_BLOCK_RANGES :: charset where
  "DISPLAY_BLOCK_RANGES = [
    (0x0000, 0x001F), (0x007F, 0x009F), (0x00AD, 0x00AD),
    (0x034F, 0x034F),
    (0x0600, 0x0605), (0x061C, 0x061C), (0x06DD, 0x06DD),
    (0x070F, 0x070F), (0x0890, 0x0891), (0x08E2, 0x08E2),
    (0x115F, 0x1160), (0x17B4, 0x17B5), (0x180E, 0x180E),
    (0x200B, 0x200F), (0x2028, 0x202E),
    (0x2060, 0x2064), (0x2066, 0x206F), (0xD800, 0xDFFF),
    (0xE000, 0xF8FF), (0xFE00, 0xFE0F), (0xFEFF, 0xFEFF),
    (0x3164, 0x3164), (0xFFA0, 0xFFA0), (0xFFF9, 0xFFFB),
    (0x110BD, 0x110BD), (0x110CD, 0x110CD), (0x13430, 0x1343F),
    (0x1BCA0, 0x1BCAF), (0x1D173, 0x1D17A),
    (0xF0000, 0xFFFFD), (0x100000, 0x10FFFD),
    (0xE0000, 0xE007F), (0xE0100, 0xE01EF)]"

fun safe_display_text :: "pystr \<Rightarrow> bool" where
  "safe_display_text [] = True"
| "safe_display_text (point # rest) =
     (if in_charset point DISPLAY_BLOCK_RANGES then False
      else if (0xFDD0 \<le> point \<and> point \<le> 0xFDEF) \<or>
              point mod 0x10000 = 0xFFFE \<or> point mod 0x10000 = 0xFFFF then False
      else safe_display_text rest)"

definition safe_point :: "nat \<Rightarrow> bool" where
  "safe_point c = (\<not> in_charset c DISPLAY_BLOCK_RANGES \<and> \<not> (0xFDD0 \<le> c \<and> c \<le> 0xFDEF) \<and>
     c mod 0x10000 \<noteq> 0xFFFE \<and> c mod 0x10000 \<noteq> 0xFFFF)"

lemma safe_display_text_iff: "safe_display_text s \<longleftrightarrow> (\<forall>c \<in> set s. safe_point c)"
  by (induction s) (auto simp: safe_point_def)

lemma safe_point_facts:
  "safe_point c \<Longrightarrow> 0x20 \<le> c \<and> \<not> is_surrogate c"
  by (auto simp: safe_point_def DISPLAY_BLOCK_RANGES_def in_charset_def is_surrogate_def)

lemma safe_display_text_append [simp]:
  "safe_display_text (s @ t) \<longleftrightarrow> safe_display_text s \<and> safe_display_text t"
  by (auto simp: safe_display_text_iff)

text \<open>Filtered text is one line without control characters, and it can be encoded.\<close>

lemma safe_display_text_line:
  assumes "safe_display_text s"
  shows "0 \<notin> set s \<and> 10 \<notin> set s \<and> 13 \<notin> set s" and "\<exists>b. utf8_encode s = Inr b"
  using assms safe_point_facts
  by (force simp: safe_display_text_iff utf8_encode_def list_ex_iff)+

section \<open>Deadlines\<close>

text \<open>
  \<open>strptime\<close> on a string of that shape succeeds on the calendar seconds the \<open>datetime\<close> type
  can hold (its \<open>%S\<close> also accepts 60 and 61, which the constructor then rejects).
\<close>

definition valid_deadline :: "pyval \<Rightarrow> bool" where
  "valid_deadline v = (case v of
       PStr s \<Rightarrow> fullmatch DEADLINE_RE s \<and> valid_civil (civil_of_iso s)
     | _ \<Rightarrow> False)"

section \<open>Task ids\<close>

definition task_id :: "pystr \<Rightarrow> int \<Rightarrow> exn + pystr" where
  "task_id causation_id intent_n =
     bind_res (utf8_encode (causation_id @ u '':'' @ str_of_int intent_n))
       (\<lambda>data. Inr (u ''t-'' @ take 12 (hexdigest (sha256 data))))"

section \<open>Text fields and callers\<close>

text \<open>\<open>_text\<close>: \<open>Inr None\<close> only for an optional field that is \<open>None\<close>.\<close>

definition text_field :: "pyval \<Rightarrow> string \<Rightarrow> bool \<Rightarrow> exn + pystr option" where
  "text_field v name optional =
     (if v = PNone \<and> optional then Inr None
      else case v of
        PStr s \<Rightarrow> if 0 \<in> set s \<or> 13 \<in> set s \<or> 10 \<in> set s
          then Inl (LedgerError (u ''invalid '' @ u name)) else Inr (Some s)
      | _ \<Rightarrow> Inl (LedgerError (u ''invalid '' @ u name)))"

text \<open>
  \<open>_caller_matches\<close> reads the actor and the payload of a record; its callers pass records
  whose payload is a dictionary.
\<close>

definition caller_matches :: "pyval \<Rightarrow> pyval \<Rightarrow> pydict \<Rightarrow> bool" where
  "caller_matches actor_type actor_id payload =
     (let via = dget payload ''via''; requester = dget payload ''requester'' in
      if dget payload ''caller'' \<noteq> PStr (u ''root:root'') then False
      else if actor_type = PStr (u ''service'') then
        is_str actor_id \<and> startswith (str_or_empty actor_id) (u ''supervisor:'') \<and>
        via = PNone \<and> requester = PNone
      else if actor_type = PStr (u ''agent'') then
        is_str via \<and> fullmatch INTENT_VIA_RE (str_or_empty via) \<and> requester = PNone
      else if actor_type = PStr (u ''human'') \<and> is_str via \<and> fullmatch CTL_VIA_RE (str_or_empty via) then
        (if is_str actor_id \<and> startswith (str_or_empty actor_id) (u ''gateway:'')
         then requester = actor_id
         else is_str actor_id \<and> requester = PStr (u ''human:'' @ str_or_empty actor_id))
      else False)"

lemma caller_matches_actor:
  assumes "caller_matches actor_type actor_id payload"
  shows "in_tuple actor_type [''service'', ''agent'', ''human'']"
  using assms by (auto simp: caller_matches_def Let_def split: if_splits)

end
