(* ===== verification/LedgerFold.thy ===== *)
theory LedgerFold
  imports LedgerText
begin

text \<open>
  The task-stream fold of \<open>lib/task_ledger.py\<close>: the ledger state, one definition per event
  handler, the envelope checks that come before them, and the derivation of run states at the
  end. A handler that raises \<open>LedgerError\<close> marks its event invalid and leaves runs and tasks
  alone; any other exception ends the fold.
\<close>

section \<open>State\<close>

record task_row =
  t_task_id :: pystr
  t_run_id :: pystr
  t_team_uid :: pystr
  t_parent :: pyval
  t_depth :: pyval
  t_source_msg_id :: pystr
  t_owner :: pyval
  t_assignee :: pystr
  t_title :: pystr
  t_body_ref :: pyval
  t_deadline_at :: pyval
  t_budget :: pyval
  t_gate :: pystr
  t_context_refs :: pyval
  t_state :: task_state
  t_assignments :: int
  t_attempts :: int
  t_turns :: int
  t_turns_total :: int
  t_result_ref :: pyval
  t_last_reason :: pyval
  t_last_summary :: pystr
  t_created_at :: pyval
  t_last_at :: pyval
  t_created_seq :: "int option"
  t_last_seq :: "int option"
  t_state_seq :: "int option"

record run_row =
  r_run_id :: pystr
  r_team_uid :: pystr
  r_state :: run_state
  r_created_seq :: int
  r_outcome :: pyval
  r_created_at :: pyval
  r_last_at :: pyval

record rejection_row =
  j_seq :: int
  j_team_uid :: pystr
  j_task_id :: pyval
  j_run_id :: pystr
  j_requested_type :: pystr
  j_reason :: pystr

record ledger =
  runs :: "(pystr, run_row) dict"
  tasks :: "(pystr, task_row) dict"
  rejections :: "rejection_row list"
  invalid_events :: "(int \<times> pystr) list"
  stream_project :: "pystr option"

definition empty_ledger :: "(int \<times> pystr) list \<Rightarrow> ledger" where
  "empty_ledger bad = \<lparr>runs = [], tasks = [], rejections = [], invalid_events = bad,
     stream_project = None\<rparr>"

definition invalid :: "int \<Rightarrow> pystr \<Rightarrow> ledger \<Rightarrow> ledger" where
  "invalid seq reason l = l\<lparr>invalid_events := invalid_events l @ [(seq, reason)]\<rparr>"

abbreviation raise_ledger :: "string \<Rightarrow> exn + 'a" where
  "raise_ledger s \<equiv> Inl (LedgerError (u s))"

abbreviation role :: "pydict \<Rightarrow> string \<Rightarrow> bool" where
  "role rec s \<equiv> dget rec ''actor_type'' = PStr (u s)"

abbreviation supervisor_of :: "pystr \<Rightarrow> pyval" where
  "supervisor_of a \<equiv> PStr (u ''supervisor:'' @ a)"

section \<open>Creating a task\<close>

definition gates :: "string list" where
  "gates = [''none'', ''code'', ''compliance'', ''gatekeeper'']"

definition the_text :: "pystr option \<Rightarrow> pystr" where
  "the_text t = (case t of Some s \<Rightarrow> s | None \<Rightarrow> [])"

text \<open>The part of \<open>_base_task\<close> that runs when every check has passed.\<close>

definition fresh_task :: "pydict \<Rightarrow> pydict \<Rightarrow> pystr \<Rightarrow> pystr \<Rightarrow> pystr \<Rightarrow> pystr \<Rightarrow> pystr \<Rightarrow> pystr \<Rightarrow> task_row" where
  "fresh_task rec payload run_id ident assignee source gate title =
     \<lparr>t_task_id = ident, t_run_id = run_id,
      t_team_uid = str_or_empty (dget rec ''team_uid''),
      t_parent = dget payload ''parent'', t_depth = dget payload ''depth'',
      t_source_msg_id = source, t_owner = dget payload ''owner'', t_assignee = assignee,
      t_title = title, t_body_ref = dget payload ''body_ref'',
      t_deadline_at = dget payload ''deadline_at'', t_budget = dget payload ''budget'',
      t_gate = gate, t_context_refs = dget_or payload ''context_refs'' (PList []),
      t_state = ASSIGNED, t_assignments = 1, t_attempts = 1, t_turns = 0, t_turns_total = 0,
      t_result_ref = PNone, t_last_reason = PNone, t_last_summary = [],
      t_created_at = dget rec ''occurred_at'', t_last_at = dget rec ''occurred_at'',
      t_created_seq = None, t_last_seq = None, t_state_seq = None\<rparr>"

definition base_task :: "pydict \<Rightarrow> pydict \<Rightarrow> exn + task_row" where
  "base_task rec payload =
     bind_res (text_field (dget rec ''run_id'') ''run_id'' False) (\<lambda>run_id.
     bind_res (text_field (dget rec ''task_id'') ''task_id'' False) (\<lambda>ident.
     if \<not> fullmatch RUN_RE (the_text run_id) \<or> \<not> fullmatch TASK_RE (the_text ident)
       then raise_ledger ''invalid task identity''
     else if \<not> py_eq (dget payload ''depth'') (PInt 1) \<or>
             \<not> py_eq (dget payload ''parent'') (PStr (the_text run_id))
       then raise_ledger ''invalid task parent/depth''
     else
     bind_res (text_field (dget payload ''assignee'') ''assignee'' False) (\<lambda>assignee.
     bind_res (text_field (dget payload ''source_msg_id'') ''source_msg_id'' False) (\<lambda>source.
     bind_res (text_field (dget payload ''gate'') ''gate'' False) (\<lambda>gate.
     bind_res (text_field (dget payload ''title'') ''title'' False) (\<lambda>title.
     if \<not> fullmatch UID_RE (the_text assignee) \<or> \<not> fullmatch TOKEN_RE (the_text source)
       then raise_ledger ''invalid task assignee/source''
     else if \<not> in_tuple (PStr (the_text gate)) gates then raise_ledger ''invalid task gate''
     else if the_text title = [] \<or> length (the_text title) > 120 \<or>
             \<not> safe_display_text (the_text title)
       then raise_ledger ''invalid_title''
     else if \<not> valid_deadline (dget payload ''deadline_at'')
       then raise_ledger ''invalid_deadline_at''
     else Inr (fresh_task rec payload (the_text run_id) (the_text ident) (the_text assignee)
       (the_text source) (the_text gate) (the_text title))))))))"

section \<open>Run events\<close>

definition fold_run_requested ::
  "int \<Rightarrow> pydict \<Rightarrow> pystr \<Rightarrow> pystr \<Rightarrow> ledger \<Rightarrow> exn + ledger" where
  "fold_run_requested seq rec run_id team l =
     (if map_of (runs l) run_id \<noteq> None \<or> \<not> role rec ''human''
      then raise_ledger ''invalid_run_request''
      else Inr (l\<lparr>runs := dset run_id
        \<lparr>r_run_id = run_id, r_team_uid = team, r_state = RQUEUED, r_created_seq = seq,
         r_outcome = PNone, r_created_at = dget rec ''occurred_at'',
         r_last_at = dget rec ''occurred_at''\<rparr> (runs l)\<rparr>))"

definition fold_run_started ::
  "pydict \<Rightarrow> pystr \<Rightarrow> pystr \<Rightarrow> ledger \<Rightarrow> exn + ledger" where
  "fold_run_started rec run_id team l =
     (case map_of (runs l) run_id of
        None \<Rightarrow> raise_ledger ''invalid_run_start''
      | Some r \<Rightarrow>
          if r_state r \<noteq> RQUEUED then raise_ledger ''invalid_run_start''
          else if r_team_uid r \<noteq> team then raise_ledger ''cross_team''
          else if \<not> role rec ''service'' then raise_ledger ''invalid_run_start_actor''
          else Inr (l\<lparr>runs := dset run_id (r\<lparr>r_state := RRUNNING\<rparr>) (runs l)\<rparr>))"

definition is_open_of_run :: "pystr \<Rightarrow> task_row \<Rightarrow> bool" where
  "is_open_of_run run_id t = (t_run_id t = run_id \<and> t_state t \<in> set NONTERMINAL)"

text \<open>The cascade of a closing run: every open task of the run is cancelled.\<close>

definition cancel_by_run :: "int \<Rightarrow> pystr \<Rightarrow> task_row \<Rightarrow> task_row" where
  "cancel_by_run seq run_id t =
     (if is_open_of_run run_id t
      then t\<lparr>t_state := CANCELLED, t_last_reason := PStr (u ''run_closed''),
             t_last_seq := Some seq, t_state_seq := Some seq\<rparr>
      else t)"

definition outcome_state :: "pyval \<Rightarrow> run_state" where
  "outcome_state v = (if v = PStr (u ''completed'') then RCOMPLETED
     else if v = PStr (u ''failed'') then RFAILED else RCANCELLED)"

definition fold_run_closed ::
  "int \<Rightarrow> pydict \<Rightarrow> pydict \<Rightarrow> pystr \<Rightarrow> pystr \<Rightarrow> ledger \<Rightarrow> exn + ledger" where
  "fold_run_closed seq rec payload run_id team l =
     (case map_of (runs l) run_id of
        None \<Rightarrow> raise_ledger ''invalid_run_close''
      | Some r \<Rightarrow>
          if r_state r \<in> set CLOSED_RUN then raise_ledger ''invalid_run_close''
          else if r_team_uid r \<noteq> team then raise_ledger ''cross_team''
          else if \<not> in_tuple (dget rec ''actor_type'') [''human'', ''agent'']
            then raise_ledger ''invalid_run_close_actor''
          else bind_res (in_strset (dget payload ''outcome'') [''completed'', ''failed'', ''cancelled''])
            (\<lambda>known.
              if \<not> known then raise_ledger ''invalid_run_outcome''
              else if list_ex (is_open_of_run run_id) (dvalues (tasks l)) \<and>
                      dget payload ''outcome'' = PStr (u ''completed'')
                then raise_ledger ''open_tasks''
              else Inr (l\<lparr>tasks := dmap (cancel_by_run seq run_id) (tasks l),
                runs := dset run_id (r\<lparr>r_state := outcome_state (dget payload ''outcome''),
                  r_outcome := dget payload ''outcome'',
                  r_last_at := dget rec ''occurred_at''\<rparr>) (runs l)\<rparr>)))"

section \<open>Task events\<close>

definition fold_task_created ::
  "int \<Rightarrow> pydict \<Rightarrow> pydict \<Rightarrow> pystr \<Rightarrow> pystr \<Rightarrow> pystr \<Rightarrow> ledger \<Rightarrow> exn + ledger" where
  "fold_task_created seq rec payload run_id ident team l =
     (case map_of (runs l) run_id of
        None \<Rightarrow> raise_ledger ''invalid_task_create''
      | Some r \<Rightarrow>
          if map_of (tasks l) ident \<noteq> None then raise_ledger ''invalid_task_create''
          else if r_team_uid r \<noteq> team then raise_ledger ''cross_team''
          else if r_state r \<in> set CLOSED_RUN then raise_ledger ''run_closed''
          else bind_res (base_task rec payload) (\<lambda>t.
            if role rec ''agent'' \<and> \<not> py_eq (dget rec ''actor_id'') (t_owner t)
              then raise_ledger ''invalid_creator''
            else if \<not> in_tuple (dget rec ''actor_type'') [''agent'', ''human'']
              then raise_ledger ''invalid_creator''
            else Inr (l\<lparr>tasks := dset ident (t\<lparr>t_created_seq := Some seq, t_last_seq := Some seq,
                 t_state_seq := Some seq\<rparr>) (tasks l),
               runs := (if r_state r = RQUEUED
                 then dset run_id (r\<lparr>r_state := RRUNNING\<rparr>) (runs l) else runs l)\<rparr>)))"

definition fold_started :: "pydict \<Rightarrow> task_row \<Rightarrow> exn + task_row" where
  "fold_started rec t =
     (if t_state t \<noteq> ASSIGNED \<or> \<not> role rec ''service'' \<or>
         dget rec ''actor_id'' \<noteq> supervisor_of (t_assignee t)
      then raise_ledger ''invalid_start''
      else Inr (t\<lparr>t_state := IN_PROGRESS\<rparr>))"

definition bad_reason :: "pyval \<Rightarrow> bool" where
  "bad_reason v = (v \<noteq> PNone \<and>
     (\<not> is_str v \<or> length (str_or_empty v) > 512 \<or> \<not> safe_display_text (str_or_empty v)))"

definition report_state :: "pyval \<Rightarrow> pystr \<Rightarrow> task_state" where
  "report_state report gate =
     (if report = PStr (u ''progress'') then IN_PROGRESS
      else if report = PStr (u ''done'') then (if gate \<noteq> u ''none'' then REVIEW else DONE)
      else if report = PStr (u ''failed'') then FAILED
      else BLOCKED)"

definition fold_reported :: "pydict \<Rightarrow> pydict \<Rightarrow> task_row \<Rightarrow> exn + task_row" where
  "fold_reported rec payload t =
     (let report = dget payload ''state''; reason = dget payload ''reason'';
          service = (role rec ''service'' \<and> dget rec ''actor_id'' = supervisor_of (t_assignee t));
          actor_ok = (role rec ''agent'' \<and> dget rec ''actor_id'' = PStr (t_assignee t))
      in if bad_reason reason then raise_ledger ''invalid_reason''
      else bind_res (if service then in_strset report [''failed'', ''blocked''] else Inr False)
        (\<lambda>failing.
          let service_ok = (service \<and> failing \<and> in_tuple reason ENGINE_REASONS) in
          if t_state t \<noteq> IN_PROGRESS \<or> \<not> (actor_ok \<or> service_ok)
            then raise_ledger ''invalid_report''
          else bind_res (in_strset report [''progress'', ''done'', ''failed'', ''blocked''])
            (\<lambda>known.
              if \<not> known then raise_ledger ''invalid_report''
              else let t1 = (if report = PStr (u ''progress'')
                     then t\<lparr>t_turns := t_turns t + 1, t_turns_total := t_turns_total t + 1\<rparr>
                     else t)
                in Inr (t1\<lparr>t_result_ref := dget payload ''result_ref'', t_last_reason := reason,
                     t_state := report_state report (t_gate t)\<rparr>))))"

definition fold_cancelled :: "pydict \<Rightarrow> pydict \<Rightarrow> task_row \<Rightarrow> exn + task_row" where
  "fold_cancelled rec payload t =
     (let reason = dget payload ''reason'';
          delivery = (role rec ''service'' \<and> dget rec ''actor_id'' = supervisor_of (t_assignee t) \<and>
            reason = PStr (u ''delivery_failed'') \<and> t_state t = ASSIGNED)
      in if t_state t \<in> set TERMINAL then raise_ledger ''invalid_cancel''
      else if bad_reason reason then raise_ledger ''invalid_reason''
      else if \<not> in_tuple (dget rec ''actor_type'') [''human'', ''agent''] \<and> \<not> delivery
        then raise_ledger ''invalid_cancel_actor''
      else Inr (t\<lparr>t_state := CANCELLED, t_last_reason := reason\<rparr>))"

definition fold_reassigned :: "event_kind \<Rightarrow> pydict \<Rightarrow> pydict \<Rightarrow> task_row \<Rightarrow> exn + task_row" where
  "fold_reassigned kind rec payload t =
     (let assignee = dget payload ''assignee'' in
      if \<not> in_tuple (dget rec ''actor_type'') [''human'', ''agent'']
        then raise_ledger ''invalid_reassignment_actor''
      else if \<not> (t_state t = BLOCKED \<or> (kind = Task_Reopened \<and> t_state t = FAILED))
        then raise_ledger ''invalid_reassignment''
      else if \<not> is_str assignee \<or> \<not> fullmatch UID_RE (str_or_empty assignee)
        then raise_ledger ''invalid_assignee''
      else Inr (t\<lparr>t_assignee := str_or_empty assignee, t_assignments := t_assignments t + 1,
        t_attempts := t_attempts t + 1, t_turns := 0, t_state := ASSIGNED\<rparr>))"

definition fold_overdue :: "pydict \<Rightarrow> task_row \<Rightarrow> exn + task_row" where
  "fold_overdue rec t =
     (if t_state t \<in> set TERMINAL \<or> \<not> role rec ''service'' \<or>
         \<not> startswith (str_or_empty (dget rec ''actor_id'')) (u ''supervisor:'')
      then raise_ledger ''invalid_overdue''
      else Inr (t\<lparr>t_last_reason := PStr (u ''overdue'')\<rparr>))"

text \<open>The transition of one existing task, by kind.\<close>

definition task_transition ::
  "event_kind \<Rightarrow> pydict \<Rightarrow> pydict \<Rightarrow> task_row \<Rightarrow> exn + task_row" where
  "task_transition kind rec payload t =
     (case kind of
        Task_Started \<Rightarrow> fold_started rec t
      | Task_Reported \<Rightarrow> fold_reported rec payload t
      | Task_Cancelled \<Rightarrow> fold_cancelled rec payload t
      | Task_Reassigned \<Rightarrow> fold_reassigned kind rec payload t
      | Task_Reopened \<Rightarrow> fold_reassigned kind rec payload t
      | Task_Overdue \<Rightarrow> fold_overdue rec t
      | Task_Review_Passed \<Rightarrow> raise_ledger ''reserved_event''
      | Task_Review_Failed \<Rightarrow> raise_ledger ''reserved_event''
      | _ \<Rightarrow> raise_ledger ''unknown_event'')"

text \<open>The bookkeeping after a transition: the last event, and the last change of state or assignee.\<close>

definition stamp_task :: "int \<Rightarrow> pydict \<Rightarrow> task_row \<Rightarrow> task_row \<Rightarrow> task_row" where
  "stamp_task seq rec old t =
     t\<lparr>t_last_seq := Some seq, t_last_at := dget rec ''occurred_at'',
       t_state_seq := (if t_state t \<noteq> t_state old \<or> t_assignee t \<noteq> t_assignee old
         then Some seq else t_state_seq t)\<rparr>"

definition fold_task_event ::
  "event_kind \<Rightarrow> int \<Rightarrow> pydict \<Rightarrow> pydict \<Rightarrow> pystr \<Rightarrow> pystr \<Rightarrow> pystr \<Rightarrow> ledger \<Rightarrow> exn + ledger" where
  "fold_task_event kind seq rec payload run_id ident team l =
     (case map_of (tasks l) ident of
        None \<Rightarrow> raise_ledger ''unknown_task''
      | Some t \<Rightarrow>
          if t_run_id t \<noteq> run_id then raise_ledger ''unknown_task''
          else if t_team_uid t \<noteq> team then raise_ledger ''cross_team''
          else (case map_of (runs l) run_id of
              None \<Rightarrow> raise_ledger ''invalid_task_run''
            | Some r \<Rightarrow>
                if r_team_uid r \<noteq> t_team_uid t then raise_ledger ''invalid_task_run''
                else if r_state r \<in> set CLOSED_RUN then raise_ledger ''run_closed''
                else bind_res (task_transition kind rec payload t) (\<lambda>t'.
                  Inr (l\<lparr>tasks := dset ident (stamp_task seq rec t t') (tasks l)\<rparr>))))"

section \<open>One event of the stream\<close>

text \<open>Rejections are recorded whoever the actor is; only their caller is checked.\<close>

definition fold_rejected ::
  "int \<Rightarrow> pydict \<Rightarrow> pydict \<Rightarrow> pystr \<Rightarrow> pystr \<Rightarrow> ledger \<Rightarrow> ledger" where
  "fold_rejected seq rec payload run_id team l =
     (case (dget payload ''reason'', dget payload ''requested_type'') of
        (PStr reason, PStr requested) \<Rightarrow>
          if dget payload ''caller'' = PStr (u ''root:root'')
          then l\<lparr>rejections := rejections l @ [\<lparr>j_seq = seq, j_team_uid = team,
            j_task_id = dget rec ''task_id'', j_run_id = run_id,
            j_requested_type = requested, j_reason = reason\<rparr>]\<rparr>
          else invalid seq (u ''invalid_rejection'') l
      | _ \<Rightarrow> invalid seq (u ''invalid_rejection'') l)"

text \<open>The identity checks of the envelope, in the order of the source.\<close>

definition project_ok :: "int \<Rightarrow> pydict \<Rightarrow> bool" where
  "project_ok seq rec =
     (is_str (dget rec ''project_uid'') \<and>
      fullmatch TOKEN_RE (str_or_empty (dget rec ''project_uid'')) \<and>
      dget rec ''event_id'' =
        PStr (str_or_empty (dget rec ''project_uid'') @ u ''-tasks-'' @ str_of_int seq))"

definition same_stream :: "pydict \<Rightarrow> pystr option \<Rightarrow> bool" where
  "same_stream rec project =
     (Some (str_or_empty (dget rec ''project_uid'')) = project \<and>
      dget rec ''attempt_id'' = PNone \<and>
      py_eq (dget rec ''correlation_id'') (dget rec ''run_id''))"

definition ids_ok :: "event_kind \<Rightarrow> pydict \<Rightarrow> bool" where
  "ids_ok kind rec =
     (let project = str_or_empty (dget rec ''project_uid''); run_id = dget rec ''run_id'';
          causation = dget rec ''causation_id''; team = dget rec ''team_uid'';
          ident = dget rec ''task_id''
      in is_str run_id \<and> fullmatch RUN_RE (str_or_empty run_id) \<and>
         is_str causation \<and> fullmatch TOKEN_RE (str_or_empty causation) \<and>
         is_str team \<and> startswith (str_or_empty team) (project @ u ''-'') \<and>
         fullmatch UID_RE (str_or_empty team) \<and>
         (is_task_kind kind \<and> kind \<noteq> Task_Rejected \<longrightarrow>
            is_str ident \<and> fullmatch TASK_RE (str_or_empty ident)) \<and>
         (kind = Task_Rejected \<and> ident \<noteq> PNone \<longrightarrow>
            is_str ident \<and> fullmatch TASK_RE (str_or_empty ident)))"

text \<open>The handler of an event whose envelope and caller are in order.\<close>

definition fold_handler ::
  "event_kind \<Rightarrow> int \<Rightarrow> pydict \<Rightarrow> pydict \<Rightarrow> pystr \<Rightarrow> pystr \<Rightarrow> pystr \<Rightarrow> ledger \<Rightarrow> exn + ledger" where
  "fold_handler kind seq rec payload run_id ident team l =
     (case kind of
        Run_Requested \<Rightarrow> fold_run_requested seq rec run_id team l
      | Run_Started \<Rightarrow> fold_run_started rec run_id team l
      | Run_Closed \<Rightarrow> fold_run_closed seq rec payload run_id team l
      | Task_Created \<Rightarrow> fold_task_created seq rec payload run_id ident team l
      | _ \<Rightarrow> fold_task_event kind seq rec payload run_id ident team l)"

text \<open>\<open>except LedgerError as error: invalid(seq, str(error))\<close>.\<close>

definition catch_ledger :: "int \<Rightarrow> ledger \<Rightarrow> exn + ledger \<Rightarrow> exn + ledger" where
  "catch_ledger seq l r = (case r of
       Inl (LedgerError reason) \<Rightarrow> Inr (invalid seq reason l)
     | Inl e \<Rightarrow> Inl e
     | Inr l' \<Rightarrow> Inr l')"

text \<open>The first accepted project of the stream is its project.\<close>

definition note_project :: "pydict \<Rightarrow> ledger \<Rightarrow> ledger" where
  "note_project rec l =
     (if stream_project l = None
      then l\<lparr>stream_project := Some (str_or_empty (dget rec ''project_uid''))\<rparr> else l)"

definition fold_event :: "int \<times> pydict \<Rightarrow> ledger \<Rightarrow> exn + ledger" where
  "fold_event ev l =
     (case ev of (seq, rec) \<Rightarrow>
      case (dget rec ''event_type'', dget rec ''payload'') of
        (PStr name, PDict payload) \<Rightarrow>
          (case kind_of name of
             None \<Rightarrow> Inr (invalid seq (u ''invalid_shape'') l)
           | Some kind \<Rightarrow>
               if \<not> project_ok seq rec then Inr (invalid seq (u ''invalid_envelope_identity'') l)
               else
                 let l1 = note_project rec l;
                     run_id = str_or_empty (dget rec ''run_id'');
                     ident = str_or_empty (dget rec ''task_id'');
                     team = str_or_empty (dget rec ''team_uid'')
                 in if \<not> same_stream rec (stream_project l1) \<or> \<not> ids_ok kind rec
                      then Inr (invalid seq (u ''invalid_envelope_identity'') l1)
                    else if kind = Task_Rejected
                      then Inr (fold_rejected seq rec payload run_id team l1)
                    else if \<not> caller_matches (dget rec ''actor_type'') (dget rec ''actor_id'') payload
                      then Inr (invalid seq (u ''caller_actor_mismatch'') l1)
                    else catch_ledger seq l1
                      (fold_handler kind seq rec payload run_id ident team l1))
      | _ \<Rightarrow> Inr (invalid seq (u ''invalid_shape'') l))"

section \<open>The whole stream\<close>

text \<open>Run states are derived from the tasks, except for closed runs.\<close>

definition derive_run_state :: "task_row list \<Rightarrow> run_row \<Rightarrow> run_row" where
  "derive_run_state ts r =
     (if r_state r \<in> set CLOSED_RUN then r
      else let children = filter (\<lambda>t. t_run_id t = r_run_id r) ts;
               active = filter (\<lambda>t. t_state t \<in> set NONTERMINAL) children
        in if active \<noteq> [] \<and> list_all (\<lambda>t. t_state t = BLOCKED) active
             then r\<lparr>r_state := RBLOCKED\<rparr>
           else if children \<noteq> [] then r\<lparr>r_state := RRUNNING\<rparr>
           else r\<lparr>r_state := RQUEUED\<rparr>)"

definition derive_runs :: "ledger \<Rightarrow> ledger" where
  "derive_runs l = l\<lparr>runs := dmap (derive_run_state (dvalues (tasks l))) (runs l),
     invalid_events := sort_key fst (invalid_events l)\<rparr>"

record ledger_view =
  stream_status :: pystr
  highest_seq :: int
  invalid_count :: nat
  folded :: ledger

definition ledger_fold ::
  "pystr \<Rightarrow> int \<Rightarrow> (int \<times> pystr) list \<Rightarrow> (int \<times> pydict) list \<Rightarrow> exn + ledger_view" where
  "ledger_fold status highest bad events =
     bind_res (run fold_event events (empty_ledger bad)) (\<lambda>l.
       Inr \<lparr>stream_status = status, highest_seq = highest,
            invalid_count = length (invalid_events l), folded = derive_runs l\<rparr>)"

end
