(* ===== verification/LedgerInv.thy ===== *)
theory LedgerInv
  imports LedgerFold
begin

text \<open>
  What the task-stream fold guarantees: the well-formedness invariant of the ledger and its
  preservation by every handler, the evolution of tasks and runs along a stream, the isolation
  of invalid events, and the only way the fold can raise.
\<close>

section \<open>Invariant\<close>

definition run_ok :: "pystr \<Rightarrow> run_row \<Rightarrow> bool" where
  "run_ok k r = (r_run_id r = k \<and> fullmatch RUN_RE k \<and> fullmatch UID_RE (r_team_uid r) \<and>
     r_state r \<noteq> RBLOCKED)"

text \<open>What never changes about a task, and what its counters and states obey.\<close>

definition task_shape :: "pystr \<Rightarrow> task_row \<Rightarrow> bool" where
  "task_shape k t = (t_task_id t = k \<and> fullmatch TASK_RE k \<and> py_eq (t_depth t) (PInt 1) \<and>
     t_parent t = PStr (t_run_id t) \<and> fullmatch UID_RE (t_assignee t) \<and>
     fullmatch TOKEN_RE (t_source_msg_id t) \<and> in_tuple (PStr (t_gate t)) gates \<and>
     t_title t \<noteq> [] \<and> length (t_title t) \<le> 120 \<and> safe_display_text (t_title t) \<and>
     valid_deadline (t_deadline_at t))"

definition task_counts :: "task_row \<Rightarrow> bool" where
  "task_counts t = (1 \<le> t_assignments t \<and> t_attempts t = t_assignments t \<and>
     0 \<le> t_turns t \<and> t_turns t \<le> t_turns_total t \<and> t_state t \<noteq> QUEUED \<and>
     (t_state t = REVIEW \<longrightarrow> t_gate t \<noteq> u ''none'') \<and>
     (t_state t = DONE \<longrightarrow> t_gate t = u ''none''))"

text \<open>A task belongs to a run of its team; a closed run has no open task.\<close>

definition task_home :: "(pystr, run_row) dict \<Rightarrow> task_row \<Rightarrow> bool" where
  "task_home rs t = (case map_of rs (t_run_id t) of
       None \<Rightarrow> False
     | Some r \<Rightarrow> r_team_uid r = t_team_uid t \<and> r_state r \<noteq> RQUEUED \<and>
         (r_state r \<in> set CLOSED_RUN \<longrightarrow> t_state t \<in> set TERMINAL))"

definition ledger_inv :: "ledger \<Rightarrow> bool" where
  "ledger_inv l = (wf_dict (runs l) \<and> wf_dict (tasks l) \<and>
     (\<forall>k r. map_of (runs l) k = Some r \<longrightarrow> run_ok k r) \<and>
     (\<forall>k t. map_of (tasks l) k = Some t \<longrightarrow>
        task_shape k t \<and> task_counts t \<and> task_home (runs l) t))"

lemma ledger_inv_empty: "ledger_inv (empty_ledger bad)"
  by (simp add: ledger_inv_def empty_ledger_def)

lemma ledger_inv_cong:
  "runs l' = runs l \<Longrightarrow> tasks l' = tasks l \<Longrightarrow> ledger_inv l' = ledger_inv l"
  by (simp add: ledger_inv_def)

lemma invalid_fields [simp]:
  "runs (invalid s r l) = runs l" "tasks (invalid s r l) = tasks l"
  "rejections (invalid s r l) = rejections l" "stream_project (invalid s r l) = stream_project l"
  "invalid_events (invalid s r l) = invalid_events l @ [(s, r)]"
  by (simp_all add: invalid_def)

section \<open>Tasks\<close>

subsection \<open>A created task\<close>

lemma text_field_required: "text_field v n False = Inr x \<longleftrightarrow> (\<exists>s. v = PStr s \<and> x = Some s \<and>
    0 \<notin> set s \<and> 13 \<notin> set s \<and> 10 \<notin> set s)"
  by (cases v) (auto simp: text_field_def)

lemma base_task_Inr:
  assumes "base_task rec payload = Inr t"
  shows "\<exists>run_id ident assignee source gate title.
    t = fresh_task rec payload run_id ident assignee source gate title \<and>
    dget rec ''run_id'' = PStr run_id \<and> dget rec ''task_id'' = PStr ident \<and>
    fullmatch RUN_RE run_id \<and> fullmatch TASK_RE ident \<and>
    py_eq (dget payload ''depth'') (PInt 1) \<and> dget payload ''parent'' = PStr run_id \<and>
    fullmatch UID_RE assignee \<and> fullmatch TOKEN_RE source \<and> in_tuple (PStr gate) gates \<and>
    title \<noteq> [] \<and> length title \<le> 120 \<and> safe_display_text title \<and>
    valid_deadline (dget payload ''deadline_at'') \<and>
    dget payload ''assignee'' = PStr assignee \<and> dget payload ''source_msg_id'' = PStr source \<and>
    dget payload ''gate'' = PStr gate \<and> dget payload ''title'' = PStr title"
  using assms unfolding base_task_def
  by (auto simp: bind_res_Inr text_field_required the_text_def split: if_splits)

lemma base_task_props:
  assumes "base_task rec payload = Inr t" and "dget rec ''task_id'' = PStr k"
    and "dget rec ''run_id'' = PStr run_id"
  shows "task_shape k t" and "task_counts t" and "t_run_id t = run_id" and "t_state t = ASSIGNED"
    and "t_team_uid t = str_or_empty (dget rec ''team_uid'')"
  using base_task_Inr [OF assms(1)] assms(2,3)
  by (auto simp: fresh_task_def task_shape_def task_counts_def)

lemma stamp_created [simp]:
  "task_shape k (t\<lparr>t_created_seq := a, t_last_seq := b, t_state_seq := c\<rparr>) = task_shape k t"
  "task_counts (t\<lparr>t_created_seq := a, t_last_seq := b, t_state_seq := c\<rparr>) = task_counts t"
  by (simp_all add: task_shape_def task_counts_def)

subsection \<open>Transitions of a task\<close>

text \<open>No transition touches what a task is; only states, counters and texts move.\<close>

definition same_task :: "task_row \<Rightarrow> task_row \<Rightarrow> bool" where
  "same_task t t' = (t_task_id t' = t_task_id t \<and> t_run_id t' = t_run_id t \<and>
     t_team_uid t' = t_team_uid t \<and> t_parent t' = t_parent t \<and> t_depth t' = t_depth t \<and>
     t_source_msg_id t' = t_source_msg_id t \<and> t_owner t' = t_owner t \<and> t_title t' = t_title t \<and>
     t_body_ref t' = t_body_ref t \<and> t_deadline_at t' = t_deadline_at t \<and>
     t_budget t' = t_budget t \<and> t_gate t' = t_gate t \<and> t_context_refs t' = t_context_refs t \<and>
     t_created_at t' = t_created_at t \<and> t_created_seq t' = t_created_seq t)"

lemma same_task_refl [simp]: "same_task t t"
  by (simp add: same_task_def)

lemma same_task_trans: "same_task r s \<Longrightarrow> same_task s t \<Longrightarrow> same_task r t"
  by (simp add: same_task_def)

lemma same_task_D:
  assumes "same_task t t'"
  shows "t_run_id t' = t_run_id t" "t_team_uid t' = t_team_uid t" "t_gate t' = t_gate t"
  using assms by (simp_all add: same_task_def)

lemma same_task_update [simp]:
  "same_task t (s\<lparr>t_state := a\<rparr>) = same_task t s"
  "same_task t (s\<lparr>t_last_reason := b\<rparr>) = same_task t s"
  "same_task t (s\<lparr>t_turns := c\<rparr>) = same_task t s"
  "same_task t (s\<lparr>t_turns_total := d\<rparr>) = same_task t s"
  "same_task t (s\<lparr>t_result_ref := e\<rparr>) = same_task t s"
  "same_task t (s\<lparr>t_assignee := f\<rparr>) = same_task t s"
  "same_task t (s\<lparr>t_assignments := g\<rparr>) = same_task t s"
  "same_task t (s\<lparr>t_attempts := h\<rparr>) = same_task t s"
  "same_task t (s\<lparr>t_last_seq := i\<rparr>) = same_task t s"
  "same_task t (s\<lparr>t_last_at := j\<rparr>) = same_task t s"
  "same_task t (s\<lparr>t_state_seq := k\<rparr>) = same_task t s"
  by (simp_all add: same_task_def)

lemma handler_frames:
  "fold_started rec t = Inr t' \<Longrightarrow> same_task t t' \<and> t_state_seq t' = t_state_seq t"
  "fold_reported rec payload t = Inr t' \<Longrightarrow> same_task t t' \<and> t_state_seq t' = t_state_seq t"
  "fold_cancelled rec payload t = Inr t' \<Longrightarrow> same_task t t' \<and> t_state_seq t' = t_state_seq t"
  "fold_reassigned kind rec payload t = Inr t' \<Longrightarrow> same_task t t' \<and> t_state_seq t' = t_state_seq t"
  "fold_overdue rec t = Inr t' \<Longrightarrow> same_task t t' \<and> t_state_seq t' = t_state_seq t"
      apply (force simp: fold_started_def split: if_splits)
     apply (force simp: fold_reported_def Let_def bind_res_Inr split: if_splits)
    apply (force simp: fold_cancelled_def Let_def split: if_splits)
   apply (force simp: fold_reassigned_def Let_def split: if_splits)
  apply (force simp: fold_overdue_def split: if_splits)
  done

lemma transition_frame:
  "task_transition kind rec payload t = Inr t' \<Longrightarrow> same_task t t' \<and> t_state_seq t' = t_state_seq t"
  by (cases kind) (simp_all add: task_transition_def handler_frames)

text \<open>The state graph: which moves a transition can make, and on what condition.\<close>

inductive task_move :: "task_row \<Rightarrow> task_row \<Rightarrow> bool" where
  start: "t_state t = ASSIGNED \<Longrightarrow> t_state t' = IN_PROGRESS \<Longrightarrow> t_assignee t' = t_assignee t \<Longrightarrow>
    t_assignments t' = t_assignments t \<Longrightarrow> t_attempts t' = t_attempts t \<Longrightarrow>
    t_turns t' = t_turns t \<Longrightarrow> t_turns_total t' = t_turns_total t \<Longrightarrow> task_move t t'"
| progress: "t_state t = IN_PROGRESS \<Longrightarrow> t_state t' = IN_PROGRESS \<Longrightarrow> t_assignee t' = t_assignee t \<Longrightarrow>
    t_assignments t' = t_assignments t \<Longrightarrow> t_attempts t' = t_attempts t \<Longrightarrow>
    t_turns t' = t_turns t + 1 \<Longrightarrow> t_turns_total t' = t_turns_total t + 1 \<Longrightarrow> task_move t t'"
| finish: "t_state t = IN_PROGRESS \<Longrightarrow> t_state t' \<in> {DONE, REVIEW, FAILED, BLOCKED} \<Longrightarrow>
    (t_state t' = DONE \<longrightarrow> t_gate t = u ''none'') \<Longrightarrow> (t_state t' = REVIEW \<longrightarrow> t_gate t \<noteq> u ''none'') \<Longrightarrow>
    t_assignee t' = t_assignee t \<Longrightarrow> t_assignments t' = t_assignments t \<Longrightarrow>
    t_attempts t' = t_attempts t \<Longrightarrow> t_turns t' = t_turns t \<Longrightarrow>
    t_turns_total t' = t_turns_total t \<Longrightarrow> task_move t t'"
| cancel: "t_state t \<in> set NONTERMINAL \<Longrightarrow> t_state t' = CANCELLED \<Longrightarrow> t_assignee t' = t_assignee t \<Longrightarrow>
    t_assignments t' = t_assignments t \<Longrightarrow> t_attempts t' = t_attempts t \<Longrightarrow>
    t_turns t' = t_turns t \<Longrightarrow> t_turns_total t' = t_turns_total t \<Longrightarrow> task_move t t'"
| reassign: "t_state t \<in> {BLOCKED, FAILED} \<Longrightarrow> t_state t' = ASSIGNED \<Longrightarrow>
    fullmatch UID_RE (t_assignee t') \<Longrightarrow> t_assignments t' = t_assignments t + 1 \<Longrightarrow>
    t_attempts t' = t_attempts t + 1 \<Longrightarrow> t_turns t' = 0 \<Longrightarrow>
    t_turns_total t' = t_turns_total t \<Longrightarrow> task_move t t'"
| overdue: "t_state t \<in> set NONTERMINAL \<Longrightarrow> t_state t' = t_state t \<Longrightarrow> t_assignee t' = t_assignee t \<Longrightarrow>
    t_assignments t' = t_assignments t \<Longrightarrow> t_attempts t' = t_attempts t \<Longrightarrow>
    t_turns t' = t_turns t \<Longrightarrow> t_turns_total t' = t_turns_total t \<Longrightarrow> task_move t t'"

inductive_cases task_moveE: "task_move t t'"

lemma started_move: "fold_started rec t = Inr t' \<Longrightarrow> task_move t t'"
  by (rule task_move.start) (auto simp: fold_started_def split: if_splits)

lemma reported_move:
  assumes "fold_reported rec payload t = Inr t'"
  shows "task_move t t'"
proof (cases "dget payload ''state'' = PStr (u ''progress'')")
  case True
  with assms show ?thesis
    by (intro task_move.progress)
      (auto simp: fold_reported_def Let_def bind_res_Inr report_state_def split: if_splits)
next
  case False
  with assms show ?thesis
    by (intro task_move.finish)
      (auto simp: fold_reported_def Let_def bind_res_Inr report_state_def split: if_splits)
qed

lemma cancelled_move: "fold_cancelled rec payload t = Inr t' \<Longrightarrow> task_move t t'"
  by (rule task_move.cancel) (auto simp: fold_cancelled_def Let_def nonterminal_iff split: if_splits)

lemma reassigned_move: "fold_reassigned kind rec payload t = Inr t' \<Longrightarrow> task_move t t'"
  by (rule task_move.reassign) (auto simp: fold_reassigned_def Let_def split: if_splits)

lemma overdue_move: "fold_overdue rec t = Inr t' \<Longrightarrow> task_move t t'"
  by (rule task_move.overdue) (auto simp: fold_overdue_def nonterminal_iff split: if_splits)

lemmas handler_moves = started_move reported_move cancelled_move reassigned_move overdue_move

lemma transition_move: "task_transition kind rec payload t = Inr t' \<Longrightarrow> task_move t t'"
  by (cases kind) (auto simp: task_transition_def intro: handler_moves)

lemma move_counts: "task_move t t' \<Longrightarrow> t_gate t' = t_gate t \<Longrightarrow> task_counts t \<Longrightarrow> task_counts t'"
  by (erule task_moveE) (auto simp: task_counts_def nonterminal_iff)

lemma move_assignee: "task_move t t' \<Longrightarrow> fullmatch UID_RE (t_assignee t) \<Longrightarrow> fullmatch UID_RE (t_assignee t')"
  by (erule task_moveE) auto

lemma stamp_fields [simp]:
  "t_task_id (stamp_task s rec o' t) = t_task_id t" "t_run_id (stamp_task s rec o' t) = t_run_id t"
  "t_team_uid (stamp_task s rec o' t) = t_team_uid t" "t_state (stamp_task s rec o' t) = t_state t"
  "t_assignee (stamp_task s rec o' t) = t_assignee t" "t_gate (stamp_task s rec o' t) = t_gate t"
  "t_assignments (stamp_task s rec o' t) = t_assignments t"
  "t_turns (stamp_task s rec o' t) = t_turns t" "t_turns_total (stamp_task s rec o' t) = t_turns_total t"
  "task_shape k (stamp_task s rec o' t) = task_shape k t"
  "task_counts (stamp_task s rec o' t) = task_counts t"
  by (simp_all add: stamp_task_def task_shape_def task_counts_def)

lemma transition_shape:
  assumes "task_transition kind rec payload t = Inr t'" and "task_shape k t" and "task_counts t"
  shows "task_shape k t'" and "task_counts t'"
  using transition_frame [OF assms(1)] transition_move [OF assms(1)] assms(2,3)
  by (simp_all add: task_shape_def same_task_def move_assignee move_counts)

section \<open>Every handler keeps the invariant\<close>

lemma ledger_inv_run_entry: "ledger_inv l \<Longrightarrow> map_of (runs l) k = Some r \<Longrightarrow> run_ok k r"
  by (simp add: ledger_inv_def)

lemma ledger_inv_task_entry:
  "ledger_inv l \<Longrightarrow> map_of (tasks l) k = Some t \<Longrightarrow>
     task_shape k t \<and> task_counts t \<and> task_home (runs l) t"
  by (simp add: ledger_inv_def)

text \<open>Writing a run that keeps its team, leaves \<open>RQUEUED\<close> only forwards and stays open.\<close>

lemma task_home_run_update:
  assumes "task_home rs t" and "map_of rs k = Some r" and "r_team_uid r' = r_team_uid r"
    and "r_state r \<noteq> RQUEUED \<Longrightarrow> r_state r' \<noteq> RQUEUED"
    and "r_state r' \<in> set CLOSED_RUN \<Longrightarrow> t_run_id t = k \<Longrightarrow> t_state t \<in> set TERMINAL"
  shows "task_home (dset k r' rs) t"
  using assms by (auto simp: task_home_def split: option.splits if_splits)

lemma task_home_new_run:
  "task_home rs t \<Longrightarrow> map_of rs k = None \<Longrightarrow> task_home (dset k r' rs) t"
  by (auto simp: task_home_def split: option.splits if_splits)

lemma run_requested_inv [inv_step]:
  assumes "ledger_inv l" and "fold_run_requested seq rec run_id team l = Inr l'"
    and "fullmatch RUN_RE run_id" and "fullmatch UID_RE team"
  shows "ledger_inv l'"
proof -
  obtain r where "map_of (runs l) run_id = None" and l': "l' = l\<lparr>runs := dset run_id r (runs l)\<rparr>"
    and "run_ok run_id r"
    using assms(2-4) by (auto simp: fold_run_requested_def run_ok_def split: if_splits)
  with assms(1) show ?thesis
    by (auto simp: ledger_inv_def task_home_new_run split: if_splits)
qed

lemma run_started_inv [inv_step]:
  assumes inv: "ledger_inv l" and step: "fold_run_started rec run_id team l = Inr l'"
  shows "ledger_inv l'"
proof -
  obtain r where r: "map_of (runs l) run_id = Some r" "r_state r = RQUEUED"
    and l': "l' = l\<lparr>runs := dset run_id (r\<lparr>r_state := RRUNNING\<rparr>) (runs l)\<rparr>"
    using step by (auto simp: fold_run_started_def split: option.splits if_splits)
  have "task_home (runs l') t" if "map_of (tasks l) k = Some t" for k t
    unfolding l' using ledger_inv_task_entry [OF inv that] r
    by (auto intro: task_home_run_update [OF _ r(1)])
  with inv r show ?thesis
    by (auto simp: l' ledger_inv_def run_ok_def split: if_splits)
qed

lemma cancel_by_run_shape [simp]:
  "task_shape k (cancel_by_run seq run_id t) = task_shape k t"
  by (simp add: cancel_by_run_def task_shape_def)

lemma cancel_by_run_counts: "task_counts t \<Longrightarrow> task_counts (cancel_by_run seq run_id t)"
  by (auto simp: cancel_by_run_def task_counts_def)

lemma cancel_by_run_fields [simp]:
  "t_run_id (cancel_by_run seq run_id t) = t_run_id t"
  "t_team_uid (cancel_by_run seq run_id t) = t_team_uid t"
  "t_assignee (cancel_by_run seq run_id t) = t_assignee t"
  "t_assignments (cancel_by_run seq run_id t) = t_assignments t"
  "t_turns (cancel_by_run seq run_id t) = t_turns t"
  by (simp_all add: cancel_by_run_def)

lemma cancel_by_run_state:
  "t_state (cancel_by_run seq run_id t) = (if is_open_of_run run_id t then CANCELLED else t_state t)"
  by (simp add: cancel_by_run_def)

lemma outcome_state_closed: "outcome_state v \<in> set CLOSED_RUN"
  by (simp add: outcome_state_def)

lemma run_closed_Inr:
  assumes "fold_run_closed seq rec payload run_id team l = Inr l'"
  obtains r where "map_of (runs l) run_id = Some r" and "r_state r \<notin> set CLOSED_RUN"
    and "r_team_uid r = team"
    and "l' = l\<lparr>tasks := dmap (cancel_by_run seq run_id) (tasks l),
      runs := dset run_id (r\<lparr>r_state := outcome_state (dget payload ''outcome''),
        r_outcome := dget payload ''outcome'', r_last_at := dget rec ''occurred_at''\<rparr>) (runs l)\<rparr>"
proof (cases "map_of (runs l) run_id")
  case None
  with assms show thesis by (simp add: fold_run_closed_def)
next
  case (Some r)
  with assms show thesis
    by (intro that [of r]) (auto simp: fold_run_closed_def bind_res_Inr simp del: state_set_simps split: if_splits)
qed

lemma run_closed_inv [inv_step]:
  assumes inv: "ledger_inv l" and step: "fold_run_closed seq rec payload run_id team l = Inr l'"
  shows "ledger_inv l'"
proof -
  obtain r where r: "map_of (runs l) run_id = Some r" "r_state r \<notin> set CLOSED_RUN"
    and l': "l' = l\<lparr>tasks := dmap (cancel_by_run seq run_id) (tasks l),
      runs := dset run_id (r\<lparr>r_state := outcome_state (dget payload ''outcome''),
        r_outcome := dget payload ''outcome'', r_last_at := dget rec ''occurred_at''\<rparr>) (runs l)\<rparr>"
    using step by (rule run_closed_Inr)
  have home: "task_home (runs l') (cancel_by_run seq run_id t)" if "map_of (tasks l) k = Some t" for k t
  proof -
    have "task_home (runs l) t" using ledger_inv_task_entry [OF inv that] by simp
    then have h: "task_home (runs l) (cancel_by_run seq run_id t)"
      by (auto simp: task_home_def cancel_by_run_state split: option.splits)
    show ?thesis unfolding l'
      using outcome_state_closed [of "dget payload ''outcome''"]
      by (auto intro!: task_home_run_update [OF h r(1)]
          simp: cancel_by_run_state is_open_of_run_def nonterminal_iff)
  qed
  have "run_ok k q" if "map_of (runs l') k = Some q" for k q
    using that ledger_inv_run_entry [OF inv] r outcome_state_closed [of "dget payload ''outcome''"]
    by (auto simp: l' run_ok_def split: if_splits)
  with inv home show ?thesis
    by (auto simp: l' ledger_inv_def cancel_by_run_counts)
qed

lemma task_created_Inr:
  assumes "fold_task_created seq rec payload run_id ident team l = Inr l'"
  obtains r t where "map_of (runs l) run_id = Some r" and "map_of (tasks l) ident = None"
    and "r_team_uid r = team" and "r_state r \<notin> set CLOSED_RUN" and "base_task rec payload = Inr t"
    and "l' = l\<lparr>tasks := dset ident (t\<lparr>t_created_seq := Some seq, t_last_seq := Some seq,
        t_state_seq := Some seq\<rparr>) (tasks l),
      runs := (if r_state r = RQUEUED then dset run_id (r\<lparr>r_state := RRUNNING\<rparr>) (runs l) else runs l)\<rparr>"
proof (cases "map_of (runs l) run_id")
  case None
  with assms show thesis by (simp add: fold_task_created_def)
next
  case (Some r)
  with assms obtain t where "base_task rec payload = Inr t"
    by (auto simp: fold_task_created_def bind_res_Inr split: if_splits)
  with Some assms show thesis
    by (intro that [of r t]) (auto simp: fold_task_created_def simp del: state_set_simps split: if_splits)
qed

lemma task_created_inv [inv_step]:
  assumes inv: "ledger_inv l"
    and step: "fold_task_created seq rec payload run_id ident team l = Inr l'"
    and ids: "dget rec ''run_id'' = PStr run_id" "dget rec ''task_id'' = PStr ident"
      "dget rec ''team_uid'' = PStr team"
  shows "ledger_inv l'"
proof -
  obtain r t where r: "map_of (runs l) run_id = Some r" "r_team_uid r = team"
      "r_state r \<notin> set CLOSED_RUN" and t: "base_task rec payload = Inr t"
    and l': "l' = l\<lparr>tasks := dset ident (t\<lparr>t_created_seq := Some seq, t_last_seq := Some seq,
        t_state_seq := Some seq\<rparr>) (tasks l),
      runs := (if r_state r = RQUEUED then dset run_id (r\<lparr>r_state := RRUNNING\<rparr>) (runs l) else runs l)\<rparr>"
    using step by (rule task_created_Inr)
  note t_props = base_task_props [OF t ids(2,1)]
  have "task_home (runs l') s" if "map_of (tasks l) k = Some s" for k s
    using ledger_inv_task_entry [OF inv that] r(3)
    by (auto simp: l' intro!: task_home_run_update [OF _ r(1)])
  moreover have "task_home (runs l') (t\<lparr>t_created_seq := Some seq, t_last_seq := Some seq,
      t_state_seq := Some seq\<rparr>)"
    using r t_props ids(3) by (auto simp: l' task_home_def)
  moreover have "run_ok k q" if "map_of (runs l') k = Some q" for k q
    using that ledger_inv_run_entry [OF inv] r by (auto simp: l' run_ok_def split: if_splits)
  ultimately show ?thesis
    using inv t_props by (auto simp: l' ledger_inv_def split: if_splits)
qed

lemma task_event_Inr:
  assumes "fold_task_event kind seq rec payload run_id ident team l = Inr l'"
  obtains t t' r where "map_of (tasks l) ident = Some t" and "t_run_id t = run_id"
    and "map_of (runs l) run_id = Some r" and "r_state r \<notin> set CLOSED_RUN"
    and "task_transition kind rec payload t = Inr t'"
    and "l' = l\<lparr>tasks := dset ident (stamp_task seq rec t t') (tasks l)\<rparr>"
proof (cases "map_of (tasks l) ident")
  case None
  with assms show thesis by (simp add: fold_task_event_def)
next
  case (Some t)
  with assms obtain r where r: "map_of (runs l) run_id = Some r"
    by (auto simp: fold_task_event_def split: if_splits option.splits)
  with Some assms obtain t' where "task_transition kind rec payload t = Inr t'"
    by (auto simp: fold_task_event_def bind_res_Inr split: if_splits)
  with Some r assms show thesis
    by (intro that [of t r t']) (auto simp: fold_task_event_def simp del: state_set_simps split: if_splits)
qed

lemma task_event_inv [inv_step]:
  assumes inv: "ledger_inv l"
    and step: "fold_task_event kind seq rec payload run_id ident team l = Inr l'"
  shows "ledger_inv l'"
proof -
  obtain t t' r where t: "map_of (tasks l) ident = Some t" "t_run_id t = run_id"
    and r: "map_of (runs l) run_id = Some r" "r_state r \<notin> set CLOSED_RUN"
    and tr: "task_transition kind rec payload t = Inr t'"
    and l': "l' = l\<lparr>tasks := dset ident (stamp_task seq rec t t') (tasks l)\<rparr>"
    using step by (rule task_event_Inr)
  note old = ledger_inv_task_entry [OF inv t(1)]
  have "task_shape ident t'" "task_counts t'"
    using transition_shape [OF tr] old by blast+
  moreover have "task_home (runs l) (stamp_task seq rec t t')"
    using old r t(2) transition_frame [OF tr] by (auto simp: task_home_def same_task_D)
  ultimately show ?thesis
    using inv by (auto simp: l' ledger_inv_def split: if_splits)
qed

section \<open>One event\<close>

lemma note_project_fields [simp]:
  "runs (note_project rec l) = runs l" "tasks (note_project rec l) = tasks l"
  "rejections (note_project rec l) = rejections l"
  "invalid_events (note_project rec l) = invalid_events l"
  by (simp_all add: note_project_def)

lemma fold_rejected_fields [simp]:
  "runs (fold_rejected seq rec payload run_id team l) = runs l"
  "tasks (fold_rejected seq rec payload run_id team l) = tasks l"
  by (auto simp: fold_rejected_def split: pyval.splits)

text \<open>The three ways an event is dealt with: invalid, a rejection record, or a handled event.\<close>

lemma fold_event_cases:
  assumes "fold_event (seq, rec) l = r"
  obtains (bad) reason l1 where "r = Inr (invalid seq reason l1)" and "l1 = l \<or> l1 = note_project rec l"
  | (rejected) payload where
      "r = Inr (fold_rejected seq rec payload (str_or_empty (dget rec ''run_id''))
        (str_or_empty (dget rec ''team_uid'')) (note_project rec l))"
  | (handled) kind payload where "dget rec ''event_type'' = PStr (u (kind_name kind))"
      and "dget rec ''payload'' = PDict payload" and "kind \<noteq> Task_Rejected"
      and "project_ok seq rec" and "same_stream rec (stream_project (note_project rec l))"
      and "ids_ok kind rec"
      and "caller_matches (dget rec ''actor_type'') (dget rec ''actor_id'') payload"
      and "r = catch_ledger seq (note_project rec l)
        (fold_handler kind seq rec payload (str_or_empty (dget rec ''run_id''))
          (str_or_empty (dget rec ''task_id'')) (str_or_empty (dget rec ''team_uid''))
          (note_project rec l))"
proof (cases "\<exists>name payload. dget rec ''event_type'' = PStr name \<and> dget rec ''payload'' = PDict payload")
  case False
  then have "r = Inr (invalid seq (u ''invalid_shape'') l)"
    using assms by (auto simp: fold_event_def split: pyval.splits)
  then show thesis by (rule bad) simp
next
  case True
  then obtain name payload where np: "dget rec ''event_type'' = PStr name" "dget rec ''payload'' = PDict payload"
    by blast
  show thesis
  proof (cases "kind_of name")
    case None
    with np assms have "r = Inr (invalid seq (u ''invalid_shape'') l)" by (simp add: fold_event_def)
    then show thesis by (rule bad) simp
  next
    case (Some kind)
    then have name: "name = u (kind_name kind)" by (simp add: kind_of_Some)
    show thesis
      using assms np Some name bad rejected handled
      by (auto simp: fold_event_def Let_def split: if_splits)
  qed
qed

lemma ids_ok_facts:
  assumes "ids_ok kind rec"
  shows "dget rec ''run_id'' = PStr (str_or_empty (dget rec ''run_id''))"
    and "dget rec ''team_uid'' = PStr (str_or_empty (dget rec ''team_uid''))"
    and "fullmatch RUN_RE (str_or_empty (dget rec ''run_id''))"
    and "fullmatch UID_RE (str_or_empty (dget rec ''team_uid''))"
    and "kind = Task_Created \<Longrightarrow> dget rec ''task_id'' = PStr (str_or_empty (dget rec ''task_id''))"
  using assms by (auto simp: ids_ok_def Let_def is_str_iff is_task_kind_def kind_name_def EVENT_TYPES_def)

lemma catch_ledger_Inr:
  "catch_ledger seq l r = Inr l' \<longleftrightarrow>
     (\<exists>reason. r = Inl (LedgerError reason) \<and> l' = invalid seq reason l) \<or> r = Inr l'"
  by (auto simp: catch_ledger_def split: sum.splits exn.splits)

lemma fold_handler_inv [inv_step]:
  assumes "ledger_inv l" and "ids_ok kind rec"
    and "fold_handler kind seq rec payload (str_or_empty (dget rec ''run_id''))
      (str_or_empty (dget rec ''task_id'')) (str_or_empty (dget rec ''team_uid'')) l = Inr l'"
  shows "ledger_inv l'"
  using assms(3) ids_ok_facts [OF assms(2)]
  by (cases kind)
    (auto simp: fold_handler_def intro: inv_step [OF assms(1)])

lemma fold_handler_lists:
  assumes "fold_handler k seq rec p run_id ident team l = Inr l'"
  shows "invalid_events l' = invalid_events l \<and> rejections l' = rejections l \<and>
    stream_project l' = stream_project l"
proof (cases "k \<in> {Run_Requested, Run_Started, Run_Closed, Task_Created}")
  case True
  with assms show ?thesis
    by (auto simp: fold_handler_def fold_run_requested_def fold_run_started_def bind_res_Inr
        simp del: state_set_simps split: if_splits option.splits
        elim!: run_closed_Inr task_created_Inr)
next
  case False
  with assms have "fold_task_event k seq rec p run_id ident team l = Inr l'"
    by (cases k) (simp_all add: fold_handler_def)
  then show ?thesis by (rule task_event_Inr) simp
qed

lemma fold_event_inv [inv_step]:
  assumes "ledger_inv l" and "fold_event ev l = Inr l'"
  shows "ledger_inv l'"
proof -
  obtain seq rec where ev: "ev = (seq, rec)" by (cases ev)
  note keep = ledger_inv_cong [THEN iffD2, OF _ _ assms(1)]
  from assms(2) [unfolded ev] show ?thesis
  proof (cases rule: fold_event_cases)
    case (bad reason l1)
    then show ?thesis by (auto intro: keep)
  next
    case (rejected payload)
    then show ?thesis by (auto intro: keep)
  next
    case (handled kind payload)
    have l1: "ledger_inv (note_project rec l)" by (rule keep) simp_all
    from handled(8) [symmetric] have "l' = invalid seq reason (note_project rec l) \<Longrightarrow> ?thesis" for reason
      by (auto intro: keep)
    with handled(8) [symmetric] fold_handler_inv [OF l1 handled(6)] show ?thesis
      by (auto simp: catch_ledger_Inr)
  qed
qed

section \<open>Evolution\<close>

text \<open>
  What a later ledger owes an earlier one: runs and tasks persist with their identity, closed
  runs and finished tasks are frozen, the counters never shrink, and the lists of rejections
  and invalid events only grow.
\<close>

definition run_evolves :: "run_row \<Rightarrow> run_row \<Rightarrow> bool" where
  "run_evolves r r' = (r_run_id r' = r_run_id r \<and> r_team_uid r' = r_team_uid r \<and>
     r_created_seq r' = r_created_seq r \<and> (r_state r \<in> set CLOSED_RUN \<longrightarrow> r' = r) \<and>
     (r_state r \<noteq> RQUEUED \<longrightarrow> r_state r' \<noteq> RQUEUED))"

definition task_evolves :: "task_row \<Rightarrow> task_row \<Rightarrow> bool" where
  "task_evolves t t' = (same_task t t' \<and> t_assignments t \<le> t_assignments t' \<and>
     t_turns_total t \<le> t_turns_total t' \<and>
     (t_state t = DONE \<or> t_state t = CANCELLED \<longrightarrow> t' = t) \<and>
     (t_assignee t' \<noteq> t_assignee t \<longrightarrow> t_assignments t < t_assignments t'))"

definition ledger_evolves :: "ledger \<Rightarrow> ledger \<Rightarrow> bool" where
  "ledger_evolves l l' =
     ((\<forall>k r. map_of (runs l) k = Some r \<longrightarrow> (\<exists>r'. map_of (runs l') k = Some r' \<and> run_evolves r r')) \<and>
      (\<forall>k t. map_of (tasks l) k = Some t \<longrightarrow> (\<exists>t'. map_of (tasks l') k = Some t' \<and> task_evolves t t')) \<and>
      (\<exists>js. rejections l' = rejections l @ js) \<and> (\<exists>bs. invalid_events l' = invalid_events l @ bs) \<and>
      (stream_project l \<noteq> None \<longrightarrow> stream_project l' = stream_project l))"

lemma run_evolves_refl [simp]: "run_evolves r r"
  by (simp add: run_evolves_def)

lemma run_evolves_trans: "run_evolves r s \<Longrightarrow> run_evolves s t \<Longrightarrow> run_evolves r t"
  by (auto simp: run_evolves_def)

lemma task_evolves_refl [simp]: "task_evolves t t"
  by (simp add: task_evolves_def)

lemma task_evolves_trans: "task_evolves r s \<Longrightarrow> task_evolves s t \<Longrightarrow> task_evolves r t"
  by (auto simp: task_evolves_def intro: same_task_trans)

lemma ledger_evolves_refl: "ledger_evolves l l"
  by (simp add: ledger_evolves_def)

lemma ledger_evolves_trans: "ledger_evolves a b \<Longrightarrow> ledger_evolves b c \<Longrightarrow> ledger_evolves a c"
  unfolding ledger_evolves_def
  by (intro conjI) (meson run_evolves_trans, meson task_evolves_trans, force, force, force)

lemma ledger_evolves_same:
  assumes "runs l' = runs l" and "tasks l' = tasks l"
    and "rejections l' = rejections l @ js" and "invalid_events l' = invalid_events l @ bs"
    and "stream_project l \<noteq> None \<Longrightarrow> stream_project l' = stream_project l"
  shows "ledger_evolves l l'"
  using assms by (auto simp: ledger_evolves_def)

lemma ledger_evolves_dicts:
  assumes "rejections l' = rejections l" and "invalid_events l' = invalid_events l"
    and "stream_project l' = stream_project l"
    and "\<And>k r. map_of (runs l) k = Some r \<Longrightarrow> \<exists>r'. map_of (runs l') k = Some r' \<and> run_evolves r r'"
    and "\<And>k t. map_of (tasks l) k = Some t \<Longrightarrow> \<exists>t'. map_of (tasks l') k = Some t' \<and> task_evolves t t'"
  shows "ledger_evolves l l'"
  using assms by (auto simp: ledger_evolves_def)

lemma note_project_evolves: "ledger_evolves l (note_project rec l)"
  by (rule ledger_evolves_same [where js = "[]" and bs = "[]"]) (auto simp: note_project_def)

lemma invalid_evolves: "ledger_evolves l (invalid seq reason l)"
  by (rule ledger_evolves_same [where js = "[]" and bs = "[(seq, reason)]"]) simp_all

lemma rejected_evolves: "ledger_evolves l (fold_rejected seq rec payload run_id team l)"
proof (cases "dget payload ''caller'' = PStr (u ''root:root'') \<and> is_str (dget payload ''reason'') \<and>
    is_str (dget payload ''requested_type'')")
  case True
  then show ?thesis
    by (auto simp: fold_rejected_def is_str_iff intro!: ledger_evolves_same [where bs = "[]"])
next
  case False
  then have "fold_rejected seq rec payload run_id team l = invalid seq (u ''invalid_rejection'') l"
    by (auto simp: fold_rejected_def is_str_iff split: pyval.splits)
  then show ?thesis by (simp add: invalid_evolves)
qed

lemma transition_evolves:
  assumes "task_transition kind rec payload t = Inr t'" and "0 \<le> t_turns_total t"
  shows "task_evolves t (stamp_task seq rec t t')"
proof -
  have "task_move t t'" and "same_task t t'"
    using transition_move [OF assms(1)] transition_frame [OF assms(1)] by auto
  then show ?thesis
    by (cases rule: task_move.cases) (auto simp: task_evolves_def stamp_task_def nonterminal_iff)
qed

lemma fold_handler_evolves:
  assumes inv: "ledger_inv l"
    and step: "fold_handler kind seq rec payload run_id ident team l = Inr l'"
  shows "ledger_evolves l l'"
proof -
  have requested: ?thesis if "fold_run_requested seq rec run_id team l = Inr l'"
    using that by (intro ledger_evolves_dicts) (auto simp: fold_run_requested_def split: if_splits)
  have started: ?thesis if "fold_run_started rec run_id team l = Inr l'"
    using that by (intro ledger_evolves_dicts)
      (auto simp: fold_run_started_def run_evolves_def split: if_splits option.splits)
  have closed: ?thesis if "fold_run_closed seq rec payload run_id team l = Inr l'"
    using that
  proof (rule run_closed_Inr)
    fix r assume "map_of (runs l) run_id = Some r" "r_state r \<notin> set CLOSED_RUN"
      "l' = l\<lparr>tasks := dmap (cancel_by_run seq run_id) (tasks l),
        runs := dset run_id (r\<lparr>r_state := outcome_state (dget payload ''outcome''),
          r_outcome := dget payload ''outcome'', r_last_at := dget rec ''occurred_at''\<rparr>) (runs l)\<rparr>"
    then show ?thesis
      by (intro ledger_evolves_dicts)
        (auto simp: run_evolves_def task_evolves_def cancel_by_run_def is_open_of_run_def
          nonterminal_iff outcome_state_def)
  qed
  have created: ?thesis if "fold_task_created seq rec payload run_id ident team l = Inr l'"
    using that
  proof (rule task_created_Inr)
    fix r t assume "map_of (runs l) run_id = Some r" "map_of (tasks l) ident = None"
      "l' = l\<lparr>tasks := dset ident (t\<lparr>t_created_seq := Some seq, t_last_seq := Some seq,
        t_state_seq := Some seq\<rparr>) (tasks l),
      runs := (if r_state r = RQUEUED then dset run_id (r\<lparr>r_state := RRUNNING\<rparr>) (runs l) else runs l)\<rparr>"
    then show ?thesis
      by (intro ledger_evolves_dicts) (auto simp: run_evolves_def)
  qed
  have event: ?thesis if "fold_task_event kind seq rec payload run_id ident team l = Inr l'"
    using that
  proof (rule task_event_Inr)
    fix t t' assume t: "map_of (tasks l) ident = Some t"
      and tr: "task_transition kind rec payload t = Inr t'"
      and "l' = l\<lparr>tasks := dset ident (stamp_task seq rec t t') (tasks l)\<rparr>"
    moreover have "0 \<le> t_turns_total t"
      using ledger_inv_task_entry [OF inv t] by (simp add: task_counts_def)
    ultimately show ?thesis
      using transition_evolves [OF tr] by (intro ledger_evolves_dicts) auto
  qed
  from step show ?thesis
    using requested started closed created event by (cases kind) (simp_all add: fold_handler_def)
qed

lemma fold_event_evolves:
  assumes "ledger_inv l" and "fold_event ev l = Inr l'"
  shows "ledger_evolves l l'"
proof -
  obtain seq rec where ev: "ev = (seq, rec)" by (cases ev)
  have l1: "ledger_inv (note_project rec l)"
    using assms(1) by (simp add: ledger_inv_cong [of "note_project rec l" l])
  note from_l1 = ledger_evolves_trans [OF note_project_evolves [of l rec]]
  from assms(2) [unfolded ev] show ?thesis
  proof (cases rule: fold_event_cases)
    case (bad reason l1)
    then show ?thesis by (auto intro: invalid_evolves from_l1)
  next
    case (rejected payload)
    then show ?thesis by (auto intro: rejected_evolves from_l1)
  next
    case (handled kind payload)
    from handled(8) [symmetric] fold_handler_evolves [OF l1] show ?thesis
      by (auto simp: catch_ledger_Inr intro: from_l1 invalid_evolves)
  qed
qed

interpretation task_stream: monotone_machine fold_event ledger_inv "\<lambda>_. True" ledger_evolves
  by unfold_locales
    (auto intro: fold_event_inv fold_event_evolves ledger_evolves_refl ledger_evolves_trans)

end
