(* ===== verification/LedgerSamples.thy ===== *)
theory LedgerSamples
  imports LedgerInv
begin

text \<open>
  A small concrete stream for the witnesses: a run requested by a human operator, a task
  created in it, started by the supervisor of its assignee, reported done by the assignee,
  an event with a foreign project, and a rejection.
\<close>

definition smp_record ::
  "int \<Rightarrow> string \<Rightarrow> string \<Rightarrow> string \<Rightarrow> pyval \<Rightarrow> pydict \<Rightarrow> pydict" where
  "smp_record seq kind actor_type actor ident payload =
     [(u ''event_id'', PStr (u ''acme-tasks-'' @ str_of_int seq)),
      (u ''event_type'', PStr (u kind)), (u ''occurred_at'', PStr (u ''2026-10-27T12:00:00Z'')),
      (u ''actor_type'', PStr (u actor_type)), (u ''actor_id'', PStr (u actor)),
      (u ''project_uid'', PStr (u ''acme'')), (u ''team_uid'', PStr (u ''acme-engine'')),
      (u ''run_id'', PStr (u ''r-aaaaaaaaaaaa'')), (u ''task_id'', ident),
      (u ''attempt_id'', PNone), (u ''correlation_id'', PStr (u ''r-aaaaaaaaaaaa'')),
      (u ''causation_id'', PStr (u ''fixture-'' @ str_of_int seq)),
      (u ''payload'', PDict payload)]"

definition smp_by_human :: pydict where
  "smp_by_human = [(u ''caller'', PStr (u ''root:root'')), (u ''via'', PStr (u ''ctl:1'')),
     (u ''requester'', PStr (u ''human:operator''))]"

definition smp_task :: pyval where
  "smp_task = PStr (u ''t-aaaaaaaaaaaa'')"

definition smp_create :: pydict where
  "smp_create = smp_by_human @
     [(u ''parent'', PStr (u ''r-aaaaaaaaaaaa'')), (u ''depth'', PInt 1),
      (u ''source_msg_id'', PStr (u ''msg-gate'')), (u ''owner'', PStr (u ''human:operator'')),
      (u ''assignee'', PStr (u ''acme-dev1'')), (u ''title'', PStr (u ''Gate'')),
      (u ''body_ref'', PStr (u ''msg:gate'')),
      (u ''deadline_at'', PStr (u ''2026-10-28T00:00:00Z'')),
      (u ''budget'', PDict [(u ''max_turns'', PInt 8), (u ''max_attempts'', PInt 3)]),
      (u ''gate'', PStr (u ''none'')), (u ''context_refs'', PList [])]"

definition smp_report :: "pyval \<Rightarrow> pydict" where
  "smp_report state = [(u ''caller'', PStr (u ''root:root'')), (u ''via'', PStr (u ''intent:fixture-4'')),
     (u ''state'', state), (u ''result_ref'', PStr (u ''msg:result'')), (u ''reason'', PNone)]"

definition smp_ev_run :: "int \<times> pydict" where
  "smp_ev_run = (1, smp_record 1 ''run.requested'' ''human'' ''operator'' PNone smp_by_human)"

definition smp_ev_create :: "int \<times> pydict" where
  "smp_ev_create = (2, smp_record 2 ''task.created'' ''human'' ''operator'' smp_task smp_create)"

definition smp_ev_start :: "int \<times> pydict" where
  "smp_ev_start = (3, smp_record 3 ''task.started'' ''service'' ''supervisor:acme-dev1'' smp_task
     [(u ''caller'', PStr (u ''root:root''))])"

definition smp_ev_done :: "int \<times> pydict" where
  "smp_ev_done = (4, smp_record 4 ''task.reported'' ''agent'' ''acme-dev1'' smp_task
     (smp_report (PStr (u ''done''))))"

text \<open>A report whose state is a list: hashing it raises.\<close>

definition smp_ev_unhashable :: "int \<times> pydict" where
  "smp_ev_unhashable = (4, smp_record 4 ''task.reported'' ''agent'' ''acme-dev1'' smp_task
     (smp_report (PList [])))"

definition smp_ev_close :: "int \<times> pydict" where
  "smp_ev_close = (4, smp_record 4 ''run.closed'' ''human'' ''operator'' PNone
     (smp_by_human @ [(u ''outcome'', PStr (u ''cancelled''))]))"

definition smp_ev_bad :: "int \<times> pydict" where
  "smp_ev_bad = (5, smp_record 6 ''task.overdue'' ''service'' ''supervisor:acme-lead'' smp_task
     [(u ''caller'', PStr (u ''root:root''))])"

definition smp_ledger :: "(int \<times> pydict) list \<Rightarrow> ledger" where
  "smp_ledger es = (case run fold_event es (empty_ledger []) of Inr l \<Rightarrow> l | Inl _ \<Rightarrow> empty_ledger [])"

lemma smp_run_created:
  "run fold_event [smp_ev_run, smp_ev_create] (empty_ledger []) = Inr (smp_ledger [smp_ev_run, smp_ev_create])"
  by code_simp

lemma smp_run_started:
  "run fold_event [smp_ev_run, smp_ev_create, smp_ev_start] (empty_ledger []) =
     Inr (smp_ledger [smp_ev_run, smp_ev_create, smp_ev_start])"
  by code_simp

end
