(* ===== verification/LedgerProps.thy ===== *)
theory LedgerProps
  imports LedgerSamples
begin

text \<open>
  The properties of the task-stream fold, each with a witness on the sample stream.
\<close>

section \<open>Lemmas on the derived view\<close>

lemma ledger_fold_Inr:
  assumes "ledger_fold st hi bad es = Inr v"
  obtains l where "run fold_event es (empty_ledger bad) = Inr l" and "ledger_inv l"
    and "folded v = derive_runs l" and "invalid_count v = length (invalid_events l)"
proof -
  from assms obtain l where l: "run fold_event es (empty_ledger bad) = Inr l"
    and v: "folded v = derive_runs l" "invalid_count v = length (invalid_events l)"
    by (auto simp: ledger_fold_def bind_res_Inr)
  have "ledger_inv l"
    by (rule task_stream.run_inv [OF _ ledger_inv_empty l]) simp
  then show thesis using l v that by blast
qed

lemma derive_runs_fields [simp]:
  "tasks (derive_runs l) = tasks l" "rejections (derive_runs l) = rejections l"
  "map_of (runs (derive_runs l)) k = map_option (derive_run_state (dvalues (tasks l))) (map_of (runs l) k)"
  by (simp_all add: derive_runs_def)

lemma derive_run_state_fields [simp]:
  "r_run_id (derive_run_state ts r) = r_run_id r" "r_team_uid (derive_run_state ts r) = r_team_uid r"
  by (simp_all add: derive_run_state_def Let_def)

lemma derive_run_closed [simp]:
  "r_state (derive_run_state ts r) \<in> set CLOSED_RUN \<longleftrightarrow> r_state r \<in> set CLOSED_RUN"
  by (auto simp: derive_run_state_def Let_def simp del: state_set_simps) (simp_all add: CLOSED_RUN_def)

lemma derive_run_not_queued:
  assumes "t \<in> set ts" and "t_run_id t = r_run_id r"
  shows "r_state (derive_run_state ts r) \<noteq> RQUEUED"
proof -
  have "filter (\<lambda>t. t_run_id t = r_run_id r) ts \<noteq> []"
    using assms by (auto simp: filter_empty_conv)
  then show ?thesis by (auto simp: derive_run_state_def Let_def)
qed

section \<open>Properties\<close>

text \<open>
  C1: in every ledger the fold returns, every task carries its own valid id, hangs at depth 1
  under an existing run of the same team, that run is not queued, a closed run has only
  finished tasks, and the task's counters, gate, title and deadline are in range.
\<close>

theorem fold_wellformed:
  assumes "ledger_fold st hi bad es = Inr v" and "map_of (tasks (folded v)) k = Some t"
  shows "task_shape k t \<and> task_counts t \<and>
    (\<exists>r. map_of (runs (folded v)) (t_run_id t) = Some r \<and> r_run_id r = t_run_id t \<and>
       r_team_uid r = t_team_uid t \<and> r_state r \<noteq> RQUEUED \<and>
       (r_state r \<in> set CLOSED_RUN \<longrightarrow> t_state t \<in> set TERMINAL))"
  using assms(1)
proof (rule ledger_fold_Inr)
  fix l assume inv: "ledger_inv l" and v: "folded v = derive_runs l"
  with assms(2) have t: "map_of (tasks l) k = Some t" by simp
  note entry = ledger_inv_task_entry [OF inv t]
  then obtain r where r: "map_of (runs l) (t_run_id t) = Some r"
    and team: "r_team_uid r = t_team_uid t"
    and closed: "r_state r \<in> set CLOSED_RUN \<longrightarrow> t_state t \<in> set TERMINAL"
    by (auto simp: task_home_def split: option.splits)
  have id: "r_run_id r = t_run_id t" using ledger_inv_run_entry [OF inv r] by (simp add: run_ok_def)
  let ?d = "derive_run_state (dvalues (tasks l)) r"
  have "map_of (runs (folded v)) (t_run_id t) = Some ?d" using r v by simp
  moreover have "r_state ?d \<noteq> RQUEUED"
    using derive_run_not_queued [OF map_of_in_dvalues [OF t]] id by simp
  ultimately show ?thesis using entry team closed id by (metis derive_run_closed derive_run_state_fields)
qed

theorem fold_wellformed_witness:
  "ledger_fold (u ''ok'') 2 [] [smp_ev_run, smp_ev_create] =
      Inr \<lparr>stream_status = u ''ok'', highest_seq = 2, invalid_count = 0,
        folded = derive_runs (smp_ledger [smp_ev_run, smp_ev_create])\<rparr> \<and>
   (\<exists>t. map_of (tasks (smp_ledger [smp_ev_run, smp_ev_create])) (u ''t-aaaaaaaaaaaa'') = Some t \<and>
      task_counts t)"
proof -
  let ?l = "smp_ledger [smp_ev_run, smp_ev_create]"
  have inv: "invalid_events ?l = []" and
    t: "map_of (tasks ?l) (u ''t-aaaaaaaaaaaa'') \<noteq> None" by code_simp+
  have f: "ledger_fold (u ''ok'') 2 [] [smp_ev_run, smp_ev_create] =
      Inr \<lparr>stream_status = u ''ok'', highest_seq = 2, invalid_count = 0, folded = derive_runs ?l\<rparr>"
    by (simp add: ledger_fold_def smp_run_created inv del: run.simps)
  from t obtain t where "map_of (tasks ?l) (u ''t-aaaaaaaaaaaa'') = Some t" by auto
  with fold_wellformed [OF f, of "u ''t-aaaaaaaaaaaa''" t] f show ?thesis by auto
qed

text \<open>
  C2: whatever events follow, a done or cancelled task and a closed run never change again, no
  task or run disappears, and a task changes hands only with a new assignment.
\<close>

theorem finished_is_final:
  assumes "run fold_event es (empty_ledger bad) = Inr l"
    and "run fold_event (es @ later) (empty_ledger bad) = Inr l'"
  shows "(\<forall>k t. map_of (tasks l) k = Some t \<longrightarrow> (\<exists>t'. map_of (tasks l') k = Some t' \<and>
       (t_state t \<in> {DONE, CANCELLED} \<longrightarrow> t' = t) \<and>
       (t_assignee t' \<noteq> t_assignee t \<longrightarrow> t_assignments t < t_assignments t'))) \<and>
    (\<forall>k r. map_of (runs l) k = Some r \<longrightarrow> (\<exists>r'. map_of (runs l') k = Some r' \<and>
       r_team_uid r' = r_team_uid r \<and> (r_state r \<in> set CLOSED_RUN \<longrightarrow> r' = r)))"
proof -
  have "ledger_inv l" by (rule task_stream.run_inv [OF _ ledger_inv_empty assms(1)]) simp
  moreover have "run fold_event later l = Inr l'" using assms by (simp add: run_append)
  ultimately have "ledger_evolves l l'" by (intro task_stream.run_rel) auto
  then have t: "\<And>k t. map_of (tasks l) k = Some t \<Longrightarrow> \<exists>t'. map_of (tasks l') k = Some t' \<and> task_evolves t t'"
    and r: "\<And>k r. map_of (runs l) k = Some r \<Longrightarrow> \<exists>r'. map_of (runs l') k = Some r' \<and> run_evolves r r'"
    by (auto simp: ledger_evolves_def)
  show ?thesis
  proof (intro conjI allI impI)
    fix k t assume "map_of (tasks l) k = Some t"
    from t [OF this] obtain t' where "map_of (tasks l') k = Some t'" "task_evolves t t'" by blast
    then show "\<exists>t'. map_of (tasks l') k = Some t' \<and> (t_state t \<in> {DONE, CANCELLED} \<longrightarrow> t' = t) \<and>
        (t_assignee t' \<noteq> t_assignee t \<longrightarrow> t_assignments t < t_assignments t')"
      by (intro exI [of _ t']) (simp add: task_evolves_def)
  next
    fix k r assume "map_of (runs l) k = Some r"
    from r [OF this] obtain r' where "map_of (runs l') k = Some r'" "run_evolves r r'" by blast
    then show "\<exists>r'. map_of (runs l') k = Some r' \<and> r_team_uid r' = r_team_uid r \<and>
        (r_state r \<in> set CLOSED_RUN \<longrightarrow> r' = r)"
      by (intro exI [of _ r']) (simp add: run_evolves_def)
  qed
qed

theorem finished_is_final_witness:
  "\<exists>l l'. run fold_event [smp_ev_run, smp_ev_create] (empty_ledger []) = Inr l \<and>
     run fold_event ([smp_ev_run, smp_ev_create] @ [smp_ev_start]) (empty_ledger []) = Inr l' \<and>
     (\<forall>k r. map_of (runs l) k = Some r \<longrightarrow> (\<exists>r'. map_of (runs l') k = Some r'))"
proof -
  have "[smp_ev_run, smp_ev_create, smp_ev_start] = [smp_ev_run, smp_ev_create] @ [smp_ev_start]" by simp
  note runs = smp_run_created smp_run_started [unfolded this]
  from finished_is_final [OF runs] runs show ?thesis by blast
qed


section \<open>Faulty events\<close>

lemma bind_res_Inl: "bind_res r f = Inl e \<longleftrightarrow> r = Inl e \<or> (\<exists>x. r = Inr x \<and> f x = Inl e)"
  by (cases r) auto

lemma in_strset_Inl: "in_strset v xs = Inl e \<longleftrightarrow> e = TypeError \<and> \<not> hashable v"
  by (auto simp: in_strset_def)

lemma handlers_Inl:
  "fold_started rec t = Inl e \<Longrightarrow> \<exists>m. e = LedgerError m"
  "fold_cancelled rec p t = Inl e \<Longrightarrow> \<exists>m. e = LedgerError m"
  "fold_reassigned k rec p t = Inl e \<Longrightarrow> \<exists>m. e = LedgerError m"
  "fold_overdue rec t = Inl e \<Longrightarrow> \<exists>m. e = LedgerError m"
  by (auto simp: fold_started_def fold_cancelled_def fold_reassigned_def fold_overdue_def Let_def
      split: if_splits)

lemma reported_Inl:
  "fold_reported rec p t = Inl e \<Longrightarrow>
     (\<exists>m. e = LedgerError m) \<or> (e = TypeError \<and> \<not> hashable (dget p ''state''))"
  unfolding fold_reported_def Let_def
  by (cases "bad_reason (dget p ''reason'')")
    (auto simp: bind_res_Inl in_strset_Inl simp del: in_tuple_simps split: if_split_asm)

lemma transition_Inl:
  "task_transition k rec p t = Inl e \<Longrightarrow> (\<exists>m. e = LedgerError m) \<or>
     (e = TypeError \<and> k = Task_Reported \<and> \<not> hashable (dget p ''state''))"
  by (cases k) (auto simp: task_transition_def dest: handlers_Inl reported_Inl)

text \<open>A computation whose only exception is \<open>LedgerError\<close>.\<close>

definition only_ledger :: "exn + 'a \<Rightarrow> bool" where
  "only_ledger r = (\<forall>e. r = Inl e \<longrightarrow> (\<exists>m. e = LedgerError m))"

lemma only_ledger_intros:
  "only_ledger (Inr x)" "only_ledger (Inl (LedgerError m))" "only_ledger (text_field v n b)"
  "only_ledger r \<Longrightarrow> (\<And>x. only_ledger (f x)) \<Longrightarrow> only_ledger (bind_res r f)"
  "only_ledger r \<Longrightarrow> only_ledger r' \<Longrightarrow> only_ledger (if c then r else r')"
  by (auto simp: only_ledger_def bind_res_Inl text_field_def split: if_splits pyval.splits)

lemma base_task_Inl: "base_task rec p = Inl e \<Longrightarrow> \<exists>m. e = LedgerError m"
proof -
  have "only_ledger (base_task rec p)"
    unfolding base_task_def by (intro only_ledger_intros)
  then show "base_task rec p = Inl e \<Longrightarrow> \<exists>m. e = LedgerError m"
    by (simp add: only_ledger_def)
qed

lemma run_events_Inl:
  "fold_run_requested seq rec run_id team l = Inl e \<Longrightarrow> \<exists>m. e = LedgerError m"
  "fold_run_started rec run_id team l = Inl e \<Longrightarrow> \<exists>m. e = LedgerError m"
  "fold_task_created seq rec p run_id ident team l = Inl e \<Longrightarrow> \<exists>m. e = LedgerError m"
  by (auto simp: fold_run_requested_def fold_run_started_def fold_task_created_def bind_res_Inl
      simp del: state_set_simps split: if_splits option.splits dest: base_task_Inl)

lemma run_closed_Inl:
  "fold_run_closed seq rec p run_id team l = Inl e \<Longrightarrow>
     (\<exists>m. e = LedgerError m) \<or> (e = TypeError \<and> \<not> hashable (dget p ''outcome''))"
  by (auto simp: fold_run_closed_def bind_res_Inl in_strset_Inl simp del: state_set_simps
      split: if_splits option.splits)

lemma task_event_Inl:
  "fold_task_event k seq rec p run_id ident team l = Inl e \<Longrightarrow> (\<exists>m. e = LedgerError m) \<or>
     (e = TypeError \<and> k = Task_Reported \<and> \<not> hashable (dget p ''state''))"
  by (auto simp: fold_task_event_def bind_res_Inl simp del: state_set_simps
      split: if_splits option.splits dest: transition_Inl)

lemma handler_Inl:
  "fold_handler k seq rec p run_id ident team l = Inl e \<Longrightarrow> (\<exists>m. e = LedgerError m) \<or> (e = TypeError \<and>
    ((k = Task_Reported \<and> \<not> hashable (dget p ''state'')) \<or>
     (k = Run_Closed \<and> \<not> hashable (dget p ''outcome''))))"
  by (cases k) (auto simp: fold_handler_def dest: run_events_Inl run_closed_Inl task_event_Inl)

text \<open>
  C8: a faulty event is isolated: an event either is recorded as invalid and touches no run,
  task or rejection, or it is recorded as a rejection, or its handler took it. The only
  exception that ends the fold is the \<open>TypeError\<close> of a report whose state, or a run close
  whose outcome, is a list or an object.
\<close>

theorem faulty_event_isolated:
  "case fold_event (seq, rec) l of
     Inr l' \<Rightarrow> (\<exists>reason. invalid_events l' = invalid_events l @ [(seq, reason)] \<and>
         runs l' = runs l \<and> tasks l' = tasks l \<and> rejections l' = rejections l) \<or>
       (invalid_events l' = invalid_events l \<and>
         ((\<exists>j. rejections l' = rejections l @ [j] \<and> runs l' = runs l \<and> tasks l' = tasks l) \<or>
          rejections l' = rejections l))
   | Inl e \<Rightarrow> e = TypeError \<and> (\<exists>p. dget rec ''payload'' = PDict p \<and>
       ((dget rec ''event_type'' = PStr (u ''task.reported'') \<and> \<not> hashable (dget p ''state'')) \<or>
        (dget rec ''event_type'' = PStr (u ''run.closed'') \<and> \<not> hashable (dget p ''outcome''))))"
proof (cases rule: fold_event_cases [of seq rec l, OF refl])
  case (1 reason l1)
  then show ?thesis by auto
next
  case (2 payload)
  then show ?thesis
    by (auto simp: fold_rejected_def split: pyval.splits)
next
  case (3 kind payload)
  let ?h = "fold_handler kind seq rec payload (str_or_empty (dget rec ''run_id''))
    (str_or_empty (dget rec ''task_id'')) (str_or_empty (dget rec ''team_uid'')) (note_project rec l)"
  show ?thesis
  proof (cases ?h)
    case (Inr l')
    with 3 fold_handler_lists [OF Inr] show ?thesis by (simp add: catch_ledger_def)
  next
    case (Inl e)
    from handler_Inl [OF this] show ?thesis
      using 3 Inl by (auto simp: catch_ledger_def kind_name_def EVENT_TYPES_def)
  qed
qed


text \<open>
  one report whose state is a list, after a started task, ends the fold of the whole
  stream with a \<open>TypeError\<close>, whatever follows it: no handler of the program catches it.
\<close>

theorem unhashable_report_ends_fold:
  "ledger_fold st hi [] ([smp_ev_run, smp_ev_create, smp_ev_start, smp_ev_unhashable] @ later) = Inl TypeError"
proof -
  let ?es = "[smp_ev_run, smp_ev_create, smp_ev_start]"
  have "fold_event smp_ev_unhashable (smp_ledger ?es) = Inl TypeError" by code_simp
  with smp_run_started have "run fold_event (?es @ smp_ev_unhashable # later) (empty_ledger []) = Inl TypeError"
    unfolding run_append by (simp del: append_Cons)
  then show ?thesis by (simp add: ledger_fold_def del: run.simps)
qed

section \<open>Authority\<close>

definition by_supervisor :: "pydict \<Rightarrow> task_row \<Rightarrow> bool" where
  "by_supervisor rec t = (role rec ''service'' \<and> dget rec ''actor_id'' = supervisor_of (t_assignee t))"

definition by_assignee :: "pydict \<Rightarrow> task_row \<Rightarrow> bool" where
  "by_assignee rec t = (role rec ''agent'' \<and> dget rec ''actor_id'' = PStr (t_assignee t))"

text \<open>Who may bring a task into a state.\<close>

definition entitled :: "pydict \<Rightarrow> pydict \<Rightarrow> task_row \<Rightarrow> task_state \<Rightarrow> bool" where
  "entitled rec p t s = (case s of
       IN_PROGRESS \<Rightarrow> by_supervisor rec t
     | DONE \<Rightarrow> by_assignee rec t
     | REVIEW \<Rightarrow> by_assignee rec t
     | FAILED \<Rightarrow> by_assignee rec t \<or> (by_supervisor rec t \<and> in_tuple (dget p ''reason'') ENGINE_REASONS)
     | BLOCKED \<Rightarrow> by_assignee rec t \<or> (by_supervisor rec t \<and> in_tuple (dget p ''reason'') ENGINE_REASONS)
     | ASSIGNED \<Rightarrow> role rec ''human'' \<or> role rec ''agent''
     | CANCELLED \<Rightarrow> role rec ''human'' \<or> role rec ''agent'' \<or>
         (by_supervisor rec t \<and> dget p ''reason'' = PStr (u ''delivery_failed'') \<and> t_state t = ASSIGNED)
     | QUEUED \<Rightarrow> False)"

lemma reported_entitled:
  assumes "fold_reported rec p t = Inr t'" and "t_state t' \<noteq> t_state t"
  shows "entitled rec p t (t_state t')"
proof -
  let ?svc = "role rec ''service'' \<and> dget rec ''actor_id'' = supervisor_of (t_assignee t)"
  have nb: "\<not> bad_reason (dget p ''reason'')"
    by (rule ccontr) (use assms(1) in \<open>simp add: fold_reported_def\<close>)
  obtain failing where f: "(if ?svc then in_strset (dget p ''state'') [''failed'', ''blocked'']
        else Inr False) = Inr failing"
    using assms(1) unfolding fold_reported_def Let_def if_not_P [OF nb] bind_res_Inr by blast
  note g = assms(1) [unfolded fold_reported_def Let_def if_not_P [OF nb] f bind_res_simps]
  have c: "\<not> (t_state t \<noteq> IN_PROGRESS \<or> \<not> (by_assignee rec t \<or>
      (?svc \<and> failing \<and> in_tuple (dget p ''reason'') ENGINE_REASONS)))"
    by (rule ccontr) (use g in \<open>simp add: by_assignee_def\<close>)
  then have ip: "t_state t = IN_PROGRESS"
    and who: "by_assignee rec t \<or> (?svc \<and> failing \<and> in_tuple (dget p ''reason'') ENGINE_REASONS)"
    by blast+
  have st: "t_state t' = report_state (dget p ''state'') (t_gate t)"
    using g unfolding if_not_P [OF c [unfolded by_assignee_def]] bind_res_Inr by (auto split: if_split_asm)
  have "dget p ''state'' = PStr (u ''failed'') \<or> dget p ''state'' = PStr (u ''blocked'')" if "?svc \<and> failing"
    using f that by (simp add: in_strset_True)
  with who st ip assms(2) show ?thesis
    by (auto simp: entitled_def report_state_def by_supervisor_def simp del: in_tuple_simps)
qed

lemma transition_entitled:
  assumes "task_transition k rec p t = Inr t'" and "t_state t' \<noteq> t_state t"
  shows "entitled rec p t (t_state t')"
proof (cases k)
  case Task_Reported
  with assms reported_entitled show ?thesis by (simp add: task_transition_def)
qed (use assms in \<open>auto simp: task_transition_def fold_started_def fold_cancelled_def fold_reassigned_def
      fold_overdue_def entitled_def by_supervisor_def Let_def split: if_splits\<close>)

lemma handler_entitled:
  assumes step: "fold_handler kind seq rec p run_id ident team l = Inr l'"
    and t: "map_of (tasks l) k = Some t" and t': "map_of (tasks l') k = Some t'"
    and moved: "t_state t' \<noteq> t_state t"
  shows "entitled rec p t (t_state t')"
proof -
  consider (req) "kind = Run_Requested" | (start) "kind = Run_Started" | (close) "kind = Run_Closed"
    | (new) "kind = Task_Created" | (task) "fold_task_event kind seq rec p run_id ident team l = Inr l'"
    using step by (cases kind) (auto simp: fold_handler_def)
  then show ?thesis
  proof cases
    case req
    with step t t' moved show ?thesis
      by (auto simp: fold_handler_def fold_run_requested_def split: if_splits)
  next
    case start
    with step t t' moved show ?thesis
      by (auto simp: fold_handler_def fold_run_started_def split: if_splits option.splits)
  next
    case close
    then have c: "fold_run_closed seq rec p run_id team l = Inr l'" using step by (simp add: fold_handler_def)
    have "role rec ''human'' \<or> role rec ''agent''"
      using c by (auto simp: fold_run_closed_def simp del: state_set_simps split: option.splits if_splits)
    with c t t' moved show ?thesis
      by (auto elim!: run_closed_Inr simp: entitled_def cancel_by_run_state split: if_splits)
  next
    case new
    with step t t' moved show ?thesis
      by (auto simp: fold_handler_def elim!: task_created_Inr split: if_splits)
  next
    case task
    then show ?thesis
    proof (rule task_event_Inr)
      fix s s' assume "map_of (tasks l) ident = Some s" "task_transition kind rec p s = Inr s'"
        "l' = l\<lparr>tasks := dset ident (stamp_task seq rec s s') (tasks l)\<rparr>"
      with t t' moved transition_entitled [of kind rec p s s'] show ?thesis
        by (auto split: if_splits)
    qed
  qed
qed

text \<open>
  C3: a task changes state only on an event of somebody entitled to it: work starts by the
  assignee's supervisor, results are reported by the assignee (failures also by its
  supervisor, with an engine reason), and people and agents reassign and cancel.
\<close>

theorem state_changes_are_authorized:
  assumes "fold_event (seq, rec) l = Inr l'" and "map_of (tasks l) k = Some t"
    and "map_of (tasks l') k = Some t'" and "t_state t' \<noteq> t_state t"
  shows "\<exists>p. dget rec ''payload'' = PDict p \<and> entitled rec p t (t_state t') \<and>
    caller_matches (dget rec ''actor_type'') (dget rec ''actor_id'') p"
proof (cases rule: fold_event_cases [OF assms(1)])
  case (1 reason l1)
  with assms show ?thesis by auto
next
  case (2 payload)
  with assms show ?thesis by (auto simp: fold_rejected_def split: pyval.splits if_splits)
next
  case (3 kind payload)
  then have "invalid_events l' = invalid_events l \<and> fold_handler kind seq rec payload
      (str_or_empty (dget rec ''run_id'')) (str_or_empty (dget rec ''task_id''))
      (str_or_empty (dget rec ''team_uid'')) (note_project rec l) = Inr l' \<or> tasks l' = tasks l"
    using 3(8) [symmetric] by (auto simp: catch_ledger_Inr dest: fold_handler_lists)
  then have "entitled rec payload t (t_state t')"
    using assms(2-4) by (auto dest: handler_entitled [where k = k and t = t and t' = t'])
  with 3 show ?thesis by blast
qed

theorem state_changes_are_authorized_witness:
  "\<exists>t t' p. map_of (tasks (smp_ledger [smp_ev_run, smp_ev_create])) (u ''t-aaaaaaaaaaaa'') = Some t \<and>
     map_of (tasks (smp_ledger [smp_ev_run, smp_ev_create, smp_ev_start])) (u ''t-aaaaaaaaaaaa'') = Some t' \<and>
     t_state t' = IN_PROGRESS \<and> entitled (snd smp_ev_start) p t IN_PROGRESS"
proof -
  have step: "fold_event (3, snd smp_ev_start) (smp_ledger [smp_ev_run, smp_ev_create]) =
      Inr (smp_ledger [smp_ev_run, smp_ev_create, smp_ev_start])"
    using smp_run_started smp_run_created run_append [of fold_event "[smp_ev_run, smp_ev_create]" "[smp_ev_start]"]
    by (simp add: smp_ev_start_def split: sum.splits del: run.simps(2)) (simp split: sum.splits)
  have "map_option t_state (map_of (tasks (smp_ledger [smp_ev_run, smp_ev_create])) (u ''t-aaaaaaaaaaaa'')) =
      Some ASSIGNED" by code_simp
  moreover have "map_option t_state (map_of (tasks (smp_ledger [smp_ev_run, smp_ev_create, smp_ev_start]))
      (u ''t-aaaaaaaaaaaa'')) = Some IN_PROGRESS" by code_simp
  ultimately obtain t t' where t: "map_of (tasks (smp_ledger [smp_ev_run, smp_ev_create])) (u ''t-aaaaaaaaaaaa'') = Some t"
    "map_of (tasks (smp_ledger [smp_ev_run, smp_ev_create, smp_ev_start])) (u ''t-aaaaaaaaaaaa'') = Some t'"
    "t_state t = ASSIGNED" "t_state t' = IN_PROGRESS" by auto
  then have "t_state t' \<noteq> t_state t" by simp
  from state_changes_are_authorized [OF step t(1,2) this] t show ?thesis by auto
qed

end
