(* ===== verification/LedgerRegistry.thy ===== *)
theory LedgerRegistry
  imports LedgerText
begin

text \<open>
  What the decision engine of \<open>lib/task_ledger.py\<close> reads from the registry document: the
  delegation limits of a team, the scope check, the agents and the one lead of a team, and
  whether an agent can be assigned a task.
\<close>

section \<open>Limits\<close>

type_synonym limit_table = "(string \<times> int) list"

definition DEFAULT_LIMITS :: limit_table where
  "DEFAULT_LIMITS = [(''max_open'', 8), (''max_new_per_turn'', 4), (''max_tasks_per_run'', 20),
     (''max_assignments_per_task'', 3), (''max_depth'', 1), (''task_deadline_s'', 14400),
     (''max_turns_per_task'', 8)]"

text \<open>\<open>limits[name]\<close>, for the names of \<^const>\<open>DEFAULT_LIMITS\<close>.\<close>

definition lim :: "limit_table \<Rightarrow> string \<Rightarrow> int" where
  "lim t name = (case map_of t name of Some n \<Rightarrow> n | None \<Rightarrow> 0)"

text \<open>A value of the registry as a limit: a positive integer, possibly written as a decimal string.\<close>

definition decimal_as_int :: "pyval \<Rightarrow> exn + pyval" where
  "decimal_as_int v = (case v of
       PStr s \<Rightarrow> if isdecimal s then bind_res (int_of_digits s) (\<lambda>n. Inr (PInt n)) else Inr v
     | _ \<Rightarrow> Inr v)"

definition positive_limit :: "string \<Rightarrow> pyval \<Rightarrow> exn + int" where
  "positive_limit name w = (case w of
       PInt n \<Rightarrow> if n < 1 then Inl (LedgerError (u ''invalid_'' @ u name)) else Inr n
     | _ \<Rightarrow> Inl (LedgerError (u ''invalid_'' @ u name)))"

definition limit_value :: "string \<Rightarrow> pyval \<Rightarrow> exn + int" where
  "limit_value name v = bind_res (decimal_as_int v) (positive_limit name)"

fun read_limits :: "pydict \<Rightarrow> limit_table \<Rightarrow> exn + limit_table" where
  "read_limits d [] = Inr []"
| "read_limits d ((name, dflt) # t) =
     bind_res (limit_value name (dget_or d name (PInt dflt))) (\<lambda>n.
       bind_res (read_limits d t) (\<lambda>r. Inr ((name, n) # r)))"

definition limits :: "pydict \<Rightarrow> pystr \<Rightarrow> exn + limit_table" where
  "limits registry team_uid =
     (case dget registry ''teams'' of
        PDict teams \<Rightarrow>
          (case map_of teams team_uid of
             Some (PDict team) \<Rightarrow>
               (case dget_or team ''delegation'' (PDict []) of
                  PDict delegation \<Rightarrow>
                    if list_ex (\<lambda>(k, _). \<not> list_ex (\<lambda>(n, _). u n = k) DEFAULT_LIMITS) delegation
                    then Inl (LedgerError (u ''invalid_delegation_limits''))
                    else bind_res (read_limits delegation DEFAULT_LIMITS) (\<lambda>result.
                      if lim result ''max_depth'' > 1 then Inl (LedgerError (u ''invalid_max_depth''))
                      else Inr result)
                | _ \<Rightarrow> Inl (LedgerError (u ''invalid_delegation_limits'')))
           | _ \<Rightarrow> Inl (LedgerError (u ''unknown_team'')))
      | _ \<Rightarrow> Inl (LedgerError (u ''unknown_team'')))"

section \<open>Agents\<close>

text \<open>\<open>_agent\<close>: \<open>agents.get(uid)\<close> raises on an unhashable operand.\<close>

definition registry_agent :: "pydict \<Rightarrow> pyval \<Rightarrow> exn + pydict option" where
  "registry_agent registry uid =
     (case dget_or registry ''agents'' (PDict []) of
        PDict agents \<Rightarrow>
          if \<not> hashable uid then Inl TypeError
          else Inr (case uid of
              PStr s \<Rightarrow> (case map_of agents s of Some (PDict a) \<Rightarrow> Some a | _ \<Rightarrow> None)
            | _ \<Rightarrow> None)
      | _ \<Rightarrow> Inr None)"

definition is_lead_of :: "pystr \<Rightarrow> pyval \<Rightarrow> bool" where
  "is_lead_of team v = (case v of
       PDict a \<Rightarrow> dget a ''team_uid'' = PStr team \<and> dget a ''lead'' = PStr (u ''true'')
     | _ \<Rightarrow> False)"

definition team_lead :: "pydict \<Rightarrow> pystr \<Rightarrow> exn + pystr" where
  "team_lead registry team =
     (case dget registry ''agents'' of
        PDict agents \<Rightarrow>
          (case filter (\<lambda>(_, v). is_lead_of team v) agents of
             [(uid, _)] \<Rightarrow> Inr uid
           | _ \<Rightarrow> Inl (LedgerError (u ''team must have exactly one lead'')))
      | _ \<Rightarrow> Inl (LedgerError (u ''invalid_agents_registry'')))"

definition valid_assignee :: "pydict \<Rightarrow> pyval \<Rightarrow> pystr \<Rightarrow> exn + string option" where
  "valid_assignee registry uid team =
     bind_res (registry_agent registry uid) (\<lambda>value.
       Inr (case value of
           None \<Rightarrow> Some ''unknown_assignee''
         | Some a \<Rightarrow>
             if a = [] then Some ''unknown_assignee''
             else if dget a ''team_uid'' \<noteq> PStr team then Some ''cross_team''
             else if dget a ''mode'' \<noteq> PStr (u ''supervised'') \<or> dget a ''lead'' = PStr (u ''true'')
               then Some ''invalid_assignee''
             else None))"

section \<open>Scope\<close>

definition validate_registry_scope :: "pydict \<Rightarrow> pystr \<Rightarrow> pystr \<Rightarrow> exn + unit" where
  "validate_registry_scope registry project_uid team_uid =
     (if \<not> py_eq (dget registry ''schema_version'') (PInt 5)
        then Inl (LedgerError (u ''task ledger requires registry schema_version 5''))
      else case dget registry ''projects'' of
        PDict projects \<Rightarrow>
          (case map_of projects project_uid of
             Some (PDict _) \<Rightarrow>
               (case dget registry ''teams'' of
                  PDict teams \<Rightarrow>
                    (case map_of teams team_uid of
                       Some (PDict team) \<Rightarrow>
                         if dget team ''project'' \<noteq> PStr project_uid \<or>
                            \<not> startswith team_uid (project_uid @ u ''-'')
                         then Inl (LedgerError (u ''team_project_mismatch''))
                         else bind_res (team_lead registry team_uid) (\<lambda>_. Inr ())
                     | _ \<Rightarrow> Inl (LedgerError (u ''unknown_team'')))
                | _ \<Rightarrow> Inl (LedgerError (u ''unknown_team'')))
           | _ \<Rightarrow> Inl (LedgerError (u ''unknown_project'')))
      | _ \<Rightarrow> Inl (LedgerError (u ''unknown_project'')))"

section \<open>Lemmas\<close>

lemma positive_limit_pos: "positive_limit name w = Inr n \<Longrightarrow> 1 \<le> n"
  by (cases w) (auto simp: positive_limit_def split: if_splits)

lemma limit_value_pos: "limit_value name v = Inr n \<Longrightarrow> 1 \<le> n"
  by (auto simp: limit_value_def bind_res_Inr intro: positive_limit_pos)

lemma read_limits_pos:
  "read_limits d t = Inr r \<Longrightarrow> map fst r = map fst t \<and> (\<forall>(name, n) \<in> set r. 1 \<le> n)"
proof (induction t arbitrary: r)
  case Nil
  then show ?case by simp
next
  case (Cons p t)
  obtain name dflt where p: "p = (name, dflt)" by (cases p)
  from Cons.prems p obtain n q where "limit_value name (dget_or d name (PInt dflt)) = Inr n"
    and "read_limits d t = Inr q" and "r = (name, n) # q"
    by (auto simp: bind_res_Inr)
  with Cons.IH limit_value_pos p show ?case by auto
qed

lemma limits_read:
  assumes "limits registry team = Inr t"
  obtains d where "read_limits d DEFAULT_LIMITS = Inr t" and "lim t ''max_depth'' \<le> 1"
  using assms
  by (auto simp: limits_def bind_res_Inr split: pyval.splits option.splits if_splits)

lemma limits_pos:
  assumes "limits registry team = Inr t" and "name \<in> set (map fst DEFAULT_LIMITS)"
  shows "1 \<le> lim t name"
  using assms(1)
proof (rule limits_read)
  fix d assume "read_limits d DEFAULT_LIMITS = Inr t"
  from read_limits_pos [OF this] assms(2)
  have names: "name \<in> fst ` set t" and pos: "\<forall>(name, n) \<in> set t. 1 \<le> n" by (metis set_map, blast)
  from names obtain n where n: "map_of t name = Some n"
    by (metis map_of_eq_None_iff not_Some_eq)
  with map_of_SomeD [OF n] pos show ?thesis by (auto simp: lim_def)
qed

lemma limits_depth: "limits registry team = Inr t \<Longrightarrow> lim t ''max_depth'' = 1"
  using limits_pos [of registry team t "''max_depth''"]
  by (auto elim!: limits_read simp: DEFAULT_LIMITS_def)

text \<open>The lead found is an agent of the team marked as lead, and the only one.\<close>

lemma team_lead_unique:
  assumes "team_lead registry team = Inr uid" and "dget registry ''agents'' = PDict agents"
    and "(k, v) \<in> set agents" and "is_lead_of team v"
  shows "k = uid"
proof -
  obtain w where "filter (\<lambda>(_, v). is_lead_of team v) agents = [(uid, w)]"
    using assms(1,2) by (auto simp: team_lead_def split: list.splits)
  moreover have "(k, v) \<in> set (filter (\<lambda>(_, v). is_lead_of team v) agents)"
    using assms(3,4) by simp
  ultimately show ?thesis by simp
qed

text \<open>An agent that may be assigned is a supervised non-lead agent of the team.\<close>

lemma valid_assignee_None:
  assumes "valid_assignee registry uid team = Inr None"
  obtains s a agents where "uid = PStr s" and "dget_or registry ''agents'' (PDict []) = PDict agents"
    and "map_of agents s = Some (PDict a)" and "dget a ''team_uid'' = PStr team"
    and "dget a ''mode'' = PStr (u ''supervised'')" and "dget a ''lead'' \<noteq> PStr (u ''true'')"
  using assms
  by (auto simp: valid_assignee_def registry_agent_def bind_res_Inr
      split: pyval.splits option.splits if_splits)

end
