(* ===== verification/TaskBody.thy ===== *)
theory TaskBody
  imports LedgerText
begin

text \<open>
  The body sidecars of \<open>lib/task_ledger.py\<close>: one file per task under the \<open>bodies\<close> directory,
  written once by the writer of the ledger (\<open>_write_body\<close>) and read back by
  \<open>read_body_sidecar\<close>. The directory is a dictionary from file names to entries; what the
  operating system contributes (effective user, whether the directories open, the group a new
  file gets, the room left on the device) are fields of the store.
\<close>

section \<open>The store\<close>

text \<open>The mode \<open>0o640\<close> is 416.\<close>

record body_file =
  f_regular :: bool
  f_uid :: nat
  f_gid :: nat
  f_nlink :: nat
  f_mode :: nat
  f_data :: bytes

text \<open>A directory entry: a symbolic link, which \<open>O_NOFOLLOW\<close> refuses, or an inode.\<close>

datatype dir_entry = Link | Inode body_file

record body_store =
  b_dirs_open :: bool
  b_gid :: nat
  b_new_gid :: nat
  b_euid :: nat
  b_test_seam :: bool
  b_room :: nat
  b_files :: "(pystr, dir_entry) dict"

definition body_name :: "pystr \<Rightarrow> pystr" where
  "body_name ident = ident @ u ''.md''"

definition expected_uid :: "body_store \<Rightarrow> nat" where
  "expected_uid b = (if b_test_seam b then b_euid b else 0)"

definition private_inode :: "body_store \<Rightarrow> body_file \<Rightarrow> bool" where
  "private_inode b f = (f_regular f \<and> f_uid f = expected_uid b \<and> f_gid f = b_gid b \<and>
     f_nlink f = 1 \<and> f_mode f = 416)"

section \<open>Writing\<close>

text \<open>
  A new file takes as many bytes as there is room for; when the room ends before the body
  does, \<open>os.write\<close> raises and the partial file stays. An existing file is only compared.
\<close>

definition write_body :: "pystr \<Rightarrow> bytes \<Rightarrow> body_store \<Rightarrow> bool \<times> body_store" where
  "write_body ident body b =
     (if length body > 8192 \<or> 0 \<in> set body then (False, b)
      else if \<not> b_dirs_open b then (False, b)
      else case map_of (b_files b) (body_name ident) of
        None \<Rightarrow>
          (length body \<le> b_room b,
           b\<lparr>b_files := dset (body_name ident)
               (Inode \<lparr>f_regular = True, f_uid = b_euid b, f_gid = b_new_gid b, f_nlink = 1,
                  f_mode = 416, f_data = take (b_room b) body\<rparr>) (b_files b),
             b_room := b_room b - length body\<rparr>)
      | Some Link \<Rightarrow> (False, b)
      | Some (Inode f) \<Rightarrow>
          if \<not> private_inode b f then (False, b)
          else if length (f_data f) > 8192 then (False, b)
          else (f_data f = body, b))"

section \<open>Reading\<close>

definition read_body_sidecar :: "pystr \<Rightarrow> body_store \<Rightarrow> exn + pystr" where
  "read_body_sidecar ident b =
     (if \<not> fullmatch TASK_RE ident then Inl (LedgerError (u ''invalid task body id''))
      else if \<not> b_dirs_open b then Inl (LedgerError (u ''unsafe task body sidecar''))
      else case map_of (b_files b) (body_name ident) of
        Some (Inode f) \<Rightarrow>
          if \<not> private_inode b f \<or> length (f_data f) > 8192
            then Inl (LedgerError (u ''unsafe task body sidecar''))
          else if 0 \<in> set (f_data f) then Inl (LedgerError (u ''unsafe task body sidecar''))
          else (case utf8_decode (f_data f) of
              Inl _ \<Rightarrow> Inl (LedgerError (u ''unsafe task body sidecar''))
            | Inr s \<Rightarrow> Inr s)
      | _ \<Rightarrow> Inl (LedgerError (u ''unsafe task body sidecar'')))"

section \<open>Lemmas\<close>

lemma body_name_inject [simp]: "body_name a = body_name b \<longleftrightarrow> a = b"
  by (simp add: body_name_def)

text \<open>A write never changes or removes an entry that is there.\<close>

lemma write_body_keeps:
  "map_of (b_files b) n = Some e \<Longrightarrow> map_of (b_files (snd (write_body ident body b))) n = Some e"
  by (auto simp: write_body_def split: option.splits dir_entry.splits if_splits)

lemma write_body_env [simp]:
  "b_dirs_open (snd (write_body ident body b)) = b_dirs_open b"
  "b_gid (snd (write_body ident body b)) = b_gid b"
  "b_euid (snd (write_body ident body b)) = b_euid b"
  "b_new_gid (snd (write_body ident body b)) = b_new_gid b"
  "expected_uid (snd (write_body ident body b)) = expected_uid b"
  "private_inode (snd (write_body ident body b)) f = private_inode b f"
  by (auto simp: write_body_def expected_uid_def private_inode_def split: option.splits dir_entry.splits)

lemma write_body_True:
  assumes "write_body ident body b = (True, b')"
  obtains f where "map_of (b_files b') (body_name ident) = Some (Inode f)" and "f_data f = body"
    and "length body \<le> 8192" and "0 \<notin> set body" and "b_dirs_open b"
    and "private_inode b f \<or> (f_regular f \<and> f_uid f = b_euid b \<and> f_gid f = b_new_gid b \<and>
      f_nlink f = 1 \<and> f_mode f = 416)"
proof -
  have g: "length body \<le> 8192" "0 \<notin> set body" "b_dirs_open b"
    using assms by (auto simp: write_body_def split: if_splits)
  show thesis
  proof (cases "map_of (b_files b) (body_name ident)")
    case None
    with g assms that show thesis by (auto simp: write_body_def)
  next
    case (Some e)
    with g assms that show thesis
      by (cases e) (auto simp: write_body_def split: if_splits)
  qed
qed

section \<open>Properties\<close>

text \<open>
  when \<open>_write_body\<close> reports success, the sidecar holds exactly the given bytes, no other
  entry of the directory changed, writing the same body again succeeds and changes nothing,
  and any other body for the same task is refused.
\<close>

theorem write_body_once:
  assumes "write_body ident body b = (True, b')"
    and "b_euid b = expected_uid b" and "b_new_gid b = b_gid b"
  shows "(\<exists>f. map_of (b_files b') (body_name ident) = Some (Inode f) \<and> f_data f = body) \<and>
    (\<forall>n. n \<noteq> body_name ident \<longrightarrow> map_of (b_files b') n = map_of (b_files b) n) \<and>
    write_body ident body b' = (True, b') \<and>
    (\<forall>other. other \<noteq> body \<longrightarrow> write_body ident other b' = (False, b'))"
  using assms(1)
proof (rule write_body_True)
  fix f assume f: "map_of (b_files b') (body_name ident) = Some (Inode f)" "f_data f = body"
    and g: "length body \<le> 8192" "0 \<notin> set body" "b_dirs_open b"
    and "private_inode b f \<or> (f_regular f \<and> f_uid f = b_euid b \<and> f_gid f = b_new_gid b \<and>
      f_nlink f = 1 \<and> f_mode f = 416)"
  then have "private_inode b f" using assms(2,3) by (auto simp: private_inode_def)
  moreover have b': "b' = snd (write_body ident body b)" using assms(1) by simp
  ultimately have priv: "private_inode b' f" and dirs: "b_dirs_open b'" using g by simp_all
  have "map_of (b_files b') n = map_of (b_files b) n" if "n \<noteq> body_name ident" for n
    using assms(1) that by (auto simp: write_body_def split: if_splits option.splits dir_entry.splits)
  then show ?thesis
    using f g priv dirs by (auto simp: write_body_def)
qed

definition smp_store :: body_store where
  "smp_store = \<lparr>b_dirs_open = True, b_gid = 7, b_new_gid = 7, b_euid = 0, b_test_seam = False,
     b_room = 100, b_files = []\<rparr>"

theorem write_body_once_witness:
  "\<exists>b'. write_body (u ''t-aaaaaaaaaaaa'') [0x41, 0x42] smp_store = (True, b') \<and>
     write_body (u ''t-aaaaaaaaaaaa'') [0x41, 0x42] b' = (True, b') \<and>
     write_body (u ''t-aaaaaaaaaaaa'') [0x43] b' = (False, b')"
proof -
  obtain b' where w: "write_body (u ''t-aaaaaaaaaaaa'') [0x41, 0x42] smp_store = (True, b')"
    by (simp add: write_body_def smp_store_def)
  have "b_euid smp_store = expected_uid smp_store" "b_new_gid smp_store = b_gid smp_store"
    by (simp_all add: smp_store_def expected_uid_def)
  from write_body_once [OF w this] w show ?thesis by auto
qed

text \<open>
  Reading back what the writer stored: if the writer runs as the expected owner and the
  directory hands on its group, a body that encodes text is read as that text.
\<close>

theorem sidecar_roundtrip:
  assumes "fullmatch TASK_RE ident" and "list_all scalar_value text" and "utf8_encode text = Inr body"
    and "write_body ident body b = (True, b')"
    and "b_euid b = expected_uid b" and "b_new_gid b = b_gid b"
  shows "read_body_sidecar ident b' = Inr text"
  using assms(4)
proof (rule write_body_True)
  fix f assume f: "map_of (b_files b') (body_name ident) = Some (Inode f)" "f_data f = body"
    and g: "length body \<le> 8192" "0 \<notin> set body" "b_dirs_open b"
    and "private_inode b f \<or> (f_regular f \<and> f_uid f = b_euid b \<and> f_gid f = b_new_gid b \<and>
      f_nlink f = 1 \<and> f_mode f = 416)"
  then have "private_inode b f" using assms(5,6) by (auto simp: private_inode_def)
  moreover have "b' = snd (write_body ident body b)" using assms(4) by simp
  ultimately have "private_inode b' f" "b_dirs_open b'" using g by simp_all
  then show ?thesis
    using f g assms(1) utf8_roundtrip [OF assms(2,3)] by (simp add: read_body_sidecar_def)
qed

theorem sidecar_roundtrip_witness:
  "\<exists>b'. write_body (u ''t-aaaaaaaaaaaa'') [0x41, 0x42] smp_store = (True, b') \<and>
     read_body_sidecar (u ''t-aaaaaaaaaaaa'') b' = Inr (u ''AB'')"
proof -
  have t: "fullmatch TASK_RE (u ''t-aaaaaaaaaaaa'')" "list_all scalar_value (u ''AB'')"
    "utf8_encode (u ''AB'') = Inr [0x41, 0x42]" by code_simp+
  obtain b' where w: "write_body (u ''t-aaaaaaaaaaaa'') [0x41, 0x42] smp_store = (True, b')"
    by (simp add: write_body_def smp_store_def)
  have "b_euid smp_store = expected_uid smp_store" "b_new_gid smp_store = b_gid smp_store"
    by (simp_all add: smp_store_def expected_uid_def)
  from sidecar_roundtrip [OF t w this] w show ?thesis by auto
qed

end
