(* ===== verification/LedgerDecide.thy ===== *)
theory LedgerDecide
  imports LedgerFold LedgerRegistry TaskBody
begin

text \<open>
  The decision engine of \<open>lib/task_ledger.py\<close>: \<open>decide\<close> turns a request and the current fold
  into the event that is committed, either the requested event or a \<open>task.rejected\<close> that
  names the reason. The clock is an argument (seconds since the epoch), and the body store is
  passed and returned, since an accepted task writes its sidecar first.
\<close>

section \<open>Requests and decisions\<close>

record request =
  q_kind :: event_kind
  q_project :: pystr
  q_team :: pystr
  q_run :: pystr
  q_task :: "pystr option"
  q_causation :: pystr
  q_actor_type :: pystr
  q_actor_id :: pystr
  q_caller :: pystr
  q_payload :: pydict
  q_expected_seq :: "int option"

record decision =
  d_kind :: event_kind
  d_payload :: pydict
  d_accepted :: bool
  d_reason :: pystr

definition rejection :: "request \<Rightarrow> string \<Rightarrow> decision" where
  "rejection q reason =
     \<lparr>d_kind = Task_Rejected,
      d_payload = [(u ''caller'', PStr (q_caller q)),
        (u ''requested_type'', PStr (u (kind_name (q_kind q)))),
        (u ''reason'', PStr (u reason)), (u ''causation_id'', PStr (q_causation q))],
      d_accepted = False, d_reason = u reason\<rparr>"

definition caller_actor_reason :: "pystr \<Rightarrow> pystr \<Rightarrow> pystr \<Rightarrow> pydict \<Rightarrow> string option" where
  "caller_actor_reason caller actor_type actor_id payload =
     (if caller \<noteq> u ''root:root'' then Some ''caller_unauthorized''
      else if caller_matches (PStr actor_type) (PStr actor_id) payload then None
      else Some ''caller_actor_mismatch'')"

section \<open>Who is asking\<close>

record actor =
  is_human :: bool
  is_gateway :: bool
  is_lead :: bool
  is_service :: bool

definition actor_of :: "request \<Rightarrow> pystr \<Rightarrow> actor" where
  "actor_of q lead_uid =
     (let requester = dget (q_payload q) ''requester''; human = (q_actor_type q = u ''human'') in
      \<lparr>is_human = (human \<and> is_str requester \<and> startswith (str_or_empty requester) (u ''human:'')),
       is_gateway = (human \<and> is_str requester \<and> startswith (str_or_empty requester) (u ''gateway:'')),
       is_lead = (q_actor_type q = u ''agent'' \<and> q_actor_id q = lead_uid),
       is_service = (q_actor_type q = u ''service'')\<rparr>)"

abbreviation as_supervisor :: "request \<Rightarrow> actor \<Rightarrow> pystr \<Rightarrow> bool" where
  "as_supervisor q a uid \<equiv> is_service a \<and> q_actor_id q = u ''supervisor:'' @ uid"

section \<open>Counts over the ledger\<close>

definition open_count :: "pystr \<Rightarrow> ledger \<Rightarrow> int" where
  "open_count team l = sum_list (map (\<lambda>t. if t_state t \<in> set OPEN_LIMIT \<and> t_team_uid t = team then 1 else 0)
     (dvalues (tasks l)))"

definition run_assignments :: "pystr \<Rightarrow> ledger \<Rightarrow> int" where
  "run_assignments run_id l = sum_list (map (\<lambda>t. if t_run_id t = run_id then t_assignments t else 0)
     (dvalues (tasks l)))"

definition duplicate_source :: "pydict \<Rightarrow> task_row \<Rightarrow> bool" where
  "duplicate_source payload t =
     (t_state t \<in> set NONTERMINAL \<and> dget payload ''source_msg_id'' = PStr (t_source_msg_id t) \<and>
      dget payload ''assignee'' = PStr (t_assignee t))"

section \<open>The branches\<close>

text \<open>
  Each branch returns the reason of its rejection, or \<open>None\<close> when the request may pass.
\<close>

definition REASON_RE :: re where
  "REASON_RE = Rep [(97, 122), (95, 95)] 1 64"

definition decide_rejected :: "request \<Rightarrow> pydict \<Rightarrow> actor \<Rightarrow> exn + string option" where
  "decide_rejected q registry a =
     (let requested = dget (q_payload q) ''requested_type''; reason = dget (q_payload q) ''reason'';
          service_uid = (if is_service a then removeprefix (q_actor_id q) (u ''supervisor:'') else [])
      in bind_res (registry_agent registry (PStr service_uid)) (\<lambda>agent.
        if \<not> is_service a \<or> (case agent of None \<Rightarrow> True
             | Some g \<Rightarrow> g = [] \<or> dget g ''team_uid'' \<noteq> PStr (q_team q))
        then Inr (Some ''unauthorized'')
        else bind_res (in_strset requested (remove1 ''task.rejected'' (map snd EVENT_TYPES))) (\<lambda>known.
          if \<not> known \<or> \<not> is_str reason \<or> \<not> fullmatch REASON_RE (str_or_empty reason)
          then Inr (Some ''unauthorized'') else Inr None)))"

definition decide_run_requested :: "request \<Rightarrow> ledger \<Rightarrow> actor \<Rightarrow> string option" where
  "decide_run_requested q l a =
     (if \<not> (is_human a \<or> is_gateway a) then Some ''unauthorized''
      else if map_of (runs l) (q_run q) \<noteq> None then Some ''duplicate''
      else None)"

definition decide_run_closed :: "request \<Rightarrow> ledger \<Rightarrow> actor \<Rightarrow> string option" where
  "decide_run_closed q l a =
     (case map_of (runs l) (q_run q) of
        None \<Rightarrow> Some ''unknown_run''
      | Some r \<Rightarrow>
          if r_team_uid r \<noteq> q_team q then Some ''cross_team''
          else if r_state r \<in> set CLOSED_RUN then Some ''run_closed''
          else if \<not> (is_human a \<or> is_lead a) then Some ''not_lead''
          else if dget (q_payload q) ''outcome'' = PStr (u ''completed'') \<and>
                  list_ex (is_open_of_run (q_run q)) (dvalues (tasks l)) then Some ''open_tasks''
          else None)"

definition task_of :: "request \<Rightarrow> ledger \<Rightarrow> task_row option" where
  "task_of q l = (case q_task q of None \<Rightarrow> None | Some k \<Rightarrow> map_of (tasks l) k)"

definition decide_task_created ::
  "request \<Rightarrow> ledger \<Rightarrow> pydict \<Rightarrow> limit_table \<Rightarrow> actor \<Rightarrow> exn + string option" where
  "decide_task_created q l registry lims a =
     (if \<not> (is_human a \<or> is_lead a) then Inr (Some ''not_lead'')
      else case map_of (runs l) (q_run q) of
        None \<Rightarrow> Inr (Some ''unknown_run'')
      | Some r \<Rightarrow>
          if r_team_uid r \<noteq> q_team q then Inr (Some ''cross_team'')
          else if r_state r \<in> set CLOSED_RUN then Inr (Some ''run_closed'')
          else if task_of q l \<noteq> None then Inr (Some ''duplicate'')
          else if dget (q_payload q) ''gate'' \<noteq> PStr (u ''none'') then Inr (Some ''gate_not_available'')
          else if \<not> py_eq (dget (q_payload q) ''depth'') (PInt 1) \<or> 1 > lim lims ''max_depth''
            then Inr (Some ''max_depth'')
          else bind_res (valid_assignee registry (dget_or (q_payload q) ''assignee'' (PStr [])) (q_team q))
            (\<lambda>bad.
              if bad \<noteq> None then Inr bad
              else if list_ex (duplicate_source (q_payload q)) (dvalues (tasks l)) then Inr (Some ''duplicate'')
              else if open_count (q_team q) l \<ge> lim lims ''max_open'' then Inr (Some ''max_open'')
              else if run_assignments (q_run q) l \<ge> lim lims ''max_tasks_per_run''
                then Inr (Some ''max_tasks_per_run'')
              else Inr None))"

definition decide_task_started :: "request \<Rightarrow> task_row \<Rightarrow> actor \<Rightarrow> string option" where
  "decide_task_started q t a =
     (if \<not> as_supervisor q a (t_assignee t) then Some ''not_assignee''
      else if t_state t \<noteq> ASSIGNED then Some ''invalid_transition''
      else None)"

definition decide_task_reported ::
  "request \<Rightarrow> task_row \<Rightarrow> limit_table \<Rightarrow> actor \<Rightarrow> exn + string option" where
  "decide_task_reported q t lims a =
     (let report = dget (q_payload q) ''state''; reason = dget (q_payload q) ''reason'';
          agent_ok = (q_actor_type q = u ''agent'' \<and> q_actor_id q = t_assignee t)
      in bind_res (if as_supervisor q a (t_assignee t) then in_strset report [''failed'', ''blocked'']
            else Inr False) (\<lambda>failing.
         bind_res (if failing then in_strset reason ENGINE_REASONS else Inr False) (\<lambda>service_ok.
           if \<not> (agent_ok \<or> service_ok)
             then Inr (Some (if \<not> is_service a then ''not_assignee'' else ''unauthorized_reason''))
           else if t_state t \<noteq> IN_PROGRESS then Inr (Some ''invalid_transition'')
           else if report = PStr (u ''progress'') \<and> t_turns t \<ge> lim lims ''max_turns_per_task''
             then Inr (Some ''max_turns_per_task'')
           else Inr None)))"

definition decide_task_cancelled :: "request \<Rightarrow> task_row \<Rightarrow> actor \<Rightarrow> string option" where
  "decide_task_cancelled q t a =
     (let delivery = (as_supervisor q a (t_assignee t) \<and>
            dget (q_payload q) ''reason'' = PStr (u ''delivery_failed'') \<and> t_state t = ASSIGNED)
      in if \<not> (is_human a \<or> is_gateway a \<or> is_lead a \<or> delivery) then Some ''unauthorized''
      else if t_state t \<in> set TERMINAL then Some ''invalid_transition''
      else None)"

definition decide_reassigned ::
  "request \<Rightarrow> ledger \<Rightarrow> pydict \<Rightarrow> task_row \<Rightarrow> limit_table \<Rightarrow> actor \<Rightarrow> exn + string option" where
  "decide_reassigned q l registry t lims a =
     (if \<not> (is_human a \<or> is_lead a) then Inr (Some ''not_lead'')
      else if \<not> (t_state t = BLOCKED \<or> (q_kind q = Task_Reopened \<and> t_state t = FAILED))
        then Inr (Some ''invalid_transition'')
      else bind_res (valid_assignee registry (dget_or (q_payload q) ''assignee'' (PStr [])) (q_team q))
        (\<lambda>bad.
          if bad \<noteq> None then Inr bad
          else if t_assignments t \<ge> lim lims ''max_assignments_per_task''
            then Inr (Some ''max_assignments_per_task'')
          else if open_count (q_team q) l \<ge> lim lims ''max_open'' then Inr (Some ''max_open'')
          else if run_assignments (q_run q) l \<ge> lim lims ''max_tasks_per_run''
            then Inr (Some ''max_tasks_per_run'')
          else Inr None))"

definition decide_overdue :: "request \<Rightarrow> task_row \<Rightarrow> pystr \<Rightarrow> actor \<Rightarrow> string option" where
  "decide_overdue q t lead_uid a =
     (if \<not> as_supervisor q a lead_uid then Some ''not_lead''
      else if t_state t \<in> set TERMINAL then Some ''invalid_transition''
      else None)"

definition stale_update :: "request \<Rightarrow> task_row \<Rightarrow> actor \<Rightarrow> bool" where
  "stale_update q t a =
     (q_kind q \<in> {Task_Reassigned, Task_Reopened, Task_Cancelled} \<and>
      (is_human a \<or> is_gateway a \<or> is_lead a) \<and> q_expected_seq q \<noteq> None \<and>
      t_state_seq t \<noteq> q_expected_seq q)"

text \<open>The branch for the events of an existing task.\<close>

definition decide_task ::
  "request \<Rightarrow> ledger \<Rightarrow> pydict \<Rightarrow> limit_table \<Rightarrow> pystr \<Rightarrow> actor \<Rightarrow> exn + string option" where
  "decide_task q l registry lims lead_uid a =
     (case task_of q l of
        None \<Rightarrow> Inr (Some ''unknown_task'')
      | Some t \<Rightarrow>
          if t_run_id t \<noteq> q_run q then Inr (Some ''unknown_task'')
          else if t_team_uid t \<noteq> q_team q then Inr (Some ''cross_team'')
          else (case map_of (runs l) (q_run q) of
              None \<Rightarrow> Inr (Some ''unknown_run'')
            | Some r \<Rightarrow>
                if r_team_uid r \<noteq> t_team_uid t then Inr (Some ''unknown_run'')
                else if r_state r \<in> set CLOSED_RUN then Inr (Some ''run_closed'')
                else if stale_update q t a then Inr (Some ''concurrent_update'')
                else (case q_kind q of
                    Task_Started \<Rightarrow> Inr (decide_task_started q t a)
                  | Task_Reported \<Rightarrow> decide_task_reported q t lims a
                  | Task_Cancelled \<Rightarrow> Inr (decide_task_cancelled q t a)
                  | Task_Reassigned \<Rightarrow> decide_reassigned q l registry t lims a
                  | Task_Reopened \<Rightarrow> decide_reassigned q l registry t lims a
                  | Task_Overdue \<Rightarrow> Inr (decide_overdue q t lead_uid a)
                  | _ \<Rightarrow> Inr (Some ''unsupported_event''))))"

section \<open>The decision\<close>

definition accept :: "request \<Rightarrow> decision" where
  "accept q = \<lparr>d_kind = q_kind q, d_payload = q_payload q, d_accepted = True,
     d_reason = u ''accepted''\<rparr>"

definition answer :: "request \<Rightarrow> string option \<Rightarrow> decision" where
  "answer q bad = (case bad of None \<Rightarrow> accept q | Some reason \<Rightarrow> rejection q reason)"

text \<open>The deadline a task gets when the request names none.\<close>

definition default_deadline :: "int \<Rightarrow> limit_table \<Rightarrow> exn + pystr" where
  "default_deadline now lims =
     (case civil_of_epoch (now + lim lims ''task_deadline_s'') of
        None \<Rightarrow> Inl OverflowError
      | Some c \<Rightarrow> Inr (iso_second c))"

definition task_budget :: "limit_table \<Rightarrow> pyval" where
  "task_budget lims = PDict [(u ''max_turns'', PInt (lim lims ''max_turns_per_task'')),
     (u ''max_attempts'', PInt (lim lims ''max_assignments_per_task''))]"

text \<open>An accepted creation completes its payload and stores the body.\<close>

definition complete_created ::
  "request \<Rightarrow> limit_table \<Rightarrow> int \<Rightarrow> bytes option \<Rightarrow> body_store \<Rightarrow> exn + decision \<times> body_store" where
  "complete_created q lims now body store =
     bind_res (if dget (q_payload q) ''deadline_at'' = PNone
         then bind_res (default_deadline now lims) (\<lambda>s. Inr (dset (u ''deadline_at'') (PStr s) (q_payload q)))
         else Inr (q_payload q)) (\<lambda>p.
       let p2 = dset (u ''budget'') (task_budget lims) p in
       case (body, q_task q) of
         (Some data, Some ident) \<Rightarrow>
           (case write_body ident data store of (ok, store') \<Rightarrow>
             if ok then Inr (accept (q\<lparr>q_payload := p2\<rparr>), store')
             else Inr (rejection q ''unsafe_body_sidecar'', store'))
       | _ \<Rightarrow> Inr (rejection q ''unsafe_body_sidecar'', store))"

definition with_caller :: "request \<Rightarrow> request" where
  "with_caller q = q\<lparr>q_payload := dset (u ''caller'') (PStr (q_caller q)) (q_payload q)\<rparr>"

definition decide ::
  "request \<Rightarrow> ledger \<Rightarrow> pydict \<Rightarrow> int \<Rightarrow> bytes option \<Rightarrow> body_store \<Rightarrow> exn + decision \<times> body_store" where
  "decide req l registry now body store =
     (let q = with_caller req in
      case caller_actor_reason (q_caller q) (q_actor_type q) (q_actor_id q) (q_payload q) of
        Some mismatch \<Rightarrow> Inr (rejection q mismatch, store)
      | None \<Rightarrow>
        bind_res (limits registry (q_team q)) (\<lambda>lims.
        bind_res (team_lead registry (q_team q)) (\<lambda>lead_uid.
          let a = actor_of q lead_uid in
          case q_kind q of
            Task_Rejected \<Rightarrow> bind_res (decide_rejected q registry a) (\<lambda>bad.
              Inr (case bad of Some reason \<Rightarrow> rejection q reason
                 | None \<Rightarrow> \<lparr>d_kind = Task_Rejected, d_payload = q_payload q, d_accepted = False,
                     d_reason = str_or_empty (dget (q_payload q) ''reason'')\<rparr>, store))
          | Run_Requested \<Rightarrow> Inr (answer q (decide_run_requested q l a), store)
          | Run_Closed \<Rightarrow> Inr (answer q (decide_run_closed q l a), store)
          | Task_Created \<Rightarrow> bind_res (decide_task_created q l registry lims a) (\<lambda>bad.
              case bad of Some reason \<Rightarrow> Inr (rejection q reason, store)
              | None \<Rightarrow> complete_created q lims now body store)
          | _ \<Rightarrow> bind_res (decide_task q l registry lims lead_uid a) (\<lambda>bad.
              Inr (answer q bad, store)))))"

end
