(* ===== verification/TaskCli.thy ===== *)
theory TaskCli
  imports LedgerDecide
begin

text \<open>
  The write path of \<open>bin/task\<close> (\<open>lib/task_cli.py\<close>): parsed arguments, their validation, the
  payload of each command, the replay of an already decided causation, and the transaction
  of \<open>main\<close> from the registry snapshot to the committed event. The argument parser guarantees
  the shape of the command datatype (required options and choices); what the system
  contributes (effective user, lock, registry document, clock, body file, exit status of the
  committing shell) are arguments.
\<close>

section \<open>Arguments\<close>

record create_args =
  ca_intent_n :: int
  ca_source_msg_id :: pystr
  ca_assignee :: pystr
  ca_title :: pystr
  ca_body_ref :: pystr
  ca_deadline_at :: "pystr option"
  ca_depth :: int
  ca_gate :: pystr
  ca_context_ref :: "pystr list"

datatype outcome_choice = O_Completed | O_Failed | O_Cancelled
datatype report_choice = R_Progress | R_Done | R_Failed | R_Blocked
datatype actor_choice = A_Human | A_Agent | A_Service | A_Provider

datatype command =
    Run_Create "pystr option"
  | Run_Close outcome_choice "pystr option"
  | Create create_args
  | Start pystr
  | Assign pystr pystr "int option"
  | Report pystr report_choice "pystr option" "pystr option"
  | Cancel pystr "pystr option" "int option"
  | Reopen pystr pystr "int option"
  | Overdue pystr
  | Reject "pystr option" pystr pystr

record cli_args =
  a_command :: command
  a_project :: pystr
  a_team :: pystr
  a_actor_type :: actor_choice
  a_actor_id :: pystr
  a_causation_id :: pystr
  a_run_id :: pystr
  a_via :: "pystr option"
  a_requester :: "pystr option"

definition outcome_text :: "outcome_choice \<Rightarrow> pystr" where
  "outcome_text c = (case c of O_Completed \<Rightarrow> u ''completed'' | O_Failed \<Rightarrow> u ''failed''
     | O_Cancelled \<Rightarrow> u ''cancelled'')"

definition report_text :: "report_choice \<Rightarrow> pystr" where
  "report_text c = (case c of R_Progress \<Rightarrow> u ''progress'' | R_Done \<Rightarrow> u ''done''
     | R_Failed \<Rightarrow> u ''failed'' | R_Blocked \<Rightarrow> u ''blocked'')"

definition actor_text :: "actor_choice \<Rightarrow> pystr" where
  "actor_text c = (case c of A_Human \<Rightarrow> u ''human'' | A_Agent \<Rightarrow> u ''agent''
     | A_Service \<Rightarrow> u ''service'' | A_Provider \<Rightarrow> u ''provider'')"

definition command_event :: "command \<Rightarrow> event_kind" where
  "command_event c = (case c of
       Run_Create _ \<Rightarrow> Run_Requested | Run_Close _ _ \<Rightarrow> Run_Closed | Create _ \<Rightarrow> Task_Created
     | Start _ \<Rightarrow> Task_Started | Assign _ _ _ \<Rightarrow> Task_Reassigned | Report _ _ _ _ \<Rightarrow> Task_Reported
     | Cancel _ _ _ \<Rightarrow> Task_Cancelled | Reopen _ _ _ \<Rightarrow> Task_Reopened | Overdue _ \<Rightarrow> Task_Overdue
     | Reject _ _ _ \<Rightarrow> Task_Rejected)"

text \<open>\<open>getattr(args, "task_id", None)\<close> and \<open>getattr(args, "expect_seq", None)\<close>.\<close>

definition arg_task_id :: "command \<Rightarrow> pystr option" where
  "arg_task_id c = (case c of Start t \<Rightarrow> Some t | Assign t _ _ \<Rightarrow> Some t | Report t _ _ _ \<Rightarrow> Some t
     | Cancel t _ _ \<Rightarrow> Some t | Reopen t _ _ \<Rightarrow> Some t | Overdue t \<Rightarrow> Some t | Reject t _ _ \<Rightarrow> t
     | _ \<Rightarrow> None)"

definition arg_expect_seq :: "command \<Rightarrow> int option" where
  "arg_expect_seq c = (case c of Assign _ _ e \<Rightarrow> e | Cancel _ _ e \<Rightarrow> e | Reopen _ _ e \<Rightarrow> e | _ \<Rightarrow> None)"

section \<open>References\<close>

definition REF_TEXT_RE :: re where
  "REF_TEXT_RE = Rep [(65, 90), (97, 122), (48, 57), (46, 47), (95, 95), (64, 64), (58, 58), (43, 43),
     (126, 126), (94, 94), (45, 45)] 1 255"

text \<open>\<open>part in text\<close>.\<close>

fun is_infix :: "'a list \<Rightarrow> 'a list \<Rightarrow> bool" where
  "is_infix p [] = (p = [])"
| "is_infix p (c # s) = (startswith (c # s) p \<or> is_infix p s)"

abbreviation "DOT \<equiv> (46 :: nat)"
abbreviation "SLASH \<equiv> (47 :: nat)"
abbreviation "COLON \<equiv> (58 :: nat)"

definition valid_file_ref :: "pystr \<Rightarrow> bool" where
  "valid_file_ref ref =
     (\<not> (startswith ref [SLASH] \<or> list_ex (\<lambda>p. p = [] \<or> p = [DOT] \<or> p = [DOT, DOT]) (splitc SLASH ref)))"

definition valid_git_ref :: "pystr \<Rightarrow> bool" where
  "valid_git_ref ref =
     (\<not> (ref = [64] \<or> startswith ref [SLASH] \<or> startswith ref [DOT] \<or> endswith ref [SLASH] \<or>
         endswith ref [DOT] \<or> is_infix [DOT, DOT] ref \<or>
         list_ex (\<lambda>c. c \<in> {126, 94, COLON}) ref \<or>
         list_ex (\<lambda>p. p = [] \<or> startswith p [DOT] \<or> endswith p (u ''.lock'')) (splitc SLASH ref)))"

definition valid_ref :: "pystr \<Rightarrow> bool" where
  "valid_ref value = (case partitionc COLON value of (pre, separator, ref) \<Rightarrow>
     if \<not> separator \<or> \<not> in_tuple (PStr pre) [''msg'', ''git'', ''file''] \<or>
        \<not> fullmatch REF_TEXT_RE ref \<or> startswith ref [45] then False
     else if pre = u ''msg'' then fullmatch TOKEN_RE ref
     else if pre = u ''file'' then valid_file_ref ref
     else valid_git_ref ref)"

section \<open>Common validation\<close>

abbreviation "NAME \<equiv> Seq (Cls ALNUM) (Star (Cls [(97, 122), (48, 57), (95, 95), (45, 45)]))"

definition actor_pattern :: "actor_choice \<Rightarrow> re" where
  "actor_pattern c = (case c of
       A_Human \<Rightarrow> Alt NAME (Seq (Lit (u ''gateway:'')) NAME)
     | A_Agent \<Rightarrow> UID_RE
     | A_Service \<Rightarrow> Seq (Lit (u ''supervisor:'')) UID_RE
     | A_Provider \<Rightarrow> TOKEN_RE)"

definition VIA_RE :: re where
  "VIA_RE = Alt INTENT_VIA_RE CTL_VIA_RE"

definition REQUESTER_RE :: re where
  "REQUESTER_RE = Alt (Seq (Lit (u ''human:'')) NAME) (Seq (Lit (u ''gateway:'')) NAME)"

definition opt_ok :: "('a \<Rightarrow> bool) \<Rightarrow> 'a option \<Rightarrow> bool" where
  "opt_ok p v = (case v of None \<Rightarrow> True | Some x \<Rightarrow> p x)"

definition validate_common :: "cli_args \<Rightarrow> exn + unit" where
  "validate_common args =
     (if \<not> fullmatch TOKEN_RE (a_project args) \<or> \<not> fullmatch UID_RE (a_team args)
        then raise_ledger ''invalid project/team id''
      else if \<not> fullmatch RUN_RE (a_run_id args) then raise_ledger ''invalid run_id (expected r-<12 hex>)''
      else if \<not> opt_ok (fullmatch TASK_RE) (arg_task_id (a_command args))
        then raise_ledger ''invalid task_id (expected t-<12 hex>)''
      else if \<not> fullmatch TOKEN_RE (a_causation_id args) then raise_ledger ''invalid causation_id token''
      else if list_ex (\<lambda>c. c \<in> {0, 13, 10}) (a_actor_id args) \<or> a_actor_id args = []
        then raise_ledger ''invalid actor_id''
      else if \<not> fullmatch (actor_pattern (a_actor_type args)) (a_actor_id args)
        then raise_ledger ''invalid actor_id for actor_type''
      else if \<not> opt_ok (fullmatch VIA_RE) (a_via args) then raise_ledger ''invalid relay reference''
      else if \<not> opt_ok (fullmatch REQUESTER_RE) (a_requester args) then raise_ledger ''invalid requester''
      else if \<not> opt_ok (\<lambda>n. 1 \<le> n) (arg_expect_seq (a_command args))
        then raise_ledger ''expect-seq must be positive''
      else if arg_expect_seq (a_command args) \<noteq> None \<and> a_actor_type args \<notin> {A_Human, A_Agent}
        then raise_ledger ''engine events do not accept expect-seq''
      else Inr ())"

text \<open>The free-text arguments, in the order they are checked for encodable text.\<close>

definition text_arguments :: "command \<Rightarrow> (string \<times> pystr) list" where
  "text_arguments c =
     (let opt = (\<lambda>name v. case v of None \<Rightarrow> [] | Some s \<Rightarrow> [(name, s)]) in
      case c of
        Run_Create ticket \<Rightarrow> opt ''ticket_ref'' ticket
      | Run_Close _ summary \<Rightarrow> opt ''summary_ref'' summary
      | Create ca \<Rightarrow> (''title'', ca_title ca) # (''body_ref'', ca_body_ref ca) #
          map (\<lambda>r. (''context_ref'', r)) (ca_context_ref ca)
      | Report _ _ result reason \<Rightarrow> opt ''reason'' reason @ opt ''result_ref'' result
      | Cancel _ reason _ \<Rightarrow> opt ''reason'' reason
      | Reject _ _ reason \<Rightarrow> [(''reason'', reason)]
      | _ \<Rightarrow> [])"

fun validate_utf8_arguments :: "(string \<times> pystr) list \<Rightarrow> exn + unit" where
  "validate_utf8_arguments [] = Inr ()"
| "validate_utf8_arguments ((name, s) # r) =
     (case utf8_encode s of Inl _ \<Rightarrow> Inl (LedgerError (u ''invalid UTF-8 in '' @ u name))
      | Inr _ \<Rightarrow> validate_utf8_arguments r)"

section \<open>Payloads\<close>

definition opt_str :: "pystr option \<Rightarrow> pyval" where
  "opt_str v = (case v of None \<Rightarrow> PNone | Some s \<Rightarrow> PStr s)"

definition reason_ok :: "pystr option \<Rightarrow> bool" where
  "reason_ok v = opt_ok (\<lambda>s. \<not> (length s > 512 \<or> \<not> safe_display_text s)) v"

definition create_payload :: "cli_args \<Rightarrow> create_args \<Rightarrow> pydict" where
  "create_payload args ca =
     [(u ''parent'', PStr (a_run_id args)), (u ''depth'', PInt (ca_depth ca)),
      (u ''source_msg_id'', PStr (ca_source_msg_id ca)),
      (u ''owner'', PStr (if a_actor_type args = A_Agent then a_actor_id args
         else u ''human:'' @ a_actor_id args)),
      (u ''assignee'', PStr (ca_assignee ca)), (u ''title'', PStr (ca_title ca)),
      (u ''body_ref'', PStr (ca_body_ref ca)), (u ''deadline_at'', opt_str (ca_deadline_at ca)),
      (u ''budget'', PDict [(u ''max_turns'', PInt 8), (u ''max_attempts'', PInt 3)]),
      (u ''gate'', PStr (ca_gate ca)), (u ''context_refs'', PList (map PStr (ca_context_ref ca)))]"

text \<open>
  The command's own part of \<open>payload_for\<close>: payload, task id, body. The body file is read only
  by \<open>create\<close>, after the checks before it.
\<close>

definition command_payload ::
  "cli_args \<Rightarrow> exn + bytes \<Rightarrow> exn + pydict \<times> pystr option \<times> bytes option" where
  "command_payload args body_file =
     (case a_command args of
        Run_Create ticket \<Rightarrow>
          if \<not> opt_ok valid_ref ticket then raise_ledger ''invalid ticket_ref''
          else Inr ([(u ''ticket_ref'', opt_str ticket)], None, None)
      | Run_Close outcome summary \<Rightarrow>
          if \<not> opt_ok valid_ref summary then raise_ledger ''invalid summary_ref''
          else Inr ([(u ''outcome'', PStr (outcome_text outcome)), (u ''summary_ref'', opt_str summary)],
            None, None)
      | Create ca \<Rightarrow>
          if ca_intent_n ca < 1 \<or> ca_intent_n ca > 10 then raise_ledger ''intent_n must be in 1..10''
          else bind_res (task_id (a_causation_id args) (ca_intent_n ca)) (\<lambda>ident.
            if \<not> fullmatch TOKEN_RE (ca_source_msg_id ca) then raise_ledger ''invalid source_msg_id token''
            else if length (ca_title ca) > 120 \<or> ca_title ca = [] \<or> \<not> safe_display_text (ca_title ca)
              then raise_ledger ''title must be one line of 1..120 characters''
            else if \<not> startswith (ca_body_ref ca) (u ''msg:'') \<or> \<not> valid_ref (ca_body_ref ca)
              then raise_ledger ''invalid body_ref''
            else if length (ca_context_ref ca) > 5 \<or> list_ex (\<lambda>r. \<not> valid_ref r) (ca_context_ref ca)
              then raise_ledger ''invalid context_refs''
            else bind_res body_file (\<lambda>body.
              if \<not> opt_ok (\<lambda>d. valid_deadline (PStr d)) (ca_deadline_at ca)
                then raise_ledger ''invalid deadline_at (expected UTC YYYY-MM-DDTHH:MM:SSZ)''
              else Inr (create_payload args ca, Some ident, Some body)))
      | Assign t assignee _ \<Rightarrow> Inr ([(u ''assignee'', PStr assignee)], Some t, None)
      | Reopen t assignee _ \<Rightarrow> Inr ([(u ''assignee'', PStr assignee)], Some t, None)
      | Report t state result reason \<Rightarrow>
          if \<not> opt_ok valid_ref result then raise_ledger ''invalid result_ref''
          else if \<not> reason_ok reason
            then raise_ledger ''reason must be one line of at most 512 characters''
          else Inr ([(u ''state'', PStr (report_text state)), (u ''result_ref'', opt_str result),
            (u ''reason'', opt_str reason)], Some t, None)
      | Cancel t reason _ \<Rightarrow>
          if \<not> reason_ok reason
            then raise_ledger ''reason must be one line of at most 512 characters''
          else Inr ([(u ''reason'', opt_str reason)], Some t, None)
      | Reject t requested reason \<Rightarrow>
          if \<not> in_tuple (PStr requested) [''run.requested'', ''run.closed'', ''task.created'',
               ''task.started'', ''task.reassigned'', ''task.reported'', ''task.cancelled'',
               ''task.reopened'', ''task.overdue'']
            then raise_ledger ''invalid requested event type''
          else if \<not> fullmatch REASON_RE reason then raise_ledger ''invalid rejection reason''
          else Inr ([(u ''requested_type'', PStr requested), (u ''reason'', PStr reason)], t, None)
      | Start t \<Rightarrow> Inr ([], Some t, None)
      | Overdue t \<Rightarrow> Inr ([], Some t, None))"

definition payload_for ::
  "cli_args \<Rightarrow> pystr \<Rightarrow> exn + bytes \<Rightarrow> exn + pydict \<times> pystr option \<times> bytes option" where
  "payload_for args caller body_file =
     bind_res (validate_utf8_arguments (text_arguments (a_command args))) (\<lambda>_.
     bind_res (command_payload args body_file) (\<lambda>(payload, ident, body).
       let p1 = dset (u ''caller'') (PStr caller) payload;
           p2 = (case a_via args of None \<Rightarrow> p1 | Some v \<Rightarrow> dset (u ''via'') (PStr v) p1);
           p3 = (case a_requester args of None \<Rightarrow> p2 | Some v \<Rightarrow> dset (u ''requester'') (PStr v) p2)
       in Inr (p3, ident, body)))"

definition request_for :: "cli_args \<Rightarrow> pystr \<Rightarrow> pydict \<Rightarrow> pystr option \<Rightarrow> request" where
  "request_for args caller payload ident =
     \<lparr>q_kind = command_event (a_command args), q_project = a_project args, q_team = a_team args,
      q_run = a_run_id args, q_task = ident, q_causation = a_causation_id args,
      q_actor_type = actor_text (a_actor_type args), q_actor_id = a_actor_id args,
      q_caller = caller, q_payload = payload,
      q_expected_seq = arg_expect_seq (a_command args)\<rparr>"

section \<open>Committing\<close>

text \<open>
  The record the shell composes from the envelope that \<open>commit\<close> hands it (\<open>lib/task_cli.py\<close> builds
  the envelope, \<open>aib_event_commit\<close> of \<open>lib/aibobnet.sh\<close> the record): empty fields become \<open>null\<close>, the
  event id and the correlation are derived, the sequence is one past the highest.
\<close>

definition or_null :: "pystr \<Rightarrow> pyval" where
  "or_null s = (if s = [] then PNone else PStr s)"

definition compose_record :: "int \<Rightarrow> pystr \<Rightarrow> request \<Rightarrow> event_kind \<Rightarrow> pydict \<Rightarrow> pydict" where
  "compose_record seq now q kind payload =
     [(u ''event_id'', PStr (q_project q @ u ''-tasks-'' @ str_of_int seq)),
      (u ''event_type'', PStr (u (kind_name kind))), (u ''occurred_at'', PStr now),
      (u ''actor_type'', PStr (q_actor_type q)), (u ''actor_id'', PStr (q_actor_id q)),
      (u ''project_uid'', PStr (q_project q)), (u ''team_uid'', or_null (q_team q)),
      (u ''agent_uid'', or_null (if q_actor_type q = u ''agent'' then q_actor_id q else [])),
      (u ''session_id'', PNone), (u ''run_id'', or_null (q_run q)),
      (u ''task_id'', or_null (case q_task q of None \<Rightarrow> [] | Some t \<Rightarrow> t)),
      (u ''gate_id'', PNone), (u ''grant_id'', PNone), (u ''effect_id'', PNone),
      (u ''attempt_id'', PNone), (u ''correlation_id'', or_null (q_run q)),
      (u ''causation_id'', PStr (q_causation q)), (u ''schema_version'', PInt 2),
      (u ''payload'', PDict payload)]"

type_synonym stream = "(int \<times> pydict) list"

definition next_seq :: "stream \<Rightarrow> int" where
  "next_seq es = (if es = [] then 1 else fst (last es) + 1)"

definition commit :: "pystr \<Rightarrow> request \<Rightarrow> event_kind \<Rightarrow> pydict \<Rightarrow> stream \<Rightarrow> stream" where
  "commit now q kind payload es =
     es @ [(next_seq es, compose_record (next_seq es) now q kind payload)]"

section \<open>Replay\<close>

datatype replay = Accepted pyval | Rejected pyval pyval

text \<open>\<open>causation_replay\<close>: the first record with the request's causation decides.\<close>

definition same_request :: "request \<Rightarrow> pydict \<Rightarrow> bool" where
  "same_request q rec =
     (let kind = dget rec ''event_type''; payload = dget_or rec ''payload'' (PDict []) in
      if q_kind q = Task_Rejected \<and> kind = PStr (u ''task.rejected'') then
        (case payload of
           PDict p \<Rightarrow> py_eq (dget p ''requested_type'') (dget (q_payload q) ''requested_type'') \<and>
             py_eq (dget p ''reason'') (dget (q_payload q) ''reason'')
         | _ \<Rightarrow> False)
      else (let prior = (case (kind = PStr (u ''task.rejected''), payload) of
                 (True, PDict p) \<Rightarrow> dget p ''requested_type'' | _ \<Rightarrow> kind)
            in prior = PStr (u (kind_name (q_kind q)))))"

fun causation_replay :: "stream \<Rightarrow> request \<Rightarrow> replay option" where
  "causation_replay [] q = None"
| "causation_replay ((seq, rec) # es) q =
     (if dget rec ''causation_id'' \<noteq> PStr (q_causation q) then causation_replay es q
      else if \<not> same_request q rec \<or> dget rec ''task_id'' \<noteq> opt_str (q_task q)
        then Some (Rejected (dget_or rec ''event_id'' (PStr [])) (PStr (u ''causation_conflict'')))
      else if dget rec ''event_type'' = PStr (u ''task.rejected'') then
        Some (Rejected (dget_or rec ''event_id'' (PStr []))
          (case dget_or rec ''payload'' (PDict []) of PDict p \<Rightarrow> dget p ''reason''
           | _ \<Rightarrow> PStr (u ''rejected'')))
      else Some (Accepted (dget_or rec ''event_id'' (PStr []))))"

section \<open>The transaction\<close>

record environment =
  e_privileged :: bool
  e_caller :: pystr
  e_body_file :: "exn + bytes"
  e_lock_free :: bool
  e_registry :: "exn + pydict"
  e_now :: int
  e_stamp :: pystr
  e_commit_rc :: int

record task_db =
  db_stream :: stream
  db_bodies :: body_store

text \<open>
  Under the lock: registry snapshot, scope, fold, replay, decision, commit. The result is the
  exit status; an exception the handlers of \<open>main\<close> do not catch leaves as it is.
\<close>

definition transact ::
  "cli_args \<Rightarrow> environment \<Rightarrow> request \<Rightarrow> bytes option \<Rightarrow> task_db \<Rightarrow> exn + int \<times> task_db" where
  "transact args env q body db =
     bind_res (e_registry env) (\<lambda>registry.
     bind_res (validate_registry_scope registry (a_project args) (a_team args)) (\<lambda>_.
     bind_res (ledger_fold (u ''ok'') (next_seq (db_stream db) - 1) [] (db_stream db)) (\<lambda>view.
       case causation_replay (db_stream db) q of
         Some (Accepted _) \<Rightarrow> Inr (0, db)
       | Some (Rejected _ _) \<Rightarrow> Inr (77, db)
       | None \<Rightarrow>
           bind_res (decide q (folded view) registry (e_now env) body (db_bodies db)) (\<lambda>(d, bodies).
             if e_commit_rc env \<noteq> 0 then Inr (e_commit_rc env, db\<lparr>db_bodies := bodies\<rparr>)
             else
               let db' = db\<lparr>db_stream := commit (e_stamp env) q (d_kind d) (d_payload d) (db_stream db),
                     db_bodies := bodies\<rparr>
               in if d_accepted d then Inr (0, db')
                  else if d_reason d = u ''concurrent_update'' then Inr (76, db')
                  else Inr (77, db')))))"

definition main_write :: "cli_args \<Rightarrow> environment \<Rightarrow> task_db \<Rightarrow> exn + int \<times> task_db" where
  "main_write args env db =
     (if \<not> e_privileged env then Inr (77, db)
      else bind_res (validate_common args) (\<lambda>_.
        if e_caller env \<noteq> u ''root:root'' then Inr (77, db)
        else bind_res (payload_for args (e_caller env) (e_body_file env)) (\<lambda>(payload, ident, body).
          if \<not> e_lock_free env then Inr (75, db)
          else transact args env (request_for args (e_caller env) payload ident) body db)))"

text \<open>The handlers of \<open>main\<close>: 64 for \<open>LedgerError\<close>, 65 for other value errors and for \<open>OSError\<close>.\<close>

definition exit_status :: "task_db \<Rightarrow> exn + int \<times> task_db \<Rightarrow> exn + int \<times> task_db" where
  "exit_status db r = (case r of
       Inl (LedgerError _) \<Rightarrow> Inr (64, db)
     | Inl e \<Rightarrow> if is_value_error e \<or> e = OSError then Inr (65, db) else Inl e
     | Inr x \<Rightarrow> Inr x)"

definition task_main :: "cli_args \<Rightarrow> environment \<Rightarrow> task_db \<Rightarrow> exn + int \<times> task_db" where
  "task_main args env db = exit_status db (main_write args env db)"

end
