(* ===== verification/TaskCliLemmas.thy ===== *)
theory TaskCliLemmas
  imports TaskCli LedgerInv
begin

text \<open>
  The library between the write path and the fold: what the argument checks establish about a
  request, how a committed record reads back, and, event by event, that what \<open>decide\<close> accepts
  on the folded view is what the fold's handler accepts on the raw ledger.
\<close>

section \<open>Requests of the command line\<close>

text \<open>What each kind of request carries in its payload once the argument checks have passed.\<close>

definition payload_ok :: "request \<Rightarrow> bool" where
  "payload_ok q = (let p = q_payload q in case q_kind q of
       Run_Closed \<Rightarrow> in_tuple (dget p ''outcome'') [''completed'', ''failed'', ''cancelled'']
     | Task_Created \<Rightarrow> dget p ''parent'' = PStr (q_run q) \<and>
         (q_actor_type q = u ''agent'' \<longrightarrow> dget p ''owner'' = PStr (q_actor_id q)) \<and>
         (\<exists>s. dget p ''source_msg_id'' = PStr s \<and> fullmatch TOKEN_RE s) \<and>
         (\<exists>s. dget p ''title'' = PStr s \<and> s \<noteq> [] \<and> length s \<le> 120 \<and> safe_display_text s) \<and>
         (dget p ''deadline_at'' = PNone \<or> valid_deadline (dget p ''deadline_at'')) \<and>
         dget_or p ''assignee'' (PStr []) = dget p ''assignee''
     | Task_Reported \<Rightarrow> in_tuple (dget p ''state'') [''progress'', ''done'', ''failed'', ''blocked''] \<and>
         \<not> bad_reason (dget p ''reason'')
     | Task_Cancelled \<Rightarrow> \<not> bad_reason (dget p ''reason'')
     | Task_Reassigned \<Rightarrow> dget_or p ''assignee'' (PStr []) = dget p ''assignee''
     | Task_Reopened \<Rightarrow> dget_or p ''assignee'' (PStr []) = dget p ''assignee''
     | _ \<Rightarrow> True)"

definition request_ids_ok :: "request \<Rightarrow> bool" where
  "request_ids_ok q = (fullmatch TOKEN_RE (q_project q) \<and> fullmatch UID_RE (q_team q) \<and>
     fullmatch RUN_RE (q_run q) \<and> fullmatch TOKEN_RE (q_causation q) \<and>
     opt_ok (fullmatch TASK_RE) (q_task q) \<and>
     (is_task_kind (q_kind q) \<and> q_kind q \<noteq> Task_Rejected \<longrightarrow> q_task q \<noteq> None))"

lemma task_id_shape:
  assumes "task_id c n = Inr t"
  shows "fullmatch TASK_RE t"
proof -
  obtain data where t: "t = u ''t-'' @ take 12 (hexdigest (sha256 data))"
    using assms by (auto simp: task_id_def bind_res_Inr)
  have "length (take 12 (hexdigest (sha256 data))) = 12" by (simp add: length_hexdigest)
  moreover have "\<forall>c \<in> set (take 12 (hexdigest (sha256 data))). in_charset c HEX"
    using hexdigest_chars in_set_takeD by metis
  ultimately show ?thesis unfolding TASK_RE_def hex_id_lang t by blast
qed

lemma opt_str_cases: "opt_str v = PNone \<longleftrightarrow> v = None" "opt_str v = PStr s \<longleftrightarrow> v = Some s"
  by (auto simp: opt_str_def split: option.splits)

lemma reason_ok_bad: "reason_ok v \<Longrightarrow> \<not> bad_reason (opt_str v)"
  by (auto simp: reason_ok_def opt_ok_def bad_reason_def opt_str_def split: option.splits)

lemma dget_or_dset [simp]:
  "dget_or (dset (u j) v d) k w = (if j = k then v else dget_or d k w)"
  by (auto simp: dget_or_def)

lemma dget_or_Cons [simp]:
  "dget_or ((u j, v) # d) k w = (if j = k then v else dget_or d k w)" "dget_or [] k w = w"
  by (auto simp: dget_or_def)

text \<open>The provenance entries are written over the command's payload and touch no other key.\<close>

lemma payload_for_Inr:
  assumes "payload_for args caller body_file = Inr (p, ident, body)"
  obtains p0 where "command_payload args body_file = Inr (p0, ident, body)"
    and "\<forall>k. k \<notin> {''caller'', ''via'', ''requester''} \<longrightarrow>
      dget p k = dget p0 k \<and> (\<forall>v. dget_or p k v = dget_or p0 k v)"
proof -
  obtain p0 where "command_payload args body_file = Inr (p0, ident, body)"
    and "p = (let p1 = dset (u ''caller'') (PStr caller) p0;
           p2 = (case a_via args of None \<Rightarrow> p1 | Some v \<Rightarrow> dset (u ''via'') (PStr v) p1)
       in (case a_requester args of None \<Rightarrow> p2 | Some v \<Rightarrow> dset (u ''requester'') (PStr v) p2))"
    using assms by (auto simp: payload_for_def bind_res_Inr Let_def)
  then show thesis
    by (intro that [of p0]) (auto simp: Let_def split: option.splits)
qed

lemma request_for_fields [simp]:
  "q_kind (request_for args c p i) = command_event (a_command args)"
  "q_project (request_for args c p i) = a_project args" "q_team (request_for args c p i) = a_team args"
  "q_run (request_for args c p i) = a_run_id args" "q_task (request_for args c p i) = i"
  "q_causation (request_for args c p i) = a_causation_id args"
  "q_actor_type (request_for args c p i) = actor_text (a_actor_type args)"
  "q_actor_id (request_for args c p i) = a_actor_id args" "q_payload (request_for args c p i) = p"
  "q_caller (request_for args c p i) = c"
  by (simp_all add: request_for_def)

lemma request_ids:
  assumes "validate_common args = Inr ()" and "payload_for args c bf = Inr (p, ident, body)"
  shows "request_ids_ok (request_for args c p ident)"
proof -
  obtain p0 where p0: "command_payload args bf = Inr (p0, ident, body)"
    using assms(2) by (rule payload_for_Inr)
  have common: "fullmatch TOKEN_RE (a_project args)" "fullmatch UID_RE (a_team args)"
    "fullmatch RUN_RE (a_run_id args)" "fullmatch TOKEN_RE (a_causation_id args)"
    "opt_ok (fullmatch TASK_RE) (arg_task_id (a_command args))"
    using assms(1) by (auto simp: validate_common_def split: if_splits)
  have "opt_ok (fullmatch TASK_RE) ident \<and>
      (is_task_kind (command_event (a_command args)) \<and> command_event (a_command args) \<noteq> Task_Rejected \<longrightarrow>
        ident \<noteq> None)"
  proof (cases "\<exists>ca. a_command args = Create ca")
    case True
    with p0 show ?thesis
      by (auto simp: command_payload_def bind_res_Inr opt_ok_def task_id_shape split: if_splits)
  next
    case False
    have run_kinds: "\<not> is_task_kind Run_Requested" "\<not> is_task_kind Run_Closed"
      by (simp_all add: is_task_kind_def kind_name_def EVENT_TYPES_def)
    from False p0 common(5) show ?thesis
      by (cases "a_command args")
        (auto simp: command_payload_def command_event_def arg_task_id_def opt_ok_def run_kinds split: if_splits)
  qed
  with common show ?thesis by (simp add: request_ids_ok_def)
qed

lemma request_payload:
  assumes "payload_for args c bf = Inr (p, ident, body)"
  shows "payload_ok (request_for args c p ident)"
proof -
  obtain p0 where p0: "command_payload args bf = Inr (p0, ident, body)"
    and get: "\<forall>k. k \<notin> {''caller'', ''via'', ''requester''} \<longrightarrow>
      dget p k = dget p0 k \<and> (\<forall>v. dget_or p k v = dget_or p0 k v)"
    using assms by (rule payload_for_Inr)
  show ?thesis
  proof (cases "a_command args")
    case (Create ca)
    have agent: "a_actor_type args = A_Agent" if "actor_text (a_actor_type args) = u ''agent''"
      using that by (cases "a_actor_type args") (simp_all add: actor_text_def)
    from p0 Create agent show ?thesis
      by (cases "ca_deadline_at ca")
        (auto simp: payload_ok_def get command_event_def command_payload_def bind_res_Inr opt_ok_def
          opt_str_def create_payload_def split: if_splits)
  next
    case (Run_Close outcome summary)
    with p0 show ?thesis
      by (cases outcome) (auto simp: payload_ok_def get command_event_def command_payload_def
          outcome_text_def split: if_splits)
  next
    case (Report t state result reason)
    with p0 reason_ok_bad [of reason] show ?thesis
      by (cases state) (auto simp: payload_ok_def get command_event_def command_payload_def
          report_text_def split: if_splits)
  next
    case (Cancel t reason e)
    with p0 reason_ok_bad [of reason] show ?thesis
      by (auto simp: payload_ok_def get command_event_def command_payload_def split: if_splits)
  qed (use p0 in \<open>auto simp: payload_ok_def get command_event_def command_payload_def split: if_splits\<close>)
qed

end
