(* ===== verification/TaskAgree.thy ===== *)
theory TaskAgree
  imports TaskCliLemmas
begin

text \<open>
  The decision engine and the fold agree: an event that \<open>decide\<close> accepts against the folded
  view of a stream is an event the fold accepts when it is appended to that stream.
\<close>

section \<open>Committed records\<close>

lemma or_null_nonempty [simp]: "s \<noteq> [] \<Longrightarrow> or_null s = PStr s"
  by (simp add: or_null_def)

lemma compose_fields [simp]:
  "dget (compose_record seq now q k p) ''event_id'' = PStr (q_project q @ u ''-tasks-'' @ str_of_int seq)"
  "dget (compose_record seq now q k p) ''event_type'' = PStr (u (kind_name k))"
  "dget (compose_record seq now q k p) ''actor_type'' = PStr (q_actor_type q)"
  "dget (compose_record seq now q k p) ''actor_id'' = PStr (q_actor_id q)"
  "dget (compose_record seq now q k p) ''project_uid'' = PStr (q_project q)"
  "dget (compose_record seq now q k p) ''team_uid'' = or_null (q_team q)"
  "dget (compose_record seq now q k p) ''run_id'' = or_null (q_run q)"
  "dget (compose_record seq now q k p) ''task_id'' = or_null (case q_task q of None \<Rightarrow> [] | Some t \<Rightarrow> t)"
  "dget (compose_record seq now q k p) ''attempt_id'' = PNone"
  "dget (compose_record seq now q k p) ''correlation_id'' = or_null (q_run q)"
  "dget (compose_record seq now q k p) ''causation_id'' = PStr (q_causation q)"
  "dget (compose_record seq now q k p) ''payload'' = PDict p"
  by (simp_all add: compose_record_def)

lemma matched_nonempty:
  "fullmatch RUN_RE s \<Longrightarrow> s \<noteq> []" "fullmatch TASK_RE s \<Longrightarrow> s \<noteq> []" "fullmatch UID_RE s \<Longrightarrow> s \<noteq> []"
  by (auto simp: RUN_RE_def TASK_RE_def UID_RE_def Cls_def Plus_def u_def)

lemma py_eq_PStr_left [simp]: "py_eq (PStr s) v \<longleftrightarrow> v = PStr s"
  by simp

lemma composed_envelope:
  assumes ids: "request_ids_ok q" and team: "startswith (q_team q) (q_project q @ u ''-'')"
    and kind: "k = q_kind q \<or> k = Task_Rejected"
    and proj: "stream_project l = None \<or> stream_project l = Some (q_project q)"
  shows "project_ok seq (compose_record seq now q k p)"
    and "same_stream (compose_record seq now q k p)
      (stream_project (note_project (compose_record seq now q k p) l))"
    and "ids_ok k (compose_record seq now q k p)"
proof -
  have run: "q_run q \<noteq> []" and t: "q_team q \<noteq> []"
    using ids matched_nonempty by (auto simp: request_ids_ok_def)
  show "project_ok seq (compose_record seq now q k p)"
    using ids by (simp add: project_ok_def request_ids_ok_def)
  show "same_stream (compose_record seq now q k p)
      (stream_project (note_project (compose_record seq now q k p) l))"
    using proj run by (auto simp: same_stream_def note_project_def)
  show "ids_ok k (compose_record seq now q k p)"
    using ids team run t kind matched_nonempty(2)
    by (cases "q_task q") (auto simp: ids_ok_def Let_def request_ids_ok_def opt_ok_def or_null_def)
qed

definition task_key :: "request \<Rightarrow> pystr" where
  "task_key q = (case q_task q of None \<Rightarrow> [] | Some t \<Rightarrow> t)"

lemma fold_composed:
  assumes ids: "request_ids_ok q" and team: "startswith (q_team q) (q_project q @ u ''-'')"
    and kind: "k = q_kind q" "k \<noteq> Task_Rejected"
    and proj: "stream_project l = None \<or> stream_project l = Some (q_project q)"
    and caller: "caller_matches (PStr (q_actor_type q)) (PStr (q_actor_id q)) p"
    and rec: "rec = compose_record seq now q k p"
  shows "fold_event (seq, rec) l = catch_ledger seq (note_project rec l)
    (fold_handler k seq rec p (q_run q) (task_key q) (q_team q) (note_project rec l))"
proof -
  have ne: "q_run q \<noteq> []" "q_team q \<noteq> []"
    using ids matched_nonempty by (auto simp: request_ids_ok_def)
  have key: "str_or_empty (or_null (task_key q)) = task_key q"
    by (simp add: or_null_def str_or_empty_def)
  note env = composed_envelope [OF ids team disjI1 [OF kind(1)] proj, of seq now p]
  show ?thesis
    using env kind(2) caller ne key [unfolded task_key_def]
    by (simp add: fold_event_def rec Let_def task_key_def)
qed

section \<open>Runs as the decision engine sees them\<close>

lemma derived_run:
  "map_of (runs (derive_runs l)) k = Some r \<Longrightarrow>
     \<exists>r0. map_of (runs l) k = Some r0 \<and> r_team_uid r0 = r_team_uid r \<and>
       (r_state r0 \<in> set CLOSED_RUN \<longleftrightarrow> r_state r \<in> set CLOSED_RUN)"
  by (auto simp: derive_runs_def derive_run_state_def Let_def)

lemma derived_run_None: "map_of (runs (derive_runs l)) k = None \<longleftrightarrow> map_of (runs l) k = None"
  by (simp add: derive_runs_def)

lemma derived_tasks [simp]: "tasks (derive_runs l) = tasks l"
  by (simp add: derive_runs_def)

section \<open>Event by event\<close>

text \<open>The roles of the decision engine, as the record shows them to the fold.\<close>

lemma actor_of_role:
  "is_human (actor_of q lead) \<Longrightarrow> q_actor_type q = u ''human''"
  "is_gateway (actor_of q lead) \<Longrightarrow> q_actor_type q = u ''human''"
  "is_lead (actor_of q lead) \<Longrightarrow> q_actor_type q = u ''agent''"
  "is_service (actor_of q lead) \<longleftrightarrow> q_actor_type q = u ''service''"
  by (simp_all add: actor_of_def Let_def)

lemma agree_run_requested:
  assumes "decide_run_requested q (derive_runs l) (actor_of q lead) = None"
    and "dget rec ''actor_type'' = PStr (q_actor_type q)"
  shows "\<exists>l'. fold_run_requested seq rec (q_run q) team l = Inr l'"
  using assms actor_of_role [of q lead]
  by (auto simp: decide_run_requested_def fold_run_requested_def derived_run_None split: if_splits)

lemma agree_run_closed:
  assumes ok: "decide_run_closed q (derive_runs l) (actor_of q lead) = None"
    and pay: "in_tuple (dget p ''outcome'') [''completed'', ''failed'', ''cancelled'']"
      "dget (q_payload q) ''outcome'' = dget p ''outcome''"
    and rec: "dget rec ''actor_type'' = PStr (q_actor_type q)"
  shows "\<exists>l'. fold_run_closed seq rec p (q_run q) (q_team q) l = Inr l'"
proof -
  obtain r where r: "map_of (runs (derive_runs l)) (q_run q) = Some r" "r_team_uid r = q_team q"
    "r_state r \<notin> set CLOSED_RUN" "is_human (actor_of q lead) \<or> is_lead (actor_of q lead)"
    "\<not> (dget p ''outcome'' = PStr (u ''completed'') \<and> list_ex (is_open_of_run (q_run q)) (dvalues (tasks l)))"
    using ok pay(2) by (auto simp: decide_run_closed_def simp del: state_set_simps split: option.splits if_splits)
  from derived_run [OF r(1)] obtain r0 where r0: "map_of (runs l) (q_run q) = Some r0"
    "r_team_uid r0 = q_team q" "r_state r0 \<notin> set CLOSED_RUN" using r(2,3) by auto
  have "in_strset (dget p ''outcome'') [''completed'', ''failed'', ''cancelled''] = Inr True"
    using pay(1) by (simp only: in_strset_True)
  then show ?thesis
    using r0 r(4,5) rec actor_of_role [of q lead]
    by (auto simp: fold_run_closed_def simp del: state_set_simps)
qed

text \<open>A task event reaches the same task, in an open run of its team, on both sides.\<close>

lemma decide_task_Inr_None:
  assumes "decide_task q (derive_runs l) registry lims lead_uid a = Inr None"
  obtains t r0 where "q_task q = Some (task_key q)" and "map_of (tasks l) (task_key q) = Some t"
    and "t_run_id t = q_run q" and "t_team_uid t = q_team q" and "map_of (runs l) (q_run q) = Some r0"
    and "r_team_uid r0 = t_team_uid t" and "r_state r0 \<notin> set CLOSED_RUN"
    and "(case q_kind q of Task_Started \<Rightarrow> Inr (decide_task_started q t a)
        | Task_Reported \<Rightarrow> decide_task_reported q t lims a
        | Task_Cancelled \<Rightarrow> Inr (decide_task_cancelled q t a)
        | Task_Reassigned \<Rightarrow> decide_reassigned q (derive_runs l) registry t lims a
        | Task_Reopened \<Rightarrow> decide_reassigned q (derive_runs l) registry t lims a
        | Task_Overdue \<Rightarrow> Inr (decide_overdue q t lead_uid a)
        | _ \<Rightarrow> Inr (Some ''unsupported_event'')) = Inr None"
    and "\<not> stale_update q t a"
proof -
  obtain t where t: "task_of q l = Some t" "t_run_id t = q_run q" "t_team_uid t = q_team q"
    using assms by (auto simp: decide_task_def task_of_def split: option.splits if_splits)
  then obtain r where r: "map_of (runs (derive_runs l)) (q_run q) = Some r" "r_team_uid r = t_team_uid t"
    "r_state r \<notin> set CLOSED_RUN" "\<not> stale_update q t a"
    using assms by (auto simp: decide_task_def task_of_def simp del: state_set_simps split: option.splits if_splits)
  from derived_run [OF r(1)] r(2,3) obtain r0 where "map_of (runs l) (q_run q) = Some r0"
    "r_team_uid r0 = t_team_uid t" "r_state r0 \<notin> set CLOSED_RUN" by auto
  moreover have "q_task q = Some (task_key q)" "map_of (tasks l) (task_key q) = Some t"
    using t(1) by (auto simp: task_of_def task_key_def split: option.splits)
  ultimately show thesis
    using assms t r by (intro that [of t r0]) (simp_all add: decide_task_def task_of_def del: state_set_simps)
qed

lemma agree_started:
  assumes "decide_task_started q t (actor_of q lead) = None"
    and "dget rec ''actor_type'' = PStr (q_actor_type q)" "dget rec ''actor_id'' = PStr (q_actor_id q)"
  shows "\<exists>t'. fold_started rec t = Inr t'"
  using assms by (auto simp: decide_task_started_def fold_started_def actor_of_role split: if_splits)

lemma agree_reported:
  assumes ok: "decide_task_reported q t lims (actor_of q lead) = Inr None"
    and rec: "dget rec ''actor_type'' = PStr (q_actor_type q)" "dget rec ''actor_id'' = PStr (q_actor_id q)"
    and pay: "in_tuple (dget p ''state'') [''progress'', ''done'', ''failed'', ''blocked'']"
      "\<not> bad_reason (dget p ''reason'')"
    and same: "dget (q_payload q) ''state'' = dget p ''state''" "dget (q_payload q) ''reason'' = dget p ''reason''"
  shows "\<exists>t'. fold_reported rec p t = Inr t'"
proof -
  obtain s where s: "dget p ''state'' = PStr s" using pay(1) by auto
  have known: "in_tuple (PStr s) [''progress'', ''done'', ''failed'', ''blocked'']"
    using pay(1) s by simp
  have none: "\<not> in_tuple PNone ENGINE_REASONS" by (simp add: in_tuple_iff)
  have "in_strset (dget p ''reason'') ENGINE_REASONS = Inr (in_tuple (dget p ''reason'') ENGINE_REASONS)"
    using pay(2) none by (auto simp: bad_reason_def is_str_iff)
  with ok s same show ?thesis
    using rec pay(2) known none
    by (auto simp: decide_task_reported_def fold_reported_def Let_def bind_res_Inr actor_of_role
        simp del: in_tuple_simps split: if_splits)
qed

lemma agree_cancelled:
  assumes "decide_task_cancelled q t (actor_of q lead) = None"
    and "dget rec ''actor_type'' = PStr (q_actor_type q)" "dget rec ''actor_id'' = PStr (q_actor_id q)"
    and "\<not> bad_reason (dget p ''reason'')" "dget (q_payload q) ''reason'' = dget p ''reason''"
  shows "\<exists>t'. fold_cancelled rec p t = Inr t'"
  using assms actor_of_role [of q lead]
  by (auto simp: decide_task_cancelled_def fold_cancelled_def Let_def simp del: state_set_simps split: if_splits)

text \<open>The registry's agent ids are uids; the registry validation of the engine requires it.\<close>

definition registry_uids_ok :: "pydict \<Rightarrow> bool" where
  "registry_uids_ok registry = (case dget_or registry ''agents'' (PDict []) of
     PDict agents \<Rightarrow> list_all (\<lambda>(k, _). fullmatch UID_RE k) agents | _ \<Rightarrow> True)"

lemma valid_assignee_uid:
  assumes "valid_assignee registry v team = Inr None" and "registry_uids_ok registry"
  shows "\<exists>s. v = PStr s \<and> fullmatch UID_RE s"
  using assms(1)
proof (rule valid_assignee_None)
  fix s a agents assume "v = PStr s" "dget_or registry ''agents'' (PDict []) = PDict agents"
    "map_of agents s = Some (PDict a)"
  with assms(2) show ?thesis
    by (auto simp: registry_uids_ok_def list_all_iff dest!: map_of_SomeD)
qed

lemma agree_reassigned:
  assumes ok: "decide_reassigned q l registry t lims (actor_of q lead) = Inr None"
    and reg: "registry_uids_ok registry"
    and rec: "dget rec ''actor_type'' = PStr (q_actor_type q)"
    and pay: "dget_or (q_payload q) ''assignee'' (PStr []) = dget p ''assignee''"
  shows "\<exists>t'. fold_reassigned (q_kind q) rec p t = Inr t'"
proof -
  have "valid_assignee registry (dget p ''assignee'') (q_team q) = Inr None"
    and "t_state t = BLOCKED \<or> q_kind q = Task_Reopened \<and> t_state t = FAILED"
    and "is_human (actor_of q lead) \<or> is_lead (actor_of q lead)"
    using ok pay by (auto simp: decide_reassigned_def bind_res_Inr split: if_splits)
  with valid_assignee_uid [OF _ reg] rec actor_of_role [of q lead] show ?thesis
    by (fastforce simp: fold_reassigned_def Let_def)
qed

lemma agree_overdue:
  assumes "decide_overdue q t lead_uid (actor_of q lead) = None"
    and "dget rec ''actor_type'' = PStr (q_actor_type q)" "dget rec ''actor_id'' = PStr (q_actor_id q)"
  shows "\<exists>t'. fold_overdue rec t = Inr t'"
  using assms by (auto simp: decide_overdue_def fold_overdue_def actor_of_role split: if_splits)

end
