(* ===== verification/TaskCommit.thy ===== *)
theory TaskCommit
  imports TaskAgree
begin

text \<open>
  From the events to the write path: an accepted creation passes the fold, and a run of
  \<open>bin/task\<close> that commits anything commits an event the fold takes as valid.
\<close>

section \<open>Deadlines the engine computes\<close>

lemma digit_in_DIGIT [simp]: "in_charset (48 + n mod 10) DIGIT"
proof -
  have "n mod 10 < 10" by simp
  then show ?thesis by (simp add: in_charset_def)
qed

lemma iso_second_shape: "fullmatch DEADLINE_RE (iso_second c)"
  by (simp add: DEADLINE_RE_def iso_second_def pad4_def pad2_def Cls_def in_charset_def [of 45]
      in_charset_def [of 58] in_charset_def [of 84] in_charset_def [of 90])

lemma valid_deadline_iso: "valid_civil c \<Longrightarrow> valid_deadline (PStr (iso_second c))"
  by (simp add: valid_deadline_def iso_second_shape civil_of_iso_second)

lemma default_deadline_valid: "default_deadline now lims = Inr s \<Longrightarrow> valid_deadline (PStr s)"
  by (auto simp: default_deadline_def intro: valid_deadline_iso civil_of_epoch_valid split: option.splits)

section \<open>Creations\<close>

lemma token_one_line: "fullmatch TOKEN_RE s \<Longrightarrow> 0 \<notin> set s \<and> 13 \<notin> set s \<and> 10 \<notin> set s"
  using token_chars [of s] by fastforce

lemma uid_one_line: "fullmatch UID_RE s \<Longrightarrow> 0 \<notin> set s \<and> 13 \<notin> set s \<and> 10 \<notin> set s"
  by (intro token_one_line uid_is_token)

lemma id_one_line:
  "fullmatch RUN_RE s \<Longrightarrow> 0 \<notin> set s \<and> 13 \<notin> set s \<and> 10 \<notin> set s"
  "fullmatch TASK_RE s \<Longrightarrow> 0 \<notin> set s \<and> 13 \<notin> set s \<and> 10 \<notin> set s"
  unfolding RUN_RE_def TASK_RE_def hex_id_lang by (force simp: u_def in_charset_def)+

text \<open>What the fold's \<open>_base_task\<close> asks of a record, as sufficient conditions.\<close>

lemma base_task_accepts:
  assumes "dget rec ''run_id'' = PStr r" "fullmatch RUN_RE r"
    and "dget rec ''task_id'' = PStr k" "fullmatch TASK_RE k"
    and "py_eq (dget p ''depth'') (PInt 1)" "dget p ''parent'' = PStr r"
    and "dget p ''assignee'' = PStr a" "fullmatch UID_RE a"
    and "dget p ''source_msg_id'' = PStr m" "fullmatch TOKEN_RE m"
    and "dget p ''gate'' = PStr (u ''none'')"
    and "dget p ''title'' = PStr t" "t \<noteq> []" "length t \<le> 120" "safe_display_text t"
    and "valid_deadline (dget p ''deadline_at'')"
  shows "base_task rec p = Inr (fresh_task rec p r k a m (u ''none'') t)"
proof -
  have none: "0 \<notin> set (u ''none'') \<and> 13 \<notin> set (u ''none'') \<and> 10 \<notin> set (u ''none'')"
    by (simp add: u_def)
  have gate: "in_tuple (PStr (u ''none'')) gates" by (simp add: gates_def)
  have line: "0 \<notin> set r \<and> 13 \<notin> set r \<and> 10 \<notin> set r" "0 \<notin> set k \<and> 13 \<notin> set k \<and> 10 \<notin> set k"
    "0 \<notin> set a \<and> 13 \<notin> set a \<and> 10 \<notin> set a" "0 \<notin> set m \<and> 13 \<notin> set m \<and> 10 \<notin> set m"
    "0 \<notin> set t \<and> 13 \<notin> set t \<and> 10 \<notin> set t"
    using id_one_line assms(2,4) uid_one_line [OF assms(8)] token_one_line [OF assms(10)]
      safe_display_text_line(1) [OF assms(15)] by simp_all
  show ?thesis
    using assms line none gate by (simp add: base_task_def text_field_def the_text_def)
qed

lemma agree_task_created:
  assumes ok: "decide_task_created q (derive_runs l) registry lims (actor_of q lead) = Inr None"
    and pay: "payload_ok q" "q_kind q = Task_Created"
    and reg: "registry_uids_ok registry" and ids: "request_ids_ok q"
    and rec: "dget rec ''actor_type'' = PStr (q_actor_type q)" "dget rec ''actor_id'' = PStr (q_actor_id q)"
      "dget rec ''run_id'' = PStr (q_run q)" "dget rec ''task_id'' = PStr (task_key q)"
    and same: "\<And>k. k \<noteq> ''deadline_at'' \<Longrightarrow> k \<noteq> ''budget'' \<Longrightarrow> dget p k = dget (q_payload q) k"
    and dl: "valid_deadline (dget p ''deadline_at'')"
  shows "\<exists>l'. fold_task_created seq rec p (q_run q) (task_key q) (q_team q) l = Inr l'"
proof -
  let ?p = "q_payload q"
  have created: "is_task_kind Task_Created" by (simp add: is_task_kind_def kind_name_def EVENT_TYPES_def)
  obtain k where k: "q_task q = Some k" "fullmatch TASK_RE k" "task_key q = k"
    using ids pay(2) created by (auto simp: request_ids_ok_def opt_ok_def task_key_def)
  obtain r where r: "map_of (runs (derive_runs l)) (q_run q) = Some r" "r_team_uid r = q_team q"
      "r_state r \<notin> set CLOSED_RUN"
    and actor: "is_human (actor_of q lead) \<or> is_lead (actor_of q lead)"
    and new: "map_of (tasks l) k = None" and gate: "dget ?p ''gate'' = PStr (u ''none'')"
    and depth: "py_eq (dget ?p ''depth'') (PInt 1)"
    and asg: "valid_assignee registry (dget_or ?p ''assignee'' (PStr [])) (q_team q) = Inr None"
    using ok k(1)
    by (auto simp: decide_task_created_def task_of_def bind_res_Inr simp del: state_set_simps
        split: option.splits if_splits)
  from derived_run [OF r(1)] r(2,3) obtain r0 where r0: "map_of (runs l) (q_run q) = Some r0"
    "r_team_uid r0 = q_team q" "r_state r0 \<notin> set CLOSED_RUN" by auto
  from pay obtain m t where p: "dget ?p ''parent'' = PStr (q_run q)"
    "q_actor_type q = u ''agent'' \<longrightarrow> dget ?p ''owner'' = PStr (q_actor_id q)"
    "dget ?p ''source_msg_id'' = PStr m" "fullmatch TOKEN_RE m"
    "dget ?p ''title'' = PStr t" "t \<noteq> []" "length t \<le> 120" "safe_display_text t"
    "dget_or ?p ''assignee'' (PStr []) = dget ?p ''assignee''"
    by (auto simp: payload_ok_def Let_def)
  from valid_assignee_uid [OF asg reg] p(9) obtain a where
    a: "dget ?p ''assignee'' = PStr a" "fullmatch UID_RE a" by auto
  have run: "fullmatch RUN_RE (q_run q)" using ids by (simp add: request_ids_ok_def)
  have base: "base_task rec p = Inr (fresh_task rec p (q_run q) k a m (u ''none'') t)"
    by (rule base_task_accepts) (use rec run k p a gate depth dl same in simp_all)
  have "q_actor_type q = u ''agent'' \<or> q_actor_type q = u ''human''"
    using actor actor_of_role [of q lead] by auto
  moreover have "t_owner (fresh_task rec p (q_run q) k a m (u ''none'') t) = dget ?p ''owner''"
    using same by (simp add: fresh_task_def)
  ultimately show ?thesis
    using r0 new k(3) base rec p(2) by (auto simp: fold_task_created_def simp del: state_set_simps)
qed


section \<open>Decisions\<close>

lemma decide_with_caller [simp]:
  "q_kind (with_caller q) = q_kind q" "q_project (with_caller q) = q_project q"
  "q_team (with_caller q) = q_team q" "q_run (with_caller q) = q_run q" "q_task (with_caller q) = q_task q"
  "q_causation (with_caller q) = q_causation q" "q_actor_type (with_caller q) = q_actor_type q"
  "q_actor_id (with_caller q) = q_actor_id q" "q_caller (with_caller q) = q_caller q"
  "q_expected_seq (with_caller q) = q_expected_seq q" "task_key (with_caller q) = task_key q"
  "request_ids_ok (with_caller q) = request_ids_ok q"
  by (simp_all add: with_caller_def task_key_def request_ids_ok_def)

lemma payload_ok_with_caller [simp]: "payload_ok (with_caller q) = payload_ok q"
  by (cases "q_kind q") (simp_all add: payload_ok_def with_caller_def Let_def)

lemma accept_fields [simp]:
  "d_accepted (accept q)" "d_kind (accept q) = q_kind q" "d_payload (accept q) = q_payload q"
  "\<not> d_accepted (rejection q r)" "d_kind (rejection q r) = Task_Rejected"
  "d_accepted (answer q bad) \<longleftrightarrow> bad = None"
  "answer q None = accept q" "answer q (Some reason) = rejection q reason"
  by (simp_all add: accept_def rejection_def answer_def split: option.split)

text \<open>
  What a decision rests on, by kind of request: the branch that let it pass, and the payload
  it commits.
\<close>

definition passed :: "request \<Rightarrow> ledger \<Rightarrow> pydict \<Rightarrow> limit_table \<Rightarrow> pystr \<Rightarrow> bool" where
  "passed q l registry lims lead = (let a = actor_of q lead in case q_kind q of
       Task_Rejected \<Rightarrow> False
     | Run_Requested \<Rightarrow> decide_run_requested q l a = None
     | Run_Closed \<Rightarrow> decide_run_closed q l a = None
     | Task_Created \<Rightarrow> decide_task_created q l registry lims a = Inr None
     | _ \<Rightarrow> decide_task q l registry lims lead a = Inr None)"

lemma complete_created_accepted:
  assumes "complete_created q lims now body store = Inr (d, store')" and "d_accepted d"
  obtains p where "d = accept (q\<lparr>q_payload := dset (u ''budget'') (task_budget lims) p\<rparr>)"
    and "(p = q_payload q \<and> dget p ''deadline_at'' \<noteq> PNone) \<or>
      (\<exists>s. default_deadline now lims = Inr s \<and> p = dset (u ''deadline_at'') (PStr s) (q_payload q))"
proof -
  have no: "rejection q r \<noteq> d" for r using assms(2) by auto
  from assms(1) no obtain data ident where "body = Some data" "q_task q = Some ident"
    by (auto simp: complete_created_def bind_res_Inr Let_def split: option.splits)
  moreover obtain ok store2 where "write_body ident data store = (ok, store2)"
    by (cases "write_body ident data store")
  ultimately show thesis
    using assms(1) no that
    by (auto simp: complete_created_def bind_res_Inr Let_def split: if_splits)
qed

lemma decide_accepted:
  assumes "decide req l registry now body store = Inr (d, store')" and "d_accepted d"
  defines "q \<equiv> with_caller req"
  obtains lims lead where "limits registry (q_team q) = Inr lims" and "team_lead registry (q_team q) = Inr lead"
    and "passed q l registry lims lead" and "d_kind d = q_kind q" and "q_kind q \<noteq> Task_Rejected"
    and "q_caller q = u ''root:root''"
    and "caller_matches (PStr (q_actor_type q)) (PStr (q_actor_id q)) (q_payload q)"
    and "q_kind q \<noteq> Task_Created \<Longrightarrow> d_payload d = q_payload q"
    and "q_kind q = Task_Created \<Longrightarrow> complete_created q lims now body store = Inr (d, store')"
proof -
  have no: "rejection q r \<noteq> d" for r using assms(2) by auto
  have c: "caller_actor_reason (q_caller q) (q_actor_type q) (q_actor_id q) (q_payload q) = None"
    using assms by (auto simp: decide_def Let_def split: option.splits)
  with assms obtain lims lead where ll: "limits registry (q_team q) = Inr lims"
    "team_lead registry (q_team q) = Inr lead"
    by (auto simp: decide_def Let_def bind_res_Inr)
  have nr: "q_kind q \<noteq> Task_Rejected"
    using assms(1,2) c ll
    by (auto simp: decide_def Let_def bind_res_Inr q_def [symmetric] split: option.splits)
  have k: "d_kind d = q_kind q"
    using assms(1,2) c ll nr
    by (auto simp: decide_def Let_def bind_res_Inr q_def [symmetric] split: option.splits event_kind.splits
        elim: complete_created_accepted)
  show thesis
    using assms(1,2) c ll nr k no
    by (intro that [of lims lead])
      (auto simp: decide_def Let_def bind_res_Inr q_def [symmetric] passed_def caller_actor_reason_def
        split: option.splits event_kind.splits if_splits)
qed


section \<open>The fold takes what the engine accepts\<close>

lemma agree_task_event:
  assumes ok: "decide_task q (derive_runs l) registry lims lead (actor_of q lead) = Inr None"
    and pay: "payload_ok q" and reg: "registry_uids_ok registry"
    and rec: "dget rec ''actor_type'' = PStr (q_actor_type q)" "dget rec ''actor_id'' = PStr (q_actor_id q)"
  shows "\<exists>l'. fold_task_event (q_kind q) seq rec (q_payload q) (q_run q) (task_key q) (q_team q) l = Inr l'"
  using ok
proof (rule decide_task_Inr_None)
  fix t r0
  assume t: "map_of (tasks l) (task_key q) = Some t" "t_run_id t = q_run q" "t_team_uid t = q_team q"
    and r: "map_of (runs l) (q_run q) = Some r0" "r_team_uid r0 = t_team_uid t" "r_state r0 \<notin> set CLOSED_RUN"
    and branch: "(case q_kind q of Task_Started \<Rightarrow> Inr (decide_task_started q t (actor_of q lead))
        | Task_Reported \<Rightarrow> decide_task_reported q t lims (actor_of q lead)
        | Task_Cancelled \<Rightarrow> Inr (decide_task_cancelled q t (actor_of q lead))
        | Task_Reassigned \<Rightarrow> decide_reassigned q (derive_runs l) registry t lims (actor_of q lead)
        | Task_Reopened \<Rightarrow> decide_reassigned q (derive_runs l) registry t lims (actor_of q lead)
        | Task_Overdue \<Rightarrow> Inr (decide_overdue q t lead (actor_of q lead))
        | _ \<Rightarrow> Inr (Some ''unsupported_event'')) = Inr None"
  have "\<exists>t'. task_transition (q_kind q) rec (q_payload q) t = Inr t'"
  proof (cases "q_kind q")
    case Task_Started
    with branch agree_started [OF _ rec] show ?thesis by (auto simp: task_transition_def)
  next
    case Task_Reported
    with branch pay agree_reported [OF _ rec, of t lims lead "q_payload q"] show ?thesis
      by (auto simp: task_transition_def payload_ok_def Let_def simp del: in_tuple_simps)
  next
    case Task_Cancelled
    with branch pay agree_cancelled [OF _ rec, of t lead "q_payload q"] show ?thesis
      by (auto simp: task_transition_def payload_ok_def Let_def)
  next
    case Task_Reassigned
    with branch pay agree_reassigned [OF _ reg rec(1), of "derive_runs l" t lims lead "q_payload q"]
    show ?thesis by (auto simp: task_transition_def payload_ok_def Let_def)
  next
    case Task_Reopened
    with branch pay agree_reassigned [OF _ reg rec(1), of "derive_runs l" t lims lead "q_payload q"]
    show ?thesis by (auto simp: task_transition_def payload_ok_def Let_def)
  next
    case Task_Overdue
    with branch agree_overdue [OF _ rec] show ?thesis by (auto simp: task_transition_def)
  qed (use branch in simp_all)
  with t r show ?thesis by (auto simp: fold_task_event_def simp del: state_set_simps)
qed

lemma agree_handler:
  assumes ok: "passed q (derive_runs l) registry lims lead"
    and pay: "payload_ok q" and ids: "request_ids_ok q" and reg: "registry_uids_ok registry"
    and rec: "rec = compose_record seq now q (q_kind q) p"
    and other: "q_kind q \<noteq> Task_Created \<Longrightarrow> p = q_payload q"
    and created: "q_kind q = Task_Created \<Longrightarrow> valid_deadline (dget p ''deadline_at'') \<and>
      (\<forall>k. k \<noteq> ''deadline_at'' \<longrightarrow> k \<noteq> ''budget'' \<longrightarrow> dget p k = dget (q_payload q) k)"
  shows "\<exists>l'. fold_handler (q_kind q) seq rec p (q_run q) (task_key q) (q_team q) l = Inr l'"
proof -
  have who: "dget rec ''actor_type'' = PStr (q_actor_type q)" "dget rec ''actor_id'' = PStr (q_actor_id q)"
    by (simp_all add: rec)
  have run: "q_run q \<noteq> []" using ids matched_nonempty by (auto simp: request_ids_ok_def)
  consider (req) "q_kind q = Run_Requested" | (close) "q_kind q = Run_Closed"
    | (new) "q_kind q = Task_Created"
    | (task) "q_kind q \<notin> {Run_Requested, Run_Closed, Task_Created, Task_Rejected}"
    using ok by (cases "q_kind q") (auto simp: passed_def)
  then show ?thesis
  proof cases
    case req
    with ok agree_run_requested [OF _ who(1)] show ?thesis
      by (auto simp: passed_def fold_handler_def Let_def)
  next
    case close
    then have "in_tuple (dget p ''outcome'') [''completed'', ''failed'', ''cancelled'']"
      using pay other by (simp add: payload_ok_def Let_def)
    moreover have "decide_run_closed q (derive_runs l) (actor_of q lead) = None"
      using ok close by (simp add: passed_def Let_def)
    moreover have "p = q_payload q" using close other by simp
    ultimately have "\<exists>l'. fold_run_closed seq rec p (q_run q) (q_team q) l = Inr l'"
      by (intro agree_run_closed [OF _ _ _ who(1)]) simp_all
    with close show ?thesis by (simp add: fold_handler_def)
  next
    case new
    have "task_key q \<noteq> []"
      using ids new matched_nonempty(2)
      by (auto simp: request_ids_ok_def task_key_def opt_ok_def is_task_kind_def kind_name_def EVENT_TYPES_def)
    then have "dget rec ''run_id'' = PStr (q_run q)" "dget rec ''task_id'' = PStr (task_key q)"
      using run by (auto simp: rec task_key_def [symmetric])
    moreover have "decide_task_created q (derive_runs l) registry lims (actor_of q lead) = Inr None"
      using ok new by (simp add: passed_def Let_def)
    ultimately have "\<exists>l'. fold_task_created seq rec p (q_run q) (task_key q) (q_team q) l = Inr l'"
      using created [OF new] by (intro agree_task_created [OF _ pay new reg ids who]) auto
    with new show ?thesis by (simp add: fold_handler_def)
  next
    case task
    then have "decide_task q (derive_runs l) registry lims lead (actor_of q lead) = Inr None"
      using ok by (cases "q_kind q") (simp_all add: passed_def Let_def)
    note this = agree_task_event [OF this pay reg who, of seq]
    moreover from this have "q_kind q \<noteq> Run_Started"
      by (auto simp: fold_task_event_def task_transition_def simp del: state_set_simps
          split: option.splits if_splits)
    then have "fold_handler (q_kind q) = fold_task_event (q_kind q)"
      using task by (cases "q_kind q") (simp_all add: fold_handler_def fun_eq_iff)
    moreover have "p = q_payload q" using task other by simp
    ultimately show ?thesis by (simp only:)
  qed
qed

end
