(* ===== verification/TaskMain.thy ===== *)
theory TaskMain
  imports TaskCommit
begin

text \<open>
  The write path as a whole: what one run of \<open>bin/task\<close> adds to the stream, that the fold
  takes it, and that asking again changes nothing.
\<close>

section \<open>Refusals\<close>

lemma rejection_payload:
  "dget (d_payload (rejection q r)) ''caller'' = PStr (q_caller q)"
  "dget (d_payload (rejection q r)) ''requested_type'' = PStr (u (kind_name (q_kind q)))"
  "dget (d_payload (rejection q r)) ''reason'' = PStr (u r)"
  by (simp_all add: rejection_def)

definition refusal :: "request \<Rightarrow> decision \<Rightarrow> bool" where
  "refusal q d = (d_kind d = Task_Rejected \<and> dget (d_payload d) ''caller'' = PStr (q_caller q) \<and>
     (\<exists>s. dget (d_payload d) ''requested_type'' = PStr s) \<and> (\<exists>s. dget (d_payload d) ''reason'' = PStr s))"

lemma refusal_rejection [simp]: "refusal q (rejection q r)" "refusal q (rejection (with_caller q) r)"
  by (simp_all add: refusal_def rejection_payload)

lemma decide_rejected_strings:
  assumes "decide_rejected q registry a = Inr None"
  shows "(\<exists>s. dget (q_payload q) ''requested_type'' = PStr s) \<and> (\<exists>s. dget (q_payload q) ''reason'' = PStr s)"
  using assms
  by (auto simp: decide_rejected_def bind_res_Inr Let_def is_str_iff in_strset_True in_tuple_iff
      split: if_splits)

lemma complete_created_refused:
  assumes "complete_created q lims now body store = Inr (d, store')" and "\<not> d_accepted d"
  shows "\<exists>r. d = rejection q r"
proof -
  have yes: "accept q' \<noteq> d" for q' using assms(2) by auto
  show ?thesis
    using assms(1) yes
    by (cases body; cases "q_task q"; cases "write_body (the (q_task q)) (the body) store")
      (auto simp: complete_created_def bind_res_Inr Let_def split: if_splits)
qed

lemma decide_refused:
  assumes dec: "decide req l registry now body store = Inr (d, store')" and no: "\<not> d_accepted d"
  shows "refusal req d"
proof -
  let ?q = "with_caller req"
  have yes: "accept q \<noteq> d" for q using no by auto
  show ?thesis
  proof (cases "caller_actor_reason (q_caller ?q) (q_actor_type ?q) (q_actor_id ?q) (q_payload ?q)")
    case (Some r)
    with dec show ?thesis by (auto simp: decide_def Let_def)
  next
    case None
    with dec obtain lims lead where ll: "limits registry (q_team ?q) = Inr lims"
      "team_lead registry (q_team ?q) = Inr lead" by (auto simp: decide_def Let_def bind_res_Inr)
    let ?a = "actor_of ?q lead"
    consider (rej) "q_kind ?q = Task_Rejected" | (new) "q_kind ?q = Task_Created"
      | (other) bad where "d = answer ?q bad"
      using dec None ll
      by (cases "q_kind req") (auto simp: decide_def Let_def bind_res_Inr)
    then show ?thesis
    proof cases
      case rej
      then obtain bad where bad: "decide_rejected ?q registry ?a = Inr bad"
        "(case bad of Some reason \<Rightarrow> rejection ?q reason
           | None \<Rightarrow> \<lparr>d_kind = Task_Rejected, d_payload = q_payload ?q, d_accepted = False,
               d_reason = str_or_empty (dget (q_payload ?q) ''reason'')\<rparr>) = d"
        using dec None ll by (auto simp: decide_def Let_def bind_res_Inr)
      show ?thesis
      proof (cases bad)
        case None
        have "dget (q_payload ?q) ''caller'' = PStr (q_caller req)" by (simp add: with_caller_def)
        moreover have "d_kind d = Task_Rejected" "d_payload d = q_payload ?q"
          using bad(2) None by auto
        moreover note decide_rejected_strings [of ?q registry ?a] bad(1) None
        ultimately show ?thesis by (simp add: refusal_def)
      qed (use bad(2) in auto)
    next
      case new
      with dec None ll obtain bad where "decide_task_created ?q l registry lims ?a = Inr bad"
        "(case bad of Some reason \<Rightarrow> Inr (rejection ?q reason, store)
          | None \<Rightarrow> complete_created ?q lims now body store) = Inr (d, store')"
        by (auto simp: decide_def Let_def bind_res_Inr)
      with complete_created_refused [of ?q lims now body store d store'] no show ?thesis
        by (cases bad) auto
    next
      case other
      with yes show ?thesis by (cases bad) auto
    qed
  qed
qed

lemma fold_refusal:
  assumes ids: "request_ids_ok q" and team: "startswith (q_team q) (q_project q @ u ''-'')"
    and proj: "stream_project l = None \<or> stream_project l = Some (q_project q)"
    and d: "refusal q d" "q_caller q = u ''root:root''"
  obtains j where "fold_event (seq, compose_record seq now q Task_Rejected (d_payload d)) l =
      Inr ((note_project (compose_record seq now q Task_Rejected (d_payload d)) l)
        \<lparr>rejections := rejections l @ [j]\<rparr>)"
    and "j_seq j = seq" and "j_run_id j = q_run q" and "j_team_uid j = q_team q"
    and "PStr (j_reason j) = dget (d_payload d) ''reason''"
proof -
  obtain req rsn where p: "dget (d_payload d) ''requested_type'' = PStr req"
    "dget (d_payload d) ''reason'' = PStr rsn" "dget (d_payload d) ''caller'' = PStr (u ''root:root'')"
    using d by (auto simp: refusal_def)
  have ne: "q_run q \<noteq> []" "q_team q \<noteq> []"
    using ids matched_nonempty by (auto simp: request_ids_ok_def)
  note env = composed_envelope [OF ids team disjI2 [OF refl] proj, of seq now "d_payload d"]
  show thesis
    using env p ne
    by (intro that [of "\<lparr>j_seq = seq, j_team_uid = q_team q,
        j_task_id = or_null (task_key q), j_run_id = q_run q, j_requested_type = req, j_reason = rsn\<rparr>"])
      (simp_all add: fold_event_def Let_def fold_rejected_def task_key_def)
qed


section \<open>One run of the command\<close>

text \<open>A run that changes the stream went all the way to the commit.\<close>

lemma task_main_commits:
  assumes "task_main args env db = Inr (rc, db')" and "db_stream db' \<noteq> db_stream db"
  obtains p ident body registry l d bodies where "validate_common args = Inr ()"
    and "e_caller env = u ''root:root''"
    and "payload_for args (e_caller env) (e_body_file env) = Inr (p, ident, body)"
    and "e_registry env = Inr registry"
    and "validate_registry_scope registry (a_project args) (a_team args) = Inr ()"
    and "run fold_event (db_stream db) (empty_ledger []) = Inr l"
    and "causation_replay (db_stream db) (request_for args (e_caller env) p ident) = None"
    and "decide (request_for args (e_caller env) p ident) (derive_runs l) registry (e_now env) body
      (db_bodies db) = Inr (d, bodies)"
    and "db' = db\<lparr>db_stream := commit (e_stamp env) (request_for args (e_caller env) p ident)
      (d_kind d) (d_payload d) (db_stream db), db_bodies := bodies\<rparr>"
    and "rc = 0 \<longleftrightarrow> d_accepted d"
proof -
  from assms have mw: "main_write args env db = Inr (rc, db')"
    by (auto simp: task_main_def exit_status_def split: sum.splits exn.splits if_splits)
  with assms(2) obtain p ident body where vc: "validate_common args = Inr ()"
    and caller: "e_caller env = u ''root:root''"
    and p: "payload_for args (e_caller env) (e_body_file env) = Inr (p, ident, body)"
    and tr: "transact args env (request_for args (e_caller env) p ident) body db = Inr (rc, db')"
    by (auto simp: main_write_def bind_res_Inr split: if_splits)
  let ?q = "request_for args (e_caller env) p ident"
  from tr obtain registry v where reg: "e_registry env = Inr registry"
    and scope: "validate_registry_scope registry (a_project args) (a_team args) = Inr ()"
    and v: "ledger_fold (u ''ok'') (next_seq (db_stream db) - 1) [] (db_stream db) = Inr v"
    by (auto simp: transact_def bind_res_Inr)
  from v obtain l where l: "run fold_event (db_stream db) (empty_ledger []) = Inr l" "folded v = derive_runs l"
    by (auto simp: ledger_fold_def bind_res_Inr)
  have replay: "causation_replay (db_stream db) ?q = None"
    using tr reg scope v assms(2)
    by (auto simp: transact_def split: option.splits replay.splits)
  from tr reg scope v l replay obtain d bodies where
    d: "decide ?q (derive_runs l) registry (e_now env) body (db_bodies db) = Inr (d, bodies)"
    by (auto simp: transact_def bind_res_Inr)
  have out: "db' = db\<lparr>db_stream := commit (e_stamp env) ?q (d_kind d) (d_payload d) (db_stream db),
      db_bodies := bodies\<rparr> \<and> (rc = 0 \<longleftrightarrow> d_accepted d)"
    using tr reg scope v l replay d assms(2)
    by (auto simp: transact_def Let_def split: if_splits)
  with that vc caller p reg scope l(1) replay d show thesis by blast
qed


text \<open>Decisions read only the runs and the tasks.\<close>

lemma passed_cong:
  assumes "runs l' = runs l" and "tasks l' = tasks l"
  shows "passed q l' registry lims lead = passed q l registry lims lead"
proof -
  note defs = decide_run_requested_def decide_run_closed_def decide_task_created_def decide_task_def
    decide_reassigned_def task_of_def open_count_def run_assignments_def
  have "decide_run_requested q l' a = decide_run_requested q l a"
    "decide_run_closed q l' a = decide_run_closed q l a"
    "decide_task_created q l' registry lims a = decide_task_created q l registry lims a"
    "decide_reassigned q l' registry t lims a = decide_reassigned q l registry t lims a" for a t
    by (simp_all only: defs assms)
  moreover from this have "decide_task q l' registry lims lead a = decide_task q l registry lims lead a" for a
    by (simp only: decide_task_def task_of_def assms)
  ultimately show ?thesis by (simp only: passed_def)
qed

lemma passed_note_project:
  "passed q (derive_runs (note_project rec l)) registry lims lead = passed q (derive_runs l) registry lims lead"
  by (rule passed_cong) (simp_all add: derive_runs_def)

text \<open>
  An accepted request, from the decision to the fold: the guards it passed, and the handler
  that takes its event.
\<close>

lemma accepted_event:
  assumes vc: "validate_common args = Inr ()" and p: "payload_for args c bf = Inr (p, ident, body)"
    and scope: "validate_registry_scope registry (a_project args) (a_team args) = Inr ()"
    and dec: "decide (request_for args c p ident) (derive_runs l) registry now body store = Inr (d, store')"
    and acc: "d_accepted d" and reg: "registry_uids_ok registry"
    and proj: "stream_project l = None \<or> stream_project l = Some (a_project args)"
    and rec: "rec = compose_record seq stamp (request_for args c p ident) (d_kind d) (d_payload d)"
    and q: "q = with_caller (request_for args c p ident)"
  obtains lims lead l' where "limits registry (q_team q) = Inr lims" and "team_lead registry (q_team q) = Inr lead"
    and "passed q (derive_runs l) registry lims lead" and "d_kind d = q_kind q"
    and "rec = compose_record seq stamp q (q_kind q) (d_payload d)"
    and "q_kind q \<noteq> Task_Created \<longrightarrow> d_payload d = q_payload q"
    and "fold_handler (q_kind q) seq rec (d_payload d) (q_run q) (task_key q) (q_team q) (note_project rec l) = Inr l'"
    and "fold_event (seq, rec) l = Inr l'"
  using dec acc
proof (rule decide_accepted)
  fix lims lead
  assume lims: "limits registry (q_team (with_caller (request_for args c p ident))) = Inr lims"
      "team_lead registry (q_team (with_caller (request_for args c p ident))) = Inr lead"
    and ok: "passed (with_caller (request_for args c p ident)) (derive_runs l) registry lims lead"
    and kind: "d_kind d = q_kind (with_caller (request_for args c p ident))"
    and nr: "q_kind (with_caller (request_for args c p ident)) \<noteq> Task_Rejected"
    and cm: "caller_matches (PStr (q_actor_type (with_caller (request_for args c p ident))))
      (PStr (q_actor_id (with_caller (request_for args c p ident))))
      (q_payload (with_caller (request_for args c p ident)))"
    and other: "q_kind (with_caller (request_for args c p ident)) \<noteq> Task_Created \<Longrightarrow>
      d_payload d = q_payload (with_caller (request_for args c p ident))"
    and created: "q_kind (with_caller (request_for args c p ident)) = Task_Created \<Longrightarrow>
      complete_created (with_caller (request_for args c p ident)) lims now body store = Inr (d, store')"
  note facts = lims ok kind nr cm other created
  note facts = facts [folded q]
  have ids: "request_ids_ok q" using request_ids [OF vc p] by (simp add: q)
  have pay: "payload_ok q" using request_payload [OF p] by (simp add: q)
  have team: "startswith (q_team q) (q_project q @ u ''-'')"
    using scope by (auto simp: q validate_registry_scope_def split: pyval.splits option.splits if_splits)
  have rq: "rec = compose_record seq stamp q (q_kind q) (d_payload d)"
    by (simp add: rec compose_record_def q kind)
  have new: "valid_deadline (dget (d_payload d) ''deadline_at'') \<and>
      (\<forall>k. k \<noteq> ''deadline_at'' \<longrightarrow> k \<noteq> ''budget'' \<longrightarrow> dget (d_payload d) k = dget (q_payload q) k)"
    if "q_kind q = Task_Created"
    using facts(8) [OF that] acc
  proof (rule complete_created_accepted)
    fix p' assume d: "d = accept (q\<lparr>q_payload := dset (u ''budget'') (task_budget lims) p'\<rparr>)"
      and "(p' = q_payload q \<and> dget p' ''deadline_at'' \<noteq> PNone) \<or> (\<exists>s. default_deadline now lims = Inr s \<and>
        p' = dset (u ''deadline_at'') (PStr s) (q_payload q))"
    with pay that default_deadline_valid [of now lims] show ?thesis
      by (auto simp: payload_ok_def Let_def)
  qed
  have cm': "caller_matches (PStr (q_actor_type q)) (PStr (q_actor_id q)) (d_payload d)"
  proof (cases "q_kind q = Task_Created")
    case True
    with new facts(6) show ?thesis by (simp add: caller_matches_def)
  qed (use facts(6,7) in simp)
  obtain l' where h: "fold_handler (q_kind q) seq rec (d_payload d) (q_run q) (task_key q) (q_team q)
      (note_project rec l) = Inr l'"
    using agree_handler [OF _ pay ids reg rq facts(7) new, of "note_project rec l" lims lead] facts(3)
    unfolding passed_note_project by blast
  have "fold_event (seq, rec) l = catch_ledger seq (note_project rec l) (Inr l')"
    using fold_composed [OF ids team refl facts(5) _ cm' rq] proj h by (simp add: q)
  then have f: "fold_event (seq, rec) l = Inr l'" by (simp add: catch_ledger_def)
  show thesis by (rule that [OF facts(1-4) rq _ h f]) (use facts(7) in simp)
qed

text \<open>The event that a committing run appends, against the ledger it was decided on.\<close>

lemma committed_event:
  assumes vc: "validate_common args = Inr ()" and caller: "c = u ''root:root''"
    and p: "payload_for args c bf = Inr (p, ident, body)"
    and scope: "validate_registry_scope registry (a_project args) (a_team args) = Inr ()"
    and dec: "decide (request_for args c p ident) (derive_runs l) registry now body store = Inr (d, store')"
    and reg: "registry_uids_ok registry"
    and proj: "stream_project l = None \<or> stream_project l = Some (a_project args)"
    and rec: "rec = compose_record seq stamp (request_for args c p ident) (d_kind d) (d_payload d)"
  shows "\<exists>l'. fold_event (seq, rec) l = Inr l' \<and> invalid_events l' = invalid_events l \<and>
    stream_project l' = Some (a_project args) \<and>
    (if d_accepted d then rejections l' = rejections l \<and> d_kind d = command_event (a_command args)
     else runs l' = runs l \<and> tasks l' = tasks l \<and>
       (\<exists>j. rejections l' = rejections l @ [j] \<and> j_seq j = seq \<and> j_run_id j = a_run_id args))"
proof -
  let ?q = "with_caller (request_for args c p ident)"
  have project: "stream_project (note_project rec l) = Some (a_project args)"
    using proj by (auto simp: note_project_def rec)
  show ?thesis
  proof (cases "d_accepted d")
    case True
    obtain l' where k: "d_kind d = q_kind ?q"
      and h: "fold_handler (q_kind ?q) seq rec (d_payload d) (q_run ?q) (task_key ?q) (q_team ?q)
        (note_project rec l) = Inr l'"
      and f: "fold_event (seq, rec) l = Inr l'"
      by (rule accepted_event [OF vc p scope dec True reg proj rec refl])
    with fold_handler_lists [OF h] project True show ?thesis by simp
  next
    case False
    have ids: "request_ids_ok ?q" using request_ids [OF vc p] by simp
    have team: "startswith (q_team ?q) (q_project ?q @ u ''-'')"
      using scope by (auto simp: validate_registry_scope_def split: pyval.splits option.splits if_splits)
    have rq: "rec = compose_record seq stamp ?q (d_kind d) (d_payload d)"
      by (simp add: rec compose_record_def)
    have r: "q_caller ?q = u ''root:root''" "refusal ?q d" "d_kind d = Task_Rejected"
      using caller decide_refused [OF dec False] by (simp_all add: refusal_def)
    note fold_refusal [OF ids team _ r(2,1), of l seq stamp]
    then obtain j where "fold_event (seq, rec) l = Inr ((note_project rec l)
        \<lparr>rejections := rejections l @ [j]\<rparr>)" "j_seq j = seq" "j_run_id j = a_run_id args"
      using proj rq r(3) by auto
    with project False show ?thesis by simp
  qed
qed

end
