(* ===== verification/TaskSamples.thy ===== *)
theory TaskSamples
  imports TaskMain
begin

text \<open>
  A small registry and sample command lines: one project, one team of a lead and a developer.
  The witnesses of the write path evaluate on these.
\<close>

definition smp_agent :: "string \<Rightarrow> pydict" where
  "smp_agent lead = [(u ''team_uid'', PStr (u ''acme-core'')), (u ''mode'', PStr (u ''supervised'')),
     (u ''lead'', PStr (u lead))]"

definition smp_registry :: pydict where
  "smp_registry = [(u ''schema_version'', PInt 5),
     (u ''projects'', PDict [(u ''acme'', PDict [])]),
     (u ''teams'', PDict [(u ''acme-core'', PDict [(u ''project'', PStr (u ''acme''))])]),
     (u ''agents'', PDict [(u ''acme-lead'', PDict (smp_agent ''true'')),
       (u ''acme-dev1'', PDict (smp_agent ''false''))])]"

definition smp_args :: "command \<Rightarrow> string \<Rightarrow> cli_args" where
  "smp_args c causation = \<lparr>a_command = c, a_project = u ''acme'', a_team = u ''acme-core'',
     a_actor_type = A_Human, a_actor_id = u ''operator'', a_causation_id = u causation,
     a_run_id = u ''r-aaaaaaaaaaaa'', a_via = Some (u ''ctl:1''),
     a_requester = Some (u ''human:operator'')\<rparr>"

definition smp_env :: environment where
  "smp_env = \<lparr>e_privileged = True, e_caller = u ''root:root'', e_body_file = Inr [104, 105],
     e_lock_free = True, e_registry = Inr smp_registry, e_now = 1792843200,
     e_stamp = u ''2026-10-24T12:00:00Z'', e_commit_rc = 0\<rparr>"

definition smp_db :: task_db where
  "smp_db = \<lparr>db_stream = [], db_bodies = smp_store\<rparr>"

definition smp_run_cmd :: cli_args where
  "smp_run_cmd = smp_args (Run_Create None) ''op-1''"

definition smp_after :: "exn + int \<times> task_db \<Rightarrow> task_db" where
  "smp_after r = (case r of Inr (_, db) \<Rightarrow> db | Inl _ \<Rightarrow> smp_db)"

definition smp_db1 :: task_db where
  "smp_db1 = smp_after (task_main smp_run_cmd smp_env smp_db)"

lemma smp_run_cmd_ok: "task_main smp_run_cmd smp_env smp_db = Inr (0, smp_db1)"
  unfolding smp_db1_def by code_simp

lemma smp_db1_new: "db_stream smp_db1 \<noteq> db_stream smp_db"
  by code_simp

lemma smp_registry_uids: "registry_uids_ok smp_registry"
  by code_simp

end
