(* ===== verification/TaskLimits.thy ===== *)
theory TaskLimits
  imports TaskMain
begin

text \<open>
  The delegation limits of a team as an invariant of the ledger: how many tasks of the team
  are open, how many assignments a run has consumed, and how often one task was assigned or
  took a turn. Every request the decision engine accepts keeps them.
\<close>

section \<open>Within the limits\<close>

definition within :: "limit_table \<Rightarrow> pystr \<Rightarrow> ledger \<Rightarrow> bool" where
  "within lims team l = (open_count team l \<le> lim lims ''max_open'' \<and>
     (\<forall>k r. map_of (runs l) k = Some r \<longrightarrow> r_team_uid r = team \<longrightarrow>
        run_assignments k l \<le> lim lims ''max_tasks_per_run'') \<and>
     (\<forall>k t. map_of (tasks l) k = Some t \<longrightarrow> t_team_uid t = team \<longrightarrow>
        t_assignments t \<le> lim lims ''max_assignments_per_task'' \<and>
        t_turns t \<le> lim lims ''max_turns_per_task''))"

lemma within_cong:
  "runs l' = runs l \<Longrightarrow> tasks l' = tasks l \<Longrightarrow> within lims team l' = within lims team l"
  by (simp add: within_def open_count_def run_assignments_def)

text \<open>
  Upper bounds: a table with room for one of each, and the limits a registry configures for a
  team stay below it. A registry without readable limits for the team bounds nothing, since the
  engine then accepts nothing of that team.
\<close>

definition roomy :: "limit_table \<Rightarrow> bool" where
  "roomy bd = list_all (\<lambda>k. 1 \<le> lim bd k)
     [''max_open'', ''max_tasks_per_run'', ''max_assignments_per_task'', ''max_turns_per_task'']"

definition below :: "limit_table \<Rightarrow> limit_table \<Rightarrow> bool" where
  "below lims bd = list_all (\<lambda>k. lim lims k \<le> lim bd k)
     [''max_open'', ''max_tasks_per_run'', ''max_assignments_per_task'', ''max_turns_per_task'']"

definition limited :: "pystr \<Rightarrow> limit_table \<Rightarrow> pydict \<Rightarrow> bool" where
  "limited team bd registry = (case limits registry team of Inr lims \<Rightarrow> below lims bd | Inl _ \<Rightarrow> True)"

lemma limitedD: "limited team bd registry \<Longrightarrow> limits registry team = Inr lims \<Longrightarrow> below lims bd"
  by (simp add: limited_def)

lemma configured_roomy: "limits registry team = Inr lims \<Longrightarrow> roomy lims"
  using limits_pos [of registry team lims] by (simp add: roomy_def DEFAULT_LIMITS_def)

lemma within_empty: "roomy bd \<Longrightarrow> within bd team (empty_ledger bad)"
  by (simp add: within_def empty_ledger_def open_count_def roomy_def)

text \<open>The counts after one task was written.\<close>

lemma counts_after:
  assumes "wf_dict (tasks l)" and "tasks l' = dset k t' (tasks l)"
  shows "open_count team l' = open_count team l
      - (case map_of (tasks l) k of None \<Rightarrow> 0
         | Some t \<Rightarrow> if t_state t \<in> set OPEN_LIMIT \<and> t_team_uid t = team then 1 else 0)
      + (if t_state t' \<in> set OPEN_LIMIT \<and> t_team_uid t' = team then 1 else 0)"
    and "run_assignments r l' = run_assignments r l
      - (case map_of (tasks l) k of None \<Rightarrow> 0
         | Some t \<Rightarrow> if t_run_id t = r then t_assignments t else 0)
      + (if t_run_id t' = r then t_assignments t' else 0)"
  by (simp_all only: open_count_def run_assignments_def assms(2) sum_dvalues_dset [OF assms(1)])

text \<open>One existing task moves: it stays within the limits if the moves that count have room.\<close>

lemma within_update:
  assumes inv: "ledger_inv l" and w: "within lims team l" and t: "map_of (tasks l) k = Some t"
    and same: "t_run_id t' = t_run_id t" "t_team_uid t' = t_team_uid t"
    and l': "l' = l\<lparr>tasks := dset k t' (tasks l)\<rparr>"
    and asg: "(t_assignments t' = t_assignments t \<and>
        (t_state t' \<in> set OPEN_LIMIT \<longrightarrow> t_state t \<in> set OPEN_LIMIT)) \<or>
      (t_assignments t' = t_assignments t + 1 \<and> (t_team_uid t = team \<longrightarrow>
        open_count team l < lim lims ''max_open'' \<and>
        run_assignments (t_run_id t) l < lim lims ''max_tasks_per_run'' \<and>
        t_assignments t < lim lims ''max_assignments_per_task''))"
    and turns: "t_turns t' \<le> t_turns t \<or>
      (t_turns t' = t_turns t + 1 \<and> (t_team_uid t = team \<longrightarrow> t_turns t < lim lims ''max_turns_per_task''))"
  shows "within lims team l'"
proof -
  have wf: "wf_dict (tasks l)" using inv by (simp add: ledger_inv_def)
  have tl': "tasks l' = dset k t' (tasks l)" "runs l' = runs l" by (simp_all add: l')
  note after = counts_after [OF wf tl'(1), unfolded t option.case]
  have "open_count team l' \<le> lim lims ''max_open''"
    using w asg same unfolding after(1) [of team] within_def by (auto split: if_splits)
  moreover have "run_assignments j l' \<le> lim lims ''max_tasks_per_run''"
    if j: "map_of (runs l) j = Some r" "r_team_uid r = team" for j r
  proof -
    have old: "run_assignments j l \<le> lim lims ''max_tasks_per_run''"
      using w j by (auto simp: within_def)
    have "t_team_uid t = team" if "t_run_id t = j"
      using ledger_inv_task_entry [OF inv t] j that by (auto simp: task_home_def)
    with old asg same show ?thesis unfolding after(2) [of j] by (auto split: if_splits)
  qed
  moreover have "t_assignments s \<le> lim lims ''max_assignments_per_task'' \<and>
      t_turns s \<le> lim lims ''max_turns_per_task''"
    if s: "map_of (tasks l') j = Some s" "t_team_uid s = team" for j s
  proof -
    have old: "t_assignments x \<le> lim lims ''max_assignments_per_task'' \<and>
        t_turns x \<le> lim lims ''max_turns_per_task''"
      if "map_of (tasks l) i = Some x" "t_team_uid x = team" for i x
      using w that by (auto simp: within_def)
    show ?thesis
    proof (cases "j = k")
      case True
      with s tl' have "s = t'" by simp
      with old [OF t] s same asg turns show ?thesis by auto
    next
      case False
      with s tl' old show ?thesis by auto
    qed
  qed
  ultimately show ?thesis by (simp add: within_def tl'(2))
qed


section \<open>Run events\<close>

lemma run_assignments_none:
  assumes "ledger_inv l" and "map_of (runs l) k = None"
  shows "run_assignments k l = 0"
proof -
  have no: "t_run_id t \<noteq> k" if "t \<in> set (dvalues (tasks l))" for t
  proof -
    from that assms(1) obtain j where "map_of (tasks l) j = Some t"
      by (auto simp: in_dvalues ledger_inv_def)
    from ledger_inv_task_entry [OF assms(1) this] assms(2) show ?thesis
      by (auto simp: task_home_def)
  qed
  have "map (\<lambda>t. if t_run_id t = k then t_assignments t else 0) (dvalues (tasks l)) =
      map (\<lambda>t. 0) (dvalues (tasks l))"
    by (rule map_cong) (simp_all add: no)
  then show ?thesis by (simp only: run_assignments_def sum_list_0)
qed

lemma within_run_requested:
  assumes inv: "ledger_inv l" and w: "within lims team l" and pos: "0 \<le> lim lims ''max_tasks_per_run''"
    and step: "fold_run_requested seq rec run_id tm l = Inr l'"
  shows "within lims team l'"
proof -
  from step have new: "map_of (runs l) run_id = None" and tl: "tasks l' = tasks l"
    and runs: "\<And>k r. map_of (runs l') k = Some r \<Longrightarrow> k = run_id \<or> map_of (runs l) k = Some r"
    by (auto simp: fold_run_requested_def split: if_splits)
  have "run_assignments run_id l = 0" by (rule run_assignments_none [OF inv new])
  with pos have zero: "run_assignments run_id l \<le> lim lims ''max_tasks_per_run''" by simp
  have same: "run_assignments j l' = run_assignments j l" "open_count team l' = open_count team l" for j
    by (simp_all add: run_assignments_def open_count_def tl)
  have "run_assignments j l' \<le> lim lims ''max_tasks_per_run''"
    if "map_of (runs l') j = Some r" "r_team_uid r = team" for j r
    using runs [OF that(1)] that(2) w zero by (auto simp: same within_def)
  then show ?thesis using w by (simp add: within_def same tl)
qed

lemma within_run_closed:
  assumes w: "within lims team l" and step: "fold_run_closed seq rec p run_id tm l = Inr l'"
  shows "within lims team l'"
  using step
proof (rule run_closed_Inr)
  fix r assume r: "map_of (runs l) run_id = Some r"
    and l': "l' = l\<lparr>tasks := dmap (cancel_by_run seq run_id) (tasks l),
      runs := dset run_id (r\<lparr>r_state := outcome_state (dget p ''outcome''), r_outcome := dget p ''outcome'',
        r_last_at := dget rec ''occurred_at''\<rparr>) (runs l)\<rparr>"
  have "open_count team l' \<le> open_count team l"
    unfolding open_count_def l'
    by (auto simp: comp_def cancel_by_run_state intro!: sum_list_mono)
  moreover have "run_assignments j l' = run_assignments j l" for j
    unfolding run_assignments_def l' by (simp add: comp_def cong: if_cong)
  ultimately show ?thesis
    using w r unfolding within_def by (auto simp: l' split: if_splits)
qed

section \<open>Task events\<close>

lemma within_task_created:
  assumes inv: "ledger_inv l" and w: "within lims team l"
    and pos: "1 \<le> lim lims ''max_assignments_per_task''" "0 \<le> lim lims ''max_turns_per_task''"
    and room: "tm = team \<Longrightarrow> open_count team l < lim lims ''max_open'' \<and>
      run_assignments run_id l < lim lims ''max_tasks_per_run''"
    and ids: "dget rec ''run_id'' = PStr run_id" "dget rec ''team_uid'' = PStr tm"
    and step: "fold_task_created seq rec p run_id k tm l = Inr l'"
  shows "within lims team l'"
  using step
proof (rule task_created_Inr)
  fix r :: run_row and t0 :: task_row
  let ?t = "t0\<lparr>t_created_seq := Some seq, t_last_seq := Some seq, t_state_seq := Some seq\<rparr>"
  assume r: "map_of (runs l) run_id = Some r" "r_team_uid r = tm" and new: "map_of (tasks l) k = None"
    and base: "base_task rec p = Inr t0"
    and l': "l' = l\<lparr>tasks := dset k ?t (tasks l),
      runs := if r_state r = RQUEUED then dset run_id (r\<lparr>r_state := RRUNNING\<rparr>) (runs l) else runs l\<rparr>"
  have t: "t_run_id t0 = run_id" "t_team_uid t0 = tm" "t_assignments t0 = 1" "t_turns t0 = 0"
    using base_task_Inr [OF base] ids by (auto simp: fresh_task_def)
  have wf: "wf_dict (tasks l)" using inv by (simp add: ledger_inv_def)
  have tl': "tasks l' = dset k ?t (tasks l)" by (simp add: l')
  note after = counts_after [OF wf tl', unfolded new option.case]
  have run_same: "\<exists>q'. map_of (runs l) j = Some q' \<and> r_team_uid q' = r_team_uid q"
    if "map_of (runs l') j = Some q" for j q
    using that r by (auto simp: l' split: if_splits)
  have "open_count team l' \<le> lim lims ''max_open''"
    using w room t unfolding after(1) [of team] within_def by (auto split: if_splits)
  moreover have "run_assignments j l' \<le> lim lims ''max_tasks_per_run''"
    if j: "map_of (runs l') j = Some q" "r_team_uid q = team" for j q
  proof -
    obtain q' where q': "map_of (runs l) j = Some q'" "r_team_uid q' = team"
      using run_same j by fastforce
    then have old: "run_assignments j l \<le> lim lims ''max_tasks_per_run''"
      using w by (auto simp: within_def)
    have "tm = team" if "run_id = j" using q' r that by simp
    with old room t show ?thesis unfolding after(2) [of j] by (auto split: if_splits)
  qed
  moreover have "t_assignments s \<le> lim lims ''max_assignments_per_task'' \<and>
      t_turns s \<le> lim lims ''max_turns_per_task''"
    if s: "map_of (tasks l') j = Some s" "t_team_uid s = team" for j s
  proof (cases "j = k")
    case True
    with s tl' have "s = ?t" by simp
    with t pos show ?thesis by simp
  next
    case False
    with s tl' w show ?thesis by (auto simp: within_def)
  qed
  ultimately show ?thesis by (auto simp: within_def)
qed

text \<open>What a task event moves, by its kind.\<close>

lemma transition_effect:
  assumes "task_transition k rec p t = Inr t'" and "task_counts t"
  shows "(if k \<in> {Task_Reassigned, Task_Reopened} then t_assignments t' = t_assignments t + 1
      else t_assignments t' = t_assignments t \<and> (t_state t' \<in> set OPEN_LIMIT \<longrightarrow> t_state t \<in> set OPEN_LIMIT))"
    and "t_turns t' \<le> t_turns t \<or> (t_turns t' = t_turns t + 1 \<and> k = Task_Reported \<and>
      dget p ''state'' = PStr (u ''progress''))"
  using assms
  by (cases k; force simp: task_transition_def fold_started_def fold_reported_def fold_cancelled_def
      fold_reassigned_def fold_overdue_def report_state_def task_counts_def Let_def bind_res_Inr
      split: if_splits)+


text \<open>What the engine checked before it let a counting event of an existing task pass.\<close>

lemma passed_room:
  assumes ok: "decide_task q (derive_runs l) registry lims lead (actor_of q lead) = Inr None"
    and t: "map_of (tasks l) (task_key q) = Some t"
  shows "q_kind q \<in> {Task_Reassigned, Task_Reopened} \<Longrightarrow>
      open_count (q_team q) l < lim lims ''max_open'' \<and>
      run_assignments (q_run q) l < lim lims ''max_tasks_per_run'' \<and>
      t_assignments t < lim lims ''max_assignments_per_task''"
    and "q_kind q = Task_Reported \<Longrightarrow> dget (q_payload q) ''state'' = PStr (u ''progress'') \<Longrightarrow>
      t_turns t < lim lims ''max_turns_per_task''"
    and "t_team_uid t = q_team q" and "t_run_id t = q_run q"
proof -
  from ok obtain s where s: "map_of (tasks l) (task_key q) = Some s" "t_run_id s = q_run q"
    "t_team_uid s = q_team q"
    and branch: "(case q_kind q of Task_Started \<Rightarrow> Inr (decide_task_started q s (actor_of q lead))
        | Task_Reported \<Rightarrow> decide_task_reported q s lims (actor_of q lead)
        | Task_Cancelled \<Rightarrow> Inr (decide_task_cancelled q s (actor_of q lead))
        | Task_Reassigned \<Rightarrow> decide_reassigned q (derive_runs l) registry s lims (actor_of q lead)
        | Task_Reopened \<Rightarrow> decide_reassigned q (derive_runs l) registry s lims (actor_of q lead)
        | Task_Overdue \<Rightarrow> Inr (decide_overdue q s lead (actor_of q lead))
        | _ \<Rightarrow> Inr (Some ''unsupported_event'')) = Inr None"
    by (rule decide_task_Inr_None)
  from s t have st: "s = t" by simp
  show "t_team_uid t = q_team q" "t_run_id t = q_run q" using s st by simp_all
  have counts: "open_count team (derive_runs l) = open_count team l"
    "run_assignments j (derive_runs l) = run_assignments j l" for team j
    by (simp_all add: open_count_def run_assignments_def)
  show "open_count (q_team q) l < lim lims ''max_open'' \<and>
      run_assignments (q_run q) l < lim lims ''max_tasks_per_run'' \<and>
      t_assignments t < lim lims ''max_assignments_per_task''"
    if "q_kind q \<in> {Task_Reassigned, Task_Reopened}"
  proof -
    have "decide_reassigned q (derive_runs l) registry t lims (actor_of q lead) = Inr None"
      using branch that st by auto
    then show ?thesis by (auto simp: decide_reassigned_def bind_res_Inr counts split: if_splits)
  qed
  show "t_turns t < lim lims ''max_turns_per_task''"
    if "q_kind q = Task_Reported" "dget (q_payload q) ''state'' = PStr (u ''progress'')"
    using branch that st
    by (auto simp: decide_task_reported_def Let_def bind_res_Inr split: if_splits)
qed

lemma within_task_event:
  assumes inv: "ledger_inv l" and w: "within lims' team l"
    and ok: "decide_task q (derive_runs l) registry lims lead (actor_of q lead) = Inr None"
    and mine: "team = q_team q \<Longrightarrow> below lims lims'"
    and step: "fold_task_event (q_kind q) seq rec (q_payload q) (q_run q) (task_key q) (q_team q) l = Inr l'"
  shows "within lims' team l'"
  using step
proof (rule task_event_Inr)
  fix t t'
  assume t: "map_of (tasks l) (task_key q) = Some t"
    and tr: "task_transition (q_kind q) rec (q_payload q) t = Inr t'"
    and l': "l' = l\<lparr>tasks := dset (task_key q) (stamp_task seq rec t t') (tasks l)\<rparr>"
  have counts: "task_counts t" using ledger_inv_task_entry [OF inv t] by simp
  note eff = transition_effect [OF tr counts] and room = passed_room [OF ok t]
  show ?thesis
  proof (rule within_update [OF inv w t _ _ l'])
    show "t_run_id (stamp_task seq rec t t') = t_run_id t" "t_team_uid (stamp_task seq rec t t') = t_team_uid t"
      using transition_frame [OF tr] by (simp_all add: same_task_D)
    show "(t_assignments (stamp_task seq rec t t') = t_assignments t \<and>
        (t_state (stamp_task seq rec t t') \<in> set OPEN_LIMIT \<longrightarrow> t_state t \<in> set OPEN_LIMIT)) \<or>
      (t_assignments (stamp_task seq rec t t') = t_assignments t + 1 \<and> (t_team_uid t = team \<longrightarrow>
        open_count team l < lim lims' ''max_open'' \<and>
        run_assignments (t_run_id t) l < lim lims' ''max_tasks_per_run'' \<and>
        t_assignments t < lim lims' ''max_assignments_per_task''))"
      using eff(1) room(1,3,4) mine by (auto simp: below_def simp del: state_set_simps split: if_splits)
    show "t_turns (stamp_task seq rec t t') \<le> t_turns t \<or>
      (t_turns (stamp_task seq rec t t') = t_turns t + 1 \<and>
       (t_team_uid t = team \<longrightarrow> t_turns t < lim lims' ''max_turns_per_task''))"
      using eff(2) room(2,3) mine by (auto simp: below_def)
  qed
qed

lemma within_handler:
  assumes inv: "ledger_inv l" and w: "within lims' team l"
    and ok: "passed q (derive_runs l) registry lims lead" and ids: "request_ids_ok q"
    and bd: "roomy lims'" and mine: "team = q_team q \<Longrightarrow> below lims lims'"
    and rec: "rec = compose_record seq now q (q_kind q) p"
    and other: "q_kind q \<noteq> Task_Created \<Longrightarrow> p = q_payload q"
    and step: "fold_handler (q_kind q) seq rec p (q_run q) (task_key q) (q_team q) l = Inr l'"
  shows "within lims' team l'"
proof -
  have pos: "1 \<le> lim lims' ''max_tasks_per_run''" "1 \<le> lim lims' ''max_assignments_per_task''"
    "1 \<le> lim lims' ''max_turns_per_task''"
    using bd by (simp_all add: roomy_def)
  consider (req) "q_kind q = Run_Requested" | (close) "q_kind q = Run_Closed"
    | (new) "q_kind q = Task_Created"
    | (task) "q_kind q \<notin> {Run_Requested, Run_Closed, Task_Created, Task_Rejected}"
    using ok by (cases "q_kind q") (auto simp: passed_def)
  then show ?thesis
  proof cases
    case req
    then have "fold_run_requested seq rec (q_run q) (q_team q) l = Inr l'"
      using step by (simp add: fold_handler_def)
    with within_run_requested [OF inv w] pos(1) show ?thesis by simp
  next
    case close
    then have "fold_run_closed seq rec p (q_run q) (q_team q) l = Inr l'"
      using step by (simp add: fold_handler_def)
    then show ?thesis by (rule within_run_closed [OF w])
  next
    case new
    have ne: "q_run q \<noteq> []" "q_team q \<noteq> []"
      using ids matched_nonempty by (auto simp: request_ids_ok_def)
    have created: "fold_task_created seq rec p (q_run q) (task_key q) (q_team q) l = Inr l'"
      using step new by (simp add: fold_handler_def)
    have "decide_task_created q (derive_runs l) registry lims (actor_of q lead) = Inr None"
      using ok new by (simp add: passed_def Let_def)
    then have "open_count (q_team q) l < lim lims ''max_open'' \<and>
        run_assignments (q_run q) l < lim lims ''max_tasks_per_run''"
      by (auto simp: decide_task_created_def bind_res_Inr open_count_def run_assignments_def
          split: option.splits if_splits)
    then have "q_team q = team \<Longrightarrow> open_count team l < lim lims' ''max_open'' \<and>
        run_assignments (q_run q) l < lim lims' ''max_tasks_per_run''"
      using mine by (auto simp: below_def)
    then show ?thesis
      using pos ne by (intro within_task_created [OF inv w _ _ _ _ _ created]) (auto simp: rec)
  next
    case task
    then have d: "decide_task q (derive_runs l) registry lims lead (actor_of q lead) = Inr None"
      using ok by (cases "q_kind q") (simp_all add: passed_def Let_def)
    then have "q_kind q \<noteq> Run_Started"
      by (auto elim!: decide_task_Inr_None)
    then have "fold_task_event (q_kind q) seq rec (q_payload q) (q_run q) (task_key q) (q_team q) l = Inr l'"
      using task step other by (cases "q_kind q") (simp_all add: fold_handler_def)
    then show ?thesis by (intro within_task_event [OF inv w d]) (auto dest: mine)
  qed
qed

end
