(* ===== verification/TaskReach.thy ===== *)
theory TaskReach
  imports TaskLimits
begin

text \<open>
  The streams that \<open>bin/task\<close> writes: starting from an empty stream, any number of runs of
  the command for one project, with any arguments, at any times. The registry may change from
  run to run; \<open>P\<close> holds of each one that is read. Runs that fail, replay or refuse are steps as
  well.
\<close>

inductive written :: "(pydict \<Rightarrow> bool) \<Rightarrow> pystr \<Rightarrow> task_db \<Rightarrow> bool" for P project where
  written_empty: "db_stream db = [] \<Longrightarrow> written P project db"
| written_run: "written P project db \<Longrightarrow> a_project args = project \<Longrightarrow>
    \<forall>registry. e_registry env = Inr registry \<longrightarrow> P registry \<Longrightarrow> task_main args env db = Inr (rc, db') \<Longrightarrow>
    written P project db'"

lemma written_mono: "written P project db \<Longrightarrow> \<forall>r. P r \<longrightarrow> Q r \<Longrightarrow> written Q project db"
  by (induction rule: written.induct) (blast intro: written.intros)+

text \<open>What holds of every such stream: it folds, without an invalid event.\<close>

definition sound_ledger :: "pystr \<Rightarrow> ledger \<Rightarrow> bool" where
  "sound_ledger project l = (ledger_inv l \<and> invalid_events l = [] \<and>
     (stream_project l = None \<or> stream_project l = Some project))"

lemma sound_empty: "sound_ledger project (empty_ledger [])"
  by (auto simp: sound_ledger_def ledger_inv_empty) (simp_all add: empty_ledger_def)

lemma sound_step:
  assumes sound: "sound_ledger project l" and reg: "registry_uids_ok registry"
    and proj: "a_project args = project"
    and vc: "validate_common args = Inr ()" and c: "c = u ''root:root''"
    and p: "payload_for args c bf = Inr (p, ident, body)"
    and scope: "validate_registry_scope registry (a_project args) (a_team args) = Inr ()"
    and dec: "decide (request_for args c p ident) (derive_runs l) registry now body store = Inr (d, store')"
    and rec: "rec = compose_record seq stamp (request_for args c p ident) (d_kind d) (d_payload d)"
  shows "\<exists>l'. fold_event (seq, rec) l = Inr l' \<and> sound_ledger project l' \<and>
    (\<forall>team bd. roomy bd \<longrightarrow> limited team bd registry \<longrightarrow> within bd team l \<longrightarrow> within bd team l')"
proof -
  let ?q = "with_caller (request_for args c p ident)"
  have inv: "ledger_inv l" and sp: "stream_project l = None \<or> stream_project l = Some (a_project args)"
    using sound proj by (auto simp: sound_ledger_def)
  obtain l' where f: "fold_event (seq, rec) l = Inr l'" and i: "invalid_events l' = invalid_events l"
    and s': "stream_project l' = Some (a_project args)"
    and frame: "d_accepted d \<or> (runs l' = runs l \<and> tasks l' = tasks l)"
    using committed_event [OF vc c p scope dec reg sp rec] by (auto split: if_splits)
  have inv': "ledger_inv l'" by (rule fold_event_inv [OF inv f])
  have "within bd team l'" if bd: "roomy bd" "limited team bd registry" and w: "within bd team l" for bd team
  proof (cases "d_accepted d")
    case False
    with frame w show ?thesis by (simp add: within_cong [of l' l])
  next
    case True
    obtain lims lead l2 where ok: "passed ?q (derive_runs l) registry lims lead"
      and lims: "limits registry (q_team ?q) = Inr lims"
      and rq: "rec = compose_record seq stamp ?q (q_kind ?q) (d_payload d)"
      and other: "q_kind ?q \<noteq> Task_Created \<longrightarrow> d_payload d = q_payload ?q"
      and h: "fold_handler (q_kind ?q) seq rec (d_payload d) (q_run ?q) (task_key ?q) (q_team ?q)
        (note_project rec l) = Inr l2" and f2: "fold_event (seq, rec) l = Inr l2"
      by (rule accepted_event [OF vc p scope dec True reg sp rec refl])
    have "ledger_inv (note_project rec l)" "within bd team (note_project rec l)"
      using inv w by (simp_all add: within_cong [of "note_project rec l" l]
          ledger_inv_cong [of "note_project rec l" l])
    moreover have "request_ids_ok ?q" using request_ids [OF vc p] by simp
    moreover have mine: "team = q_team ?q \<Longrightarrow> below lims bd" using limitedD [OF bd(2)] lims by simp
    ultimately have "within bd team l2"
      using ok by (intro within_handler [OF _ _ _ _ bd(1) mine rq mp [OF other] h])
        (simp_all only: passed_note_project simp_thms)
    with f f2 show ?thesis by simp
  qed
  with f i s' inv' sound proj show ?thesis by (auto simp: sound_ledger_def)
qed

lemma written_sound:
  assumes "written P project db" and "\<forall>r. P r \<longrightarrow> registry_uids_ok r"
  shows "\<exists>l. run fold_event (db_stream db) (empty_ledger []) = Inr l \<and> sound_ledger project l \<and>
    (\<forall>team bd. roomy bd \<longrightarrow> (\<forall>r. P r \<longrightarrow> limited team bd r) \<longrightarrow> within bd team l)"
  using assms(1)
proof induction
  case (written_empty db)
  then show ?case by (simp add: sound_empty within_empty)
next
  case (written_run db args env rc db')
  then obtain l0 where l0: "run fold_event (db_stream db) (empty_ledger []) = Inr l0"
    and sound: "sound_ledger project l0"
    and w: "\<forall>team bd. roomy bd \<longrightarrow> (\<forall>r. P r \<longrightarrow> limited team bd r) \<longrightarrow> within bd team l0" by blast
  show ?case
  proof (cases "db_stream db' = db_stream db")
    case True
    with l0 sound w show ?thesis by simp
  next
    case False
    with written_run.hyps(4) show ?thesis
    proof (rule task_main_commits)
      fix p ident body registry l d bodies
      assume c: "validate_common args = Inr ()" "e_caller env = u ''root:root''"
          "payload_for args (e_caller env) (e_body_file env) = Inr (p, ident, body)"
          "validate_registry_scope registry (a_project args) (a_team args) = Inr ()"
          "decide (request_for args (e_caller env) p ident) (derive_runs l) registry (e_now env) body
            (db_bodies db) = Inr (d, bodies)"
        and r: "e_registry env = Inr registry"
        and l: "run fold_event (db_stream db) (empty_ledger []) = Inr l"
        and db': "db' = db\<lparr>db_stream := commit (e_stamp env) (request_for args (e_caller env) p ident)
          (d_kind d) (d_payload d) (db_stream db), db_bodies := bodies\<rparr>"
      have P: "P registry" and reg: "registry_uids_ok registry" using r written_run.hyps(3) assms(2) by simp_all
      have "l = l0" using l l0 by simp
      note step = sound_step [OF sound reg written_run.hyps(2) c [unfolded this] refl]
      from step [of "next_seq (db_stream db)" "e_stamp env"] l0 w P show ?thesis
        by (auto simp: db' commit_def run_append)
    qed
  qed
qed

end
