(* ===== verification/TaskProps.thy ===== *)
theory TaskProps
  imports TaskSamples TaskReach
begin

text \<open>
  The properties of the write path of \<open>bin/task\<close>.
\<close>

section \<open>Replays\<close>



lemma compose_get_or [simp]:
  "dget_or (compose_record seq now q k p) ''payload'' v = PDict p"
  by (simp add: compose_record_def)


section \<open>Committed events\<close>

text \<open>
  C6: whatever a run of the command commits, the fold takes: an accepted request appends one
  event of the requested type that is valid against the stream before it, and a refused one
  appends one rejection and leaves every run and task as it was.
\<close>

theorem committed_is_valid:
  assumes "task_main args env db = Inr (rc, db')" and "db_stream db' \<noteq> db_stream db"
    and "e_registry env = Inr registry" and "registry_uids_ok registry"
    and "\<forall>l. run fold_event (db_stream db) (empty_ledger []) = Inr l \<longrightarrow>
      stream_project l \<in> {None, Some (a_project args)}"
  shows "\<exists>l l' seq rec. run fold_event (db_stream db) (empty_ledger []) = Inr l \<and>
    db_stream db' = db_stream db @ [(seq, rec)] \<and>
    run fold_event (db_stream db') (empty_ledger []) = Inr l' \<and>
    invalid_events l' = invalid_events l \<and>
    (if rc = 0 then rejections l' = rejections l \<and>
        dget rec ''event_type'' = PStr (u (kind_name (command_event (a_command args))))
     else runs l' = runs l \<and> tasks l' = tasks l \<and>
        (\<exists>j. rejections l' = rejections l @ [j] \<and> j_seq j = seq \<and> j_run_id j = a_run_id args))"
  using assms(1,2)
proof (rule task_main_commits)
  fix p ident body registry' l d bodies
  let ?q = "request_for args (e_caller env) p ident" and ?seq = "next_seq (db_stream db)"
  assume r: "e_registry env = Inr registry'" and l: "run fold_event (db_stream db) (empty_ledger []) = Inr l"
    and rest: "validate_common args = Inr ()" "e_caller env = u ''root:root''"
      "payload_for args (e_caller env) (e_body_file env) = Inr (p, ident, body)"
      "validate_registry_scope registry' (a_project args) (a_team args) = Inr ()"
      "decide ?q (derive_runs l) registry' (e_now env) body (db_bodies db) = Inr (d, bodies)"
    and db': "db' = db\<lparr>db_stream := commit (e_stamp env) ?q (d_kind d) (d_payload d) (db_stream db),
      db_bodies := bodies\<rparr>" and rc: "rc = 0 \<longleftrightarrow> d_accepted d"
  let ?rec = "compose_record ?seq (e_stamp env) ?q (d_kind d) (d_payload d)"
  have "registry_uids_ok registry'" using assms(3,4) r by simp
  moreover have "stream_project l = None \<or> stream_project l = Some (a_project args)"
    using assms(5) l by auto
  ultimately obtain l' where l': "fold_event (?seq, ?rec) l = Inr l'" "invalid_events l' = invalid_events l"
    "if d_accepted d then rejections l' = rejections l \<and> d_kind d = command_event (a_command args)
     else runs l' = runs l \<and> tasks l' = tasks l \<and>
       (\<exists>j. rejections l' = rejections l @ [j] \<and> j_seq j = ?seq \<and> j_run_id j = a_run_id args)"
    using committed_event [OF rest _ _ refl] by blast
  have s: "db_stream db' = db_stream db @ [(?seq, ?rec)]" by (simp add: db' commit_def)
  with l l'(1) have "run fold_event (db_stream db') (empty_ledger []) = Inr l'"
    by (simp add: run_append)
  with s l l' rc show ?thesis by (intro exI conjI) (auto split: if_splits)
qed

theorem committed_is_valid_witness:
  "\<exists>l l' rec. run fold_event (db_stream smp_db1) (empty_ledger []) = Inr l' \<and>
     run fold_event (db_stream smp_db) (empty_ledger []) = Inr l \<and>
     invalid_events l' = invalid_events l \<and> rejections l' = rejections l \<and>
     db_stream smp_db1 = [rec] \<and> dget (snd rec) ''event_type'' = PStr (u ''run.requested'')"
proof -
  have reg: "e_registry smp_env = Inr smp_registry" by (simp add: smp_env_def)
  have "\<forall>l. run fold_event (db_stream smp_db) (empty_ledger []) = Inr l \<longrightarrow>
      stream_project l \<in> {None, Some (a_project smp_run_cmd)}"
    by (simp add: smp_db_def empty_ledger_def)
  from committed_is_valid [OF smp_run_cmd_ok smp_db1_new reg smp_registry_uids this]
  show ?thesis
    by (auto simp: smp_run_cmd_def smp_args_def command_event_def kind_name_def EVENT_TYPES_def smp_db_def)
qed





section \<open>Everything the command ever writes\<close>

text \<open>
  C4: a stream that only the command has written, against registries that may change but whose
  agents are all well named, folds without an error, contains no invalid
  event, and belongs to one project.
\<close>

theorem written_streams_are_valid:
  assumes "written registry_uids_ok project db"
  shows "\<exists>v. ledger_fold (u ''ok'') (next_seq (db_stream db) - 1) [] (db_stream db) = Inr v \<and>
    invalid_count v = 0 \<and> invalid_events (folded v) = [] \<and>
    (stream_project (folded v) = None \<or> stream_project (folded v) = Some project)"
proof -
  from written_sound [OF assms] obtain l where "run fold_event (db_stream db) (empty_ledger []) = Inr l"
    and "sound_ledger project l" by blast
  then show ?thesis by (simp add: ledger_fold_def sound_ledger_def derive_runs_def)
qed

lemma smp_written: "written (\<lambda>r. r = smp_registry) (u ''acme'') smp_db1"
proof (rule written_run [OF _ _ _ smp_run_cmd_ok])
  show "written (\<lambda>r. r = smp_registry) (u ''acme'') smp_db"
    by (rule written_empty) (simp add: smp_db_def)
qed (simp_all add: smp_run_cmd_def smp_args_def smp_env_def)

theorem written_streams_are_valid_witness:
  "\<exists>v. ledger_fold (u ''ok'') (next_seq (db_stream smp_db1) - 1) [] (db_stream smp_db1) = Inr v \<and>
     invalid_count v = 0 \<and> db_stream smp_db1 \<noteq> []"
  using written_streams_are_valid [OF written_mono [OF smp_written]] smp_registry_uids smp_db1_new
  by (auto simp: smp_db_def)

text \<open>
  C5: the delegation limits hold in every stream the command has written, also when the registry
  changes between the runs: if the limits of a team were never above the bounds \<open>bd\<close> in any
  registry a run has read, the team has at most \<open>max_open\<close> of \<open>bd\<close> waiting tasks, none of its runs
  more than \<open>max_tasks_per_run\<close> assignments, and none of its tasks more than
  \<open>max_assignments_per_task\<close> assignments or \<open>max_turns_per_task\<close> turns. Limits that are lowered later
  do not undo what was allowed before, so the bounds are those of the whole history.
\<close>

theorem limits_hold:
  assumes "written (\<lambda>r. registry_uids_ok r \<and> limited team bd r) project db" and "roomy bd"
    and "ledger_fold st hi [] (db_stream db) = Inr v"
  shows "open_count team (folded v) \<le> lim bd ''max_open'' \<and>
    (\<forall>k r. map_of (runs (folded v)) k = Some r \<longrightarrow> r_team_uid r = team \<longrightarrow>
       run_assignments k (folded v) \<le> lim bd ''max_tasks_per_run'') \<and>
    (\<forall>k t. map_of (tasks (folded v)) k = Some t \<longrightarrow> t_team_uid t = team \<longrightarrow>
       t_assignments t \<le> lim bd ''max_assignments_per_task'' \<and>
       t_turns t \<le> lim bd ''max_turns_per_task'')"
proof -
  obtain l where l: "run fold_event (db_stream db) (empty_ledger []) = Inr l" and w: "within bd team l"
    using written_sound [OF assms(1)] assms(2) by blast
  have v: "folded v = derive_runs l" using l assms(3) by (auto simp: ledger_fold_def)
  have "\<exists>r0. map_of (runs l) k = Some r0 \<and> r_team_uid r0 = r_team_uid r"
    if "map_of (runs (derive_runs l)) k = Some r" for k r
    using derived_run [OF that] by blast
  then show ?thesis
    using w unfolding v within_def open_count_def run_assignments_def derived_tasks by fastforce
qed

theorem limits_hold_witness:
  "\<exists>v. ledger_fold (u ''ok'') 1 [] (db_stream smp_db1) = Inr v \<and>
     open_count (u ''acme-core'') (folded v) \<le> 8"
proof -
  obtain v where v: "ledger_fold (u ''ok'') 1 [] (db_stream smp_db1) = Inr v"
    using written_sound [OF smp_written] smp_registry_uids by (auto simp: ledger_fold_def)
  have "limits smp_registry (u ''acme-core'') = Inr DEFAULT_LIMITS" by code_simp
  then have "limited (u ''acme-core'') DEFAULT_LIMITS smp_registry" by (simp add: limited_def below_def)
  then have w: "written (\<lambda>r. registry_uids_ok r \<and> limited (u ''acme-core'') DEFAULT_LIMITS r) (u ''acme'') smp_db1"
    using smp_registry_uids by (intro written_mono [OF smp_written]) simp
  have "roomy DEFAULT_LIMITS" by code_simp
  from limits_hold [OF w this v] v show ?thesis
    by (simp add: lim_def DEFAULT_LIMITS_def)
qed

end
