(* ===== verification/PyJson.thy ===== *)
theory PyJson
  imports PyValue
begin

text \<open>
  The part of Python's \<open>json\<close> module the program uses: \<open>json.loads\<close> with an
  \<open>object_pairs_hook\<close>, as a recursive descent over code points, and \<open>json.dumps\<close> with the
  compact separators. A syntax error is a \<open>ValueError\<close> (\<open>JSONDecodeError\<close>). The nesting limit
  of the interpreter (\<open>RecursionError\<close>) is not part of the model.
\<close>

section \<open>Strings\<close>

abbreviation json_error :: "exn + 'a" where
  "json_error \<equiv> Inl (ValueError (u ''json''))"

abbreviation "QUOTE \<equiv> (34 :: nat)"
abbreviation "BACKSLASH \<equiv> (92 :: nat)"

fun skip_ws :: "pystr \<Rightarrow> pystr" where
  "skip_ws [] = []"
| "skip_ws (c # s) = (if c = 32 \<or> c = 9 \<or> c = 10 \<or> c = 13 then skip_ws s else c # s)"

definition hex_value :: "nat \<Rightarrow> nat option" where
  "hex_value c = (if 48 \<le> c \<and> c \<le> 57 then Some (c - 48)
     else if 97 \<le> c \<and> c \<le> 102 then Some (c - 87)
     else if 65 \<le> c \<and> c \<le> 70 then Some (c - 55) else None)"

text \<open>The four digits of \<open>\uXXXX\<close>.\<close>

definition hex4 :: "pystr \<Rightarrow> (nat \<times> pystr) option" where
  "hex4 s = (case s of a # b # c # d # r \<Rightarrow>
       (case (hex_value a, hex_value b, hex_value c, hex_value d) of
          (Some x, Some y, Some z, Some w) \<Rightarrow> Some (4096 * x + 256 * y + 16 * z + w, r)
        | _ \<Rightarrow> None)
     | _ \<Rightarrow> None)"

lemma hex4_length: "hex4 s = Some (n, r) \<Longrightarrow> length r < length s"
  by (auto simp: hex4_def split: list.splits option.splits)

text \<open>A high surrogate takes a following escaped low surrogate with it.\<close>

definition join_surrogate :: "nat \<Rightarrow> pystr \<Rightarrow> nat \<times> pystr" where
  "join_surrogate n s =
     (if 0xD800 \<le> n \<and> n \<le> 0xDBFF then
        (case s of c # d # r \<Rightarrow>
           (if c = BACKSLASH \<and> d = 117 then
              (case hex4 r of
                 Some (m, r') \<Rightarrow> if 0xDC00 \<le> m \<and> m \<le> 0xDFFF
                   then (0x10000 + (n - 0xD800) * 1024 + (m - 0xDC00), r') else (n, s)
               | None \<Rightarrow> (n, s))
            else (n, s))
         | _ \<Rightarrow> (n, s))
      else (n, s))"

lemma join_surrogate_length: "join_surrogate n s = (m, r) \<Longrightarrow> length r \<le> length s"
  by (auto simp: join_surrogate_def split: if_splits list.splits option.splits dest!: hex4_length)

definition escape_char :: "nat \<Rightarrow> nat option" where
  "escape_char c = map_of [(QUOTE, QUOTE), (BACKSLASH, BACKSLASH), (47, 47), (98, 8), (102, 12),
     (110, 10), (114, 13), (116, 9)] c"

text \<open>The body of a string literal after its opening quote, and the rest of the input.\<close>

function json_string :: "pystr \<Rightarrow> exn + pystr \<times> pystr" where
  "json_string [] = json_error"
| "json_string (c # s) =
     (if c = QUOTE then Inr ([], s)
      else if c < 32 then json_error
      else if c \<noteq> BACKSLASH then bind_res (json_string s) (\<lambda>(t, r). Inr (c # t, r))
      else (case s of
          [] \<Rightarrow> json_error
        | e # s' \<Rightarrow>
            if e = 117 then
              (case hex4 s' of
                 None \<Rightarrow> json_error
               | Some (n, r) \<Rightarrow>
                   bind_res (json_string (snd (join_surrogate n r)))
                     (\<lambda>(t, r'). Inr (fst (join_surrogate n r) # t, r')))
            else (case escape_char e of
                None \<Rightarrow> json_error
              | Some d \<Rightarrow> bind_res (json_string s') (\<lambda>(t, r). Inr (d # t, r)))))"
  by pat_completeness auto

termination
proof (relation "measure length")
  fix c :: nat and s e s' x n r
  assume "s = e # s'" "hex4 s' = Some x" "(n, r) = x"
  then have "length r < length s'" by (auto dest: hex4_length)
  moreover have "length (snd (join_surrogate n r)) \<le> length r"
    by (metis join_surrogate_length prod.collapse)
  ultimately show "(snd (join_surrogate n r), c # s) \<in> measure length"
    using \<open>s = e # s'\<close> by simp
qed auto

lemma json_string_length: "json_string s = Inr (t, r) \<Longrightarrow> length r < length s"
proof (induction s arbitrary: t r rule: json_string.induct)
  case (2 c s)
  have join: "length (snd (join_surrogate n q)) \<le> length q" for n q
    by (metis join_surrogate_length prod.collapse)
  from 2 show ?case
    by (auto simp: bind_res_Inr split: if_splits list.splits option.splits dest!: hex4_length)
      (meson join le_less_trans less_trans less_SucI order.strict_trans1 le_imp_less_Suc)+
qed simp


section \<open>Numbers\<close>

abbreviation ascii_digit :: "nat \<Rightarrow> bool" where
  "ascii_digit c \<equiv> 48 \<le> c \<and> c \<le> 57"

definition span_digits :: "pystr \<Rightarrow> pystr \<times> pystr" where
  "span_digits s = (takeWhile ascii_digit s, dropWhile ascii_digit s)"

definition nat_of_ascii :: "pystr \<Rightarrow> nat" where
  "nat_of_ascii s = foldl (\<lambda>n c. 10 * n + (c - 48)) 0 s"

text \<open>
  \<open>float\<close> of a decimal literal: the nearest multiple of a power of two with 53 significant
  bits, ties to even, down to the smallest subnormal, and infinity beyond the largest double.
\<close>

fun bit_length :: "nat \<Rightarrow> nat" where
  "bit_length n = (if n = 0 then 0 else Suc (bit_length (n div 2)))"

declare bit_length.simps [simp del]

definition round_even :: "nat \<Rightarrow> nat \<Rightarrow> nat" where
  "round_even num den = (let q = num div den; r = num mod den in
     if 2 * r > den \<or> (2 * r = den \<and> odd q) then q + 1 else q)"

definition scaled :: "nat \<Rightarrow> nat \<Rightarrow> int \<Rightarrow> nat" where
  "scaled num den e = (if 0 \<le> e then round_even num (den * 2 ^ nat e)
     else round_even (num * 2 ^ nat (- e)) den)"

definition float_of_ratio :: "bool \<Rightarrow> nat \<Rightarrow> nat \<Rightarrow> pyfloat" where
  "float_of_ratio neg num den =
     (if num = 0 then Finite 0 0
      else let e0 = int (bit_length num) - int (bit_length den) - 53;
               e1 = max (-1074) (if scaled num den e0 < 2 ^ 53 then e0 else e0 + 1);
               m = scaled num den e1;
               sgn = (if neg then -1 else 1)
        in if int (bit_length m) + e1 > 1024 then (if neg then NegInf else PosInf)
           else Finite (sgn * int m) e1)"

definition float_of_decimal :: "bool \<Rightarrow> nat \<Rightarrow> int \<Rightarrow> pyfloat" where
  "float_of_decimal neg m e = (if 0 \<le> e then float_of_ratio neg (m * 10 ^ nat e) 1
     else float_of_ratio neg m (10 ^ nat (- e)))"

definition json_int :: "bool \<Rightarrow> pystr \<Rightarrow> exn + pyval" where
  "json_int neg ds = (if length ds > 4300 then Inl (ValueError (u ''int''))
     else Inr (PInt (if neg then - int (nat_of_ascii ds) else int (nat_of_ascii ds))))"

definition json_number :: "pystr \<Rightarrow> exn + pyval \<times> pystr" where
  "json_number s =
     (let neg = startswith s [45]; s1 = (if neg then tl s else s);
          (ds, s2) = (if startswith s1 [48] then ([48], tl s1) else span_digits s1)
      in if ds = [] then json_error
         else
           let (fs, s3) = (case s2 of c # r \<Rightarrow> if c = 46 \<and> fst (span_digits r) \<noteq> [] then span_digits r
                 else ([], s2) | [] \<Rightarrow> ([], s2));
               (x, s4) = (case s3 of c # r \<Rightarrow>
                   if c = 101 \<or> c = 69 then
                     (let r1 = (case r of d # r' \<Rightarrow> if d = 43 \<or> d = 45 then r' else r | [] \<Rightarrow> r);
                          (es, r2) = span_digits r1
                      in if es = [] then (None, s3)
                         else (Some (if startswith r [45] then - int (nat_of_ascii es)
                                     else int (nat_of_ascii es)), r2))
                   else (None, s3) | [] \<Rightarrow> (None, s3))
           in if fs = [] \<and> x = None then bind_res (json_int neg ds) (\<lambda>v. Inr (v, s4))
              else Inr (PFloat (float_of_decimal neg (nat_of_ascii (ds @ fs))
                ((case x of None \<Rightarrow> 0 | Some n \<Rightarrow> n) - int (length fs))), s4))"

section \<open>Values\<close>

text \<open>The hook receives the pairs of an object in order. Fuel bounds the nesting of calls.\<close>

type_synonym hook = "(pystr \<times> pyval) list \<Rightarrow> exn + pyval"

definition json_literals :: "(pystr \<times> pyval) list" where
  "json_literals = [(u ''null'', PNone), (u ''true'', PBool True), (u ''false'', PBool False),
     (u ''NaN'', PFloat NaN), (u ''Infinity'', PFloat PosInf), (u ''-Infinity'', PFloat NegInf)]"

definition json_literal :: "pystr \<Rightarrow> (pyval \<times> pystr) option" where
  "json_literal s = map_option (\<lambda>(w, v). (v, drop (length w) s))
     (find (\<lambda>(w, v). startswith s w) json_literals)"

definition expect_key :: "pystr \<Rightarrow> exn + pystr \<times> pystr" where
  "expect_key s = (case s of
       c # r \<Rightarrow> if c = QUOTE then
           bind_res (json_string r) (\<lambda>(k, r1). case skip_ws r1 of
             d # r2 \<Rightarrow> if d = 58 then Inr (k, skip_ws r2) else json_error | [] \<Rightarrow> json_error)
         else json_error
     | [] \<Rightarrow> json_error)"

fun json_value :: "nat \<Rightarrow> hook \<Rightarrow> pystr \<Rightarrow> exn + pyval \<times> pystr"
  and json_items :: "nat \<Rightarrow> hook \<Rightarrow> pystr \<Rightarrow> exn + pyval list \<times> pystr"
  and json_members :: "nat \<Rightarrow> hook \<Rightarrow> pystr \<Rightarrow> exn + (pystr \<times> pyval) list \<times> pystr" where
  "json_value 0 hook s = json_error"
| "json_value (Suc n) hook s =
     (case s of [] \<Rightarrow> json_error
      | c # r \<Rightarrow>
          if c = QUOTE then bind_res (json_string r) (\<lambda>(t, q). Inr (PStr t, q))
          else if c = 91 then
            (case skip_ws r of d # q \<Rightarrow> if d = 93 then Inr (PList [], q)
                else bind_res (json_items n hook (d # q)) (\<lambda>(xs, q'). Inr (PList xs, q'))
             | [] \<Rightarrow> json_error)
          else if c = 123 then
            (case skip_ws r of d # q \<Rightarrow> if d = 125 then bind_res (hook []) (\<lambda>v. Inr (v, q))
                else bind_res (json_members n hook (d # q)) (\<lambda>(ps, q').
                  bind_res (hook ps) (\<lambda>v. Inr (v, q')))
             | [] \<Rightarrow> json_error)
          else (case json_literal s of Some vq \<Rightarrow> Inr vq | None \<Rightarrow> json_number s))"
| "json_items 0 hook s = json_error"
| "json_items (Suc n) hook s =
     bind_res (json_value n hook s) (\<lambda>(v, r).
       case skip_ws r of
         c # q \<Rightarrow> if c = 93 then Inr ([v], q)
           else if c = 44 then bind_res (json_items n hook (skip_ws q)) (\<lambda>(vs, q'). Inr (v # vs, q'))
           else json_error
       | [] \<Rightarrow> json_error)"
| "json_members 0 hook s = json_error"
| "json_members (Suc n) hook s =
     bind_res (expect_key s) (\<lambda>(k, s1).
     bind_res (json_value n hook s1) (\<lambda>(v, r).
       case skip_ws r of
         c # q \<Rightarrow> if c = 125 then Inr ([(k, v)], q)
           else if c = 44 then bind_res (json_members n hook (skip_ws q)) (\<lambda>(vs, q'). Inr ((k, v) # vs, q'))
           else json_error
       | [] \<Rightarrow> json_error))"

definition json_loads :: "hook \<Rightarrow> pystr \<Rightarrow> exn + pyval" where
  "json_loads hook s =
     (if startswith s [0xFEFF] then json_error
      else bind_res (json_value (2 * length s + 2) hook (skip_ws s)) (\<lambda>(v, r).
        if skip_ws r = [] then Inr v else json_error))"

text \<open>The default hook: the last of several equal keys wins, at the place of the first.\<close>

definition dict_hook :: hook where
  "dict_hook ps = Inr (PDict (fold (\<lambda>(k, v) d. dset k v d) ps []))"


section \<open>Writing\<close>

definition hex_digit :: "nat \<Rightarrow> nat" where
  "hex_digit n = (if n < 10 then 48 + n else 87 + n)"

definition escape_u :: "nat \<Rightarrow> pystr" where
  "escape_u c = [BACKSLASH, 117, hex_digit (c div 4096 mod 16), hex_digit (c div 256 mod 16),
     hex_digit (c div 16 mod 16), hex_digit (c mod 16)]"

definition dump_char :: "bool \<Rightarrow> nat \<Rightarrow> pystr" where
  "dump_char ascii c =
     (case map_of [(QUOTE, QUOTE), (BACKSLASH, BACKSLASH), (10, 110), (13, 114), (9, 116), (12, 102),
        (8, 98)] c of
        Some e \<Rightarrow> [BACKSLASH, e]
      | None \<Rightarrow>
          if c < 32 then escape_u c
          else if ascii \<and> 126 < c then
            (if c < 0x10000 then escape_u c
             else escape_u (0xD800 + (c - 0x10000) div 1024) @ escape_u (0xDC00 + (c - 0x10000) mod 1024))
          else [c])"

definition dump_string :: "bool \<Rightarrow> pystr \<Rightarrow> pystr" where
  "dump_string ascii s = QUOTE # concat (map (dump_char ascii) s) @ [QUOTE]"

text \<open>
  \<open>json.dumps(v, separators=(",", ":"), ensure_ascii=ascii)\<close>; how a float prints (its shortest
  decimal) is a parameter.
\<close>

fun sep_by :: "nat \<Rightarrow> pystr list \<Rightarrow> pystr" where
  "sep_by c [] = []"
| "sep_by c [x] = x"
| "sep_by c (x # y # xs) = x @ c # sep_by c (y # xs)"

fun json_dumps :: "(pyfloat \<Rightarrow> pystr) \<Rightarrow> bool \<Rightarrow> pyval \<Rightarrow> pystr" where
  "json_dumps fr ascii PNone = u ''null''"
| "json_dumps fr ascii (PBool b) = (if b then u ''true'' else u ''false'')"
| "json_dumps fr ascii (PInt n) = str_of_int n"
| "json_dumps fr ascii (PFloat f) = fr f"
| "json_dumps fr ascii (PStr s) = dump_string ascii s"
| "json_dumps fr ascii (PList xs) = 91 # sep_by 44 (map (json_dumps fr ascii) xs) @ [93]"
| "json_dumps fr ascii (PDict d) =
     123 # sep_by 44 (map (\<lambda>(k, v). dump_string ascii k @ 58 # json_dumps fr ascii v) d) @ [125]"

section \<open>Reading back what was written\<close>

text \<open>
  With \<open>ensure_ascii\<close> a character above the basic plane is written as two escapes, which are
  read back as one character; two lone surrogates written that way would be joined too.
\<close>

definition str_safe :: "bool \<Rightarrow> pystr \<Rightarrow> bool" where
  "str_safe ascii s = (ascii \<longrightarrow> list_all scalar_value s)"

lemma str_safe_simps [simp]: "str_safe False s" "str_safe ascii []"
  "str_safe ascii (c # s) = ((ascii \<longrightarrow> scalar_value c) \<and> str_safe ascii s)"
  by (auto simp: str_safe_def)

lemma hex_value_digit [simp]: "n < 16 \<Longrightarrow> hex_value (hex_digit n) = Some n"
  by (auto simp: hex_value_def hex_digit_def)

lemma hex4_escape:
  assumes "c < 0x10000"
  shows "hex4 (hex_digit (c div 4096 mod 16) # hex_digit (c div 256 mod 16) # hex_digit (c div 16 mod 16) #
    hex_digit (c mod 16) # s) = Some (c, s)"
proof -
  have "c div 4096 mod 16 = c div 4096" using assms by simp
  moreover have "c = c div 16 * 16 + c mod 16" "c div 16 = c div 256 * 16 + c div 16 mod 16"
    "c div 256 = c div 4096 * 16 + c div 256 mod 16"
    using div_mult2_eq [of c 16 16] div_mult2_eq [of c 256 16] by simp_all
  ultimately have "4096 * (c div 4096 mod 16) + 256 * (c div 256 mod 16) + 16 * (c div 16 mod 16) + c mod 16 = c"
    by linarith
  moreover have "hex4 (hex_digit (c div 4096 mod 16) # hex_digit (c div 256 mod 16) # hex_digit (c div 16 mod 16) #
      hex_digit (c mod 16) # s) =
    Some (4096 * (c div 4096 mod 16) + 256 * (c div 256 mod 16) + 16 * (c div 16 mod 16) + c mod 16, s)"
    by (simp only: hex4_def list.case hex_value_digit mod_less_divisor zero_less_numeral prod.case option.case)
  ultimately show ?thesis by (simp only:)
qed

lemma escape_u_round:
  assumes "c < 0x10000"
  shows "json_string (escape_u c @ s) = bind_res (json_string (snd (join_surrogate c s)))
    (\<lambda>(t, r). Inr (fst (join_surrogate c s) # t, r))"
  by (simp add: escape_u_def hex4_escape [OF assms, simplified])

lemma pair_round:
  assumes "0x10000 \<le> c" and "c \<le> 0x10FFFF"
  shows "join_surrogate (0xD800 + (c - 0x10000) div 1024) (escape_u (0xDC00 + (c - 0x10000) mod 1024) @ s) = (c, s)"
proof -
  let ?d = "c - 0x10000"
  have hi: "0xD800 + ?d div 1024 \<le> 0xDBFF" using assms(2) by linarith
  have lo: "0xDC00 + ?d mod 1024 < 0x10000" "0xDC00 + ?d mod 1024 \<le> 0xDFFF" by linarith+
  have "?d div 1024 * 1024 + ?d mod 1024 = ?d" by simp
  then have "0x10000 + ?d div 1024 * 1024 + ?d mod 1024 = c" using assms(1) by linarith
  then show ?thesis
    using hi lo hex4_escape [OF lo(1)] by (simp add: join_surrogate_def escape_u_def)
qed

lemma escape_round:
  assumes "ascii \<longrightarrow> scalar_value c"
  shows "json_string (dump_char ascii c @ s) = bind_res (json_string s) (\<lambda>(t, r). Inr (c # t, r))"
proof -
  consider "c \<in> {QUOTE, BACKSLASH, 10, 13, 9, 12, 8}"
    | (ctl) "c < 32" "c \<notin> {8, 9, 10, 12, 13}"
    | (plain) "32 \<le> c" "c \<noteq> QUOTE" "c \<noteq> BACKSLASH" "\<not> ascii \<or> c \<le> 126"
    | (bmp) "ascii" "126 < c" "c < 0x10000"
    | (high) "ascii" "0x10000 \<le> c"
    by fastforce
  then show ?thesis
  proof cases
    case 1
    then show ?thesis by (auto simp: dump_char_def escape_char_def)
  next
    case ctl
    have "join_surrogate c s = (c, s)" using ctl(1) by (simp add: join_surrogate_def)
    then show ?thesis using ctl escape_u_round [of c s] by (simp add: dump_char_def)
  next
    case plain
    then show ?thesis by (auto simp: dump_char_def)
  next
    case bmp
    have "join_surrogate c s = (c, s)"
      using bmp assms by (auto simp: join_surrogate_def scalar_value_def is_surrogate_def)
    then show ?thesis using bmp escape_u_round [of c s] by (simp add: dump_char_def)
  next
    case high
    let ?h = "0xD800 + (c - 0x10000) div 1024" and ?l = "escape_u (0xDC00 + (c - 0x10000) mod 1024)"
    have c: "c \<le> 0x10FFFF" using high assms by (simp add: scalar_value_def)
    have "?h < 0x10000" using c by linarith
    from escape_u_round [OF this, of "?l @ s"] pair_round [OF high(2) c, of s] high
    show ?thesis by (simp add: dump_char_def)
  qed
qed

lemma string_round:
  "str_safe ascii t \<Longrightarrow> json_string (concat (map (dump_char ascii) t) @ QUOTE # s) = Inr (t, s)"
  by (induction t) (simp_all add: escape_round)


text \<open>Whole numbers: the text of \<open>str(n)\<close> is read as \<open>n\<close>, up to the digit limit of \<open>int\<close>.\<close>

definition stops :: "pystr \<Rightarrow> bool" where
  "stops r = (r = [] \<or> hd r \<in> {44, 93, 125})"

lemma stops_Cons [simp]: "stops (c # r) \<longleftrightarrow> c \<in> {44, 93, 125}"
  by (simp add: stops_def)

lemma nat_of_ascii_snoc: "nat_of_ascii (s @ [c]) = 10 * nat_of_ascii s + (c - 48)"
  by (simp add: nat_of_ascii_def)

lemma nat_of_ascii_str [simp]: "nat_of_ascii (str_of_nat n) = n"
proof (induction n rule: str_of_nat.induct)
  case (1 n)
  show ?case
  proof (cases "n < 10")
    case True
    then show ?thesis by (subst str_of_nat.simps) (simp add: nat_of_ascii_def)
  next
    case False
    with 1 show ?thesis by (subst str_of_nat.simps) (simp add: nat_of_ascii_snoc)
  qed
qed

lemma str_of_nat_zero: "str_of_nat n = 48 # ds \<Longrightarrow> n = 0 \<and> ds = []"
proof (induction n arbitrary: ds rule: str_of_nat.induct)
  case (1 n)
  show ?case
  proof (cases "n < 10")
    case True
    with 1 show ?thesis by (simp add: str_of_nat.simps [of n])
  next
    case False
    obtain c' ds' where e': "str_of_nat (n div 10) = c' # ds'"
      by (cases "str_of_nat (n div 10)") auto
    with 1(2) False have "c' = 48" by (simp add: str_of_nat.simps [of n])
    with 1(1) [OF False] e' have "n div 10 = 0" by simp
    with False show ?thesis by simp
  qed
qed

lemma str_of_nat_head:
  obtains c ds where "str_of_nat n = c # ds" and "48 \<le> c" and "c \<le> 57" and "c = 48 \<longrightarrow> n = 0 \<and> ds = []"
proof -
  obtain c ds where e: "str_of_nat n = c # ds" by (cases "str_of_nat n") auto
  then have "48 \<le> c" "c \<le> 57" using str_of_nat_ascii [of c n] by auto
  with e str_of_nat_zero [of n ds] show thesis by (intro that [of c ds]) auto
qed

lemma span_str_of_nat:
  assumes "stops r"
  shows "span_digits (str_of_nat n @ r) = (str_of_nat n, r)"
proof -
  have all: "\<forall>c \<in> set (str_of_nat n). ascii_digit c" using str_of_nat_ascii by auto
  then have "takeWhile ascii_digit (str_of_nat n @ r) = str_of_nat n @ takeWhile ascii_digit r"
    "dropWhile ascii_digit (str_of_nat n @ r) = dropWhile ascii_digit r"
    by (simp_all add: takeWhile_append2 dropWhile_append2)
  moreover have "takeWhile ascii_digit r = []" "dropWhile ascii_digit r = r"
    using assms by (cases r; auto)+
  ultimately show ?thesis by (simp add: span_digits_def)
qed

lemma number_round:
  assumes "stops r" and "length (str_of_nat (nat \<bar>n\<bar>)) \<le> 4300"
  shows "json_number (str_of_int n @ r) = Inr (PInt n, r)"
proof -
  define m where "m = nat \<bar>n\<bar>"
  obtain c ds where m: "str_of_nat m = c # ds" "48 \<le> c" "c \<le> 57" "c = 48 \<longrightarrow> m = 0 \<and> ds = []"
    by (rule str_of_nat_head [of m])
  let ?s = "str_of_nat m @ r"
  have digits: "(if startswith ?s [48] then ([48], tl ?s) else span_digits ?s) = (str_of_nat m, r)"
    using m span_str_of_nat [OF assms(1), of m] by auto
  have plain: "(case r of [] \<Rightarrow> ([], r) | c # q \<Rightarrow>
      if c = 46 \<and> fst (span_digits q) \<noteq> [] then span_digits q else ([], r)) = ([], r)"
    "(case r of [] \<Rightarrow> (None, r) | c # q \<Rightarrow> if c = 101 \<or> c = 69 then x c q else (None, r)) = (None, r)" for x
    using assms(1) by (auto split: list.splits)
  have neg: "n < 0 \<Longrightarrow> str_of_int n @ r = 45 # ?s" "\<not> n < 0 \<Longrightarrow> str_of_int n @ r = ?s"
    by (simp_all add: str_of_int_def m_def abs_if u_def)
  have sgn: "(if n < 0 then - int m else int m) = n" by (simp add: m_def)
  have start: "\<not> startswith ?s [45]" using m by auto
  have ne: "str_of_nat m \<noteq> []" by simp
  show ?thesis
  proof (cases "n < 0")
    case True
    have st: "startswith (45 # ?s) [45] = True" "tl (45 # ?s) = ?s" by simp_all
    show ?thesis
      unfolding neg(1) [OF True] json_number_def st Let_def if_True digits prod.case plain if_not_P [OF ne]
      using assms(2) [folded m_def] sgn True by (simp add: json_int_def)
  next
    case False
    show ?thesis
      unfolding neg(2) [OF False] json_number_def Let_def if_not_P [OF start] digits prod.case plain if_not_P [OF ne]
      using assms(2) [folded m_def] sgn False start by (simp add: json_int_def)
  qed
qed


text \<open>
  Values without floats, with distinct keys and integers within the digit limit: what the
  program writes. A hook is faithful when it keeps distinct pairs as they are.
\<close>

fun json_safe :: "bool \<Rightarrow> pyval \<Rightarrow> bool" where
  "json_safe ascii (PFloat f) = False"
| "json_safe ascii (PInt n) = (length (str_of_nat (nat \<bar>n\<bar>)) \<le> 4300)"
| "json_safe ascii (PStr s) = str_safe ascii s"
| "json_safe ascii (PList xs) = list_all (json_safe ascii) xs"
| "json_safe ascii (PDict d) = (distinct (map fst d) \<and> list_all (\<lambda>(k, v). str_safe ascii k \<and> json_safe ascii v) d)"
| "json_safe ascii _ = True"

fun json_plain :: "pyval \<Rightarrow> bool" where
  "json_plain (PFloat f) = False"
| "json_plain (PInt n) = (length (str_of_nat (nat \<bar>n\<bar>)) \<le> 4300)"
| "json_plain (PList xs) = list_all json_plain xs"
| "json_plain (PDict d) = (distinct (map fst d) \<and> list_all (\<lambda>(k, v). json_plain v) d)"
| "json_plain _ = True"

lemma json_plain_safe: "json_plain v \<Longrightarrow> json_safe False v"
proof (induction v)
  case (PDict d)
  then show ?case by (fastforce simp: list_all_iff)
qed (auto simp: list_all_iff)

definition faithful :: "hook \<Rightarrow> bool" where
  "faithful hook = (\<forall>ps. distinct (map fst ps) \<longrightarrow> hook ps = Inr (PDict ps))"

abbreviation dumps :: "pyval \<Rightarrow> pystr" where
  "dumps \<equiv> json_dumps (\<lambda>_. []) False"

abbreviation adumps :: "bool \<Rightarrow> pyval \<Rightarrow> pystr" where
  "adumps \<equiv> json_dumps (\<lambda>_. [])"

definition value_start :: "nat \<Rightarrow> bool" where
  "value_start c = (c \<in> {QUOTE, 91, 123, 110, 116, 102, 45} \<or> ascii_digit c)"

lemma str_of_int_start: "\<exists>c s. str_of_int n = c # s \<and> (c = 45 \<or> ascii_digit c)"
proof -
  obtain c ds where "str_of_nat (nat \<bar>n\<bar>) = c # ds" "48 \<le> c" "c \<le> 57" by (rule str_of_nat_head)
  then show ?thesis by (auto simp: str_of_int_def u_def abs_if split: if_splits)
qed

lemma dumps_start:
  assumes "json_safe ascii v"
  shows "\<exists>c s. adumps ascii v = c # s \<and> value_start c"
proof (cases v)
  case (PInt n)
  then show ?thesis using str_of_int_start [of n] by (auto simp: value_start_def)
next
  case (PBool b)
  then show ?thesis by (simp add: u_def value_start_def)
qed (use assms in \<open>simp_all add: u_def value_start_def dump_string_def\<close>)

lemma skip_ws_start [simp]:
  "value_start c \<Longrightarrow> skip_ws (c # s) = c # s" "c \<notin> {32, 9, 10, 13} \<Longrightarrow> skip_ws (c # s) = c # s"
  by (auto simp: value_start_def)

declare skip_ws.simps(2) [simp del]

lemma skip_ws_dumps [simp]: "json_safe ascii v \<Longrightarrow> skip_ws (adumps ascii v @ r) = adumps ascii v @ r"
  using dumps_start [of ascii v] by auto

lemma skip_ws_stops: "stops r \<Longrightarrow> skip_ws r = r"
  by (cases r) auto

lemma literal_number:
  assumes "c = 45 \<and> s \<noteq> [] \<and> ascii_digit (hd s) \<or> ascii_digit c"
  shows "json_literal (c # s) = None"
proof -
  have "\<not> startswith (c # s) w" if "(w, v) \<in> set json_literals" for w v
    using that assms by (cases s) (auto simp: json_literals_def u_def)
  then show ?thesis by (auto simp: json_literal_def find_None_iff)
qed

lemma int_literal:
  obtains c s where "str_of_int n @ r = c # s" and "json_literal (c # s) = None"
    and "c \<notin> {QUOTE, 91, 123}"
proof -
  obtain d ds where d: "str_of_nat (nat \<bar>n\<bar>) = d # ds" "48 \<le> d" "d \<le> 57" by (rule str_of_nat_head)
  show thesis
  proof (cases "n < 0")
    case True
    with d have e: "str_of_int n @ r = 45 # d # ds @ r" by (simp add: str_of_int_def u_def abs_if)
    have "json_literal (45 # d # ds @ r) = None" by (rule literal_number) (use d in simp)
    with e show thesis by (intro that) auto
  next
    case False
    with d have e: "str_of_int n @ r = d # ds @ r" by (simp add: str_of_int_def abs_if)
    have "json_literal (d # ds @ r) = None" by (rule literal_number) (use d in simp)
    with e d show thesis by (intro that) auto
  qed
qed

lemma literal_round:
  "json_literal (u ''null'' @ r) = Some (PNone, r)" "json_literal (u ''true'' @ r) = Some (PBool True, r)"
  "json_literal (u ''false'' @ r) = Some (PBool False, r)"
  by (simp_all add: json_literal_def json_literals_def u_def)

lemma key_round:
  assumes "json_safe ascii v" and "str_safe ascii k"
  shows "expect_key (dump_string ascii k @ 58 # adumps ascii v @ r) = Inr (k, adumps ascii v @ r)"
  using assms by (simp add: expect_key_def dump_string_def string_round)

lemma value_round:
  assumes "faithful hook"
  shows "json_safe ascii v \<Longrightarrow> stops r \<or> (\<exists>d. v = PDict d) \<Longrightarrow> 2 * length (adumps ascii v) + 1 \<le> n \<Longrightarrow>
    json_value n hook (adumps ascii v @ r) = Inr (v, r)"
proof (induction v arbitrary: r n)
  case (PInt m)
  then obtain k where n: "n = Suc k" by (cases n) auto
  obtain c s where cs: "str_of_int m @ r = c # s" "json_literal (c # s) = None" "c \<notin> {QUOTE, 91, 123}"
    by (rule int_literal)
  with PInt number_round [of r m] show ?case by (simp add: n)
next
  case (PStr t)
  then obtain k where n: "n = Suc k" by (cases n) auto
  show ?case using PStr.prems by (simp add: n dump_string_def string_round)
next
  case (PList xs)
  then obtain k where n: "n = Suc k" by (cases n) auto
  have items: "json_items m hook (sep_by 44 (map (adumps ascii) ys) @ 93 # r) = Inr (ys, r)"
    if "set ys \<subseteq> set xs" "ys \<noteq> []" "2 * length (sep_by 44 (map (adumps ascii) ys)) + 2 \<le> m" for ys m
    using that
  proof (induction ys arbitrary: m)
    case (Cons y ys)
    then obtain j where m: "m = Suc j" by (cases m) auto
    have y: "json_safe ascii y" "y \<in> set xs" using Cons.prems(1) PList.prems(1) by (auto simp: list_all_iff)
    show ?case
    proof (cases ys)
      case Nil
      have "json_value j hook (adumps ascii y @ 93 # r) = Inr (y, 93 # r)"
        using PList.IH [OF y(2,1), of "93 # r" j] Cons.prems(3) Nil m by simp
      with Nil m show ?thesis by simp
    next
      case (Cons z zs)
      let ?tl = "sep_by 44 (map (adumps ascii) ys) @ 93 # r"
      have e: "sep_by 44 (map (adumps ascii) (y # ys)) @ 93 # r = adumps ascii y @ 44 # ?tl" by (simp add: Cons)
      have "json_value j hook (adumps ascii y @ 44 # ?tl) = Inr (y, 44 # ?tl)"
        using PList.IH [OF y(2,1), of "44 # ?tl" j] Cons.prems(3) Cons m by simp
      moreover have "json_items j hook ?tl = Inr (ys, r)"
        using Cons.IH Cons.prems Cons m by simp
      moreover have "json_safe ascii z" using Cons Cons.prems(1) PList.prems(1) by (auto simp: list_all_iff)
      then have "skip_ws ?tl = ?tl" using dumps_start [of ascii z] Cons by (cases zs) auto
      ultimately show ?thesis unfolding e m by simp
    qed
  qed simp
  show ?case
  proof (cases xs)
    case Nil
    then show ?thesis by (simp add: n)
  next
    case (Cons y ys)
    have "json_safe ascii y" using PList.prems(1) Cons by simp
    then obtain c s where c: "adumps ascii y = c # s" "value_start c" using dumps_start by blast
    have "json_items k hook (sep_by 44 (map (adumps ascii) xs) @ 93 # r) = Inr (xs, r)"
      by (rule items) (use PList.prems(3) Cons n in simp_all)
    moreover obtain q where "sep_by 44 (map (adumps ascii) xs) @ 93 # r = c # q"
      using c Cons by (cases ys) auto
    moreover have "c \<noteq> 93" using c(2) by (auto simp: value_start_def)
    ultimately show ?thesis using c(2) by (simp add: n)
  qed
next
  case (PDict d)
  then obtain k where n: "n = Suc k" by (cases n) auto
  let ?m = "\<lambda>(k, v). dump_string ascii k @ 58 # adumps ascii v"
  have items: "json_members m hook (sep_by 44 (map ?m ys) @ 125 # r) = Inr (ys, r)"
    if "set ys \<subseteq> set d" "ys \<noteq> []" "2 * length (sep_by 44 (map ?m ys)) + 2 \<le> m" for ys m
    using that
  proof (induction ys arbitrary: m)
    case (Cons y ys)
    then obtain j where m: "m = Suc j" by (cases m) auto
    obtain a v where y: "y = (a, v)" by (cases y)
    have v: "json_safe ascii v" "(a, v) \<in> set d" "str_safe ascii a"
      using Cons.prems(1) PDict.prems(1) y by (auto simp: list_all_iff)
    note IH = PDict.IH [OF v(2), of v, simplified, OF v(1)]
    show ?case
    proof (cases ys)
      case Nil
      have "json_value j hook (adumps ascii v @ 125 # r) = Inr (v, 125 # r)"
        by (rule IH) (use Cons.prems(3) Nil m y in simp_all)
      with Nil m y key_round [OF v(1,3), of "125 # r"] show ?thesis by simp
    next
      case (Cons z zs)
      let ?tl = "sep_by 44 (map ?m ys) @ 125 # r"
      have e: "sep_by 44 (map ?m (y # ys)) @ 125 # r = dump_string ascii a @ 58 # adumps ascii v @ 44 # ?tl"
        by (simp add: Cons y)
      have "json_value j hook (adumps ascii v @ 44 # ?tl) = Inr (v, 44 # ?tl)"
        by (rule IH) (use Cons.prems(3) Cons m y in simp_all)
      moreover have "json_members j hook ?tl = Inr (ys, r)"
        using Cons.IH Cons.prems Cons m y by simp
      moreover have "skip_ws ?tl = ?tl"
        using Cons by (cases z; cases zs) (simp_all add: dump_string_def)
      ultimately show ?thesis unfolding e m using key_round [OF v(1,3), of "44 # ?tl"] by (simp add: y)
    qed
  qed simp
  have hook: "hook d = Inr (PDict d)" using assms PDict.prems(1) by (simp add: faithful_def)
  show ?case
  proof (cases d)
    case Nil
    with hook show ?thesis by (simp add: n)
  next
    case (Cons y ys)
    have "json_members k hook (sep_by 44 (map ?m d) @ 125 # r) = Inr (d, r)"
      by (rule items) (use PDict.prems(3) Cons n in simp_all)
    moreover obtain q where "sep_by 44 (map ?m d) @ 125 # r = QUOTE # q"
      using Cons by (cases y; cases ys) (auto simp: dump_string_def)
    ultimately show ?thesis using hook by (simp add: n)
  qed
next
  case PNone
  then obtain k where n: "n = Suc k" by (cases n) auto
  show ?case using literal_round(1) [of r] by (simp add: n u_def)
next
  case (PBool b)
  then obtain k where n: "n = Suc k" by (cases n) auto
  show ?case using literal_round(2,3) [of r] by (cases b) (simp_all add: n u_def)
qed simp


lemma json_roundtrip_ascii:
  assumes "faithful hook" and "json_safe ascii v"
  shows "json_loads hook (adumps ascii v) = Inr v"
proof -
  obtain c s where c: "adumps ascii v = c # s" "value_start c" using dumps_start [OF assms(2)] by blast
  have "json_value (2 * length (adumps ascii v) + 2) hook (adumps ascii v @ []) = Inr (v, [])"
    by (rule value_round [OF assms]) (simp_all add: stops_def)
  moreover have "\<not> startswith (adumps ascii v) [0xFEFF]" using c by (auto simp: value_start_def)
  moreover have "skip_ws (adumps ascii v) = adumps ascii v" using skip_ws_dumps [OF assms(2), of "[]"] by simp
  ultimately show ?thesis by (simp add: json_loads_def)
qed

text \<open>An object that was printed as a line.\<close>

lemma json_roundtrip_line:
  assumes "faithful hook" and "json_safe ascii (PDict d)"
  shows "json_loads hook (adumps ascii (PDict d) @ [10]) = Inr (PDict d)"
proof -
  have "json_value (2 * length (adumps ascii (PDict d) @ [10]) + 2) hook (adumps ascii (PDict d) @ [10]) = Inr (PDict d, [10])"
    by (rule value_round [OF assms]) simp_all
  moreover have "\<not> startswith (adumps ascii (PDict d) @ [10]) [0xFEFF]" by simp
  moreover have "skip_ws (adumps ascii (PDict d) @ [10]) = adumps ascii (PDict d) @ [10]" by (rule skip_ws_dumps [OF assms(2)])
  moreover have "skip_ws [10] = []" by code_simp
  ultimately show ?thesis unfolding json_loads_def by (simp del: json_dumps.simps json_value.simps)
qed

lemma json_roundtrip:
  assumes "faithful hook" and "json_plain v"
  shows "json_loads hook (dumps v) = Inr v"
  by (rule json_roundtrip_ascii [OF assms(1) json_plain_safe [OF assms(2)]])

lemma fold_dset_distinct:
  "distinct (map fst (d @ ps)) \<Longrightarrow> fold (\<lambda>(k, v) d. dset k v d) ps d = d @ ps"
proof (induction ps arbitrary: d)
  case (Cons p ps)
  obtain k v where p: "p = (k, v)" by (cases p)
  have "k \<notin> fst ` set d" using Cons.prems p by auto
  then have "dset k v d = d @ [(k, v)]"
    by (induction d) (auto simp: dset_def)
  with Cons p show ?case by simp
qed simp

lemma faithful_dict_hook: "faithful dict_hook"
  by (simp add: faithful_def dict_hook_def fold_dset_distinct)

end
