(* ===== verification/StreamFrames.thy ===== *)
theory StreamFrames
  imports PyJson
begin

text \<open>
  The framed event streams of \<open>lib/attempts_fold.py\<close>: the POSIX checksum of a record, the scan
  of a stream into intact records, and, from \<open>lib/task_ledger.py\<close>, the events it yields. The
  byte-oriented accessor that the shell library provides for unusual records is a parameter.
\<close>

unbundle bit_operations_syntax

section \<open>Checksum\<close>

text \<open>\<open>zlib.crc32\<close>: the reflected CRC-32, least significant bit first.\<close>

definition zlib_step :: "32 word \<Rightarrow> 32 word" where
  "zlib_step c = (if bit c 0 then drop_bit 1 c XOR 0xEDB88320 else drop_bit 1 c)"

definition zlib_byte :: "32 word \<Rightarrow> 8 word \<Rightarrow> 32 word" where
  "zlib_byte c b = (zlib_step ^^ 8) (c XOR ucast b)"

definition zlib_crc32 :: "bytes \<Rightarrow> 32 word \<Rightarrow> 32 word" where
  "zlib_crc32 data start = NOT (foldl zlib_byte (NOT start) data)"

text \<open>Reversed bit order, of a byte (the translation table \<open>_REVERSE\<close>) and of the 32-bit sum.\<close>

definition rev8 :: "8 word \<Rightarrow> 8 word" where
  "rev8 b = horner_sum of_bool 2 (map (\<lambda>i. bit b (7 - i)) [0..<8])"

definition rev32 :: "32 word \<Rightarrow> 32 word" where
  "rev32 w = horner_sum of_bool 2 (map (\<lambda>i. bit w (31 - i)) [0..<32])"

text \<open>\<open>n.to_bytes((n.bit_length() + 7) // 8, "little")\<close>.\<close>

fun le_bytes :: "nat \<Rightarrow> bytes" where
  "le_bytes n = (if n = 0 then [] else byte (n mod 256) # le_bytes (n div 256))"

declare le_bytes.simps [simp del]

definition cksum :: "bytes \<Rightarrow> nat" where
  "cksum data = unat (rev32 (zlib_crc32 (map rev8 (data @ le_bytes (length data))) 0xFFFFFFFF))"

section \<open>Lines and frames\<close>

function raw_lines :: "bytes \<Rightarrow> (bytes \<times> bool) list" where
  "raw_lines bs = (if bs = [] then [] else
     (case partitionc 10 bs of (line, terminated, rest) \<Rightarrow>
        (line, terminated) # (if terminated then raw_lines rest else [])))"
  by pat_completeness auto

termination
  by (relation "measure length") (auto dest!: partitionc_spec [OF sym])

declare raw_lines.simps [simp del]

definition byte_digit :: "8 word \<Rightarrow> bool" where
  "byte_digit b = (48 \<le> unat b \<and> unat b \<le> 57)"

text \<open>One decimal field and the space after it, then the whole frame \<open>_FRAME\<close>.\<close>

definition frame_field :: "bytes \<Rightarrow> (bytes \<times> bytes) option" where
  "frame_field bs = (let ds = takeWhile byte_digit bs in
     case dropWhile byte_digit bs of
       b # r \<Rightarrow> if b = 32 \<and> ds \<noteq> [] then Some (ds, r) else None
     | [] \<Rightarrow> None)"

definition parse_frame :: "bytes \<Rightarrow> (bytes \<times> bytes \<times> bytes \<times> bytes) option" where
  "parse_frame line =
     Option.bind (frame_field line) (\<lambda>(seq, r1).
     Option.bind (frame_field r1) (\<lambda>(crc, r2).
     Option.bind (frame_field r2) (\<lambda>(len, data). Some (seq, crc, len, data))))"

definition ascii_text :: "bytes \<Rightarrow> pystr" where
  "ascii_text bs = map unat bs"

definition ascii_bytes :: "pystr \<Rightarrow> bytes" where
  "ascii_bytes s = map byte s"

section \<open>The event id of a frame\<close>

text \<open>\<open>decode("utf-8", errors="surrogateescape")\<close>: a byte that starts no character becomes a surrogate.\<close>

definition utf8_first :: "bytes \<Rightarrow> nat \<times> bytes" where
  "utf8_first bs =
     (case utf8_decode (take 1 bs) of Inr [c] \<Rightarrow> (c, drop 1 bs)
      | _ \<Rightarrow> (case utf8_decode (take 2 bs) of Inr [c] \<Rightarrow> (c, drop 2 bs)
      | _ \<Rightarrow> (case utf8_decode (take 3 bs) of Inr [c] \<Rightarrow> (c, drop 3 bs)
      | _ \<Rightarrow> (case utf8_decode (take 4 bs) of Inr [c] \<Rightarrow> (c, drop 4 bs)
      | _ \<Rightarrow> (0xDC00 + unat (hd bs), drop 1 bs)))))"

fun utf8_escape_n :: "nat \<Rightarrow> bytes \<Rightarrow> pystr" where
  "utf8_escape_n 0 bs = []"
| "utf8_escape_n (Suc n) bs = (if bs = [] then [] else
     (case utf8_first bs of (c, r) \<Rightarrow> c # utf8_escape_n n r))"

definition utf8_escape :: "bytes \<Rightarrow> pystr" where
  "utf8_escape bs = utf8_escape_n (length bs) bs"

text \<open>\<open>object_pairs_hook=unique_pairs\<close>.\<close>

definition unique_pairs :: hook where
  "unique_pairs ps = (if distinct (map fst ps) then Inr (PDict ps)
     else Inl (ValueError (u ''duplicate JSON object key'')))"

definition frame_event_id :: "(bytes \<Rightarrow> pystr) \<Rightarrow> bytes \<Rightarrow> pystr" where
  "frame_event_id accessor data =
     (if list_ex (\<lambda>i. startswith (drop i data) [92, 117]) [0..<length data] then accessor data
      else (case json_loads unique_pairs (utf8_escape data) of
          Inr (PDict obj) \<Rightarrow> str_or_empty (dget_or obj ''event_id'' (PStr []))
        | _ \<Rightarrow> accessor data))"

text \<open>\<open>ident.rsplit("-", 1)[-1]\<close>.\<close>

definition after_last :: "'a \<Rightarrow> 'a list \<Rightarrow> 'a list" where
  "after_last c s = rev (takeWhile (\<lambda>x. x \<noteq> c) (rev s))"


section \<open>The scan\<close>

datatype stream_status = S_ok | S_degraded | S_corrupt

datatype stream_file = Absent | Unreadable | Content bytes

record scan_out =
  s_status :: stream_status
  s_reason :: pystr
  s_highest :: nat
  s_highest_text :: pystr
  s_next :: nat
  s_torn :: bool
  s_truncate_at :: nat
  s_present :: bool
  s_readable :: bool

text \<open>The metadata, the running offset and the records found so far.\<close>

record scan_state =
  sc_out :: scan_out
  sc_offset :: nat
  sc_records :: "(bytes \<times> bytes) list"

definition scan_start :: scan_state where
  "scan_start = \<lparr>sc_out = \<lparr>s_status = S_ok, s_reason = [], s_highest = 0, s_highest_text = u ''0'',
     s_next = 1, s_torn = False, s_truncate_at = 0, s_present = True, s_readable = True\<rparr>,
     sc_offset = 0, sc_records = []\<rparr>"

abbreviation raise_value :: "pystr \<Rightarrow> exn + 'a" where
  "raise_value s \<equiv> Inl (ValueError s)"

text \<open>
  One terminated line. The status and the highest sequence are updated before the event id
  is checked, so a mismatch there leaves them changed.
\<close>

definition scan_advance :: "nat \<Rightarrow> pystr \<Rightarrow> scan_state \<Rightarrow> scan_state" where
  "scan_advance seq seq_s st = st\<lparr>sc_out := (sc_out st)\<lparr>
     s_status := (if seq \<noteq> s_highest (sc_out st) + 1 then S_degraded else s_status (sc_out st)),
     s_highest := seq, s_highest_text := seq_s\<rparr>\<rparr>"

definition scan_line ::
  "(bytes \<Rightarrow> pystr) \<Rightarrow> bytes \<Rightarrow> scan_state \<Rightarrow> scan_state \<times> (exn + scan_state)" where
  "scan_line accessor line st =
     (case parse_frame line of
        None \<Rightarrow> (st, raise_value (u ''unparsable framed record near offset '' @ str_of_nat (sc_offset st)))
      | Some (seq_b, crc_b, length_b, data) \<Rightarrow>
          let seq_s = ascii_text seq_b; out = sc_out st in
          (case int_of_digits seq_s of
             Inl e \<Rightarrow> (st, Inl e)
           | Inr n \<Rightarrow>
               let seq = nat n in
               if \<not> startswith data [123]
                 then (st, raise_value (u ''record body is not a JSON object (seq '' @ seq_s @ u '')''))
               else (case int_of_digits (ascii_text length_b) of
                  Inl e \<Rightarrow> (st, Inl e)
                | Inr len \<Rightarrow>
                    if int (length data) \<noteq> len
                      then (st, raise_value (u ''len mismatch (seq '' @ seq_s @ u '')''))
                    else if ascii_bytes (str_of_nat (cksum data)) \<noteq> crc_b
                      then (st, raise_value (u ''crc/len mismatch (seq '' @ seq_s @ u '')''))
                    else if s_highest out \<noteq> 0 \<and> seq \<le> s_highest out
                      then (st, raise_value (u ''non-monotonic seq '' @ seq_s @ u '' after '' @ s_highest_text out))
                    else
                      let st1 = scan_advance seq seq_s st; ident = frame_event_id accessor data in
                      if after_last 45 ident \<noteq> seq_s
                        then (st1, raise_value (u ''event_id/seq mismatch (seq '' @ seq_s @ u '', event_id '' @ ident @ u '')''))
                      else (st1, Inr (st1\<lparr>sc_records := sc_records st1 @ [(seq_b, data)],
                        sc_offset := sc_offset st1 + length line + 1\<rparr>)))))"

definition strip_nul :: "bytes \<Rightarrow> bytes" where
  "strip_nul line = filter (\<lambda>b. b \<noteq> 0) line"

fun scan_lines ::
  "(bytes \<Rightarrow> pystr) \<Rightarrow> (bytes \<times> bool) list \<Rightarrow> scan_state \<Rightarrow> scan_state \<times> exn option" where
  "scan_lines accessor [] st = (st, None)"
| "scan_lines accessor ((raw, terminated) # ls) st =
     (if \<not> terminated then
        (if strip_nul raw \<noteq> []
         then (st\<lparr>sc_out := (sc_out st)\<lparr>s_torn := True, s_truncate_at := sc_offset st\<rparr>\<rparr>, None)
         else (st, None))
      else (case scan_line accessor (strip_nul raw) st of
          (st1, Inl e) \<Rightarrow> (st1, Some e)
        | (_, Inr st2) \<Rightarrow> scan_lines accessor ls st2))"

text \<open>\<open>str(error)\<close> of the exceptions a scan raises.\<close>

definition error_text :: "exn \<Rightarrow> pystr" where
  "error_text e = (case e of ValueError s \<Rightarrow> s | LedgerError s \<Rightarrow> s | _ \<Rightarrow> [])"

definition scan :: "(bytes \<Rightarrow> pystr) \<Rightarrow> stream_file \<Rightarrow> scan_out \<times> (bytes \<times> bytes) list" where
  "scan accessor f = (case f of
       Absent \<Rightarrow> ((sc_out scan_start)\<lparr>s_present := False\<rparr>, [])
     | Unreadable \<Rightarrow> ((sc_out scan_start)\<lparr>s_status := S_corrupt, s_readable := False,
         s_reason := u ''events stream is not readable''\<rparr>, [])
     | Content bs \<Rightarrow>
         (case scan_lines accessor (raw_lines bs) scan_start of
            (st, Some e) \<Rightarrow> ((sc_out st)\<lparr>s_status := S_corrupt, s_reason := error_text e\<rparr>, sc_records st)
          | (st, None) \<Rightarrow> ((sc_out st)\<lparr>s_next := s_highest (sc_out st) + 1\<rparr>, sc_records st)))"

section \<open>Events of a stream\<close>

text \<open>\<open>read_events\<close>: records that are not a JSON object in UTF-8 are set aside with the reason.\<close>

fun read_records ::
  "(bytes \<times> bytes) list \<Rightarrow> exn + (int \<times> pydict) list \<times> (int \<times> pystr) list" where
  "read_records [] = Inr ([], [])"
| "read_records ((seq_b, raw) # rs) =
     bind_res (int_of_digits (ascii_text seq_b)) (\<lambda>seq.
     bind_res (read_records rs) (\<lambda>(records, bad).
       case utf8_decode raw of
         Inl _ \<Rightarrow> Inr (records, (seq, u ''invalid_utf8'') # bad)
       | Inr text \<Rightarrow>
           (case json_loads unique_pairs text of
              Inl _ \<Rightarrow> Inr (records, (seq, u ''invalid_json'') # bad)
            | Inr (PDict d) \<Rightarrow> Inr ((seq, d) # records, bad)
            | Inr _ \<Rightarrow> Inr (records, (seq, u ''invalid_shape'') # bad))))"

definition read_events ::
  "(bytes \<Rightarrow> pystr) \<Rightarrow> stream_file \<Rightarrow> exn + scan_out \<times> (int \<times> pydict) list \<times> (int \<times> pystr) list" where
  "read_events accessor f =
     (case scan accessor f of (meta, raws) \<Rightarrow>
        if s_status meta = S_corrupt then Inl (LedgerError (s_reason meta))
        else bind_res (read_records raws) (\<lambda>(records, bad). Inr (meta, records, bad)))"


section \<open>Writing a frame\<close>

text \<open>One record as the fixture writer of \<open>task_ledger.py\<close> (and the shell) frames it.\<close>

definition ascii_nat :: "nat \<Rightarrow> bytes" where
  "ascii_nat n = ascii_bytes (str_of_nat n)"

definition frame_line :: "nat \<Rightarrow> bytes \<Rightarrow> bytes" where
  "frame_line seq data = ascii_nat seq @ [32] @ ascii_nat (cksum data) @ [32] @
     ascii_nat (length data) @ [32] @ data"

text \<open>
  The frame as the Python code writes it, for a fixture (\<open>_fixture_gated\<close> of \<open>lib/task_ledger.py\<close>);
  the shell writes the same bytes, with the checksum of the \<open>cksum\<close> command.
\<close>

definition write_frame :: "nat \<Rightarrow> bytes \<Rightarrow> bytes" where
  "write_frame seq data = frame_line seq data @ [10]"

end
