(* ===== verification/StreamProps.thy ===== *)
theory StreamProps
  imports StreamFrames
begin

text \<open>
  Properties of the framed streams: the checksum is the POSIX one, a scan without complaint
  has seen the sequence numbers 1 to n, and what was framed is scanned back.
\<close>

unbundle bit_operations_syntax

section \<open>The checksum\<close>

text \<open>The POSIX definition: most significant bit first, length appended, complemented.\<close>

definition posix_step :: "32 word \<Rightarrow> 32 word" where
  "posix_step c = (if bit c 31 then push_bit 1 c XOR 0x04C11DB7 else push_bit 1 c)"

definition posix_byte :: "32 word \<Rightarrow> 8 word \<Rightarrow> 32 word" where
  "posix_byte c b = (posix_step ^^ 8) (c XOR push_bit 24 (ucast b))"

definition posix_cksum :: "bytes \<Rightarrow> nat" where
  "posix_cksum data = unat (NOT (foldl posix_byte 0 (data @ le_bytes (length data))))"

lemma bit_rev32: "bit (rev32 w) n \<longleftrightarrow> n < 32 \<and> bit w (31 - n)"
  by (auto simp: rev32_def bit_horner_sum_bit_iff)

lemma bit_rev8: "bit (rev8 w) n \<longleftrightarrow> n < 8 \<and> bit w (7 - n)"
  by (auto simp: rev8_def bit_horner_sum_bit_iff)

lemma word32_eqI: "(\<And>n. n < 32 \<Longrightarrow> bit v n = bit w n) \<Longrightarrow> v = (w :: 32 word)"
  by (rule bit_word_eqI) simp

lemma rev32_xor: "rev32 (v XOR w) = rev32 v XOR rev32 w"
  by (rule word32_eqI) (simp add: bit_rev32 bit_xor_iff)

lemma rev32_not: "rev32 (NOT w) = NOT (rev32 w)"
  by (rule word32_eqI) (auto simp: bit_rev32 bit_not_iff less_Suc_eq_le)

lemma rev32_drop: "rev32 (drop_bit 1 w) = push_bit 1 (rev32 w)"
proof (rule word32_eqI)
  fix n :: nat assume n: "n < 32"
  have "bit w (Suc (31 - n)) = (1 \<le> n \<and> bit w (31 - (n - 1)))"
  proof (cases n)
    case 0
    have "\<not> bit w 32" using bit_imp_le_length [of w 32] by auto
    with 0 show ?thesis by simp
  next
    case (Suc m)
    with n have "Suc (31 - n) = 31 - (n - 1)" by simp
    with Suc show ?thesis by simp
  qed
  then show "bit (rev32 (drop_bit 1 w)) n = bit (push_bit 1 (rev32 w)) n"
    using n bit_imp_le_length [of "push_bit 1 (rev32 w)" n]
    unfolding bit_rev32 bit_drop_bit_eq bit_push_bit_iff by auto
qed

lemma rev32_poly: "rev32 0xEDB88320 = 0x04C11DB7"
  by code_simp

lemma rev32_zero: "rev32 0 = 0"
  by (rule word32_eqI) (simp add: bit_rev32)

lemma rev_step: "rev32 (zlib_step c) = posix_step (rev32 c)"
proof -
  have "bit (rev32 c) 31 = bit c 0" by (simp add: bit_rev32)
  then show ?thesis
    unfolding zlib_step_def posix_step_def
    by (cases "bit c 0") (simp_all only: rev32_xor rev32_drop rev32_poly if_True if_False)
qed

lemma rev_steps: "rev32 ((zlib_step ^^ n) c) = (posix_step ^^ n) (rev32 c)"
  by (induction n) (simp_all add: rev_step)

lemma rev_ucast: "rev32 (ucast (rev8 b)) = push_bit 24 (ucast b)"
proof (rule word32_eqI)
  fix n :: nat assume "n < 32"
  then show "bit (rev32 (ucast (rev8 b) :: 32 word)) n = bit (push_bit 24 (ucast b) :: 32 word) n"
    by (cases "24 \<le> n") (auto simp: bit_rev32 bit_rev8 bit_ucast_iff bit_push_bit_iff)
qed

lemma rev_byte: "rev32 (zlib_byte c (rev8 b)) = posix_byte (rev32 c) b"
  by (simp only: zlib_byte_def posix_byte_def rev_steps rev32_xor rev_ucast)

lemma rev_bytes: "rev32 (foldl zlib_byte c (map rev8 bs)) = foldl posix_byte (rev32 c) bs"
  by (induction bs arbitrary: c) (simp_all add: rev_byte)

text \<open>
  C10: the checksum that reuses the reflected CRC of \<open>zlib\<close> on bit-reversed bytes is the POSIX
  \<open>cksum\<close> of the data.
\<close>

theorem cksum_is_posix: "cksum data = posix_cksum data"
proof -
  let ?bs = "data @ le_bytes (length data)"
  have "rev32 (NOT 0xFFFFFFFF) = 0" by code_simp
  then have "rev32 (foldl zlib_byte (NOT 0xFFFFFFFF) (map rev8 ?bs)) = foldl posix_byte 0 ?bs"
    by (simp only: rev_bytes)
  then show ?thesis
    by (simp only: cksum_def posix_cksum_def zlib_crc32_def rev32_not)
qed


section \<open>What a clean scan has seen\<close>

definition seq_of :: "bytes \<Rightarrow> nat" where
  "seq_of seq_b = digits_value (ascii_text seq_b)"

text \<open>
  While a scan is clean, the records found carry the numbers 1 to the highest one, each with a
  body that is a checked frame.
\<close>

definition scan_inv :: "scan_state \<Rightarrow> bool" where
  "scan_inv st = (s_status (sc_out st) \<noteq> S_corrupt \<and>
     (s_status (sc_out st) = S_ok \<longrightarrow>
        map (\<lambda>(seq_b, _). seq_of seq_b) (sc_records st) = [1..<s_highest (sc_out st) + 1]) \<and>
     (\<forall>(seq_b, data) \<in> set (sc_records st). startswith data [123]))"

lemma scan_line_ok:
  assumes "scan_line accessor line st = (st1, Inr st2)"
  obtains seq_b length_b data where
    "st2 = (scan_advance (seq_of seq_b) (ascii_text seq_b) st)
      \<lparr>sc_records := sc_records st @ [(seq_b, data)], sc_offset := sc_offset st + length line + 1\<rparr>"
    and "startswith data [123]"
    and "parse_frame line = Some (seq_b, ascii_bytes (str_of_nat (cksum data)), length_b, data)"
    and "int_of_digits (ascii_text length_b) = Inr (int (length data))"
    and "after_last 45 (frame_event_id accessor data) = ascii_text seq_b"
proof -
  obtain seq_b crc_b length_b data where pf: "parse_frame line = Some (seq_b, crc_b, length_b, data)"
    using assms by (auto simp: scan_line_def split: option.splits)
  obtain n where n: "int_of_digits (ascii_text seq_b) = Inr n"
    using assms pf by (cases "int_of_digits (ascii_text seq_b)") (simp_all add: scan_line_def Let_def)
  obtain len where len: "int_of_digits (ascii_text length_b) = Inr len"
    using assms pf n
    by (cases "int_of_digits (ascii_text length_b)") (simp_all add: scan_line_def Let_def split: if_splits)
  from n have seq: "nat n = seq_of seq_b"
    by (auto simp: int_of_digits_def seq_of_def split: if_splits)
  from assms pf n len seq show thesis
    by (intro that [of seq_b data length_b])
      (auto simp: scan_line_def Let_def scan_advance_def split: if_splits)
qed

lemma scan_lines_inv:
  "scan_inv st \<Longrightarrow> scan_lines accessor ls st = (st', None) \<Longrightarrow> scan_inv st'"
proof (induction accessor ls st rule: scan_lines.induct)
  case (1 accessor st)
  then show ?case by simp
next
  case (2 accessor raw terminated ls st)
  show ?case
  proof (cases terminated)
    case False
    with 2 show ?thesis by (auto simp: scan_inv_def split: if_splits)
  next
    case True
    with 2(3) obtain st1 st2 where l: "scan_line accessor (strip_nul raw) st = (st1, Inr st2)"
      and rest: "scan_lines accessor ls st2 = (st', None)"
      by (auto split: prod.splits sum.splits)
    have "scan_inv st2"
      using l
    proof (rule scan_line_ok)
      fix seq_b data
      assume e: "st2 = (scan_advance (seq_of seq_b) (ascii_text seq_b) st)
          \<lparr>sc_records := sc_records st @ [(seq_b, data)], sc_offset := sc_offset st + length (strip_nul raw) + 1\<rparr>"
        and "startswith data [123]"
      with 2(2) show ?thesis
        by (auto simp: scan_inv_def scan_advance_def split: if_splits)
    qed
    with True 2(1) l rest show ?thesis by auto
  qed
qed

text \<open>
  a stream the scan calls ok consists of records with the sequence numbers 1 to n, without
  a gap, and the next number is n + 1.
\<close>

theorem clean_scan_is_contiguous:
  assumes "scan accessor f = (out, records)" and "s_status out = S_ok"
  shows "map (\<lambda>(seq_b, _). seq_of seq_b) records = [1..<s_next out] \<and> s_next out = s_highest out + 1 \<and>
    (\<forall>(seq_b, data) \<in> set records. startswith data [123])"
proof (cases f)
  case (Content bs)
  obtain st e where l: "scan_lines accessor (raw_lines bs) scan_start = (st, e)" by fastforce
  with assms Content have "e = None" by (auto simp: scan_def split: option.splits)
  with l assms Content have o: "out = (sc_out st)\<lparr>s_next := s_highest (sc_out st) + 1\<rparr>"
    "records = sc_records st" by (auto simp: scan_def)
  have "scan_inv scan_start" by (simp add: scan_inv_def scan_start_def)
  with scan_lines_inv l \<open>e = None\<close> have "scan_inv st" by blast
  with o assms(2) show ?thesis by (auto simp: scan_inv_def)
qed (use assms in \<open>auto simp: scan_def scan_start_def\<close>)


section \<open>Frames are read back\<close>

lemma ascii_nat_digits: "b \<in> set (ascii_nat n) \<Longrightarrow> byte_digit b"
  using str_of_nat_ascii [of _ n] by (force simp: ascii_nat_def ascii_bytes_def byte_digit_def)

lemma ascii_nat_nonempty [simp]: "ascii_nat n \<noteq> []"
  by (simp add: ascii_nat_def ascii_bytes_def)

lemma ascii_text_nat [simp]: "ascii_text (ascii_nat n) = str_of_nat n"
proof -
  have "unat (byte c) = c" if "c \<in> set (str_of_nat n)" for c
    using str_of_nat_ascii [OF that] by simp
  then have "map (unat \<circ> byte) (str_of_nat n) = map id (str_of_nat n)" by (intro map_cong) auto
  then show ?thesis by (simp add: ascii_text_def ascii_nat_def ascii_bytes_def)
qed

lemma seq_of_ascii_nat [simp]: "seq_of (ascii_nat n) = n"
  by (simp add: seq_of_def)

lemma frame_field_nat: "frame_field (ascii_nat n @ 32 # r) = Some (ascii_nat n, r)"
proof -
  have "\<not> byte_digit 32" by (simp add: byte_digit_def)
  then show ?thesis
    using ascii_nat_digits [of _ n]
    by (simp add: frame_field_def takeWhile_append2 dropWhile_append2)
qed

lemma parse_frame_line:
  "parse_frame (frame_line seq data) = Some (ascii_nat seq, ascii_nat (cksum data), ascii_nat (length data), data)"
  by (simp add: parse_frame_def frame_line_def frame_field_nat)

text \<open>A record body the writers produce: one line of an object whose event id ends in its number.\<close>

definition frame_ok :: "(bytes \<Rightarrow> pystr) \<Rightarrow> nat \<Rightarrow> bytes \<Rightarrow> bool" where
  "frame_ok accessor seq data = (0 \<notin> set data \<and> 10 \<notin> set data \<and> startswith data [123] \<and>
     length (str_of_nat seq) \<le> 4300 \<and> length (str_of_nat (length data)) \<le> 4300 \<and>
     after_last 45 (frame_event_id accessor data) = str_of_nat seq)"

lemma frame_line_plain:
  assumes "frame_ok accessor seq data"
  shows "10 \<notin> set (frame_line seq data)" and "strip_nul (frame_line seq data) = frame_line seq data"
proof -
  have "b \<noteq> 0 \<and> b \<noteq> 10" if "b \<in> set (frame_line seq data)" for b
    using that assms ascii_nat_digits [of b] by (auto simp: frame_line_def frame_ok_def byte_digit_def)
  then show "10 \<notin> set (frame_line seq data)" "strip_nul (frame_line seq data) = frame_line seq data"
    by (auto simp: strip_nul_def filter_id_conv)
qed

lemma raw_lines_frame:
  assumes "10 \<notin> set line"
  shows "raw_lines (line @ 10 # r) = (line, True) # raw_lines r"
proof -
  have "partitionc 10 (line @ 10 # r) = (line, True, r)"
    using assms by (induction line) auto
  then show ?thesis by (subst raw_lines.simps) simp
qed

lemma scan_line_frame:
  assumes ok: "frame_ok accessor seq data" and next_seq: "seq = s_highest (sc_out st) + 1"
  shows "scan_line accessor (frame_line seq data) st =
    (let st1 = scan_advance seq (str_of_nat seq) st in
     (st1, Inr (st1\<lparr>sc_records := sc_records st1 @ [(ascii_nat seq, data)],
       sc_offset := sc_offset st1 + length (frame_line seq data) + 1\<rparr>)))"
proof -
  have "\<not> seq \<le> s_highest (sc_out st)" using next_seq by simp
  with ok show ?thesis
    by (simp add: scan_line_def parse_frame_line frame_ok_def Let_def ascii_nat_def [symmetric])
qed

fun number_from :: "nat \<Rightarrow> bytes list \<Rightarrow> (nat \<times> bytes) list" where
  "number_from n [] = []"
| "number_from n (d # ds) = (n, d) # number_from (n + 1) ds"

lemma scan_lines_frames:
  assumes "\<forall>(seq, data) \<in> set (number_from (s_highest (sc_out st) + 1) ds). frame_ok accessor seq data"
    and "s_status (sc_out st) = S_ok"
  shows "\<exists>st'. scan_lines accessor
      (raw_lines (concat (map (\<lambda>(seq, data). write_frame seq data) (number_from (s_highest (sc_out st) + 1) ds)))) st =
        (st', None) \<and>
    sc_records st' = sc_records st @ map (\<lambda>(seq, data). (ascii_nat seq, data)) (number_from (s_highest (sc_out st) + 1) ds) \<and>
    s_status (sc_out st') = S_ok \<and> s_highest (sc_out st') = s_highest (sc_out st) + length ds \<and>
    s_torn (sc_out st') = s_torn (sc_out st)"
  using assms
proof (induction ds arbitrary: st)
  case Nil
  then show ?case by (subst raw_lines.simps) simp
next
  case (Cons d ds)
  let ?n = "s_highest (sc_out st) + 1"
  have ok: "frame_ok accessor ?n d" using Cons.prems(1) by simp
  let ?st1 = "scan_advance ?n (str_of_nat ?n) st"
  let ?st2 = "?st1\<lparr>sc_records := sc_records ?st1 @ [(ascii_nat ?n, d)],
    sc_offset := sc_offset ?st1 + length (frame_line ?n d) + 1\<rparr>"
  have adv: "s_highest (sc_out ?st2) = ?n" "s_status (sc_out ?st2) = S_ok"
    "s_torn (sc_out ?st2) = s_torn (sc_out st)" "sc_records ?st2 = sc_records st @ [(ascii_nat ?n, d)]"
    using Cons.prems(2) by (simp_all add: scan_advance_def)
  have "scan_line accessor (frame_line ?n d) st = (?st1, Inr ?st2)"
    using scan_line_frame [OF ok] by (simp add: Let_def)
  moreover note frame_line_plain [OF ok]
  moreover have "\<forall>(seq, data) \<in> set (number_from (s_highest (sc_out ?st2) + 1) ds). frame_ok accessor seq data"
    using Cons.prems(1) unfolding adv by simp
  note Cons.IH [OF this adv(2), unfolded adv]
  ultimately show ?case
    by (auto simp: write_frame_def raw_lines_frame)
qed

lemma scan_of_frames:
  assumes "\<forall>(seq, data) \<in> set (number_from 1 ds). frame_ok accessor seq data"
  shows "\<exists>out. scan accessor (Content (concat (map (\<lambda>(seq, data). write_frame seq data) (number_from 1 ds)))) =
      (out, map (\<lambda>(seq, data). (ascii_nat seq, data)) (number_from 1 ds)) \<and>
    s_status out = S_ok \<and> s_next out = length ds + 1 \<and> \<not> s_torn out"
proof -
  have start: "s_highest (sc_out scan_start) = 0" "s_status (sc_out scan_start) = S_ok"
    "sc_records scan_start = []" "\<not> s_torn (sc_out scan_start)"
    by (simp_all add: scan_start_def)
  have "\<forall>(seq, data) \<in> set (number_from (s_highest (sc_out scan_start) + 1) ds). frame_ok accessor seq data"
    using assms by (simp add: start)
  from scan_lines_frames [OF this start(2)] start show ?thesis
    by (auto simp: scan_def)
qed

text \<open>
  C9: a stream of framed records, numbered from 1, each the one-line JSON object of an event
  whose id ends in its number, scans as ok, without a torn tail, to exactly these records.
\<close>

theorem frames_are_scanned_back:
  assumes "\<forall>(seq, data) \<in> set (number_from 1 ds). frame_ok accessor seq data"
  shows "\<exists>out. scan accessor (Content (concat (map (\<lambda>(seq, data). write_frame seq data) (number_from 1 ds)))) =
      (out, map (\<lambda>(seq, data). (ascii_nat seq, data)) (number_from 1 ds)) \<and>
    s_status out = S_ok \<and> s_next out = length ds + 1 \<and> \<not> s_torn out"
  using assms by (rule scan_of_frames)

definition smp_body :: bytes where
  "smp_body = ascii_bytes ([123, 34] @ u ''event_id'' @ [34, 58, 34] @ u ''acme-attempts-1'' @ [34, 125])"

lemma smp_body_ok: "frame_ok (\<lambda>_. []) 1 smp_body"
  by code_simp

theorem frames_are_scanned_back_witness:
  "\<exists>out. scan (\<lambda>_. []) (Content (write_frame 1 smp_body)) = (out, [(ascii_nat 1, smp_body)]) \<and> s_next out = 2"
  using frames_are_scanned_back [of "[smp_body]" "\<lambda>_. []"] smp_body_ok by auto

theorem clean_scan_is_contiguous_witness:
  "\<exists>out. scan (\<lambda>_. []) (Content (write_frame 1 smp_body)) = (out, [(ascii_nat 1, smp_body)]) \<and> s_next out = s_highest out + 1"
proof -
  from smp_body_ok scan_of_frames [of "[smp_body]" "\<lambda>_. []"]
  obtain out where o: "scan (\<lambda>_. []) (Content (write_frame 1 smp_body)) = (out, [(ascii_nat 1, smp_body)])"
    "s_status out = S_ok" by auto
  from clean_scan_is_contiguous [OF o] o show ?thesis by auto
qed

end
