(* ===== verification/AttemptsFold.thy ===== *)
theory AttemptsFold
  imports StreamFrames LedgerText
begin

text \<open>
  The attempt semantics of \<open>lib/attempts_fold.py\<close>: what a stream of \<open>attempt.decided\<close> and
  \<open>attempt.ended\<close> records says about every launch attempt. The process table (is a pid alive)
  and the shell accessor for records that are not UTF-8 are parameters.
\<close>

section \<open>Scalars and truth\<close>

definition scalar :: "pyval \<Rightarrow> exn + pystr" where
  "scalar v = (case v of PNone \<Rightarrow> Inr [] | PStr s \<Rightarrow> Inr s | PInt n \<Rightarrow> Inr (str_of_int n)
     | _ \<Rightarrow> raise_value (u ''invalid scalar in attempt payload''))"

text \<open>\<open>bool(v)\<close>.\<close>

definition truth :: "pyval \<Rightarrow> bool" where
  "truth v = (case v of PNone \<Rightarrow> False | PBool b \<Rightarrow> b | PInt n \<Rightarrow> n \<noteq> 0 | PStr s \<Rightarrow> s \<noteq> []
     | PList xs \<Rightarrow> xs \<noteq> [] | PDict d \<Rightarrow> d \<noteq> []
     | PFloat f \<Rightarrow> (case f of Finite m _ \<Rightarrow> m \<noteq> 0 | _ \<Rightarrow> True))"

section \<open>Launch bindings\<close>

definition launch_required :: "(string \<times> string list) list" where
  "launch_required =
     [(''provider'', [''requested'', ''resolved'', ''source'', ''effective'']),
      (''model'', [''requested'', ''resolved'', ''source'', ''effective'']),
      (''effort'', [''requested'', ''resolved'', ''source'', ''effective'']),
      (''sandbox'', [''requested'', ''effective'']),
      (''adapter'', [''source''])]"

definition binding_fields_ok :: "pydict \<Rightarrow> bool" where
  "binding_fields_ok payload = list_all (\<lambda>(name, keys). case dget payload name of
       PDict d \<Rightarrow> list_all (\<lambda>k. has_key d k \<and> (dget d k = PNone \<or> is_str (dget d k))) keys
     | _ \<Rightarrow> False) launch_required"

text \<open>
  \<open>text_safe\<close>: its \<open>UnicodeError\<close> on a surrogate has the same effect as \<open>False\<close>, the binding
  is dropped.
\<close>

definition safe_string :: "pystr \<Rightarrow> bool" where
  "safe_string s = (\<not> list_ex is_surrogate s \<and> 0 \<notin> set s)"

fun text_safe :: "pyval \<Rightarrow> bool" where
  "text_safe (PStr s) = safe_string s"
| "text_safe (PDict d) = list_all (\<lambda>(k, v). safe_string k \<and> text_safe v) d"
| "text_safe (PList xs) = list_all text_safe xs"
| "text_safe (PFloat f) = (case f of Finite _ _ \<Rightarrow> True | _ \<Rightarrow> False)"
| "text_safe _ = True"

text \<open>\<open>decode("utf-8", errors="ignore")\<close>.\<close>

fun utf8_ignore_n :: "nat \<Rightarrow> bytes \<Rightarrow> pystr" where
  "utf8_ignore_n 0 bs = []"
| "utf8_ignore_n (Suc n) bs = (if bs = [] then [] else
     (case utf8_first bs of (c, r) \<Rightarrow>
        if is_surrogate c then utf8_ignore_n n r else c # utf8_ignore_n n r))"

definition utf8_ignore :: "bytes \<Rightarrow> pystr" where
  "utf8_ignore bs = utf8_ignore_n (length bs) bs"

definition launch_of :: "pydict \<Rightarrow> pydict" where
  "launch_of payload =
     map (\<lambda>name. (u name, dget payload name)) [''provider'', ''model'', ''effort'', ''sandbox''] @
     [(u ''adapter'', PDict [(u ''source'', case dget payload ''adapter'' of
        PDict d \<Rightarrow> dget d ''source'' | _ \<Rightarrow> PNone)])]"

definition launch_binding :: "pydict \<Rightarrow> pydict option" where
  "launch_binding payload =
     (if \<not> binding_fields_ok payload then None
      else case dget_or payload ''reasons'' (PStr []) of
        PStr reasons \<Rightarrow>
          if \<not> text_safe (PDict (launch_of payload)) \<or> \<not> safe_string reasons then None
          else (case utf8_encode reasons of
              Inl _ \<Rightarrow> None
            | Inr data \<Rightarrow> Some (launch_of payload @
                [(u ''reasons'', PStr (utf8_ignore (take 512 data))), (u ''attested'', PBool True)]))
      | _ \<Rightarrow> None)"

section \<open>Attempts\<close>

record attempt_row =
  at_id :: pystr
  at_agent :: pyval
  at_session :: pyval
  at_decided_at :: pyval
  at_decision :: pystr
  at_pid :: pystr
  at_state :: pystr
  at_exit_code :: pystr
  at_open :: bool
  at_class :: pyval
  at_stage :: pyval
  at_ended_at :: pyval
  at_launch :: "pydict option"

record fold_state =
  fs_attempts :: "(pystr, attempt_row) dict"
  fs_excluded :: "pystr list"

text \<open>A record of the stream: its number, its fields, and whether its bytes were not UTF-8.\<close>

type_synonym stream_record = "int \<times> pydict \<times> bool"

definition quoted :: "pystr \<Rightarrow> pystr" where
  "quoted s = [39] @ s @ [39]"

abbreviation digits_only :: "pystr \<Rightarrow> bool" where
  "digits_only s \<equiv> fullmatch (Plus (Cls [(48, 57)])) s"

definition exit_classes :: "string list" where
  "exit_classes = [''ok'', ''provider-failure'', ''timeout'', ''io-refused'', ''aborted'']"

definition decided_row :: "pydict \<Rightarrow> pydict \<Rightarrow> bool \<Rightarrow> pystr \<Rightarrow> pystr \<Rightarrow> pystr \<Rightarrow> attempt_row" where
  "decided_row rec payload legacy ident decision pid =
     \<lparr>at_id = ident, at_agent = dget rec ''agent_uid'', at_session = dget rec ''session_id'',
      at_decided_at = dget rec ''occurred_at'', at_decision = decision, at_pid = pid,
      at_state = (if decision = u ''allow'' then u ''open'' else u ''deny''),
      at_exit_code = u ''null'', at_open = (decision = u ''allow''),
      at_class = PNone, at_stage = PNone, at_ended_at = PNone,
      at_launch = (if legacy then None else launch_binding payload)\<rparr>"

definition attempt_decided ::
  "pydict \<Rightarrow> pydict \<Rightarrow> bool \<Rightarrow> pystr \<Rightarrow> fold_state \<Rightarrow> exn + fold_state" where
  "attempt_decided rec payload legacy ident st =
     (if map_of (fs_attempts st) ident \<noteq> None
        then raise_value (u ''duplicate attempt.decided for '' @ quoted ident)
      else bind_res (scalar (dget payload ''pid'')) (\<lambda>pid.
        if \<not> in_tuple (dget payload ''decision'') [''allow'', ''deny''] then
          bind_res (scalar (dget payload ''decision'')) (\<lambda>d.
            raise_value (u ''attempt '' @ quoted ident @ u '' has invalid decision '' @ quoted d))
        else if \<not> digits_only pid
          then raise_value (u ''attempt '' @ quoted ident @ u '' has invalid pid '' @ quoted pid)
        else bind_res (int_of_digits pid) (\<lambda>n.
          if n \<le> 0
            then raise_value (u ''attempt '' @ quoted ident @ u '' has non-positive pid '' @ quoted pid)
          else Inr (st\<lparr>fs_attempts := dset ident (decided_row rec payload legacy ident
            (str_or_empty (dget payload ''decision'')) pid) (fs_attempts st)\<rparr>))))"

definition attempt_ended ::
  "pydict \<Rightarrow> pydict \<Rightarrow> bool \<Rightarrow> pystr \<Rightarrow> fold_state \<Rightarrow> exn + fold_state" where
  "attempt_ended rec payload legacy ident st =
     (if \<not> legacy \<and> ident \<in> set (fs_excluded st) then Inr st
      else case map_of (fs_attempts st) ident of
        None \<Rightarrow> raise_value (u ''attempt.ended references unknown attempt '' @ quoted ident)
      | Some a \<Rightarrow>
          if at_decision a \<noteq> u ''allow''
            then raise_value (u ''denied attempt '' @ quoted ident @ u '' carries an impossible ended record'')
          else if \<not> at_open a then raise_value (u ''duplicate attempt.ended for '' @ quoted ident)
          else (case dget_or payload ''exit'' (PDict []) of
              PDict info \<Rightarrow>
                bind_res (scalar (dget info ''code'')) (\<lambda>code.
                  if \<not> in_tuple (dget info ''class'') exit_classes then
                    bind_res (scalar (dget info ''class'')) (\<lambda>c.
                      raise_value (u ''attempt '' @ quoted ident @ u '' has invalid exit class '' @ quoted c))
                  else if code \<noteq> [] \<and> \<not> digits_only code
                    then raise_value (u ''attempt '' @ quoted ident @ u '' has invalid exit code '' @ quoted code)
                  else if in_tuple (dget info ''class'') [''provider-failure'', ''timeout'', ''io-refused''] \<and> code = []
                    then raise_value (u ''attempt '' @ quoted ident @ u '' exit '' @
                      quoted (str_or_empty (dget info ''class'')) @ u '' requires a numeric code'')
                  else Inr (st\<lparr>fs_attempts := dset ident (a\<lparr>at_state := str_or_empty (dget info ''class''),
                      at_exit_code := (if code = [] then u ''null'' else code), at_open := False,
                      at_class := dget info ''class'', at_stage := dget info ''stage'',
                      at_ended_at := dget rec ''occurred_at''\<rparr>) (fs_attempts st)\<rparr>))
            | _ \<Rightarrow> raise_value (u ''invalid exit object'')))"

definition is_attempt_kind :: "pyval \<Rightarrow> bool" where
  "is_attempt_kind v = in_tuple v [''attempt.decided'', ''attempt.ended'']"

definition attempt_step :: "bool \<Rightarrow> stream_record \<Rightarrow> fold_state \<Rightarrow> exn + fold_state" where
  "attempt_step legacy ev st =
     (case ev of (seq, rec, undecodable) \<Rightarrow>
      let kind = dget rec ''event_type''; ident = dget rec ''attempt_id'' in
      if undecodable \<and> \<not> legacy then
        (if kind = PStr (u ''attempt.decided'')
         then Inr (st\<lparr>fs_excluded := fs_excluded st @ [str_or_empty ident]\<rparr>) else Inr st)
      else if \<not> is_attempt_kind kind then Inr st
      else if \<not> truth ident then raise_value (str_or_empty kind @ u '' has no attempt_id'')
      else (case (ident, dget_or rec ''payload'' (PDict [])) of
          (PStr k, PDict payload) \<Rightarrow>
            if list_ex (\<lambda>c. c \<in> set k) [10, 13, 9, 0]
              then raise_value (u ''incomplete attempt record (seq '' @ str_of_int seq @ u '')'')
            else if kind = PStr (u ''attempt.decided'') then attempt_decided rec payload legacy k st
            else attempt_ended rec payload legacy k st
        | _ \<Rightarrow> raise_value (u ''incomplete attempt record (seq '' @ str_of_int seq @ u '')'')))"

text \<open>An open attempt whose process is gone is presumed dead.\<close>

definition presumed :: "(pystr \<Rightarrow> bool) \<Rightarrow> attempt_row \<Rightarrow> attempt_row" where
  "presumed alive a = (if at_open a \<and> \<not> alive (at_pid a) then a\<lparr>at_state := u ''presumed-dead''\<rparr> else a)"

definition fold_records ::
  "(pystr \<Rightarrow> bool) \<Rightarrow> stream_record list \<Rightarrow> bool \<Rightarrow> exn + attempt_row list" where
  "fold_records alive recs legacy =
     bind_res (run (attempt_step legacy) recs \<lparr>fs_attempts = [], fs_excluded = []\<rparr>) (\<lambda>st.
       Inr (map (presumed alive) (dvalues (fs_attempts st))))"

section \<open>The fold of a stream\<close>

record attempts_out =
  ao_scan :: scan_out
  ao_status :: stream_status
  ao_reason :: pystr
  ao_diagnostic :: pystr
  ao_attempts :: "attempt_row list"
  ao_legacy :: "attempt_row list"
  ao_undecodable :: "int list"
  ao_malformed :: nat

fun decode_records ::
  "(bytes \<Rightarrow> pydict) \<Rightarrow> (bytes \<times> bytes) list \<Rightarrow> int list \<times> (exn + stream_record list)" where
  "decode_records legacy_record [] = ([], Inr [])"
| "decode_records legacy_record ((seq_b, data) # rs) =
     (let seq = int (digits_value (ascii_text seq_b)) in
      case utf8_decode data of
        Inl _ \<Rightarrow> (case decode_records legacy_record rs of (bad, r) \<Rightarrow>
          (seq # bad, bind_res r (\<lambda>recs. Inr ((seq, legacy_record data, True) # recs))))
      | Inr text \<Rightarrow>
          (case json_loads unique_pairs text of
             Inr (PDict d) \<Rightarrow> (case decode_records legacy_record rs of (bad, r) \<Rightarrow>
               (bad, bind_res r (\<lambda>recs. Inr ((seq, d, False) # recs))))
           | Inr _ \<Rightarrow> ([], Inl (ValueError (u ''not an object'')))
           | Inl e \<Rightarrow> ([], Inl e)))"

definition fold_attempts ::
  "(bytes \<Rightarrow> pystr) \<Rightarrow> (bytes \<Rightarrow> pydict) \<Rightarrow> (pystr \<Rightarrow> bool) \<Rightarrow> stream_file \<Rightarrow> attempts_out" where
  "fold_attempts accessor legacy_record alive f =
     (case scan accessor f of (frame, intact) \<Rightarrow>
      let out = \<lparr>ao_scan = frame, ao_status = s_status frame, ao_reason = s_reason frame, ao_diagnostic = [],
            ao_attempts = [], ao_legacy = [], ao_undecodable = [], ao_malformed = 0\<rparr> in
      if s_status frame = S_corrupt then out\<lparr>ao_diagnostic := u ''event stream is corrupt ('' @ s_reason frame @
        u '') '' @ [8212] @ u '' refusing partial attempt fold''\<rparr>
      else
        (case decode_records legacy_record intact of (bad, r) \<Rightarrow>
         let out1 = out\<lparr>ao_undecodable := bad\<rparr> in
         case bind_res r (\<lambda>recs. bind_res (fold_records alive recs True) (\<lambda>old.
                bind_res (fold_records alive recs False) (\<lambda>new. Inr (old, new)))) of
           Inl e \<Rightarrow> out1\<lparr>ao_status := S_corrupt, ao_reason := error_text e, ao_diagnostic := error_text e\<rparr>
         | Inr (old, new) \<Rightarrow> out1\<lparr>ao_legacy := old, ao_attempts := new,
             ao_malformed := length (filter (\<lambda>a. at_launch a = None) new)\<rparr>))"

end
