(* ===== verification/AttemptsProps.thy ===== *)
theory AttemptsProps
  imports AttemptsFold StreamProps
begin

text \<open>
  What the fold of the attempts stream promises: every attempt it shows is well-formed and was
  decided by exactly one record, an attempt that was denied or has ended never changes again,
  and the two views it computes differ only in the launch binding when every record is UTF-8.
\<close>

section \<open>The steps of the fold\<close>

definition plain_id :: "pystr \<Rightarrow> bool" where
  "plain_id k = (k \<noteq> [] \<and> {10, 13, 9, 0} \<inter> set k = {})"

definition good_pid :: "pystr \<Rightarrow> bool" where
  "good_pid pid = (digits_only pid \<and> isdecimal pid \<and> 0 < digits_value pid)"

text \<open>\<open>ended_row a class code info rec\<close>: the attempt \<open>a\<close> after its ended record.\<close>

definition ended_row :: "attempt_row \<Rightarrow> string \<Rightarrow> pystr \<Rightarrow> pydict \<Rightarrow> pydict \<Rightarrow> attempt_row" where
  "ended_row a c code info rec = a\<lparr>at_state := u c,
     at_exit_code := (if code = [] then u ''null'' else code), at_open := False,
     at_class := PStr (u c), at_stage := dget info ''stage'', at_ended_at := dget rec ''occurred_at''\<rparr>"

definition good_exit :: "string \<Rightarrow> pystr \<Rightarrow> bool" where
  "good_exit c code = (c \<in> set exit_classes \<and> (code \<noteq> [] \<longrightarrow> digits_only code) \<and>
     (c \<in> {''provider-failure'', ''timeout'', ''io-refused''} \<longrightarrow> code \<noteq> []))"

lemma exit_class_cases:
  "in_tuple v exit_classes \<Longrightarrow> \<exists>c \<in> set exit_classes. v = PStr (u c)"
  by (simp only: in_tuple_iff)

lemma attempt_decided_Inr:
  assumes "attempt_decided rec payload legacy k st = Inr st'"
  obtains d pid where "map_of (fs_attempts st) k = None" "d \<in> {''allow'', ''deny''}" "good_pid pid"
    "st' = st\<lparr>fs_attempts := dset k (decided_row rec payload legacy k (u d) pid) (fs_attempts st)\<rparr>"
proof -
  from assms have new: "map_of (fs_attempts st) k = None"
    by (auto simp: attempt_decided_def split: if_splits)
  with assms obtain pid where pid: "scalar (dget payload ''pid'') = Inr pid"
    by (cases "scalar (dget payload ''pid'')") (auto simp: attempt_decided_def)
  have tup: "in_tuple (dget payload ''decision'') [''allow'', ''deny'']"
  proof (rule ccontr)
    assume "\<not> ?thesis"
    with assms new pid show False
      by (cases "scalar (dget payload ''decision'')")
        (simp_all add: attempt_decided_def del: in_tuple_simps)
  qed
  then obtain d where d: "d \<in> {''allow'', ''deny''}" "dget payload ''decision'' = PStr (u d)"
    by auto
  from assms new pid tup have dig: "digits_only pid"
    by (auto simp: attempt_decided_def simp del: in_tuple_simps split: if_splits)
  with assms new pid tup obtain n where n: "int_of_digits pid = Inr n"
    by (cases "int_of_digits pid") (auto simp: attempt_decided_def simp del: in_tuple_simps)
  with assms new pid tup dig have st': "0 < n"
    "st' = st\<lparr>fs_attempts := dset k (decided_row rec payload legacy k (u d) pid) (fs_attempts st)\<rparr>"
    by (auto simp: attempt_decided_def d(2) simp del: in_tuple_simps split: if_splits)
  from n st'(1) dig have "good_pid pid"
    by (auto simp: good_pid_def int_of_digits_def split: if_splits)
  with new d st' show thesis by (intro that) auto
qed

lemma attempt_ended_Inr:
  assumes "attempt_ended rec payload legacy k st = Inr st'"
  shows "(\<not> legacy \<and> k \<in> set (fs_excluded st) \<and> st' = st) \<or>
    (\<exists>a c code info. map_of (fs_attempts st) k = Some a \<and> at_decision a = u ''allow'' \<and> at_open a \<and>
      good_exit c code \<and> st' = st\<lparr>fs_attempts := dset k (ended_row a c code info rec) (fs_attempts st)\<rparr>)"
proof (cases "\<not> legacy \<and> k \<in> set (fs_excluded st)")
  case True
  with assms show ?thesis by (simp add: attempt_ended_def)
next
  case False
  with assms obtain a where a: "map_of (fs_attempts st) k = Some a"
    by (cases "map_of (fs_attempts st) k") (auto simp: attempt_ended_def)
  from assms False a have al: "at_decision a = u ''allow''" and op: "at_open a"
    by (auto simp: attempt_ended_def split: if_splits)
  obtain info where info: "dget_or payload ''exit'' (PDict []) = PDict info"
    using assms False a al op by (cases "dget_or payload ''exit'' (PDict [])") (auto simp: attempt_ended_def)
  obtain code where code: "scalar (dget info ''code'') = Inr code"
    using assms False a al op info by (cases "scalar (dget info ''code'')") (auto simp: attempt_ended_def)
  have tup: "in_tuple (dget info ''class'') exit_classes"
  proof (rule ccontr)
    assume "\<not> ?thesis"
    with assms False a al op info code show False
      by (cases "scalar (dget info ''class'')")
        (simp_all add: attempt_ended_def del: in_tuple_simps)
  qed
  then obtain c where c: "c \<in> set exit_classes" "dget info ''class'' = PStr (u c)"
    using exit_class_cases by blast
  have dig: "code \<noteq> [] \<longrightarrow> digits_only code"
    using assms False a al op info code tup
    by (auto simp: attempt_ended_def simp del: in_tuple_simps split: if_splits)
  have num: "in_tuple (PStr (u c)) [''provider-failure'', ''timeout'', ''io-refused''] \<longrightarrow> code \<noteq> []"
    using assms False a al op info code tup dig c(2)
    by (auto simp: attempt_ended_def simp del: in_tuple_simps split: if_splits)
  have "st' = st\<lparr>fs_attempts := dset k (ended_row a c code info rec) (fs_attempts st)\<rparr>"
    using assms False a al op info code tup dig num c(2)
    by (auto simp: attempt_ended_def ended_row_def simp del: in_tuple_simps split: if_splits)
  moreover have "good_exit c code" using c dig num by (auto simp: good_exit_def)
  ultimately show ?thesis using a al op by blast
qed

text \<open>The record a step takes: the id of an event that is an attempt event for this view.\<close>

definition decides :: "bool \<Rightarrow> stream_record \<Rightarrow> bool" where
  "decides legacy ev = (case ev of (seq, rec, undecodable) \<Rightarrow>
     (legacy \<or> \<not> undecodable) \<and> dget rec ''event_type'' = PStr (u ''attempt.decided''))"

definition event_attempt :: "stream_record \<Rightarrow> pystr" where
  "event_attempt ev = (case ev of (seq, rec, undecodable) \<Rightarrow> str_or_empty (dget rec ''attempt_id''))"

lemma attempt_step_Inr:
  assumes "attempt_step legacy (seq, rec, und) st = Inr st'"
  obtains (skip) "fs_attempts st' = fs_attempts st" "\<not> decides legacy (seq, rec, und)"
    | (decided) k payload where "decides legacy (seq, rec, und)" "plain_id k"
        "k = event_attempt (seq, rec, und)" "attempt_decided rec payload legacy k st = Inr st'"
    | (ended) k payload where "\<not> decides legacy (seq, rec, und)" "plain_id k"
        "attempt_ended rec payload legacy k st = Inr st'"
proof (cases "und \<and> \<not> legacy \<or> \<not> is_attempt_kind (dget rec ''event_type'')")
  case True
  with assms show thesis
    by (intro skip) (auto simp: attempt_step_def Let_def decides_def is_attempt_kind_def split: if_splits)
next
  case False
  let ?kind = "dget rec ''event_type''" and ?ident = "dget rec ''attempt_id''"
  let ?p = "dget_or rec ''payload'' (PDict [])"
  have kind: "?kind = PStr (u ''attempt.decided'') \<or> ?kind = PStr (u ''attempt.ended'')"
    using False by (auto simp: is_attempt_kind_def)
  have tr: "truth ?ident"
    using assms False by (auto simp: attempt_step_def Let_def split: if_splits)
  obtain k payload where k: "?ident = PStr k" and p: "?p = PDict payload"
    using assms False tr by (cases "?ident"; cases "?p") (auto simp: attempt_step_def Let_def)
  have plain: "plain_id k"
    using assms False tr k p
    by (auto simp: attempt_step_def Let_def plain_id_def truth_def split: if_splits)
  then have ctl: "\<not> list_ex (\<lambda>c. c \<in> set k) [10, 13, 9, 0]"
    by (auto simp: plain_id_def)
  show thesis
  proof (cases "?kind = PStr (u ''attempt.decided'')")
    case True
    then have "attempt_decided rec payload legacy k st = Inr st'"
      using assms False tr k p ctl by (auto simp: attempt_step_def Let_def split: if_splits)
    moreover have "decides legacy (seq, rec, und)" using True False by (auto simp: decides_def)
    ultimately show thesis using plain k by (intro decided) (auto simp: event_attempt_def)
  next
    case no: False
    then have "attempt_ended rec payload legacy k st = Inr st'"
      using assms False tr k p ctl by (auto simp: attempt_step_def Let_def split: if_splits)
    moreover have "\<not> decides legacy (seq, rec, und)" using no by (auto simp: decides_def)
    ultimately show thesis using plain by (intro ended)
  qed
qed

section \<open>The invariant of the fold\<close>

definition attempt_ok :: "attempt_row \<Rightarrow> bool" where
  "attempt_ok a = (plain_id (at_id a) \<and> good_pid (at_pid a) \<and>
     (at_decision a = u ''deny'' \<and> \<not> at_open a \<and> at_state a = u ''deny'' \<and> at_class a = PNone \<and>
        at_exit_code a = u ''null'' \<or>
      at_decision a = u ''allow'' \<and> at_open a \<and> at_state a = u ''open'' \<and> at_class a = PNone \<and>
        at_exit_code a = u ''null'' \<or>
      at_decision a = u ''allow'' \<and> \<not> at_open a \<and> (\<exists>c code. good_exit c code \<and> at_state a = u c \<and>
        at_class a = PStr (u c) \<and> at_exit_code a = (if code = [] then u ''null'' else code))))"

definition fold_ok :: "fold_state \<Rightarrow> bool" where
  "fold_ok st = (wf_dict (fs_attempts st) \<and>
     (\<forall>k a. map_of (fs_attempts st) k = Some a \<longrightarrow> at_id a = k \<and> attempt_ok a))"

lemma decided_row_ok:
  "plain_id k \<Longrightarrow> d \<in> {''allow'', ''deny''} \<Longrightarrow> good_pid pid \<Longrightarrow>
     attempt_ok (decided_row rec payload legacy k (u d) pid)"
  by (auto simp: attempt_ok_def decided_row_def)

lemma ended_row_ok:
  "attempt_ok a \<Longrightarrow> at_decision a = u ''allow'' \<Longrightarrow> good_exit c code \<Longrightarrow> attempt_ok (ended_row a c code info rec)"
  by (auto simp: attempt_ok_def ended_row_def)

lemma fold_ok_dset:
  "fold_ok st \<Longrightarrow> at_id a = k \<Longrightarrow> attempt_ok a \<Longrightarrow> fold_ok (st\<lparr>fs_attempts := dset k a (fs_attempts st)\<rparr>)"
  by (auto simp: fold_ok_def split: if_splits)

lemma attempt_step_ok:
  assumes "fold_ok st" and "attempt_step legacy ev st = Inr st'"
  shows "fold_ok st'"
proof -
  obtain seq rec und where ev: "ev = (seq, rec, und)" by (cases ev)
  from assms(2) [unfolded ev] show ?thesis
  proof (cases rule: attempt_step_Inr)
    case skip
    with assms(1) show ?thesis by (simp add: fold_ok_def)
  next
    case (decided k payload)
    from decided(4) show ?thesis
    proof (rule attempt_decided_Inr)
      fix d pid
      assume "d \<in> {''allow'', ''deny''}" "good_pid pid"
        "st' = st\<lparr>fs_attempts := dset k (decided_row rec payload legacy k (u d) pid) (fs_attempts st)\<rparr>"
      with decided(2) assms(1) show ?thesis
        by (simp only:) (rule fold_ok_dset, assumption, simp add: decided_row_def, rule decided_row_ok)
    qed
  next
    case (ended k payload)
    from attempt_ended_Inr [OF ended(3)] show ?thesis
    proof
      assume "\<not> legacy \<and> k \<in> set (fs_excluded st) \<and> st' = st"
      with assms(1) show ?thesis by simp
    next
      assume "\<exists>a c code info. map_of (fs_attempts st) k = Some a \<and> at_decision a = u ''allow'' \<and> at_open a \<and>
        good_exit c code \<and> st' = st\<lparr>fs_attempts := dset k (ended_row a c code info rec) (fs_attempts st)\<rparr>"
      then obtain a c code info where a: "map_of (fs_attempts st) k = Some a" "at_decision a = u ''allow''"
        "good_exit c code" "st' = st\<lparr>fs_attempts := dset k (ended_row a c code info rec) (fs_attempts st)\<rparr>"
        by blast
      have "at_id a = k" "attempt_ok a" using assms(1) a(1) by (auto simp: fold_ok_def)
      then show ?thesis using a assms(1)
        by (simp only:) (rule fold_ok_dset, simp_all add: ended_row_ok, simp add: ended_row_def)
    qed
  qed
qed

text \<open>Attempts stay in order; a closed one stays as it is, an open one keeps what was decided.\<close>

definition attempt_evolves :: "attempt_row \<Rightarrow> attempt_row \<Rightarrow> bool" where
  "attempt_evolves a b = ((\<not> at_open a \<longrightarrow> b = a) \<and> at_id b = at_id a \<and> at_agent b = at_agent a \<and>
     at_session b = at_session a \<and> at_decided_at b = at_decided_at a \<and>
     at_decision b = at_decision a \<and> at_pid b = at_pid a \<and> at_launch b = at_launch a)"

definition fold_evolves :: "fold_state \<Rightarrow> fold_state \<Rightarrow> bool" where
  "fold_evolves s t = (\<exists>xs. map fst (fs_attempts t) = map fst (fs_attempts s) @ xs \<and>
     (\<forall>k a. map_of (fs_attempts s) k = Some a \<longrightarrow>
        (\<exists>b. map_of (fs_attempts t) k = Some b \<and> attempt_evolves a b)))"

lemma attempt_evolves_refl [simp]: "attempt_evolves a a"
  by (simp add: attempt_evolves_def)

lemma attempt_evolves_trans: "attempt_evolves a b \<Longrightarrow> attempt_evolves b c \<Longrightarrow> attempt_evolves a c"
  by (auto simp: attempt_evolves_def)

lemma fold_evolves_refl: "fold_evolves s s"
  by (simp add: fold_evolves_def)

lemma fold_evolves_trans: "fold_evolves r s \<Longrightarrow> fold_evolves s t \<Longrightarrow> fold_evolves r t"
  unfolding fold_evolves_def by (fastforce intro: attempt_evolves_trans)

lemma keys_dset_list:
  "map fst (dset k v d) = (if map_of d k = None then map fst d @ [k] else map fst d)"
  by (induction d) (auto simp: dset_def)

text \<open>A step adds at most one attempt, the one its record decides.\<close>

definition decided_ids :: "bool \<Rightarrow> stream_record list \<Rightarrow> pystr list" where
  "decided_ids legacy evs = map event_attempt (filter (decides legacy) evs)"

lemma attempt_step_evolves:
  assumes "fold_ok st" and "attempt_step legacy ev st = Inr st'"
  shows "fold_evolves st st'" and "map fst (fs_attempts st') = map fst (fs_attempts st) @ decided_ids legacy [ev]"
proof -
  obtain seq rec und where ev: "ev = (seq, rec, und)" by (cases ev)
  from assms(2) [unfolded ev]
  have "fold_evolves st st' \<and> map fst (fs_attempts st') = map fst (fs_attempts st) @ decided_ids legacy [ev]"
  proof (cases rule: attempt_step_Inr)
    case skip
    then show ?thesis by (simp add: fold_evolves_def decided_ids_def ev)
  next
    case (decided k payload)
    from decided(4) show ?thesis
      by (rule attempt_decided_Inr) (use decided(1,3) in \<open>simp add: fold_evolves_def keys_dset_list decided_ids_def ev\<close>)
  next
    case (ended k payload)
    from attempt_ended_Inr [OF ended(3)] ended(1) show ?thesis
      by (auto simp: fold_evolves_def keys_dset_list decided_ids_def ev attempt_evolves_def ended_row_def)
  qed
  then show "fold_evolves st st'" "map fst (fs_attempts st') = map fst (fs_attempts st) @ decided_ids legacy [ev]"
    by simp_all
qed

interpretation attempts_stream: monotone_machine "attempt_step legacy" fold_ok "\<lambda>_. True" fold_evolves
  by unfold_locales
    (blast intro: attempt_step_ok attempt_step_evolves(1) fold_evolves_refl fold_evolves_trans)+

lemma fold_start_ok: "fold_ok \<lparr>fs_attempts = [], fs_excluded = []\<rparr>"
  by (simp add: fold_ok_def)

lemma run_ids:
  "fold_ok st \<Longrightarrow> run (attempt_step legacy) evs st = Inr st' \<Longrightarrow>
     map fst (fs_attempts st') = map fst (fs_attempts st) @ decided_ids legacy evs"
proof (induction evs arbitrary: st)
  case Nil
  then show ?case by (simp add: decided_ids_def)
next
  case (Cons e evs)
  then obtain t where t: "attempt_step legacy e st = Inr t" "run (attempt_step legacy) evs t = Inr st'"
    by (auto split: sum.splits)
  from Cons.IH [OF attempt_step_ok [OF Cons.prems(1) t(1)] t(2)]
    attempt_step_evolves(2) [OF Cons.prems(1) t(1)]
  show ?case by (simp add: decided_ids_def)
qed

text \<open>What a returning fold yields: the attempts of a well-formed state, in order of decision.\<close>

lemma fold_records_Inr:
  assumes "fold_records alive recs legacy = Inr rows"
  obtains st where "run (attempt_step legacy) recs \<lparr>fs_attempts = [], fs_excluded = []\<rparr> = Inr st"
    "fold_ok st" "rows = map (presumed alive) (dvalues (fs_attempts st))"
    "map at_id rows = decided_ids legacy recs" "distinct (map at_id rows)"
proof -
  from assms obtain st where st:
    "run (attempt_step legacy) recs \<lparr>fs_attempts = [], fs_excluded = []\<rparr> = Inr st"
    "rows = map (presumed alive) (dvalues (fs_attempts st))"
    by (auto simp: fold_records_def bind_res_Inr)
  have ok: "fold_ok st" by (rule attempts_stream.run_inv [OF _ fold_start_ok st(1)]) simp
  have keys: "map at_id rows = map fst (fs_attempts st)"
    using ok by (auto simp: st(2) dvalues_def presumed_def fold_ok_def wf_dict_def)
  moreover have "map fst (fs_attempts st) = decided_ids legacy recs"
    using run_ids [OF fold_start_ok st(1)] by simp
  moreover have "distinct (map at_id rows)" using keys ok by (simp add: fold_ok_def wf_dict_def)
  ultimately show thesis using st ok by (intro that) auto
qed

section \<open>The two views\<close>

definition unlaunched :: "attempt_row \<Rightarrow> attempt_row" where
  "unlaunched a = a\<lparr>at_launch := None\<rparr>"

definition legacy_state :: "fold_state \<Rightarrow> fold_state" where
  "legacy_state st = st\<lparr>fs_attempts := dmap unlaunched (fs_attempts st)\<rparr>"

lemma dmap_dset: "dmap f (dset k v d) = dset k (f v) (dmap f d)"
  by (induction d) (auto simp: dmap_def dset_def)

lemma unlaunched_simps [simp]:
  "at_decision (unlaunched a) = at_decision a" "at_open (unlaunched a) = at_open a"
  "at_pid (unlaunched a) = at_pid a"
  "unlaunched (decided_row rec p False k d pid) = decided_row rec p True k d pid"
  "unlaunched (unlaunched a) = unlaunched a"
  by (simp_all add: unlaunched_def decided_row_def)

lemma presumed_unlaunched: "presumed alive (unlaunched a) = unlaunched (presumed alive a)"
  by (simp add: presumed_def unlaunched_def)

lemma map_sum_if: "map_sum f g (if b then x else y) = (if b then map_sum f g x else map_sum f g y)"
  by simp

lemma map_sum_bind: "map_sum id g (bind_res r h) = bind_res r (\<lambda>x. map_sum id g (h x))"
  by (cases r) simp_all

lemma decided_legacy:
  "attempt_decided rec p True k (legacy_state st) = map_sum id legacy_state (attempt_decided rec p False k st)"
  by (simp add: attempt_decided_def map_sum_if map_sum_bind legacy_state_def dmap_dset del: in_tuple_simps cong: if_cong)

lemma unlaunched_ended [simp]:
  "unlaunched (a\<lparr>at_state := s, at_exit_code := x, at_open := b, at_class := c, at_stage := g, at_ended_at := e\<rparr>) =
    (unlaunched a)\<lparr>at_state := s, at_exit_code := x, at_open := b, at_class := c, at_stage := g, at_ended_at := e\<rparr>"
  by (simp add: unlaunched_def)

lemma ended_legacy:
  assumes "fs_excluded st = []"
  shows "attempt_ended rec p True k (legacy_state st) = map_sum id legacy_state (attempt_ended rec p False k st)"
proof (cases "map_of (fs_attempts st) k")
  case None
  with assms show ?thesis by (simp add: attempt_ended_def legacy_state_def)
next
  case (Some a)
  show ?thesis
  proof (cases "dget_or p ''exit'' (PDict [])")
    case (PDict info)
    with assms Some show ?thesis
      by (simp add: attempt_ended_def map_sum_if map_sum_bind legacy_state_def dmap_dset
          del: in_tuple_simps cong: if_cong)
  qed (use assms Some in \<open>simp_all add: attempt_ended_def legacy_state_def\<close>)
qed

lemma step_legacy:
  assumes "fs_excluded st = []"
  shows "attempt_step True (seq, rec, False) (legacy_state st) =
    map_sum id legacy_state (attempt_step False (seq, rec, False) st)"
proof (cases "dget rec ''attempt_id''")
  case (PStr k)
  show ?thesis
    by (cases "dget_or rec ''payload'' (PDict [])")
      (simp_all add: attempt_step_def Let_def PStr map_sum_if decided_legacy ended_legacy [OF assms] cong: if_cong)
qed (simp_all add: attempt_step_def Let_def)

lemma step_excluded:
  assumes "attempt_step legacy (seq, rec, False) st = Inr st'" shows "fs_excluded st' = fs_excluded st"
  using assms
proof (cases rule: attempt_step_Inr)
  case skip
  with assms show ?thesis
    by (auto simp: attempt_step_def decides_def is_attempt_kind_def Let_def attempt_ended_def bind_res_Inr
        simp del: in_tuple_simps split: if_splits pyval.splits option.splits)
next
  case (decided k payload)
  then show ?thesis by (auto elim: attempt_decided_Inr)
next
  case (ended k payload)
  from attempt_ended_Inr [OF ended(3)] show ?thesis by auto
qed

lemma run_legacy:
  "fs_excluded st = [] \<Longrightarrow> \<forall>(seq, rec, und) \<in> set evs. \<not> und \<Longrightarrow>
     run (attempt_step True) evs (legacy_state st) = map_sum id legacy_state (run (attempt_step False) evs st)"
proof (induction evs arbitrary: st)
  case Nil
  then show ?case by simp
next
  case (Cons e evs)
  from Cons.prems obtain seq rec where e: "e = (seq, rec, False)" by (cases e) auto
  show ?case
  proof (cases "attempt_step False e st")
    case (Inl x)
    then show ?thesis using step_legacy [OF Cons.prems(1)] by (simp add: e)
  next
    case (Inr t)
    have "fs_excluded t = []" using step_excluded Inr Cons.prems(1) unfolding e by metis
    with Cons.IH [of t] Cons.prems(2) Inr step_legacy [OF Cons.prems(1)] show ?thesis by (simp add: e)
  qed
qed

lemma fold_legacy:
  assumes "\<forall>(seq, rec, und) \<in> set recs. \<not> und"
  shows "fold_records alive recs True = map_sum id (map unlaunched) (fold_records alive recs False)"
proof -
  let ?s = "\<lparr>fs_attempts = [], fs_excluded = []\<rparr>"
  have "legacy_state ?s = ?s" by (simp add: legacy_state_def dmap_def)
  with run_legacy [of ?s recs] assms have
    "run (attempt_step True) recs ?s = map_sum id legacy_state (run (attempt_step False) recs ?s)" by simp
  then show ?thesis
    by (cases "run (attempt_step False) recs ?s")
      (simp_all add: fold_records_def legacy_state_def comp_def presumed_unlaunched)
qed

lemma decode_undecodable:
  "decode_records acc recs = ([], Inr evs) \<Longrightarrow> \<forall>(seq, rec, und) \<in> set evs. \<not> und"
proof (induction recs arbitrary: evs)
  case Nil
  then show ?case by simp
next
  case (Cons r recs)
  obtain seq_b data where r: "r = (seq_b, data)" by (cases r)
  obtain bad rest where d: "decode_records acc recs = (bad, rest)" by (cases "decode_records acc recs")
  from Cons.prems Cons.IH d show ?case
    by (auto simp: r Let_def bind_res_Inr split: sum.splits pyval.splits)
qed

section \<open>Properties\<close>

text \<open>
  What is shown of one attempt: the row of a well-formed state, with the state of an open one
  decided by the process table.
\<close>

definition shown_ok :: "(pystr \<Rightarrow> bool) \<Rightarrow> attempt_row \<Rightarrow> bool" where
  "shown_ok alive a = (attempt_ok (if at_open a then a\<lparr>at_state := u ''open''\<rparr> else a) \<and>
     (at_open a \<longrightarrow> at_state a = (if alive (at_pid a) then u ''open'' else u ''presumed-dead'')))"

lemma fold_records_shown:
  assumes "fold_records alive recs legacy = Inr rows"
  shows "distinct (map at_id rows)" and "\<forall>a \<in> set rows. shown_ok alive a"
    and "map at_id rows = decided_ids legacy recs"
proof -
  from assms obtain st where st: "fold_ok st" "rows = map (presumed alive) (dvalues (fs_attempts st))"
    and ids: "distinct (map at_id rows)" "map at_id rows = decided_ids legacy recs"
    by (rule fold_records_Inr)
  show "distinct (map at_id rows)" "map at_id rows = decided_ids legacy recs" by (fact ids)+
  show "\<forall>a \<in> set rows. shown_ok alive a"
  proof
    fix a assume "a \<in> set rows"
    then obtain k b where b: "map_of (fs_attempts st) k = Some b" "a = presumed alive b"
      using st by (auto simp: in_dvalues fold_ok_def)
    with st(1) have "attempt_ok b" by (simp add: fold_ok_def)
    moreover have "attempt_ok (b\<lparr>at_state := u ''open''\<rparr>)" if "at_open b"
      using \<open>attempt_ok b\<close> that by (auto simp: attempt_ok_def)
    moreover have "at_state b = u ''open''" if "at_open b"
      using \<open>attempt_ok b\<close> that by (auto simp: attempt_ok_def)
    ultimately show "shown_ok alive a"
      by (cases "at_open b"; cases "alive (at_pid b)") (simp_all add: b(2) shown_ok_def presumed_def)
  qed
qed

lemma fold_attempts_cases:
  obtains (corrupt) "ao_status (fold_attempts acc rec alive f) = S_corrupt"
      "ao_attempts (fold_attempts acc rec alive f) = []" "ao_legacy (fold_attempts acc rec alive f) = []"
      "ao_malformed (fold_attempts acc rec alive f) = 0"
  | (folded) evs where "ao_status (fold_attempts acc rec alive f) = s_status (fst (scan acc f))"
      "s_status (fst (scan acc f)) \<noteq> S_corrupt"
      "decode_records rec (snd (scan acc f)) = (ao_undecodable (fold_attempts acc rec alive f), Inr evs)"
      "fold_records alive evs True = Inr (ao_legacy (fold_attempts acc rec alive f))"
      "fold_records alive evs False = Inr (ao_attempts (fold_attempts acc rec alive f))"
proof -
  obtain frame intact where s: "scan acc f = (frame, intact)" by (cases "scan acc f")
  obtain bad r where d: "decode_records rec intact = (bad, r)" by (cases "decode_records rec intact")
  show thesis
  proof (cases "s_status frame = S_corrupt")
    case True
    then show thesis by (intro corrupt) (simp_all add: fold_attempts_def s Let_def)
  next
    case ok: False
    let ?all = "bind_res r (\<lambda>recs. bind_res (fold_records alive recs True) (\<lambda>old.
      bind_res (fold_records alive recs False) (\<lambda>new. Inr (old, new))))"
    show thesis
    proof (cases ?all)
      case (Inl e)
      with ok show thesis by (intro corrupt) (simp_all add: fold_attempts_def s d Let_def)
    next
      case (Inr p)
      then obtain evs old new where e: "r = Inr evs" "fold_records alive evs True = Inr old"
        "fold_records alive evs False = Inr new" by (auto simp: bind_res_Inr)
      with ok show thesis by (intro folded [of evs]) (simp_all add: fold_attempts_def s d Let_def)
    qed
  qed
qed

text \<open>
  C11: Every attempt the fold shows has its own id, a positive decimal process number and a
  consistent history: denied and never open, or allowed and open (presumed dead when its
  process is gone), or ended in one of the five exit classes with the exit code the class
  requires. All of this holds of the modern and of the legacy view, for every content of the
  stream.
\<close>

theorem attempts_wellformed:
  "distinct (map at_id (ao_attempts (fold_attempts acc rec alive f))) \<and>
   distinct (map at_id (ao_legacy (fold_attempts acc rec alive f))) \<and>
   list_all (shown_ok alive) (ao_attempts (fold_attempts acc rec alive f)) \<and>
   list_all (shown_ok alive) (ao_legacy (fold_attempts acc rec alive f))"
  by (cases rule: fold_attempts_cases [of acc rec alive f])
    (auto simp: list_all_iff dest: fold_records_shown)

text \<open>
  C12: A stream that is refused, by the scan or by an impossible history, shows no attempt at
  all in either view; one that is not refused has the status of its scan, and its attempts are
  exactly the decided records, each once and in their order.
\<close>

theorem refused_or_complete:
  "if ao_status (fold_attempts acc rec alive f) = S_corrupt
   then ao_attempts (fold_attempts acc rec alive f) = [] \<and> ao_legacy (fold_attempts acc rec alive f) = []
   else ao_status (fold_attempts acc rec alive f) = s_status (fst (scan acc f)) \<and>
     (\<exists>evs. snd (decode_records rec (snd (scan acc f))) = Inr evs \<and>
        map at_id (ao_attempts (fold_attempts acc rec alive f)) = decided_ids False evs \<and>
        map at_id (ao_legacy (fold_attempts acc rec alive f)) = decided_ids True evs)"
proof (cases rule: fold_attempts_cases [of acc rec alive f])
  case corrupt
  then show ?thesis by simp
next
  case (folded evs)
  have "snd (decode_records rec (snd (scan acc f))) = Inr evs" using folded(3) by simp
  with folded(1,2) fold_records_shown(3) [OF folded(4)] fold_records_shown(3) [OF folded(5)]
  show ?thesis by auto
qed

text \<open>
  When every record is UTF-8, the modern fold and the legacy fold of the same stream are
  the same computation up to the launch binding: they accept the same streams and show the
  same attempts.
\<close>

theorem legacy_view_agrees:
  assumes "ao_undecodable (fold_attempts acc rec alive f) = []"
  shows "ao_legacy (fold_attempts acc rec alive f) = map unlaunched (ao_attempts (fold_attempts acc rec alive f))"
proof (cases rule: fold_attempts_cases [of acc rec alive f])
  case corrupt
  then show ?thesis by simp
next
  case (folded evs)
  have "\<forall>(seq, rec, und) \<in> set evs. \<not> und"
    using decode_undecodable folded(3) assms by metis
  from fold_legacy [OF this, of alive] folded(4,5) show ?thesis by simp
qed

lemma presumed_evolves: "attempt_evolves a b \<Longrightarrow> attempt_evolves (presumed alive a) (presumed alive' b)"
  by (auto simp: attempt_evolves_def presumed_def)

lemma evolves_rows:
  assumes "fold_ok s" and "fold_ok t" and "fold_evolves s t"
  shows "list_all2 attempt_evolves (dvalues (fs_attempts s)) (take (length (fs_attempts s)) (dvalues (fs_attempts t)))"
proof -
  from assms(3) obtain xs where xs: "map fst (fs_attempts t) = map fst (fs_attempts s) @ xs"
    and ev: "\<And>k a. map_of (fs_attempts s) k = Some a \<Longrightarrow>
      \<exists>b. map_of (fs_attempts t) k = Some b \<and> attempt_evolves a b"
    by (auto simp: fold_evolves_def)
  let ?s = "fs_attempts s" and ?t = "fs_attempts t"
  have len: "length ?s \<le> length ?t" using arg_cong [OF xs, of length] by simp
  have "attempt_evolves (snd (?s ! i)) (snd (?t ! i))" if i: "i < length ?s" for i
  proof -
    have k: "fst (?t ! i) = fst (?s ! i)"
      using arg_cong [OF xs, of "\<lambda>l. l ! i"] i len by (simp add: nth_append)
    have "map_of ?s (fst (?s ! i)) = Some (snd (?s ! i))" "map_of ?t (fst (?t ! i)) = Some (snd (?t ! i))"
      using assms(1,2) i len by (auto simp: fold_ok_def wf_dict_def)
    with ev k show ?thesis by fastforce
  qed
  then show ?thesis using len by (simp add: list_all2_conv_all_nth dvalues_def)
qed

text \<open>
  C13: Later records never rewrite an attempt. When a longer stream still folds, its first rows
  are those of the shorter one, in the same order and with the same decision, process, agent
  and launch binding, and an attempt that was denied or had ended is exactly what it was.
\<close>

theorem closed_attempts_are_final:
  assumes "fold_records alive recs legacy = Inr old" and "fold_records alive' (recs @ later) legacy = Inr new"
  shows "list_all2 attempt_evolves old (take (length old) new)"
proof -
  from assms(1) obtain s where s: "run (attempt_step legacy) recs \<lparr>fs_attempts = [], fs_excluded = []\<rparr> = Inr s"
    "fold_ok s" "old = map (presumed alive) (dvalues (fs_attempts s))" by (rule fold_records_Inr)
  from assms(2) obtain t where t:
    "run (attempt_step legacy) (recs @ later) \<lparr>fs_attempts = [], fs_excluded = []\<rparr> = Inr t"
    "fold_ok t" "new = map (presumed alive') (dvalues (fs_attempts t))" by (rule fold_records_Inr)
  have step: "run (attempt_step legacy) later s = Inr t" using s(1) t(1) by (simp add: run_append)
  have "fold_evolves s t" by (rule attempts_stream.run_rel [OF _ s(2) step]) simp
  from evolves_rows [OF s(2) t(2) this] show ?thesis
    by (auto simp: s(3) t(3) take_map list_all2_map1 list_all2_map2 dvalues_def
        intro: presumed_evolves elim: list_all2_mono)
qed

section \<open>A stream of two records\<close>

text \<open>An ASCII record as the writer encodes it: its frame is good and it decodes to itself.\<close>

definition ascii_record :: "pydict \<Rightarrow> bytes" where
  "ascii_record d = ascii_bytes (dumps (PDict d))"

definition ascii_only :: "pystr \<Rightarrow> bool" where
  "ascii_only s = list_all (\<lambda>c. c < 128 \<and> c \<noteq> 92 \<and> c \<noteq> 0 \<and> c \<noteq> 10) s"

lemma ascii_onlyD: "ascii_only s \<Longrightarrow> c \<in> set s \<Longrightarrow> c < 128 \<and> c \<noteq> 92 \<and> c \<noteq> 0 \<and> c \<noteq> 10"
  by (simp add: ascii_only_def list_all_iff)

lemma ascii_bytes_Cons [simp]: "ascii_bytes (c # s) = byte c # ascii_bytes s"
  by (simp add: ascii_bytes_def)

lemma unat_ascii: "c < 128 \<Longrightarrow> unat (byte c) = c"
  by simp

lemma decode_ascii: "ascii_only s \<Longrightarrow> utf8_decode (ascii_bytes s) = Inr s"
  by (induction s) (simp_all add: ascii_only_def ascii_bytes_def unat_ascii)

lemma escape_ascii: "ascii_only s \<Longrightarrow> utf8_escape (ascii_bytes s) = s"
proof -
  have "ascii_only s \<Longrightarrow> utf8_escape_n (length s) (ascii_bytes s) = s"
    by (induction s) (simp_all add: ascii_only_def utf8_first_def unat_ascii)
  moreover assume "ascii_only s"
  ultimately show ?thesis by (simp add: utf8_escape_def ascii_bytes_def)
qed

lemma faithful_unique_pairs: "faithful unique_pairs"
  by (simp add: faithful_def unique_pairs_def)

lemma ascii_record_loads:
  assumes "ascii_only (dumps (PDict d))" and "json_plain (PDict d)"
  shows "json_loads unique_pairs (utf8_escape (ascii_record d)) = Inr (PDict d)"
    and "utf8_decode (ascii_record d) = Inr (dumps (PDict d))"
  using json_roundtrip [OF faithful_unique_pairs assms(2)]
  by (simp_all only: ascii_record_def escape_ascii [OF assms(1)] decode_ascii [OF assms(1)])

lemma ascii_record_no_escape:
  assumes "ascii_only (dumps (PDict d))"
  shows "\<not> list_ex (\<lambda>i. startswith (drop i (ascii_record d)) [92, 117]) [0..<length (ascii_record d)]"
proof -
  have no: "(92 :: 8 word) \<notin> set (ascii_record d)"
  proof
    assume "(92 :: 8 word) \<in> set (ascii_record d)"
    then obtain c where "c \<in> set (dumps (PDict d))" "byte c = 92"
      by (auto simp: ascii_record_def ascii_bytes_def simp del: json_dumps.simps)
    moreover from this have "c < 128" "c \<noteq> 92" using ascii_onlyD [OF assms] by blast+
    ultimately show False using unat_ascii [of c] by simp
  qed
  show ?thesis
  proof
    assume "list_ex (\<lambda>i. startswith (drop i (ascii_record d)) [92, 117]) [0..<length (ascii_record d)]"
    then obtain i r where "drop i (ascii_record d) = [92, 117] @ r" by (auto simp: list_ex_iff startswith_iff)
    then have "(92 :: 8 word) \<in> set (drop i (ascii_record d))" by simp
    with no show False by (meson in_set_dropD)
  qed
qed

lemma ascii_record_frame:
  assumes "ascii_only (dumps (PDict d))" and "json_plain (PDict d)"
    and "length (str_of_nat seq) \<le> 4300" and "length (str_of_nat (length (ascii_record d))) \<le> 4300"
    and "after_last 45 (str_or_empty (dget_or d ''event_id'' (PStr []))) = str_of_nat seq"
  shows "frame_ok accessor seq (ascii_record d)"
proof -
  have "b \<noteq> 0 \<and> b \<noteq> 10" if "b \<in> set (ascii_record d)" for b
  proof -
    from that obtain c where "c \<in> set (dumps (PDict d))" "b = byte c"
      by (auto simp: ascii_record_def ascii_bytes_def simp del: json_dumps.simps)
    moreover from this have "c < 128" "c \<noteq> 0" "c \<noteq> 10" using ascii_onlyD [OF assms(1)] by blast+
    ultimately show ?thesis using unat_ascii [of c] by (cases "b = 0"; cases "b = 10") simp_all
  qed
  then have "0 \<notin> set (ascii_record d)" "10 \<notin> set (ascii_record d)" by auto
  moreover have "startswith (ascii_record d) [123]" by (simp add: ascii_record_def ascii_bytes_def byte_def)
  moreover have "frame_event_id accessor (ascii_record d) = str_or_empty (dget_or d ''event_id'' (PStr []))"
    by (simp only: frame_event_id_def ascii_record_no_escape [OF assms(1)]
        ascii_record_loads(1) [OF assms(1,2)] if_False sum.case pyval.case)
  ultimately show ?thesis using assms(3-5) by (simp add: frame_ok_def)
qed

definition smp_decided :: pydict where
  "smp_decided = [(u ''event_id'', PStr (u ''a-1'')), (u ''event_type'', PStr (u ''attempt.decided'')),
     (u ''attempt_id'', PStr (u ''x'')),
     (u ''payload'', PDict [(u ''decision'', PStr (u ''allow'')), (u ''pid'', PInt 7)])]"

definition smp_ended :: pydict where
  "smp_ended = [(u ''event_id'', PStr (u ''a-2'')), (u ''event_type'', PStr (u ''attempt.ended'')),
     (u ''attempt_id'', PStr (u ''x'')),
     (u ''payload'', PDict [(u ''exit'', PDict [(u ''class'', PStr (u ''ok''))])])]"

definition smp_attempt_records :: "stream_record list" where
  "smp_attempt_records = [(1, smp_decided, False), (2, smp_ended, False)]"

lemma smp_plain:
  "ascii_only (dumps (PDict smp_decided))" "json_plain (PDict smp_decided)"
  "ascii_only (dumps (PDict smp_ended))" "json_plain (PDict smp_ended)"
  by code_simp+

lemma smp_frames_ok:
  "frame_ok (\<lambda>_. []) 1 (ascii_record smp_decided)" "frame_ok (\<lambda>_. []) 2 (ascii_record smp_ended)"
  by (rule ascii_record_frame [OF smp_plain(1,2)]; code_simp) (rule ascii_record_frame [OF smp_plain(3,4)]; code_simp)

lemma smp_decoded:
  "decode_records (\<lambda>_. []) [(ascii_nat 1, ascii_record smp_decided), (ascii_nat 2, ascii_record smp_ended)] =
     ([], Inr smp_attempt_records)"
proof -
  have "digits_value (ascii_text (ascii_nat 1)) = 1" "digits_value (ascii_text (ascii_nat 2)) = 2"
    by code_simp+
  then show ?thesis
    by (simp add: ascii_record_loads(2) [OF smp_plain(1,2)] ascii_record_loads(2) [OF smp_plain(3,4)]
        json_roundtrip [OF faithful_unique_pairs smp_plain(2)] json_roundtrip [OF faithful_unique_pairs smp_plain(4)]
        smp_attempt_records_def del: json_dumps.simps)
qed

lemma smp_folded:
  "map_sum id (map at_state) (fold_records (\<lambda>_. True) (take 1 smp_attempt_records) False) = Inr [u ''open'']"
  "map_sum id (map at_state) (fold_records (\<lambda>_. True) smp_attempt_records False) = Inr [u ''ok'']"
  by code_simp+

definition smp_stream :: bytes where
  "smp_stream = write_frame 1 (ascii_record smp_decided) @ write_frame 2 (ascii_record smp_ended)"

lemma smp_view:
  "ao_undecodable (fold_attempts (\<lambda>_. []) (\<lambda>_. []) (\<lambda>_. True) (Content smp_stream)) = []"
  "map at_state (ao_attempts (fold_attempts (\<lambda>_. []) (\<lambda>_. []) (\<lambda>_. True) (Content smp_stream))) = [u ''ok'']"
proof -
  from scan_of_frames [of "[ascii_record smp_decided, ascii_record smp_ended]" "\<lambda>_. []"] smp_frames_ok
  obtain out where o: "scan (\<lambda>_. []) (Content smp_stream) =
      (out, [(ascii_nat 1, ascii_record smp_decided), (ascii_nat 2, ascii_record smp_ended)])"
    "s_status out = S_ok" by (auto simp: one_add_one smp_stream_def simp del: One_nat_def)
  obtain rows where rows: "fold_records (\<lambda>_. True) smp_attempt_records False = Inr rows" "map at_state rows = [u ''ok'']"
    using smp_folded(2) by (cases "fold_records (\<lambda>_. True) smp_attempt_records False") auto
  have "\<forall>(seq, rec, und) \<in> set smp_attempt_records. \<not> und" by (simp add: smp_attempt_records_def)
  from fold_legacy [OF this, of "\<lambda>_. True"] rows
  have "fold_records (\<lambda>_. True) smp_attempt_records True = Inr (map unlaunched rows)" by simp
  with o rows show "ao_undecodable (fold_attempts (\<lambda>_. []) (\<lambda>_. []) (\<lambda>_. True) (Content smp_stream)) = []"
    "map at_state (ao_attempts (fold_attempts (\<lambda>_. []) (\<lambda>_. []) (\<lambda>_. True) (Content smp_stream))) = [u ''ok'']"
    by (simp_all add: fold_attempts_def smp_decoded Let_def del: decode_records.simps One_nat_def)
qed

theorem attempts_wellformed_witness:
  "\<exists>a. ao_attempts (fold_attempts (\<lambda>_. []) (\<lambda>_. []) (\<lambda>_. True) (Content smp_stream)) = [a] \<and>
     at_state a = u ''ok'' \<and> shown_ok (\<lambda>_. True) a"
  using smp_view(2) attempts_wellformed [of "\<lambda>_. []" "\<lambda>_. []" "\<lambda>_. True" "Content smp_stream"] by auto

theorem legacy_view_agrees_witness:
  "\<exists>out. out = fold_attempts (\<lambda>_. []) (\<lambda>_. []) (\<lambda>_. True) (Content smp_stream) \<and>
     map at_state (ao_attempts out) = [u ''ok''] \<and> ao_legacy out = map unlaunched (ao_attempts out)"
  using legacy_view_agrees [OF smp_view(1)] smp_view(2) by auto

theorem closed_attempts_are_final_witness:
  "\<exists>old new. fold_records (\<lambda>_. True) (take 1 smp_attempt_records) False = Inr old \<and>
     fold_records (\<lambda>_. True) smp_attempt_records False = Inr new \<and>
     map at_state old = [u ''open''] \<and> map at_state new = [u ''ok''] \<and>
     list_all2 attempt_evolves old new"
proof -
  obtain old where old: "fold_records (\<lambda>_. True) (take 1 smp_attempt_records) False = Inr old"
    "map at_state old = [u ''open'']"
    using smp_folded(1) by (cases "fold_records (\<lambda>_. True) (take 1 smp_attempt_records) False") auto
  obtain new where new: "fold_records (\<lambda>_. True) (take 1 smp_attempt_records @ drop 1 smp_attempt_records) False = Inr new"
    "map at_state new = [u ''ok'']"
    using smp_folded(2) by (cases "fold_records (\<lambda>_. True) smp_attempt_records False") auto
  have "length old = length new"
    using arg_cong [OF old(2), of length] arg_cong [OF new(2), of length] by simp
  with closed_attempts_are_final [OF old(1) new(1)] old new show ?thesis by auto
qed

end
