(* ===== verification/JsonBytes.thy ===== *)
theory JsonBytes
  imports StreamFrames
begin

text \<open>
  \<open>json.loads\<close> of a byte string: the standard library guesses the encoding from the first
  bytes and decodes with \<open>surrogatepass\<close>. Also \<open>bytes.splitlines\<close>. The supervisor reads
  files it does not trust this way, so a file need not be UTF-8 to be parsed.
\<close>

section \<open>Encodings\<close>

datatype encoding = UTF8 | UTF8_SIG | UTF16 | UTF16_BE | UTF16_LE | UTF32 | UTF32_BE | UTF32_LE

definition detect_encoding :: "bytes \<Rightarrow> encoding" where
  "detect_encoding b =
     (if startswith b [0, 0, 0xFE, 0xFF] \<or> startswith b [0xFF, 0xFE, 0, 0] then UTF32
      else if startswith b [0xFE, 0xFF] \<or> startswith b [0xFF, 0xFE] then UTF16
      else if startswith b [0xEF, 0xBB, 0xBF] then UTF8_SIG
      else if 4 \<le> length b then
        (if b ! 0 = 0 then (if b ! 1 \<noteq> 0 then UTF16_BE else UTF32_BE)
         else if b ! 1 = 0 then (if b ! 2 \<noteq> 0 \<or> b ! 3 \<noteq> 0 then UTF16_LE else UTF32_LE)
         else UTF8)
      else if length b = 2 then
        (if b ! 0 = 0 then UTF16_BE else if b ! 1 = 0 then UTF16_LE else UTF8)
      else UTF8)"

text \<open>UTF-8 with \<open>surrogatepass\<close>: an encoded lone surrogate is let through.\<close>

fun utf8_pass_n :: "nat \<Rightarrow> bytes \<Rightarrow> exn + pystr" where
  "utf8_pass_n 0 bs = Inr []"
| "utf8_pass_n (Suc n) bs = (if bs = [] then Inr [] else
     (case utf8_first bs of (c, r) \<Rightarrow>
        if \<not> is_surrogate c then bind_res (utf8_pass_n n r) (\<lambda>s. Inr (c # s))
        else (case bs of
            x # y # z # r' \<Rightarrow>
              if unat x = 0xED \<and> 0xA0 \<le> unat y \<and> unat y \<le> 0xBF \<and> cont z
              then bind_res (utf8_pass_n n r') (\<lambda>s. Inr ((0xD000 + (unat y - 0x80) * 64 + (unat z - 0x80)) # s))
              else Inl UnicodeError
          | _ \<Rightarrow> Inl UnicodeError)))"

definition utf8_pass :: "bytes \<Rightarrow> exn + pystr" where
  "utf8_pass bs = (case utf8_decode bs of Inr s \<Rightarrow> Inr s | Inl _ \<Rightarrow> utf8_pass_n (length bs) bs)"

fun units16 :: "bool \<Rightarrow> bytes \<Rightarrow> exn + nat list" where
  "units16 be [] = Inr []"
| "units16 be [x] = Inl UnicodeError"
| "units16 be (x # y # r) = bind_res (units16 be r) (\<lambda>s.
     Inr ((if be then unat x * 256 + unat y else unat y * 256 + unat x) # s))"

fun join16 :: "nat list \<Rightarrow> pystr" where
  "join16 [] = []"
| "join16 [x] = [x]"
| "join16 (x # y # r) =
     (if 0xD800 \<le> x \<and> x \<le> 0xDBFF \<and> 0xDC00 \<le> y \<and> y \<le> 0xDFFF
      then (0x10000 + (x - 0xD800) * 1024 + (y - 0xDC00)) # join16 r
      else x # join16 (y # r))"

fun units32 :: "bool \<Rightarrow> bytes \<Rightarrow> exn + pystr" where
  "units32 be [] = Inr []"
| "units32 be (w # x # y # z # r) =
     (let n = (if be then ((unat w * 256 + unat x) * 256 + unat y) * 256 + unat z
               else ((unat z * 256 + unat y) * 256 + unat x) * 256 + unat w) in
      if 0x10FFFF < n then Inl UnicodeError else bind_res (units32 be r) (\<lambda>s. Inr (n # s)))"
| "units32 be _ = Inl UnicodeError"

definition decode_pass :: "encoding \<Rightarrow> bytes \<Rightarrow> exn + pystr" where
  "decode_pass enc b = (case enc of
       UTF8 \<Rightarrow> utf8_pass b
     | UTF8_SIG \<Rightarrow> utf8_pass (drop 3 b)
     | UTF16 \<Rightarrow> bind_res (units16 (startswith b [0xFE, 0xFF]) (drop 2 b)) (\<lambda>s. Inr (join16 s))
     | UTF16_BE \<Rightarrow> bind_res (units16 True b) (\<lambda>s. Inr (join16 s))
     | UTF16_LE \<Rightarrow> bind_res (units16 False b) (\<lambda>s. Inr (join16 s))
     | UTF32 \<Rightarrow> units32 (startswith b [0, 0, 0xFE, 0xFF]) (drop 4 b)
     | UTF32_BE \<Rightarrow> units32 True b
     | UTF32_LE \<Rightarrow> units32 False b)"

definition json_loads_bytes :: "hook \<Rightarrow> bytes \<Rightarrow> exn + pyval" where
  "json_loads_bytes hook b = bind_res (decode_pass (detect_encoding b) b) (json_loads hook)"

section \<open>Lines\<close>

text \<open>\<open>bytes.splitlines()\<close>: lines end in LF, CR or CR LF; the last one need not end.\<close>

function splitlines :: "bytes \<Rightarrow> bytes list" where
  "splitlines bs = (if bs = [] then [] else
     (let l = takeWhile (\<lambda>b. b \<noteq> 10 \<and> b \<noteq> 13) bs; r = dropWhile (\<lambda>b. b \<noteq> 10 \<and> b \<noteq> 13) bs in
      l # splitlines (if startswith r [13, 10] then drop 2 r else drop 1 r)))"
  by pat_completeness auto

termination
proof (relation "measure length")
  fix bs :: bytes and l r :: bytes
  assume "bs \<noteq> []" and "r = dropWhile (\<lambda>b. b \<noteq> 10 \<and> b \<noteq> 13) bs"
  then have "length r \<le> length bs" by (simp add: length_dropWhile_le)
  with \<open>bs \<noteq> []\<close> have "length (drop 1 r) < length bs" "length (drop 2 r) < length bs"
    by (simp_all add: diff_less_Suc) (cases bs; simp)+
  then show "(if startswith r [13, 10] then drop 2 r else drop 1 r, bs) \<in> measure length" by simp
qed simp

declare splitlines.simps [simp del]

lemma splitlines_Nil [simp]: "splitlines [] = []"
  by (simp add: splitlines.simps)

lemma splitlines_line:
  assumes "10 \<notin> set l" and "13 \<notin> set l"
  shows "splitlines (l @ 10 # r) = l # splitlines r"
proof -
  have "takeWhile (\<lambda>b. b \<noteq> 10 \<and> b \<noteq> 13) (l @ 10 # r) = l"
    "dropWhile (\<lambda>b. b \<noteq> 10 \<and> b \<noteq> 13) (l @ 10 # r) = 10 # r"
    using assms by (auto simp: takeWhile_append dropWhile_append)
  then show ?thesis by (subst splitlines.simps) simp
qed

lemma splitlines_lines:
  "\<forall>l \<in> set ls. 10 \<notin> set l \<and> 13 \<notin> set l \<Longrightarrow> splitlines (concat (map (\<lambda>l. l @ [10]) ls)) = ls"
  by (induction ls) (simp_all add: splitlines_line)

section \<open>Reading UTF-8 objects back\<close>

lemma json_loads_bytes_object:
  assumes "list_all scalar_value (dumps v)" and "utf8_encode (dumps v) = Inr b"
    and "faithful hook" and "json_plain v" and "startswith (dumps v) [123, QUOTE]"
  shows "json_loads_bytes hook b = Inr v"
proof -
  from assms(5) obtain r where r: "dumps v = 123 # QUOTE # r" by (auto simp: startswith_iff)
  from assms(2) have "b = byte 123 # byte 34 # concat (map utf8_char r)"
    unfolding r by (auto simp: utf8_encode_def utf8_char_def split: if_splits)
  then have "detect_encoding b = UTF8" by (auto simp: detect_encoding_def byte_def)
  moreover have "utf8_decode b = Inr (dumps v)" by (rule utf8_roundtrip [OF assms(1,2)])
  ultimately show ?thesis
    by (simp add: json_loads_bytes_def decode_pass_def utf8_pass_def json_roundtrip [OF assms(3,4)])
qed

section \<open>What the parser raises\<close>

text \<open>A computation whose only exceptions are \<open>ValueError\<close> and its subclasses.\<close>

definition raises_value :: "exn + 'a \<Rightarrow> bool" where
  "raises_value r = (\<forall>e. r = Inl e \<longrightarrow> is_value_error e)"

lemma raises_value_Inr [simp]: "raises_value (Inr x)"
  by (simp add: raises_value_def)

lemma raises_value_Inl [simp]: "raises_value (Inl e) = is_value_error e"
  by (simp add: raises_value_def)

lemma is_value_error_simps [simp]:
  "is_value_error (ValueError s)" "is_value_error (LedgerError s)" "is_value_error UnicodeError"
  "\<not> is_value_error TypeError" "\<not> is_value_error OSError"
  by (simp_all add: is_value_error_def)

lemma raises_value_bind [intro]:
  "raises_value r \<Longrightarrow> (\<And>x. r = Inr x \<Longrightarrow> raises_value (f x)) \<Longrightarrow> raises_value (bind_res r f)"
  by (cases r) (auto simp: raises_value_def)

lemma raises_value_if [intro]:
  "(b \<Longrightarrow> raises_value x) \<Longrightarrow> (\<not> b \<Longrightarrow> raises_value y) \<Longrightarrow> raises_value (if b then x else y)"
  by simp

lemma raises_value_let [intro]: "(\<And>y. raises_value (f y)) \<Longrightarrow> raises_value (Let x f)"
  by (simp add: Let_def)

lemma raises_value_prod [intro]: "(\<And>a b. raises_value (f a b)) \<Longrightarrow> raises_value (case p of (a, b) \<Rightarrow> f a b)"
  by (cases p) simp

lemma raises_value_list [intro]:
  "raises_value a \<Longrightarrow> (\<And>x r. xs = x # r \<Longrightarrow> raises_value (f x r)) \<Longrightarrow> raises_value (case xs of [] \<Rightarrow> a | x # r \<Rightarrow> f x r)"
  by (cases xs) simp_all

lemma raises_value_option [intro]:
  "raises_value a \<Longrightarrow> (\<And>x. v = Some x \<Longrightarrow> raises_value (f x)) \<Longrightarrow> raises_value (case v of None \<Rightarrow> a | Some x \<Rightarrow> f x)"
  by (cases v) simp_all

lemmas raises_intros = raises_value_list raises_value_option raises_value_let raises_value_prod raises_value_if raises_value_bind

lemma json_string_raises: "raises_value (json_string s)"
proof (induction s rule: json_string.induct)
  case (2 c s)
  then show ?case
    by (auto simp del: json_string.simps simp: json_string.simps(2) [of c s] split: list.splits option.splits prod.splits
        intro!: raises_value_bind)
qed simp

lemma json_int_raises: "raises_value (json_int neg ds)"
  by (simp add: json_int_def)

lemma json_number_raises: "raises_value (json_number s)"
  unfolding json_number_def by (intro raises_intros) (simp_all add: json_int_raises)

lemma expect_key_raises: "raises_value (expect_key s)"
  unfolding expect_key_def by (intro raises_intros) (simp_all add: json_string_raises)

lemma json_value_raises:
  assumes "\<And>ps. raises_value (hook ps)"
  shows "raises_value (json_value n hook s) \<and> raises_value (json_items n hook s) \<and> raises_value (json_members n hook s)"
proof (induction n arbitrary: s)
  case 0
  then show ?case by simp
next
  case (Suc n)
  have v: "raises_value (json_value n hook s)" "raises_value (json_items n hook s)"
    "raises_value (json_members n hook s)" for s using Suc.IH by simp_all
  have "raises_value (json_value (Suc n) hook s)"
    unfolding json_value.simps
    by (intro raises_intros) (simp_all add: v assms json_string_raises json_number_raises)
  moreover have "raises_value (json_items (Suc n) hook s)"
    unfolding json_items.simps by (intro raises_intros) (simp_all add: v)
  moreover have "raises_value (json_members (Suc n) hook s)"
    unfolding json_members.simps by (intro raises_intros) (simp_all add: v expect_key_raises)
  ultimately show ?case by simp
qed

lemma json_loads_raises: "(\<And>ps. raises_value (hook ps)) \<Longrightarrow> raises_value (json_loads hook s)"
  unfolding json_loads_def by (intro raises_intros) (simp_all add: json_value_raises del: json_value.simps)

lemma utf8_encode_raises: "raises_value (utf8_encode s)"
  by (simp add: utf8_encode_def)

lemma utf8_decode_raises: "raises_value (utf8_decode b)"
proof (induction b rule: utf8_decode.induct)
  case (2 a r)
  then show ?case
    unfolding utf8_decode.simps(2) [of a r] by (intro raises_intros) simp_all
qed simp

lemma unique_pairs_raises: "raises_value (unique_pairs ps)"
  by (simp add: unique_pairs_def)

end
