(* ===== verification/TaskIntent.thy ===== *)
theory TaskIntent
  imports JsonBytes TaskBody
begin

text \<open>
  The intent client of the confined worker (\<open>lib/task_intent.py\<close>): the validation of intent
  records, the append to the attempt's intent file under \<open>.aib/intents\<close>, the board snapshot
  and the command. The supervisor's parser of these files (\<open>lib/aib_supervisor.py\<close>,
  \<open>_parse_intents\<close>) is here too, so that the two ends can be stated together.
\<close>

section \<open>Limits and patterns\<close>

definition MAX_LINE :: nat where "MAX_LINE = 8 * 1024"
definition MAX_FILE :: nat where "MAX_FILE = 64 * 1024"
definition MAX_INTENTS :: nat where "MAX_INTENTS = 10"

definition REF_RE :: re where
  "REF_RE = Seq (OneOf [Lit (u ''msg''), Lit (u ''git''), Lit (u ''file'')])
     (Seq (Lit (u '':'')) (Rep [(33, 126)] 1 255))"

definition REPORT_KEYS :: "string list" where
  "REPORT_KEYS = [''attempt_id'', ''verb'', ''task_id'', ''state'', ''summary'', ''result_ref'', ''reason'']"

definition CONTINUE_KEYS :: "string list" where
  "CONTINUE_KEYS = [''attempt_id'', ''verb'', ''task_id'', ''summary'']"

definition DELEGATE_KEYS :: "string list" where
  "DELEGATE_KEYS = [''attempt_id'', ''verb'', ''run_id'', ''to'', ''title'', ''body'', ''source_msg_id'']"

text \<open>\<open>set(d) == KEYS\<close>, \<open>KEYS <= set(d)\<close> and \<open>not set(d) - KEYS\<close>.\<close>

definition keys_within :: "pydict \<Rightarrow> string list \<Rightarrow> bool" where
  "keys_within d ks = list_all (\<lambda>(k, v). k \<in> set (map u ks)) d"

definition keys_include :: "pydict \<Rightarrow> string list \<Rightarrow> bool" where
  "keys_include d ks = list_all (has_key d) ks"

definition keys_equal :: "pydict \<Rightarrow> string list \<Rightarrow> bool" where
  "keys_equal d ks = (keys_within d ks \<and> keys_include d ks)"

section \<open>Validation\<close>

definition validate_summary :: "pystr \<Rightarrow> exn + unit" where
  "validate_summary s = bind_res (utf8_encode s) (\<lambda>b.
     if 2048 < length b \<or> \<not> safe_display_text s
     then Inl (ValueError (u ''summary must be safe single-line UTF-8 of at most 2048 bytes'')) else Inr ())"

definition safe_text :: "pyval \<Rightarrow> string \<Rightarrow> nat \<Rightarrow> exn + unit" where
  "safe_text v name limit = (case v of
       PStr s \<Rightarrow> bind_res (utf8_encode s) (\<lambda>b.
         if limit < length b \<or> \<not> safe_display_text s
         then Inl (ValueError (u ''invalid '' @ u name)) else Inr ())
     | _ \<Rightarrow> Inl TypeError)"

fun safe_texts :: "pydict \<Rightarrow> string list \<Rightarrow> exn + unit" where
  "safe_texts d [] = Inr ()"
| "safe_texts d (k # ks) = bind_res (safe_text (dget d k) k MAX_LINE) (\<lambda>_. safe_texts d ks)"

definition report_intent :: "pydict \<Rightarrow> exn + unit" where
  "report_intent d =
     (if \<not> keys_include d CONTINUE_KEYS \<or> \<not> keys_within d REPORT_KEYS
        then Inl (ValueError (u ''invalid report schema''))
      else bind_res (in_strset (dget d ''state'') [''progress'', ''done'', ''failed'', ''blocked'']) (\<lambda>known.
        if \<not> known then Inl (ValueError (u ''invalid report state''))
        else if dget d ''result_ref'' \<noteq> PNone \<and>
             \<not> (is_str (dget d ''result_ref'') \<and> fullmatch REF_RE (str_or_empty (dget d ''result_ref'')))
          then Inl (ValueError (u ''invalid result ref''))
        else if dget d ''reason'' \<noteq> PNone then safe_text (dget d ''reason'') ''reason'' 512
        else Inr ()))"

definition intent_task :: "pystr option \<Rightarrow> pydict \<Rightarrow> exn + unit" where
  "intent_task task d = (case dget d ''task_id'' of
       PStr t \<Rightarrow>
         if \<not> fullmatch TASK_RE t then Inl (ValueError (u ''invalid task id''))
         else if task \<noteq> None \<and> task \<noteq> Some t then Inl (ValueError (u ''task mismatch''))
         else safe_text (dget d ''summary'') ''summary'' 2048
     | _ \<Rightarrow> Inl (ValueError (u ''invalid task id'')))"

definition validate_record :: "pystr \<Rightarrow> pystr option \<Rightarrow> pyval \<Rightarrow> exn + unit" where
  "validate_record attempt task v = (case v of
       PDict d \<Rightarrow>
         if dget d ''attempt_id'' \<noteq> PStr attempt then Inl (ValueError (u ''foreign attempt id''))
         else if dget d ''verb'' = PStr (u ''delegate'') then
           (if \<not> keys_equal d DELEGATE_KEYS then Inl (ValueError (u ''invalid delegate schema''))
            else safe_texts d [''run_id'', ''to'', ''title'', ''body'', ''source_msg_id''])
         else if dget d ''verb'' = PStr (u ''continue'') then
           (if \<not> keys_equal d CONTINUE_KEYS then Inl (ValueError (u ''invalid continue schema''))
            else intent_task task d)
         else if dget d ''verb'' = PStr (u ''report'') then
           bind_res (report_intent d) (\<lambda>_. intent_task task d)
         else Inl (ValueError (u ''invalid intent verb''))
     | _ \<Rightarrow> Inl (ValueError (u ''foreign attempt id'')))"

fun validate_each :: "pystr \<Rightarrow> pystr option \<Rightarrow> pyval list \<Rightarrow> exn + unit" where
  "validate_each attempt task [] = Inr ()"
| "validate_each attempt task (v # vs) =
     bind_res (validate_record attempt task v) (\<lambda>_. validate_each attempt task vs)"

definition validate_intent_records :: "pyval list \<Rightarrow> pystr \<Rightarrow> pystr option \<Rightarrow> exn + pyval list" where
  "validate_intent_records records attempt task =
     (if records = [] \<or> MAX_INTENTS < length records then Inl (ValueError (u ''invalid intent count''))
      else if \<not> fullmatch TOKEN_RE attempt then Inl (ValueError (u ''invalid attempt id''))
      else bind_res (validate_each attempt task records) (\<lambda>_. Inr records))"

section \<open>The private directory\<close>

text \<open>
  \<open>.aib\<close> and \<open>.aib/intents\<close> by owner and mode (\<open>0o700\<close> is 448, \<open>0o600\<close> is 384) and by group,
  whether they open as directories without following a link, the effective user, the group of a new file,
  the room left on the device, the intent files and the entry \<open>board.json\<close>.
\<close>

record private_dir =
  p_opens :: bool
  p_aib :: "nat \<times> nat"
  p_intents :: "nat \<times> nat"
  p_gids :: "nat \<times> nat"
  p_euid :: nat
  p_new_gid :: nat
  p_room :: nat
  p_files :: "(pystr, dir_entry) dict"
  p_board :: "dir_entry option"

definition directory_ok :: "private_dir \<Rightarrow> bool" where
  "directory_ok p = (p_opens p \<and> p_aib p = (p_euid p, 448) \<and> p_intents p = (p_euid p, 448))"

definition intent_name :: "pystr \<Rightarrow> pystr" where
  "intent_name attempt = attempt @ u ''.jsonl''"

text \<open>Opening for reading and writing needs both owner bits, unless the user is root.\<close>

definition opens_rw :: "private_dir \<Rightarrow> body_file \<Rightarrow> bool" where
  "opens_rw p f = (p_euid p = 0 \<or> (f_uid f = p_euid p \<and> f_mode f div 128 mod 4 = 3))"

definition new_file :: "private_dir \<Rightarrow> body_file" where
  "new_file p = \<lparr>f_regular = True, f_uid = p_euid p, f_gid = p_new_gid p, f_nlink = 1, f_mode = 384, f_data = []\<rparr>"

definition open_intent :: "pystr \<Rightarrow> private_dir \<Rightarrow> body_file option" where
  "open_intent attempt p = (case map_of (p_files p) (intent_name attempt) of
       None \<Rightarrow> Some (new_file p)
     | Some (Inode f) \<Rightarrow> if opens_rw p f then Some f else None
     | Some Link \<Rightarrow> None)"

definition count_lines :: "bytes \<Rightarrow> nat" where
  "count_lines bs = length (filter (\<lambda>b. b = 10) bs)"

definition put_intent :: "pystr \<Rightarrow> body_file \<Rightarrow> private_dir \<Rightarrow> private_dir" where
  "put_intent attempt f p = p\<lparr>p_files := dset (intent_name attempt) (Inode f) (p_files p)\<rparr>"

definition encode_intent :: "(pyfloat \<Rightarrow> pystr) \<Rightarrow> pydict \<Rightarrow> exn + bytes" where
  "encode_intent fr d = utf8_encode (json_dumps fr False (PDict d) @ [10])"

text \<open>
  The append. A new file is created and an existing one gets mode \<open>0o600\<close> before the limits
  are checked; the one \<open>os.write\<close> takes what there is room for and raises only when there is
  none, and its result is not looked at.
\<close>

definition append_intent ::
  "(pyfloat \<Rightarrow> pystr) \<Rightarrow> pystr \<Rightarrow> pydict \<Rightarrow> private_dir \<Rightarrow> (exn + unit) \<times> private_dir" where
  "append_intent fr attempt d p =
     (case encode_intent fr d of
        Inl e \<Rightarrow> (Inl e, p)
      | Inr encoded \<Rightarrow>
          if MAX_LINE < length encoded then (Inl (ValueError (u ''intent line exceeds 8192 bytes'')), p)
          else if \<not> directory_ok p then (Inl OSError, p)
          else (case open_intent attempt p of
              None \<Rightarrow> (Inl OSError, p)
            | Some f \<Rightarrow>
                if \<not> f_regular f \<or> f_uid f \<noteq> p_euid p \<or> f_nlink f \<noteq> 1 then (Inl OSError, p)
                else let g = f\<lparr>f_mode := 384\<rparr> in
                  if MAX_FILE < length (f_data f) + length encoded
                    then (Inl (ValueError (u ''intent file exceeds 65536 bytes'')), put_intent attempt g p)
                  else if MAX_INTENTS \<le> count_lines (take MAX_FILE (f_data f))
                    then (Inl (ValueError (u ''at most 10 intents are allowed per turn'')), put_intent attempt g p)
                  else if p_room p = 0 then (Inl OSError, put_intent attempt g p)
                  else (Inr (), (put_intent attempt (g\<lparr>f_data := f_data f @ take (p_room p) encoded\<rparr>) p)
                    \<lparr>p_room := p_room p - length encoded\<rparr>)))"

section \<open>The board snapshot\<close>

text \<open>
  Only \<open>.aib\<close> is opened for the board; \<open>p_opens\<close>, which stands for both private directories, is
  stricter where the directory of the intents alone is missing.
\<close>

definition show_board :: "(pyfloat \<Rightarrow> pystr) \<Rightarrow> private_dir \<Rightarrow> exn + pystr" where
  "show_board fr p = (if \<not> p_opens p then Inl OSError else case p_board p of
       Some (Inode f) \<Rightarrow>
         if \<not> f_regular f \<or> f_nlink f \<noteq> 1 \<or> MAX_FILE < length (f_data f) then Inl OSError
         else bind_res (utf8_decode (f_data f)) (\<lambda>text. bind_res (json_loads unique_pairs text) (\<lambda>v.
           case v of PDict d \<Rightarrow> bind_res (utf8_encode (json_dumps fr False v)) (\<lambda>_. Inr (json_dumps fr False v))
           | _ \<Rightarrow> Inl (ValueError (u ''board snapshot is not an object''))))
     | _ \<Rightarrow> Inl OSError)"

section \<open>The command\<close>

datatype intent_command =
    Intent_Report (ic_task: pystr) (ic_state: pystr) (ic_result: "pystr option") (ic_reason: "pystr option") (ic_summary: pystr)
  | Intent_Progress (ic_task: pystr) (ic_summary: pystr)
  | Intent_Continue (ic_task: pystr) (ic_summary: pystr)
  | Intent_List

text \<open>What \<open>argparse\<close> lets through for the state of a report.\<close>

definition parsed_command :: "intent_command \<Rightarrow> bool" where
  "parsed_command c = (case c of Intent_Report t st r s su \<Rightarrow>
     st \<in> set (map u [''progress'', ''done'', ''failed'', ''blocked'']) | _ \<Rightarrow> True)"

definition intent_record :: "pystr \<Rightarrow> intent_command \<Rightarrow> pydict" where
  "intent_record attempt c = (case c of
       Intent_Progress t s \<Rightarrow> [(u ''attempt_id'', PStr attempt), (u ''verb'', PStr (u ''report'')),
         (u ''task_id'', PStr t), (u ''state'', PStr (u ''progress'')), (u ''summary'', PStr s)]
     | Intent_Continue t s \<Rightarrow> [(u ''attempt_id'', PStr attempt), (u ''verb'', PStr (u ''continue'')),
         (u ''task_id'', PStr t), (u ''summary'', PStr s)]
     | Intent_Report t st res why s \<Rightarrow> [(u ''attempt_id'', PStr attempt), (u ''verb'', PStr (u ''report'')),
         (u ''task_id'', PStr t), (u ''state'', PStr st), (u ''summary'', PStr s)] @
         (case res of None \<Rightarrow> [] | Some x \<Rightarrow> [(u ''result_ref'', PStr x)]) @
         (case why of None \<Rightarrow> [] | Some x \<Rightarrow> [(u ''reason'', PStr x)])
     | Intent_List \<Rightarrow> [])"

definition bad_report_argument :: "intent_command \<Rightarrow> bool" where
  "bad_report_argument c = (case c of
       Intent_Report t st res why s \<Rightarrow>
         (case res of Some x \<Rightarrow> \<not> fullmatch REF_RE x | None \<Rightarrow> False) \<or>
         (case why of Some x \<Rightarrow> 512 < length x \<or> \<not> safe_display_text x | None \<Rightarrow> False)
     | _ \<Rightarrow> False)"

text \<open>\<open>home\<close> is the environment's \<open>HOME\<close>, \<open>attempt\<close> its \<open>AIB_ATTEMPT_ID\<close>.\<close>

definition queue_intent ::
  "(pyfloat \<Rightarrow> pystr) \<Rightarrow> pystr \<Rightarrow> intent_command \<Rightarrow> private_dir \<Rightarrow> (exn + int) \<times> private_dir" where
  "queue_intent fr attempt c p =
     (if \<not> fullmatch TOKEN_RE attempt then (Inr 78, p)
      else if \<not> fullmatch TASK_RE (ic_task c) then (Inr 64, p)
      else case validate_summary (ic_summary c) of
        Inl e \<Rightarrow> (Inl e, p)
      | Inr _ \<Rightarrow>
          if bad_report_argument c then (Inr 64, p)
          else (case validate_intent_records [PDict (intent_record attempt c)] attempt (Some (ic_task c)) of
              Inl e \<Rightarrow> (Inl e, p)
            | Inr _ \<Rightarrow> (case append_intent fr attempt (intent_record attempt c) p of
                (Inl e, q) \<Rightarrow> (Inl e, q)
              | (Inr _, q) \<Rightarrow> (Inr 0, q))))"

definition caught_78 :: "exn + int \<Rightarrow> exn + int" where
  "caught_78 r = (case r of Inr n \<Rightarrow> Inr n
     | Inl e \<Rightarrow> if is_value_error e \<or> e = OSError then Inr 78 else Inl e)"

definition intent_main ::
  "(pyfloat \<Rightarrow> pystr) \<Rightarrow> pystr \<Rightarrow> pystr \<Rightarrow> intent_command \<Rightarrow> private_dir \<Rightarrow> (exn + int) \<times> private_dir" where
  "intent_main fr home attempt c p =
     (if \<not> startswith home [47] then (Inr 78, p)
      else if c = Intent_List then (caught_78 (bind_res (show_board fr p) (\<lambda>_. Inr 0)), p)
      else case queue_intent fr attempt c p of (r, q) \<Rightarrow> (caught_78 r, q))"

section \<open>The supervisor's parser\<close>

definition strict_object :: hook where
  "strict_object ps = (if distinct (map fst ps) then Inr (PDict ps)
     else Inl (ValueError (u ''duplicate intent key'')))"

fun parse_lines :: "pystr \<Rightarrow> bytes list \<Rightarrow> pyval list \<Rightarrow> exn + pyval list" where
  "parse_lines attempt [] records = Inr records"
| "parse_lines attempt (raw # raws) records =
     (if raw = [] \<or> 8192 < length raw \<or> 10 \<le> length records then Inl (ValueError (u ''invalid intent bounds''))
      else bind_res (json_loads_bytes strict_object raw) (\<lambda>v. case v of
          PDict d \<Rightarrow>
            if dget d ''attempt_id'' \<noteq> PStr attempt then Inl (ValueError (u ''foreign attempt id''))
            else parse_lines attempt raws (records @ [v])
        | _ \<Rightarrow> Inl (ValueError (u ''foreign attempt id''))))"

definition parse_intents :: "pystr \<Rightarrow> bytes \<Rightarrow> exn + pyval list" where
  "parse_intents attempt data = bind_res (parse_lines attempt (splitlines data) []) (\<lambda>records.
     if records = [] then Inl (ValueError (u ''empty intent file'')) else Inr records)"

text \<open>
  \<open>_open_private_dirs\<close> and \<open>_read_intent_bytes\<close>: the supervisor opens the directories of the
  role and reads a file only if it is the role's own private regular file.
\<close>

definition private_dirs_ok :: "nat \<Rightarrow> nat \<Rightarrow> private_dir \<Rightarrow> bool" where
  "private_dirs_ok role_uid role_gid p = (p_opens p \<and> p_aib p = (role_uid, 448) \<and>
     p_intents p = (role_uid, 448) \<and> p_gids p = (role_gid, role_gid))"

definition read_intent_bytes :: "nat \<Rightarrow> nat \<Rightarrow> pystr \<Rightarrow> private_dir \<Rightarrow> exn + bytes" where
  "read_intent_bytes role_uid role_gid name p =
     (if \<not> private_dirs_ok role_uid role_gid p then Inl OSError else case map_of (p_files p) name of
       Some (Inode f) \<Rightarrow>
         if \<not> f_regular f \<or> f_nlink f \<noteq> 1 \<or> f_uid f \<noteq> fst (p_intents p) \<or> f_gid f \<noteq> snd (p_gids p) \<or>
            f_mode f \<noteq> 384 \<or> MAX_FILE < length (f_data f)
         then Inl (ValueError (u ''unsafe intent file'')) else Inr (f_data f)
     | _ \<Rightarrow> Inl OSError)"

definition read_intents :: "nat \<Rightarrow> nat \<Rightarrow> pystr \<Rightarrow> private_dir \<Rightarrow> exn + pyval list" where
  "read_intents role_uid role_gid attempt p =
     bind_res (read_intent_bytes role_uid role_gid (intent_name attempt) p) (parse_intents attempt)"

end
