(* ===== verification/IntentProps.thy ===== *)
theory IntentProps
  imports TaskIntent
begin

text \<open>
  The two ends of an intent file together: what the worker's client queues is what the
  supervisor parses and validates, the limits of a file hold after every command, and no
  exception leaves the client.
\<close>

section \<open>What the printer writes\<close>










section \<open>A queued line\<close>

definition queued_line :: "(pyfloat \<Rightarrow> pystr) \<Rightarrow> pydict \<Rightarrow> bytes" where
  "queued_line fr d = concat (map utf8_char (json_dumps fr False (PDict d)))"






lemma intent_record_attempt [simp]: "c \<noteq> Intent_List \<Longrightarrow> dget (intent_record a c) ''attempt_id'' = PStr a"
  by (cases c) (auto simp: intent_record_def)



lemma encode_intent_Inr:
  "encode_intent fr d = Inr b \<longleftrightarrow> b = queued_line fr d @ [10] \<and> \<not> list_ex is_surrogate (json_dumps fr False (PDict d))"
  by (auto simp: encode_intent_def utf8_encode_def queued_line_def is_surrogate_def utf8_char_def byte_def
      simp del: json_dumps.simps)


lemma count_lines_append [simp]: "count_lines (a @ b) = count_lines a + count_lines b"
  by (simp add: count_lines_def)



section \<open>The append\<close>

text \<open>The effect of one command that is queued, and of one that is not.\<close>

lemma queue_intent_accepted:
  assumes "queue_intent fr a c p = (Inr 0, q)"
  obtains f where "directory_ok p" "open_intent a p = Some f" "f_regular f" "f_uid f = p_euid p" "f_nlink f = 1"
    "encode_intent fr (intent_record a c) = Inr (queued_line fr (intent_record a c) @ [10])"
    "length (queued_line fr (intent_record a c)) < 8192"
    "length (f_data f) + length (queued_line fr (intent_record a c)) < MAX_FILE"
    "count_lines (f_data f) < 10" "p_room p \<noteq> 0"
    "fullmatch TOKEN_RE a" "validate_record a (Some (ic_task c)) (PDict (intent_record a c)) = Inr ()"
    "q = (put_intent a (f\<lparr>f_mode := 384, f_data := f_data f @ take (p_room p) (queued_line fr (intent_record a c) @ [10])\<rparr>) p)
       \<lparr>p_room := p_room p - (length (queued_line fr (intent_record a c)) + 1)\<rparr>"
proof -
  let ?d = "intent_record a c"
  from assms have tok: "fullmatch TOKEN_RE a" by (auto simp: queue_intent_def split: if_splits)
  from assms have v: "\<exists>x. validate_intent_records [PDict ?d] a (Some (ic_task c)) = Inr x"
    and ap: "append_intent fr a ?d p = (Inr (), q)"
    by (auto simp: queue_intent_def split: if_splits sum.splits prod.splits)
  from v have val: "validate_record a (Some (ic_task c)) (PDict ?d) = Inr ()"
    by (auto simp: validate_intent_records_def bind_res_Inr split: if_splits)
  obtain b where b: "encode_intent fr ?d = Inr b"
    using ap by (cases "encode_intent fr ?d") (auto simp: append_intent_def)
  then have b': "b = queued_line fr ?d @ [10]" by (simp add: encode_intent_Inr)
  have len: "length b \<le> MAX_LINE" and dir: "directory_ok p"
    using ap b by (auto simp: append_intent_def split: if_splits)
  obtain f where f: "open_intent a p = Some f"
    using ap b len dir by (cases "open_intent a p") (auto simp: append_intent_def)
  have own: "f_regular f" "f_uid f = p_euid p" "f_nlink f = 1"
    using ap b len dir f by (auto simp: append_intent_def split: if_splits)
  have lim: "length (f_data f) + length b \<le> MAX_FILE" "count_lines (take MAX_FILE (f_data f)) < MAX_INTENTS"
    "p_room p \<noteq> 0"
    using ap b len dir f own by (auto simp: append_intent_def Let_def split: if_splits)
  have "q = (put_intent a (f\<lparr>f_mode := 384, f_data := f_data f @ take (p_room p) b\<rparr>) p)
      \<lparr>p_room := p_room p - length b\<rparr>"
    using ap b len dir f own lim by (simp add: append_intent_def Let_def)
  moreover have "take MAX_FILE (f_data f) = f_data f" using lim(1) by simp
  ultimately show thesis
    using that tok val b b' len dir f own lim by (auto simp: MAX_LINE_def MAX_INTENTS_def)
qed

lemma queue_intent_refused:
  assumes "queue_intent fr a c p = (r, q)" and "r \<noteq> Inr 0"
  shows "q = p \<or> (\<exists>f. directory_ok p \<and> open_intent a p = Some f \<and> q = put_intent a (f\<lparr>f_mode := 384\<rparr>) p)"
proof -
  let ?d = "intent_record a c"
  have "q = p \<or> (\<exists>e. append_intent fr a ?d p = (Inl e, q))"
    using assms by (auto simp: queue_intent_def split: if_splits sum.splits prod.splits)
  then show ?thesis
    by (auto simp: append_intent_def Let_def split: if_splits sum.splits option.splits)
qed

section \<open>A turn of the worker\<close>





definition private_file :: "private_dir \<Rightarrow> bytes \<Rightarrow> body_file" where
  "private_file p data = (new_file p)\<lparr>f_data := data\<rparr>"




lemma put_intent_simps [simp]:
  "directory_ok (put_intent a f p) = directory_ok p" "p_gids (put_intent a f p) = p_gids p"
  "p_new_gid (put_intent a f p) = p_new_gid p" "p_room (put_intent a f p) = p_room p"
  "p_euid (put_intent a f p) = p_euid p" "new_file (put_intent a f p) = new_file p"
  "private_file (put_intent a f p) d = private_file p d"
  "map_of (p_files (put_intent a f p)) n = (if n = intent_name a then Some (Inode f) else map_of (p_files p) n)"
  by (simp_all add: put_intent_def directory_ok_def new_file_def private_file_def)

lemma room_simps [simp]:
  "directory_ok (p\<lparr>p_room := n\<rparr>) = directory_ok p" "private_file (p\<lparr>p_room := n\<rparr>) d = private_file p d"
  by (simp_all add: directory_ok_def new_file_def private_file_def)

lemma private_file_simps [simp]:
  "f_data (private_file p d) = d" "(private_file p d)\<lparr>f_mode := 384\<rparr> = private_file p d"
  "(private_file p d)\<lparr>f_data := e\<rparr> = private_file p e"
  by (simp_all add: private_file_def new_file_def)



section \<open>The supervisor's side\<close>





section \<open>Properties\<close>


text \<open>
  C15: Every successful command leaves the attempt's file private, at most 65536 bytes long and
  with at most ten lines, appends one line of at most 8192 bytes or the part of it the device
  had room for, and leaves every other file alone. A command that does not succeed changes no
  file's content.
\<close>

theorem intent_file_limits:
  assumes "intent_main fr home a c p = (r, q)"
  shows "(\<forall>n. n \<noteq> intent_name a \<longrightarrow> map_of (p_files q) n = map_of (p_files p) n) \<and>
    (if r = Inr 0 \<and> c \<noteq> Intent_List then
       (\<exists>f g. open_intent a p = Some f \<and> map_of (p_files q) (intent_name a) = Some (Inode g) \<and> f_mode g = 384 \<and>
          f_nlink g = 1 \<and> f_uid g = p_euid p \<and> length (f_data g) \<le> MAX_FILE \<and> count_lines (f_data f) < MAX_INTENTS \<and>
          f_data g = f_data f @ take (p_room p) (queued_line fr (intent_record a c) @ [10]) \<and>
          length (queued_line fr (intent_record a c) @ [10]) \<le> MAX_LINE)
     else \<forall>n f. map_of (p_files p) n = Some (Inode f) \<longrightarrow>
       (\<exists>g. map_of (p_files q) n = Some (Inode g) \<and> f_data g = f_data f))"
proof (cases "startswith home [47] \<and> c \<noteq> Intent_List")
  case False
  then have "q = p" "c = Intent_List \<or> r = Inr 78" using assms by (auto simp: intent_main_def split: if_splits)
  then show ?thesis by auto
next
  case True
  then obtain r0 where r0: "queue_intent fr a c p = (r0, q)" "r = caught_78 r0"
    using assms by (auto simp: intent_main_def split: prod.splits)
  have r_iff: "r = Inr 0 \<longleftrightarrow> r0 = Inr 0" by (auto simp: r0(2) caught_78_def split: sum.splits)
  show ?thesis
  proof (cases "r0 = Inr 0")
    case False
    from queue_intent_refused [OF r0(1) False] show ?thesis
      by (auto simp: r_iff False open_intent_def split: option.splits dir_entry.splits if_splits)
  next
    case acc: True
    from r0(1) [unfolded acc] show ?thesis
      by (rule queue_intent_accepted)
        (auto simp: r_iff acc True MAX_LINE_def MAX_INTENTS_def)
  qed
qed

section \<open>Exit values\<close>

lemma safe_text_raises: "raises_value (safe_text (PStr s) name limit)"
  unfolding safe_text_def by (auto intro!: raises_intros simp: utf8_encode_raises)

lemma intent_record_raises:
  assumes "c \<noteq> Intent_List"
  shows "raises_value (validate_record a t (PDict (intent_record a c)))"
proof -
  have task: "raises_value (intent_task t d)" if "is_str (dget d ''summary'')" for d
    using that by (auto simp: intent_task_def is_str_iff safe_text_raises split: pyval.splits)
  have rep: "raises_value (report_intent d)"
    if "is_str (dget d ''state'')" "dget d ''reason'' = PNone \<or> is_str (dget d ''reason'')" for d
    using that by (auto simp: report_intent_def is_str_iff safe_text_raises)
  show ?thesis
  proof (cases c)
    case (Intent_Report ta st res why su)
    have "raises_value (report_intent (intent_record a c))"
      by (rule rep) (auto simp: Intent_Report intent_record_def split: option.splits)
    moreover have "raises_value (intent_task t (intent_record a c))"
      by (rule task) (simp add: Intent_Report intent_record_def)
    ultimately show ?thesis
      using assms by (auto simp: validate_record_def intro!: raises_value_bind) (simp_all add: Intent_Report intent_record_def)
  next
    case (Intent_Progress ta su)
    have "raises_value (report_intent (intent_record a c))"
      by (rule rep) (simp_all add: Intent_Progress intent_record_def)
    moreover have "raises_value (intent_task t (intent_record a c))"
      by (rule task) (simp add: Intent_Progress intent_record_def)
    ultimately show ?thesis
      using assms by (auto simp: validate_record_def intro!: raises_value_bind) (simp_all add: Intent_Progress intent_record_def)
  next
    case (Intent_Continue ta su)
    have "raises_value (intent_task t (intent_record a c))"
      by (rule task) (simp add: Intent_Continue intent_record_def)
    then show ?thesis
      using assms by (auto simp: validate_record_def intro!: raises_value_bind) (simp_all add: Intent_Continue intent_record_def)
  qed (use assms in simp)
qed

lemma show_board_caught: "show_board fr p = Inl e \<Longrightarrow> is_value_error e \<or> e = OSError"
proof -
  have "raises_value (bind_res (utf8_decode b) (\<lambda>text. bind_res (json_loads unique_pairs text) (\<lambda>v.
      case v of PDict d \<Rightarrow> bind_res (utf8_encode (json_dumps fr False v)) (\<lambda>_. Inr (json_dumps fr False v))
      | _ \<Rightarrow> Inl (ValueError (u ''board snapshot is not an object'')))))" for b
    by (intro raises_value_bind utf8_decode_raises json_loads_raises unique_pairs_raises)
      (auto split: pyval.splits simp del: json_dumps.simps intro!: raises_value_bind utf8_encode_raises)
  then show "show_board fr p = Inl e \<Longrightarrow> is_value_error e \<or> e = OSError"
    by (auto simp: show_board_def raises_value_def split: if_splits option.splits dir_entry.splits)
qed

lemma queue_intent_caught:
  assumes "c \<noteq> Intent_List" and "queue_intent fr a c p = (r, q)"
  shows "r \<in> {Inr 0, Inr 64, Inr 78} \<or> (\<exists>e. r = Inl e \<and> (is_value_error e \<or> e = OSError))"
proof -
  let ?d = "intent_record a c"
  have v1: "is_value_error e" if "validate_summary s = Inl e" for s e
    using that by (auto simp: validate_summary_def utf8_encode_def split: if_splits)
  have v2: "is_value_error e" if "validate_intent_records [PDict ?d] a t = Inl e" for t e
    using that intent_record_raises [OF assms(1), of a t]
    by (cases "validate_record a t (PDict ?d)") (auto simp: validate_intent_records_def raises_value_def split: if_splits)
  have v3: "is_value_error e \<or> e = OSError" if "append_intent fr a ?d p = (Inl e, q)" for e
    using that by (auto simp: append_intent_def encode_intent_def utf8_encode_def Let_def
        simp del: json_dumps.simps split: if_splits option.splits)
  from assms(2) show ?thesis
    by (auto simp: queue_intent_def dest: v1 v2 v3 split: if_splits sum.splits prod.splits)
qed

text \<open>
  The client always ends with one of its three exit values: no exception leaves it,
  whatever the command, the environment, the state of the private directory and the board.
\<close>

theorem client_always_exits:
  "fst (intent_main fr home a c p) \<in> {Inr 0, Inr 64, Inr 78}"
proof (cases "startswith home [47] \<and> c \<noteq> Intent_List")
  case False
  then show ?thesis
    by (cases "show_board fr p") (auto simp: intent_main_def caught_78_def dest: show_board_caught)
next
  case True
  obtain r q where r: "queue_intent fr a c p = (r, q)" by (cases "queue_intent fr a c p")
  from True have "c \<noteq> Intent_List" by simp
  from queue_intent_caught [OF this r] True r show ?thesis
    by (auto simp: intent_main_def caught_78_def)
qed

section \<open>Witnesses\<close>

definition smp_private :: private_dir where
  "smp_private = \<lparr>p_opens = True, p_aib = (1001, 448), p_intents = (1001, 448), p_gids = (1001, 1001),
     p_euid = 1001, p_new_gid = 1001, p_room = 65536, p_files = [], p_board = None\<rparr>"

definition smp_turn :: "intent_command list" where
  "smp_turn = [Intent_Progress (u ''t-aaaaaaaaaaaa'') (u ''half''),
     Intent_Report (u ''t-aaaaaaaaaaaa'') (u ''done'') (Some (u ''http:x'')) None (u ''ok''),
     Intent_Report (u ''t-aaaaaaaaaaaa'') (u ''done'') (Some (u ''msg:1'')) None (u ''ok'')]"



theorem intent_file_limits_witness:
  "\<exists>q g. intent_main (\<lambda>_. []) (u ''/w'') (u ''a1'') (hd smp_turn) smp_private = (Inr 0, q) \<and>
     map_of (p_files q) (intent_name (u ''a1'')) = Some (Inode g) \<and> length (f_data g) \<le> 65536"
proof -
  have "fst (intent_main (\<lambda>_. []) (u ''/w'') (u ''a1'') (hd smp_turn) smp_private) = Inr 0" by code_simp
  then obtain q where q: "intent_main (\<lambda>_. []) (u ''/w'') (u ''a1'') (hd smp_turn) smp_private = (Inr 0, q)"
    by (metis prod.collapse)
  have "hd smp_turn \<noteq> Intent_List" by (simp add: smp_turn_def)
  with intent_file_limits [OF q] q show ?thesis by (auto simp: MAX_FILE_def)
qed

text \<open>
  The append does not look at what \<open>os.write\<close> wrote: with one byte of room left the command
  reports success, and the supervisor cannot parse the file.
\<close>

theorem short_write_reports_success:
  "case intent_main (\<lambda>_. []) (u ''/w'') (u ''a1'') (hd smp_turn) (smp_private\<lparr>p_room := 1\<rparr>) of
     (r, q) \<Rightarrow> r = Inr 0 \<and> (\<exists>e. read_intents 1001 1001 (u ''a1'') q = Inl e)"
proof -
  have "case intent_main (\<lambda>_. []) (u ''/w'') (u ''a1'') (hd smp_turn) (smp_private\<lparr>p_room := 1\<rparr>) of
     (r, q) \<Rightarrow> r = Inr 0 \<and> (case read_intents 1001 1001 (u ''a1'') q of Inl _ \<Rightarrow> True | Inr _ \<Rightarrow> False)"
    by code_simp
  then show ?thesis by (auto split: prod.splits sum.splits)
qed

end
