(* ===== verification/TaskViews.thy ===== *)
theory TaskViews
  imports TaskCli PyJson Complex_Main "HOL-Library.List_Lexorder"
begin

text \<open>
  The read side of the task ledger: \<open>list_view\<close> and the bounded \<open>worker_view\<close> of
  \<open>lib/task_ledger.py\<close>, and the \<open>list\<close> and \<open>show\<close> commands of \<open>lib/task_cli.py\<close>. Views are JSON
  objects as the code builds them. Strings are ordered by their code points, as Python orders
  them.
\<close>

section \<open>Rows\<close>

definition state_text :: "task_state \<Rightarrow> pystr" where
  "state_text s = (case s of QUEUED \<Rightarrow> u ''QUEUED'' | ASSIGNED \<Rightarrow> u ''ASSIGNED'' | IN_PROGRESS \<Rightarrow> u ''IN_PROGRESS''
     | BLOCKED \<Rightarrow> u ''BLOCKED'' | REVIEW \<Rightarrow> u ''REVIEW'' | DONE \<Rightarrow> u ''DONE'' | FAILED \<Rightarrow> u ''FAILED''
     | CANCELLED \<Rightarrow> u ''CANCELLED'')"

definition run_text :: "run_state \<Rightarrow> pystr" where
  "run_text s = (case s of RQUEUED \<Rightarrow> u ''QUEUED'' | RRUNNING \<Rightarrow> u ''RUNNING'' | RBLOCKED \<Rightarrow> u ''BLOCKED''
     | RCOMPLETED \<Rightarrow> u ''COMPLETED'' | RFAILED \<Rightarrow> u ''FAILED'' | RCANCELLED \<Rightarrow> u ''CANCELLED'')"

definition opt_int :: "string \<Rightarrow> int option \<Rightarrow> pydict" where
  "opt_int k n = (case n of None \<Rightarrow> [(u k, PNone)] | Some i \<Rightarrow> [(u k, PInt i)])"

definition task_json :: "task_row \<Rightarrow> pydict" where
  "task_json t = [(u ''task_id'', PStr (t_task_id t)), (u ''run_id'', PStr (t_run_id t)), (u ''team_uid'', PStr (t_team_uid t)),
     (u ''parent'', t_parent t), (u ''depth'', t_depth t), (u ''source_msg_id'', PStr (t_source_msg_id t)),
     (u ''owner'', t_owner t), (u ''assignee'', PStr (t_assignee t)), (u ''title'', PStr (t_title t)),
     (u ''body_ref'', t_body_ref t), (u ''deadline_at'', t_deadline_at t), (u ''budget'', t_budget t),
     (u ''gate'', PStr (t_gate t)), (u ''context_refs'', t_context_refs t), (u ''state'', PStr (state_text (t_state t))),
     (u ''assignments'', PInt (t_assignments t)), (u ''attempts'', PInt (t_attempts t)), (u ''turns'', PInt (t_turns t)),
     (u ''turns_total'', PInt (t_turns_total t)), (u ''result_ref'', t_result_ref t), (u ''last_reason'', t_last_reason t),
     (u ''last_summary'', PStr (t_last_summary t)), (u ''created_at'', t_created_at t), (u ''last_at'', t_last_at t)]
     @ opt_int ''created_seq'' (t_created_seq t) @ opt_int ''last_seq'' (t_last_seq t) @ opt_int ''state_seq'' (t_state_seq t)"

definition run_json :: "run_row \<Rightarrow> pydict" where
  "run_json r = [(u ''run_id'', PStr (r_run_id r)), (u ''team_uid'', PStr (r_team_uid r)), (u ''state'', PStr (run_text (r_state r))),
     (u ''created_seq'', PInt (r_created_seq r)), (u ''outcome'', r_outcome r), (u ''created_at'', r_created_at r),
     (u ''last_at'', r_last_at r)]"

definition rejection_json :: "rejection_row \<Rightarrow> pydict" where
  "rejection_json j = [(u ''seq'', PInt (j_seq j)), (u ''team_uid'', PStr (j_team_uid j)), (u ''task_id'', j_task_id j),
     (u ''run_id'', PStr (j_run_id j)), (u ''requested_type'', PStr (j_requested_type j)), (u ''reason'', PStr (j_reason j))]"

definition invalid_json :: "int \<times> pystr \<Rightarrow> pydict" where
  "invalid_json e = [(u ''seq'', PInt (fst e)), (u ''reason'', PStr (snd e))]"

section \<open>The list view\<close>

definition in_team :: "pystr option \<Rightarrow> pystr \<Rightarrow> bool" where
  "in_team team x = (team = None \<or> team = Some x)"

definition listed_tasks :: "ledger \<Rightarrow> pystr option \<Rightarrow> pystr option \<Rightarrow> bool \<Rightarrow> task_row list" where
  "listed_tasks l team run_id include_all = sort_key t_task_id (filter (\<lambda>t. in_team team (t_team_uid t) \<and>
     in_team run_id (t_run_id t) \<and> (include_all \<or> t_state t \<notin> set TERMINAL)) (dvalues (tasks l)))"

definition listed_runs :: "ledger \<Rightarrow> pystr option \<Rightarrow> pystr option \<Rightarrow> run_row list" where
  "listed_runs l team run_id = sort_key r_run_id (filter (\<lambda>r. in_team team (r_team_uid r) \<and> in_team run_id (r_run_id r))
     (dvalues (runs l)))"

definition list_view :: "ledger_view \<Rightarrow> pystr option \<Rightarrow> pystr option \<Rightarrow> bool \<Rightarrow> pydict" where
  "list_view v team run_id include_all = (let l = folded v in
     [(u ''highest_seq'', PInt (highest_seq v)), (u ''invalid'', PInt (int (invalid_count v))),
      (u ''invalid_events'', PList (map (PDict \<circ> invalid_json) (invalid_events l))),
      (u ''rejections'', PList (map (PDict \<circ> rejection_json) (filter (\<lambda>j. in_team team (j_team_uid j)) (rejections l)))),
      (u ''runs'', PList (map (PDict \<circ> run_json) (listed_runs l team run_id))),
      (u ''stream_status'', PStr (stream_status v)),
      (u ''tasks'', PList (map (PDict \<circ> task_json) (listed_tasks l team run_id include_all)))])"

section \<open>The worker view\<close>

text \<open>
  \<open>datetime.fromisoformat\<close> of the text with every \<open>Z\<close> replaced is an argument: no time, one
  without a zone, on which arithmetic with the aware clock raises \<open>TypeError\<close>, or seconds.
\<close>

datatype iso_time = Naive | Aware rat

definition replace_z :: "pystr \<Rightarrow> pystr" where
  "replace_z s = concat (map (\<lambda>c. if c = 90 then u ''+00:00'' else [c]) s)"

definition when_of :: "(pystr \<Rightarrow> iso_time option) \<Rightarrow> pyval \<Rightarrow> iso_time option" where
  "when_of clock v = (case v of PStr s \<Rightarrow> clock (replace_z s) | _ \<Rightarrow> None)"

definition age_of :: "(pystr \<Rightarrow> iso_time option) \<Rightarrow> rat \<Rightarrow> pyval \<Rightarrow> exn + pyval" where
  "age_of clock now v = (case when_of clock v of
       None \<Rightarrow> Inr PNone
     | Some Naive \<Rightarrow> Inl TypeError
     | Some (Aware t) \<Rightarrow> Inr (PInt (max 0 \<lfloor>now - t\<rfloor>)))"

text \<open>A finished task is shown to its assignee for a day.\<close>

definition shows_finished :: "(pystr \<Rightarrow> iso_time option) \<Rightarrow> rat \<Rightarrow> pystr \<Rightarrow> task_row \<Rightarrow> exn + bool" where
  "shows_finished clock now agent t =
     (if t_assignee t \<noteq> agent then Inr False
      else case when_of clock (t_last_at t) of
        None \<Rightarrow> Inr False
      | Some Naive \<Rightarrow> Inl TypeError
      | Some (Aware seen) \<Rightarrow> Inr (now - 86400 \<le> seen))"

definition worker_shows :: "(pystr \<Rightarrow> iso_time option) \<Rightarrow> rat \<Rightarrow> pystr \<Rightarrow> pystr \<Rightarrow> task_row \<Rightarrow> exn + bool" where
  "worker_shows clock now team agent t =
     (if t_team_uid t \<noteq> team then Inr False
      else if t_state t \<in> set TERMINAL then shows_finished clock now agent t else Inr True)"

text \<open>The fold gives every task the number of its last event when it adds the row, so \<open>None\<close> does not occur.\<close>

definition sort_seq :: "task_row \<Rightarrow> int" where
  "sort_seq t = (case t_last_seq t of Some n \<Rightarrow> n | None \<Rightarrow> 0)"

definition worker_row :: "pyval \<Rightarrow> task_row \<Rightarrow> pyval" where
  "worker_row age t = PDict [(u ''id'', PStr (t_task_id t)), (u ''run_id'', PStr (t_run_id t)), (u ''assignee'', PStr (t_assignee t)),
     (u ''state'', PStr (state_text (t_state t))), (u ''age'', age), (u ''deadline_at'', t_deadline_at t),
     (u ''turns'', PInt (t_turns t)), (u ''assignments'', PInt (t_assignments t)),
     (u ''title'', PStr (take 200 (t_title t))), (u ''last_summary'', PStr (take 200 (t_last_summary t)))]"

fun worker_rows ::
  "(pystr \<Rightarrow> iso_time option) \<Rightarrow> rat \<Rightarrow> pystr \<Rightarrow> pystr \<Rightarrow> task_row list \<Rightarrow> exn + (int \<times> pyval) list" where
  "worker_rows clock now team agent [] = Inr []"
| "worker_rows clock now team agent (t # ts) =
     bind_res (worker_shows clock now team agent t) (\<lambda>shown.
       if \<not> shown then worker_rows clock now team agent ts
       else bind_res (age_of clock now (t_created_at t)) (\<lambda>age.
         bind_res (worker_rows clock now team agent ts) (\<lambda>rows. Inr ((sort_seq t, worker_row age t) # rows))))"

definition worker_run_row :: "pyval \<Rightarrow> run_row \<Rightarrow> pyval" where
  "worker_run_row age r = PDict [(u ''id'', PStr (r_run_id r)), (u ''state'', PStr (run_text (r_state r))), (u ''age'', age)]"

fun worker_runs :: "(pystr \<Rightarrow> iso_time option) \<Rightarrow> rat \<Rightarrow> pystr \<Rightarrow> run_row list \<Rightarrow> exn + (int \<times> pyval) list" where
  "worker_runs clock now team [] = Inr []"
| "worker_runs clock now team (r # rs) =
     (if r_team_uid r = team \<and> r_state r \<notin> set CLOSED_RUN then
        bind_res (age_of clock now (r_created_at r)) (\<lambda>age. bind_res (worker_runs clock now team rs) (\<lambda>rows.
          Inr ((r_created_seq r, worker_run_row age r) # rows)))
      else worker_runs clock now team rs)"

definition own_rejection :: "rejection_row \<Rightarrow> pyval" where
  "own_rejection j = PDict [(u ''task_id'', j_task_id j), (u ''requested_type'', PStr (j_requested_type j)), (u ''reason'', PStr (j_reason j))]"

text \<open>\<open>rows.sort(key=..., reverse=True)\<close> keeps equal rows in order.\<close>

definition newest_first :: "(int \<times> pyval) list \<Rightarrow> pyval list" where
  "newest_first rows = map snd (sort_key (\<lambda>r. - fst r) rows)"

record worker_page =
  wp_seq :: int
  wp_invalid :: int
  wp_tasks :: "pyval list"
  wp_runs :: "pyval list"
  wp_rejections :: "pyval list"
  wp_truncated :: bool
  wp_dropped_tasks :: nat
  wp_dropped_runs :: nat
  wp_dropped_rejections :: nat

definition page_json :: "worker_page \<Rightarrow> pydict" where
  "page_json p = [(u ''highest_seq'', PInt (wp_seq p)), (u ''invalid'', PInt (wp_invalid p)), (u ''tasks'', PList (wp_tasks p)),
     (u ''runs'', PList (wp_runs p)), (u ''own_rejections'', PList (wp_rejections p)), (u ''truncated'', PBool (wp_truncated p)),
     (u ''dropped'', PDict [(u ''tasks'', PInt (int (wp_dropped_tasks p))), (u ''runs'', PInt (int (wp_dropped_runs p))),
        (u ''rejections'', PInt (int (wp_dropped_rejections p)))])]"

definition page_size :: "(pyfloat \<Rightarrow> pystr) \<Rightarrow> worker_page \<Rightarrow> exn + nat" where
  "page_size fr p = bind_res (utf8_encode (json_dumps fr False (PDict (page_json p)))) (\<lambda>bs. Inr (length bs))"

definition drop_task :: "worker_page \<Rightarrow> worker_page" where
  "drop_task p = p\<lparr>wp_tasks := butlast (wp_tasks p), wp_dropped_tasks := wp_dropped_tasks p + 1, wp_truncated := True\<rparr>"

definition drop_run :: "worker_page \<Rightarrow> worker_page" where
  "drop_run p = p\<lparr>wp_runs := butlast (wp_runs p), wp_dropped_runs := wp_dropped_runs p + 1, wp_truncated := True\<rparr>"

definition drop_rejection :: "worker_page \<Rightarrow> worker_page" where
  "drop_rejection p = p\<lparr>wp_rejections := tl (wp_rejections p), wp_dropped_rejections := wp_dropped_rejections p + 1,
     wp_truncated := True\<rparr>"

lemmas drop_defs = drop_task_def drop_run_def drop_rejection_def

definition page_rows :: "worker_page \<Rightarrow> nat" where
  "page_rows p = length (wp_tasks p) + length (wp_runs p) + length (wp_rejections p)"

lemma page_rows_drop:
  "wp_tasks p \<noteq> [] \<Longrightarrow> page_rows (drop_task p) < page_rows p"
  "wp_runs p \<noteq> [] \<Longrightarrow> page_rows (drop_run p) < page_rows p"
  "wp_rejections p \<noteq> [] \<Longrightarrow> page_rows (drop_rejection p) < page_rows p"
  by (simp_all add: page_rows_def drop_defs)

text \<open>While the page is larger than 32 KiB a row goes: tasks from the end, then runs, then old rejections.\<close>

function trim_page :: "(pyfloat \<Rightarrow> pystr) \<Rightarrow> worker_page \<Rightarrow> exn + worker_page" where
  "trim_page fr p = bind_res (page_size fr p) (\<lambda>n.
     if n \<le> 32 * 1024 then Inr p
     else if wp_tasks p \<noteq> [] then trim_page fr (drop_task p)
     else if wp_runs p \<noteq> [] then trim_page fr (drop_run p)
     else if wp_rejections p \<noteq> [] then trim_page fr (drop_rejection p)
     else Inr p)"
  by pat_completeness auto

termination
  by (relation "measure (\<lambda>(fr, p). page_rows p)") (simp_all add: page_rows_drop)

declare trim_page.simps [simp del]

definition first_page :: "ledger_view \<Rightarrow> pystr \<Rightarrow> (int \<times> pyval) list \<Rightarrow> (int \<times> pyval) list \<Rightarrow> worker_page" where
  "first_page v team rows run_rows =
     (let ts = newest_first rows; rs = newest_first run_rows;
          js = map own_rejection (filter (\<lambda>j. j_team_uid j = team) (rejections (folded v)));
          dt = length ts - 50; dr = length rs - 20; dj = length js - 20 in
      \<lparr>wp_seq = highest_seq v, wp_invalid = int (invalid_count v), wp_tasks = take 50 ts, wp_runs = take 20 rs,
       wp_rejections = drop dj js, wp_truncated = (dt \<noteq> 0 \<or> dr \<noteq> 0 \<or> dj \<noteq> 0),
       wp_dropped_tasks = dt, wp_dropped_runs = dr, wp_dropped_rejections = dj\<rparr>)"

definition worker_view ::
  "(pyfloat \<Rightarrow> pystr) \<Rightarrow> (pystr \<Rightarrow> iso_time option) \<Rightarrow> rat \<Rightarrow> ledger_view \<Rightarrow> pystr \<Rightarrow> pystr \<Rightarrow> exn + worker_page" where
  "worker_view fr clock now v team agent =
     bind_res (worker_rows clock now team agent (dvalues (tasks (folded v)))) (\<lambda>rows.
     bind_res (worker_runs clock now team (dvalues (runs (folded v)))) (\<lambda>run_rows.
       trim_page fr (first_page v team rows run_rows)))"

section \<open>The commands\<close>

datatype read_command =
    List_cmd (l_team: "pystr option") (l_run: "pystr option") (l_all: bool) (l_worker: bool) (l_agent: "pystr option")
  | Show_cmd pystr

text \<open>The exit status, the object printed and whether the warning of invalid events goes before it.\<close>

datatype read_result = Shown pydict bool | Exit int

definition some_text :: "pystr option \<Rightarrow> bool" where
  "some_text t = (t \<noteq> None \<and> t \<noteq> Some [])"

definition list_command ::
  "(pyfloat \<Rightarrow> pystr) \<Rightarrow> (pystr \<Rightarrow> iso_time option) \<Rightarrow> rat \<Rightarrow> ledger_view \<Rightarrow> pystr option \<Rightarrow> pystr option \<Rightarrow> bool \<Rightarrow> bool \<Rightarrow>
     pystr option \<Rightarrow> exn + read_result" where
  "list_command fr clock now v team run_id include_all worker agent =
     (if some_text run_id \<and> \<not> fullmatch RUN_RE (the run_id) then Inr (Exit 64)
      else if worker then
        (if some_text run_id \<or> include_all \<or> \<not> some_text team \<or> \<not> some_text agent \<or> \<not> fullmatch TOKEN_RE (the agent)
         then Inr (Exit 64)
         else bind_res (worker_view fr clock now v (the team) (the agent)) (\<lambda>p. Inr (Shown (page_json p) False)))
      else Inr (Shown (list_view v team run_id include_all) False))"

definition show_command :: "ledger_view \<Rightarrow> pystr \<Rightarrow> read_result" where
  "show_command v i =
     (let found = (\<lambda>x. case x of None \<Rightarrow> Exit 66 | Some d \<Rightarrow> Shown d (invalid_count v \<noteq> 0)) in
      if fullmatch RUN_RE i then found (map_option run_json (map_of (runs (folded v)) i))
      else if fullmatch TASK_RE i then found (map_option task_json (map_of (tasks (folded v)) i))
      else Exit 64)"

text \<open>\<open>main\<close> for the read commands, on the folded stream.\<close>

definition read_main ::
  "(pyfloat \<Rightarrow> pystr) \<Rightarrow> (pystr \<Rightarrow> iso_time option) \<Rightarrow> rat \<Rightarrow> exn + ledger_view \<Rightarrow> read_command \<Rightarrow> exn + read_result" where
  "read_main fr clock now stream cmd =
     (case bind_res stream (\<lambda>v. case cmd of
          List_cmd team run_id include_all worker agent \<Rightarrow> list_command fr clock now v team run_id include_all worker agent
        | Show_cmd i \<Rightarrow> Inr (show_command v i)) of
        Inl (LedgerError _) \<Rightarrow> Inr (Exit 64)
      | Inl e \<Rightarrow> if is_value_error e \<or> e = OSError then Inr (Exit 65) else Inl e
      | Inr r \<Rightarrow> Inr r)"

end
