(* ===== verification/TaskViewProps.thy ===== *)
theory TaskViewProps
  imports TaskViews LedgerSamples "HOL-Library.Sublist"
begin

text \<open>
  What the worker view promises: it always ends with a page of at most 32 KiB that accounts for
  every row left out, and what it shows depends on nothing but the team's own open work and
  the agent's own finished work.
\<close>

section \<open>Length and encoding of a page\<close>

lemma str_of_nat_short: "n < 10 ^ k \<Longrightarrow> length (str_of_nat n) \<le> max 1 k"
proof (induction n arbitrary: k rule: str_of_nat.induct)
  case (1 n)
  show ?case
  proof (cases "n < 10")
    case False
    then obtain j where k: "k = Suc j" using 1(2) by (cases k) auto
    with 1(2) have "n div 10 < 10 ^ j" by (simp add: less_mult_imp_div_less mult.commute)
    then have "length (str_of_nat (n div 10)) \<le> max 1 j" using 1(1) False by blast
    moreover have "0 < j" using \<open>n div 10 < 10 ^ j\<close> False by (cases j) auto
    ultimately show ?thesis using False k by (subst str_of_nat.simps) auto
  qed (simp add: str_of_nat.simps)
qed

lemma str_of_int_short: "0 \<le> n \<Longrightarrow> n < 10 ^ k \<Longrightarrow> 0 < k \<Longrightarrow> length (str_of_int n) \<le> k"
  using str_of_nat_short [of "nat n" k] by (auto simp: str_of_int_def nat_less_iff)

lemma str_of_nat_encodable: "\<not> list_ex is_surrogate (str_of_nat n)"
  by (auto simp: list_ex_iff is_surrogate_def dest!: str_of_nat_ascii)

lemma str_of_int_encodable: "\<not> list_ex is_surrogate (str_of_int n)"
  by (simp add: str_of_int_def str_of_nat_encodable) (simp add: is_surrogate_def)

lemma sep_by_encodable:
  "\<not> is_surrogate c \<Longrightarrow> list_ex is_surrogate (sep_by c xs) = (\<exists>x\<in>set xs. list_ex is_surrogate x)"
  by (induction c xs rule: sep_by.induct) auto

abbreviation encodes :: "(pyfloat \<Rightarrow> pystr) \<Rightarrow> pyval \<Rightarrow> bool" where
  "encodes fr v \<equiv> \<not> list_ex is_surrogate (json_dumps fr False v)"

lemma structural: "\<not> is_surrogate 44" "\<not> is_surrogate 58" "\<not> is_surrogate 91" "\<not> is_surrogate 93"
  "\<not> is_surrogate 123" "\<not> is_surrogate 125"
  by code_simp+

lemma key_encodes:
  "\<not> list_ex is_surrogate (concat (map (dump_char False) (u ''highest_seq'')))"
  "\<not> list_ex is_surrogate (concat (map (dump_char False) (u ''invalid'')))"
  "\<not> list_ex is_surrogate (concat (map (dump_char False) (u ''tasks'')))"
  "\<not> list_ex is_surrogate (concat (map (dump_char False) (u ''runs'')))"
  "\<not> list_ex is_surrogate (concat (map (dump_char False) (u ''own_rejections'')))"
  "\<not> list_ex is_surrogate (concat (map (dump_char False) (u ''truncated'')))"
  "\<not> list_ex is_surrogate (concat (map (dump_char False) (u ''dropped'')))"
  "\<not> list_ex is_surrogate (concat (map (dump_char False) (u ''rejections'')))"
  "\<not> list_ex is_surrogate (u ''true'')" "\<not> list_ex is_surrogate (u ''false'')" "\<not> is_surrogate QUOTE"
  by code_simp+

text \<open>A page can be encoded exactly when each of its rows can.\<close>

lemma page_encodes:
  "encodes fr (PDict (page_json p)) \<longleftrightarrow>
     (\<forall>x\<in>set (wp_tasks p). encodes fr x) \<and> (\<forall>x\<in>set (wp_runs p). encodes fr x) \<and> (\<forall>x\<in>set (wp_rejections p). encodes fr x)"
  by (auto simp: page_json_def sep_by_encodable str_of_int_encodable dump_string_def key_encodes
    structural)

lemma page_size_eq:
  "page_size fr p = (if encodes fr (PDict (page_json p))
     then Inr (length (concat (map utf8_char (json_dumps fr False (PDict (page_json p)))))) else Inl UnicodeError)"
  by (simp add: page_size_def utf8_encode_def)

text \<open>With no rows left a page is far below the limit.\<close>

definition page_numbers :: "nat \<Rightarrow> worker_page \<Rightarrow> bool" where
  "page_numbers k p = (0 \<le> wp_seq p \<and> wp_seq p < 10 ^ k \<and> 0 \<le> wp_invalid p \<and> wp_invalid p < 10 ^ k \<and>
     wp_dropped_tasks p < 10 ^ k \<and> wp_dropped_runs p < 10 ^ k \<and> wp_dropped_rejections p < 10 ^ k)"

lemma key_lengths:
  "length (concat (map (dump_char False) (u ''highest_seq''))) = 11"
  "length (concat (map (dump_char False) (u ''invalid''))) = 7"
  "length (concat (map (dump_char False) (u ''tasks''))) = 5"
  "length (concat (map (dump_char False) (u ''runs''))) = 4"
  "length (concat (map (dump_char False) (u ''own_rejections''))) = 14"
  "length (concat (map (dump_char False) (u ''truncated''))) = 9"
  "length (concat (map (dump_char False) (u ''dropped''))) = 7"
  "length (concat (map (dump_char False) (u ''rejections''))) = 10"
  by code_simp+

lemma empty_page_small:
  assumes "page_size fr p = Inr n" and "wp_tasks p = []" and "wp_runs p = []" and "wp_rejections p = []"
    and "page_numbers k p" and "0 < k"
  shows "n \<le> 4 * (160 + 5 * k)"
proof -
  have len: "length (str_of_int (wp_seq p)) \<le> k" "length (str_of_int (wp_invalid p)) \<le> k"
    "length (str_of_int (int (wp_dropped_tasks p))) \<le> k" "length (str_of_int (int (wp_dropped_runs p))) \<le> k"
    "length (str_of_int (int (wp_dropped_rejections p))) \<le> k"
    using assms(5,6) by (auto simp: page_numbers_def intro!: str_of_int_short)
  have "n \<le> 4 * length (json_dumps fr False (PDict (page_json p)))"
    using assms(1) by (auto simp: page_size_def bind_res_Inr dest: utf8_encode_length(2))
  moreover have "length (json_dumps fr False (PDict (page_json p))) \<le> 160 + 5 * k"
    using len assms(2-4) by (simp add: page_json_def dump_string_def key_lengths)
  ultimately show ?thesis by (meson mult_le_mono2 order_trans)
qed

section \<open>Trimming\<close>

lemma in_set_tl: "x \<in> set (tl xs) \<Longrightarrow> x \<in> set xs"
  by (cases xs) auto

lemma trim_fits:
  "trim_page fr p = Inr q \<Longrightarrow> \<exists>n. page_size fr q = Inr n \<and>
     (n \<le> 32 * 1024 \<or> wp_tasks q = [] \<and> wp_runs q = [] \<and> wp_rejections q = [])"
proof (induction fr p rule: trim_page.induct)
  case (1 fr p)
  from 1(4) show ?case
    using 1(1-3) by (subst (asm) trim_page.simps) (auto simp: bind_res_Inr split: if_splits)
qed

text \<open>Trimming keeps a prefix of the tasks and runs and a suffix of the rejections, and counts what it drops.\<close>

definition trimmed :: "worker_page \<Rightarrow> worker_page \<Rightarrow> bool" where
  "trimmed p q = (wp_seq q = wp_seq p \<and> wp_invalid q = wp_invalid p \<and>
     prefix (wp_tasks q) (wp_tasks p) \<and> prefix (wp_runs q) (wp_runs p) \<and> suffix (wp_rejections q) (wp_rejections p) \<and>
     length (wp_tasks q) + wp_dropped_tasks q = length (wp_tasks p) + wp_dropped_tasks p \<and>
     length (wp_runs q) + wp_dropped_runs q = length (wp_runs p) + wp_dropped_runs p \<and>
     length (wp_rejections q) + wp_dropped_rejections q = length (wp_rejections p) + wp_dropped_rejections p)"

definition counts_drops :: "worker_page \<Rightarrow> bool" where
  "counts_drops p = (wp_truncated p = (wp_dropped_tasks p \<noteq> 0 \<or> wp_dropped_runs p \<noteq> 0 \<or> wp_dropped_rejections p \<noteq> 0))"

lemma trimmed_refl: "trimmed p p"
  by (simp add: trimmed_def)

lemma trimmed_trans: "trimmed p q \<Longrightarrow> trimmed q r \<Longrightarrow> trimmed p r"
  unfolding trimmed_def by (auto intro: prefix_order.trans suffix_order.trans)

lemma trimmed_steps:
  "wp_tasks p \<noteq> [] \<Longrightarrow> trimmed p (drop_task p)"
  "wp_runs p \<noteq> [] \<Longrightarrow> trimmed p (drop_run p)"
  "wp_rejections p \<noteq> [] \<Longrightarrow> trimmed p (drop_rejection p)"
  by (auto simp: trimmed_def drop_defs prefixeq_butlast Suc_diff_le length_greater_0_conv Suc_leI suffix_tl)

text \<open>What holds along one dropped row holds for the whole trim.\<close>

lemma trim_induct:
  assumes "trim_page fr p = Inr q" and "\<And>p. P p p"
    and "\<And>p q. wp_tasks p \<noteq> [] \<Longrightarrow> P (drop_task p) q \<Longrightarrow> P p q"
    and "\<And>p q. wp_runs p \<noteq> [] \<Longrightarrow> P (drop_run p) q \<Longrightarrow> P p q"
    and "\<And>p q. wp_rejections p \<noteq> [] \<Longrightarrow> P (drop_rejection p) q \<Longrightarrow> P p q"
  shows "P p q"
  using assms(1)
proof (induction fr p rule: trim_page.induct)
  case (1 fr p)
  from 1(4) consider "q = p" | "wp_tasks p \<noteq> []" "P (drop_task p) q" | "wp_runs p \<noteq> []" "P (drop_run p) q"
    | "wp_rejections p \<noteq> []" "P (drop_rejection p) q"
    using 1(1-3) by (subst (asm) trim_page.simps) (auto simp: bind_res_Inr split: if_splits)
  then show ?case using assms(2-5) by cases auto
qed

lemma trim_trimmed: "trim_page fr p = Inr q \<Longrightarrow> trimmed p q"
  by (erule trim_induct) (auto intro: trimmed_refl trimmed_trans [OF trimmed_steps(1)]
    trimmed_trans [OF trimmed_steps(2)] trimmed_trans [OF trimmed_steps(3)])

lemma trim_counts: "trim_page fr p = Inr q \<Longrightarrow> counts_drops p \<longrightarrow> counts_drops q"
  by (erule trim_induct) (auto simp: counts_drops_def drop_defs)

lemma trim_ends: "encodes fr (PDict (page_json p)) \<Longrightarrow> \<exists>q. trim_page fr p = Inr q"
proof (induction fr p rule: trim_page.induct)
  case (1 fr p)
  have "encodes fr (PDict (page_json (drop_task p)))"
    "encodes fr (PDict (page_json (drop_run p)))"
    "encodes fr (PDict (page_json (drop_rejection p)))"
    using 1(4) by (auto simp: page_encodes drop_defs dest: in_set_butlastD in_set_tl simp del: json_dumps.simps)
  with 1 show ?case
    by (subst trim_page.simps) (simp add: page_size_eq del: json_dumps.simps)
qed

section \<open>Building the page\<close>

lemma newest_first_props: "length (newest_first rows) = length rows" "set (newest_first rows) = snd ` set rows"
  by (simp_all add: newest_first_def)

abbreviation zoned :: "(pystr \<Rightarrow> iso_time option) \<Rightarrow> pyval \<Rightarrow> bool" where
  "zoned clock v \<equiv> when_of clock v \<noteq> Some Naive"

lemma age_of_zoned: "zoned clock v \<Longrightarrow> \<exists>a. age_of clock now v = Inr a \<and> (a = PNone \<or> (\<exists>n. a = PInt n))"
  by (auto simp: age_of_def split: option.splits iso_time.splits)

lemma worker_shows_zoned: "zoned clock (t_last_at t) \<Longrightarrow> \<exists>b. worker_shows clock now team agent t = Inr b"
  by (auto simp: worker_shows_def shows_finished_def split: option.splits iso_time.splits)

lemma worker_row_encodes:
  "encodes fr (worker_row PNone t) \<Longrightarrow> a = PNone \<or> (\<exists>n. a = PInt n) \<Longrightarrow> encodes fr (worker_row a t)"
  by (auto simp: worker_row_def str_of_int_encodable sep_by_encodable structural)

text \<open>The rows of tasks whose timestamps carry a zone, whatever their number.\<close>

lemma worker_rows_exist:
  assumes "\<forall>t\<in>set ts. t_team_uid t = team \<longrightarrow> zoned clock (t_created_at t) \<and> zoned clock (t_last_at t) \<and>
      encodes fr (worker_row PNone t)"
  shows "\<exists>rows. worker_rows clock now team agent ts = Inr rows \<and>
     length rows = length (filter (\<lambda>t. worker_shows clock now team agent t = Inr True) ts) \<and> (\<forall>r\<in>set rows. encodes fr (snd r))"
  using assms
proof (induction ts)
  case (Cons t ts)
  then obtain rows where rows: "worker_rows clock now team agent ts = Inr rows"
    "length rows = length (filter (\<lambda>t. worker_shows clock now team agent t = Inr True) ts)" "\<forall>r\<in>set rows. encodes fr (snd r)"
    by auto
  show ?case
  proof (cases "t_team_uid t = team")
    case True
    then obtain b a where "worker_shows clock now team agent t = Inr b" "age_of clock now (t_created_at t) = Inr a"
      "a = PNone \<or> (\<exists>n. a = PInt n)"
      using Cons.prems worker_shows_zoned age_of_zoned by (metis list.set_intros(1))
    moreover have "encodes fr (worker_row PNone t)" using Cons.prems True by (simp del: json_dumps.simps)
    then have "encodes fr (worker_row a t)" by (rule worker_row_encodes) fact
    ultimately show ?thesis using rows by simp
  qed (use rows in \<open>simp add: worker_shows_def\<close>)
qed simp

lemma worker_run_encodes:
  "encodes fr (worker_run_row PNone r) \<Longrightarrow> a = PNone \<or> (\<exists>n. a = PInt n) \<Longrightarrow> encodes fr (worker_run_row a r)"
  by (auto simp: worker_run_row_def str_of_int_encodable sep_by_encodable structural)

lemma worker_runs_exist:
  assumes "\<forall>r\<in>set rs. r_team_uid r = team \<longrightarrow> zoned clock (r_created_at r) \<and> encodes fr (worker_run_row PNone r)"
  shows "\<exists>rows. worker_runs clock now team rs = Inr rows \<and>
     length rows = length (filter (\<lambda>r. r_team_uid r = team \<and> r_state r \<notin> set CLOSED_RUN) rs) \<and> (\<forall>r\<in>set rows. encodes fr (snd r))"
  using assms
proof (induction rs)
  case (Cons r rs)
  then obtain rows where rows: "worker_runs clock now team rs = Inr rows"
    "length rows = length (filter (\<lambda>r. r_team_uid r = team \<and> r_state r \<notin> set CLOSED_RUN) rs)" "\<forall>r\<in>set rows. encodes fr (snd r)"
    by auto
  show ?case
  proof (cases "r_team_uid r = team \<and> r_state r \<notin> set CLOSED_RUN")
    case True
    then obtain a where "age_of clock now (r_created_at r) = Inr a" "a = PNone \<or> (\<exists>n. a = PInt n)"
      using Cons.prems age_of_zoned by (metis list.set_intros(1))
    moreover have "encodes fr (worker_run_row PNone r)" using Cons.prems True by (simp del: json_dumps.simps)
    then have "encodes fr (worker_run_row a r)" by (rule worker_run_encodes) fact
    ultimately show ?thesis using rows True by simp
  qed (use rows in auto)
qed simp

text \<open>The first page holds the newest rows within the three bounds.\<close>

lemma first_page_counts: "counts_drops (first_page v team rows run_rows)"
  by (auto simp: counts_drops_def first_page_def Let_def)

lemma first_page_lengths:
  "length (wp_tasks (first_page v team rows run_rows)) \<le> 50"
  "length (wp_runs (first_page v team rows run_rows)) \<le> 20"
  "length (wp_rejections (first_page v team rows run_rows)) \<le> 20"
  "length (wp_tasks (first_page v team rows run_rows)) + wp_dropped_tasks (first_page v team rows run_rows) = length rows"
  "length (wp_runs (first_page v team rows run_rows)) + wp_dropped_runs (first_page v team rows run_rows) = length run_rows"
  "length (wp_rejections (first_page v team rows run_rows)) + wp_dropped_rejections (first_page v team rows run_rows) =
     length (filter (\<lambda>j. j_team_uid j = team) (rejections (folded v)))"
  "wp_seq (first_page v team rows run_rows) = highest_seq v" "wp_invalid (first_page v team rows run_rows) = int (invalid_count v)"
  by (auto simp: first_page_def Let_def newest_first_props)

lemma first_page_encodes:
  assumes "\<forall>r\<in>set rows. encodes fr (snd r)" and "\<forall>r\<in>set run_rows. encodes fr (snd r)"
    and "\<forall>j\<in>set (rejections (folded v)). j_team_uid j = team \<longrightarrow> encodes fr (own_rejection j)"
  shows "encodes fr (PDict (page_json (first_page v team rows run_rows)))"
  using assms by (auto simp: page_encodes first_page_def Let_def newest_first_props
    simp del: json_dumps.simps dest!: in_set_takeD in_set_dropD)

section \<open>The worker view\<close>

definition readable_view :: "(pyfloat \<Rightarrow> pystr) \<Rightarrow> (pystr \<Rightarrow> iso_time option) \<Rightarrow> ledger_view \<Rightarrow> pystr \<Rightarrow> bool" where
  "readable_view fr clock v team =
     ((\<forall>t\<in>set (dvalues (tasks (folded v))). t_team_uid t = team \<longrightarrow> zoned clock (t_created_at t) \<and> zoned clock (t_last_at t) \<and>
         encodes fr (worker_row PNone t)) \<and>
      (\<forall>r\<in>set (dvalues (runs (folded v))). r_team_uid r = team \<longrightarrow> zoned clock (r_created_at r) \<and> encodes fr (worker_run_row PNone r)) \<and>
      (\<forall>j\<in>set (rejections (folded v)). j_team_uid j = team \<longrightarrow> encodes fr (own_rejection j)))"

definition small_view :: "ledger_view \<Rightarrow> bool" where
  "small_view v = (0 \<le> highest_seq v \<and> highest_seq v < 10 ^ 1000 \<and> int (invalid_count v) < 10 ^ 1000 \<and>
     length (tasks (folded v)) < 10 ^ 1000 \<and> length (runs (folded v)) < 10 ^ 1000 \<and> length (rejections (folded v)) < 10 ^ 1000)"

lemma trimmed_lengths:
  assumes "trimmed (first_page v team rows run_rows) q"
  shows "length (wp_tasks q) \<le> 50" "length (wp_runs q) \<le> 20" "length (wp_rejections q) \<le> 20"
    "length (wp_tasks q) + wp_dropped_tasks q = length rows" "length (wp_runs q) + wp_dropped_runs q = length run_rows"
    "length (wp_rejections q) + wp_dropped_rejections q = length (filter (\<lambda>j. j_team_uid j = team) (rejections (folded v)))"
  using assms first_page_lengths [of v team rows run_rows]
  unfolding trimmed_def by (auto dest!: prefix_length_le suffix_length_le)

lemma trimmed_numbers:
  assumes "trimmed (first_page v team rows run_rows) q"
    and "length rows \<le> length (filter P (dvalues (tasks (folded v))))"
    and "length run_rows \<le> length (filter Q (dvalues (runs (folded v))))" and "small_view v"
  shows "page_numbers 1000 q"
proof -
  have le: "length rows \<le> length (tasks (folded v))" "length run_rows \<le> length (runs (folded v))"
    "length (filter (\<lambda>j. j_team_uid j = team) (rejections (folded v))) \<le> length (rejections (folded v))"
    using assms(2,3) length_filter_le [of P "dvalues (tasks (folded v))"] length_filter_le [of Q "dvalues (runs (folded v))"]
      length_filter_le [of _ "rejections (folded v)"] by (auto simp: dvalues_def intro: order_trans)
  have eq: "wp_seq q = highest_seq v" "wp_invalid q = int (invalid_count v)"
    using assms(1) first_page_lengths(7,8) by (simp_all add: trimmed_def)
  have "wp_dropped_tasks q \<le> length (tasks (folded v))" "wp_dropped_runs q \<le> length (runs (folded v))"
    "wp_dropped_rejections q \<le> length (rejections (folded v))"
    using le trimmed_lengths(4-6) [OF assms(1)] by linarith+
  then show ?thesis using assms(4) unfolding page_numbers_def small_view_def eq
    by (metis le_less_trans of_nat_0_le_iff)
qed

lemma page_fits:
  assumes "page_size fr q = Inr n"
    and "n \<le> 32 * 1024 \<or> wp_tasks q = [] \<and> wp_runs q = [] \<and> wp_rejections q = []" and "page_numbers 1000 q"
  shows "n \<le> 32 * 1024"
  using assms(2)
proof
  assume "wp_tasks q = [] \<and> wp_runs q = [] \<and> wp_rejections q = []"
  then have "n \<le> 4 * (160 + 5 * 1000)" by (intro empty_page_small [OF assms(1) _ _ _ assms(3)]) simp_all
  then show ?thesis by simp
qed

text \<open>
  C26: The view a confined worker reads comes when the team's timestamps are ISO times with a zone,
  its texts can be encoded in UTF-8 and the sequence number and the counts of the stream have at most
  1000 digits: then the trimming loop ends with a page of at most 32 KiB of JSON that
  holds at most 50 tasks, 20 runs and 20 rejections, whose drop counters account for every
  eligible row that is not shown, and which says truncated exactly when a row was dropped. Without
  a zone the view does not come (\<open>naive_time_escapes\<close>).
\<close>

theorem worker_view_delivers:
  assumes "readable_view fr clock v team" and "small_view v"
  shows "\<exists>p bs. worker_view fr clock now v team agent = Inr p \<and>
     utf8_encode (json_dumps fr False (PDict (page_json p))) = Inr bs \<and> length bs \<le> 32 * 1024 \<and>
     length (wp_tasks p) \<le> 50 \<and> length (wp_runs p) \<le> 20 \<and> length (wp_rejections p) \<le> 20 \<and>
     length (wp_tasks p) + wp_dropped_tasks p =
       length (filter (\<lambda>t. worker_shows clock now team agent t = Inr True) (dvalues (tasks (folded v)))) \<and>
     length (wp_runs p) + wp_dropped_runs p =
       length (filter (\<lambda>r. r_team_uid r = team \<and> r_state r \<notin> set CLOSED_RUN) (dvalues (runs (folded v)))) \<and>
     length (wp_rejections p) + wp_dropped_rejections p = length (filter (\<lambda>j. j_team_uid j = team) (rejections (folded v))) \<and>
     (wp_truncated p \<longleftrightarrow> wp_dropped_tasks p \<noteq> 0 \<or> wp_dropped_runs p \<noteq> 0 \<or> wp_dropped_rejections p \<noteq> 0)"
proof -
  obtain rows where rows: "worker_rows clock now team agent (dvalues (tasks (folded v))) = Inr rows"
    "length rows = length (filter (\<lambda>t. worker_shows clock now team agent t = Inr True) (dvalues (tasks (folded v))))"
    "\<forall>r\<in>set rows. encodes fr (snd r)"
    using worker_rows_exist [of "dvalues (tasks (folded v))" team clock fr now agent] assms(1)
    unfolding readable_view_def by blast
  obtain rrows where rrows: "worker_runs clock now team (dvalues (runs (folded v))) = Inr rrows"
    "length rrows = length (filter (\<lambda>r. r_team_uid r = team \<and> r_state r \<notin> set CLOSED_RUN) (dvalues (runs (folded v))))"
    "\<forall>r\<in>set rrows. encodes fr (snd r)"
    using worker_runs_exist [of "dvalues (runs (folded v))" team clock fr now] assms(1)
    unfolding readable_view_def by blast
  let ?p = "first_page v team rows rrows"
  have "encodes fr (PDict (page_json ?p))"
    using rows(3) rrows(3) assms(1) by (intro first_page_encodes) (auto simp: readable_view_def simp del: json_dumps.simps)
  then obtain q where q: "trim_page fr ?p = Inr q" using trim_ends by blast
  have view: "worker_view fr clock now v team agent = Inr q" using rows(1) rrows(1) q by (simp add: worker_view_def)
  have t: "trimmed ?p q" and c: "counts_drops q" using q trim_trimmed trim_counts first_page_counts by blast+
  obtain n where n: "page_size fr q = Inr n" "n \<le> 32 * 1024 \<or> wp_tasks q = [] \<and> wp_runs q = [] \<and> wp_rejections q = []"
    using trim_fits [OF q] by blast
  have "page_numbers 1000 q"
    by (rule trimmed_numbers [OF t rows(2)[THEN eq_refl] rrows(2)[THEN eq_refl] assms(2)])
  then have "n \<le> 32 * 1024" by (rule page_fits [OF n])
  moreover obtain bs where "utf8_encode (json_dumps fr False (PDict (page_json q))) = Inr bs" "length bs = n"
    using n(1) unfolding page_size_def bind_res_Inr by auto
  moreover note view trimmed_lengths [OF t]
  moreover have "wp_truncated q \<longleftrightarrow> wp_dropped_tasks q \<noteq> 0 \<or> wp_dropped_runs q \<noteq> 0 \<or> wp_dropped_rejections q \<noteq> 0"
    using c by (simp add: counts_drops_def)
  ultimately show ?thesis using rows(2) rrows(2) by auto
qed

text \<open>A task without a zone in its timestamp makes the view raise, and the command does not catch it.\<close>

lemma naive_time_escapes:
  assumes "worker_shows clock now team agent t = Inr True" and "when_of clock (t_created_at t) = Some Naive"
    and "dvalues (tasks (folded v)) = t # ts" and "some_text (Some team)" and "some_text (Some agent)" and "fullmatch TOKEN_RE agent"
  shows "read_main fr clock now (Inr v) (List_cmd (Some team) None False True (Some agent)) = Inl TypeError"
  using assms by (simp add: read_main_def list_command_def worker_view_def age_of_def is_value_error_def some_text_def)

section \<open>What the view depends on\<close>

definition scope_task :: "pystr \<Rightarrow> pystr \<Rightarrow> task_row \<Rightarrow> bool" where
  "scope_task team agent t = (t_team_uid t = team \<and> (t_state t \<in> set TERMINAL \<longrightarrow> t_assignee t = agent))"

definition scope_run :: "pystr \<Rightarrow> run_row \<Rightarrow> bool" where
  "scope_run team r = (r_team_uid r = team \<and> r_state r \<notin> set CLOSED_RUN)"

text \<open>The ledger as the agent may see it: its team's open work, its own finished work, its team's rejections.\<close>

definition worker_scope :: "ledger_view \<Rightarrow> pystr \<Rightarrow> pystr \<Rightarrow> ledger_view" where
  "worker_scope v team agent = v\<lparr>stream_status := [],
     folded := \<lparr>runs = filter (\<lambda>(k, r). scope_run team r) (runs (folded v)),
       tasks = filter (\<lambda>(k, t). scope_task team agent t) (tasks (folded v)),
       rejections = filter (\<lambda>j. j_team_uid j = team) (rejections (folded v)),
       invalid_events = [], stream_project = None\<rparr>\<rparr>"

lemma worker_rows_scope:
  "worker_rows clock now team agent (filter (scope_task team agent) ts) = worker_rows clock now team agent ts"
proof (induction ts)
  case (Cons t ts)
  have "worker_shows clock now team agent t = Inr False" if "\<not> scope_task team agent t"
    using that by (auto simp: scope_task_def worker_shows_def shows_finished_def)
  then show ?case using Cons by (cases "scope_task team agent t") (simp_all cong: if_cong)
qed simp

lemma worker_runs_scope:
  "worker_runs clock now team (filter (scope_run team) rs) = worker_runs clock now team rs"
  by (induction rs) (simp_all add: scope_run_def)

lemma dvalues_filter: "dvalues (filter (\<lambda>(k, x). P x) d) = filter P (dvalues d)"
  by (induction d) (auto simp: dvalues_def)

lemma worker_view_scope: "worker_view fr clock now (worker_scope v team agent) team agent = worker_view fr clock now v team agent"
proof -
  have "first_page (worker_scope v team agent) team = first_page v team"
    by (intro ext) (simp add: first_page_def worker_scope_def)
  moreover have "worker_rows clock now team agent (dvalues (tasks (folded (worker_scope v team agent)))) =
      worker_rows clock now team agent (dvalues (tasks (folded v)))"
    "worker_runs clock now team (dvalues (runs (folded (worker_scope v team agent)))) =
      worker_runs clock now team (dvalues (runs (folded v)))"
    by (simp_all add: worker_scope_def dvalues_filter worker_rows_scope worker_runs_scope)
  ultimately show ?thesis unfolding worker_view_def by presburger
qed

lemma worker_rows_from:
  "worker_rows clock now team agent ts = Inr rows \<Longrightarrow> r \<in> set rows \<Longrightarrow>
     \<exists>t a. t \<in> set ts \<and> snd r = worker_row a t \<and> worker_shows clock now team agent t = Inr True"
proof (induction ts arbitrary: rows)
  case (Cons t ts)
  then show ?case by (auto simp: bind_res_Inr split: if_splits) (metis snd_conv)+
qed simp

lemma shown_row:
  assumes "worker_shows clock now team agent t = Inr True"
  shows "t_team_uid t = team \<and> (t_state t \<in> set TERMINAL \<longrightarrow> t_assignee t = agent \<and>
    (\<exists>s. when_of clock (t_last_at t) = Some (Aware s) \<and> now - 86400 \<le> s))"
  using assms by (auto simp: worker_shows_def shows_finished_def split: if_splits option.splits iso_time.splits)

lemma page_rows_from:
  assumes "worker_view fr clock now v team agent = Inr p" and "row \<in> set (wp_tasks p)"
  shows "\<exists>t a. t \<in> set (dvalues (tasks (folded v))) \<and> row = worker_row a t \<and> worker_shows clock now team agent t = Inr True"
proof -
  obtain rows rrows where rows: "worker_rows clock now team agent (dvalues (tasks (folded v))) = Inr rows"
    and trim: "trim_page fr (first_page v team rows rrows) = Inr p"
    using assms(1) by (auto simp: worker_view_def bind_res_Inr)
  have "row \<in> set (wp_tasks (first_page v team rows rrows))"
    using trim_trimmed [OF trim] assms(2) set_mono_prefix by (fastforce simp: trimmed_def)
  then obtain r where "r \<in> set rows" "row = snd r"
    by (auto simp: first_page_def Let_def newest_first_props dest!: in_set_takeD)
  then show ?thesis using worker_rows_from [OF rows] by metis
qed

text \<open>
  C27: The worker view is confined, but for two numbers of the whole stream: \<open>highest_seq\<close> and the
  count of invalid events, which it shows whichever team they come from. Beyond these it is a
  function of the agent's scope (its team's open tasks and runs, its own finished tasks, its team's
  rejections): the ledger cut down to that scope, with the two numbers kept, gives the same
  result, error or page. And every task shown is one of the team's, a finished one only to its own
  assignee within a day of its last event.
\<close>

theorem worker_view_confined:
  "worker_view fr clock now (worker_scope v team agent) team agent = worker_view fr clock now v team agent \<and>
   (\<forall>p row. worker_view fr clock now v team agent = Inr p \<and> row \<in> set (wp_tasks p) \<longrightarrow>
     (\<exists>t a. t \<in> set (dvalues (tasks (folded v))) \<and> row = worker_row a t \<and> t_team_uid t = team \<and>
       (t_state t \<in> set TERMINAL \<longrightarrow> t_assignee t = agent \<and>
          (\<exists>s. when_of clock (t_last_at t) = Some (Aware s) \<and> now - 86400 \<le> s))))"
  using worker_view_scope page_rows_from shown_row by metis

section \<open>A sample view\<close>

definition smp_view :: ledger_view where
  "smp_view = \<lparr>stream_status = u ''ok'', highest_seq = 4, invalid_count = 0,
     folded = smp_ledger [smp_ev_run, smp_ev_create, smp_ev_start, smp_ev_done]\<rparr>"

definition smp_clock :: "pystr \<Rightarrow> iso_time option" where
  "smp_clock s = (if s = u ''2026-10-27T12:00:00+00:00'' then Some (Aware 100) else None)"

lemma smp_view_readable: "readable_view (\<lambda>_. []) smp_clock smp_view (u ''acme-engine'')"
  by code_simp

lemma below_power: "x < 10 \<Longrightarrow> 0 < n \<Longrightarrow> x < (10::'a::linordered_semidom) ^ n"
  using power_increasing [of 1 n "10::'a"] by (auto intro: less_le_trans)

lemma smp_view_small: "small_view smp_view"
proof -
  have "highest_seq smp_view = 4" "invalid_count smp_view = 0" by (simp_all add: smp_view_def)
  moreover have "length (tasks (folded smp_view)) = 1" "length (runs (folded smp_view)) = 1" "length (rejections (folded smp_view)) = 0"
    by code_simp+
  ultimately show ?thesis
    unfolding small_view_def by (intro conjI below_power) simp_all
qed

theorem worker_view_delivers_witness:
  "\<exists>p bs. worker_view (\<lambda>_. []) smp_clock 200 smp_view (u ''acme-engine'') (u ''acme-dev1'') = Inr p \<and>
     utf8_encode (json_dumps (\<lambda>_. []) False (PDict (page_json p))) = Inr bs \<and> length bs \<le> 32 * 1024"
  using worker_view_delivers [OF smp_view_readable smp_view_small, of 200 "u ''acme-dev1''"] by blast

theorem worker_view_confined_witness:
  "\<exists>p. worker_view (\<lambda>_. []) smp_clock 200 smp_view (u ''acme-engine'') (u ''acme-dev1'') = Inr p \<and> length (wp_tasks p) = 1 \<and>
     (\<forall>row\<in>set (wp_tasks p). \<exists>t a. row = worker_row a t \<and> t_assignee t = u ''acme-dev1'')"
proof -
  have "map_option (\<lambda>p. length (wp_tasks p)) (case worker_view (\<lambda>_. []) smp_clock 200 smp_view (u ''acme-engine'') (u ''acme-dev1'') of
      Inr p \<Rightarrow> Some p | Inl _ \<Rightarrow> None) = Some 1"
    by code_simp
  then obtain p where p: "worker_view (\<lambda>_. []) smp_clock 200 smp_view (u ''acme-engine'') (u ''acme-dev1'') = Inr p"
    "length (wp_tasks p) = 1" by (auto split: sum.splits)
  have "list_all (\<lambda>t. t_state t \<in> set TERMINAL) (dvalues (tasks (folded smp_view)))" by code_simp
  then have fin: "\<forall>t\<in>set (dvalues (tasks (folded smp_view))). t_state t \<in> set TERMINAL" by (simp add: list_all_iff)
  have "\<exists>t a. row = worker_row a t \<and> t_assignee t = u ''acme-dev1''" if "row \<in> set (wp_tasks p)" for row
    using worker_view_confined [THEN conjunct2, rule_format, OF conjI, OF p(1) that] fin by blast
  then show ?thesis using p by blast
qed

end
