(* ===== verification/BrokerResponse.thy ===== *)
theory BrokerResponse
  imports JsonBytes TaskBody
begin

text \<open>
  The relay of a broker's response (\<open>lib/aib_broker_response.py\<close>): output chunks are copied to
  standard output, the fields of the terminal frame become the launcher's exit status, and the
  attempt's id is left in the metadata file the launcher prepared.
\<close>

section \<open>Reading\<close>

text \<open>\<open>stream.readline()\<close>: up to and including the first LF, with the rest of the stream.\<close>

definition readline :: "bytes \<Rightarrow> bytes \<times> bytes" where
  "readline bs = (let l = takeWhile (\<lambda>b. b \<noteq> 10) bs; r = dropWhile (\<lambda>b. b \<noteq> 10) bs in
     (l @ take 1 r, drop 1 r))"

lemma readline_append: "fst (readline bs) @ snd (readline bs) = bs"
  by (simp add: readline_def Let_def)

lemma readline_shorter: "bs \<noteq> [] \<Longrightarrow> length (snd (readline bs)) < length bs"
  by (cases bs) (auto simp: readline_def Let_def length_dropWhile_le le_imp_less_Suc
      intro: le_less_trans [OF diff_le_self])

definition ascii_space :: "8 word \<Rightarrow> bool" where
  "ascii_space b = (b \<in> {9, 10, 11, 12, 13, 32})"

definition strip_bytes :: "bytes \<Rightarrow> bytes" where
  "strip_bytes bs = rev (dropWhile ascii_space (rev (dropWhile ascii_space bs)))"

text \<open>
  \<open>int(b)\<close> of a byte string: an optional sign and ASCII digits, with single underscores between
  digits; at most 4300 digits.
\<close>

fun digit_groups :: "bytes \<Rightarrow> bool" where
  "digit_groups [] = False"
| "digit_groups [d] = byte_digit d"
| "digit_groups (d # e # r) = (byte_digit d \<and> (if e = 95 then digit_groups r else digit_groups (e # r)))"

definition int_of_bytes :: "bytes \<Rightarrow> exn + int" where
  "int_of_bytes bs = (let s = strip_bytes bs;
       neg = startswith s [45]; t = (if neg \<or> startswith s [43] then tl s else s);
       ds = filter (\<lambda>b. b \<noteq> 95) t in
     if \<not> digit_groups t \<or> 4300 < length ds then Inl (ValueError (u ''int''))
     else Inr (if neg then - int (digits_value (ascii_text ds)) else int (digits_value (ascii_text ds))))"

section \<open>The attempt's metadata file\<close>

text \<open>
  Whether \<open>AIB_ATTEMPT_META_PATH\<close> is set, what is at that path, the effective user, and how
  many bytes the device takes after the file was truncated.
\<close>

record attempt_meta =
  am_set :: bool
  am_entry :: "dir_entry option"
  am_euid :: nat
  am_room :: nat

definition ATTEMPT_RE :: re where
  "ATTEMPT_RE = Seq (Plus (Cls ALNUM)) (Star (Seq (Lit (u ''-'')) (Plus (Cls ALNUM))))"

definition persist_attempt :: "pystr \<Rightarrow> attempt_meta \<Rightarrow> bool \<times> attempt_meta" where
  "persist_attempt v m =
     (if \<not> am_set m then (True, m)
      else if \<not> fullmatch ATTEMPT_RE v then (False, m)
      else case am_entry m of
        Some (Inode f) \<Rightarrow>
          if \<not> f_regular f \<or> f_uid f \<noteq> am_euid m \<or> f_nlink f \<noteq> 1 \<or> f_mode f \<noteq> 384 then (False, m)
          else let encoded = ascii_bytes (v @ [10]) in
            (length encoded \<le> am_room m, m\<lparr>am_entry := Some (Inode (f\<lparr>f_data := take (am_room m) encoded\<rparr>))\<rparr>)
      | _ \<Rightarrow> (False, m))"

section \<open>The frames\<close>

definition CHUNK :: bytes where
  "CHUNK = ascii_bytes (u ''chunk_bytes='')"

text \<open>The relayed bytes, the fields and whether the terminal field was seen.\<close>

record relay =
  r_out :: bytes
  r_fields :: "(pystr, pystr) dict"
  r_end :: bool

definition note_field :: "pystr \<Rightarrow> relay \<Rightarrow> relay" where
  "note_field line r = (case partitionc 61 line of (key, sep, v) \<Rightarrow>
     if sep then r\<lparr>r_fields := dset key v (r_fields r), r_end := (r_end r \<or> key = u ''end'')\<rparr> else r)"

definition strip_newlines :: "pystr \<Rightarrow> pystr" where
  "strip_newlines s = rev (dropWhile (\<lambda>c. c = 10) (rev s))"

text \<open>
  The loop over the stream; \<open>False\<close> stands for the return of 69. A negative size reads
  everything and then fails the length test. A size of \<open>2 ^ 63\<close> or more fails the length test here
  too, where \<open>BytesIO.read\<close> raises \<open>OverflowError\<close> and the relay ends with a traceback.
\<close>

function relay_frames :: "bytes \<Rightarrow> relay \<Rightarrow> bool \<times> relay" where
  "relay_frames bs r =
     (if bs = [] then (True, r)
      else let raw = fst (readline bs); rest = snd (readline bs) in
        if startswith raw CHUNK then
          (case int_of_bytes (removeprefix raw CHUNK) of
             Inl _ \<Rightarrow> (False, r)
           | Inr len \<Rightarrow>
               if fst (readline rest) \<noteq> [10] then (False, r)
               else let body = snd (readline rest) in
                 if len < 0 \<or> length body < nat len then (False, r)
                 else relay_frames (drop (nat len) body) (r\<lparr>r_out := r_out r @ take (nat len) body\<rparr>))
        else (case utf8_decode raw of
            Inl _ \<Rightarrow> (False, r)
          | Inr text \<Rightarrow> relay_frames rest (note_field (strip_newlines text) r)))"
  by pat_completeness auto

termination
proof (relation "measure (\<lambda>(bs, r). length bs)")
  fix bs :: bytes and r raw rest t
  assume "bs \<noteq> []" "rest = snd (readline bs)"
  then show "((rest, note_field (strip_newlines t) r), (bs, r)) \<in> measure (\<lambda>(bs, r). length bs)"
    using readline_shorter by simp
next
  fix bs :: bytes and r :: relay and raw rest body :: bytes and len :: int
  assume "bs \<noteq> []" "rest = snd (readline bs)" "\<not> fst (readline rest) \<noteq> [10]" "body = snd (readline rest)"
  then have "length body < length bs" using readline_shorter [of bs] readline_append [of rest]
    by (metis append_Cons append_Nil length_Cons less_SucI less_trans lessI)
  then show "((drop (nat len) body, r\<lparr>r_out := r_out r @ take (nat len) body\<rparr>), (bs, r))
      \<in> measure (\<lambda>(bs, r). length bs)" by simp
qed (rule wf_measure)

declare relay_frames.simps [simp del]

section \<open>The status\<close>

definition SIGNALS :: "(string \<times> int) list" where
  "SIGNALS = [(''HUP'', 129), (''INT'', 130), (''KILL'', 137), (''TERM'', 143)]"

definition field_or :: "relay \<Rightarrow> string \<Rightarrow> pystr \<Rightarrow> pystr" where
  "field_or r k v = (case map_of (r_fields r) (u k) of None \<Rightarrow> v | Some w \<Rightarrow> w)"

definition exit_of_signal :: "pystr \<Rightarrow> exn + int" where
  "exit_of_signal s = (case find (\<lambda>(k, n). s = u k) SIGNALS of
       Some (k, n) \<Rightarrow> Inr n
     | None \<Rightarrow>
         if startswith s (u ''SIGNAL-'') \<and> isdigit (drop 7 s)
         then bind_res (int_of_digits (drop 7 s)) (\<lambda>n. Inr (min (128 + n) 255))
         else Inr 69)"

definition exit_of_fields :: "relay \<Rightarrow> exn + int" where
  "exit_of_fields r =
     (if field_or r ''exit_class'' [] = u ''ok'' then Inr 0
      else if field_or r ''exit_code'' [] \<noteq> [] \<and> isdigit (field_or r ''exit_code'' [])
        then bind_res (int_of_digits (field_or r ''exit_code'' [])) (\<lambda>n. Inr (min n 255))
      else exit_of_signal (field_or r ''signal'' []))"

definition parse :: "bytes \<Rightarrow> attempt_meta \<Rightarrow> (exn + int) \<times> bytes \<times> attempt_meta" where
  "parse data m =
     (if data = [] then (Inr 69, [], m)
      else case relay_frames data \<lparr>r_out = [], r_fields = [], r_end = False\<rparr> of
        (False, r) \<Rightarrow> (Inr 69, r_out r, m)
      | (True, r) \<Rightarrow>
          if \<not> r_end r then (Inr 69, r_out r, m)
          else if field_or r ''reason'' [] = u ''over_capacity'' then (Inr 75, r_out r, m)
          else if field_or r ''end'' [] \<noteq> u ''ok'' then (Inr 69, r_out r, m)
          else (case persist_attempt (field_or r ''attempt_id'' []) m of
              (False, m') \<Rightarrow> (Inr 69, r_out r, m')
            | (True, m') \<Rightarrow> (exit_of_fields r, r_out r, m')))"

text \<open>\<open>main\<close>: one argument, the path of the response; \<open>None\<close> where it cannot be read.\<close>

definition response_main :: "nat \<Rightarrow> bytes option \<Rightarrow> attempt_meta \<Rightarrow> (exn + int) \<times> bytes \<times> attempt_meta" where
  "response_main argc file m =
     (if argc \<noteq> 2 then (Inr 69, [], m)
      else case file of None \<Rightarrow> (Inr 69, [], m) | Some data \<Rightarrow> parse data m)"

section \<open>A response as the broker writes it\<close>

definition chunk_frame :: "bytes \<Rightarrow> bytes" where
  "chunk_frame p = CHUNK @ ascii_bytes (str_of_nat (length p)) @ [10, 10] @ p"

definition field_line :: "pystr \<times> pystr \<Rightarrow> bytes" where
  "field_line f = ascii_bytes (fst f @ [61] @ snd f @ [10])"

definition response :: "bytes list \<Rightarrow> (pystr \<times> pystr) list \<Rightarrow> bytes" where
  "response chunks fs = concat (map chunk_frame chunks) @ concat (map field_line fs)"

text \<open>A field of printable ASCII whose key is not the chunk marker.\<close>

definition plain_field :: "pystr \<times> pystr \<Rightarrow> bool" where
  "plain_field f = (list_all (\<lambda>c. 32 \<le> c \<and> c < 127) (fst f @ snd f) \<and> 61 \<notin> set (fst f) \<and>
     fst f \<noteq> u ''chunk_bytes'')"

end
