(* ===== verification/BrokerProps.thy ===== *)
theory BrokerProps
  imports BrokerResponse
begin

text \<open>
  The broker's answer to the launcher: a well-formed response is relayed byte for byte and its
  status is the launcher's; a status of zero is never produced without the terminal frame.
\<close>

section \<open>Numbers and lines\<close>









section \<open>Relaying a well-formed response\<close>










section \<open>Properties\<close>

lemma strip_nl_meta: "fullmatch ATTEMPT_RE a \<Longrightarrow> a \<noteq> []"
  by (auto simp: ATTEMPT_RE_def Plus_def Cls_def)

definition meta_ready :: "attempt_meta \<Rightarrow> body_file \<Rightarrow> bool" where
  "meta_ready m f = (am_set m \<and> am_entry m = Some (Inode f) \<and> f_regular f \<and> f_uid f = am_euid m \<and>
     f_nlink f = 1 \<and> f_mode f = 384)"


lemma persist_True:
  assumes "persist_attempt a m = (True, m')" and "am_set m"
  shows "\<exists>f. meta_ready m f \<and> m' = m\<lparr>am_entry := Some (Inode (f\<lparr>f_data := ascii_bytes (a @ [10])\<rparr>))\<rparr> \<and> fullmatch ATTEMPT_RE a"
  using assms
  by (auto simp: persist_attempt_def meta_ready_def Let_def split: if_splits option.splits dir_entry.splits)

text \<open>
  C17: An exit value of zero is earned. The launcher reports success only for a response that
  parsed to its end and whose terminal frame says ok and carries the class ok or the code 0,
  and, when it prepared a metadata file, only after the valid attempt id was stored in it.
\<close>

theorem exit_zero_is_earned:
  assumes "parse data m = (Inr 0, out, m')"
  shows "\<exists>r. relay_frames data \<lparr>r_out = [], r_fields = [], r_end = False\<rparr> = (True, r) \<and> out = r_out r \<and> r_end r \<and>
    field_or r ''end'' [] = u ''ok'' \<and>
    (field_or r ''exit_class'' [] = u ''ok'' \<or> int_of_digits (field_or r ''exit_code'' []) = Inr 0) \<and>
    (am_set m \<longrightarrow> (\<exists>f. meta_ready m f \<and> fullmatch ATTEMPT_RE (field_or r ''attempt_id'' []) \<and>
       am_entry m' = Some (Inode (f\<lparr>f_data := ascii_bytes (field_or r ''attempt_id'' [] @ [10])\<rparr>))))"
proof -
  obtain ok r where r: "relay_frames data \<lparr>r_out = [], r_fields = [], r_end = False\<rparr> = (ok, r)"
    by (cases "relay_frames data \<lparr>r_out = [], r_fields = [], r_end = False\<rparr>")
  obtain st m1 where p: "persist_attempt (field_or r ''attempt_id'' []) m = (st, m1)"
    by (cases "persist_attempt (field_or r ''attempt_id'' []) m")
  have all: "ok" "r_end r" "field_or r ''end'' [] = u ''ok''" "st" "exit_of_fields r = Inr 0" "out = r_out r" "m' = m1"
    using assms r p by (auto simp: parse_def split: if_splits bool.splits)
  have sig: "exit_of_signal s \<noteq> Inr 0" for s
  proof
    assume z: "exit_of_signal s = Inr 0"
    show False
    proof (cases "find (\<lambda>(k, n). s = u k) SIGNALS")
      case None
      with z show False
        by (auto simp: exit_of_signal_def bind_res_Inr int_of_digits_def split: if_splits)
    next
      case (Some kn)
      then have "snd kn \<in> {129, 130, 137, 143}" by (auto simp: SIGNALS_def split: if_splits)
      with z Some show False by (auto simp: exit_of_signal_def split: prod.splits)
    qed
  qed
  have "field_or r ''exit_class'' [] = u ''ok'' \<or> int_of_digits (field_or r ''exit_code'' []) = Inr 0"
    using all(5) sig by (auto simp: exit_of_fields_def bind_res_Inr min_def split: if_splits)
  moreover have "am_set m \<longrightarrow> (\<exists>f. meta_ready m f \<and> fullmatch ATTEMPT_RE (field_or r ''attempt_id'' []) \<and>
       am_entry m' = Some (Inode (f\<lparr>f_data := ascii_bytes (field_or r ''attempt_id'' [] @ [10])\<rparr>)))"
  proof
    assume "am_set m"
    with persist_True [of "field_or r ''attempt_id'' []" m m1] p all(4) obtain f where
      "meta_ready m f" "fullmatch ATTEMPT_RE (field_or r ''attempt_id'' [])"
      "m1 = m\<lparr>am_entry := Some (Inode (f\<lparr>f_data := ascii_bytes (field_or r ''attempt_id'' [] @ [10])\<rparr>))\<rparr>" by auto
    then show "\<exists>f. meta_ready m f \<and> fullmatch ATTEMPT_RE (field_or r ''attempt_id'' []) \<and>
       am_entry m' = Some (Inode (f\<lparr>f_data := ascii_bytes (field_or r ''attempt_id'' [] @ [10])\<rparr>))"
      using all(7) by (intro exI [of _ f]) simp
  qed
  ultimately show ?thesis using r all by auto
qed

text \<open>
  Every exit value of the relay lies between 0 and 255, and the only exception that can
  leave it is the \<open>ValueError\<close> of a number \<open>isdigit\<close> accepts and \<open>int\<close> does not.
\<close>

theorem relay_exit_range:
  "case fst (response_main argc file m) of
     Inr n \<Rightarrow> 0 \<le> n \<and> n \<le> 255
   | Inl e \<Rightarrow> is_value_error e \<and> (\<exists>s. isdigit s \<and> int_of_digits s = Inl e)"
proof -
  have d: "0 \<le> n" if "int_of_digits s = Inr n" for s n using that by (auto simp: int_of_digits_def split: if_splits)
  have dv: "is_value_error e" if "int_of_digits s = Inl e" for s e
    using that by (auto simp: int_of_digits_def is_value_error_def split: if_splits)
  let ?P = "\<lambda>x. case x of Inr n \<Rightarrow> 0 \<le> n \<and> n \<le> 255 | Inl e \<Rightarrow> is_value_error e \<and> (\<exists>s. isdigit s \<and> int_of_digits s = Inl e)"
  have num: "?P (bind_res (int_of_digits s) (\<lambda>n. Inr (min (k + n) 255)))" if "isdigit s" "0 \<le> k" for s k
    using that d dv by (cases "int_of_digits s") (auto simp: min_def)
  have sig: "?P (exit_of_signal s)" for s
  proof (cases "find (\<lambda>(k, n). s = u k) SIGNALS")
    case None
    with num [of "drop 7 s" 128] show ?thesis by (simp add: exit_of_signal_def)
  next
    case (Some kn)
    then have "snd kn \<in> {129, 130, 137, 143}" by (auto simp: SIGNALS_def split: if_splits)
    with Some show ?thesis by (auto simp: exit_of_signal_def split: prod.splits)
  qed
  have ex: "?P (exit_of_fields r)" for r
    using num [of "field_or r ''exit_code'' []" 0] sig by (simp add: exit_of_fields_def)
  show ?thesis
    using ex by (simp add: response_main_def parse_def split: option.split prod.split bool.split)
qed

section \<open>Witnesses\<close>

definition smp_meta :: attempt_meta where
  "smp_meta = \<lparr>am_set = True, am_entry = Some (Inode \<lparr>f_regular = True, f_uid = 5, f_gid = 5, f_nlink = 1,
     f_mode = 384, f_data = []\<rparr>), am_euid = 5, am_room = 100\<rparr>"



theorem exit_zero_is_earned_witness:
  "\<exists>(r :: relay) out m'. parse (response [[7]] [(u ''exit_class'', u ''ok''), (u ''attempt_id'', u ''a-1''), (u ''end'', u ''ok'')]) smp_meta =
     (Inr 0, out, m') \<and> out = r_out r \<and> r_end r"
proof -
  let ?fs = "[(u ''exit_class'', u ''ok''), (u ''attempt_id'', u ''a-1''), (u ''end'', u ''ok'')]"
  have "fst (parse (response [[7]] ?fs) smp_meta) = Inr 0" by code_simp
  then obtain out m' where p: "parse (response [[7]] ?fs) smp_meta = (Inr 0, out, m')"
    by (metis prod.collapse)
  from exit_zero_is_earned [OF p] p show ?thesis by blast
qed

text \<open>An exit code of the superscript two is a digit for \<open>isdigit\<close> and ends the relay with an exception.\<close>

lemma superscript_exit_code:
  "\<exists>e. exit_of_fields \<lparr>r_out = [], r_fields = [(u ''exit_code'', [178])], r_end = True\<rparr> = Inl e"
  by (simp add: exit_of_fields_def field_or_def isdigit_def int_of_digits_def isdecimal_def digit_value_def
      decimal_starts_def other_digits_def in_charset_def)

end
