(* ===== verification/PyText.thy ===== *)
theory PyText
  imports JsonBytes
begin

text \<open>
  The text operations of the control plane: \<open>str.strip\<close>, \<open>str.splitlines\<close>, the lines of a text
  file, subscripts and \<open>int\<close> of a JSON value, and lines of JSON records as the journals of the
  program hold them: what was appended is what is read back, in order.
\<close>

section \<open>White space and lines\<close>

definition py_space :: "nat \<Rightarrow> bool" where
  "py_space c = in_charset c [(9, 13), (28, 32), (133, 133), (160, 160), (5760, 5760), (8192, 8202),
     (8232, 8233), (8239, 8239), (8287, 8287), (12288, 12288)]"

definition str_strip :: "pystr \<Rightarrow> pystr" where
  "str_strip s = rev (dropWhile py_space (rev (dropWhile py_space s)))"

text \<open>Lines that end at any of the given characters, CR LF counting as one end.\<close>

function lines_by :: "(nat \<Rightarrow> bool) \<Rightarrow> pystr \<Rightarrow> pystr list" where
  "lines_by brk s = (if s = [] then [] else
     (let l = takeWhile (\<lambda>c. \<not> brk c) s; r = dropWhile (\<lambda>c. \<not> brk c) s in
      l # lines_by brk (if startswith r [13, 10] then drop 2 r else drop 1 r)))"
  by pat_completeness auto

termination
proof (relation "measure (\<lambda>(brk, s). length s)")
  fix brk :: "nat \<Rightarrow> bool" and s l r :: pystr
  assume "s \<noteq> []" and "r = dropWhile (\<lambda>c. \<not> brk c) s"
  then have "length r \<le> length s" by (simp add: length_dropWhile_le)
  with \<open>s \<noteq> []\<close> have "length (drop 1 r) < length s" "length (drop 2 r) < length s"
    by (simp_all add: diff_less_Suc) (cases s; simp)+
  then show "((brk, if startswith r [13, 10] then drop 2 r else drop 1 r), brk, s)
      \<in> measure (\<lambda>(brk, s). length s)" by simp
qed (rule wf_measure)

declare lines_by.simps [simp del]

definition file_break :: "nat \<Rightarrow> bool" where
  "file_break c = (c = 10 \<or> c = 13)"

definition str_break :: "nat \<Rightarrow> bool" where
  "str_break c = in_charset c [(10, 13), (28, 30), (133, 133), (8232, 8233)]"

text \<open>Iterating over a text file, and \<open>str.splitlines()\<close>.\<close>

definition file_lines :: "pystr \<Rightarrow> pystr list" where
  "file_lines = lines_by file_break"

definition str_splitlines :: "pystr \<Rightarrow> pystr list" where
  "str_splitlines = lines_by str_break"

lemma lines_by_Nil [simp]: "lines_by brk [] = []"
  by (simp add: lines_by.simps)

lemma lines_by_line:
  assumes "brk 10" and "\<forall>c \<in> set l. \<not> brk c"
  shows "lines_by brk (l @ 10 # r) = l # lines_by brk r"
proof -
  have "takeWhile (\<lambda>c. \<not> brk c) (l @ 10 # r) = l" "dropWhile (\<lambda>c. \<not> brk c) (l @ 10 # r) = 10 # r"
    using assms by (auto simp: takeWhile_append dropWhile_append)
  then show ?thesis by (subst lines_by.simps) simp
qed

lemma lines_by_lines:
  "brk 10 \<Longrightarrow> \<forall>l \<in> set ls. \<forall>c \<in> set l. \<not> brk c \<Longrightarrow> lines_by brk (concat (map (\<lambda>l. l @ [10]) ls)) = ls"
  by (induction ls) (simp_all add: lines_by_line)

section \<open>Joining\<close>

text \<open>\<open>sep.join(xs)\<close>\<close>

fun join_with :: "pystr \<Rightarrow> pystr list \<Rightarrow> pystr" where
  "join_with sep [] = []"
| "join_with sep [x] = x"
| "join_with sep (x # y # xs) = x @ sep @ join_with sep (y # xs)"

section \<open>Subscripts and whole numbers\<close>

text \<open>\<open>v[k]\<close> with a string key, \<open>v.get(k)\<close>, and \<open>int(v)\<close>.\<close>

definition item :: "pyval \<Rightarrow> string \<Rightarrow> exn + pyval" where
  "item v k = (case v of PDict d \<Rightarrow> (if has_key d k then Inr (dget d k) else Inl KeyError) | _ \<Rightarrow> Inl TypeError)"

definition get_attr :: "pyval \<Rightarrow> string \<Rightarrow> exn + pyval" where
  "get_attr v k = (case v of PDict d \<Rightarrow> Inr (dget d k) | _ \<Rightarrow> Inl AttributeError)"

fun digit_chars :: "pystr \<Rightarrow> bool" where
  "digit_chars [] = False"
| "digit_chars [d] = (digit_value d \<noteq> None)"
| "digit_chars (d # e # r) = (digit_value d \<noteq> None \<and> (if e = 95 then digit_chars r else digit_chars (e # r)))"

definition int_of_text :: "pystr \<Rightarrow> exn + int" where
  "int_of_text s = (let t = str_strip s; neg = startswith t [45];
       b = (if neg \<or> startswith t [43] then tl t else t); ds = filter (\<lambda>c. c \<noteq> 95) b in
     if \<not> digit_chars b \<or> 4300 < length ds then Inl (ValueError (u ''int''))
     else Inr (if neg then - int (digits_value ds) else int (digits_value ds)))"

definition int_of_value :: "pyval \<Rightarrow> exn + int" where
  "int_of_value v = (case v of
       PInt n \<Rightarrow> Inr n
     | PBool b \<Rightarrow> Inr (int_of_bool b)
     | PStr s \<Rightarrow> int_of_text s
     | PFloat f \<Rightarrow> (case f of
           Finite m e \<Rightarrow> Inr (if 0 \<le> e then m * 2 ^ nat e
             else if m < 0 then - ((- m) div 2 ^ nat (- e)) else m div 2 ^ nat (- e))
         | NaN \<Rightarrow> Inl (ValueError (u ''cannot convert float NaN to integer''))
         | _ \<Rightarrow> Inl OverflowError)
     | _ \<Rightarrow> Inl TypeError)"

section \<open>Journals of JSON lines\<close>

text \<open>A record as it is appended: compact JSON in ASCII, and a line feed.\<close>

definition record_line :: "(pyfloat \<Rightarrow> pystr) \<Rightarrow> pydict \<Rightarrow> pystr" where
  "record_line fr d = json_dumps fr True (PDict d)"

definition journal_text :: "(pyfloat \<Rightarrow> pystr) \<Rightarrow> pydict list \<Rightarrow> pystr" where
  "journal_text fr ds = concat (map (\<lambda>l. l @ [10]) (map (record_line fr) ds))"

text \<open>\<open>{"seq": n, "ts": ts, "event": event, **fields}\<close>.\<close>

definition numbered :: "int \<Rightarrow> pystr \<Rightarrow> pystr \<Rightarrow> pydict \<Rightarrow> pydict" where
  "numbered n ts event fs = fold (\<lambda>(k, v) d. dset k v d) fs
     [(u ''seq'', PInt n), (u ''ts'', PStr ts), (u ''event'', PStr event)]"

lemma dump_char_ascii:
  assumes "x \<in> set (dump_char True c)"
  shows "32 \<le> x \<and> x \<le> 126"
proof -
  have hd: "48 \<le> hex_digit n \<and> hex_digit n \<le> 102" if "n < 16" for n using that by (simp add: hex_digit_def)
  have h: "32 \<le> y \<and> y \<le> 126" if "y \<in> set (escape_u e)" for y e
  proof -
    have "set (escape_u e) \<subseteq> {92, 117} \<union> hex_digit ` {..<16}" by (auto simp: escape_u_def)
    with that have "y \<in> {92, 117} \<union> hex_digit ` {..<16}" by blast
    then show ?thesis
    proof
      assume "y \<in> hex_digit ` {..<16}"
      then obtain n where "n < 16" "y = hex_digit n" by auto
      with hd [of n] show ?thesis by linarith
    qed auto
  qed
  let ?m = "[(QUOTE, QUOTE), (BACKSLASH, BACKSLASH), (10, 110), (13, 114), (9, 116), (12, 102), (8, 98)]"
  show ?thesis
  proof (cases "map_of ?m c")
    case None
    with assms h show ?thesis unfolding dump_char_def by (simp only: option.case) (auto split: if_splits)
  next
    case (Some e)
    then have "x = BACKSLASH \<or> x = e" using assms unfolding dump_char_def by (simp only: option.case) simp
    moreover from map_of_SomeD [OF Some] have "e \<in> {34, 92, 110, 114, 116, 102, 98}" by auto
    ultimately show ?thesis by auto
  qed
qed

lemma dump_string_ascii: "x \<in> set (dump_string True s) \<Longrightarrow> 32 \<le> x \<and> x \<le> 126"
  by (auto simp: dump_string_def dest: dump_char_ascii)

lemma sep_by_mem: "x \<in> set (sep_by c xs) \<Longrightarrow> x = c \<or> (\<exists>y \<in> set xs. x \<in> set y)"
  by (induction c xs rule: sep_by.induct) auto

lemma str_of_int_ascii: "x \<in> set (str_of_int n) \<Longrightarrow> 32 \<le> x \<and> x \<le> 126"
  using str_of_nat_ascii by (fastforce simp: str_of_int_def u_def split: if_splits)

text \<open>Without floats, the printed value is printable ASCII and independent of the float printer.\<close>

lemma dumps_ascii: "json_safe True v \<Longrightarrow> x \<in> set (json_dumps fr True v) \<Longrightarrow> 32 \<le> x \<and> x \<le> 126"
proof (induction v)
  case (PList xs)
  then show ?case by (auto simp: list_all_iff dest!: sep_by_mem)
next
  case (PDict d)
  then show ?case by (auto simp: list_all_iff dest!: sep_by_mem dump_string_ascii) fastforce+
next
  case (PBool b)
  then show ?case by (cases b) (auto simp: u_def)
qed (auto simp: u_def dest: str_of_int_ascii dump_string_ascii)

lemma dumps_no_float: "json_safe ascii v \<Longrightarrow> json_dumps fr ascii v = adumps ascii v"
proof (induction v)
  case (PList xs)
  then show ?case by (auto simp: list_all_iff intro!: arg_cong [where f = "sep_by 44"] map_cong)
next
  case (PDict d)
  then show ?case
    by (fastforce simp: list_all_iff intro!: arg_cong [where f = "sep_by 44"] map_cong)
qed simp_all

lemma record_line_plain:
  assumes "json_safe True (PDict d)"
  shows "\<forall>c \<in> set (record_line fr d). 32 \<le> c \<and> c \<le> 126" and "record_line fr d \<noteq> []"
    and "hd (record_line fr d) = 123" and "json_loads dict_hook (record_line fr d) = Inr (PDict d)"
proof -
  have eq: "record_line fr d = adumps True (PDict d)"
    unfolding record_line_def by (rule dumps_no_float [OF assms])
  show "\<forall>c \<in> set (record_line fr d). 32 \<le> c \<and> c \<le> 126"
    unfolding record_line_def using dumps_ascii [OF assms] by blast
  show "record_line fr d \<noteq> []" "hd (record_line fr d) = 123"
    by (simp_all add: record_line_def)
  show "json_loads dict_hook (record_line fr d) = Inr (PDict d)"
    unfolding eq by (rule json_roundtrip_ascii [OF faithful_dict_hook assms])
qed

lemma str_strip_record:
  assumes "json_safe True (PDict d)"
  shows "str_strip (record_line fr d) \<noteq> []"
proof -
  obtain r where r: "record_line fr d = 123 # r"
    using record_line_plain [OF assms, of fr] by (cases "record_line fr d") auto
  have s: "\<not> py_space 123" by (simp add: py_space_def in_charset_def)
  have "123 \<in> set (dropWhile py_space (rev r @ [123]))" using s by (simp add: dropWhile_append)
  then show ?thesis using s by (auto simp: str_strip_def r)
qed

lemma journal_lines:
  assumes "list_all (\<lambda>d. json_safe True (PDict d)) ds"
  shows "file_lines (journal_text fr ds) = map (record_line fr) ds"
    and "str_splitlines (journal_text fr ds) = map (record_line fr) ds"
proof -
  have p: "\<forall>l \<in> set (map (record_line fr) ds). \<forall>c \<in> set l. 32 \<le> c \<and> c \<le> 126"
    using assms record_line_plain(1) by (auto simp: list_all_iff)
  have nf: "\<not> file_break c" if "32 \<le> c \<and> c \<le> 126" for c
    using that by (auto simp: file_break_def)
  show "file_lines (journal_text fr ds) = map (record_line fr) ds"
    unfolding file_lines_def journal_text_def
    by (rule lines_by_lines) (simp add: file_break_def, use p nf in blast)
  have nb: "\<not> str_break c" if "32 \<le> c \<and> c \<le> 126" for c
    using that by (auto simp: str_break_def in_charset_def)
  show "str_splitlines (journal_text fr ds) = map (record_line fr) ds"
    unfolding str_splitlines_def journal_text_def
    by (rule lines_by_lines) (simp add: str_break_def in_charset_def, use p nb in blast)
qed

end
