(* ===== verification/ControlChannel.thy ===== *)
theory ControlChannel
  imports PyText LedgerText
begin

text \<open>
  The control plane's identity and audit helpers (\<open>lib/aib_control.py\<close>) and the peer policy of
  the broker (\<open>lib/aib_broker_security.py\<close>). A file is its decoded text; the account database,
  the answer of the identity command, the peer's credentials and the owner of the target's
  directory come from the operating system and are arguments.
\<close>

section \<open>The registry path\<close>

definition registry_path :: "bool \<Rightarrow> bool \<Rightarrow> pystr option \<Rightarrow> pystr \<Rightarrow> pystr" where
  "registry_path installed seams env root =
     (if installed then u ''/opt/aib/registry.json''
      else if seams then (case env of Some p \<Rightarrow> p | None \<Rightarrow> root @ u ''/registry.json'')
      else root @ u ''/registry.json'')"

section \<open>Role users\<close>

definition ROLE_UIDS_RE :: re where
  "ROLE_UIDS_RE = Seq (Plus (Cls [(48, 57)])) (Star (Seq (Lit (u '','')) (Plus (Cls [(48, 57)]))))"

datatype text_file = No_file | Bad_file | Text_file pystr

text \<open>The last assignment of the key counts; comments and empty lines are skipped.\<close>

fun role_value :: "pystr list \<Rightarrow> pystr option \<Rightarrow> pystr option" where
  "role_value [] v = v"
| "role_value (l # ls) v =
     (let s = str_strip l in
      if s = [] \<or> startswith s [35] then role_value ls v
      else (case partitionc 61 s of (key, sep, raw) \<Rightarrow>
        role_value ls (if sep \<and> key = u ''AIB_ROLE_UIDS'' then Some (str_strip raw) else v)))"

fun ints_of :: "pystr list \<Rightarrow> exn + int list" where
  "ints_of [] = Inr []"
| "ints_of (x # xs) = bind_res (int_of_digits x) (\<lambda>n. bind_res (ints_of xs) (\<lambda>ns. Inr (n # ns)))"

text \<open>\<open>None\<close>: the configuration is unusable, which is not the same as an empty one.\<close>

definition configured_role_uids :: "text_file \<Rightarrow> exn + int list option" where
  "configured_role_uids f = (case f of
       No_file \<Rightarrow> Inr (Some [])
     | Bad_file \<Rightarrow> Inr None
     | Text_file t \<Rightarrow> (case role_value (str_splitlines t) None of
           None \<Rightarrow> Inr (Some [])
         | Some v \<Rightarrow>
             if \<not> fullmatch ROLE_UIDS_RE v then Inr None
             else bind_res (ints_of (splitc 44 v)) (\<lambda>uids.
               Inr (if list_all (\<lambda>n. 1000 \<le> n) uids then Some uids else None))))"

section \<open>Identities\<close>

definition IDENTITY_RE :: re where
  "IDENTITY_RE = Alt
     (Seq (OneOf [Lit (u ''human''), Lit (u ''role''), Lit (u ''gateway'')])
        (Seq (Lit (u '':'')) (Seq (Cls [(97, 122), (48, 57)]) (Star (Cls [(97, 122), (48, 57), (95, 95), (45, 45)])))))
     (Seq (Lit (u ''unknown:'')) (Plus (Cls [(48, 57)])))"

text \<open>What the identity command did: it could not run, or its status and its output.\<close>

datatype command_result = Cmd_failed | Cmd_done int pystr

record account =
  a_name :: pystr
  a_group :: "pystr option"
  a_groups :: "pystr list"

definition unknown :: "int \<Rightarrow> pystr" where
  "unknown uid = u ''unknown:'' @ str_of_int uid"

text \<open>
  \<open>a_group\<close> is the name of the account's primary group, where the database has one, and
  \<open>a_groups\<close> the groups that list the account as a member.
\<close>

definition account_identity :: "int \<Rightarrow> account option \<Rightarrow> text_file \<Rightarrow> exn + pystr" where
  "account_identity uid acc roles = (case acc of
       None \<Rightarrow> Inr (unknown uid)
     | Some a \<Rightarrow> bind_res (configured_role_uids roles) (\<lambda>uids. case uids of
           None \<Rightarrow> Inr (unknown uid)
         | Some ns \<Rightarrow>
             if uid \<in> set ns then Inr (u ''role:'' @ a_name a)
             else if a_name a = u ''aib-gw'' \<or> a_name a = u ''aib-gateway'' then Inr (u ''gateway:'' @ a_name a)
             else if startswith (a_name a) (u ''aib-'') then Inr (u ''role:'' @ a_name a)
             else (case a_group a of
                 None \<Rightarrow> Inr (unknown uid)
               | Some g \<Rightarrow>
                   if list_ex (\<lambda>x. x = u ''aib-shared'' \<or> x = u ''aib-ops'') (g # a_groups a)
                   then Inr (u ''human:'' @ a_name a) else Inr (unknown uid))))"

definition identity_for :: "int \<Rightarrow> command_result option \<Rightarrow> account option \<Rightarrow> text_file \<Rightarrow> exn + pystr" where
  "identity_for uid cmd acc roles = (case cmd of
       None \<Rightarrow> account_identity uid acc roles
     | Some Cmd_failed \<Rightarrow> Inr (unknown uid)
     | Some (Cmd_done rc out) \<Rightarrow>
         let v = (if rc = 0 \<and> out \<noteq> [] then hd (str_splitlines out) else []) in
         Inr (if fullmatch IDENTITY_RE v then v else unknown uid))"

section \<open>The audit journal\<close>

text \<open>The largest sequence number of the lines so far; any malformed line raises.\<close>

fun max_seq :: "pystr list \<Rightarrow> int \<Rightarrow> exn + int" where
  "max_seq [] n = Inr n"
| "max_seq (l # ls) n =
     (if str_strip l = [] then max_seq ls n
      else bind_res (json_loads dict_hook l) (\<lambda>v. bind_res (item v ''seq'') (\<lambda>w.
        bind_res (int_of_value w) (\<lambda>k. max_seq ls (max n k)))))"

definition append_record ::
  "(pyfloat \<Rightarrow> pystr) \<Rightarrow> pystr \<Rightarrow> pystr \<Rightarrow> pydict \<Rightarrow> pystr option \<Rightarrow> (exn + pydict) \<times> pystr option" where
  "append_record fr ts event fs file =
     (case max_seq (case file of None \<Rightarrow> [] | Some t \<Rightarrow> file_lines t) 0 of
        Inl e \<Rightarrow> (Inl e, file)
      | Inr n \<Rightarrow> let r = numbered (n + 1) ts event fs in
          (Inr r, Some ((case file of None \<Rightarrow> [] | Some t \<Rightarrow> t) @ record_line fr r @ [10])))"

fun find_requested :: "pystr list \<Rightarrow> int \<Rightarrow> exn + pyval option" where
  "find_requested [] n = Inr None"
| "find_requested (l # ls) n =
     (if str_strip l = [] then find_requested ls n
      else bind_res (json_loads dict_hook l) (\<lambda>v. bind_res (get_attr v ''event'') (\<lambda>e. bind_res (get_attr v ''seq'') (\<lambda>s.
        if py_eq e (PStr (u ''ctl.requested'')) \<and> py_eq s (PInt n) then Inr (Some v) else find_requested ls n))))"

fun last_terminal :: "pystr list \<Rightarrow> int \<Rightarrow> pyval option \<Rightarrow> exn + pyval option" where
  "last_terminal [] n found = Inr found"
| "last_terminal (l # ls) n found =
     (if str_strip l = [] then last_terminal ls n found
      else bind_res (json_loads dict_hook l) (\<lambda>v. bind_res (get_attr v ''req'') (\<lambda>q. bind_res (get_attr v ''event'') (\<lambda>e.
        last_terminal ls n (if py_eq q (PInt n) \<and> in_tuple e [''ctl.done'', ''ctl.rejected''] then Some v else found)))))"

definition none_on_errors :: "exn + pyval option \<Rightarrow> exn + pyval option" where
  "none_on_errors r = (case r of Inr v \<Rightarrow> Inr v
     | Inl e \<Rightarrow> if is_value_error e \<or> e = TypeError \<or> e = OSError then Inr None else Inl e)"

definition requested_record :: "pystr option \<Rightarrow> int \<Rightarrow> exn + pyval option" where
  "requested_record file n = none_on_errors (case file of None \<Rightarrow> Inl OSError | Some t \<Rightarrow> find_requested (file_lines t) n)"

definition terminal_record :: "pystr option \<Rightarrow> int \<Rightarrow> exn + pyval option" where
  "terminal_record file n = none_on_errors (case file of None \<Rightarrow> Inl OSError | Some t \<Rightarrow> last_terminal (file_lines t) n None)"

section \<open>The peer policy\<close>

definition PEER_UID_RE :: re where
  "PEER_UID_RE = Seq (Plus (Cls ALNUM)) (Plus (Seq (Lit (u ''-'')) (Plus (Cls ALNUM))))"

definition GROUPS_RE :: re where
  "GROUPS_RE = Seq (Plus (Cls [(48, 57)])) (Star (Seq (Lit (u '','')) (Plus (Cls [(48, 57)]))))"

text \<open>
  The surroundings of one authorization: the peer's user from the kernel, or from the test
  seam; the state root's variable and the owner of the target's directory under it; the role
  user handed in; what \<open>identity_for\<close> sees.
\<close>

record peer_env =
  pe_fake :: "pystr option"
  pe_kernel :: "int option"
  pe_state_root :: bool
  pe_target :: "(bool \<times> int) option"
  pe_role_uid :: pystr
  pe_cmd :: "command_result option"
  pe_account :: "account option"
  pe_roles :: text_file

definition peer_uid :: "peer_env \<Rightarrow> exn + int" where
  "peer_uid p = (case pe_fake p of
       Some s \<Rightarrow> if isdecimal s then int_of_digits s else Inl (ValueError (u ''invalid test peer uid''))
     | None \<Rightarrow> (case pe_kernel p of Some n \<Rightarrow> Inr n | None \<Rightarrow> Inl OSError))"

definition target_owner :: "peer_env \<Rightarrow> int option" where
  "target_owner p = (case pe_target p of
       Some (is_dir, uid) \<Rightarrow> if \<not> is_dir \<or> uid < 1000 then None else Some uid
     | None \<Rightarrow> None)"

record decision =
  d_allow :: bool
  d_reason :: string
  d_stage :: string
  d_caller :: pystr
  d_peer_uid :: int
  d_target_uid :: "int option"
  d_role_uid :: "int option"

definition peer_decision :: "peer_env \<Rightarrow> int \<Rightarrow> pystr \<Rightarrow> int list option \<Rightarrow> int option \<Rightarrow> decision" where
  "peer_decision p uid caller roles role_uid =
     (let target_uid = (if pe_state_root p then target_owner p else None);
          unavailable = (uid \<noteq> 0 \<and> startswith caller (u ''unknown:'') \<and> roles = None);
          allowed = (uid = 0 \<or> startswith caller (u ''human:''));
          reason = (if uid = 0 then ''root_supervisor''
            else if startswith caller (u ''human:'') then ''human_operator''
            else if unavailable then ''role_config_unavailable'' else ''peer_unauthorized'');
          out = \<lparr>d_allow = allowed, d_reason = reason, d_stage = ''peer'', d_caller = caller,
            d_peer_uid = uid, d_target_uid = target_uid, d_role_uid = role_uid\<rparr> in
      if allowed \<and> pe_state_root p then
        (if target_uid = None \<or> role_uid = None \<or> the role_uid < 1000
         then out\<lparr>d_allow := False, d_reason := ''target_role_unavailable'', d_stage := ''confine''\<rparr>
         else if target_uid \<noteq> role_uid
         then out\<lparr>d_allow := False, d_reason := ''target_role_mismatch'', d_stage := ''confine''\<rparr>
         else out)
      else out)"

text \<open>
  \<open>peer_agent\<close>: \<open>Inr None\<close> is the status 2 of a malformed target. The role configuration is
  read only where the code reads it.
\<close>

definition peer_agent :: "pystr \<Rightarrow> peer_env \<Rightarrow> exn + decision option" where
  "peer_agent target p =
     (if \<not> fullmatch PEER_UID_RE target then Inr None
      else case peer_uid p of
        Inl e \<Rightarrow> Inr (Some \<lparr>d_allow = False, d_reason = ''peer_credentials_unavailable'', d_stage = ''peer'',
          d_caller = u ''unknown:peer'', d_peer_uid = -1, d_target_uid = None, d_role_uid = None\<rparr>)
      | Inr uid \<Rightarrow>
          bind_res (if uid = 0 then Inr (u ''root:root'') else identity_for uid (pe_cmd p) (pe_account p) (pe_roles p)) (\<lambda>caller.
          bind_res (if uid \<noteq> 0 \<and> startswith caller (u ''unknown:'') then configured_role_uids (pe_roles p)
                    else Inr (Some [])) (\<lambda>roles.
          bind_res (if isdecimal (pe_role_uid p) then bind_res (int_of_digits (pe_role_uid p)) (\<lambda>n. Inr (Some n))
                    else Inr None) (\<lambda>role_uid.
            Inr (Some (peer_decision p uid caller roles role_uid))))))"

definition shared_gid :: "int option \<Rightarrow> pystr option \<Rightarrow> exn + int option" where
  "shared_gid db fake = (case db of
       Some g \<Rightarrow> Inr (Some g)
     | None \<Rightarrow> (case fake of
         Some s \<Rightarrow> if isdecimal s then bind_res (int_of_digits s) (\<lambda>n. Inr (Some n)) else Inr None
       | None \<Rightarrow> Inr None))"

definition groups_safe :: "int option \<Rightarrow> pystr option \<Rightarrow> pystr \<Rightarrow> pystr \<Rightarrow> exn + int" where
  "groups_safe db fake raw primary =
     (if raw \<noteq> [] \<and> \<not> fullmatch GROUPS_RE raw then Inr 2
      else if \<not> isdecimal primary then Inr 2
      else bind_res (int_of_digits primary) (\<lambda>g.
        bind_res (if raw = [] then Inr [] else ints_of (splitc 44 raw)) (\<lambda>gs.
        bind_res (shared_gid db fake) (\<lambda>forbidden. case forbidden of
            None \<Rightarrow> Inr 4
          | Some f \<Rightarrow> Inr (if f \<in> set (g # gs) then 3 else 0)))))"

end
