(* ===== verification/ControlProps.thy ===== *)
theory ControlProps
  imports ControlChannel
begin

text \<open>
  The audit journal of the control plane numbers its records without gaps and finds them again;
  the broker admits a peer only as root or as a human, and only into the directory of the role
  it serves.
\<close>

section \<open>The audit journal\<close>

lemma numbered_keep:
  assumes "\<And>v. (u k, v) \<notin> set fs"
  shows "dget (fold (\<lambda>(k, v) d. dset k v d) fs d) k = dget d k"
  using assms
proof (induction fs arbitrary: d)
  case (Cons p fs)
  obtain j v where p: "p = (j, v)" by (cases p)
  then have "j \<noteq> u k" using Cons.prems [of v] by auto
  then have "dget (dset j v d) k = dget d k" by (simp add: dget_def)
  moreover have "dget (fold (\<lambda>(k, v) d. dset k v d) fs (dset j v d)) k = dget (dset j v d) k"
    by (rule Cons.IH) (use Cons.prems in auto)
  ultimately show ?case by (simp add: p)
qed simp

text \<open>The fields of an event: printable, and not one of the three the journal writes itself.\<close>

definition event_fields :: "pydict \<Rightarrow> bool" where
  "event_fields fs = (json_safe True (PDict fs) \<and> list_all (\<lambda>(k, v). k \<notin> set (map u [''seq'', ''ts'', ''event''])) fs)"

definition small_int :: "int \<Rightarrow> bool" where
  "small_int n = (length (str_of_nat (nat \<bar>n\<bar>)) \<le> 4300)"

lemma fold_dset_append:
  "distinct (map fst (d @ fs)) \<Longrightarrow> fold (\<lambda>(k, v) d. dset k v d) fs d = d @ fs"
  by (rule fold_dset_distinct)

lemma numbered_eq:
  assumes "event_fields fs"
  shows "numbered n ts event fs = [(u ''seq'', PInt n), (u ''ts'', PStr ts), (u ''event'', PStr event)] @ fs"
  unfolding numbered_def
  by (rule fold_dset_append) (use assms in \<open>fastforce simp: event_fields_def list_all_iff\<close>)

lemma numbered_safe:
  assumes "event_fields fs" and "small_int n" and "list_all scalar_value ts" and "list_all scalar_value event"
  shows "json_safe True (PDict (numbered n ts event fs))"
proof -
  have k: "list_all scalar_value (u ''seq'')" "list_all scalar_value (u ''ts'')" "list_all scalar_value (u ''event'')"
    by code_simp+
  have "distinct (map fst (numbered n ts event fs))"
    using assms(1) by (fastforce simp: numbered_eq [OF assms(1)] event_fields_def list_all_iff)
  then show ?thesis
    using assms k by (simp add: numbered_eq [OF assms(1)] event_fields_def small_int_def str_safe_def)
qed

lemma numbered_get:
  assumes "event_fields fs"
  shows "dget (numbered n ts event fs) ''seq'' = PInt n" "dget (numbered n ts event fs) ''event'' = PStr event"
    "has_key (numbered n ts event fs) ''seq''"
  by (simp_all add: numbered_eq [OF assms] has_key_def)

text \<open>A list of records numbered from 1, and the journal that holds them.\<close>

definition good_journal :: "pydict list \<Rightarrow> bool" where
  "good_journal rs = (list_all (\<lambda>d. json_safe True (PDict d)) rs \<and>
     (\<forall>i < length rs. has_key (rs ! i) ''seq'' \<and> dget (rs ! i) ''seq'' = PInt (int i + 1)))"

lemma good_journal_snoc:
  assumes "good_journal rs" and "json_safe True (PDict r)" and "has_key r ''seq''"
    and "dget r ''seq'' = PInt (int (length rs) + 1)"
  shows "good_journal (rs @ [r])"
  using assms by (auto simp: good_journal_def nth_append less_Suc_eq)

lemma max_seq_lines:
  assumes "list_all (\<lambda>d. json_safe True (PDict d)) rs"
    and "\<forall>i < length rs. has_key (rs ! i) ''seq'' \<and> dget (rs ! i) ''seq'' = PInt (k + int i + 1)" and "0 \<le> k"
  shows "max_seq (map (record_line fr) rs) k = Inr (k + int (length rs))"
  using assms
proof (induction rs arbitrary: k)
  case Nil
  then show ?case by simp
next
  case (Cons r rs)
  have r: "json_safe True (PDict r)" "has_key r ''seq''" "dget r ''seq'' = PInt (k + 1)"
    using Cons.prems(1) Cons.prems(2) [rule_format, of 0] by simp_all
  have "max_seq (map (record_line fr) rs) (k + 1) = Inr ((k + 1) + int (length rs))"
    by (rule Cons.IH) (use Cons.prems in \<open>auto simp: algebra_simps dest: spec [of _ "Suc _"]\<close>)
  with r Cons.prems(3) str_strip_record [OF r(1)] record_line_plain(4) [OF r(1)] show ?case
    by (simp add: item_def int_of_value_def)
qed

lemma max_seq_journal:
  "good_journal rs \<Longrightarrow> max_seq (file_lines (journal_text fr rs)) 0 = Inr (int (length rs))"
  using max_seq_lines [of rs 0 fr] by (simp add: good_journal_def journal_lines)

lemma journal_text_snoc: "journal_text fr (rs @ [r]) = journal_text fr rs @ record_line fr r @ [10]"
  by (simp add: journal_text_def)

lemma append_to_journal:
  assumes "good_journal rs" and "event_fields fs" and "small_int (int (length rs) + 1)"
    and "list_all scalar_value ts" and "list_all scalar_value event"
  shows "append_record fr ts event fs (Some (journal_text fr rs)) =
      (Inr (numbered (int (length rs) + 1) ts event fs),
       Some (journal_text fr (rs @ [numbered (int (length rs) + 1) ts event fs])))"
    and "good_journal (rs @ [numbered (int (length rs) + 1) ts event fs])"
proof -
  show "append_record fr ts event fs (Some (journal_text fr rs)) =
      (Inr (numbered (int (length rs) + 1) ts event fs),
       Some (journal_text fr (rs @ [numbered (int (length rs) + 1) ts event fs])))"
    by (simp add: append_record_def max_seq_journal [OF assms(1)] journal_text_snoc Let_def)
  show "good_journal (rs @ [numbered (int (length rs) + 1) ts event fs])"
    by (rule good_journal_snoc [OF assms(1) numbered_safe [OF assms(2-5)]])
      (use numbered_get [OF assms(2)] in simp_all)
qed

lemma find_in_journal:
  assumes "list_all (\<lambda>d. json_safe True (PDict d)) rs"
    and "\<forall>i < length rs. dget (rs ! i) ''seq'' = PInt (k + int i + 1)"
  shows "find_requested (map (record_line fr) rs) n =
    Inr (if k < n \<and> n \<le> k + int (length rs) \<and> dget (rs ! nat (n - k - 1)) ''event'' = PStr (u ''ctl.requested'')
         then Some (PDict (rs ! nat (n - k - 1))) else None)"
  using assms
proof (induction rs arbitrary: k)
  case Nil
  then show ?case by simp
next
  case (Cons r rs)
  have r: "json_safe True (PDict r)" "dget r ''seq'' = PInt (k + 1)"
    using Cons.prems(1) Cons.prems(2) [rule_format, of 0] by simp_all
  have IH: "find_requested (map (record_line fr) rs) n =
    Inr (if k + 1 < n \<and> n \<le> k + 1 + int (length rs) \<and>
            dget (rs ! nat (n - (k + 1) - 1)) ''event'' = PStr (u ''ctl.requested'')
         then Some (PDict (rs ! nat (n - (k + 1) - 1))) else None)"
    by (rule Cons.IH) (use Cons.prems in \<open>auto simp: algebra_simps dest: spec [of _ "Suc _"]\<close>)
  have str: "py_eq e (PStr s) \<longleftrightarrow> e = PStr s" for e s by (cases e) auto
  have nth: "(r # rs) ! nat (n - k - 1) = rs ! nat (n - (k + 1) - 1)" if "k + 1 < n"
  proof -
    have "nat (n - k - 1) = Suc (nat (n - (k + 1) - 1))" using that by simp
    then show ?thesis by simp
  qed
  have step: "find_requested (map (record_line fr) (r # rs)) n =
      (if dget r ''event'' = PStr (u ''ctl.requested'') \<and> k + 1 = n then Inr (Some (PDict r))
       else find_requested (map (record_line fr) rs) n)"
    using str_strip_record [OF r(1)] record_line_plain(4) [OF r(1)] r(2) by (simp add: get_attr_def str)
  consider "n \<le> k" | "n = k + 1" | "k + 1 < n" by linarith
  then show ?case
  proof cases
    case 3
    have e: "k < n" "(n \<le> k + int (length (r # rs))) = (n \<le> k + 1 + int (length rs))" using 3 by auto
    show ?thesis unfolding step IH nth [OF 3] e(2) using 3 e(1) by auto
  next
    case 1
    then show ?thesis unfolding step IH by auto
  next
    case 2
    then show ?thesis unfolding step IH by auto
  qed
qed

text \<open>The control plane's requests and results, one append after the other.\<close>

fun append_all ::
  "(pyfloat \<Rightarrow> pystr) \<Rightarrow> (pystr \<times> pystr \<times> pydict) list \<Rightarrow> pystr option \<Rightarrow> (exn + pydict) list \<times> pystr option" where
  "append_all fr [] file = ([], file)"
| "append_all fr ((ts, event, fs) # es) file = (case append_record fr ts event fs file of
     (r, file') \<Rightarrow> (case append_all fr es file' of (rs, z) \<Rightarrow> (r # rs, z)))"

definition audit_event :: "pystr \<times> pystr \<times> pydict \<Rightarrow> bool" where
  "audit_event e = (case e of (ts, event, fs) \<Rightarrow>
     list_all scalar_value ts \<and> list_all scalar_value event \<and> event_fields fs)"

definition audit_record :: "nat \<Rightarrow> pystr \<times> pystr \<times> pydict \<Rightarrow> pydict" where
  "audit_record i e = (case e of (ts, event, fs) \<Rightarrow> numbered (int i + 1) ts event fs)"

lemma append_all_journal:
  assumes "good_journal rs" and "list_all audit_event es" and "\<forall>i \<le> length rs + length es. small_int (int i)"
  shows "\<exists>new. append_all fr es (Some (journal_text fr rs)) = (map Inr new, Some (journal_text fr (rs @ new))) \<and>
    good_journal (rs @ new) \<and> length new = length es \<and>
    (\<forall>i < length es. new ! i = audit_record (length rs + i) (es ! i))"
  using assms
proof (induction es arbitrary: rs)
  case Nil
  then show ?case by simp
next
  case (Cons e es)
  obtain ts event fs where e: "e = (ts, event, fs)" by (cases e)
  have ev: "list_all scalar_value ts" "list_all scalar_value event" "event_fields fs"
    using Cons.prems(2) by (auto simp: audit_event_def e)
  have "small_int (int (length rs) + 1)" using Cons.prems(3) [rule_format, of "Suc (length rs)"]
    by (simp add: add.commute)
  note ap1 = append_to_journal(1) [OF Cons.prems(1) ev(3) this ev(1,2), of fr]
  note ap2 = append_to_journal(2) [OF Cons.prems(1) ev(3) \<open>small_int _\<close> ev(1,2)]
  let ?r = "numbered (int (length rs) + 1) ts event fs"
  from Cons.IH [OF ap2] Cons.prems(2,3) obtain new where new:
    "append_all fr es (Some (journal_text fr (rs @ [?r]))) = (map Inr new, Some (journal_text fr ((rs @ [?r]) @ new)))"
    "good_journal ((rs @ [?r]) @ new)" "length new = length es"
    "\<forall>i < length es. new ! i = audit_record (length (rs @ [?r]) + i) (es ! i)" by auto
  have "\<forall>i < length (e # es). (?r # new) ! i = audit_record (length rs + i) ((e # es) ! i)"
    using new(4) by (auto simp: less_Suc_eq_0_disj audit_record_def e)
  with new ap1 show ?case by (intro exI [of _ "?r # new"]) (simp add: e)
qed

lemma append_all_start:
  "append_all fr (e # es) None = append_all fr (e # es) (Some [])"
  by (cases e) (simp add: append_record_def file_lines_def)

text \<open>
  C19: The audit journal is complete. Starting from no file, every append succeeds with the next
  number, and the record of number n is found by \<open>requested_record\<close> exactly when it is a
  request, whatever was appended after it.
\<close>

theorem audit_records_are_found:
  assumes "es \<noteq> []" and "list_all audit_event es" and "\<forall>i \<le> length es. small_int (int i)"
  shows "fst (append_all fr es None) = map (\<lambda>i. Inr (audit_record i (es ! i))) [0..<length es] \<and>
    (\<forall>i < length es. requested_record (snd (append_all fr es None)) (int i + 1) =
      Inr (if fst (snd (es ! i)) = u ''ctl.requested'' then Some (PDict (audit_record i (es ! i))) else None))"
proof -
  have "good_journal []" by (simp add: good_journal_def)
  from append_all_journal [OF this assms(2), of fr] assms(3) obtain new where new:
    "append_all fr es (Some (journal_text fr [])) = (map Inr new, Some (journal_text fr new))"
    "good_journal new" "length new = length es" "\<forall>i < length es. new ! i = audit_record i (es ! i)" by auto
  have start: "append_all fr es None = (map Inr new, Some (journal_text fr new))"
    using new(1) assms(1) append_all_start by (cases es) (auto simp: journal_text_def)
  have list: "new = map (\<lambda>i. audit_record i (es ! i)) [0..<length es]"
    by (rule nth_equalityI) (use new(3,4) in auto)
  have "requested_record (Some (journal_text fr new)) (int i + 1) =
      Inr (if fst (snd (es ! i)) = u ''ctl.requested'' then Some (PDict (audit_record i (es ! i))) else None)"
    if i: "i < length es" for i
  proof -
    have g: "list_all (\<lambda>d. json_safe True (PDict d)) new" "\<forall>i < length new. dget (new ! i) ''seq'' = PInt (0 + int i + 1)"
      using new(2) by (auto simp: good_journal_def)
    obtain ts event fs where e: "es ! i = (ts, event, fs)" by (cases "es ! i")
    have "audit_event (es ! i)" using assms(2) i by (simp add: list_all_length)
    then have "dget (new ! i) ''event'' = PStr event"
      using new(4) i numbered_get(2) by (simp add: audit_event_def audit_record_def e)
    with find_in_journal [OF g, of fr "int i + 1"] i new(3,4) show ?thesis
      by (simp add: requested_record_def none_on_errors_def journal_lines(1) [OF g(1)] e)
  qed
  with start list show ?thesis by simp
qed

section \<open>The peer policy\<close>

lemma unknown_prefix: "startswith (unknown n) (u ''unknown:'')"
  by (simp add: unknown_def)

lemma prefix_clash:
  "startswith (u ''role:'' @ s) (u ''human:'') = False" "startswith (u ''gateway:'' @ s) (u ''human:'') = False"
  "startswith (u ''unknown:'' @ s) (u ''human:'') = False" "startswith (u ''root:root'') (u ''human:'') = False"
  by (simp_all add: u_def)

text \<open>Whom the account database makes a human: a member of a trusted group that is no role user.\<close>

lemma account_human:
  assumes "account_identity uid acc roles = Inr c" and "startswith c (u ''human:'')"
  obtains a ns g where "acc = Some a" "configured_role_uids roles = Inr (Some ns)" "uid \<notin> set ns"
    "\<not> startswith (a_name a) (u ''aib-'')" "a_group a = Some g"
    "\<exists>x \<in> set (g # a_groups a). x = u ''aib-shared'' \<or> x = u ''aib-ops''" "c = u ''human:'' @ a_name a"
proof -
  from assms obtain a where a: "acc = Some a"
    by (cases acc) (auto simp: account_identity_def unknown_def prefix_clash)
  from assms a obtain ns where ns: "configured_role_uids roles = Inr (Some ns)"
    by (cases "configured_role_uids roles") (auto simp: account_identity_def unknown_def prefix_clash split: option.splits)
  from assms a ns obtain g where g: "a_group a = Some g"
    by (cases "a_group a") (auto simp: account_identity_def unknown_def prefix_clash split: if_splits)
  from assms a ns g show thesis
    by (intro that [of a ns g])
      (auto simp: account_identity_def unknown_def prefix_clash list_ex_iff split: if_splits)
qed

lemma peer_agent_Inr:
  assumes "peer_agent target p = Inr (Some d)" and "d_allow d"
  obtains uid caller roles role_uid where "fullmatch PEER_UID_RE target" "peer_uid p = Inr uid"
    "uid = 0 \<and> caller = u ''root:root'' \<or> uid \<noteq> 0 \<and> identity_for uid (pe_cmd p) (pe_account p) (pe_roles p) = Inr caller"
    "d = peer_decision p uid caller roles role_uid"
proof -
  from assms have t: "fullmatch PEER_UID_RE target" by (auto simp: peer_agent_def split: if_splits)
  from assms t obtain uid where uid: "peer_uid p = Inr uid"
    by (cases "peer_uid p") (auto simp: peer_agent_def)
  from assms(1) t uid show thesis
    by (auto simp: peer_agent_def bind_res_Inr split: if_splits intro: that)
qed

lemma decision_allow:
  assumes "d_allow (peer_decision p uid caller roles role_uid)"
  shows "(uid = 0 \<or> startswith caller (u ''human:'')) \<and>
    (pe_state_root p \<longrightarrow> (\<exists>t. target_owner p = Some t \<and> 1000 \<le> t \<and> role_uid = Some t))"
  using assms by (auto simp: peer_decision_def Let_def target_owner_def split: if_splits option.splits)

text \<open>
  C18: The broker admits a peer only if the kernel says it is root, or its identity is human:
  by the identity command where one is configured, and otherwise only for a member of a
  trusted group that is neither a configured role user nor named like one. Under a state root
  it moreover requires that the target's directory belongs to the unprivileged role user the
  broker was started for.
\<close>

theorem peer_admission:
  assumes "peer_agent target p = Inr (Some d)" and "d_allow d"
  shows "\<exists>uid. peer_uid p = Inr uid \<and>
    (uid = 0 \<or> startswith (d_caller d) (u ''human:'') \<and>
       (pe_cmd p = None \<longrightarrow> (\<exists>a ns g. pe_account p = Some a \<and> configured_role_uids (pe_roles p) = Inr (Some ns) \<and>
          uid \<notin> set ns \<and> \<not> startswith (a_name a) (u ''aib-'') \<and> a_group a = Some g \<and>
          (\<exists>x \<in> set (g # a_groups a). x = u ''aib-shared'' \<or> x = u ''aib-ops'')))) \<and>
    (pe_state_root p \<longrightarrow> (\<exists>t. target_owner p = Some t \<and> 1000 \<le> t \<and> d_role_uid d = Some t))"
proof -
  from assms obtain uid caller roles role_uid where h: "peer_uid p = Inr uid"
    "uid = 0 \<and> caller = u ''root:root'' \<or> uid \<noteq> 0 \<and> identity_for uid (pe_cmd p) (pe_account p) (pe_roles p) = Inr caller"
    "d = peer_decision p uid caller roles role_uid" by (rule peer_agent_Inr)
  have fields: "d_caller d = caller" "d_role_uid d = role_uid"
    unfolding h(3) by (simp_all add: peer_decision_def Let_def)
  note al = decision_allow [OF assms(2) [unfolded h(3)]]
  have human: "\<exists>a ns g. pe_account p = Some a \<and> configured_role_uids (pe_roles p) = Inr (Some ns) \<and>
      uid \<notin> set ns \<and> \<not> startswith (a_name a) (u ''aib-'') \<and> a_group a = Some g \<and>
      (\<exists>x \<in> set (g # a_groups a). x = u ''aib-shared'' \<or> x = u ''aib-ops'')"
    if "uid \<noteq> 0" "pe_cmd p = None"
  proof -
    have "account_identity uid (pe_account p) (pe_roles p) = Inr caller" "startswith caller (u ''human:'')"
      using that h(2) al by (auto simp: identity_for_def)
    then show ?thesis by (rule account_human) blast
  qed
  show ?thesis
    unfolding fields by (rule exI [of _ uid]) (use h(1) al human in \<open>cases "uid = 0"; simp\<close>)
qed

text \<open>
  A role configuration that is unreadable, malformed or names a privileged user denies
  every peer but root, with a reason of its own.
\<close>

theorem broken_role_config_denies:
  assumes "configured_role_uids (pe_roles p) = Inr None" and "pe_cmd p = None"
    and "peer_uid p = Inr uid" and "uid \<noteq> 0" and "fullmatch PEER_UID_RE target"
    and "isdecimal (pe_role_uid p) \<longrightarrow> length (pe_role_uid p) \<le> 4300"
  shows "\<exists>d. peer_agent target p = Inr (Some d) \<and> \<not> d_allow d \<and> d_reason d = ''role_config_unavailable'' \<and>
    d_caller d = unknown uid"
proof -
  have id: "identity_for uid (pe_cmd p) (pe_account p) (pe_roles p) = Inr (unknown uid)"
    using assms(1,2) by (simp add: identity_for_def account_identity_def split: option.split)
  obtain role_uid where "(if isdecimal (pe_role_uid p) then bind_res (int_of_digits (pe_role_uid p)) (\<lambda>n. Inr (Some n))
      else Inr None) = (Inr role_uid :: exn + int option)"
    using assms(6) by (cases "isdecimal (pe_role_uid p)") (auto simp: int_of_digits_def)
  then have "peer_agent target p = Inr (Some (peer_decision p uid (unknown uid) None role_uid))"
    using assms id unknown_prefix by (simp add: peer_agent_def)
  moreover have "\<not> startswith (unknown uid) (u ''human:'')" by (simp add: unknown_def prefix_clash)
  ultimately show ?thesis
    using assms(4) unknown_prefix
    by (intro exI [of _ "peer_decision p uid (unknown uid) None role_uid"]) (auto simp: peer_decision_def Let_def)
qed

text \<open>
  The groups of a confined process are called safe only when the shared group is known
  and is neither its primary group nor one of its supplementary groups.
\<close>

theorem safe_groups_exclude_shared:
  assumes "groups_safe db fake raw primary = Inr 0"
  shows "\<exists>f g gs. shared_gid db fake = Inr (Some f) \<and> int_of_digits primary = Inr g \<and>
    (if raw = [] then gs = [] else fullmatch GROUPS_RE raw \<and> ints_of (splitc 44 raw) = Inr gs) \<and> f \<noteq> g \<and> f \<notin> set gs"
  using assms by (auto simp: groups_safe_def bind_res_Inr split: if_splits option.splits)

section \<open>Witnesses\<close>

definition smp_peer :: peer_env where
  "smp_peer = \<lparr>pe_fake = None, pe_kernel = Some 1500, pe_state_root = True, pe_target = Some (True, 2000),
     pe_role_uid = u ''2000'', pe_cmd = None,
     pe_account = Some \<lparr>a_name = u ''ana'', a_group = Some (u ''users''), a_groups = [u ''aib-ops'']\<rparr>,
     pe_roles = Text_file (u ''AIB_ROLE_UIDS=2000,2001'')\<rparr>"

lemma smp_peer_allowed:
  "(case peer_agent (u ''acme-dev'') smp_peer of Inr (Some d) \<Rightarrow> d_allow d | _ \<Rightarrow> False)"
  by code_simp

theorem peer_admission_witness:
  "\<exists>d. peer_agent (u ''acme-dev'') smp_peer = Inr (Some d) \<and> d_allow d \<and> d_role_uid d = Some 2000"
proof -
  obtain d where d: "peer_agent (u ''acme-dev'') smp_peer = Inr (Some d)" "d_allow d"
    using smp_peer_allowed by (auto split: sum.splits option.splits)
  from peer_admission [OF d] have "d_role_uid d = Some 2000"
    by (auto simp: smp_peer_def target_owner_def)
  with d show ?thesis by blast
qed

theorem broken_role_config_denies_witness:
  "\<exists>d. peer_agent (u ''acme-dev'') (smp_peer\<lparr>pe_roles := Text_file (u ''AIB_ROLE_UIDS=0'')\<rparr>) = Inr (Some d) \<and> \<not> d_allow d"
proof -
  let ?p = "smp_peer\<lparr>pe_roles := Text_file (u ''AIB_ROLE_UIDS=0'')\<rparr>"
  have "configured_role_uids (Text_file (u ''AIB_ROLE_UIDS=0'')) = Inr None" by code_simp
  then have c: "configured_role_uids (pe_roles ?p) = Inr None" "pe_cmd ?p = None" "peer_uid ?p = Inr 1500"
    by (simp_all add: smp_peer_def peer_uid_def)
  have t: "fullmatch PEER_UID_RE (u ''acme-dev'')" by code_simp
  have l: "isdecimal (pe_role_uid ?p) \<longrightarrow> length (pe_role_uid ?p) \<le> 4300" by (simp add: smp_peer_def)
  from broken_role_config_denies [OF c _ t l] show ?thesis by auto
qed

theorem safe_groups_exclude_shared_witness:
  "\<exists>f g gs. shared_gid (Some 77) None = Inr (Some f) \<and> f \<noteq> g \<and> f \<notin> set gs \<and> int_of_digits (u ''5'') = Inr g"
proof -
  have "groups_safe (Some 77) None (u ''6,7'') (u ''5'') = Inr 0" by code_simp
  from safe_groups_exclude_shared [OF this] show ?thesis by blast
qed

definition smp_audit :: "(pystr \<times> pystr \<times> pydict) list" where
  "smp_audit = [(u ''t1'', u ''ctl.requested'', [(u ''verb'', PStr (u ''pause''))]),
     (u ''t2'', u ''ctl.done'', [(u ''req'', PInt 1)])]"

theorem audit_records_are_found_witness:
  "requested_record (snd (append_all (\<lambda>_. []) smp_audit None)) 1 =
     Inr (Some (PDict (audit_record 0 (hd smp_audit)))) \<and>
   requested_record (snd (append_all (\<lambda>_. []) smp_audit None)) 2 = Inr None"
proof -
  have a: "smp_audit \<noteq> []" by (simp add: smp_audit_def)
  have b: "list_all audit_event smp_audit" by code_simp
  have c: "\<forall>i \<le> length smp_audit. small_int (int i)"
  proof (intro allI impI)
    fix i assume "i \<le> length smp_audit"
    then have "i < 10" by (simp add: smp_audit_def)
    then show "small_int (int i)" by (simp add: small_int_def str_of_nat.simps)
  qed
  from audit_records_are_found [OF a b c, of "\<lambda>_. []"]
  have all: "\<forall>i < length smp_audit. requested_record (snd (append_all (\<lambda>_. []) smp_audit None)) (int i + 1) =
      Inr (if fst (snd (smp_audit ! i)) = u ''ctl.requested'' then Some (PDict (audit_record i (smp_audit ! i))) else None)"
    by blast
  from all [rule_format, of 0] all [rule_format, of 1] show ?thesis by (simp add: smp_audit_def)
qed

end
