(* ===== verification/SupJournal.thy ===== *)
theory SupJournal
  imports ControlProps TaskBody
begin

text \<open>
  The durable journal of the supervisor (\<open>lib/aib_supervisor.py\<close>, \<open>journal\<close> and
  \<open>_load_records\<close>): records numbered from 1, appended as lines of ASCII JSON, read back at the
  next start. A start after a crash drops the partial last line and cuts the file there.
\<close>

section \<open>Opening a state file\<close>

text \<open>
  \<open>_open_state_file\<close> with \<open>O_NOFOLLOW\<close>: a link, or an entry that is not a singly-linked regular
  file, is refused. \<open>Inr None\<close> is \<open>FileNotFoundError\<close>.
\<close>

definition open_state_file :: "bool \<Rightarrow> dir_entry option \<Rightarrow> exn + body_file option" where
  "open_state_file single_link e = (case e of
       None \<Rightarrow> Inr None
     | Some Link \<Rightarrow> Inl OSError
     | Some (Inode f) \<Rightarrow>
         if \<not> f_regular f then Inl OSError
         else if single_link \<and> f_nlink f \<noteq> 1 then Inl OSError
         else Inr (Some f))"

section \<open>Loading\<close>

definition journal_corrupt :: exn where
  "journal_corrupt = ValueError (u ''JournalCorruptError'')"

text \<open>The part of the data up to and including the last line feed.\<close>

definition complete_part :: "bytes \<Rightarrow> bytes" where
  "complete_part bs = rev (dropWhile (\<lambda>b. b \<noteq> 10) (rev bs))"

fun parse_records :: "pystr list \<Rightarrow> exn + pydict list" where
  "parse_records [] = Inr []"
| "parse_records (l # ls) =
     (if str_strip l = [] then parse_records ls
      else bind_res (json_loads dict_hook l) (\<lambda>v. case v of
          PDict d \<Rightarrow> bind_res (parse_records ls) (\<lambda>ds. Inr (d # ds))
        | _ \<Rightarrow> Inl (ValueError (u ''supervisor journal record is not an object''))))"

text \<open>\<open>[record.get("seq") for record in records] == list(range(1, len + 1))\<close>.\<close>

definition contiguous :: "pydict list \<Rightarrow> bool" where
  "contiguous ds = list_all (\<lambda>(i, d). py_eq (dget d ''seq'') (PInt (int i + 1))) (zip [0..<length ds] ds)"

definition corrupt_on_value :: "exn + 'a \<Rightarrow> exn + 'a" where
  "corrupt_on_value r = (case r of Inr x \<Rightarrow> Inr x
     | Inl e \<Rightarrow> if is_value_error e then Inl journal_corrupt else Inl e)"

definition load_data :: "bytes \<Rightarrow> exn + pydict list \<times> bytes" where
  "load_data data = (let complete = (if data = [] \<or> endswith data [10] then data else complete_part data) in
     bind_res (corrupt_on_value (bind_res (utf8_decode complete) (\<lambda>t. parse_records (str_splitlines t)))) (\<lambda>ds.
       if \<not> contiguous ds then Inl journal_corrupt else Inr (ds, complete)))"

text \<open>The records, the number of dropped bytes, and the file afterwards.\<close>

definition load_records :: "dir_entry option \<Rightarrow> (exn + pydict list \<times> nat) \<times> dir_entry option" where
  "load_records e = (case open_state_file True e of
       Inl x \<Rightarrow> (Inl x, e)
     | Inr None \<Rightarrow> (Inr ([], 0), e)
     | Inr (Some f) \<Rightarrow> (case load_data (f_data f) of
           Inl x \<Rightarrow> (Inl x, e)
         | Inr (ds, complete) \<Rightarrow>
             (Inr (ds, length (f_data f) - length complete), Some (Inode (f\<lparr>f_data := complete\<rparr>)))))"

section \<open>Appending\<close>

record sup_journal =
  j_seq :: int
  j_records :: "pydict list"
  j_entry :: "dir_entry option"
  j_uid :: nat
  j_gid :: nat

definition fresh_journal :: "sup_journal \<Rightarrow> body_file" where
  "fresh_journal j = \<lparr>f_regular = True, f_uid = j_uid j, f_gid = j_gid j, f_nlink = 1, f_mode = 420, f_data = []\<rparr>"

text \<open>
  The counter advances even when the file cannot be opened; the record joins the list only
  after it was written. \<open>0o644\<close> is 420.
\<close>

definition journal :: "(pyfloat \<Rightarrow> pystr) \<Rightarrow> pystr \<Rightarrow> pystr \<Rightarrow> pydict \<Rightarrow> sup_journal \<Rightarrow> (exn + pydict) \<times> sup_journal" where
  "journal fr ts event fs j =
     (let n = j_seq j + 1; r = numbered n ts event fs; j1 = j\<lparr>j_seq := n\<rparr> in
      case open_state_file True (j_entry j) of
        Inl x \<Rightarrow> (Inl x, j1)
      | Inr e \<Rightarrow> let f = (case e of None \<Rightarrow> fresh_journal j | Some f \<Rightarrow> f) in
          (Inr r, j1\<lparr>j_records := j_records j @ [r],
             j_entry := Some (Inode (f\<lparr>f_mode := 420, f_data := f_data f @ ascii_bytes (record_line fr r @ [10])\<rparr>))\<rparr>))"

text \<open>\<open>__init__\<close>: the counter resumes at the largest number loaded.\<close>

definition start_journal :: "dir_entry option \<Rightarrow> nat \<Rightarrow> nat \<Rightarrow> exn + sup_journal \<times> nat" where
  "start_journal e uid gid = (case load_records e of
       (Inl x, _) \<Rightarrow> Inl x
     | (Inr (ds, dropped), e') \<Rightarrow>
         Inr (\<lparr>j_seq = int (length ds), j_records = ds, j_entry = e', j_uid = uid, j_gid = gid\<rparr>, dropped))"

section \<open>The invariant\<close>

definition journal_bytes :: "(pyfloat \<Rightarrow> pystr) \<Rightarrow> pydict list \<Rightarrow> bytes" where
  "journal_bytes fr ds = ascii_bytes (journal_text fr ds)"

definition journal_ok :: "(pyfloat \<Rightarrow> pystr) \<Rightarrow> sup_journal \<Rightarrow> bool" where
  "journal_ok fr j = (good_journal (j_records j) \<and> j_seq j = int (length (j_records j)) \<and>
     (case j_entry j of
        None \<Rightarrow> j_records j = []
      | Some (Inode f) \<Rightarrow> f_regular f \<and> f_nlink f = 1 \<and> f_data f = journal_bytes fr (j_records j)
      | Some Link \<Rightarrow> False))"

lemma ascii_journal:
  assumes "good_journal ds" shows "list_all (\<lambda>c. c < 128) (journal_text fr ds)"
proof -
  have "\<forall>c \<in> set (record_line fr d). c < 128" if "d \<in> set ds" for d
    using record_line_plain(1) [of d fr] that assms by (force simp: good_journal_def list_all_iff)
  then show ?thesis by (auto simp: journal_text_def list_all_iff)
qed

lemma ascii_decode128: "list_all (\<lambda>c. c < 128) s \<Longrightarrow> utf8_decode (ascii_bytes s) = Inr s"
  by (induction s) (simp_all add: ascii_bytes_def)

lemma parse_journal:
  "list_all (\<lambda>d. json_safe True (PDict d)) ds \<Longrightarrow> parse_records (map (record_line fr) ds) = Inr ds"
  by (induction ds) (simp_all add: str_strip_record record_line_plain(4))

lemma contiguous_good: "good_journal ds \<Longrightarrow> contiguous ds"
  by (auto simp: good_journal_def contiguous_def list_all_iff in_set_zip)

lemma journal_bytes_end: "journal_bytes fr ds = [] \<or> endswith (journal_bytes fr ds) [10]"
proof (cases ds rule: rev_cases)
  case Nil
  then show ?thesis by (simp add: journal_bytes_def journal_text_def ascii_bytes_def)
next
  case (snoc xs d)
  then have "journal_bytes fr ds = (journal_bytes fr xs @ ascii_bytes (record_line fr d)) @ [10]"
    by (simp add: journal_bytes_def journal_text_snoc ascii_bytes_def byte_def)
  then show ?thesis by (metis endswith_iff)
qed

lemma load_journal_bytes:
  assumes "good_journal ds" shows "load_data (journal_bytes fr ds) = Inr (ds, journal_bytes fr ds)"
proof -
  have s: "list_all (\<lambda>d. json_safe True (PDict d)) ds" using assms by (simp add: good_journal_def)
  have "utf8_decode (journal_bytes fr ds) = Inr (journal_text fr ds)"
    unfolding journal_bytes_def by (rule ascii_decode128 [OF ascii_journal [OF assms]])
  then show ?thesis
    using journal_bytes_end [of fr ds] contiguous_good [OF assms]
    by (simp add: load_data_def Let_def journal_lines(2) [OF s] parse_journal [OF s] corrupt_on_value_def)
qed

text \<open>A partial line after a complete journal is dropped.\<close>

lemma load_torn_bytes:
  assumes "good_journal ds" and "10 \<notin> set part" and "part \<noteq> []"
  shows "load_data (journal_bytes fr ds @ part) = Inr (ds, journal_bytes fr ds)"
proof -
  have ne: "\<not> endswith (journal_bytes fr ds @ part) [10]"
    using assms(2,3) by (cases part rule: rev_cases) (auto simp: endswith_def)
  have "dropWhile (\<lambda>b. b \<noteq> 10) (rev part @ rev (journal_bytes fr ds)) = rev (journal_bytes fr ds)"
  proof -
    have "dropWhile (\<lambda>b. b \<noteq> 10) (rev part @ rev (journal_bytes fr ds)) = dropWhile (\<lambda>b. b \<noteq> 10) (rev (journal_bytes fr ds))"
      using assms(2) by (intro dropWhile_append2) auto
    also have "\<dots> = rev (journal_bytes fr ds)"
      using journal_bytes_end [of fr ds] by (auto simp: endswith_iff)
    finally show ?thesis .
  qed
  then have "complete_part (journal_bytes fr ds @ part) = journal_bytes fr ds"
    by (simp add: complete_part_def)
  with ne assms(3) load_journal_bytes [OF assms(1), of fr] show ?thesis
    using journal_bytes_end [of fr ds] by (auto simp: load_data_def Let_def)
qed

end
