(* ===== verification/SupJournalProps.thy ===== *)
theory SupJournalProps
  imports SupJournal
begin

text \<open>
  The supervisor's journal survives restarts: what was appended is what the next start loads,
  and an append that a crash cut anywhere leaves exactly the records before it.
\<close>

definition valid_event :: "int \<Rightarrow> pystr \<Rightarrow> pystr \<Rightarrow> pydict \<Rightarrow> bool" where
  "valid_event n ts event fs =
     (event_fields fs \<and> small_int n \<and> list_all scalar_value ts \<and> list_all scalar_value event)"

lemma journal_ok_open:
  assumes "journal_ok fr j"
  shows "(j_entry j = None \<and> j_records j = [] \<and> open_state_file True (j_entry j) = Inr None) \<or>
    (\<exists>f. j_entry j = Some (Inode f) \<and> open_state_file True (j_entry j) = Inr (Some f) \<and>
       f_regular f \<and> f_nlink f = 1 \<and> f_data f = journal_bytes fr (j_records j))"
  using assms by (auto simp: journal_ok_def open_state_file_def split: option.splits dir_entry.splits)

lemma journal_bytes_snoc:
  "journal_bytes fr (ds @ [d]) = journal_bytes fr ds @ ascii_bytes (record_line fr d @ [10])"
  by (simp add: journal_bytes_def journal_text_snoc ascii_bytes_def)

lemma journal_bytes_Nil [simp]: "journal_bytes fr [] = []"
  by (simp add: journal_bytes_def journal_text_def ascii_bytes_def)

text \<open>One append keeps the invariant and adds the record with the next number.\<close>

lemma journal_step:
  assumes ok: "journal_ok fr j" and ev: "valid_event (j_seq j + 1) ts event fs"
  obtains f where "fst (journal fr ts event fs j) = Inr (numbered (j_seq j + 1) ts event fs)"
    "journal_ok fr (snd (journal fr ts event fs j))"
    "j_records (snd (journal fr ts event fs j)) = j_records j @ [numbered (j_seq j + 1) ts event fs]"
    "j_seq (snd (journal fr ts event fs j)) = j_seq j + 1"
    "j_entry (snd (journal fr ts event fs j)) = Some (Inode (f\<lparr>f_data :=
       journal_bytes fr (j_records j) @ ascii_bytes (record_line fr (numbered (j_seq j + 1) ts event fs) @ [10])\<rparr>))"
    "f_regular f" "f_nlink f = 1"
proof -
  let ?r = "numbered (j_seq j + 1) ts event fs"
  have seq: "j_seq j = int (length (j_records j))" and good: "good_journal (j_records j)"
    using ok by (auto simp: journal_ok_def)
  have e: "event_fields fs" "small_int (j_seq j + 1)" "list_all scalar_value ts" "list_all scalar_value event"
    using ev by (auto simp: valid_event_def)
  have good': "good_journal (j_records j @ [?r])"
    by (rule good_journal_snoc [OF good numbered_safe [OF e]]) (use numbered_get [OF e(1)] seq in auto)
  obtain f where f: "open_state_file True (j_entry j) = Inr None \<and> f = fresh_journal j \<or>
      open_state_file True (j_entry j) = Inr (Some f)"
    "f_regular f" "f_nlink f = 1" "f_data f = journal_bytes fr (j_records j)"
    using journal_ok_open [OF ok] by (fastforce simp: fresh_journal_def)
  let ?f = "f\<lparr>f_mode := 420, f_data := journal_bytes fr (j_records j) @ ascii_bytes (record_line fr ?r @ [10])\<rparr>"
  have step: "journal fr ts event fs j = (Inr ?r,
      j\<lparr>j_seq := j_seq j + 1, j_records := j_records j @ [?r], j_entry := Some (Inode ?f)\<rparr>)"
    using f(1,4) by (auto simp: journal_def Let_def)
  show thesis
    by (rule that [of "f\<lparr>f_mode := 420\<rparr>"])
      (use f good' seq in \<open>simp_all add: step journal_ok_def journal_bytes_snoc\<close>)
qed

section \<open>Runs\<close>

fun journal_all ::
  "(pyfloat \<Rightarrow> pystr) \<Rightarrow> (pystr \<times> pystr \<times> pydict) list \<Rightarrow> sup_journal \<Rightarrow> sup_journal" where
  "journal_all fr [] j = j"
| "journal_all fr ((ts, event, fs) # es) j = journal_all fr es (snd (journal fr ts event fs j))"

definition event_at :: "int \<Rightarrow> pystr \<times> pystr \<times> pydict \<Rightarrow> pydict" where
  "event_at n e = (case e of (ts, event, fs) \<Rightarrow> numbered n ts event fs)"

lemma journal_all_ok:
  assumes "journal_ok fr j" and "\<forall>i < length es. (case es ! i of (ts, event, fs) \<Rightarrow> valid_event (j_seq j + int i + 1) ts event fs)"
  shows "journal_ok fr (journal_all fr es j) \<and>
    j_records (journal_all fr es j) = j_records j @ map (\<lambda>i. event_at (j_seq j + int i + 1) (es ! i)) [0..<length es]"
  using assms
proof (induction es arbitrary: j)
  case Nil
  then show ?case by simp
next
  case (Cons e es)
  obtain ts event fs where e: "e = (ts, event, fs)" by (cases e)
  have "valid_event (j_seq j + 1) ts event fs" using Cons.prems(2) [rule_format, of 0] by (simp add: e)
  from Cons.prems(1) this obtain f where st: "journal_ok fr (snd (journal fr ts event fs j))"
    "j_records (snd (journal fr ts event fs j)) = j_records j @ [numbered (j_seq j + 1) ts event fs]"
    "j_seq (snd (journal fr ts event fs j)) = j_seq j + 1" by (rule journal_step)
  have next_ok: "\<forall>i < length es. (case es ! i of (ts', event', fs') \<Rightarrow>
      valid_event (j_seq (snd (journal fr ts event fs j)) + int i + 1) ts' event' fs')"
  proof (intro allI impI)
    fix i assume "i < length es"
    with Cons.prems(2) [rule_format, of "Suc i"] show "case es ! i of (ts', event', fs') \<Rightarrow>
        valid_event (j_seq (snd (journal fr ts event fs j)) + int i + 1) ts' event' fs'"
      by (simp add: st(3) algebra_simps)
  qed
  have shift: "map (\<lambda>i. event_at (j_seq j + int i + 1) ((e # es) ! i)) [0..<length (e # es)] =
      numbered (j_seq j + 1) ts event fs # map (\<lambda>i. event_at (j_seq j + 1 + int i + 1) (es ! i)) [0..<length es]"
    by (rule nth_equalityI) (auto simp: nth_Cons event_at_def e algebra_simps split: nat.split simp del: upt_Suc)
  from Cons.IH [OF st(1) next_ok] show ?case
    unfolding shift by (simp add: e st(2,3))
qed

lemma load_ok:
  assumes "journal_ok fr j"
  shows "load_records (j_entry j) = (Inr (j_records j, 0), j_entry j)"
  using journal_ok_open [OF assms] load_journal_bytes [of "j_records j" fr] assms
  by (auto simp: load_records_def journal_ok_def)

text \<open>
  C24: Nothing journaled is lost or reordered by a restart. After any number of appends the next
  start loads exactly the records the running supervisor held, numbered from 1, leaves the file
  as it is, and continues with the next number.
\<close>

theorem journal_reloads:
  assumes "journal_ok fr j"
    and "\<forall>i < length es. (case es ! i of (ts, event, fs) \<Rightarrow> valid_event (j_seq j + int i + 1) ts event fs)"
  shows "start_journal (j_entry (journal_all fr es j)) uid gid =
    Inr (\<lparr>j_seq = int (length (j_records j) + length es),
       j_records = j_records j @ map (\<lambda>i. event_at (j_seq j + int i + 1) (es ! i)) [0..<length es],
       j_entry = j_entry (journal_all fr es j), j_uid = uid, j_gid = gid\<rparr>, 0)"
  using journal_all_ok [OF assms] load_ok [of fr "journal_all fr es j"]
  by (simp add: start_journal_def)

text \<open>
  C25: A crash in the middle of an append costs at most that record. Whatever proper prefix of
  the new line reached the file, the next start loads the records before it, reports the
  dropped bytes and cuts the file back to the last complete line.
\<close>

theorem torn_append_recovers:
  assumes "journal_ok fr j" and "valid_event (j_seq j + 1) ts event fs"
    and "j_entry (snd (journal fr ts event fs j)) = Some (Inode f)"
    and "k < length (ascii_bytes (record_line fr (numbered (j_seq j + 1) ts event fs) @ [10]))"
  shows "load_records (Some (Inode (f\<lparr>f_data := take (length (journal_bytes fr (j_records j)) + k) (f_data f)\<rparr>))) =
    (Inr (j_records j, k), Some (Inode (f\<lparr>f_data := journal_bytes fr (j_records j)\<rparr>)))"
proof -
  let ?r = "numbered (j_seq j + 1) ts event fs"
  let ?line = "ascii_bytes (record_line fr ?r @ [10])" and ?old = "journal_bytes fr (j_records j)"
  from assms(1,2) obtain g where g: "j_entry (snd (journal fr ts event fs j)) = Some (Inode (g\<lparr>f_data := ?old @ ?line\<rparr>))"
    "f_regular g" "f_nlink g = 1" by (rule journal_step)
  then have f: "f = g\<lparr>f_data := ?old @ ?line\<rparr>" using assms(3) by simp
  have safe: "json_safe True (PDict ?r)"
    using assms(2) by (intro numbered_safe) (auto simp: valid_event_def)
  have good: "good_journal (j_records j)" using assms(1) by (simp add: journal_ok_def)
  have part: "take k ?line = take k (ascii_bytes (record_line fr ?r))"
    using assms(4) by (simp add: ascii_bytes_def)
  have no: "10 \<notin> set (take k ?line)"
  proof
    assume "10 \<in> set (take k ?line)"
    then have "10 \<in> set (ascii_bytes (record_line fr ?r))" unfolding part by (rule in_set_takeD)
    then obtain c where c: "c \<in> set (record_line fr ?r)" "byte c = 10" by (auto simp: ascii_bytes_def)
    then have "32 \<le> c" "c \<le> 126" using record_line_plain(1) [OF safe, of fr] by auto
    then have "unat (byte c) = c" by simp
    with c(2) \<open>32 \<le> c\<close> show False by simp
  qed
  have len: "length (take k ?line) = k" using assms(4) by simp
  have "load_data (?old @ take k ?line) = Inr (j_records j, ?old)"
  proof (cases "k = 0")
    case True
    then show ?thesis using load_journal_bytes [OF good, of fr] by simp
  next
    case False
    then have "take k ?line \<noteq> []" using len by fastforce
    from load_torn_bytes [OF good no this] show ?thesis .
  qed
  moreover have "length (?old @ take k ?line) - length ?old = k" using len by simp
  ultimately show ?thesis using g(2,3) by (simp add: f load_records_def open_state_file_def)
qed

text \<open>
  Loading is idempotent: a start that succeeded leaves a file that loads again to the same
  records with nothing to drop, whatever the file was before.
\<close>

theorem load_is_idempotent:
  assumes "load_records e = (Inr (ds, n), e')"
  shows "load_records e' = (Inr (ds, 0), e') \<and> contiguous ds"
proof (cases "open_state_file True e")
  case (Inr fo)
  show ?thesis
  proof (cases fo)
    case None
    with assms Inr show ?thesis by (auto simp: load_records_def contiguous_def)
  next
    case (Some f)
    with assms Inr obtain complete where c: "load_data (f_data f) = Inr (ds, complete)"
      "e' = Some (Inode (f\<lparr>f_data := complete\<rparr>))"
      by (auto simp: load_records_def split: sum.splits)
    have comp: "complete = (if f_data f = [] \<or> endswith (f_data f) [10] then f_data f else complete_part (f_data f))"
      and res: "corrupt_on_value (bind_res (utf8_decode complete) (\<lambda>t. parse_records (str_splitlines t))) = Inr ds"
      and cont: "contiguous ds"
      using c(1) by (auto simp: load_data_def Let_def bind_res_Inr split: if_splits)
    have "complete = [] \<or> endswith complete [10]"
    proof (cases "f_data f = [] \<or> endswith (f_data f) [10]")
      case False
      have "dropWhile (\<lambda>b. b \<noteq> 10) (rev (f_data f)) = [] \<or> hd (dropWhile (\<lambda>b. b \<noteq> 10) (rev (f_data f))) = 10"
        using hd_dropWhile [of "\<lambda>b. b \<noteq> 10" "rev (f_data f)"] by auto
      with False comp show ?thesis
        by (cases "dropWhile (\<lambda>b. b \<noteq> 10) (rev (f_data f))") (auto simp: complete_part_def endswith_def)
    qed (use comp in auto)
    then have "load_data complete = Inr (ds, complete)"
      using res cont by (auto simp: load_data_def Let_def)
    moreover have "f_regular f" "f_nlink f = 1"
      using Inr Some by (auto simp: open_state_file_def split: option.splits dir_entry.splits if_splits)
    ultimately show ?thesis using cont by (simp add: c(2) load_records_def open_state_file_def)
  qed
qed (use assms in \<open>auto simp: load_records_def\<close>)

section \<open>Witnesses\<close>

definition smp_journal :: sup_journal where
  "smp_journal = \<lparr>j_seq = 0, j_records = [], j_entry = None, j_uid = 0, j_gid = 0\<rparr>"

lemma smp_journal_ok: "journal_ok fr smp_journal"
  by (simp add: journal_ok_def smp_journal_def good_journal_def)

lemma smp_event_ok: "valid_event 1 (u ''t'') (u ''duty.off'') [(u ''req'', PInt 3)]"
  by code_simp

theorem journal_reloads_witness:
  "\<exists>j n. start_journal (j_entry (journal_all (\<lambda>_. []) [(u ''t'', u ''duty.off'', [(u ''req'', PInt 3)])] smp_journal)) 0 0 =
     Inr (j, n) \<and> length (j_records j) = 1 \<and> j_seq j = 1"
proof -
  have "\<forall>i < length [(u ''t'', u ''duty.off'', [(u ''req'', PInt 3)])].
      (case [(u ''t'', u ''duty.off'', [(u ''req'', PInt 3)])] ! i of
        (ts, event, fs) \<Rightarrow> valid_event (j_seq smp_journal + int i + 1) ts event fs)"
    using smp_event_ok by (simp add: smp_journal_def)
  from journal_reloads [OF smp_journal_ok this, of "\<lambda>_. []" 0 0] show ?thesis
    by (simp add: smp_journal_def)
qed

theorem torn_append_recovers_witness:
  "\<exists>f. j_entry (snd (journal (\<lambda>_. []) (u ''t'') (u ''duty.off'') [(u ''req'', PInt 3)] smp_journal)) = Some (Inode f) \<and>
     load_records (Some (Inode (f\<lparr>f_data := take 5 (f_data f)\<rparr>))) = (Inr ([], 5), Some (Inode (f\<lparr>f_data := []\<rparr>)))"
proof -
  have ev: "valid_event (j_seq smp_journal + 1) (u ''t'') (u ''duty.off'') [(u ''req'', PInt 3)]"
    using smp_event_ok by (simp add: smp_journal_def)
  obtain f where f: "j_entry (snd (journal (\<lambda>_. []) (u ''t'') (u ''duty.off'') [(u ''req'', PInt 3)] smp_journal)) = Some (Inode f)"
    by (simp add: journal_def smp_journal_def open_state_file_def Let_def)
  have "5 < length (ascii_bytes (record_line (\<lambda>_. []) (numbered (j_seq smp_journal + 1) (u ''t'') (u ''duty.off'') [(u ''req'', PInt 3)]) @ [10]))"
    by code_simp
  from torn_append_recovers [OF smp_journal_ok ev f this] f show ?thesis
    by (simp add: smp_journal_def)
qed

theorem load_is_idempotent_witness:
  "\<exists>e'. load_records (Some (Inode (fresh_journal smp_journal\<lparr>f_data := [120]\<rparr>))) = (Inr ([], 1), e') \<and>
     load_records e' = (Inr ([], 0), e')"
proof -
  let ?e = "Some (Inode (fresh_journal smp_journal\<lparr>f_data := [120]\<rparr>))"
  have "fst (load_records ?e) = Inr ([], 1)" by code_simp
  then obtain e' where e: "load_records ?e = (Inr ([], 1), e')" by (metis prod.collapse)
  from load_is_idempotent [OF e] e show ?thesis by blast
qed

end
