(* ===== verification/SupMemory.thy ===== *)
theory SupMemory
  imports PyText
begin

text \<open>
  What the supervisor of \<open>lib/aib_supervisor.py\<close> remembers across turns, sessions and restarts:
  the bound session, the provider-failure brake, the failure counters of messages, the
  persistence and infrastructure episodes, duty and consumed controls. \<open>restore\<close> rebuilds it
  from the journal; the operations below change it while the supervisor runs and journal why.
  The records they journal are kept as a list of event names and fields, in order.
\<close>

section \<open>The memory\<close>

record sup_mem =
  m_session :: pyval
  m_cwd :: pyval
  m_turns :: int
  m_new :: bool
  m_brake :: int
  m_tripped :: pyval
  m_failures :: "(pystr, int) dict"
  m_losses :: "(pystr, int) dict"
  m_streak :: int
  m_episode :: "pystr option"
  m_infra :: "pystr option"
  m_hint :: bool
  m_off :: bool
  m_consumed :: "pyval list"

definition init_mem :: sup_mem where
  "init_mem = \<lparr>m_session = PNone, m_cwd = PNone, m_turns = 0, m_new = False, m_brake = 0, m_tripped = PNone,
     m_failures = [], m_losses = [], m_streak = 0, m_episode = None, m_infra = None, m_hint = False,
     m_off = False, m_consumed = []\<rparr>"

text \<open>\<open>d.get(k, 0) + 1\<close> stored back, and \<open>d.pop(k, None)\<close>.\<close>

definition count_of :: "(pystr, int) dict \<Rightarrow> pystr \<Rightarrow> int" where
  "count_of d k = (case map_of d k of None \<Rightarrow> 0 | Some n \<Rightarrow> n)"

definition bump :: "pystr \<Rightarrow> (pystr, int) dict \<Rightarrow> (pystr, int) dict" where
  "bump k d = dset k (count_of d k + 1) d"

definition dpop :: "'k \<Rightarrow> ('k, 'v) dict \<Rightarrow> ('k, 'v) dict" where
  "dpop k d = filter (\<lambda>(j, v). j \<noteq> k) d"

text \<open>\<open>bool(v)\<close>, \<open>isinstance(v, int)\<close> and the value as a number.\<close>

definition truthy :: "pyval \<Rightarrow> bool" where
  "truthy v = (case v of PNone \<Rightarrow> False | PBool b \<Rightarrow> b | PInt n \<Rightarrow> n \<noteq> 0 | PStr s \<Rightarrow> s \<noteq> []
     | PList xs \<Rightarrow> xs \<noteq> [] | PDict d \<Rightarrow> d \<noteq> []
     | PFloat f \<Rightarrow> (case f of Finite m _ \<Rightarrow> m \<noteq> 0 | _ \<Rightarrow> True))"

definition int_instance :: "pyval \<Rightarrow> int option" where
  "int_instance v = (case v of PInt n \<Rightarrow> Some n | PBool b \<Rightarrow> Some (int_of_bool b) | _ \<Rightarrow> None)"

text \<open>\<open>str(v)\<close>; how floats and containers print is a parameter.\<close>

definition py_str :: "(pyval \<Rightarrow> pystr) \<Rightarrow> pyval \<Rightarrow> pystr" where
  "py_str rep v = (case v of PStr s \<Rightarrow> s | PNone \<Rightarrow> u ''None'' | PInt n \<Rightarrow> str_of_int n
     | PBool b \<Rightarrow> (if b then u ''True'' else u ''False'') | _ \<Rightarrow> rep v)"

definition unbind :: "sup_mem \<Rightarrow> sup_mem" where
  "unbind m = m\<lparr>m_session := PNone, m_cwd := PNone, m_turns := 0, m_new := False\<rparr>"

definition drop_counters :: "pyval \<Rightarrow> sup_mem \<Rightarrow> sup_mem" where
  "drop_counters msg m = (case msg of
       PStr i \<Rightarrow> m\<lparr>m_failures := dpop i (m_failures m), m_losses := dpop i (m_losses m)\<rparr> | _ \<Rightarrow> m)"

text \<open>\<open>consumed.add(v)\<close>: the set of request numbers, by Python's equality.\<close>

definition consume :: "pyval \<Rightarrow> sup_mem \<Rightarrow> sup_mem" where
  "consume v m = (if list_ex (py_eq v) (m_consumed m) then m else m\<lparr>m_consumed := m_consumed m @ [v]\<rparr>)"

section \<open>Restoring\<close>

definition restore_bound :: "pydict \<Rightarrow> sup_mem \<Rightarrow> sup_mem" where
  "restore_bound r m = m\<lparr>m_session := dget r ''sid'', m_cwd := dget r ''cwd'', m_turns := 0, m_new := True\<rparr>"

definition restore_started :: "pydict \<Rightarrow> sup_mem \<Rightarrow> sup_mem" where
  "restore_started r m = (if py_eq (dget r ''sid'') (m_session m) then m\<lparr>m_new := False\<rparr> else m)"

definition restore_ended :: "pydict \<Rightarrow> sup_mem \<Rightarrow> sup_mem" where
  "restore_ended r m =
     (let m1 = (case int_instance (dget r ''brake'') of Some n \<Rightarrow> m\<lparr>m_brake := n\<rparr> | None \<Rightarrow> m);
          m2 = (if truthy (dget r ''tripped_at'') then m1\<lparr>m_tripped := dget r ''tripped_at''\<rparr> else m1);
          msg = dget r ''msg_id''; cls = dget r ''class'' in
      if cls = PStr (u ''provider_failure'') \<and> is_str msg then
        m2\<lparr>m_failures := bump (str_or_empty msg) (m_failures m2), m_infra := None, m_hint := False\<rparr>
      else if cls = PStr (u ''session_lost'') \<and> is_str msg then
        m2\<lparr>m_losses := bump (str_or_empty msg) (m_losses m2)\<rparr>
      else if cls = PStr (u ''infra'') then
        (let m3 = (if m_infra m2 = None \<and> is_str (dget r ''attempt_id'')
                   then m2\<lparr>m_infra := Some (str_or_empty (dget r ''attempt_id''))\<rparr> else m2) in
         if dget r ''login_hint'' = PBool True then m3\<lparr>m_hint := True\<rparr> else m3)
      else if cls = PStr (u ''ok'') then
        (let m3 = m2\<lparr>m_infra := None, m_hint := False\<rparr>;
             m4 = (if py_eq (dget r ''sid'') (m_session m3) then m3\<lparr>m_turns := m_turns m3 + 1\<rparr> else m3) in
         drop_counters msg m4)
      else m2)"

definition restore_reset :: "sup_mem \<Rightarrow> sup_mem" where
  "restore_reset m = m\<lparr>m_brake := 0, m_tripped := PNone, m_failures := [], m_losses := [], m_streak := 0, m_episode := None\<rparr>"

definition restore_persistence_failed :: "(pyval \<Rightarrow> pystr) \<Rightarrow> pydict \<Rightarrow> sup_mem \<Rightarrow> sup_mem" where
  "restore_persistence_failed rep r m =
     (let m1 = m\<lparr>m_streak := (case dget r ''streak'' of PInt n \<Rightarrow> if 0 < n then n else m_streak m + 1
            | _ \<Rightarrow> m_streak m + 1)\<rparr>;
          m2 = (case dget r ''episode'' of
              PStr e \<Rightarrow> if e \<noteq> [] then m1\<lparr>m_episode := Some e\<rparr>
                else if m_episode m1 = None then m1\<lparr>m_episode := Some (py_str rep (dget_or r ''ts'' (PStr (u ''legacy''))))\<rparr>
                else m1
            | _ \<Rightarrow> if m_episode m1 = None then m1\<lparr>m_episode := Some (py_str rep (dget_or r ''ts'' (PStr (u ''legacy''))))\<rparr>
                else m1);
          m3 = drop_counters (dget r ''msg_id'') m2 in
      if py_eq (dget r ''sid'') (m_session m3) then unbind m3 else m3)"

definition restore_record :: "(pyval \<Rightarrow> pystr) \<Rightarrow> pydict \<Rightarrow> sup_mem \<Rightarrow> sup_mem" where
  "restore_record rep r m =
     (let event = dget r ''event'' in
      if event = PStr (u ''session.bound'') then restore_bound r m
      else if event = PStr (u ''turn.started'') then restore_started r m
      else if event = PStr (u ''turn.ended'') then restore_ended r m
      else if event = PStr (u ''duty.off'') then m\<lparr>m_off := True\<rparr>
      else if event = PStr (u ''duty.on'') then m\<lparr>m_off := False\<rparr>
      else if event = PStr (u ''brake.reset'') then restore_reset m
      else if event = PStr (u ''session.rotated'') \<and> dget r ''reason'' = PStr (u ''fresh'') then unbind m
      else if event = PStr (u ''session.persistence_failed'') then restore_persistence_failed rep r m
      else if event = PStr (u ''session.persistence_restored'') then m\<lparr>m_streak := 0, m_episode := None\<rparr>
      else if event = PStr (u ''ctl.consumed'') then
        (if int_instance (dget r ''req'') \<noteq> None then consume (dget r ''req'') m else m)
      else m)"

text \<open>The last started turn, with the indices of the last start and the last end.\<close>

fun restore_turn :: "pydict list \<Rightarrow> int \<Rightarrow> pydict option \<times> int \<times> int \<Rightarrow> pydict option \<times> int \<times> int" where
  "restore_turn [] i t = t"
| "restore_turn (r # rs) i (start, si, ei) =
     restore_turn rs (i + 1)
       (if dget r ''event'' = PStr (u ''turn.started'') then (Some r, i, ei)
        else if dget r ''event'' = PStr (u ''turn.ended'') then (start, si, i) else (start, si, ei))"

definition restore :: "(pyval \<Rightarrow> pystr) \<Rightarrow> int \<Rightarrow> pystr \<Rightarrow> pydict list \<Rightarrow> sup_mem \<Rightarrow> sup_mem \<times> pydict option" where
  "restore rep burst now rs m0 =
     (let m = fold (restore_record rep) rs (unbind m0);
          m1 = (if burst \<le> m_brake m \<and> m_tripped m = PNone then m\<lparr>m_tripped := PStr now\<rparr> else m) in
      case restore_turn rs 0 (None, -1, -1) of
        (start, si, ei) \<Rightarrow> (m1, if start \<noteq> None \<and> ei < si then start else None))"

end
