(* ===== verification/SupTurn.thy ===== *)
theory SupTurn
  imports SupMemory LedgerText Complex_Main
begin

text \<open>
  The turns of the supervisor (\<open>lib/aib_supervisor.py\<close>): binding and rotating sessions, starting
  a turn, finishing it with each class of result, cancelling it, and the brake. Times are exact
  rationals. What other programs and components answer (the message and task commands, the
  application of the turn's intents) is a reply handed in; what the supervisor sends them is
  the list of effects.
\<close>

section \<open>Work, effects and state\<close>

record control =
  c_seq :: pyval
  c_verb :: pystr

record task_ref =
  tr_task :: pystr
  tr_run :: pystr
  tr_owner :: pystr
  tr_attempt :: "pystr option"

datatype work = Work (w_id: pystr) (w_synthetic: bool) (w_control: "control option")
  (w_action: "pystr option") (w_rotate: bool) (w_queued: "work option") (w_resume: "work option")
  (w_task: "task_ref option") (w_retry: bool)

datatype effect =
    E_message string pystr pystr
  | E_alarm string int
  | E_infra_alarm bool
  | E_heartbeat string pystr
  | E_control pystr pydict
  | E_missing_report pystr pystr
  | E_service_fail pystr pystr string

datatype retry = At rat | Never

text \<open>The turn in flight: its work, its attempt and whether its session is a new one.\<close>

record flight =
  fl_work :: work
  fl_attempt :: pystr
  fl_fresh :: bool

text \<open>\<open>s_log\<close> is the whole journal, loaded records included.\<close>

record sup =
  s_mem :: sup_mem
  s_log :: "(pystr \<times> pydict) list"
  s_fx :: "effect list"
  s_work :: "work option"
  s_turn :: "flight option"
  s_heart :: "string option"
  s_state :: "string \<times> string"
  s_retry :: retry
  s_infra_since :: "rat option"
  s_cwd :: pystr

record sup_cfg =
  g_uid :: pystr
  g_burst :: int
  g_cap :: rat
  g_base :: rat
  g_infra_min :: rat
  g_infra_max :: rat
  g_blocked_after :: rat

text \<open>
  The moment of an operation: the clock, the timestamp, a fresh session id, the fraction
  \<open>random.uniform\<close> draws, a fresh work id.
\<close>

record moment =
  n_now :: rat
  n_ts :: pystr
  n_sid :: pystr
  n_draw :: rat
  n_wid :: pystr

definition log :: "string \<Rightarrow> pydict \<Rightarrow> sup \<Rightarrow> sup" where
  "log event fs s = s\<lparr>s_log := s_log s @ [(u event, fs)]\<rparr>"

definition emit :: "effect \<Rightarrow> sup \<Rightarrow> sup" where
  "emit e s = s\<lparr>s_fx := s_fx s @ [e]\<rparr>"

definition mem :: "(sup_mem \<Rightarrow> sup_mem) \<Rightarrow> sup \<Rightarrow> sup" where
  "mem f s = s\<lparr>s_mem := f (s_mem s)\<rparr>"

definition set_state :: "string \<Rightarrow> string \<Rightarrow> sup \<Rightarrow> sup" where
  "set_state st why s = s\<lparr>s_state := (st, why)\<rparr>"

text \<open>A heartbeat is written when its status changes.\<close>

definition heartbeat :: "string \<Rightarrow> pystr \<Rightarrow> sup \<Rightarrow> sup" where
  "heartbeat status detail s =
     (if s_heart s = Some status then s else emit (E_heartbeat status detail) (s\<lparr>s_heart := Some status\<rparr>))"

definition opt_val :: "pystr option \<Rightarrow> pyval" where
  "opt_val v = (case v of None \<Rightarrow> PNone | Some s \<Rightarrow> PStr s)"

section \<open>Sessions\<close>

definition bind_session :: "sup_cfg \<Rightarrow> moment \<Rightarrow> pyval option \<Rightarrow> sup \<Rightarrow> sup" where
  "bind_session g n rebound_from s =
     (let s1 = (case rebound_from of None \<Rightarrow> s
          | Some prev \<Rightarrow> log ''session.rebound'' [(u ''sid'', PStr (n_sid n)), (u ''prev_sid'', prev), (u ''cwd'', PStr (s_cwd s))] s);
          s2 = mem (\<lambda>m. m\<lparr>m_session := PStr (n_sid n), m_cwd := PStr (s_cwd s), m_new := True, m_turns := 0\<rparr>) s1 in
      log ''session.bound'' [(u ''agent'', PStr (g_uid g)), (u ''sid'', PStr (n_sid n)), (u ''cwd'', PStr (s_cwd s))] s2)"

text \<open>
  \<open>add_handover_note\<close>: nothing when an unread note is in the inbox; otherwise one is sent, and a
  failure to send raises \<open>OSError\<close>. The reply says whether a note is there and whether one can be
  sent. What was done before an exception stays done, so the state comes with it.
\<close>

definition add_handover_note :: "bool \<Rightarrow> bool \<Rightarrow> string \<Rightarrow> sup_cfg \<Rightarrow> sup \<Rightarrow> exn option \<times> sup" where
  "add_handover_note present sent reason g s =
     (if present then (None, s)
      else (if sent then None else Some OSError, emit (E_message ''send'' (g_uid g) (u reason)) s))"

definition rotate_with_note :: "bool \<Rightarrow> bool \<Rightarrow> string \<Rightarrow> sup_cfg \<Rightarrow> moment \<Rightarrow> sup \<Rightarrow> exn option \<times> sup" where
  "rotate_with_note present sent reason g n s =
     (case add_handover_note present sent reason g s of
        (Some e, s1) \<Rightarrow> (Some e, s1)
      | (None, s1) \<Rightarrow> (None, bind_session g n None
          (log ''session.rotated'' [(u ''reason'', PStr (u reason)), (u ''prev_sid'', m_session (s_mem s))] s1)))"

definition begin_session_loss_handover :: "sup_cfg \<Rightarrow> moment \<Rightarrow> work \<Rightarrow> sup \<Rightarrow> sup" where
  "begin_session_loss_handover g n queued s =
     (bind_session g n None
        (log ''session.rotated'' [(u ''reason'', PStr (u ''unknown_sid'')), (u ''prev_sid'', m_session (s_mem s))] s))
     \<lparr>s_work := Some (Work (n_wid n) True None None False None (Some queued) None False)\<rparr>"

definition check_cwd_binding :: "bool \<Rightarrow> bool \<Rightarrow> sup_cfg \<Rightarrow> moment \<Rightarrow> sup \<Rightarrow> exn option \<times> sup" where
  "check_cwd_binding present sent g n s =
     (if truthy (m_session (s_mem s)) \<and> m_cwd (s_mem s) \<noteq> PStr (s_cwd s)
      then (case add_handover_note present sent ''cwd_changed'' g s of
          (Some e, s1) \<Rightarrow> (Some e, s1)
        | (None, s1) \<Rightarrow> (None, bind_session g n (Some (m_session (s_mem s))) s1))
      else (None, s))"

section \<open>Ending a turn\<close>

definition end_turn :: "work \<Rightarrow> pystr \<Rightarrow> string \<Rightarrow> int \<Rightarrow> bool \<Rightarrow> string option \<Rightarrow> sup \<Rightarrow> sup" where
  "end_turn w attempt cls rc login_hint reason s = log ''turn.ended''
     ([(u ''msg_id'', PStr (w_id w)), (u ''sid'', m_session (s_mem s)), (u ''attempt_id'', PStr attempt),
       (u ''class'', PStr (u cls)), (u ''rc'', PInt rc), (u ''brake'', PInt (m_brake (s_mem s))),
       (u ''tripped_at'', m_tripped (s_mem s))] @
      (if login_hint then [(u ''login_hint'', PBool True)] else []) @
      (case reason of None \<Rightarrow> [] | Some r \<Rightarrow> [(u ''reason'', PStr (u r))])) s"

definition control_event :: "string \<Rightarrow> control \<Rightarrow> pydict \<Rightarrow> sup_cfg \<Rightarrow> sup \<Rightarrow> sup" where
  "control_event event c more_fields g s =
     (let fs = [(u ''req'', c_seq c), (u ''verb'', PStr (c_verb c)), (u ''target'', PStr (g_uid g))] @ more_fields in
      emit (E_control (u event) fs) (log event fs s))"

definition done_control :: "control \<Rightarrow> string \<Rightarrow> sup_cfg \<Rightarrow> sup \<Rightarrow> sup" where
  "done_control c result g s = control_event ''ctl.done'' c [(u ''result'', PStr (u result))] g s"

definition trip_if_burst :: "sup_cfg \<Rightarrow> moment \<Rightarrow> sup \<Rightarrow> sup" where
  "trip_if_burst g n = mem (\<lambda>m. if g_burst g \<le> m_brake m then m\<lparr>m_tripped := PStr (n_ts n)\<rparr> else m)"

definition forget_infra :: "sup \<Rightarrow> sup" where
  "forget_infra s = mem (\<lambda>m. m\<lparr>m_infra := None, m_hint := False\<rparr>) (s\<lparr>s_infra_since := None\<rparr>)"

text \<open>The delay before the next try doubles with every consecutive failure, up to the cap.\<close>

definition backoff :: "sup_cfg \<Rightarrow> int \<Rightarrow> rat" where
  "backoff g brake = min (g_cap g) (g_base g * 2 ^ nat (brake - 1))"

definition park :: "sup_cfg \<Rightarrow> moment \<Rightarrow> string \<Rightarrow> sup \<Rightarrow> sup" where
  "park g n why s = (set_state ''WAITING'' why s)\<lparr>s_retry := At (n_now n + backoff g (m_brake (s_mem s)))\<rparr>"

definition fail_brake :: "sup \<Rightarrow> sup" where
  "fail_brake s = (heartbeat ''blocked'' (u ''supervisor provider-failure brake tripped'')
     (set_state ''FAILED'' ''brake'' (emit (E_alarm ''brake_tripped'' (m_brake (s_mem s))) s)))\<lparr>s_retry := Never\<rparr>"

section \<open>Finishing a turn\<close>

text \<open>
  The replies of one finish: whether the turn's intents were applied and what that journaled,
  the task's state afterwards and at the later look-ups, whether a retry of the intents is
  pending, what the sweep of a missing report and the failing of the task journal, the two
  replies of a handover note, what closing the attempt's intents journals, and whether the
  transcript can be appended to.
\<close>

record replies =
  rp_handled :: bool
  rp_intent_log :: "(pystr \<times> pydict) list"
  rp_state :: pystr
  rp_retry_pending :: bool
  rp_state_ok :: pystr
  rp_missing_log :: "(pystr \<times> pydict) list"
  rp_state_failed :: "pystr option"
  rp_fail_log :: "(pystr \<times> pydict) list"
  rp_note_present :: bool
  rp_note_sent :: bool
  rp_close_log :: "(pystr \<times> pydict) list"
  rp_transcript :: bool

definition logs :: "(pystr \<times> pydict) list \<Rightarrow> sup \<Rightarrow> sup" where
  "logs es s = s\<lparr>s_log := s_log s @ es\<rparr>"

text \<open>\<open>needle in output.lower()\<close> for ASCII needles.\<close>

definition lower :: "pystr \<Rightarrow> pystr" where
  "lower = map (\<lambda>c. if 65 \<le> c \<and> c \<le> 90 then c + 32 else c)"

definition mentions :: "pystr \<Rightarrow> string \<Rightarrow> bool" where
  "mentions s needle = list_ex (\<lambda>i. startswith (drop i s) (u needle)) [0..<Suc (length s)]"

definition broker_attempt :: "pystr \<Rightarrow> task_ref \<Rightarrow> pystr" where
  "broker_attempt attempt t = (case tr_attempt t of Some a \<Rightarrow> a | None \<Rightarrow> attempt)"

text \<open>
  A session that was lost twice for one piece of work: the failure is counted and journaled, the
  session is left (\<open>persistence_recorded\<close>), then the work is answered and the next try set.
\<close>

definition persistence_counted :: "sup_cfg \<Rightarrow> moment \<Rightarrow> pystr \<Rightarrow> sup \<Rightarrow> sup" where
  "persistence_counted g n attempt s = trip_if_burst g n (mem (\<lambda>m. m\<lparr>m_streak := m_streak m + 1,
     m_episode := (if m_episode m = None then Some attempt else m_episode m),
     m_brake := m_brake m + 1\<rparr>) (forget_infra s))"

definition persistence_recorded :: "sup_cfg \<Rightarrow> moment \<Rightarrow> int \<Rightarrow> work \<Rightarrow> pystr \<Rightarrow> sup \<Rightarrow> sup" where
  "persistence_recorded g n rc w attempt s =
     (let why = ''session_persistence_unavailable'';
          s2 = end_turn w attempt ''provider_failure'' rc False (Some why) (persistence_counted g n attempt s);
          m = s_mem s2 in
      mem (\<lambda>m. unbind (m\<lparr>m_losses := dpop (w_id w) (m_losses m)\<rparr>))
        (log ''session.persistence_failed'' [(u ''msg_id'', PStr (w_id w)), (u ''sid'', m_session m),
            (u ''reason'', PStr (u why)), (u ''brake'', PInt (m_brake m)), (u ''tripped_at'', m_tripped m),
            (u ''streak'', PInt (m_streak m)), (u ''episode'', opt_val (m_episode m))] s2))"

definition persistence_lost :: "sup_cfg \<Rightarrow> moment \<Rightarrow> int \<Rightarrow> work \<Rightarrow> pystr \<Rightarrow> sup \<Rightarrow> sup" where
  "persistence_lost g n rc w attempt s =
     (let why = ''session_persistence_unavailable'';
          s4 = persistence_recorded g n rc w attempt s;
          s5 = emit (E_alarm ''session_persistence_failed'' (m_streak (s_mem s4))) s4;
          s6 = (case w_control w of Some c \<Rightarrow> done_control c why g s5
            | None \<Rightarrow> if w_synthetic w then s5 else emit (E_message ''fail'' (w_id w) (u why)) s5);
          s7 = s6\<lparr>s_work := None\<rparr> in
      if m_tripped (s_mem s7) \<noteq> PNone then fail_brake s7 else park g n why s7)"

definition session_lost ::
  "sup_cfg \<Rightarrow> moment \<Rightarrow> replies \<Rightarrow> int \<Rightarrow> work \<Rightarrow> pystr \<Rightarrow> sup \<Rightarrow> exn option \<times> sup" where
  "session_lost g n rp rc w attempt s =
     (let s1 = mem (\<lambda>m. m\<lparr>m_losses := bump (w_id w) (m_losses m)\<rparr>) s in
      if 2 \<le> count_of (m_losses (s_mem s1)) (w_id w) then (None, persistence_lost g n rc w attempt s1)
      else let s2 = end_turn w attempt ''session_lost'' rc False None s1 in
        (case w_control w of
           Some c \<Rightarrow> (None, (begin_session_loss_handover g n w s2)\<lparr>s_retry := At (n_now n)\<rparr>)
         | None \<Rightarrow> (case rotate_with_note (rp_note_present rp) (rp_note_sent rp) ''unknown_sid'' g n s2 of
               (Some e, s3) \<Rightarrow> (Some e, s3)
             | (None, s3) \<Rightarrow> (None, s3\<lparr>s_work := None, s_retry := At (n_now n)\<rparr>))))"

definition ready :: "sup \<Rightarrow> sup" where
  "ready s = set_state ''READY'' (if m_streak (s_mem s) \<noteq> 0 then ''session_persistence_unavailable'' else '''') s"

text \<open>A turn that worked, by the kind of work it did.\<close>

definition after_plain :: "sup_cfg \<Rightarrow> moment \<Rightarrow> work \<Rightarrow> sup \<Rightarrow> sup" where
  "after_plain g n w s =
     (case w_resume w of
        Some q \<Rightarrow> ready (s\<lparr>s_work := Some q\<rparr>)
      | None \<Rightarrow>
          if w_rotate w then
            (bind_session g n None (log ''session.rotated'' [(u ''reason'', PStr (u ''max_turns'')),
               (u ''prev_sid'', m_session (s_mem s))] s))\<lparr>s_work := w_queued w\<rparr>
          else heartbeat ''idle'' (u ''supervisor ready'')
            (ready ((if w_synthetic w then s else emit (E_message ''done'' (w_id w) []) s)\<lparr>s_work := None\<rparr>)))"

definition after_ok :: "sup_cfg \<Rightarrow> moment \<Rightarrow> work \<Rightarrow> sup \<Rightarrow> sup" where
  "after_ok g n w s =
     (case w_control w of
        None \<Rightarrow> after_plain g n w s
      | Some c \<Rightarrow>
          if w_action w = Some (u ''feierabend'') then
            done_control c ''off_duty'' g (set_state ''WAITING'' ''off_duty''
              ((log ''duty.off'' [(u ''req'', c_seq c)] (mem (\<lambda>m. m\<lparr>m_off := True\<rparr>) s))\<lparr>s_work := None\<rparr>))
          else if w_action w = Some (u ''standup'') then
            done_control c ''ready'' g (ready ((mem (\<lambda>m. m\<lparr>m_off := False\<rparr>) s)\<lparr>s_work := None\<rparr>))
          else after_plain g n w s)
     \<lparr>s_retry := At (n_now n)\<rparr>"

definition release_brake :: "bool \<Rightarrow> sup_mem \<Rightarrow> sup_mem" where
  "release_brake resumed m =
     (if m_streak m \<noteq> 0 \<and> resumed then m\<lparr>m_brake := 0, m_tripped := PNone, m_streak := 0, m_episode := None\<rparr>
      else if m_streak m = 0 then m\<lparr>m_brake := 0, m_tripped := PNone\<rparr> else m)"

definition finish_ok ::
  "sup_cfg \<Rightarrow> moment \<Rightarrow> replies \<Rightarrow> int \<Rightarrow> bool \<Rightarrow> bool \<Rightarrow> work \<Rightarrow> pystr \<Rightarrow> sup \<Rightarrow> sup" where
  "finish_ok g n rp rc fresh handled w attempt s =
     (let streak = m_streak (s_mem s);
          restored = (if streak \<noteq> 0 \<and> \<not> fresh then streak else 0);
          s1 = mem (\<lambda>m. m\<lparr>m_turns := m_turns m + 1\<rparr>) (forget_infra (mem (release_brake (\<not> fresh)) s));
          s2 = end_turn w attempt ''ok'' rc False None s1;
          s3 = (case w_task w of
              Some t \<Rightarrow> if \<not> handled \<and> \<not> rp_retry_pending rp \<and> rp_state_ok rp = u ''IN_PROGRESS''
                then logs (rp_missing_log rp) (emit (E_missing_report (tr_task t) (broker_attempt attempt t)) s2) else s2
            | None \<Rightarrow> s2);
          s4 = (if restored \<noteq> 0 then log ''session.persistence_restored'' [(u ''sid'', m_session (s_mem s3)),
            (u ''previous'', PInt restored)] s3 else s3) in
      after_ok g n w s4)"

definition finish_infra :: "sup_cfg \<Rightarrow> moment \<Rightarrow> int \<Rightarrow> bool \<Rightarrow> work \<Rightarrow> pystr \<Rightarrow> sup \<Rightarrow> sup" where
  "finish_infra g n rc hint w attempt s =
     (let s0 = s\<lparr>s_infra_since := (if s_infra_since s = None then Some (n_now n) else s_infra_since s)\<rparr>;
          s1 = mem (\<lambda>m. m\<lparr>m_infra := (if m_infra m = None then Some attempt else m_infra m), m_hint := (m_hint m \<or> hint)\<rparr>) s0;
          s2 = end_turn w attempt ''infra'' rc hint None s1;
          why = (if rc = 75 then ''capacity'' else ''infra'');
          s3 = set_state ''WAITING'' why s2;
          s4 = (if g_blocked_after g \<le> n_now n - the (s_infra_since s3)
            then emit (E_infra_alarm (m_hint (s_mem s3))) (heartbeat ''blocked'' (u ''supervisor waiting on '' @ u why) s3) else s3) in
      s4\<lparr>s_retry := At (n_now n + (g_infra_min g + (g_infra_max g - g_infra_min g) * n_draw n))\<rparr>)"

definition finish_failed ::
  "sup_cfg \<Rightarrow> moment \<Rightarrow> replies \<Rightarrow> int \<Rightarrow> work \<Rightarrow> pystr \<Rightarrow> string option \<Rightarrow> sup \<Rightarrow> sup" where
  "finish_failed g n rp rc w attempt refusal s =
     (let s1 = trip_if_burst g n (mem (\<lambda>m. m\<lparr>m_brake := m_brake m + 1, m_failures := bump (w_id w) (m_failures m)\<rparr>)
            (forget_infra s));
          failures = count_of (m_failures (s_mem s1)) (w_id w);
          s2 = end_turn w attempt ''provider_failure'' rc False refusal s1 in
      if m_tripped (s_mem s2) \<noteq> PNone then fail_brake s2
      else let s3 =
          (if 3 \<le> failures \<and> \<not> w_synthetic w then
             (let s' = emit (E_message ''fail'' (w_id w) (u ''provider failure rc='' @ str_of_int rc @
                  (case refusal of None \<Rightarrow> [] | Some r \<Rightarrow> u '' reason='' @ u r))) s2;
                  s'' = (case w_task w of
                      Some t \<Rightarrow> if rp_state_failed rp = Some (u ''IN_PROGRESS'')
                        then logs (rp_fail_log rp) (emit (E_service_fail (tr_task t) (broker_attempt attempt t) ''turn_failed'') s') else s'
                    | None \<Rightarrow> s') in s''\<lparr>s_work := None\<rparr>)
           else s2\<lparr>s_work := Some w\<rparr>) in
        park g n ''infra'' s3)"

text \<open>The class of a result decides how the turn ends.\<close>

definition finish_class ::
  "sup_cfg \<Rightarrow> moment \<Rightarrow> replies \<Rightarrow> int \<Rightarrow> pystr \<Rightarrow> bool \<Rightarrow> work \<Rightarrow> bool \<Rightarrow> pystr \<Rightarrow> string option \<Rightarrow> sup \<Rightarrow> exn option \<times> sup" where
  "finish_class g n rp rc out handled w fresh attempt refusal s =
     (let lowered = lower out; hint = (rc = 78 \<and> mentions lowered ''hint:login'') in
      if refusal = None \<and> rc \<noteq> 0 \<and> fresh \<and> mentions lowered ''already in use'' then
        (None, (end_turn w attempt ''session_in_use'' rc False None s)\<lparr>s_retry := At (n_now n)\<rparr>)
      else if refusal = None \<and> rc \<noteq> 0 \<and> \<not> fresh \<and> mentions lowered ''no conversation found'' then
        session_lost g n rp rc w attempt s
      else if refusal = None \<and> rc = 0 \<and> out \<noteq> [] then (None, finish_ok g n rp rc fresh handled w attempt s)
      else if refusal = None \<and> (rc \<in> {75, 78, 69} \<or> (rc = 0 \<and> out = []) \<or> hint)
        then (None, finish_infra g n rc hint w attempt s)
      else (None, finish_failed g n rp rc w attempt refusal s))"

text \<open>
  \<open>append_transcript\<close> raises \<open>OSError\<close> when there is output and the transcript cannot be written.
\<close>

definition transcript_raises :: "replies \<Rightarrow> pystr \<Rightarrow> bool" where
  "transcript_raises rp out = (out \<noteq> [] \<and> \<not> rp_transcript rp)"

text \<open>
  \<open>_finish_result\<close>: a turn whose intents were applied and whose task is no longer open counts as
  successful, whatever the launcher returned. The transcript comes first: when it cannot be
  written, the exception leaves before anything is journaled.
\<close>

definition closed_by_intents :: "replies \<Rightarrow> work \<Rightarrow> bool" where
  "closed_by_intents rp w = (w_task w \<noteq> None \<and> rp_handled rp \<and> rp_state rp \<notin> {u ''ASSIGNED'', u ''IN_PROGRESS''})"

definition finish_result ::
  "sup_cfg \<Rightarrow> moment \<Rightarrow> replies \<Rightarrow> int \<Rightarrow> pystr \<Rightarrow> work \<Rightarrow> bool \<Rightarrow> pystr \<Rightarrow> string option \<Rightarrow> sup \<Rightarrow> exn option \<times> sup" where
  "finish_result g n rp rc out w fresh attempt refusal s =
     (let task = (w_task w \<noteq> None); handled = (task \<and> rp_handled rp); closed = closed_by_intents rp w in
      if transcript_raises rp out then (Some OSError, s)
      else finish_class g n rp (if closed then 0 else rc) (if closed \<and> out = [] then u ''task intent applied'' else out)
        handled w fresh attempt refusal (if task then logs (rp_intent_log rp) s else s))"

section \<open>Starting and collecting a turn\<close>

definition work_fields :: "work \<Rightarrow> pydict" where
  "work_fields w = (case w_task w of
       None \<Rightarrow> [(u ''task_id'', PNone), (u ''run_id'', PNone), (u ''requester'', PNone)]
     | Some t \<Rightarrow> [(u ''task_id'', PStr (tr_task t)), (u ''run_id'', PStr (tr_run t)), (u ''requester'', PStr (tr_owner t))])"

text \<open>
  \<open>start_turn\<close> up to the launch: a session is bound if there is none, the turn is journaled and
  the session is no longer new. The work comes as \<open>prepare_task_work\<close> left it.
\<close>

definition begin_turn :: "sup_cfg \<Rightarrow> moment \<Rightarrow> work \<Rightarrow> pystr \<Rightarrow> sup \<Rightarrow> bool \<times> sup" where
  "begin_turn g n w attempt s =
     (let s1 = (if m_session (s_mem s) = PNone then bind_session g n None s else s);
          fresh = m_new (s_mem s1);
          reason = (if m_streak (s_mem s1) \<noteq> 0 then ''session_persistence_unavailable''
            else if s_infra_since s1 \<noteq> None then ''infra'' else '''');
          s2 = set_state ''WORKING'' reason s1;
          s3 = (if s_heart s2 = Some ''blocked'' then s2 else heartbeat ''busy'' (u ''supervised turn '' @ w_id w) s2);
          s4 = log ''turn.started'' ([(u ''msg_id'', PStr (w_id w)), (u ''sid'', m_session (s_mem s3)),
            (u ''attempt_id'', PStr attempt)] @ work_fields w) s3 in
      (fresh, mem (\<lambda>m. m\<lparr>m_new := False\<rparr>) s4))"

text \<open>
  The broker's attempt id is the token of the attempt file, where it holds one, and otherwise
  the local one; \<open>Inl\<close> is a file that cannot be read.
\<close>

definition attempt_of_meta :: "exn + pystr \<Rightarrow> pystr \<Rightarrow> pystr" where
  "attempt_of_meta meta attempt = (case meta of
       Inr t \<Rightarrow> (let c = str_strip t in if c \<noteq> [] \<and> fullmatch TOKEN_RE c then c else attempt)
     | Inl _ \<Rightarrow> attempt)"

definition set_broker :: "pystr \<Rightarrow> work \<Rightarrow> work" where
  "set_broker b w = (case w of Work i sy c a ro q re t y \<Rightarrow>
     Work i sy c a ro q re (map_option (\<lambda>t. t\<lparr>tr_attempt := Some b\<rparr>) t) y)"

definition record_turn_attempt :: "exn + pystr \<Rightarrow> work \<Rightarrow> pystr \<Rightarrow> sup \<Rightarrow> work \<times> sup" where
  "record_turn_attempt meta w attempt s =
     (let b = attempt_of_meta meta attempt in
      (set_broker b w, log ''turn.attempt'' ([(u ''attempt_id'', PStr b), (u ''local_attempt_id'', PStr attempt),
         (u ''msg_id'', PStr (w_id w))] @ work_fields w) s))"

definition read_turn_output :: "exn + pystr \<Rightarrow> pystr \<times> string option" where
  "read_turn_output r = (case r of Inr t \<Rightarrow> (t, None) | Inl _ \<Rightarrow> ([], Some ''unsafe_turn_output''))"

definition finish_attempt ::
  "sup_cfg \<Rightarrow> moment \<Rightarrow> replies \<Rightarrow> int \<Rightarrow> exn + pystr \<Rightarrow> exn + pystr \<Rightarrow> work \<Rightarrow> bool \<Rightarrow> pystr \<Rightarrow> sup \<Rightarrow> exn option \<times> sup" where
  "finish_attempt g n rp rc read meta w fresh attempt s =
     (case read_turn_output read of (out, refusal) \<Rightarrow>
      case record_turn_attempt meta w attempt s of (w1, s1) \<Rightarrow>
        finish_result g n rp rc out w1 fresh attempt refusal s1)"

text \<open>
  The launch: the process runs, with the number of the rejections shown in its prompt; or it
  could not be started and the turn ends at once with status 69; or an exception leaves after
  the turn was journaled and before the launch (the live file, the prompt, the files of the
  output and of the attempt), and no turn is in flight.
\<close>

datatype launch = Launched "int option" | Launch_failed "exn + pystr" "exn + pystr" | Launch_raised exn

definition start_turn ::
  "sup_cfg \<Rightarrow> moment \<Rightarrow> replies \<Rightarrow> launch \<Rightarrow> work \<Rightarrow> pystr \<Rightarrow> sup \<Rightarrow> exn option \<times> sup" where
  "start_turn g n rp l w attempt s =
     (case begin_turn g n w attempt s of (fresh, s1) \<Rightarrow>
      case l of
        Launched shown \<Rightarrow> (None,
          (case shown of None \<Rightarrow> s1
           | Some k \<Rightarrow> log ''rejections.preambled'' [(u ''through_seq'', PInt k), (u ''msg_id'', PStr (w_id w))] s1)
          \<lparr>s_turn := Some \<lparr>fl_work = w, fl_attempt = attempt, fl_fresh = fresh\<rparr>\<rparr>)
      | Launch_failed read meta \<Rightarrow> finish_attempt g n rp 69 read meta w fresh attempt s1
      | Launch_raised e \<Rightarrow> (Some e, s1))"

text \<open>
  \<open>collect_turn\<close> once the process has ended: the intents of a task's attempt are closed last,
  also when an exception leaves.
\<close>

definition collect_turn ::
  "sup_cfg \<Rightarrow> moment \<Rightarrow> replies \<Rightarrow> int \<Rightarrow> exn + pystr \<Rightarrow> exn + pystr \<Rightarrow> flight \<Rightarrow> sup \<Rightarrow> exn option \<times> sup" where
  "collect_turn g n rp rc read meta t s =
     (case finish_attempt g n rp rc read meta (fl_work t) (fl_fresh t) (fl_attempt t) (s\<lparr>s_turn := None\<rparr>) of
        (e, s1) \<Rightarrow> (e, if w_task (fl_work t) \<noteq> None then logs (rp_close_log rp) s1 else s1))"

text \<open>
  \<open>_unmatched_preparations\<close> and \<open>_message_engine_error\<close>: an exception of the turn code is
  counted in the journal, by the name of its class, and a third one gives the message up.
\<close>

definition unmatched_preparations :: "pystr \<Rightarrow> (pystr \<times> pydict) list \<Rightarrow> nat" where
  "unmatched_preparations i es = fold (\<lambda>(ev, fs) n.
     if dget fs ''msg_id'' \<noteq> PStr i then n
     else if ev = u ''message.preparing'' then n + 1
     else if ev \<in> {u ''message.prepared'', u ''message.preparation_failed''} \<and> n \<noteq> 0 then n - 1 else n) es 0"

definition engine_errors :: "pystr \<Rightarrow> (pystr \<times> pydict) list \<Rightarrow> nat" where
  "engine_errors i es = length (filter (\<lambda>(ev, fs). ev = u ''message.engine_error'' \<and> dget fs ''msg_id'' = PStr i) es)"

fun exn_class :: "exn \<Rightarrow> string" where
  "exn_class (LedgerError _) = ''LedgerError''"
| "exn_class (ValueError _) = ''ValueError''"
| "exn_class UnicodeError = ''UnicodeError''"
| "exn_class TypeError = ''TypeError''"
| "exn_class KeyError = ''KeyError''"
| "exn_class AttributeError = ''AttributeError''"
| "exn_class OverflowError = ''OverflowError''"
| "exn_class OSError = ''OSError''"
| "exn_class TimeoutError = ''TimeoutError''"
| "exn_class (SystemExit _) = ''SystemExit''"

definition message_engine_error :: "sup_cfg \<Rightarrow> moment \<Rightarrow> string \<Rightarrow> work \<Rightarrow> sup \<Rightarrow> sup" where
  "message_engine_error g n kind w s =
     (let i = w_id w; count = 1 + unmatched_preparations i (s_log s) + engine_errors i (s_log s);
          s1 = log ''message.engine_error'' [(u ''msg_id'', PStr i), (u ''n'', PInt (int count)), (u ''detail'', PStr (u kind))] s in
      if 3 \<le> count then
        (log ''attention'' [(u ''reason'', PStr (u ''message_engine_error'')), (u ''msg_id'', PStr i)]
          (if w_synthetic w then s1 else emit (E_message ''fail'' i (u ''engine_error'')) s1))\<lparr>s_work := None\<rparr>
      else s1\<lparr>s_work := Some w, s_retry := At (n_now n + g_base g)\<rparr>)"

section \<open>Control of the brake\<close>

text \<open>\<open>cancel_turn\<close> once the process is gone, with the refusal of the turn's output if there is one.\<close>

definition cancelled :: "work \<Rightarrow> pystr \<Rightarrow> string option \<Rightarrow> sup \<Rightarrow> sup" where
  "cancelled w attempt refusal s =
     set_state ''READY'' '''' ((case refusal of
         None \<Rightarrow> end_turn w attempt ''cancelled'' 137 False None s
       | Some r \<Rightarrow> end_turn w attempt ''provider_failure'' 137 False (Some r) s)
     \<lparr>s_turn := None, s_work := Some (case w of Work i sy c a ro q re t _ \<Rightarrow> Work i sy c a ro q re t True)\<rparr>)"

definition clear_brake :: "moment \<Rightarrow> sup \<Rightarrow> sup" where
  "clear_brake n s =
     (let m = s_mem s;
          s1 = (if m_brake m \<noteq> 0 \<or> truthy (m_tripped m) \<or> m_failures m \<noteq> [] \<or> m_losses m \<noteq> [] \<or> m_streak m \<noteq> 0
            then log ''brake.reset'' [(u ''previous'', PInt (m_brake m))] s else s) in
      (mem restore_reset s1)\<lparr>s_retry := At (n_now n)\<rparr>)"

end
