(* ===== verification/SupControls.thy ===== *)
theory SupControls
  imports SupTurn ControlChannel
begin

text \<open>
  The control requests of the supervisor (\<open>lib/aib_supervisor.py\<close>, \<open>process_controls\<close> and the
  operations it calls): which files of the control directory are requests, in which order they
  are looked at, who may ask for what, and what an accepted request does.
\<close>

section \<open>Requests\<close>

text \<open>
  A file of the control directory: its name, and its owner with what \<open>identity_for\<close> sees of
  it, where it can be inspected.
\<close>

record ctl_file =
  cf_name :: pystr
  cf_owner :: "(int \<times> command_result option \<times> account option) option"

text \<open>The parts after the agent's name: the pattern \<open>uid.*.*\<close> needs two at least.\<close>

definition ctl_parts :: "pystr \<Rightarrow> pystr \<Rightarrow> pystr list" where
  "ctl_parts uid name = (if startswith name (uid @ [46]) then splitc 46 (drop (length uid + 1) name) else [])"

definition ctl_globbed :: "pystr \<Rightarrow> ctl_file \<Rightarrow> bool" where
  "ctl_globbed uid f = (2 \<le> length (ctl_parts uid (cf_name f)))"

definition ctl_key :: "pystr \<Rightarrow> ctl_file \<Rightarrow> exn + int" where
  "ctl_key uid f = (let p = hd (ctl_parts uid (cf_name f)) in
     if isdigit p then int_of_digits p else Inr (2 ^ 63))"

fun keyed :: "pystr \<Rightarrow> ctl_file list \<Rightarrow> exn + (int \<times> ctl_file) list" where
  "keyed uid [] = Inr []"
| "keyed uid (f # fs) = bind_res (ctl_key uid f) (\<lambda>k. bind_res (keyed uid fs) (\<lambda>ks. Inr ((k, f) # ks)))"

definition ctl_candidates :: "pystr \<Rightarrow> ctl_file list \<Rightarrow> exn + ctl_file list" where
  "ctl_candidates uid fs = bind_res (keyed uid (filter (ctl_globbed uid) fs)) (\<lambda>ks. Inr (map snd (sort_key fst ks)))"

definition parse_ctl :: "pystr \<Rightarrow> pystr \<Rightarrow> exn + (int \<times> pystr) option" where
  "parse_ctl uid name = (case ctl_parts uid name of
       [d, v] \<Rightarrow>
         if d \<noteq> [] \<and> list_all (\<lambda>c. in_charset c [(48, 57)]) d \<and> v \<noteq> [] \<and> list_all (\<lambda>c. in_charset c [(97, 122), (45, 45)]) v
         then bind_res (int_of_digits d) (\<lambda>n. Inr (Some (n, v))) else Inr None
     | _ \<Rightarrow> Inr None)"

section \<open>Authorization\<close>

record ctl_cfg =
  cc_agents :: pydict
  cc_protected :: pyval
  cc_roles :: text_file

definition ROUTINE_VERBS :: "pystr list" where
  "ROUTINE_VERBS = [u ''neustart'', u ''feierabend'', u ''standup'']"

definition HUMAN_VERBS :: "pystr list" where
  "HUMAN_VERBS = [u ''abschalten'', u ''reset-brake'']"

definition lead_actor :: "pydict \<Rightarrow> pydict \<Rightarrow> exn + bool" where
  "lead_actor agents req = (let actor = dget_or req ''actor'' (PStr []) in
     if \<not> hashable actor then Inl TypeError
     else Inr (case actor of
         PStr a \<Rightarrow> (case map_of agents a of Some (PDict d) \<Rightarrow> dget d ''lead'' = PStr (u ''true'') | _ \<Rightarrow> False)
       | _ \<Rightarrow> False))"

definition control_authorized :: "pydict \<Rightarrow> pydict \<Rightarrow> pystr \<Rightarrow> pystr \<Rightarrow> exn + bool" where
  "control_authorized agents req caller verb =
     (if verb \<in> set ROUTINE_VERBS then
        (if startswith caller (u ''human:'') \<or> startswith caller (u ''gateway:'') then Inr True
         else bind_res (lead_actor agents req) (\<lambda>lead. Inr (startswith caller (u ''role:'') \<and> lead)))
      else if verb \<in> set HUMAN_VERBS then Inr (startswith caller (u ''human:''))
      else Inr False)"

text \<open>The request of the audit log, where it is the one the file stands for.\<close>

definition audited :: "pystr \<Rightarrow> pystr \<Rightarrow> pystr \<Rightarrow> pyval option \<Rightarrow> pydict option" where
  "audited uid verb caller found = (case found of
       Some (PDict d) \<Rightarrow>
         if py_eq (dget d ''target'') (PStr uid) \<and> py_eq (dget d ''verb'') (PStr verb) \<and> py_eq (dget d ''caller'') (PStr caller)
         then Some d else None
     | _ \<Rightarrow> None)"

definition busy :: "pydict \<Rightarrow> pystr \<Rightarrow> bool" where
  "busy req verb = (verb \<in> {u ''feierabend'', u ''standup''} \<or>
     verb \<in> {u ''neustart'', u ''abschalten''} \<and> \<not> truthy (dget_or req ''force'' (PBool False)))"

text \<open>\<open>Some\<close> reason rejects an audited request, \<open>None\<close> accepts it; the checks are in the code's order.\<close>

definition control_verdict :: "ctl_cfg \<Rightarrow> bool \<Rightarrow> pydict \<Rightarrow> pystr \<Rightarrow> pystr \<Rightarrow> exn + string option" where
  "control_verdict c running req caller verb =
     (if verb \<notin> set (ROUTINE_VERBS @ HUMAN_VERBS) then Inr (Some ''unknown_verb'')
      else bind_res (control_authorized (cc_agents c) req caller verb) (\<lambda>ok.
        Inr (if \<not> ok then Some ''unauthorized''
          else if verb = u ''abschalten'' \<and> in_tuple (cc_protected c) [''guardian'', ''gateway''] then Some ''protected''
          else if running \<and> busy req verb then Some ''busy''
          else None)))"

section \<open>Answers\<close>

definition consume_control :: "control \<Rightarrow> sup \<Rightarrow> sup" where
  "consume_control c s = mem (consume (c_seq c)) (log ''ctl.consumed'' [(u ''req'', c_seq c)] s)"

definition reject_control :: "control \<Rightarrow> string \<Rightarrow> pystr \<Rightarrow> sup_cfg \<Rightarrow> sup \<Rightarrow> sup" where
  "reject_control c reason caller g s = consume_control c
     (control_event ''ctl.rejected'' c [(u ''caller'', PStr caller), (u ''reason'', PStr (u reason))] g s)"

definition accept_control :: "control \<Rightarrow> sup_cfg \<Rightarrow> sup \<Rightarrow> sup" where
  "accept_control c g s = consume_control c (control_event ''ctl.accepted'' c [(u ''result'', PStr (u ''accepted''))] g s)"

section \<open>Cancelling, restarting and routines\<close>

text \<open>
  While \<open>cancel_turn\<close> waits, the process may end by itself and the turn is collected; otherwise
  it is killed and its output read and added to the transcript.
\<close>

datatype cancel_reply = Ended int "exn + pystr" "exn + pystr" | Killed "exn + pystr"

definition cancel_turn :: "sup_cfg \<Rightarrow> moment \<Rightarrow> replies \<Rightarrow> cancel_reply \<Rightarrow> sup \<Rightarrow> exn option \<times> sup" where
  "cancel_turn g n rp cr s = (case s_turn s of
       None \<Rightarrow> (None, s)
     | Some t \<Rightarrow> (case cr of
           Ended rc read meta \<Rightarrow> collect_turn g n rp rc read meta t s
         | Killed read \<Rightarrow> (case read_turn_output read of (out, refusal) \<Rightarrow>
             if refusal = None \<and> transcript_raises rp out then (Some OSError, s)
             else (None, cancelled (fl_work t) (fl_attempt t) refusal s))))"

definition routine_work :: "(pyval \<Rightarrow> pystr) \<Rightarrow> control \<Rightarrow> work" where
  "routine_work rep c = Work (u ''control-'' @ c_verb c @ u ''-'' @ py_str rep (c_seq c)) True (Some c) (Some (c_verb c))
     False None None None False"

definition begin_control_routine ::
  "(pyval \<Rightarrow> pystr) \<Rightarrow> sup_cfg \<Rightarrow> moment \<Rightarrow> replies \<Rightarrow> launch \<Rightarrow> pystr \<Rightarrow> control \<Rightarrow> sup \<Rightarrow> exn option \<times> sup" where
  "begin_control_routine rep g n rp l attempt c s =
     (let w = routine_work rep c in start_turn g n rp l w attempt (s\<lparr>s_work := Some w\<rparr>))"

text \<open>What the supervisor does then: go on, replace itself, or stop with an exit code.\<close>

datatype outcome = Go_on | Reexec | Stop "int option"

definition fresh_session :: "sup_cfg \<Rightarrow> replies \<Rightarrow> sup \<Rightarrow> exn option \<times> sup" where
  "fresh_session g rp s =
     (case add_handover_note (rp_note_present rp) (rp_note_sent rp) ''fresh'' g s of
        (Some e, s1) \<Rightarrow> (Some e, s1)
      | (None, s1) \<Rightarrow> (None, mem unbind (log ''session.rotated'' [(u ''reason'', PStr (u ''fresh'')),
          (u ''prev_sid'', m_session (s_mem s))] s1)))"

definition restart :: "sup_cfg \<Rightarrow> moment \<Rightarrow> replies \<Rightarrow> pydict \<Rightarrow> control \<Rightarrow> sup \<Rightarrow> exn option \<times> outcome \<times> sup" where
  "restart g n rp req c s =
     (let s1 = clear_brake n s in
      case (if truthy (dget_or req ''fresh'' (PBool False)) then fresh_session g rp s1 else (None, s1)) of
        (Some e, s2) \<Rightarrow> (Some e, Go_on, s2)
      | (None, s2) \<Rightarrow> (None, if truthy (dget_or req ''hard'' (PBool False)) then Stop (Some 75) else Reexec,
          done_control c ''restarting'' g s2))"

definition go_on :: "exn option \<times> sup \<Rightarrow> exn option \<times> outcome \<times> sup" where
  "go_on r = (fst r, Go_on, snd r)"

text \<open>An accepted request.\<close>

definition perform_control ::
  "(pyval \<Rightarrow> pystr) \<Rightarrow> sup_cfg \<Rightarrow> moment \<Rightarrow> replies \<Rightarrow> cancel_reply \<Rightarrow> launch \<Rightarrow> pystr \<Rightarrow> pydict \<Rightarrow> pystr \<Rightarrow> control \<Rightarrow>
     sup \<Rightarrow> exn option \<times> outcome \<times> sup" where
  "perform_control rep g n rp cr l attempt req caller c s =
     (case (if truthy (dget_or req ''force'' (PBool False)) then cancel_turn g n rp cr (accept_control c g s)
            else (None, accept_control c g s)) of
        (Some e, s1) \<Rightarrow> (Some e, Go_on, s1)
      | (None, s1) \<Rightarrow>
          if c_verb c = u ''reset-brake'' then
            (None, Go_on, done_control c ''reset'' g (set_state ''READY'' '''' (clear_brake n s1)))
          else if c_verb c = u ''neustart'' then restart g n rp req c s1
          else if c_verb c = u ''feierabend'' then
            (if s_turn s1 = None then go_on (begin_control_routine rep g n rp l attempt c s1) else (None, Go_on, s1))
          else if c_verb c = u ''standup'' then
            (let s2 = log ''duty.on'' [(u ''req'', c_seq c)] (mem (\<lambda>m. m\<lparr>m_off := False\<rparr>) s1) in
             if s_turn s2 = None then go_on (begin_control_routine rep g n rp l attempt c s2) else (None, Go_on, s2))
          else if c_verb c = u ''abschalten'' then
            (None, Stop None, done_control c ''stopping'' g
               (heartbeat ''done'' (u ''shut down by '' @ caller) (set_state ''STOPPING'' '''' s1)))
          else (None, Go_on, s1))"

section \<open>The loop over the requests\<close>

text \<open>What is decided of one file; \<open>file\<close> is the text of the audit log.\<close>

datatype judgement = Skipped | Raised exn | Rejected control string pystr | Accepted pydict pystr control

definition judge_request ::
  "sup_cfg \<Rightarrow> ctl_cfg \<Rightarrow> pystr option \<Rightarrow> int \<Rightarrow> pystr \<Rightarrow> pystr \<Rightarrow> sup \<Rightarrow> judgement" where
  "judge_request g c file k verb caller s = (case requested_record file k of
       Inl e \<Rightarrow> Raised e
     | Inr found \<Rightarrow> (case audited (g_uid g) verb caller found of
         None \<Rightarrow> Rejected \<lparr>c_seq = PInt k, c_verb = verb\<rparr> ''unaudited'' caller
       | Some req \<Rightarrow> (case control_verdict c (s_turn s \<noteq> None) req caller verb of
           Inl e \<Rightarrow> Raised e
         | Inr (Some reason) \<Rightarrow> Rejected \<lparr>c_seq = dget req ''seq'', c_verb = verb\<rparr> reason caller
         | Inr None \<Rightarrow> Accepted req caller \<lparr>c_seq = dget req ''seq'', c_verb = verb\<rparr>)))"

definition judge_control :: "sup_cfg \<Rightarrow> ctl_cfg \<Rightarrow> pystr option \<Rightarrow> ctl_file \<Rightarrow> sup \<Rightarrow> judgement" where
  "judge_control g c file f s = (case parse_ctl (g_uid g) (cf_name f) of
       Inl e \<Rightarrow> Raised e
     | Inr None \<Rightarrow> Skipped
     | Inr (Some (k, verb)) \<Rightarrow>
         if list_ex (py_eq (PInt k)) (m_consumed (s_mem s)) then Skipped
         else (case cf_owner f of
           None \<Rightarrow> Skipped
         | Some (owner, cmd, acc) \<Rightarrow> (case identity_for owner cmd acc (cc_roles c) of
             Inl e \<Rightarrow> Raised e
           | Inr caller \<Rightarrow> judge_request g c file k verb caller s)))"

text \<open>
  Rejected requests are answered and the loop goes on; the first accepted one is performed and
  ends it.
\<close>

fun process_paths ::
  "(pyval \<Rightarrow> pystr) \<Rightarrow> sup_cfg \<Rightarrow> ctl_cfg \<Rightarrow> pystr option \<Rightarrow> moment \<Rightarrow> replies \<Rightarrow> cancel_reply \<Rightarrow> launch \<Rightarrow> pystr \<Rightarrow>
     ctl_file list \<Rightarrow> sup \<Rightarrow> exn option \<times> outcome \<times> sup" where
  "process_paths rep g c file n rp cr l attempt [] s = (None, Go_on, s)"
| "process_paths rep g c file n rp cr l attempt (f # fs) s =
     (case judge_control g c file f s of
        Skipped \<Rightarrow> process_paths rep g c file n rp cr l attempt fs s
      | Raised e \<Rightarrow> (Some e, Go_on, s)
      | Rejected q reason caller \<Rightarrow> process_paths rep g c file n rp cr l attempt fs (reject_control q reason caller g s)
      | Accepted req caller q \<Rightarrow> perform_control rep g n rp cr l attempt req caller q s)"

definition process_controls ::
  "(pyval \<Rightarrow> pystr) \<Rightarrow> sup_cfg \<Rightarrow> ctl_cfg \<Rightarrow> pystr option \<Rightarrow> moment \<Rightarrow> replies \<Rightarrow> cancel_reply \<Rightarrow> launch \<Rightarrow> pystr \<Rightarrow>
     ctl_file list option \<Rightarrow> sup \<Rightarrow> exn option \<times> outcome \<times> sup" where
  "process_controls rep g c file n rp cr l attempt dir s = (case dir of
       None \<Rightarrow> (None, Go_on, s)
     | Some fs \<Rightarrow> (case ctl_candidates (g_uid g) fs of
           Inl e \<Rightarrow> (Some e, Go_on, s)
         | Inr cs \<Rightarrow> process_paths rep g c file n rp cr l attempt cs s))"

end
