(* ===== verification/SupRun.thy ===== *)
theory SupRun
  imports SupControls
begin

text \<open>
  The life of a supervisor (\<open>lib/aib_supervisor.py\<close>, \<open>run\<close>): it starts by restoring its memory
  from the journal and ending the turn a crash left open, then takes controls, starts and
  collects turns, and stops. \<open>sup_step\<close> is one iteration's move, or a start after a stop or a
  crash at any point between two moves; \<open>regular_step\<close> is the part of it in which the journal and
  the memory stay in step.
\<close>

section \<open>Starting and stopping\<close>

text \<open>The journal as the records that are loaded: numbered from 1, with the time each was written.\<close>

definition records_of :: "(nat \<Rightarrow> pystr) \<Rightarrow> (pystr \<times> pydict) list \<Rightarrow> pydict list" where
  "records_of ts es = map (\<lambda>(i, ev, fs). numbered (int i + 1) (ts i) ev fs) (enumerate 0 es)"

text \<open>
  \<open>handle_orphan\<close>: a stop is requested while the broker still holds the lease, or the turn is
  ended; what the time limit and the adoption of its attempt journal is handed in.
\<close>

datatype orphan_reply = Orphan_stop | Orphan_gone "(pystr \<times> pydict) list"

definition handle_orphan :: "orphan_reply \<Rightarrow> pydict \<Rightarrow> sup \<Rightarrow> sup" where
  "handle_orphan o_reply r s =
     (let s1 = set_state ''ORPHANED'' ''orphan'' s in
      case o_reply of
        Orphan_stop \<Rightarrow> s1
      | Orphan_gone es \<Rightarrow> ready (log ''turn.ended'' [(u ''msg_id'', dget r ''msg_id''), (u ''sid'', dget r ''sid''),
          (u ''attempt_id'', dget_or r ''attempt_id'' (dget r ''attempt'')), (u ''class'', PStr (u ''orphan_gone'')),
          (u ''rc'', PInt 0), (u ''brake'', PInt (m_brake (s_mem s1)))] (logs es s1)))"

definition first_state :: "sup \<Rightarrow> sup" where
  "first_state s =
     (let s1 = (if truthy (m_tripped (s_mem s)) then heartbeat ''blocked'' (u ''supervisor provider-failure brake tripped'')
            (set_state ''FAILED'' ''brake'' (emit (E_alarm ''brake_tripped'' (m_brake (s_mem s))) s))
          else if m_off (s_mem s) then heartbeat ''done'' (u ''supervisor off duty'') (set_state ''WAITING'' ''off_duty'' s)
          else heartbeat ''idle'' (u ''supervisor ready'') (ready s)) in
      if m_streak (s_mem s1) \<noteq> 0 then emit (E_alarm ''session_persistence_failed'' (m_streak (s_mem s1))) s1 else s1)"

definition boot ::
  "(pyval \<Rightarrow> pystr) \<Rightarrow> (nat \<Rightarrow> pystr) \<Rightarrow> sup_cfg \<Rightarrow> moment \<Rightarrow> replies \<Rightarrow> orphan_reply \<Rightarrow> pystr \<Rightarrow> int \<Rightarrow> bool \<Rightarrow>
     sup \<Rightarrow> exn option \<times> sup" where
  "boot rep ts g n rp o_reply cwd pid reexec s =
     (case restore rep (g_burst g) (n_ts n) (records_of ts (s_log s)) init_mem of (m, unfinished) \<Rightarrow>
      case check_cwd_binding (rp_note_present rp) (rp_note_sent rp) g n
          \<lparr>s_mem = m, s_log = s_log s, s_fx = s_fx s, s_work = None, s_turn = None, s_heart = None,
             s_state = (''STARTING'', ''''), s_retry = At 0, s_infra_since = None, s_cwd = cwd\<rparr> of
        (Some e, s1) \<Rightarrow> (Some e, s1)
      | (None, s1) \<Rightarrow>
          (let s2 = first_state (log ''supervisor.started'' [(u ''pid'', PInt pid), (u ''reexec'', PBool reexec)] s1) in
           (None, case unfinished of None \<Rightarrow> s2 | Some r \<Rightarrow> handle_orphan o_reply r s2)))"

text \<open>The end of \<open>run\<close>: a process that still runs is killed, and its turn stays open in the journal.\<close>

definition stop_run :: "int \<Rightarrow> sup \<Rightarrow> sup" where
  "stop_run pid s = heartbeat ''done'' (u ''supervisor stopped'')
     (log ''supervisor.stopping'' [(u ''pid'', PInt pid)] (set_state ''STOPPING'' '''' (s\<lparr>s_turn := None\<rparr>)))"

section \<open>The next turn\<close>

text \<open>\<open>begin_policy_handover\<close>: a session with too many turns first writes a handover.\<close>

definition policy_handover :: "moment \<Rightarrow> work \<Rightarrow> work" where
  "policy_handover n queued = Work (n_wid n) True None None True (Some queued) None None False"

definition next_work :: "moment \<Rightarrow> int \<Rightarrow> work \<Rightarrow> sup \<Rightarrow> work" where
  "next_work n max_turns w s =
     (if m_session (s_mem s) \<noteq> PNone \<and> max_turns \<le> m_turns (s_mem s) then policy_handover n w else w)"

text \<open>
  The guard of the main loop. It is the only one: a routine a control asks for is started by
  \<open>begin_control_routine\<close> without it, also while the brake is tripped.
\<close>

definition may_start :: "moment \<Rightarrow> sup \<Rightarrow> bool" where
  "may_start n s = (s_turn s = None \<and> \<not> m_off (s_mem s) \<and> m_tripped (s_mem s) = PNone \<and>
     (case s_retry s of At t \<Rightarrow> t \<le> n_now n | Never \<Rightarrow> False))"

definition guarded_start_turn ::
  "sup_cfg \<Rightarrow> moment \<Rightarrow> replies \<Rightarrow> launch \<Rightarrow> work \<Rightarrow> pystr \<Rightarrow> sup \<Rightarrow> sup" where
  "guarded_start_turn g n rp l w attempt s = (case start_turn g n rp l w attempt s of
       (None, s1) \<Rightarrow> s1
     | (Some e, s1) \<Rightarrow> message_engine_error g n (exn_class e) w s1)"

definition run_work ::
  "sup_cfg \<Rightarrow> moment \<Rightarrow> replies \<Rightarrow> launch \<Rightarrow> int \<Rightarrow> work \<Rightarrow> pystr \<Rightarrow> sup \<Rightarrow> sup" where
  "run_work g n rp l max_turns w attempt s =
     (let w1 = next_work n max_turns w s in guarded_start_turn g n rp l w1 attempt (s\<lparr>s_work := Some w1\<rparr>))"

definition run_collect ::
  "sup_cfg \<Rightarrow> moment \<Rightarrow> replies \<Rightarrow> int \<Rightarrow> exn + pystr \<Rightarrow> exn + pystr \<Rightarrow> flight \<Rightarrow> sup \<Rightarrow> sup" where
  "run_collect g n rp rc read meta t s = (case collect_turn g n rp rc read meta t s of
       (None, s1) \<Rightarrow> s1
     | (Some e, s1) \<Rightarrow> message_engine_error g n (exn_class e) (fl_work t) s1)"

section \<open>Moves\<close>

text \<open>
  The supervisor runs only between a start and a stop; an orphan's broker that still holds the
  lease stops it again.
\<close>

definition running :: "sup \<Rightarrow> bool" where
  "running s = (fst (s_state s) \<notin> {''STARTING'', ''ORPHANED'', ''STOPPING''})"

text \<open>
  \<open>sup_step\<close>: what may happen to a supervisor, with nothing assumed of what it is handed in. The
  configuration is read anew at each start, and \<open>configure\<close> accepts no brake limit below 1. The
  rest of the code (intents, messages, scans, ticks) journals any records, sets the work and the
  next try and sends, which is \<open>other\<close>. A control or a collected turn that an exception leaves is
  a step too; more steps are possible after one than the code has, where it ends the supervisor.
\<close>

inductive sup_step ::
  "(pyval \<Rightarrow> pystr) \<Rightarrow> (nat \<Rightarrow> pystr) \<Rightarrow> sup_cfg \<times> sup \<Rightarrow> sup_cfg \<times> sup \<Rightarrow> bool"
  for rep ts where
  other: "sup_step rep ts (g, s) (g, (logs es s)\<lparr>s_work := w, s_retry := r, s_fx := fx\<rparr>)"
| start: "running s \<Longrightarrow> may_start n s \<Longrightarrow>
    sup_step rep ts (g, s) (g, run_work g n rp l max_turns w attempt s)"
| collect: "running s \<Longrightarrow> s_turn s = Some t \<Longrightarrow>
    sup_step rep ts (g, s) (g, run_collect g n rp rc read meta t s)"
| controls: "running s \<Longrightarrow> process_controls rep g c file n rp cr l attempt dir s = (e, out, s') \<Longrightarrow>
    sup_step rep ts (g, s) (g, s')"
| stop: "sup_step rep ts (g, s) (g, stop_run pid s)"
| reboot: "0 < g_burst g' \<Longrightarrow> boot rep ts g' n rp o_reply cwd pid reexec s = (e, s') \<Longrightarrow>
    sup_step rep ts (g, s) (g', s')"

section \<open>Regular moves\<close>

text \<open>
  Not every move keeps the memory and the journal in step (\<open>SupProps\<close> shows what goes wrong
  otherwise). \<open>regular_step\<close> is \<open>sup_step\<close> under one configuration and with these exclusions:

  \<^item> the code that is left out journals none of the events that change the memory, and a
    timestamp, a session id and an attempt id are not empty (\<open>quiet\<close>, \<open>good_moment\<close>);
  \<^item> no exception leaves between the journaled start of a turn and its end: the launch raises
    nothing (\<open>launches\<close>) and the transcript can be written (\<open>quiet_replies\<close>);
  \<^item> the numbers of the audit log are integers, the output of a killed turn can be read, and no
    routine is asked for while the brake is tripped (\<open>sound_controls\<close>).
\<close>

definition memory_events :: "string list" where
  "memory_events = [''session.bound'', ''turn.started'', ''turn.ended'', ''duty.off'', ''duty.on'', ''brake.reset'',
     ''session.rotated'', ''session.persistence_failed'', ''session.persistence_restored'', ''ctl.consumed'']"

definition quiet :: "(pystr \<times> pydict) list \<Rightarrow> bool" where
  "quiet es = list_all (\<lambda>(ev, fs). ev \<notin> u ` set memory_events \<and> u ''event'' \<notin> fst ` set fs) es"

definition quiet_replies :: "replies \<Rightarrow> bool" where
  "quiet_replies rp = (quiet (rp_intent_log rp) \<and> quiet (rp_missing_log rp) \<and> quiet (rp_fail_log rp) \<and>
     quiet (rp_close_log rp) \<and> rp_transcript rp)"

definition good_moment :: "moment \<Rightarrow> bool" where
  "good_moment n = (n_ts n \<noteq> [] \<and> n_sid n \<noteq> [])"

definition orphan_quiet :: "orphan_reply \<Rightarrow> bool" where
  "orphan_quiet r = (case r of Orphan_stop \<Rightarrow> True | Orphan_gone es \<Rightarrow> quiet es)"

definition launches :: "launch \<Rightarrow> bool" where
  "launches l = (case l of Launch_raised _ \<Rightarrow> False | _ \<Rightarrow> True)"

definition sound_controls :: "pystr \<Rightarrow> pystr option \<Rightarrow> cancel_reply \<Rightarrow> ctl_file list option \<Rightarrow> sup \<Rightarrow> bool" where
  "sound_controls uid file cr dir s =
     ((\<forall>k d. requested_record file k = Inr (Some (PDict d)) \<longrightarrow> int_instance (dget d ''seq'') \<noteq> None) \<and>
      (\<forall>read. cr = Killed read \<longrightarrow> (\<exists>out. read = Inr out)) \<and>
      (m_tripped (s_mem s) = PNone \<or> (\<forall>fs. dir = Some fs \<longrightarrow>
         list_all (\<lambda>f. \<forall>k v. parse_ctl uid (cf_name f) = Inr (Some (k, v)) \<longrightarrow>
           v \<notin> {u ''feierabend'', u ''standup''}) fs)))"

inductive regular_step ::
  "(pyval \<Rightarrow> pystr) \<Rightarrow> (nat \<Rightarrow> pystr) \<Rightarrow> sup_cfg \<Rightarrow> sup \<Rightarrow> sup \<Rightarrow> bool"
  for rep ts g where
  journaled: "quiet es \<Longrightarrow> regular_step rep ts g s ((logs es s)\<lparr>s_work := w, s_retry := r, s_fx := fx\<rparr>)"
| started: "running s \<Longrightarrow> may_start n s \<Longrightarrow> good_moment n \<Longrightarrow> quiet_replies rp \<Longrightarrow> launches l \<Longrightarrow> attempt \<noteq> [] \<Longrightarrow>
    regular_step rep ts g s (run_work g n rp l max_turns w attempt s)"
| collected: "running s \<Longrightarrow> s_turn s = Some t \<Longrightarrow> good_moment n \<Longrightarrow> quiet_replies rp \<Longrightarrow>
    regular_step rep ts g s (run_collect g n rp rc read meta t s)"
| controlled: "running s \<Longrightarrow> good_moment n \<Longrightarrow> quiet_replies rp \<Longrightarrow> launches l \<Longrightarrow> attempt \<noteq> [] \<Longrightarrow>
    sound_controls (g_uid g) file cr dir s \<Longrightarrow>
    process_controls rep g c file n rp cr l attempt dir s = (e, out, s') \<Longrightarrow>
    regular_step rep ts g s s'"
| stopped: "regular_step rep ts g s (stop_run pid s)"
| booted: "good_moment n \<Longrightarrow> orphan_quiet o_reply \<Longrightarrow> boot rep ts g n rp o_reply cwd pid reexec s = (e, s') \<Longrightarrow>
    regular_step rep ts g s s'"

lemma regular_is_step: "regular_step rep ts g s s' \<Longrightarrow> 0 < g_burst g \<Longrightarrow> sup_step rep ts (g, s) (g, s')"
  by (cases rule: regular_step.cases; blast intro: sup_step.intros)

end
