(* ===== verification/SupTrack.thy ===== *)
theory SupTrack
  imports SupRun
begin

text \<open>
  The memory of a running supervisor against the one its journal would restore: every operation
  that changes one journals what makes the other follow.
\<close>

section \<open>What the primitives touch\<close>

named_theorems sup_proj \<open>the parts of the state after a primitive operation\<close>

lemma log_proj [sup_proj]:
  "s_mem (log ev fs s) = s_mem s" "s_log (log ev fs s) = s_log s @ [(u ev, fs)]" "s_turn (log ev fs s) = s_turn s"
  "s_cwd (log ev fs s) = s_cwd s" "s_state (log ev fs s) = s_state s" "s_work (log ev fs s) = s_work s"
  "s_retry (log ev fs s) = s_retry s"
  by (simp_all add: log_def)

lemma logs_proj [sup_proj]:
  "s_mem (logs es s) = s_mem s" "s_log (logs es s) = s_log s @ es" "s_turn (logs es s) = s_turn s"
  "s_cwd (logs es s) = s_cwd s" "s_state (logs es s) = s_state s" "s_work (logs es s) = s_work s"
  "s_retry (logs es s) = s_retry s"
  by (simp_all add: logs_def)

lemma emit_proj [sup_proj]:
  "s_mem (emit e s) = s_mem s" "s_log (emit e s) = s_log s" "s_turn (emit e s) = s_turn s"
  "s_cwd (emit e s) = s_cwd s" "s_state (emit e s) = s_state s" "s_work (emit e s) = s_work s"
  "s_retry (emit e s) = s_retry s"
  by (simp_all add: emit_def)

lemma mem_proj [sup_proj]:
  "s_mem (mem f s) = f (s_mem s)" "s_log (mem f s) = s_log s" "s_turn (mem f s) = s_turn s"
  "s_cwd (mem f s) = s_cwd s" "s_state (mem f s) = s_state s" "s_work (mem f s) = s_work s"
  "s_retry (mem f s) = s_retry s"
  by (simp_all add: mem_def)

lemma set_state_proj [sup_proj]:
  "s_mem (set_state a b s) = s_mem s" "s_log (set_state a b s) = s_log s" "s_turn (set_state a b s) = s_turn s"
  "s_cwd (set_state a b s) = s_cwd s" "s_state (set_state a b s) = (a, b)" "s_work (set_state a b s) = s_work s"
  "s_retry (set_state a b s) = s_retry s"
  by (simp_all add: set_state_def)

lemma heartbeat_proj [sup_proj]:
  "s_mem (heartbeat a b s) = s_mem s" "s_log (heartbeat a b s) = s_log s" "s_turn (heartbeat a b s) = s_turn s"
  "s_cwd (heartbeat a b s) = s_cwd s" "s_state (heartbeat a b s) = s_state s" "s_work (heartbeat a b s) = s_work s"
  "s_retry (heartbeat a b s) = s_retry s"
  by (simp_all add: heartbeat_def emit_def)

lemma ready_proj [sup_proj]:
  "s_mem (ready s) = s_mem s" "s_log (ready s) = s_log s" "s_turn (ready s) = s_turn s"
  "s_cwd (ready s) = s_cwd s" "fst (s_state (ready s)) = ''READY''" "s_work (ready s) = s_work s"
  "s_retry (ready s) = s_retry s"
  by (simp_all add: ready_def sup_proj)

section \<open>Replaying the journal\<close>

definition replayed :: "(pyval \<Rightarrow> pystr) \<Rightarrow> (nat \<Rightarrow> pystr) \<Rightarrow> (pystr \<times> pydict) list \<Rightarrow> sup_mem" where
  "replayed rep ts es = fold (restore_record rep) (records_of ts es) (unbind init_mem)"

lemma records_of_snoc:
  "records_of ts (es @ [(ev, fs)]) = records_of ts es @ [numbered (int (length es) + 1) (ts (length es)) ev fs]"
  by (simp add: records_of_def enumerate_append_eq)

lemma replayed_Nil [simp]: "replayed rep ts [] = unbind init_mem"
  by (simp add: replayed_def records_of_def)

lemma replayed_snoc:
  "replayed rep ts (es @ [(ev, fs)]) =
     restore_record rep (numbered (int (length es) + 1) (ts (length es)) ev fs) (replayed rep ts es)"
  by (simp add: replayed_def records_of_snoc)

lemma dget_fold_other: "u k \<notin> fst ` set fs \<Longrightarrow> dget (fold (\<lambda>(k, v) d. dset k v d) fs d) k = dget d k"
  by (induction fs arbitrary: d) (auto simp: dget_def)

lemma numbered_event: "u ''event'' \<notin> fst ` set fs \<Longrightarrow> dget (numbered n t ev fs) ''event'' = PStr ev"
  by (simp add: numbered_def dget_fold_other)

lemma dget_fold: "wf_dict fs \<Longrightarrow> dget (fold (\<lambda>(k, v) d. dset k v d) fs d) k =
  (case map_of fs (u k) of None \<Rightarrow> dget d k | Some v \<Rightarrow> v)"
proof (induction fs arbitrary: d)
  case (Cons p fs)
  obtain j v where p: "p = (j, v)" by (cases p)
  have d: "dget (dset j v d) k = (if j = u k then v else dget d k)" by (simp add: dget_def)
  have e: "dget (fold (\<lambda>(k, v) d. dset k v d) (p # fs) d) k =
      (case map_of fs (u k) of None \<Rightarrow> if j = u k then v else dget d k | Some v \<Rightarrow> v)"
    using Cons by (simp add: p wf_dict_def d split: option.split)
  show ?case
  proof (cases "j = u k")
    case True
    then have "map_of fs (u k) = None" using Cons.prems by (simp add: p wf_dict_def map_of_eq_None_iff)
    with e True show ?thesis by (simp add: p)
  next
    case False
    with e show ?thesis by (simp add: p)
  qed
qed simp

lemma numbered_field:
  "wf_dict fs \<Longrightarrow> k \<notin> {''seq'', ''ts'', ''event''} \<Longrightarrow> dget (numbered n t ev fs) k = dget fs k"
proof -
  assume "wf_dict fs" "k \<notin> {''seq'', ''ts'', ''event''}"
  then have "dget (numbered n t ev fs) k = (case map_of fs (u k) of None \<Rightarrow> PNone | Some v \<Rightarrow> v)"
    by (simp only: numbered_def dget_fold) (auto split: option.split)
  then show ?thesis by (simp add: dget_def)
qed

lemma replayed_quiet1:
  assumes "ev \<notin> u ` set memory_events" and "u ''event'' \<notin> fst ` set fs"
  shows "replayed rep ts (es @ [(ev, fs)]) = replayed rep ts es"
  using assms by (simp add: replayed_snoc restore_record_def numbered_event memory_events_def)

lemma replayed_quiet: "quiet qs \<Longrightarrow> replayed rep ts (es @ qs) = replayed rep ts es"
proof (induction qs arbitrary: es)
  case (Cons q qs)
  obtain ev fs where q: "q = (ev, fs)" by (cases q)
  from Cons.prems have "ev \<notin> u ` set memory_events" "u ''event'' \<notin> fst ` set fs" "quiet qs"
    by (auto simp: quiet_def q)
  with Cons.IH [of "es @ [q]"] replayed_quiet1 [of ev fs rep ts es] show ?case by (simp add: q)
qed simp

lemma replayed_bound:
  "replayed rep ts (es @ [(u ''session.bound'', [(u ''agent'', a), (u ''sid'', sid), (u ''cwd'', cwd)])]) =
     (replayed rep ts es)\<lparr>m_session := sid, m_cwd := cwd, m_turns := 0, m_new := True\<rparr>"
  by (simp add: replayed_snoc restore_record_def numbered_def restore_bound_def)

lemma replayed_started:
  "replayed rep ts (es @ [(u ''turn.started'', [(u ''msg_id'', i), (u ''sid'', sid), (u ''attempt_id'', a)] @ work_fields w)]) =
     (if py_eq sid (m_session (replayed rep ts es)) then (replayed rep ts es)\<lparr>m_new := False\<rparr> else replayed rep ts es)"
  by (simp add: replayed_snoc restore_record_def numbered_def restore_started_def work_fields_def split: option.split)

lemma replayed_rotated:
  "replayed rep ts (es @ [(u ''session.rotated'', [(u ''reason'', PStr (u why)), (u ''prev_sid'', p)])]) =
     (if why = ''fresh'' then unbind (replayed rep ts es) else replayed rep ts es)"
  by (simp add: replayed_snoc restore_record_def numbered_def)

lemma replayed_duty:
  "replayed rep ts (es @ [(u ''duty.off'', [(u ''req'', q)])]) = (replayed rep ts es)\<lparr>m_off := True\<rparr>"
  "replayed rep ts (es @ [(u ''duty.on'', [(u ''req'', q)])]) = (replayed rep ts es)\<lparr>m_off := False\<rparr>"
  by (simp_all add: replayed_snoc restore_record_def numbered_def)

lemma replayed_reset:
  "replayed rep ts (es @ [(u ''brake.reset'', [(u ''previous'', p)])]) = restore_reset (replayed rep ts es)"
  by (simp add: replayed_snoc restore_record_def numbered_def)

lemma replayed_restored:
  "replayed rep ts (es @ [(u ''session.persistence_restored'', [(u ''sid'', q), (u ''previous'', p)])]) =
     (replayed rep ts es)\<lparr>m_streak := 0, m_episode := None\<rparr>"
  by (simp add: replayed_snoc restore_record_def numbered_def)

lemma replayed_consumed:
  "int_instance q \<noteq> None \<Longrightarrow> replayed rep ts (es @ [(u ''ctl.consumed'', [(u ''req'', q)])]) = consume q (replayed rep ts es)"
  by (simp add: replayed_snoc restore_record_def numbered_def)

lemma restore_ended_cong:
  assumes "\<And>k. k \<in> {''brake'', ''tripped_at'', ''msg_id'', ''class'', ''attempt_id'', ''login_hint'', ''sid''} \<Longrightarrow> dget r k = dget q k"
  shows "restore_ended r m = restore_ended q m"
proof -
  have "dget r ''brake'' = dget q ''brake''" "dget r ''tripped_at'' = dget q ''tripped_at''" "dget r ''msg_id'' = dget q ''msg_id''"
    "dget r ''class'' = dget q ''class''" "dget r ''attempt_id'' = dget q ''attempt_id''"
    "dget r ''login_hint'' = dget q ''login_hint''" "dget r ''sid'' = dget q ''sid''"
    by (rule assms, simp)+
  then show ?thesis by (simp only: restore_ended_def)
qed

definition end_fields :: "work \<Rightarrow> pystr \<Rightarrow> string \<Rightarrow> bool \<Rightarrow> sup_mem \<Rightarrow> pydict" where
  "end_fields w a cls h m = [(u ''msg_id'', PStr (w_id w)), (u ''sid'', m_session m), (u ''attempt_id'', PStr a),
     (u ''class'', PStr (u cls)), (u ''brake'', PInt (m_brake m)), (u ''tripped_at'', m_tripped m),
     (u ''login_hint'', if h then PBool True else PNone)]"

lemma replayed_end:
  "replayed rep ts (s_log (end_turn w a cls rc h why s)) =
     restore_ended (end_fields w a cls h (s_mem s)) (replayed rep ts (s_log s))"
proof -
  let ?fs = "[(u ''msg_id'', PStr (w_id w)), (u ''sid'', m_session (s_mem s)), (u ''attempt_id'', PStr a),
       (u ''class'', PStr (u cls)), (u ''rc'', PInt rc), (u ''brake'', PInt (m_brake (s_mem s))),
       (u ''tripped_at'', m_tripped (s_mem s))] @
      (if h then [(u ''login_hint'', PBool True)] else []) @
      (case why of None \<Rightarrow> [] | Some r \<Rightarrow> [(u ''reason'', PStr (u r))])"
  have ev: "dget (numbered n t (u ''turn.ended'') ?fs) ''event'' = PStr (u ''turn.ended'')" for n t
    by (rule numbered_event) (cases h; cases why; simp)
  have wf: "wf_dict ?fs" by (cases h; cases why; simp add: wf_dict_def)
  have k: "dget (numbered n t (u ''turn.ended'') ?fs) k = dget (end_fields w a cls h (s_mem s)) k"
    if "k \<in> {''brake'', ''tripped_at'', ''msg_id'', ''class'', ''attempt_id'', ''login_hint'', ''sid''}" for n t k
  proof -
    have "k \<notin> {''seq'', ''ts'', ''event''}" using that by auto
    note numbered_field [OF wf this, of n t "u ''turn.ended''"]
    also have "dget ?fs k = dget (end_fields w a cls h (s_mem s)) k"
      using that by (elim insertE emptyE; cases h; cases why; simp add: end_fields_def)
    finally show ?thesis .
  qed
  have rr: "restore_record rep r m = restore_ended r m" if "dget r ''event'' = PStr (u ''turn.ended'')" for r m
    using that by (simp add: restore_record_def)
  show ?thesis
    unfolding end_turn_def log_proj replayed_snoc rr [OF ev] by (rule restore_ended_cong, rule k)
qed

section \<open>Keeping track\<close>

text \<open>
  The restored memory is the live one, except that it may have forgotten failures of single
  messages: a successful turn of a message clears its counters only at the next start.
\<close>

definition fewer :: "(pystr, int) dict \<Rightarrow> (pystr, int) dict \<Rightarrow> bool" where
  "fewer d e = (\<forall>k. count_of d k \<le> count_of e k)"

definition faithful :: "sup_mem \<Rightarrow> sup_mem \<Rightarrow> bool" where
  "faithful l r = (l\<lparr>m_failures := m_failures r, m_losses := m_losses r\<rparr> = r \<and>
     fewer (m_failures r) (m_failures l) \<and> fewer (m_losses r) (m_losses l))"

definition tracks :: "(pyval \<Rightarrow> pystr) \<Rightarrow> (nat \<Rightarrow> pystr) \<Rightarrow> sup \<Rightarrow> bool" where
  "tracks rep ts s = faithful (s_mem s) (replayed rep ts (s_log s))"

lemma count_of_bump [simp]: "count_of (bump i d) k = (if k = i then count_of d i + 1 else count_of d k)"
  by (simp add: count_of_def bump_def)

lemma map_of_dpop: "map_of (dpop i d) k = (if k = i then None else map_of d k)"
  by (induction d) (auto simp: dpop_def)

lemma count_of_dpop [simp]: "count_of (dpop i d) k = (if k = i then 0 else count_of d k)"
  by (simp add: count_of_def map_of_dpop)

definition counts_ok :: "(pystr, int) dict \<Rightarrow> bool" where
  "counts_ok d = (\<forall>k. 0 \<le> count_of d k)"

lemma counts_ok_step [simp]: "counts_ok d \<Longrightarrow> counts_ok (bump i d)" "counts_ok d \<Longrightarrow> counts_ok (dpop i d)" "counts_ok []"
  by (auto simp: counts_ok_def count_of_def [of "[]"])

lemma fewer_step [simp]:
  "fewer d d" "fewer d e \<Longrightarrow> fewer (bump i d) (bump i e)" "fewer d e \<Longrightarrow> fewer (dpop i d) (dpop i e)"
  "fewer d e \<Longrightarrow> fewer d (bump i e)"
  by (auto simp: fewer_def intro: order_trans)

lemma fewer_pop: "counts_ok e \<Longrightarrow> fewer d e \<Longrightarrow> fewer (dpop i d) e"
  by (auto simp: fewer_def counts_ok_def)

lemma fewer_lost: "counts_ok e \<Longrightarrow> fewer d e \<Longrightarrow> fewer (dpop i d) (dpop i (bump i e))"
  by (auto simp: fewer_def counts_ok_def)

end
