(* ===== verification/SupInv.thy ===== *)
theory SupInv
  imports SupTrack
begin

text \<open>
  The invariant of a supervisor: its memory is well formed and is the one its journal restores.
  Each operation of a turn keeps it.
\<close>

section \<open>How a turn ends, in the journal\<close>

definition ended_mem :: "sup_mem \<Rightarrow> sup_mem \<Rightarrow> sup_mem" where
  "ended_mem m r = r\<lparr>m_brake := m_brake m, m_tripped := (if truthy (m_tripped m) then m_tripped m else m_tripped r)\<rparr>"

lemma ended_mem_sel [simp]:
  "m_failures (ended_mem m r) = m_failures r" "m_losses (ended_mem m r) = m_losses r" "m_session (ended_mem m r) = m_session r"
  "m_infra (ended_mem m r) = m_infra r" "m_hint (ended_mem m r) = m_hint r" "m_turns (ended_mem m r) = m_turns r"
  by (simp_all add: ended_mem_def)

lemma restore_end_fields:
  "restore_ended (end_fields w a ''provider_failure'' h m) r =
     (ended_mem m r)\<lparr>m_failures := bump (w_id w) (m_failures r), m_infra := None, m_hint := False\<rparr>"
  "restore_ended (end_fields w a ''session_lost'' h m) r = (ended_mem m r)\<lparr>m_losses := bump (w_id w) (m_losses r)\<rparr>"
  "restore_ended (end_fields w a ''infra'' h m) r =
     (ended_mem m r)\<lparr>m_infra := (if m_infra r = None then Some a else m_infra r), m_hint := (m_hint r \<or> h)\<rparr>"
  "restore_ended (end_fields w a ''ok'' h m) r =
     (ended_mem m r)\<lparr>m_infra := None, m_hint := False,
       m_turns := (if py_eq (m_session m) (m_session r) then m_turns r + 1 else m_turns r),
       m_failures := dpop (w_id w) (m_failures r), m_losses := dpop (w_id w) (m_losses r)\<rparr>"
  "cls \<notin> {''provider_failure'', ''session_lost'', ''infra'', ''ok''} \<Longrightarrow>
     restore_ended (end_fields w a cls h m) r = ended_mem m r"
  by (simp_all add: restore_ended_def end_fields_def ended_mem_def int_instance_def Let_def drop_counters_def)

section \<open>Well-formed memory\<close>

definition text_or_none :: "pyval \<Rightarrow> bool" where
  "text_or_none v = (v = PNone \<or> (\<exists>t. t \<noteq> [] \<and> v = PStr t))"

lemma text_or_none_simps [simp]: "text_or_none PNone" "text_or_none (PStr t) \<longleftrightarrow> t \<noteq> []"
  by (simp_all add: text_or_none_def)

lemma text_or_none_truthy: "text_or_none v \<Longrightarrow> truthy v \<longleftrightarrow> v \<noteq> PNone"
  by (auto simp: text_or_none_def truthy_def)

lemma text_or_none_eq: "text_or_none v \<Longrightarrow> py_eq v v"
  by (auto simp: text_or_none_def)

definition mem_ok :: "int \<Rightarrow> sup_mem \<Rightarrow> bool" where
  "mem_ok burst m = (text_or_none (m_tripped m) \<and> (burst \<le> m_brake m \<longrightarrow> m_tripped m \<noteq> PNone) \<and> 0 \<le> m_brake m \<and>
     0 \<le> m_streak m \<and> (m_streak m = 0 \<longrightarrow> m_episode m = None) \<and> (m_streak m \<noteq> 0 \<longrightarrow> m_episode m \<noteq> None) \<and>
     m_episode m \<noteq> Some [] \<and> text_or_none (m_session m) \<and>
     counts_ok (m_failures m) \<and> counts_ok (m_losses m))"

definition good :: "(pyval \<Rightarrow> pystr) \<Rightarrow> (nat \<Rightarrow> pystr) \<Rightarrow> sup_cfg \<Rightarrow> sup \<Rightarrow> bool" where
  "good rep ts g s = (tracks rep ts s \<and> mem_ok (g_burst g) (s_mem s))"

lemma good_same:
  "s_mem s' = s_mem s \<Longrightarrow> s_log s' = s_log s \<Longrightarrow> good rep ts g s \<Longrightarrow> good rep ts g s'"
  by (simp add: good_def tracks_def)

lemma good_logs: "quiet es \<Longrightarrow> good rep ts g s \<Longrightarrow> good rep ts g (logs es s)"
  by (simp add: good_def tracks_def sup_proj replayed_quiet)

lemma good_log:
  "u ev \<notin> u ` set memory_events \<Longrightarrow> u ''event'' \<notin> fst ` set fs \<Longrightarrow> good rep ts g s \<Longrightarrow> good rep ts g (log ev fs s)"
  by (simp add: good_def tracks_def sup_proj replayed_quiet1)

lemma faithful_sel:
  assumes "faithful l r"
  shows "m_session r = m_session l" "m_cwd r = m_cwd l" "m_turns r = m_turns l" "m_new r = m_new l" "m_brake r = m_brake l"
    "m_tripped r = m_tripped l" "m_streak r = m_streak l" "m_episode r = m_episode l" "m_infra r = m_infra l"
    "m_hint r = m_hint l" "m_off r = m_off l" "m_consumed r = m_consumed l"
    "fewer (m_failures r) (m_failures l)" "fewer (m_losses r) (m_losses l)"
proof -
  have e: "l\<lparr>m_failures := m_failures r, m_losses := m_losses r\<rparr> = r" using assms by (simp add: faithful_def)
  show "m_session r = m_session l" "m_cwd r = m_cwd l" "m_turns r = m_turns l" "m_new r = m_new l" "m_brake r = m_brake l"
    "m_tripped r = m_tripped l" "m_streak r = m_streak l" "m_episode r = m_episode l" "m_infra r = m_infra l"
    "m_hint r = m_hint l" "m_off r = m_off l" "m_consumed r = m_consumed l"
    by (subst e [symmetric], simp)+
  show "fewer (m_failures r) (m_failures l)" "fewer (m_losses r) (m_losses l)" using assms by (simp_all add: faithful_def)
qed

lemma faithfulI:
  assumes "m_session r = m_session l" "m_cwd r = m_cwd l" "m_turns r = m_turns l" "m_new r = m_new l" "m_brake r = m_brake l"
    "m_tripped r = m_tripped l" "m_streak r = m_streak l" "m_episode r = m_episode l" "m_infra r = m_infra l"
    "m_hint r = m_hint l" "m_off r = m_off l" "m_consumed r = m_consumed l"
    "fewer (m_failures r) (m_failures l)" "fewer (m_losses r) (m_losses l)"
  shows "faithful l r"
  using assms by (simp add: faithful_def)

section \<open>Sessions and the start of a turn\<close>

lemma good_bind:
  assumes "good rep ts g s" and "n_sid n \<noteq> []"
  shows "good rep ts g (bind_session g n from s)"
proof -
  have f: "faithful (s_mem s) (replayed rep ts (s_log s))" "mem_ok (g_burst g) (s_mem s)"
    using assms by (simp_all add: good_def tracks_def)
  let ?s1 = "case from of None \<Rightarrow> s
      | Some prev \<Rightarrow> log ''session.rebound'' [(u ''sid'', PStr (n_sid n)), (u ''prev_sid'', prev), (u ''cwd'', PStr (s_cwd s))] s"
  have r: "replayed rep ts (s_log ?s1) = replayed rep ts (s_log s)" "s_mem ?s1 = s_mem s"
    by (cases "from"; simp add: sup_proj replayed_quiet1 memory_events_def)+
  show ?thesis
    using f(2) assms(2) r
    by (simp add: good_def tracks_def bind_session_def Let_def sup_proj replayed_bound mem_ok_def)
       (rule faithfulI; simp add: faithful_sel [OF f(1)])
qed

lemma bind_session_proj [sup_proj]:
  "s_turn (bind_session g n from s) = s_turn s" "s_state (bind_session g n from s) = s_state s"
  "m_tripped (s_mem (bind_session g n from s)) = m_tripped (s_mem s)" "m_off (s_mem (bind_session g n from s)) = m_off (s_mem s)"
  "m_streak (s_mem (bind_session g n from s)) = m_streak (s_mem s)" "m_brake (s_mem (bind_session g n from s)) = m_brake (s_mem s)"
  "m_session (s_mem (bind_session g n from s)) = PStr (n_sid n)"
  "m_losses (s_mem (bind_session g n from s)) = m_losses (s_mem s)"
  "m_failures (s_mem (bind_session g n from s)) = m_failures (s_mem s)"
  by (simp_all add: bind_session_def Let_def sup_proj split: option.split)

lemma good_log_rotated:
  "why \<noteq> ''fresh'' \<Longrightarrow> good rep ts g s \<Longrightarrow>
     good rep ts g (log ''session.rotated'' [(u ''reason'', PStr (u why)), (u ''prev_sid'', p)] s)"
  by (simp add: good_def tracks_def sup_proj replayed_rotated)

lemma good_note: "good rep ts g s \<Longrightarrow> good rep ts g (snd (add_handover_note p q why g s))"
  by (simp add: add_handover_note_def good_def tracks_def sup_proj)

lemma good_emit: "good rep ts g s \<Longrightarrow> good rep ts g (emit e s)"
  by (rule good_same) (simp_all add: sup_proj)

lemma good_heartbeat: "good rep ts g s \<Longrightarrow> good rep ts g (heartbeat a b s)"
  by (rule good_same) (simp_all add: sup_proj)

lemma good_ready: "good rep ts g s \<Longrightarrow> good rep ts g (ready s)"
  by (rule good_same) (simp_all add: sup_proj)

lemma good_set_state: "good rep ts g s \<Longrightarrow> good rep ts g (set_state a b s)"
  by (rule good_same) (simp_all add: sup_proj)

lemma good_fields [simp]:
  "good rep ts g (s\<lparr>s_work := w\<rparr>) = good rep ts g s" "good rep ts g (s\<lparr>s_retry := t\<rparr>) = good rep ts g s"
  "good rep ts g (s\<lparr>s_fx := fx\<rparr>) = good rep ts g s" "good rep ts g (s\<lparr>s_turn := x\<rparr>) = good rep ts g s" "good rep ts g (s\<lparr>s_infra_since := i\<rparr>) = good rep ts g s"
  by (simp_all add: good_def tracks_def)

lemmas good_keeps = good_emit good_heartbeat good_ready good_set_state

lemma good_rotate:
  assumes "good rep ts g s" and "n_sid n \<noteq> []" and "why \<noteq> ''fresh''"
  shows "good rep ts g (snd (rotate_with_note p q why g n s))"
proof -
  obtain e s1 where e: "add_handover_note p q why g s = (e, s1)" by fastforce
  with good_note [OF assms(1), of p q why] have "good rep ts g s1" by simp
  with e assms(2,3) show ?thesis
    by (cases e) (simp_all add: rotate_with_note_def good_bind good_log_rotated)
qed

lemma good_handover:
  "good rep ts g s \<Longrightarrow> n_sid n \<noteq> [] \<Longrightarrow> good rep ts g (begin_session_loss_handover g n w s)"
  by (simp add: begin_session_loss_handover_def good_bind good_log_rotated)

lemma good_check_cwd:
  assumes "good rep ts g s" and "n_sid n \<noteq> []"
  shows "good rep ts g (snd (check_cwd_binding p q g n s))"
proof -
  obtain e s1 where e: "add_handover_note p q ''cwd_changed'' g s = (e, s1)" by fastforce
  with good_note [OF assms(1), of p q "''cwd_changed''"] have "good rep ts g s1" by simp
  with e assms show ?thesis by (cases e) (simp_all add: check_cwd_binding_def good_bind)
qed

lemma good_started:
  assumes "good rep ts g s"
  shows "good rep ts g (mem (\<lambda>m. m\<lparr>m_new := False\<rparr>) (log ''turn.started''
     ([(u ''msg_id'', i), (u ''sid'', m_session (s_mem s)), (u ''attempt_id'', a)] @ work_fields w) s))"
proof -
  have f: "faithful (s_mem s) (replayed rep ts (s_log s))" and ok: "mem_ok (g_burst g) (s_mem s)"
    using assms by (simp_all add: good_def tracks_def)
  have "py_eq (m_session (s_mem s)) (m_session (replayed rep ts (s_log s)))"
    using ok by (simp add: faithful_sel [OF f] mem_ok_def text_or_none_eq)
  then show ?thesis
    using ok unfolding good_def tracks_def mem_proj log_proj replayed_started
    by (simp add: mem_ok_def) (rule faithfulI; simp add: faithful_sel [OF f])
qed

lemma good_begin_turn:
  assumes "good rep ts g s" and "n_sid n \<noteq> []"
  shows "good rep ts g (snd (begin_turn g n w a s))"
proof -
  let ?s1 = "if m_session (s_mem s) = PNone then bind_session g n None s else s"
  have "good rep ts g ?s1" using assms good_bind by simp
  then show ?thesis
    unfolding begin_turn_def Let_def snd_conv
    by (intro good_started) (simp add: good_keeps)
qed

section \<open>The end of a turn\<close>

text \<open>
  Ends of a turn that only count: the live memory has already changed to \<open>m\<close>, the restored one
  follows with the record.
\<close>

lemma good_end:
  assumes "mem_ok (g_burst g) (s_mem s)"
    and "faithful (s_mem s) (restore_ended (end_fields w a cls h (s_mem s)) (replayed rep ts (s_log s)))"
  shows "good rep ts g (end_turn w a cls rc h why s)"
  using assms unfolding good_def tracks_def replayed_end by (simp add: end_turn_def sup_proj)

lemma good_end_other:
  assumes "good rep ts g s" and "cls \<notin> {''provider_failure'', ''session_lost'', ''infra'', ''ok''}"
  shows "good rep ts g (end_turn w a cls rc h why s)"
proof -
  have f: "faithful (s_mem s) (replayed rep ts (s_log s))" and ok: "mem_ok (g_burst g) (s_mem s)"
    using assms by (simp_all add: good_def tracks_def)
  have t: "truthy (m_tripped (s_mem s)) \<longleftrightarrow> m_tripped (s_mem s) \<noteq> PNone"
    using ok by (simp add: mem_ok_def text_or_none_truthy)
  show ?thesis
    by (rule good_end [OF ok], unfold restore_end_fields(5) [OF assms(2)])
       (rule faithfulI; simp add: ended_mem_def t faithful_sel [OF f])
qed

lemma good_end_lost:
  assumes "good rep ts g s"
  shows "good rep ts g (end_turn w a ''session_lost'' rc h why (mem (\<lambda>m. m\<lparr>m_losses := bump (w_id w) (m_losses m)\<rparr>) s))"
proof -
  have f: "faithful (s_mem s) (replayed rep ts (s_log s))" and ok: "mem_ok (g_burst g) (s_mem s)"
    using assms by (simp_all add: good_def tracks_def)
  have t: "truthy (m_tripped (s_mem s)) \<longleftrightarrow> m_tripped (s_mem s) \<noteq> PNone"
    using ok by (simp add: mem_ok_def text_or_none_truthy)
  show ?thesis
  proof (rule good_end)
    show "mem_ok (g_burst g) (s_mem (mem (\<lambda>m. m\<lparr>m_losses := bump (w_id w) (m_losses m)\<rparr>) s))"
      using ok by (simp add: mem_ok_def sup_proj)
  qed (unfold restore_end_fields sup_proj, rule faithfulI; simp add: ended_mem_def t faithful_sel [OF f])
qed

lemma good_end_infra:
  assumes "good rep ts g s"
  shows "good rep ts g (end_turn w a ''infra'' rc h why
     (mem (\<lambda>m. m\<lparr>m_infra := (if m_infra m = None then Some a else m_infra m), m_hint := (m_hint m \<or> h)\<rparr>) s))"
proof -
  have f: "faithful (s_mem s) (replayed rep ts (s_log s))" and ok: "mem_ok (g_burst g) (s_mem s)"
    using assms by (simp_all add: good_def tracks_def)
  have t: "truthy (m_tripped (s_mem s)) \<longleftrightarrow> m_tripped (s_mem s) \<noteq> PNone"
    using ok by (simp add: mem_ok_def text_or_none_truthy)
  show ?thesis
  proof (rule good_end)
    show "mem_ok (g_burst g) (s_mem (mem (\<lambda>m. m\<lparr>m_infra := (if m_infra m = None then Some a else m_infra m),
        m_hint := (m_hint m \<or> h)\<rparr>) s))"
      using ok by (simp add: mem_ok_def sup_proj)
  qed (unfold restore_end_fields sup_proj, rule faithfulI; simp add: ended_mem_def t faithful_sel [OF f])
qed

definition failed_mem :: "sup_cfg \<Rightarrow> moment \<Rightarrow> work \<Rightarrow> sup_mem \<Rightarrow> sup_mem" where
  "failed_mem g n w m = m\<lparr>m_brake := m_brake m + 1, m_failures := bump (w_id w) (m_failures m),
     m_infra := None, m_hint := False,
     m_tripped := (if g_burst g \<le> m_brake m + 1 then PStr (n_ts n) else m_tripped m)\<rparr>"

lemma trip_proj [sup_proj]:
  "s_mem (trip_if_burst g n s) = (if g_burst g \<le> m_brake (s_mem s) then (s_mem s)\<lparr>m_tripped := PStr (n_ts n)\<rparr> else s_mem s)"
  "s_log (trip_if_burst g n s) = s_log s" "s_turn (trip_if_burst g n s) = s_turn s" "s_state (trip_if_burst g n s) = s_state s"
  by (simp_all add: trip_if_burst_def sup_proj)

lemma forget_infra_proj [sup_proj]:
  "s_mem (forget_infra s) = (s_mem s)\<lparr>m_infra := None, m_hint := False\<rparr>" "s_log (forget_infra s) = s_log s"
  "s_turn (forget_infra s) = s_turn s" "s_state (forget_infra s) = s_state s"
  by (simp_all add: forget_infra_def sup_proj)

lemma good_end_failed:
  assumes "good rep ts g s" and "n_ts n \<noteq> []"
    and "s_mem s' = failed_mem g n w (s_mem s)" and "s_log s' = s_log s"
  shows "good rep ts g (end_turn w a ''provider_failure'' rc h why s')"
proof -
  have f: "faithful (s_mem s) (replayed rep ts (s_log s))" and ok: "mem_ok (g_burst g) (s_mem s)"
    using assms by (simp_all add: good_def tracks_def)
  have ok': "mem_ok (g_burst g) (s_mem s')" using ok assms(2) by (simp add: assms(3) failed_mem_def mem_ok_def)
  then have t: "truthy (m_tripped (s_mem s')) \<longleftrightarrow> m_tripped (s_mem s') \<noteq> PNone"
    by (simp add: mem_ok_def text_or_none_truthy)
  show ?thesis
  proof (rule good_end [OF ok'], unfold restore_end_fields assms(4), rule faithfulI)
    show "m_tripped ((ended_mem (s_mem s') (replayed rep ts (s_log s)))\<lparr>m_failures := bump (w_id w) (m_failures (replayed rep ts (s_log s))),
        m_infra := None, m_hint := False\<rparr>) = m_tripped (s_mem s')"
      using t by (simp add: ended_mem_def faithful_sel [OF f] assms(3) failed_mem_def split: if_splits)
  qed (simp_all add: ended_mem_def faithful_sel [OF f] assms(3) failed_mem_def)
qed

section \<open>Finishing a turn\<close>

lemma end_turn_proj [sup_proj]:
  "s_mem (end_turn w a cls rc h why s) = s_mem s" "s_turn (end_turn w a cls rc h why s) = s_turn s"
  "s_state (end_turn w a cls rc h why s) = s_state s"
  by (simp_all add: end_turn_def sup_proj)

lemma good_control_event:
  assumes "good rep ts g s" and "u ev \<notin> u ` set memory_events" and "u ''event'' \<notin> fst ` set fs"
  shows "good rep ts g (control_event ev c fs g s)"
  using assms unfolding control_event_def Let_def by (intro good_keeps good_log) (auto simp: image_Un)

lemma good_done_control: "good rep ts g s \<Longrightarrow> good rep ts g (done_control c why g s)"
  unfolding done_control_def by (rule good_control_event) (auto simp: memory_events_def)

lemma control_event_proj [sup_proj]:
  "s_mem (control_event ev c fs g s) = s_mem s" "s_turn (control_event ev c fs g s) = s_turn s"
  "s_state (control_event ev c fs g s) = s_state s"
  "s_mem (done_control c why g s) = s_mem s" "s_turn (done_control c why g s) = s_turn s"
  "s_state (done_control c why g s) = s_state s"
  by (simp_all add: control_event_def done_control_def Let_def sup_proj)

lemma good_fail_brake: "good rep ts g s \<Longrightarrow> good rep ts g (fail_brake s)"
  by (simp add: fail_brake_def good_keeps)

lemma good_park: "good rep ts g s \<Longrightarrow> good rep ts g (park g n why s)"
  by (simp add: park_def good_keeps)

lemma good_infra:
  assumes "good rep ts g s"
  shows "good rep ts g (finish_infra g n rc hint w a s)"
  using good_end_infra [of rep ts g "s\<lparr>s_infra_since := (if s_infra_since s = None then Some (n_now n) else s_infra_since s)\<rparr>"] assms
  by (simp add: finish_infra_def Let_def good_keeps)

lemma good_failed:
  assumes "good rep ts g s" and "n_ts n \<noteq> []" and "quiet_replies rp"
  shows "good rep ts g (finish_failed g n rp rc w a refusal s)"
proof -
  let ?s1 = "trip_if_burst g n (mem (\<lambda>m. m\<lparr>m_brake := m_brake m + 1, m_failures := bump (w_id w) (m_failures m)\<rparr>) (forget_infra s))"
  have "good rep ts g (end_turn w a ''provider_failure'' rc False refusal ?s1)"
    by (rule good_end_failed [OF assms(1,2)]) (simp_all add: sup_proj failed_mem_def)
  with assms(3) show ?thesis
    by (auto simp: finish_failed_def Let_def quiet_replies_def good_fail_brake intro!: good_park good_keeps good_logs
        split: option.split)
qed

text \<open>A session that was lost twice: two records, and the live memory leaves the session.\<close>

lemma replayed_persistence_failed:
  assumes "0 < k" and "ep \<noteq> []"
  shows "replayed rep ts (es @ [(u ''session.persistence_failed'', [(u ''msg_id'', PStr i), (u ''sid'', sid), (u ''reason'', why),
     (u ''brake'', b), (u ''tripped_at'', t), (u ''streak'', PInt k), (u ''episode'', PStr ep)])]) =
    (let r = replayed rep ts es;
         m = r\<lparr>m_streak := k, m_episode := Some ep, m_failures := dpop i (m_failures r), m_losses := dpop i (m_losses r)\<rparr> in
     if py_eq sid (m_session r) then unbind m else m)"
  using assms
  by (simp add: replayed_snoc restore_record_def numbered_def restore_persistence_failed_def Let_def drop_counters_def)

lemma good_recorded:
  assumes "good rep ts g s" and "n_ts n \<noteq> []" and "a \<noteq> []"
  shows "good rep ts g (persistence_recorded g n rc w a (mem (\<lambda>m. m\<lparr>m_losses := bump (w_id w) (m_losses m)\<rparr>) s))"
proof -
  let ?s0 = "mem (\<lambda>m. m\<lparr>m_losses := bump (w_id w) (m_losses m)\<rparr>) s"
  let ?s1 = "persistence_counted g n a ?s0"
  let ?R = "replayed rep ts (s_log s)"
  obtain ep where ep: "m_episode (s_mem ?s1) = Some ep" "ep \<noteq> []" and k: "0 < m_streak (s_mem ?s1)"
    and log1: "s_log ?s1 = s_log s"
    using assms by (cases "m_episode (s_mem s)") (auto simp: persistence_counted_def sup_proj good_def mem_ok_def)
  have f: "faithful (s_mem s) ?R" and ok: "mem_ok (g_burst g) (s_mem s)"
    using assms by (simp_all add: good_def tracks_def)
  have m1: "s_mem ?s1 = (s_mem s)\<lparr>m_losses := bump (w_id w) (m_losses (s_mem s)), m_infra := None, m_hint := False,
      m_streak := m_streak (s_mem s) + 1, m_episode := Some ep, m_brake := m_brake (s_mem s) + 1,
      m_tripped := (if g_burst g \<le> m_brake (s_mem s) + 1 then PStr (n_ts n) else m_tripped (s_mem s))\<rparr>"
    using ep(1) by (cases "m_episode (s_mem s)") (auto simp: persistence_counted_def sup_proj)
  have t: "truthy (m_tripped (s_mem ?s1)) \<longleftrightarrow> m_tripped (s_mem ?s1) \<noteq> PNone"
    using ok assms(2) by (simp add: m1 mem_ok_def text_or_none_truthy)
  have se: "py_eq (m_session (s_mem s)) (m_session ?R)"
    using ok by (simp add: faithful_sel [OF f] mem_ok_def text_or_none_eq)
  have end1: "replayed rep ts (s_log (end_turn w a ''provider_failure'' rc False why ?s1)) =
      (ended_mem (s_mem ?s1) ?R)\<lparr>m_failures := bump (w_id w) (m_failures ?R), m_infra := None, m_hint := False\<rparr>" for why
    by (simp add: replayed_end log1 restore_end_fields)
  have cnt: "counts_ok (m_failures (s_mem s))" "counts_ok (m_losses (s_mem s))" using ok by (simp_all add: mem_ok_def)
  have ok': "mem_ok (g_burst g) (unbind ((s_mem ?s1)\<lparr>m_losses := dpop (w_id w) (m_losses (s_mem ?s1))\<rparr>))"
    using ok assms(2) ep(2) by (simp add: m1 mem_ok_def unbind_def)
  have pop: "fewer (dpop (w_id w) (bump (w_id w) (m_failures ?R))) (m_failures (s_mem s))"
      using faithful_sel(13) [OF f] cnt by (auto simp: fewer_def counts_ok_def)
  have lost: "fewer (dpop (w_id w) (m_losses ?R)) (dpop (w_id w) (bump (w_id w) (m_losses (s_mem s))))"
      using faithful_sel(14) [OF f] cnt by (auto simp: fewer_def counts_ok_def)
  have fa: "faithful (unbind ((s_mem ?s1)\<lparr>m_losses := dpop (w_id w) (m_losses (s_mem ?s1))\<rparr>))
      (let r = (ended_mem (s_mem ?s1) ?R)\<lparr>m_failures := bump (w_id w) (m_failures ?R), m_infra := None, m_hint := False\<rparr>;
           m = r\<lparr>m_streak := m_streak (s_mem ?s1), m_episode := Some ep, m_failures := dpop (w_id w) (m_failures r),
             m_losses := dpop (w_id w) (m_losses r)\<rparr> in
       if py_eq (m_session (s_mem ?s1)) (m_session r) then unbind m else m)"
      using se t
      by (cases "g_burst g \<le> m_brake (s_mem s) + 1"; simp add: m1 Let_def)
         (rule faithfulI; simp add: ended_mem_def unbind_def faithful_sel [OF f] pop lost)+
  show ?thesis
    unfolding good_def tracks_def persistence_recorded_def Let_def sup_proj ep(1) opt_val_def option.case
      replayed_persistence_failed [OF k ep(2)] end1
    by (rule conjI [OF fa [unfolded Let_def] ok'])
qed

lemma good_persistence:
  assumes "good rep ts g s" and "n_ts n \<noteq> []" and "a \<noteq> []"
  shows "good rep ts g (persistence_lost g n rc w a (mem (\<lambda>m. m\<lparr>m_losses := bump (w_id w) (m_losses m)\<rparr>) s))"
  using good_recorded [OF assms, of rc w] unfolding persistence_lost_def Let_def
  by (cases "w_control w") (auto intro!: good_fail_brake good_park good_done_control simp: good_emit)

lemma good_session_lost:
  assumes "good rep ts g s" and "good_moment n" and "a \<noteq> []"
  shows "good rep ts g (snd (session_lost g n rp rc w a s))"
proof -
  let ?s1 = "mem (\<lambda>m. m\<lparr>m_losses := bump (w_id w) (m_losses m)\<rparr>) s"
  let ?s2 = "end_turn w a ''session_lost'' rc False None ?s1"
  have ne: "n_ts n \<noteq> []" "n_sid n \<noteq> []" using assms(2) by (simp_all add: good_moment_def)
  have g2: "good rep ts g ?s2" by (rule good_end_lost [OF assms(1)])
  have r: "good rep ts g (snd (rotate_with_note p q ''unknown_sid'' g n ?s2))" for p q
    by (rule good_rotate [OF g2 ne(2)]) simp
  show ?thesis
  proof (cases "2 \<le> count_of (m_losses (s_mem ?s1)) (w_id w)")
    case True
    with good_persistence [OF assms(1) ne(1) assms(3), of rc w] show ?thesis
      by (simp add: session_lost_def Let_def)
  next
    case False
    with g2 r [of "rp_note_present rp" "rp_note_sent rp"] show ?thesis
      by (auto simp: session_lost_def Let_def good_handover ne split: option.split prod.split)
  qed
qed

section \<open>A turn that worked\<close>

lemma release_brake_sel:
  "m_failures (release_brake b m) = m_failures m" "m_losses (release_brake b m) = m_losses m"
  "m_session (release_brake b m) = m_session m" "m_cwd (release_brake b m) = m_cwd m" "m_turns (release_brake b m) = m_turns m"
  "m_new (release_brake b m) = m_new m" "m_infra (release_brake b m) = m_infra m" "m_hint (release_brake b m) = m_hint m"
  "m_off (release_brake b m) = m_off m" "m_consumed (release_brake b m) = m_consumed m"
  by (simp_all add: release_brake_def)

lemma good_ok_recorded:
  fixes s :: sup and fresh :: bool and w :: work and a :: pystr and rc :: int
  defines "s2 \<equiv> end_turn w a ''ok'' rc False None
     (mem (\<lambda>m. m\<lparr>m_turns := m_turns m + 1\<rparr>) (forget_infra (mem (release_brake (\<not> fresh)) s)))"
  assumes "good rep ts g s" and "m_tripped (s_mem s) = PNone" and "0 < g_burst g"
    and x: "s_mem x = s_mem s2" "s_log x = s_log s2 @ qs" "quiet qs"
  shows "good rep ts g (if m_streak (s_mem s) \<noteq> 0 \<and> \<not> fresh
     then log ''session.persistence_restored'' [(u ''sid'', p), (u ''previous'', q)] x else x)"
proof -
  let ?R = "replayed rep ts (s_log s)" and ?m = "s_mem s2"
  have f: "faithful (s_mem s) ?R" and ok: "mem_ok (g_burst g) (s_mem s)"
    using assms(2) by (simp_all add: good_def tracks_def)
  have m: "?m = (release_brake (\<not> fresh) (s_mem s))\<lparr>m_infra := None, m_hint := False,
      m_turns := m_turns (s_mem s) + 1\<rparr>"
    by (simp add: s2_def sup_proj release_brake_sel)
  have se: "py_eq (m_session ?m) (m_session ?R)"
    using ok by (simp add: m release_brake_sel faithful_sel [OF f] mem_ok_def text_or_none_eq)
  have tm: "m_tripped ?m = PNone" using assms(3) by (simp add: m release_brake_def)
  have "replayed rep ts (s_log s2) = restore_ended (end_fields w a ''ok'' False ?m) ?R"
    by (simp add: s2_def replayed_end sup_proj)
  then have rx: "replayed rep ts (s_log x) = (ended_mem ?m ?R)\<lparr>m_infra := None, m_hint := False, m_turns := m_turns ?R + 1,
      m_failures := dpop (w_id w) (m_failures ?R), m_losses := dpop (w_id w) (m_losses ?R)\<rparr>"
    using se by (simp add: x(2) replayed_quiet [OF x(3)] restore_end_fields)
  have cnt: "counts_ok (m_failures (s_mem s))" "counts_ok (m_losses (s_mem s))" using ok by (simp_all add: mem_ok_def)
  have pop: "fewer (dpop (w_id w) (m_failures ?R)) (m_failures (s_mem s))" "fewer (dpop (w_id w) (m_losses ?R)) (m_losses (s_mem s))"
    using faithful_sel(13,14) [OF f] cnt by (auto simp: fewer_pop)
  have ep: "m_streak (s_mem s) = 0 \<Longrightarrow> m_episode (s_mem s) = None" using ok by (simp add: mem_ok_def)
  show ?thesis
  proof (cases "m_streak (s_mem s) \<noteq> 0 \<and> \<not> fresh")
    case True
    have "faithful ?m ((ended_mem ?m ?R)\<lparr>m_infra := None, m_hint := False, m_turns := m_turns ?R + 1,
        m_failures := dpop (w_id w) (m_failures ?R), m_losses := dpop (w_id w) (m_losses ?R), m_streak := 0, m_episode := None\<rparr>)"
      using True assms(3) tm pop
      by (intro faithfulI) (simp_all add: ended_mem_def truthy_def faithful_sel [OF f], auto simp: m release_brake_def)
    moreover have "mem_ok (g_burst g) ?m"
      using True ok assms(3,4) by (simp add: m release_brake_def mem_ok_def)
    ultimately show ?thesis
      using True by (simp add: good_def tracks_def log_proj replayed_restored rx x(1))
  next
    case False
    have "faithful ?m ((ended_mem ?m ?R)\<lparr>m_infra := None, m_hint := False, m_turns := m_turns ?R + 1,
        m_failures := dpop (w_id w) (m_failures ?R), m_losses := dpop (w_id w) (m_losses ?R)\<rparr>)"
      using False assms(3) tm pop
      by (intro faithfulI) (simp_all add: ended_mem_def truthy_def faithful_sel [OF f], auto simp: m release_brake_def)
    moreover have "mem_ok (g_burst g) ?m"
      using False ok assms(3,4) by (simp add: m release_brake_def mem_ok_def)
    ultimately show ?thesis
      using False by (auto simp: good_def tracks_def rx x(1))
  qed
qed

lemma good_duty_off:
  "good rep ts g s \<Longrightarrow> good rep ts g (log ''duty.off'' [(u ''req'', q)] (mem (\<lambda>m. m\<lparr>m_off := True\<rparr>) s))"
  by (auto simp: good_def tracks_def sup_proj replayed_duty mem_ok_def faithful_sel intro!: faithfulI)

lemma good_duty_on:
  "good rep ts g s \<Longrightarrow> good rep ts g (log ''duty.on'' [(u ''req'', q)] (mem (\<lambda>m. m\<lparr>m_off := False\<rparr>) s))"
  by (auto simp: good_def tracks_def sup_proj replayed_duty mem_ok_def faithful_sel intro!: faithfulI)

lemma good_after_plain:
  assumes "good rep ts g s" and "n_sid n \<noteq> []"
  shows "good rep ts g (after_plain g n w s)"
  using assms by (auto simp: after_plain_def good_keeps good_bind good_log_rotated split: option.split)

lemma good_after_ok:
  assumes "good rep ts g s" and "n_sid n \<noteq> []" and "m_off (s_mem s) \<Longrightarrow> w_action w \<noteq> Some (u ''standup'')"
  shows "good rep ts g (after_ok g n w s)"
proof -
  have on: "good rep ts g (mem (\<lambda>m. m\<lparr>m_off := False\<rparr>) s)" if "w_action w = Some (u ''standup'')"
  proof -
    have "\<not> m_off (s_mem s)" using assms(3) that by blast
    then have "(s_mem s)\<lparr>m_off := False\<rparr> = s_mem s" by simp
    then show ?thesis by (intro good_same [OF _ _ assms(1)]) (simp_all add: sup_proj)
  qed
  show ?thesis
    using assms(1,2) on
    by (auto simp: after_ok_def good_keeps good_done_control good_duty_off good_after_plain split: option.split)
qed

lemma good_finish_ok:
  assumes "good rep ts g s" and "m_tripped (s_mem s) = PNone" and "0 < g_burst g" and "n_sid n \<noteq> []"
    and "quiet_replies rp" and "m_off (s_mem s) \<Longrightarrow> w_action w \<noteq> Some (u ''standup'')"
  shows "good rep ts g (finish_ok g n rp rc fresh handled w a s)"
proof -
  let ?s2 = "end_turn w a ''ok'' rc False None
     (mem (\<lambda>m. m\<lparr>m_turns := m_turns m + 1\<rparr>) (forget_infra (mem (release_brake (\<not> fresh)) s)))"
  let ?s3 = "case w_task w of
              Some t \<Rightarrow> if \<not> handled \<and> \<not> rp_retry_pending rp \<and> rp_state_ok rp = u ''IN_PROGRESS''
                then logs (rp_missing_log rp) (emit (E_missing_report (tr_task t) (broker_attempt a t)) ?s2) else ?s2
            | None \<Rightarrow> ?s2"
  obtain qs where x: "s_mem ?s3 = s_mem ?s2" "s_log ?s3 = s_log ?s2 @ qs" "quiet qs"
  proof -
    have "s_mem ?s3 = s_mem ?s2 \<and> (s_log ?s3 = s_log ?s2 @ rp_missing_log rp \<or> s_log ?s3 = s_log ?s2 @ [])"
      by (simp add: sup_proj split: option.split)
    with assms(5) that show ?thesis by (auto simp: quiet_replies_def quiet_def)
  qed
  define s4 where "s4 = (if m_streak (s_mem s) \<noteq> 0 \<and> \<not> fresh then log ''session.persistence_restored''
      [(u ''sid'', m_session (s_mem ?s3)), (u ''previous'', PInt (m_streak (s_mem s)))] ?s3 else ?s3)"
  have "good rep ts g s4" unfolding s4_def by (rule good_ok_recorded [OF assms(1-3) x])
  then have "good rep ts g (after_ok g n w s4)"
  proof (rule good_after_ok [OF _ assms(4)])
    have "m_off (s_mem s4) = m_off (s_mem s)"
      by (simp add: s4_def x(1) log_proj) (simp add: sup_proj release_brake_sel)
    then show "w_action w \<noteq> Some (u ''standup'')" if "m_off (s_mem s4)" using that assms(6) by simp
  qed
  moreover have "finish_ok g n rp rc fresh handled w a s = after_ok g n w s4"
    by (simp add: finish_ok_def Let_def s4_def)
  ultimately show ?thesis by simp
qed

lemma good_finish_class:
  assumes g: "good rep ts g s" and "m_tripped (s_mem s) = PNone" and "0 < g_burst g" and "good_moment n"
    and "quiet_replies rp" and "a \<noteq> []" and "m_off (s_mem s) \<Longrightarrow> w_action w \<noteq> Some (u ''standup'')"
  shows "good rep ts g (snd (finish_class g n rp rc out handled w fresh a refusal s))"
proof -
  have ne: "n_ts n \<noteq> []" "n_sid n \<noteq> []" using assms(4) by (simp_all add: good_moment_def)
  have use: "good rep ts g (end_turn w a ''session_in_use'' rc False None s)" for rc
    by (rule good_end_other [OF g]) simp
  have ok: "good rep ts g (finish_ok g n rp rc fresh handled w a s)" for rc fresh
    by (rule good_finish_ok [OF g assms(2,3) ne(2) assms(5,7)])
  show ?thesis
    unfolding finish_class_def Let_def
    using use ok good_session_lost [OF g assms(4,6)] good_infra [OF g] good_failed [OF g ne(1) assms(5)]
    by simp
qed

lemma finish_result_quiet:
  "quiet_replies rp \<Longrightarrow> finish_result g n rp rc out w fresh a refusal s =
     (let task = (w_task w \<noteq> None); handled = (task \<and> rp_handled rp); closed = closed_by_intents rp w in
      finish_class g n rp (if closed then 0 else rc) (if closed \<and> out = [] then u ''task intent applied'' else out)
        handled w fresh a refusal (if task then logs (rp_intent_log rp) s else s))"
  by (simp add: finish_result_def transcript_raises_def quiet_replies_def)

lemma good_finish_result:
  assumes "good rep ts g s" and "m_tripped (s_mem s) = PNone" and "0 < g_burst g" and "good_moment n"
    and "quiet_replies rp" and "a \<noteq> []" and "m_off (s_mem s) \<Longrightarrow> w_action w \<noteq> Some (u ''standup'')"
  shows "good rep ts g (snd (finish_result g n rp rc out w fresh a refusal s))"
  unfolding finish_result_quiet [OF assms(5)] Let_def
proof (rule good_finish_class [OF _ _ assms(3-6)])
  have q: "quiet (rp_intent_log rp)" using assms(5) by (simp add: quiet_replies_def)
  show "good rep ts g (if w_task w \<noteq> None then logs (rp_intent_log rp) s else s)"
    using assms(1) good_logs [OF q assms(1)] by simp
  show "m_tripped (s_mem (if w_task w \<noteq> None then logs (rp_intent_log rp) s else s)) = PNone"
    using assms(2) by (simp add: sup_proj)
  show "w_action w \<noteq> Some (u ''standup'')" if "m_off (s_mem (if w_task w \<noteq> None then logs (rp_intent_log rp) s else s))"
    using that assms(7) by (simp add: sup_proj split: if_splits)
qed

section \<open>The brake\<close>

lemma good_cancelled:
  assumes "good rep ts g s" shows "good rep ts g (cancelled w a None s)"
proof -
  have "good rep ts g (end_turn w a ''cancelled'' 137 False None s)" by (rule good_end_other [OF assms]) simp
  then show ?thesis by (simp add: cancelled_def good_keeps)
qed

lemma good_clear_brake:
  assumes "good rep ts g s" and "0 < g_burst g" shows "good rep ts g (clear_brake n s)"
proof -
  have f: "faithful (s_mem s) (replayed rep ts (s_log s))" and ok: "mem_ok (g_burst g) (s_mem s)"
    using assms(1) by (simp_all add: good_def tracks_def)
  let ?m = "s_mem s" and ?R = "replayed rep ts (s_log s)"
  have ok': "mem_ok (g_burst g) (restore_reset ?m)" using ok assms(2) by (simp add: mem_ok_def restore_reset_def)
  show ?thesis
  proof (cases "m_brake ?m \<noteq> 0 \<or> truthy (m_tripped ?m) \<or> m_failures ?m \<noteq> [] \<or> m_losses ?m \<noteq> [] \<or> m_streak ?m \<noteq> 0")
    case True
    have "faithful (restore_reset ?m) (restore_reset ?R)"
      by (rule faithfulI; simp add: restore_reset_def faithful_sel [OF f])
    with True ok' show ?thesis
      by (simp add: clear_brake_def Let_def good_def tracks_def sup_proj replayed_reset)
  next
    case False
    then have z: "m_brake ?m = 0" "m_tripped ?m = PNone" "m_failures ?m = []" "m_losses ?m = []" "m_streak ?m = 0"
      "m_episode ?m = None"
      using ok by (auto simp: mem_ok_def text_or_none_truthy)
    have "restore_reset ?m = ?m" by (simp add: restore_reset_def z(1)) (use z in \<open>cases ?m; simp\<close>)
    then show ?thesis using False by (intro good_same [OF _ _ assms(1)]) (simp_all add: clear_brake_def Let_def sup_proj)
  qed
qed

end
