(* ===== verification/SupLife.thy ===== *)
theory SupLife
  imports SupInv
begin

text \<open>
  The moves of a supervisor keep its invariant: the memory stays the one the journal restores,
  and a turn is open in the journal exactly while one is in flight.
\<close>

section \<open>The open turn of a journal\<close>

lemma restore_turn_snoc:
  "restore_turn (rs @ [r]) i t = (case restore_turn rs i t of (start, si, ei) \<Rightarrow>
     if dget r ''event'' = PStr (u ''turn.started'') then (Some r, i + int (length rs), ei)
     else if dget r ''event'' = PStr (u ''turn.ended'') then (start, si, i + int (length rs)) else (start, si, ei))"
  by (induction rs arbitrary: i t) (auto simp: algebra_simps split: prod.splits)

definition unfinished_of :: "pydict list \<Rightarrow> pydict option" where
  "unfinished_of rs = (case restore_turn rs 0 (None, -1, -1) of (start, si, ei) \<Rightarrow>
     if start \<noteq> None \<and> ei < si then start else None)"

lemma restore_turn_bounds:
  "restore_turn rs 0 (None, -1, -1) = (start, si, ei) \<Longrightarrow> si < int (length rs) \<and> ei < int (length rs)"
proof (induction rs arbitrary: start si ei rule: rev_induct)
  case (snoc r rs)
  obtain a b c where p: "restore_turn rs 0 (None, -1, -1) = (a, b, c)" by (metis prod_cases3)
  with snoc.IH snoc.prems show ?case by (fastforce simp: restore_turn_snoc split: if_splits)
qed simp

lemma unfinished_snoc:
  "unfinished_of (rs @ [r]) = (if dget r ''event'' = PStr (u ''turn.started'') then Some r
     else if dget r ''event'' = PStr (u ''turn.ended'') then None else unfinished_of rs)"
proof -
  obtain a b c where p: "restore_turn rs 0 (None, -1, -1) = (a, b, c)" by (metis prod_cases3)
  with restore_turn_bounds [OF p] show ?thesis by (auto simp: unfinished_of_def restore_turn_snoc)
qed

definition open_turn :: "(nat \<Rightarrow> pystr) \<Rightarrow> (pystr \<times> pydict) list \<Rightarrow> pydict option" where
  "open_turn ts es = unfinished_of (records_of ts es)"

lemma open_turn_Nil [simp]: "open_turn ts [] = None"
  by (simp add: open_turn_def unfinished_of_def records_of_def)

lemma open_turn_snoc:
  "u ''event'' \<notin> fst ` set fs \<Longrightarrow> open_turn ts (es @ [(ev, fs)]) =
     (if ev = u ''turn.started'' then Some (numbered (int (length es) + 1) (ts (length es)) ev fs)
      else if ev = u ''turn.ended'' then None else open_turn ts es)"
  by (simp add: open_turn_def records_of_snoc unfinished_snoc numbered_event)

lemma open_turn_quiet: "quiet qs \<Longrightarrow> open_turn ts (es @ qs) = open_turn ts es"
proof (induction qs arbitrary: es)
  case (Cons q qs)
  obtain ev fs where q: "q = (ev, fs)" by (cases q)
  with Cons.prems have "u ''event'' \<notin> fst ` set fs" "ev \<noteq> u ''turn.started''" "ev \<noteq> u ''turn.ended''" "quiet qs"
    by (auto simp: quiet_def memory_events_def)
  with Cons.IH [of "es @ [q]"] show ?case by (simp add: q open_turn_snoc)
qed simp

lemma work_fields_keys [simp]: "u ''event'' \<notin> fst ` set (work_fields w)"
  by (simp add: work_fields_def split: option.split)

text \<open>No operation of a turn's end but its record changes what is open.\<close>

abbreviation otn :: "(nat \<Rightarrow> pystr) \<Rightarrow> sup \<Rightarrow> pydict option" where
  "otn ts s \<equiv> open_turn ts (s_log s)"

named_theorems open_simps \<open>the open turn after an operation\<close>

lemma open_log [open_simps]:
  "u ''event'' \<notin> fst ` set fs \<Longrightarrow> otn ts (log ev fs s) =
     (if ev = ''turn.started'' then Some (numbered (int (length (s_log s)) + 1) (ts (length (s_log s))) (u ev) fs)
      else if ev = ''turn.ended'' then None else otn ts s)"
  by (simp add: log_proj open_turn_snoc)

lemma open_fields [open_simps]:
  "otn ts (s\<lparr>s_fx := fx\<rparr>) = otn ts s"
  "otn ts (s\<lparr>s_work := w\<rparr>) = otn ts s" "otn ts (s\<lparr>s_retry := t\<rparr>) = otn ts s" "otn ts (s\<lparr>s_turn := x\<rparr>) = otn ts s"
  "otn ts (s\<lparr>s_infra_since := i\<rparr>) = otn ts s" "otn ts (emit e s) = otn ts s" "otn ts (mem f s) = otn ts s"
  "otn ts (set_state a b s) = otn ts s" "otn ts (heartbeat a c s) = otn ts s" "otn ts (ready s) = otn ts s"
  "otn ts (trip_if_burst g n s) = otn ts s" "otn ts (forget_infra s) = otn ts s"
  by (simp_all add: sup_proj)

lemma open_logs [open_simps]: "quiet es \<Longrightarrow> otn ts (logs es s) = otn ts s"
  by (simp add: sup_proj open_turn_quiet)

lemma open_bind [open_simps]: "otn ts (bind_session g n from s) = otn ts s"
  by (simp add: bind_session_def Let_def open_simps split: option.split)

lemma open_end [open_simps]: "otn ts (end_turn w a cls rc h why s) = None"
  unfolding end_turn_def
  by (subst open_log) (cases h; cases why; simp)+

lemma open_control_event: "u ''event'' \<notin> fst ` set fs \<Longrightarrow> ev \<notin> {''turn.started'', ''turn.ended''} \<Longrightarrow>
    otn ts (control_event ev c fs g s) = otn ts s"
  by (simp add: control_event_def Let_def open_simps image_Un)

lemma open_done [open_simps]: "otn ts (done_control c why g s) = otn ts s"
  unfolding done_control_def by (rule open_control_event) simp_all

lemma open_stop [open_simps]: "otn ts (fail_brake s) = otn ts s" "otn ts (park g n why s) = otn ts s"
  by (simp_all add: fail_brake_def park_def open_simps)

lemma open_note [open_simps]: "otn ts (snd (add_handover_note p q why g s)) = otn ts s"
  by (simp add: add_handover_note_def open_simps)

lemma open_rotate [open_simps]: "otn ts (snd (rotate_with_note p q why g n s)) = otn ts s"
proof -
  obtain e s1 where e: "add_handover_note p q why g s = (e, s1)" by fastforce
  with open_note [of ts p q why g s] show ?thesis by (cases e) (simp_all add: rotate_with_note_def open_simps)
qed

lemma open_handover [open_simps]: "otn ts (begin_session_loss_handover g n w s) = otn ts s"
  by (simp add: begin_session_loss_handover_def open_simps)

lemma open_check_cwd [open_simps]: "otn ts (snd (check_cwd_binding p q g n s)) = otn ts s"
proof -
  obtain e s1 where e: "add_handover_note p q ''cwd_changed'' g s = (e, s1)" by fastforce
  with open_note [of ts p q "''cwd_changed''" g s] show ?thesis by (cases e) (simp_all add: check_cwd_binding_def open_simps)
qed

lemma open_recorded [open_simps]: "otn ts (persistence_recorded g n rc w a s) = None"
  by (simp add: persistence_recorded_def Let_def open_simps)

lemma open_persistence [open_simps]: "otn ts (persistence_lost g n rc w a s) = None"
  by (simp add: persistence_lost_def Let_def open_simps split: option.split)

lemma open_session_lost [open_simps]: "otn ts (snd (session_lost g n rp rc w a s)) = None"
proof -
  let ?s2 = "end_turn w a ''session_lost'' rc False None (mem (\<lambda>m. m\<lparr>m_losses := bump (w_id w) (m_losses m)\<rparr>) s)"
  obtain e s3 where e: "rotate_with_note (rp_note_present rp) (rp_note_sent rp) ''unknown_sid'' g n ?s2 = (e, s3)" by fastforce
  then have "otn ts s3 = None"
    using open_rotate [of ts "rp_note_present rp" "rp_note_sent rp" "''unknown_sid''" g n ?s2] by (simp add: open_simps)
  with e show ?thesis
    by (cases e; cases "w_control w") (simp_all add: session_lost_def Let_def open_simps)
qed

lemma open_after [open_simps]: "otn ts (after_plain g n w s) = otn ts s" "otn ts (after_ok g n w s) = otn ts s"
  by (simp_all add: after_plain_def after_ok_def open_simps split: option.split)

lemma open_finish_ok [open_simps]: "quiet_replies rp \<Longrightarrow> otn ts (finish_ok g n rp rc fresh h w a s) = None"
  by (simp add: finish_ok_def Let_def open_simps quiet_replies_def split: option.split)

lemma open_finish_infra [open_simps]: "otn ts (finish_infra g n rc h w a s) = None"
  by (simp add: finish_infra_def Let_def open_simps)

lemma open_finish_failed [open_simps]: "quiet_replies rp \<Longrightarrow> otn ts (finish_failed g n rp rc w a refusal s) = None"
  by (simp add: finish_failed_def Let_def open_simps quiet_replies_def split: option.split)

lemma open_finish_class [open_simps]:
  "quiet_replies rp \<Longrightarrow> otn ts (snd (finish_class g n rp rc out h w fresh a refusal s)) = None"
  unfolding finish_class_def Let_def by (simp add: open_simps)

lemma open_finish_result [open_simps]:
  "quiet_replies rp \<Longrightarrow> otn ts (snd (finish_result g n rp rc out w fresh a refusal s)) = None"
  by (simp add: finish_result_quiet Let_def open_finish_class)

section \<open>The turn in flight\<close>

lemma flight_sub:
  "s_turn (fail_brake s) = s_turn s" "s_turn (park g n why s) = s_turn s"
  "s_turn (snd (add_handover_note p q why g s)) = s_turn s" "s_turn (begin_session_loss_handover g n w s) = s_turn s"
  "s_turn (persistence_recorded g n rc w a s) = s_turn s" "s_turn (after_plain g n w s) = s_turn s"
  "s_turn (after_ok g n w s) = s_turn s" "s_turn (finish_infra g n rc h w a s) = s_turn s"
  by (simp_all add: fail_brake_def park_def add_handover_note_def begin_session_loss_handover_def Let_def
      persistence_recorded_def persistence_counted_def after_plain_def after_ok_def finish_infra_def sup_proj split: option.split)

lemma flight_rotate: "s_turn (snd (rotate_with_note p q why g n s)) = s_turn s"
proof -
  obtain e s1 where e: "add_handover_note p q why g s = (e, s1)" by fastforce
  with flight_sub(3) [of p q why g s] show ?thesis by (cases e) (simp_all add: rotate_with_note_def sup_proj)
qed

lemma flight_session_lost: "s_turn (snd (session_lost g n rp rc w a s)) = s_turn s"
proof -
  let ?s2 = "end_turn w a ''session_lost'' rc False None (mem (\<lambda>m. m\<lparr>m_losses := bump (w_id w) (m_losses m)\<rparr>) s)"
  obtain e s3 where e: "rotate_with_note (rp_note_present rp) (rp_note_sent rp) ''unknown_sid'' g n ?s2 = (e, s3)" by fastforce
  then have "s_turn s3 = s_turn s"
    using flight_rotate [of "rp_note_present rp" "rp_note_sent rp" "''unknown_sid''" g n ?s2] by (simp add: sup_proj)
  moreover have "s_turn (persistence_lost g n rc w a s') = s_turn s'" for s'
    by (simp add: persistence_lost_def Let_def flight_sub sup_proj split: option.split)
  ultimately show ?thesis
    using e by (cases e; cases "w_control w") (simp_all add: session_lost_def Let_def flight_sub sup_proj)
qed

lemma flight_finish [simp]: "s_turn (snd (finish_result g n rp rc out w fresh a refusal s)) = s_turn s"
proof -
  have ok: "s_turn (finish_ok g n rp rc fresh h w a s) = s_turn s" for rc fresh h s
    by (simp add: finish_ok_def Let_def flight_sub sup_proj split: option.split)
  have failed: "s_turn (finish_failed g n rp rc w a refusal s) = s_turn s" for rc s
    by (simp add: finish_failed_def Let_def flight_sub sup_proj split: option.split)
  have "s_turn (snd (finish_class g n rp rc out h w fresh a refusal s)) = s_turn s" for rc out h s
    unfolding finish_class_def Let_def by (simp add: ok failed flight_session_lost flight_sub sup_proj)
  then show ?thesis unfolding finish_result_def Let_def by (simp add: sup_proj)
qed

section \<open>Starting and collecting\<close>

lemma set_broker_sel [simp]: "w_action (set_broker b w) = w_action w" "w_id (set_broker b w) = w_id w"
  by (cases w; simp add: set_broker_def)+

lemma attempt_event_quiet:
  "quiet [(u ''turn.attempt'', [(u ''attempt_id'', b), (u ''local_attempt_id'', a), (u ''msg_id'', i)] @ work_fields w)]"
  by (simp add: quiet_def memory_events_def)

lemma log_is_logs: "log ev fs s = logs [(u ev, fs)] s"
  by (simp add: log_def logs_def)

lemma attempt_facts:
  assumes "good rep ts g s" and "m_tripped (s_mem s) = PNone" and "0 < g_burst g" and "good_moment n"
    and "quiet_replies rp" and "a \<noteq> []" and "m_off (s_mem s) \<Longrightarrow> w_action w \<noteq> Some (u ''standup'')"
  shows "good rep ts g (snd (finish_attempt g n rp rc read meta w fresh a s))"
    and "otn ts (snd (finish_attempt g n rp rc read meta w fresh a s)) = None"
    and "s_turn (snd (finish_attempt g n rp rc read meta w fresh a s)) = s_turn s"
proof -
  obtain w1 s1 where r: "record_turn_attempt meta w a s = (w1, s1)" by fastforce
  obtain out refusal where o: "read_turn_output read = (out, refusal)" by fastforce
  have w1: "w_action w1 = w_action w" and s1: "s1 = logs [(u ''turn.attempt'', [(u ''attempt_id'', PStr (attempt_of_meta meta a)),
      (u ''local_attempt_id'', PStr a), (u ''msg_id'', PStr (w_id w))] @ work_fields w)] s"
    using r by (auto simp: record_turn_attempt_def Let_def log_is_logs)
  have g1: "good rep ts g s1" unfolding s1 by (rule good_logs [OF attempt_event_quiet assms(1)])
  have m: "s_mem s1 = s_mem s" "s_turn s1 = s_turn s" by (simp_all add: s1 sup_proj)
  have eq: "finish_attempt g n rp rc read meta w fresh a s = finish_result g n rp rc out w1 fresh a refusal s1"
    by (simp add: finish_attempt_def r o)
  show "good rep ts g (snd (finish_attempt g n rp rc read meta w fresh a s))"
    unfolding eq by (rule good_finish_result [OF g1 _ assms(3-6)]) (use assms(2,7) m w1 in auto)
  show "otn ts (snd (finish_attempt g n rp rc read meta w fresh a s)) = None"
    unfolding eq by (rule open_finish_result [OF assms(5)])
  show "s_turn (snd (finish_attempt g n rp rc read meta w fresh a s)) = s_turn s"
    by (simp add: eq m)
qed

text \<open>What is known of a turn in flight.\<close>

definition flight_ok :: "(nat \<Rightarrow> pystr) \<Rightarrow> sup \<Rightarrow> flight \<Rightarrow> bool" where
  "flight_ok ts s t = (m_tripped (s_mem s) = PNone \<and> fl_attempt t \<noteq> [] \<and>
     (m_off (s_mem s) \<longrightarrow> w_action (fl_work t) \<noteq> Some (u ''standup'')) \<and>
     (\<exists>r. otn ts s = Some r \<and> dget r ''attempt_id'' = PStr (fl_attempt t) \<and> dget r ''msg_id'' = PStr (w_id (fl_work t))))"

definition life_ok :: "(pyval \<Rightarrow> pystr) \<Rightarrow> (nat \<Rightarrow> pystr) \<Rightarrow> sup_cfg \<Rightarrow> sup \<Rightarrow> bool" where
  "life_ok rep ts g s = (good rep ts g s \<and> (case s_turn s of
       None \<Rightarrow> running s \<longrightarrow> otn ts s = None
     | Some t \<Rightarrow> running s \<and> flight_ok ts s t))"

lemma begin_turn_facts:
  assumes "begin_turn g n w a s = (fresh, s1)"
  shows "m_tripped (s_mem s1) = m_tripped (s_mem s)" and "m_off (s_mem s1) = m_off (s_mem s)" and "s_turn s1 = s_turn s"
    and "fst (s_state s1) = ''WORKING''"
    and "\<exists>r. otn ts s1 = Some r \<and> dget r ''attempt_id'' = PStr a \<and> dget r ''msg_id'' = PStr (w_id w)"
proof -
  let ?s0 = "if m_session (s_mem s) = PNone then bind_session g n None s else s"
  let ?s2 = "set_state ''WORKING'' (if m_streak (s_mem ?s0) \<noteq> 0 then ''session_persistence_unavailable''
      else if s_infra_since ?s0 \<noteq> None then ''infra'' else '''') ?s0"
  let ?s3 = "if s_heart ?s2 = Some ''blocked'' then ?s2 else heartbeat ''busy'' (u ''supervised turn '' @ w_id w) ?s2"
  let ?fs = "[(u ''msg_id'', PStr (w_id w)), (u ''sid'', m_session (s_mem ?s3)), (u ''attempt_id'', PStr a)] @ work_fields w"
  have s1: "s1 = mem (\<lambda>m. m\<lparr>m_new := False\<rparr>) (log ''turn.started'' ?fs ?s3)"
    using assms by (simp only: begin_turn_def Let_def prod.inject)
  show "m_tripped (s_mem s1) = m_tripped (s_mem s)" "m_off (s_mem s1) = m_off (s_mem s)" "s_turn s1 = s_turn s"
    "fst (s_state s1) = ''WORKING''"
    by (simp_all add: s1 sup_proj)
  have wf: "wf_dict ?fs" by (simp add: wf_dict_def work_fields_def split: option.split)
  have "otn ts s1 = Some (numbered (int (length (s_log ?s3)) + 1) (ts (length (s_log ?s3))) (u ''turn.started'') ?fs)"
    unfolding s1 open_fields by (subst open_log) simp_all
  then show "\<exists>r. otn ts s1 = Some r \<and> dget r ''attempt_id'' = PStr a \<and> dget r ''msg_id'' = PStr (w_id w)"
    using numbered_field [OF wf] by simp
qed

lemma start_turn_life:
  assumes "good rep ts g s" and "m_tripped (s_mem s) = PNone" and "0 < g_burst g" and "good_moment n" and "s_turn s = None"
    and "quiet_replies rp" and "a \<noteq> []" and off: "m_off (s_mem s) \<Longrightarrow> w_action w \<noteq> Some (u ''standup'')"
    and e: "start_turn g n rp l w a s = (e, s')"
    and l: "launches l"
  shows "life_ok rep ts g s'" and "e \<noteq> None \<Longrightarrow> s_turn s' = None \<and> otn ts s' = None"
proof -
  obtain fresh s1 where b: "begin_turn g n w a s = (fresh, s1)" by fastforce
  note bf = begin_turn_facts [OF b]
  have g1: "good rep ts g s1"
    using good_begin_turn [OF assms(1), of n w a] assms(4) b by (simp add: good_moment_def)
  have off1: "m_off (s_mem s1) \<Longrightarrow> w_action w \<noteq> Some (u ''standup'')" using off bf(2) by simp
  have t1: "m_tripped (s_mem s1) = PNone" using bf(1) assms(2) by simp
  note af = attempt_facts [OF g1 t1 assms(3,4,6,7) off1]
  show "life_ok rep ts g s'"
  proof (cases l)
    case (Launched shown)
    let ?x = "case shown of None \<Rightarrow> s1
           | Some k \<Rightarrow> log ''rejections.preambled'' [(u ''through_seq'', PInt k), (u ''msg_id'', PStr (w_id w))] s1"
    have s': "s' = ?x\<lparr>s_turn := Some \<lparr>fl_work = w, fl_attempt = a, fl_fresh = fresh\<rparr>\<rparr>"
      using e by (simp add: start_turn_def b Launched)
    have "good rep ts g ?x" using g1 by (cases shown) (simp_all add: good_log memory_events_def)
    moreover have "otn ts ?x = otn ts s1" by (cases shown) (simp_all add: open_log)
    moreover have "s_mem ?x = s_mem s1" "s_state ?x = s_state s1" by (cases shown; simp add: sup_proj)+
    ultimately show ?thesis
      using bf t1 assms(7) off1 by (auto simp: s' life_ok_def flight_ok_def running_def)
  next
    case (Launch_failed read meta)
    then have "s' = snd (finish_attempt g n rp 69 read meta w fresh a s1)"
      using e by (simp add: start_turn_def b)
    with af bf(3) assms(5) show ?thesis by (simp add: life_ok_def)
  qed (use l in \<open>simp add: launches_def\<close>)
  show "s_turn s' = None \<and> otn ts s' = None" if "e \<noteq> None"
  proof (cases l)
    case (Launch_failed read meta)
    then have "s' = snd (finish_attempt g n rp 69 read meta w fresh a s1)"
      using e by (simp add: start_turn_def b)
    with af bf(3) assms(5) show ?thesis by simp
  qed (use e that l in \<open>simp_all add: start_turn_def b launches_def\<close>)
qed

lemma engine_error_facts:
  "good rep ts g s \<Longrightarrow> good rep ts g (message_engine_error g n kind w s)"
  "otn ts (message_engine_error g n kind w s) = otn ts s" "s_turn (message_engine_error g n kind w s) = s_turn s"
  "s_mem (message_engine_error g n kind w s) = s_mem s"
  by (simp_all add: message_engine_error_def Let_def good_log good_keeps memory_events_def open_simps, simp_all add: sup_proj)

lemma run_work_life:
  assumes "life_ok rep ts g s" and "may_start n s" and "0 < g_burst g" and "good_moment n" and "quiet_replies rp" and "a \<noteq> []"
    and "launches l"
  shows "life_ok rep ts g (run_work g n rp l mt w a s)"
proof -
  let ?w = "next_work n mt w s"
  have t: "s_turn s = None" "m_tripped (s_mem s) = PNone" "\<not> m_off (s_mem s)" using assms(2) by (simp_all add: may_start_def)
  obtain e s' where e: "start_turn g n rp l ?w a (s\<lparr>s_work := Some ?w\<rparr>) = (e, s')" by fastforce
  have g0: "good rep ts g (s\<lparr>s_work := Some ?w\<rparr>)" using assms(1) by (simp add: life_ok_def)
  note st = start_turn_life [OF g0 _ assms(3,4) _ assms(5,6) _ e assms(7)]
  show ?thesis
    using st t engine_error_facts [where s = s' and w = ?w]
    by (cases e) (auto simp: run_work_def Let_def guarded_start_turn_def e life_ok_def split: option.splits)
qed

lemma collect_life:
  assumes "life_ok rep ts g s" and "s_turn s = Some t" and "0 < g_burst g" and "good_moment n" and "quiet_replies rp"
    and e: "collect_turn g n rp rc read meta t s = (e, s')"
  shows "good rep ts g s'" and "s_turn s' = None" and "otn ts s' = None"
proof -
  have f: "good rep ts g s" "flight_ok ts s t" using assms(1,2) by (simp_all add: life_ok_def)
  have af: "good rep ts g (snd (finish_attempt g n rp rc read meta (fl_work t) (fl_fresh t) (fl_attempt t) (s\<lparr>s_turn := None\<rparr>)))"
    "otn ts (snd (finish_attempt g n rp rc read meta (fl_work t) (fl_fresh t) (fl_attempt t) (s\<lparr>s_turn := None\<rparr>))) = None"
    "s_turn (snd (finish_attempt g n rp rc read meta (fl_work t) (fl_fresh t) (fl_attempt t) (s\<lparr>s_turn := None\<rparr>))) = None"
    using attempt_facts [of rep ts g "s\<lparr>s_turn := None\<rparr>" n rp "fl_attempt t" "fl_work t"] f assms(3-5)
    by (auto simp: flight_ok_def)
  have q: "quiet (rp_close_log rp)" using assms(5) by (simp add: quiet_replies_def)
  show "good rep ts g s'" "s_turn s' = None" "otn ts s' = None"
    using af e by (auto simp: collect_turn_def good_logs [OF q] open_logs [OF q] logs_proj(1,3) split: prod.splits if_splits)
qed

lemma run_collect_life:
  assumes "life_ok rep ts g s" and "s_turn s = Some t" and "0 < g_burst g" and "good_moment n" and "quiet_replies rp"
  shows "life_ok rep ts g (run_collect g n rp rc read meta t s)"
proof -
  obtain e s' where e: "collect_turn g n rp rc read meta t s = (e, s')" by fastforce
  from collect_life [OF assms e] engine_error_facts [where s = s' and w = "fl_work t"]
  show ?thesis by (cases e) (auto simp: run_collect_def e life_ok_def)
qed

end
