(* ===== verification/SupReach.thy ===== *)
theory SupReach
  imports SupLife
begin

text \<open>
  Controls and starts keep the invariant too, so it holds in every state a supervisor reaches.
\<close>

section \<open>Answering controls\<close>

lemma good_consume:
  assumes "good rep ts g s" and "int_instance (c_seq c) \<noteq> None"
  shows "good rep ts g (consume_control c s)"
proof -
  have f: "faithful (s_mem s) (replayed rep ts (s_log s))" and ok: "mem_ok (g_burst g) (s_mem s)"
    using assms(1) by (simp_all add: good_def tracks_def)
  have "faithful (consume (c_seq c) (s_mem s)) (consume (c_seq c) (replayed rep ts (s_log s)))"
    by (rule faithfulI; simp add: consume_def faithful_sel [OF f])
  moreover have "mem_ok (g_burst g) (consume (c_seq c) (s_mem s))" using ok by (simp add: mem_ok_def consume_def)
  ultimately show ?thesis
    using assms(2) by (simp add: good_def tracks_def consume_control_def sup_proj replayed_consumed)
qed

lemma consume_facts:
  "otn ts (consume_control c s) = otn ts s" "s_turn (consume_control c s) = s_turn s"
  "s_state (consume_control c s) = s_state s" "m_tripped (s_mem (consume_control c s)) = m_tripped (s_mem s)"
  "m_off (s_mem (consume_control c s)) = m_off (s_mem s)"
  by (simp_all add: consume_control_def open_simps) (simp_all add: sup_proj consume_def)

lemma answer_facts:
  assumes "s' = reject_control c why caller g s \<or> s' = accept_control c g s"
  shows "otn ts s' = otn ts s" "s_turn s' = s_turn s" "s_state s' = s_state s" "m_tripped (s_mem s') = m_tripped (s_mem s)"
    "m_off (s_mem s') = m_off (s_mem s)"
    and "good rep ts g s \<Longrightarrow> int_instance (c_seq c) \<noteq> None \<Longrightarrow> good rep ts g s'"
proof -
  obtain ev fs where s': "s' = consume_control c (control_event ev c fs g s)" and
    ev: "ev = ''ctl.rejected'' \<or> ev = ''ctl.accepted''" "u ''event'' \<notin> fst ` set fs"
    using assms by (auto simp: reject_control_def accept_control_def)
  show "otn ts s' = otn ts s" "s_turn s' = s_turn s" "s_state s' = s_state s" "m_tripped (s_mem s') = m_tripped (s_mem s)"
    "m_off (s_mem s') = m_off (s_mem s)"
    using ev by (auto simp: s' consume_facts open_control_event control_event_proj)
  show "good rep ts g s'" if "good rep ts g s" "int_instance (c_seq c) \<noteq> None"
    unfolding s' by (rule good_consume [OF good_control_event [OF that(1)] that(2)])
      (use ev in \<open>auto simp: memory_events_def\<close>)
qed

lemma life_same:
  "life_ok rep ts g s \<Longrightarrow> good rep ts g s' \<Longrightarrow> otn ts s' = otn ts s \<Longrightarrow> s_turn s' = s_turn s \<Longrightarrow> s_state s' = s_state s \<Longrightarrow>
     m_tripped (s_mem s') = m_tripped (s_mem s) \<Longrightarrow> m_off (s_mem s') = m_off (s_mem s) \<Longrightarrow> life_ok rep ts g s'"
  by (simp add: life_ok_def running_def flight_ok_def split: option.splits)

lemma reject_life:
  "life_ok rep ts g s \<Longrightarrow> int_instance (c_seq c) \<noteq> None \<Longrightarrow> life_ok rep ts g (reject_control c why caller g s)"
  by (rule life_same [of rep ts g s]) (simp_all add: answer_facts [OF disjI1 [OF refl]] life_ok_def)

section \<open>Performing controls\<close>

text \<open>A supervisor with no turn in flight and none open is where every control may leave it.\<close>

definition idle_ok :: "(pyval \<Rightarrow> pystr) \<Rightarrow> (nat \<Rightarrow> pystr) \<Rightarrow> sup_cfg \<Rightarrow> sup \<Rightarrow> bool" where
  "idle_ok rep ts g s = (good rep ts g s \<and> s_turn s = None \<and> otn ts s = None)"

lemma idle_life: "idle_ok rep ts g s \<Longrightarrow> life_ok rep ts g s"
  by (simp add: idle_ok_def life_ok_def)

lemma clear_brake_facts:
  "otn ts (clear_brake n s) = otn ts s" "s_turn (clear_brake n s) = s_turn s"
  "m_tripped (s_mem (clear_brake n s)) = PNone" "m_off (s_mem (clear_brake n s)) = m_off (s_mem s)"
  by (simp_all add: clear_brake_def Let_def open_simps) (simp_all add: sup_proj restore_reset_def)

lemma idle_clear: "0 < g_burst g \<Longrightarrow> idle_ok rep ts g s \<Longrightarrow> idle_ok rep ts g (clear_brake n s)"
  by (simp add: idle_ok_def good_clear_brake clear_brake_facts)

lemma idle_fields:
  "idle_ok rep ts g s \<Longrightarrow> idle_ok rep ts g (set_state a b s)" "idle_ok rep ts g s \<Longrightarrow> idle_ok rep ts g (done_control c why g s)"
  "idle_ok rep ts g s \<Longrightarrow> idle_ok rep ts g (heartbeat a d s)"
  by (simp_all add: idle_ok_def good_keeps good_done_control open_simps, simp_all add: sup_proj)

lemma good_fresh:
  "good rep ts g s \<Longrightarrow> good rep ts g (mem unbind (log ''session.rotated'' [(u ''reason'', PStr (u ''fresh'')), (u ''prev_sid'', p)] s))"
  by (auto simp: good_def tracks_def sup_proj replayed_rotated mem_ok_def unbind_def faithful_sel intro!: faithfulI)

lemma idle_fresh:
  assumes "idle_ok rep ts g s" shows "idle_ok rep ts g (snd (fresh_session g rp s))"
proof -
  obtain e s1 where e: "add_handover_note (rp_note_present rp) (rp_note_sent rp) ''fresh'' g s = (e, s1)" by fastforce
  then have "idle_ok rep ts g s1"
    using assms good_note [of rep ts g s "rp_note_present rp" "rp_note_sent rp" "''fresh''"]
      open_note [of ts "rp_note_present rp" "rp_note_sent rp" "''fresh''" g s]
      flight_sub(3) [of "rp_note_present rp" "rp_note_sent rp" "''fresh''" g s]
    by (simp add: idle_ok_def)
  with e show ?thesis
    by (cases e) (auto simp: fresh_session_def idle_ok_def good_fresh open_simps, simp add: sup_proj)
qed

lemma idle_restart:
  assumes "idle_ok rep ts g s" and "0 < g_burst g" and "restart g n rp req c s = (e, out, s')"
  shows "idle_ok rep ts g s'"
proof -
  have "idle_ok rep ts g (clear_brake n s)" using idle_clear assms(1,2) by blast
  with idle_fresh [OF this, of rp] assms(3) show ?thesis
    by (auto simp: restart_def Let_def idle_fields split: if_splits prod.splits option.splits)
qed

lemma cancel_life:
  assumes "life_ok rep ts g s" and "0 < g_burst g" and "good_moment n" and "quiet_replies rp"
    and "\<forall>read. cr = Killed read \<longrightarrow> (\<exists>out. read = Inr out)" and e: "cancel_turn g n rp cr s = (e, s')"
  shows "if s_turn s = None then s' = s \<and> e = None else idle_ok rep ts g s'"
proof (cases "s_turn s")
  case (Some t)
  show ?thesis
  proof (cases cr)
    case (Ended rc read meta)
    with collect_life [OF assms(1) Some assms(2-4)] e Some show ?thesis by (simp add: cancel_turn_def idle_ok_def)
  next
    case (Killed read)
    with assms(5) obtain out where "read = Inr out" by blast
    then have "s' = cancelled (fl_work t) (fl_attempt t) None s"
      using e assms(4) by (simp add: cancel_turn_def Some Killed read_turn_output_def transcript_raises_def quiet_replies_def)
    moreover have "otn ts (cancelled (fl_work t) (fl_attempt t) None s) = None"
      by (simp add: cancelled_def open_simps)
    ultimately show ?thesis
      using assms(1) Some by (simp add: idle_ok_def life_ok_def good_cancelled) (simp add: cancelled_def sup_proj)
  qed
qed (use e in \<open>simp add: cancel_turn_def\<close>)

lemma routine_life:
  assumes "idle_ok rep ts g s" and "m_tripped (s_mem s) = PNone" and "0 < g_burst g" and "good_moment n"
    and "quiet_replies rp" and "a \<noteq> []" and "m_off (s_mem s) \<Longrightarrow> c_verb c \<noteq> u ''standup''"
    and "begin_control_routine rep g n rp l a c s = (e, s')" and "launches l"
  shows "life_ok rep ts g s'"
proof (rule start_turn_life(1) [where s = "s\<lparr>s_work := Some (routine_work rep c)\<rparr>" and w = "routine_work rep c"])
  show "m_off (s_mem (s\<lparr>s_work := Some (routine_work rep c)\<rparr>)) \<Longrightarrow> w_action (routine_work rep c) \<noteq> Some (u ''standup'')"
    using assms(7) by (simp add: routine_work_def)
qed (use assms in \<open>auto simp: idle_ok_def begin_control_routine_def Let_def\<close>)

text \<open>What the verdict of an accepted request says of a turn in flight.\<close>

lemma not_busy:
  assumes "\<not> busy req verb" and "verb \<in> set (ROUTINE_VERBS @ HUMAN_VERBS)"
  shows "verb = u ''reset-brake'' \<or> (verb \<in> {u ''neustart'', u ''abschalten''} \<and> truthy (dget_or req ''force'' (PBool False)))"
  using assms by (auto simp: busy_def ROUTINE_VERBS_def HUMAN_VERBS_def)

lemma verdict_accepts:
  assumes "control_verdict c turn req caller verb = Inr None"
  shows "verb \<in> set (ROUTINE_VERBS @ HUMAN_VERBS)" and "turn \<Longrightarrow> \<not> busy req verb"
    and "control_authorized (cc_agents c) req caller verb = Inr True"
    and "verb = u ''abschalten'' \<Longrightarrow> \<not> in_tuple (cc_protected c) [''guardian'', ''gateway'']"
  using assms by (auto simp: control_verdict_def bind_res_Inr split: if_splits)

lemma perform_life:
  assumes life: "life_ok rep ts g s" and run: "running s" and b: "0 < g_burst g" and n: "good_moment n" and q: "quiet_replies rp"
    and a: "a \<noteq> []" and k: "\<forall>read. cr = Killed read \<longrightarrow> (\<exists>out. read = Inr out)" and i: "int_instance (c_seq c) \<noteq> None"
    and busy: "s_turn s \<noteq> None \<Longrightarrow> \<not> busy req (c_verb c)" and verb: "c_verb c \<in> set (ROUTINE_VERBS @ HUMAN_VERBS)"
    and trip: "c_verb c \<in> {u ''feierabend'', u ''standup''} \<Longrightarrow> m_tripped (s_mem s) = PNone"
    and e: "perform_control rep g n rp cr l a req caller c s = (e, out, s')" and la: "launches l"
  shows "life_ok rep ts g s'"
proof -
  let ?s0 = "accept_control c g s"
  note acc = answer_facts [OF disjI2 [OF refl]]
  have l0: "life_ok rep ts g ?s0"
    by (rule life_same [OF life]) (use life i in \<open>simp_all add: acc life_ok_def\<close>)
  obtain e1 s1 where c1: "(if truthy (dget_or req ''force'' (PBool False)) then cancel_turn g n rp cr ?s0 else (None, ?s0)) = (e1, s1)"
    by fastforce
  have cases1: "(s1 = ?s0 \<and> e1 = None \<and> (s_turn s = None \<or> \<not> truthy (dget_or req ''force'' (PBool False)))) \<or> idle_ok rep ts g s1"
    using cancel_life [OF l0 b n q k, where e = e1 and s' = s1] c1 by (auto simp: acc split: if_splits)
  have idle0: "idle_ok rep ts g ?s0" if "s_turn s = None"
    using l0 run that by (simp add: life_ok_def idle_ok_def running_def acc)
  have idle1: "idle_ok rep ts g s1" if "s_turn s = None \<or> truthy (dget_or req ''force'' (PBool False))"
    using cases1 idle0 that by auto
  show ?thesis
  proof (cases e1)
    case (Some x)
    then have "idle_ok rep ts g s1" using cases1 by auto
    then show ?thesis using e by (simp add: perform_control_def c1 Some idle_life)
  next
    case None
    note e = e [unfolded perform_control_def c1 None prod.case option.case]
    consider "c_verb c = u ''reset-brake''" | "c_verb c = u ''neustart''" | "c_verb c = u ''feierabend''"
      | "c_verb c = u ''standup''" | "c_verb c = u ''abschalten''"
      using verb by (auto simp: ROUTINE_VERBS_def HUMAN_VERBS_def)
    then show ?thesis
    proof cases
      case 1
      then have s': "s' = done_control c ''reset'' g (set_state ''READY'' '''' (clear_brake n s1))" using e by simp
      have "life_ok rep ts g s1" using cases1 l0 idle_life by blast
      moreover have "otn ts s1 = None" if "s_turn s1 = None"
        using cases1 that idle0 by (auto simp: acc idle_ok_def)
      ultimately show ?thesis
        by (auto simp: s' life_ok_def good_done_control good_keeps good_clear_brake b open_simps clear_brake_facts running_def
            control_event_proj set_state_proj flight_ok_def split: option.splits)
    next
      case 2
      then have "restart g n rp req c s1 = (e, out, s')" using e by simp
      moreover have "idle_ok rep ts g s1" using idle1 not_busy [OF busy verb] 2 by (cases "s_turn s") auto
      ultimately show ?thesis using idle_restart b idle_life by blast
    next
      case 3
      then have t: "s_turn s = None" using busy by (cases "s_turn s") (auto simp: busy_def)
      then have i1: "idle_ok rep ts g s1" using idle1 by blast
      have m: "m_tripped (s_mem s1) = PNone"
        using cases1 trip 3 c1 t by (auto simp: acc cancel_turn_def split: if_splits)
      have "begin_control_routine rep g n rp l a c s1 = (e, s')"
        using e 3 i1 by (auto simp: go_on_def idle_ok_def)
      from routine_life [OF i1 m b n q a _ this la] 3 show ?thesis by simp
    next
      case 4
      then have t: "s_turn s = None" using busy by (cases "s_turn s") (auto simp: busy_def)
      then have i1: "idle_ok rep ts g s1" using idle1 by blast
      let ?s2 = "log ''duty.on'' [(u ''req'', c_seq c)] (mem (\<lambda>m. m\<lparr>m_off := False\<rparr>) s1)"
      have m: "m_tripped (s_mem ?s2) = PNone" "\<not> m_off (s_mem ?s2)"
        using cases1 trip 4 c1 t by (auto simp: acc cancel_turn_def sup_proj split: if_splits)
      have i2: "idle_ok rep ts g ?s2"
        using i1 by (simp add: idle_ok_def good_duty_on open_simps) (simp add: sup_proj)
      have "begin_control_routine rep g n rp l a c ?s2 = (e, s')"
        using e 4 i2 by (auto simp: go_on_def idle_ok_def Let_def split: if_splits)
      from routine_life [OF i2 m(1) b n q a _ this la] m(2) show ?thesis by simp
    next
      case 5
      then have s': "s' = done_control c ''stopping'' g
               (heartbeat ''done'' (u ''shut down by '' @ caller) (set_state ''STOPPING'' '''' s1))" using e by simp
      have "idle_ok rep ts g s1" using idle1 not_busy [OF busy verb] 5 by (cases "s_turn s") auto
      then show ?thesis by (simp add: s' idle_life idle_fields)
    qed
  qed
qed

text \<open>The loop: rejections keep the invariant, and the state the first accepted request finds.\<close>

lemma audited_found: "audited uid verb caller found = Some req \<Longrightarrow> found = Some (PDict req)"
  by (auto simp: audited_def split: option.splits pyval.splits if_splits)

lemma judge_request_cases:
  "judge_request g c file k verb caller s = Rejected q why caller' \<Longrightarrow>
     c_seq q = PInt k \<or> (\<exists>req. requested_record file k = Inr (Some (PDict req)) \<and> c_seq q = dget req ''seq'')"
  "judge_request g c file k verb caller s = Accepted req caller' q \<Longrightarrow>
     caller' = caller \<and> q = \<lparr>c_seq = dget req ''seq'', c_verb = verb\<rparr> \<and> requested_record file k = Inr (Some (PDict req)) \<and>
     audited (g_uid g) verb caller (Some (PDict req)) = Some req \<and>
     control_verdict c (s_turn s \<noteq> None) req caller verb = Inr None"
  by (auto simp: judge_request_def split: sum.splits option.splits dest: audited_found)

lemma judge_control_request:
  assumes "judge_control g c file f s = j" and "j \<noteq> Skipped" and "\<forall>e. j \<noteq> Raised e"
  shows "\<exists>k verb owner cmd acc caller. parse_ctl (g_uid g) (cf_name f) = Inr (Some (k, verb)) \<and>
     \<not> list_ex (py_eq (PInt k)) (m_consumed (s_mem s)) \<and> cf_owner f = Some (owner, cmd, acc) \<and>
     identity_for owner cmd acc (cc_roles c) = Inr caller \<and> judge_request g c file k verb caller s = j"
  using assms by (auto simp: judge_control_def split: sum.splits option.splits if_splits)

text \<open>What the moves assume of the controls holds for the rest of the loop too.\<close>

lemma process_paths_life:
  assumes "0 < g_burst g" and "good_moment n" and "quiet_replies rp" and "a \<noteq> []"
    and seqs: "\<forall>k d. requested_record file k = Inr (Some (PDict d)) \<longrightarrow> int_instance (dget d ''seq'') \<noteq> None"
    and "\<forall>read. cr = Killed read \<longrightarrow> (\<exists>out. read = Inr out)"
    and "life_ok rep ts g s" and "running s"
    and "m_tripped (s_mem s) = PNone \<or> list_all (\<lambda>f. \<forall>k v. parse_ctl (g_uid g) (cf_name f) = Inr (Some (k, v)) \<longrightarrow>
           v \<notin> {u ''feierabend'', u ''standup''}) fs"
    and "process_paths rep g c file n rp cr l a fs s = (e, out, s')"
    and la: "launches l"
  shows "life_ok rep ts g s'"
  using assms(7-10)
proof (induction fs arbitrary: s)
  case (Cons f fs)
  note pp = Cons.prems(4)
  show ?case
  proof (cases "judge_control g c file f s")
    case Skipped
    with pp have "process_paths rep g c file n rp cr l a fs s = (e, out, s')" by simp
    with Cons.IH [OF Cons.prems(1,2)] Cons.prems(3) show ?thesis by auto
  next
    case (Raised x)
    with Cons.prems show ?thesis by simp
  next
    case (Rejected q why caller)
    then have "int_instance (c_seq q) \<noteq> None"
      using judge_control_request [OF Rejected] judge_request_cases(1) seqs by (fastforce simp: int_instance_def)
    then have "life_ok rep ts g (reject_control q why caller g s)" using reject_life Cons.prems(1) by blast
    then show ?thesis
      by (rule Cons.IH) (use Cons.prems Rejected in \<open>auto simp: running_def answer_facts [OF disjI1 [OF refl]]\<close>)
  next
    case (Accepted req caller q)
    obtain k verb where v: "parse_ctl (g_uid g) (cf_name f) = Inr (Some (k, verb))"
      "q = \<lparr>c_seq = dget req ''seq'', c_verb = verb\<rparr>" "requested_record file k = Inr (Some (PDict req))"
      "control_verdict c (s_turn s \<noteq> None) req caller verb = Inr None"
      using judge_control_request [OF Accepted] judge_request_cases(2) by fastforce
    have "perform_control rep g n rp cr l a req caller q s = (e, out, s')" using pp Accepted by simp
    then show ?thesis
    proof (rule perform_life [OF Cons.prems(1,2) assms(1-4,6), rotated -2])
      show "launches l" by (rule la)
      show "int_instance (c_seq q) \<noteq> None" using seqs v(2,3) by simp
      show "\<not> busy req (c_verb q)" if "s_turn s \<noteq> None" using verdict_accepts(2) [OF v(4) that] by (simp add: v(2))
      show "c_verb q \<in> set (ROUTINE_VERBS @ HUMAN_VERBS)" using verdict_accepts(1) [OF v(4)] by (simp add: v(2))
      show "m_tripped (s_mem s) = PNone" if "c_verb q \<in> {u ''feierabend'', u ''standup''}"
        using Cons.prems(3) v(1,2) that by auto
    qed
  qed
qed simp

lemma ctl_candidates_set:
  assumes "ctl_candidates uid fs = Inr cs" shows "set cs \<subseteq> set fs"
proof -
  obtain ks where ks: "keyed uid (filter (ctl_globbed uid) fs) = Inr ks" "cs = map snd (sort_key fst ks)"
    using assms by (auto simp: ctl_candidates_def bind_res_Inr)
  have "keyed uid xs = Inr ks \<Longrightarrow> map snd ks = xs" for xs ks
    by (induction xs arbitrary: ks) (auto simp: bind_res_Inr)
  from this [OF ks(1)] show ?thesis
    by (auto simp: ks(2) image_iff) (metis filter_is_subset image_eqI list.set_map snd_conv subsetD)
qed

lemma process_controls_life:
  assumes "life_ok rep ts g s" and "running s" and "0 < g_burst g" and "good_moment n" and "quiet_replies rp" and "a \<noteq> []"
    and "sound_controls (g_uid g) file cr dir s"
    and "process_controls rep g c file n rp cr l a dir s = (e, out, s')" and "launches l"
  shows "life_ok rep ts g s'"
proof (cases dir)
  case (Some fs)
  show ?thesis
  proof (cases "ctl_candidates (g_uid g) fs")
    case (Inr cs)
    have sub: "set cs \<subseteq> set fs" by (rule ctl_candidates_set [OF Inr])
    show ?thesis
    proof (rule process_paths_life [OF assms(3-6) _ _ assms(1,2)])
      show "m_tripped (s_mem s) = PNone \<or> list_all (\<lambda>f. \<forall>k v. parse_ctl (g_uid g) (cf_name f) = Inr (Some (k, v)) \<longrightarrow>
           v \<notin> {u ''feierabend'', u ''standup''}) cs"
        using assms(7) sub unfolding sound_controls_def Some list_all_iff by blast
      show "process_paths rep g c file n rp cr l a cs s = (e, out, s')"
        using assms(8) by (simp add: process_controls_def Some Inr)
    qed (use assms(7,9) in \<open>simp_all add: sound_controls_def\<close>)
  qed (use assms in \<open>simp add: process_controls_def Some\<close>)
qed (use assms in \<open>simp add: process_controls_def\<close>)

section \<open>A new start\<close>

text \<open>What is restored of a journal is well formed, whatever failures it has forgotten.\<close>

lemma restored_counts: "counts_ok (m_failures (replayed rep ts es)) \<and> counts_ok (m_losses (replayed rep ts es))"
proof -
  have step: "counts_ok (m_failures (restore_record rep r m)) \<and> counts_ok (m_losses (restore_record rep r m))"
    if "counts_ok (m_failures m)" "counts_ok (m_losses m)" for r m
  proof -
    have d: "counts_ok (m_failures (drop_counters v m)) \<and> counts_ok (m_losses (drop_counters v m))"
      if "counts_ok (m_failures m)" "counts_ok (m_losses m)" for v m
      using that by (simp add: drop_counters_def split: pyval.split)
    have e: "counts_ok (m_failures (restore_ended r m)) \<and> counts_ok (m_losses (restore_ended r m))"
      using that by (simp add: restore_ended_def Let_def d split: option.split)
    have p: "counts_ok (m_failures (restore_persistence_failed rep r m)) \<and> counts_ok (m_losses (restore_persistence_failed rep r m))"
      using that by (simp add: restore_persistence_failed_def Let_def d unbind_def split: pyval.split)
    show ?thesis
      using that e p
      by (simp add: restore_record_def Let_def restore_bound_def restore_started_def restore_reset_def unbind_def consume_def)
  qed
  have "counts_ok (m_failures (fold (restore_record rep) rs m)) \<and> counts_ok (m_losses (fold (restore_record rep) rs m))"
    if "counts_ok (m_failures m)" "counts_ok (m_losses m)" for rs m
    using that by (induction rs arbitrary: m) (simp_all add: step)
  then show ?thesis by (simp add: replayed_def unbind_def init_mem_def)
qed

lemma restore_good:
  assumes "good rep ts g s"
  shows "restore rep (g_burst g) now (records_of ts (s_log s)) init_mem = (replayed rep ts (s_log s), otn ts s)"
    and "mem_ok (g_burst g) (replayed rep ts (s_log s))"
proof -
  let ?R = "replayed rep ts (s_log s)"
  have f: "faithful (s_mem s) ?R" and ok: "mem_ok (g_burst g) (s_mem s)" using assms by (simp_all add: good_def tracks_def)
  show m: "mem_ok (g_burst g) ?R"
    using ok restored_counts [of rep ts "s_log s"] by (simp add: mem_ok_def faithful_sel [OF f])
  have "\<not> (g_burst g \<le> m_brake ?R \<and> m_tripped ?R = PNone)" using m by (auto simp: mem_ok_def)
  then show "restore rep (g_burst g) now (records_of ts (s_log s)) init_mem = (?R, otn ts s)"
    by (auto simp: restore_def Let_def open_turn_def unfinished_of_def replayed_def [symmetric] split: prod.split)
qed

lemma first_state_facts:
  "good rep ts g s \<Longrightarrow> good rep ts g (first_state s)" "otn ts (first_state s) = otn ts s" "s_turn (first_state s) = s_turn s"
  "m_brake (s_mem (first_state s)) = m_brake (s_mem s)"
  by (simp_all add: first_state_def Let_def good_keeps open_simps, simp_all add: sup_proj)

lemma handle_orphan_life:
  assumes "good rep ts g s" and "s_turn s = None" and "orphan_quiet q"
  shows "life_ok rep ts g (handle_orphan q r s)"
proof (cases q)
  case Orphan_stop
  with assms show ?thesis by (simp add: handle_orphan_def life_ok_def good_keeps running_def sup_proj)
next
  case (Orphan_gone es)
  let ?s1 = "logs es (set_state ''ORPHANED'' ''orphan'' s)"
  let ?fs = "[(u ''msg_id'', dget r ''msg_id''), (u ''sid'', dget r ''sid''),
      (u ''attempt_id'', dget_or r ''attempt_id'' (dget r ''attempt'')), (u ''class'', PStr (u ''orphan_gone'')),
      (u ''rc'', PInt 0), (u ''brake'', PInt (m_brake (s_mem s)))]"
  have g1: "good rep ts g ?s1" using assms Orphan_gone by (simp add: good_logs good_keeps orphan_quiet_def)
  have f: "faithful (s_mem ?s1) (replayed rep ts (s_log ?s1))" and ok: "mem_ok (g_burst g) (s_mem ?s1)"
    using g1 by (simp_all add: good_def tracks_def)
  have "replayed rep ts (s_log (log ''turn.ended'' ?fs ?s1)) = (replayed rep ts (s_log ?s1))\<lparr>m_brake := m_brake (s_mem s)\<rparr>"
    by (simp add: log_proj(2) replayed_snoc restore_record_def numbered_def restore_ended_def int_instance_def truthy_def Let_def)
  also have "\<dots> = replayed rep ts (s_log ?s1)" using faithful_sel(5) [OF f] by (simp add: sup_proj)
  finally have "good rep ts g (log ''turn.ended'' ?fs ?s1)"
    using f ok by (simp add: good_def tracks_def) (simp add: log_proj)
  moreover have "otn ts (log ''turn.ended'' ?fs ?s1) = None" by (subst open_log) simp_all
  moreover have "handle_orphan q r s = ready (log ''turn.ended'' ?fs ?s1)"
    by (simp add: handle_orphan_def Orphan_gone set_state_proj)
  moreover have "s_turn (handle_orphan q r s) = None"
    using assms(2) by (simp add: handle_orphan_def Orphan_gone sup_proj)
  ultimately show ?thesis by (simp add: life_ok_def good_keeps ready_proj(2))
qed

lemma boot_life:
  assumes "good rep ts g s" and "good_moment n" and "orphan_quiet q"
    and "boot rep ts g n rp q cwd pid reexec s = (e, s')"
  shows "life_ok rep ts g s'"
proof -
  define s0 where "s0 = \<lparr>s_mem = replayed rep ts (s_log s), s_log = s_log s, s_fx = s_fx s, s_work = None, s_turn = None,
      s_heart = None, s_state = (''STARTING'', ''''), s_retry = At 0, s_infra_since = None, s_cwd = cwd\<rparr>"
  have g0: "good rep ts g s0"
    using restore_good(2) [OF assms(1)] by (simp add: good_def tracks_def s0_def faithful_def)
  obtain x s1 where c: "check_cwd_binding (rp_note_present rp) (rp_note_sent rp) g n s0 = (x, s1)" by fastforce
  have "n_sid n \<noteq> []" using assms(2) by (simp add: good_moment_def)
  from good_check_cwd [OF g0 this, of "rp_note_present rp" "rp_note_sent rp"] c
  have g1: "good rep ts g s1" by simp
  have o1: "otn ts s1 = otn ts s"
    using open_check_cwd [of ts "rp_note_present rp" "rp_note_sent rp" g n s0] c by (simp add: s0_def)
  have st1: "s_turn s1 = None" "x \<noteq> None \<Longrightarrow> fst (s_state s1) = ''STARTING''"
    using c by (auto simp: check_cwd_binding_def add_handover_note_def s0_def sup_proj split: if_splits)
  let ?s2 = "first_state (log ''supervisor.started'' [(u ''pid'', PInt pid), (u ''reexec'', PBool reexec)] s1)"
  have g2: "good rep ts g ?s2" "otn ts ?s2 = otn ts s" "s_turn ?s2 = None"
    using g1 st1 by (simp_all add: first_state_facts good_log memory_events_def open_log o1, simp add: sup_proj)
  have eq: "boot rep ts g n rp q cwd pid reexec s = (case x of Some e \<Rightarrow> (Some e, s1)
      | None \<Rightarrow> (None, case otn ts s of None \<Rightarrow> ?s2 | Some r \<Rightarrow> handle_orphan q r ?s2))"
    by (simp add: boot_def restore_good(1) [OF assms(1)] c [unfolded s0_def] split: option.split)
  show ?thesis
  proof (cases x)
    case (Some y)
    then show ?thesis using assms(4) st1 g1 by (auto simp: eq life_ok_def running_def)
  next
    case None
    show ?thesis
    proof (cases "otn ts s")
      case None
      then show ?thesis using assms(4) g2 \<open>x = None\<close> by (auto simp: eq life_ok_def)
    next
      case (Some r)
      then show ?thesis using assms(4) \<open>x = None\<close> handle_orphan_life [OF g2(1,3) assms(3)] by (auto simp: eq)
    qed
  qed
qed

section \<open>Reachable supervisors\<close>

definition first_run :: "pystr \<Rightarrow> sup" where
  "first_run cwd = \<lparr>s_mem = init_mem, s_log = [], s_fx = [], s_work = None, s_turn = None, s_heart = None,
     s_state = (''STARTING'', ''''), s_retry = At 0, s_infra_since = None, s_cwd = cwd\<rparr>"

lemma step_life:
  assumes "regular_step rep ts g s s'" and "life_ok rep ts g s" and "0 < g_burst g"
  shows "life_ok rep ts g s'"
  using assms(1)
proof cases
  case (journaled es w r fx)
  then show ?thesis
    by (intro life_same [OF assms(2)]) (use assms(2) in \<open>simp_all add: life_ok_def good_logs open_logs open_fields,
        simp_all add: sup_proj\<close>)
next
  case (started n rp l a mt w)
  with run_work_life [OF assms(2) started(3) assms(3) started(4,5,7,6)] show ?thesis by simp
next
  case (collected t n rp rc read meta)
  with run_collect_life [OF assms(2) collected(3) assms(3) collected(4,5)] show ?thesis by simp
next
  case (controlled n rp l a fl cr dir c e out)
  from process_controls_life [OF assms(2) controlled(1) assms(3) controlled(2,3,5-7,4)] show ?thesis .
next
  case (stopped pid)
  have "good rep ts g (stop_run pid s)"
    using assms(2) by (simp add: stop_run_def life_ok_def good_keeps good_log memory_events_def)
  then show ?thesis by (simp add: stopped life_ok_def) (simp add: stop_run_def sup_proj running_def)
next
  case (booted n q rp cwd pid reexec e)
  then show ?thesis using boot_life assms(2) by (auto simp: life_ok_def)
qed

lemma first_run_life: "0 < g_burst g \<Longrightarrow> life_ok rep ts g (first_run cwd)"
  by (simp add: life_ok_def good_def tracks_def first_run_def running_def)
     (simp add: faithful_def init_mem_def unbind_def mem_ok_def)

lemma reachable_life:
  assumes "(regular_step rep ts g)\<^sup>*\<^sup>* (first_run cwd) s" and "0 < g_burst g"
  shows "life_ok rep ts g s"
  using assms(1) by (induction rule: rtranclp_induct) (simp_all add: first_run_life step_life assms(2))

end
