(* ===== verification/SupBrake.thy ===== *)
theory SupBrake
  imports SupReach
begin

text \<open>
  The provider-failure brake (\<open>lib/aib_supervisor.py\<close>) over every move of a supervisor, with
  nothing assumed of what it is handed in: it is tripped whenever the failures reach its limit,
  and only a routine asked for by a control runs a turn against it.
\<close>

section \<open>The limit\<close>

definition braked :: "sup_cfg \<Rightarrow> sup \<Rightarrow> bool" where
  "braked g s = (m_tripped (s_mem s) = PNone \<longrightarrow> m_brake (s_mem s) < g_burst g)"

named_theorems brake_simps \<open>operations that leave the brake as it is\<close>
named_theorems brake_keeps \<open>operations that keep the brake tripped at its limit\<close>

lemma braked_same:
  "m_tripped (s_mem s') = m_tripped (s_mem s) \<Longrightarrow> m_brake (s_mem s') = m_brake (s_mem s) \<Longrightarrow> braked g s' = braked g s"
  by (simp add: braked_def)

lemma braked_fields [brake_simps]:
  "braked g (s\<lparr>s_work := w\<rparr>) = braked g s" "braked g (s\<lparr>s_retry := t\<rparr>) = braked g s" "braked g (s\<lparr>s_turn := x\<rparr>) = braked g s"
  "braked g (s\<lparr>s_infra_since := i\<rparr>) = braked g s" "braked g (s\<lparr>s_fx := fx\<rparr>) = braked g s"
  by (simp_all add: braked_def)

lemma braked_ops [brake_simps]:
  "braked g (emit e s) = braked g s" "braked g (set_state a b s) = braked g s" "braked g (heartbeat a c s) = braked g s"
  "braked g (ready s) = braked g s" "braked g (log ev fs s) = braked g s" "braked g (logs es s) = braked g s"
  "braked g (end_turn w aid cls rc h why s) = braked g s" "braked g (control_event ev q fs g' s) = braked g s"
  "braked g (done_control q r g' s) = braked g s" "braked g (forget_infra s) = braked g s"
  "braked g (bind_session g' n fr s) = braked g s" "braked g (fail_brake s) = braked g s" "braked g (park g' n r s) = braked g s"
  "braked g (consume_control q s) = braked g s"
  by (simp_all add: braked_def sup_proj fail_brake_def park_def consume_control_def consume_def)

lemma braked_mem [brake_simps]:
  "(\<And>m. m_tripped (f m) = m_tripped m) \<Longrightarrow> (\<And>m. m_brake (f m) = m_brake m) \<Longrightarrow> braked g (mem f s) = braked g s"
  by (simp add: braked_def sup_proj)

text \<open>A counted failure trips the brake at its limit.\<close>

lemma braked_trip [brake_keeps]: "braked g (trip_if_burst g n s)"
  by (simp add: braked_def sup_proj)

lemma braked_clear [brake_keeps]: "0 < g_burst g \<Longrightarrow> braked g (clear_brake n s)"
  by (simp add: braked_def clear_brake_def Let_def sup_proj restore_reset_def)

lemma braked_release: "0 < g_burst g \<Longrightarrow> braked g s \<Longrightarrow> braked g (mem (release_brake b) s)"
  by (simp add: braked_def sup_proj release_brake_def)

lemma braked_note [brake_simps]: "braked g (snd (add_handover_note p q why g' s)) = braked g s"
  by (simp add: add_handover_note_def brake_simps)

lemma braked_rotate [brake_simps]: "braked g (snd (rotate_with_note p q why g' n s)) = braked g s"
  by (simp add: rotate_with_note_def add_handover_note_def brake_simps)

lemma braked_check_cwd [brake_simps]: "braked g (snd (check_cwd_binding p q g' n s)) = braked g s"
  by (simp add: check_cwd_binding_def add_handover_note_def brake_simps)

lemma braked_handover [brake_simps]: "braked g (begin_session_loss_handover g' n w s) = braked g s"
  by (simp add: begin_session_loss_handover_def brake_simps)

section \<open>The end of a turn\<close>

lemma braked_recorded [brake_keeps]: "braked g (persistence_recorded g n rc w a s)"
proof -
  have "braked g (persistence_counted g n a s)" by (simp add: persistence_counted_def brake_keeps)
  moreover have "braked g (mem (\<lambda>m. unbind (m\<lparr>m_losses := d m\<rparr>)) x) = braked g x" for x d
    by (simp add: braked_mem unbind_def)
  ultimately show ?thesis by (simp add: persistence_recorded_def Let_def brake_simps)
qed

lemma braked_persistence [brake_keeps]: "braked g (persistence_lost g n rc w a s)"
  by (simp add: persistence_lost_def Let_def brake_simps brake_keeps split: option.split)

lemma braked_session_lost [brake_keeps]:
  assumes "braked g s" shows "braked g (snd (session_lost g n rp rc w a s))"
proof -
  let ?s2 = "end_turn w a ''session_lost'' rc False None (mem (\<lambda>m. m\<lparr>m_losses := bump (w_id w) (m_losses m)\<rparr>) s)"
  obtain e s3 where e: "rotate_with_note (rp_note_present rp) (rp_note_sent rp) ''unknown_sid'' g n ?s2 = (e, s3)" by fastforce
  then have "braked g s3"
    using assms braked_rotate [of g "rp_note_present rp" "rp_note_sent rp" "''unknown_sid''" g n ?s2] by (simp add: brake_simps)
  with e assms show ?thesis
    by (cases e; cases "w_control w") (simp_all add: session_lost_def Let_def brake_simps brake_keeps)
qed

lemma braked_after [brake_simps]: "braked g (after_plain g' n w s) = braked g s" "braked g (after_ok g' n w s) = braked g s"
  by (simp_all add: after_plain_def after_ok_def brake_simps split: option.split)

lemma braked_finish_ok [brake_keeps]:
  "0 < g_burst g \<Longrightarrow> braked g s \<Longrightarrow> braked g (finish_ok g' n rp rc fresh h w a s)"
  by (simp add: finish_ok_def Let_def brake_simps braked_release split: option.split)

lemma braked_finish_infra [brake_simps]: "braked g (finish_infra g' n rc h w a s) = braked g s"
  by (simp add: finish_infra_def Let_def brake_simps)

lemma braked_finish_failed [brake_keeps]: "braked g (finish_failed g n rp rc w a refusal s)"
  by (simp add: finish_failed_def Let_def brake_simps brake_keeps split: option.split)

lemma braked_finish_class:
  "0 < g_burst g \<Longrightarrow> braked g s \<Longrightarrow> braked g (snd (finish_class g n rp rc out h w fresh a refusal s))"
  unfolding finish_class_def Let_def by (simp add: brake_simps brake_keeps)

lemma braked_finish_result:
  "0 < g_burst g \<Longrightarrow> braked g s \<Longrightarrow> braked g (snd (finish_result g n rp rc out w fresh a refusal s))"
  unfolding finish_result_def Let_def by (simp add: braked_finish_class brake_simps)

lemma braked_attempt:
  assumes "0 < g_burst g" and "braked g s"
  shows "braked g (snd (finish_attempt g n rp rc read meta w fresh a s))"
  using assms
  by (auto simp: finish_attempt_def record_turn_attempt_def Let_def brake_simps braked_finish_result split: prod.split)

section \<open>Turns in flight\<close>

text \<open>A turn that runs while the brake is tripped is one of the two routines of a control.\<close>

definition routine_flight :: "(pyval \<Rightarrow> pystr) \<Rightarrow> sup \<Rightarrow> bool" where
  "routine_flight rep s = (\<forall>t. s_turn s = Some t \<longrightarrow> m_tripped (s_mem s) \<noteq> PNone \<longrightarrow>
     (\<exists>c. fl_work t = routine_work rep c \<and> c_verb c \<in> {u ''feierabend'', u ''standup''}))"

definition held :: "(pyval \<Rightarrow> pystr) \<Rightarrow> sup_cfg \<Rightarrow> sup \<Rightarrow> bool" where
  "held rep g s = (0 < g_burst g \<and> braked g s \<and> routine_flight rep s)"

lemma held_idle: "0 < g_burst g \<Longrightarrow> braked g s \<Longrightarrow> s_turn s = None \<Longrightarrow> held rep g s"
  by (simp add: held_def routine_flight_def)

lemma held_same:
  "m_tripped (s_mem s') = m_tripped (s_mem s) \<Longrightarrow> m_brake (s_mem s') = m_brake (s_mem s) \<Longrightarrow> s_turn s' = s_turn s \<Longrightarrow>
     held rep g s' = held rep g s"
  by (simp add: held_def routine_flight_def braked_def)

lemma attempt_turn: "s_turn (snd (finish_attempt g n rp rc read meta w fresh a s)) = s_turn s"
  by (auto simp: finish_attempt_def record_turn_attempt_def Let_def sup_proj split: prod.split)

lemma start_turn_brake:
  assumes "0 < g_burst g" and "braked g s" and "s_turn s = None" and "start_turn g n rp l w a s = (e, s')"
  shows "braked g s'"
    and "s_turn s' = None \<or> (e = None \<and> m_tripped (s_mem s') = m_tripped (s_mem s) \<and> map_option fl_work (s_turn s') = Some w)"
proof -
  obtain fresh s1 where b: "begin_turn g n w a s = (fresh, s1)" by fastforce
  note bf = begin_turn_facts [OF b]
  have "m_brake (s_mem s1) = m_brake (s_mem s)"
    using b by (auto simp: begin_turn_def Let_def sup_proj)
  then have b1: "braked g s1" using braked_same bf(1) assms(2) by blast
  have fin: "braked g s' \<and> s_turn s' = None" if "finish_attempt g n rp 69 r m w fresh a s1 = (e, s')" for r m
    using braked_attempt [OF assms(1) b1, of n rp 69 r m w fresh a] attempt_turn [of g n rp 69 r m w fresh a s1] that bf(3) assms(3)
    by simp
  show "braked g s'"
    using assms(4) b1 fin by (cases l) (auto simp: start_turn_def b brake_simps split: option.split)
  show "s_turn s' = None \<or> (e = None \<and> m_tripped (s_mem s') = m_tripped (s_mem s) \<and> map_option fl_work (s_turn s') = Some w)"
    using assms(3,4) bf(1,3) fin by (cases l) (auto simp: start_turn_def b sup_proj split: option.split)
qed

lemma collect_held:
  assumes "held rep g s" and "collect_turn g n rp rc read meta t s = (e, s')"
  shows "held rep g s'" and "s_turn s' = None"
proof -
  let ?f = "finish_attempt g n rp rc read meta (fl_work t) (fl_fresh t) (fl_attempt t) (s\<lparr>s_turn := None\<rparr>)"
  have b: "0 < g_burst g" "braked g (snd ?f)" "s_turn (snd ?f) = None"
    using assms(1) by (simp_all add: held_def braked_attempt attempt_turn brake_simps)
  show "s_turn s' = None"
    using assms(2) b(3) by (auto simp: collect_turn_def sup_proj split: prod.splits if_splits)
  then show "held rep g s'"
    using assms(2) b by (intro held_idle) (auto simp: collect_turn_def brake_simps split: prod.splits if_splits)
qed

lemma engine_error_held [simp]: "held rep g (message_engine_error g' n kind w s) = held rep g s"
  by (rule held_same) (simp_all add: engine_error_facts)

lemma run_work_held:
  assumes "held rep g s" and "may_start n s"
  shows "held rep g (run_work g n rp l mt w a s)"
proof -
  let ?w = "next_work n mt w s"
  obtain e s' where e: "start_turn g n rp l ?w a (s\<lparr>s_work := Some ?w\<rparr>) = (e, s')" by fastforce
  have m: "m_tripped (s_mem s) = PNone" "s_turn s = None" using assms(2) by (simp_all add: may_start_def)
  have "held rep g s'"
    using start_turn_brake [OF _ _ _ e] assms(1) m by (auto simp: held_def routine_flight_def brake_simps)
  then show ?thesis by (cases e) (simp_all add: run_work_def Let_def guarded_start_turn_def e)
qed

lemma run_collect_held:
  assumes "held rep g s" shows "held rep g (run_collect g n rp rc read meta t s)"
proof -
  obtain e s' where e: "collect_turn g n rp rc read meta t s = (e, s')" by fastforce
  from collect_held(1) [OF assms e] show ?thesis by (cases e) (simp_all add: run_collect_def e)
qed

section \<open>Controls\<close>

lemma answer_held:
  "held rep g (reject_control c why caller g' s) = held rep g s" "held rep g (accept_control c g' s) = held rep g s"
  by (rule held_same; simp add: reject_control_def accept_control_def consume_control_def consume_def sup_proj)+

lemma cancel_held:
  assumes "held rep g s" and "cancel_turn g n rp cr s = (e, s')"
  shows "held rep g s'"
proof (cases "s_turn s")
  case (Some t)
  have "held rep g (cancelled w a refusal s)" for w a refusal
    using assms(1)
    by (intro held_idle) (cases refusal; simp add: held_def cancelled_def brake_simps sup_proj split: option.split)+
  then show ?thesis
    using assms collect_held(1) [OF assms(1)] Some
    by (auto simp: cancel_turn_def split: cancel_reply.splits prod.splits if_splits)
qed (use assms in \<open>simp add: cancel_turn_def\<close>)

lemma clear_held: "0 < g_burst g \<Longrightarrow> held rep g (clear_brake n s)"
  by (simp add: held_def brake_keeps routine_flight_def clear_brake_facts)

lemma restart_held:
  assumes "0 < g_burst g" and "restart g n rp req c s = (e, out, s')"
  shows "held rep g s'"
proof -
  have h: "held rep g (clear_brake n s)" by (rule clear_held [OF assms(1)])
  have "held rep g (snd (fresh_session g rp x))" if "held rep g x" for x
    using that by (auto simp: fresh_session_def add_handover_note_def held_def routine_flight_def brake_simps unbind_def sup_proj)
  from this [OF h] h have "held rep g (snd (if truthy (dget_or req ''fresh'' (PBool False)) then fresh_session g rp (clear_brake n s)
      else (None, clear_brake n s)))" by simp
  then show ?thesis
    using assms(2)
    by (auto simp: restart_def Let_def held_def routine_flight_def brake_simps sup_proj split: prod.splits option.splits)
qed

lemma routine_held:
  assumes "held rep g s" and "s_turn s = None" and "c_verb c \<in> {u ''feierabend'', u ''standup''}"
    and "begin_control_routine rep g n rp l a c s = (e, s')"
  shows "held rep g s'"
proof -
  let ?w = "routine_work rep c"
  have e: "start_turn g n rp l ?w a (s\<lparr>s_work := Some ?w\<rparr>) = (e, s')"
    using assms(4) by (simp add: begin_control_routine_def Let_def)
  show ?thesis
    using start_turn_brake [OF _ _ _ e] assms(1-3) by (auto simp: held_def routine_flight_def brake_simps)
qed

lemma perform_held:
  assumes "held rep g s" and "perform_control rep g n rp cr l a req caller c s = (e, out, s')"
  shows "held rep g s'"
proof -
  obtain e1 s1 where c1: "(if truthy (dget_or req ''force'' (PBool False)) then cancel_turn g n rp cr (accept_control c g s)
      else (None, accept_control c g s)) = (e1, s1)" by fastforce
  have h0: "held rep g (accept_control c g s)" using assms(1) by (simp add: answer_held)
  have h1: "held rep g s1"
    using c1 cancel_held [OF h0] h0 by (auto split: if_splits)
  have duty: "held rep g (log ''duty.on'' fs (mem (\<lambda>m. m\<lparr>m_off := False\<rparr>) s1))" for fs
    using h1 by (simp add: held_def routine_flight_def brake_simps sup_proj)
  have ans: "held rep g (done_control c why g (set_state a b x)) = held rep g x"
    "held rep g (done_control c why g (heartbeat a' d (set_state a b x))) = held rep g x" for why a b a' d x
    by (rule held_same; simp add: sup_proj)+
  have b: "0 < g_burst g" using assms(1) by (simp add: held_def)
  show ?thesis
  proof (cases e1)
    case None
    note e = assms(2) [unfolded perform_control_def c1 None prod.case option.case]
    consider "c_verb c = u ''reset-brake''" | "c_verb c = u ''neustart''" | "c_verb c = u ''feierabend''"
      | "c_verb c = u ''standup''" | "c_verb c = u ''abschalten''"
      | "c_verb c \<notin> {u ''reset-brake'', u ''neustart'', u ''feierabend'', u ''standup'', u ''abschalten''}" by blast
    then show ?thesis
    proof cases
      case 3
      then show ?thesis
        using e h1 routine_held [OF h1 _ _ surjective_pairing] by (cases "s_turn s1 = None") (auto simp: go_on_def)
    next
      case 4
      then show ?thesis
        using e duty routine_held [OF duty _ _ surjective_pairing] by (cases "s_turn s1 = None") (auto simp: go_on_def Let_def sup_proj)
    qed (use e h1 restart_held [OF b] in \<open>auto simp: ans clear_held [OF b]\<close>)
  qed (use assms(2) h1 in \<open>simp add: perform_control_def c1\<close>)
qed

lemma process_paths_held:
  "held rep g s \<Longrightarrow> process_paths rep g c file n rp cr l a fs s = (e, out, s') \<Longrightarrow> held rep g s'"
proof (induction fs arbitrary: s)
  case (Cons f fs)
  have rej: "held rep g (reject_control q why caller g s)" for q why caller using Cons.prems(1) by (simp add: answer_held)
  show ?case
    using Cons.prems Cons.IH [of s] Cons.IH [OF rej] perform_held [OF Cons.prems(1)]
    by (cases "judge_control g c file f s") auto
qed simp

lemma process_controls_held:
  assumes "held rep g s" and "process_controls rep g c file n rp cr l a dir s = (e, out, s')"
  shows "held rep g s'"
  using assms process_paths_held
  by (auto simp: process_controls_def split: option.splits sum.splits)

section \<open>Starts\<close>

lemma boot_held:
  assumes "0 < g_burst g" and "boot rep ts g n rp q cwd pid reexec s = (e, s')"
  shows "held rep g s'"
proof -
  obtain m t where r: "restore rep (g_burst g) (n_ts n) (records_of ts (s_log s)) init_mem = (m, t)" by fastforce
  define s0 where "s0 = \<lparr>s_mem = m, s_log = s_log s, s_fx = s_fx s, s_work = None, s_turn = None, s_heart = None,
      s_state = (''STARTING'', ''''), s_retry = At 0, s_infra_since = None, s_cwd = cwd\<rparr>"
  have "m_tripped m = PNone \<longrightarrow> m_brake m < g_burst g"
    using r by (auto simp: restore_def Let_def split: prod.splits if_splits)
  then have b0: "braked g s0" by (simp add: s0_def braked_def)
  obtain x s1 where c: "check_cwd_binding (rp_note_present rp) (rp_note_sent rp) g n s0 = (x, s1)" by fastforce
  have b1: "braked g s1"
    using braked_check_cwd [of g "rp_note_present rp" "rp_note_sent rp" g n s0] b0 c by simp
  have t1: "s_turn s1 = None"
    using c by (auto simp: check_cwd_binding_def add_handover_note_def s0_def sup_proj split: if_splits)
  have h: "held rep g (first_state y)" "s_turn (first_state y) = None" if "braked g y" "s_turn y = None" for y
    using that assms(1) by (auto intro!: held_idle simp: first_state_def Let_def brake_simps sup_proj)
  have o: "held rep g (handle_orphan q r y)" if "held rep g y" "s_turn y = None" for r y
    using that
    by (cases q; intro held_idle) (simp_all add: held_def handle_orphan_def Let_def brake_simps sup_proj)
  show ?thesis
  proof (cases x)
    case None
    then show ?thesis
      using assms(2) b1 t1 h o
      by (cases t) (auto simp: boot_def r c [unfolded s0_def] Let_def brake_simps sup_proj)
  next
    case (Some z)
    then show ?thesis
      using assms b1 t1 by (auto simp: boot_def r c [unfolded s0_def] intro: held_idle)
  qed
qed

lemma stop_held: "held rep g s \<Longrightarrow> held rep g (stop_run pid s)"
  by (intro held_idle) (simp_all add: held_def stop_run_def brake_simps sup_proj)

lemma step_held: "sup_step rep ts (g, s) (g', s') \<Longrightarrow> held rep g s \<Longrightarrow> held rep g' s'"
proof (induction "(g, s)" "(g', s')" rule: sup_step.induct)
  case (other es w r fx)
  then show ?case by (auto simp: held_def routine_flight_def brake_simps sup_proj)
qed (auto intro: run_work_held run_collect_held process_controls_held stop_held boot_held)

lemma steps_held:
  assumes "(sup_step rep ts)\<^sup>*\<^sup>* (g0, first_run cwd) (g, s)" and "0 < g_burst g0"
  shows "held rep g s"
  using assms(1)
proof (induction rule: rtranclp_induct2)
  case refl
  show ?case using assms(2) by (simp add: held_idle first_run_def braked_def init_mem_def)
next
  case (step g1 s1 g2 s2)
  then show ?case using step_held by blast
qed

end
