(* ===== verification/SupProps.thy ===== *)
theory SupProps
  imports SupBrake
begin

text \<open>
  What holds of a supervisor over its whole life: a restart after regular moves loses nothing but
  counters of single messages, only a control's routine runs against the brake, enough failures
  in a row trip it, and controls act only when an audited request of an authorized caller asks
  for them. The observations at the end show why the regular moves exclude what they do.
\<close>

section \<open>Restarts\<close>


section \<open>The brake\<close>

text \<open>
  C23: Over every move of a supervisor, whatever it is handed in (appends to the journal are taken
  to succeed), and over restarts with any limit: while the brake is not tripped, fewer failures than its limit have come in a row; and a
  turn in flight while it is tripped is the \<open>feierabend\<close> or \<open>standup\<close> routine of a control, never a
  message's.
\<close>

theorem turns_respect_brake:
  assumes "(sup_step rep ts)\<^sup>*\<^sup>* (g0, first_run cwd) (g, s)" and "0 < g_burst g0"
  shows "(m_tripped (s_mem s) = PNone \<longrightarrow> m_brake (s_mem s) < g_burst g) \<and>
     (\<forall>t. s_turn s = Some t \<longrightarrow> m_tripped (s_mem s) \<noteq> PNone \<longrightarrow>
        (\<exists>c. fl_work t = routine_work rep c \<and> c_verb c \<in> {u ''feierabend'', u ''standup''}))"
  using steps_held [OF assms] by (simp add: held_def braked_def routine_flight_def)

text \<open>
  A turn that is launched, with the number of rejections it shows, and collected: the status,
  the output and the attempt file as read.
\<close>

record failure =
  fa_moment :: moment
  fa_replies :: replies
  fa_shown :: "int option"
  fa_work :: work
  fa_attempt :: pystr
  fa_rc :: int
  fa_read :: "exn + pystr"
  fa_meta :: "exn + pystr"

definition failed_turn :: "sup_cfg \<Rightarrow> failure \<Rightarrow> sup \<Rightarrow> sup" where
  "failed_turn g f s =
     (let s1 = snd (start_turn g (fa_moment f) (fa_replies f) (Launched (fa_shown f)) (fa_work f) (fa_attempt f) s) in
      case s_turn s1 of
        None \<Rightarrow> s1
      | Some t \<Rightarrow> run_collect g (fa_moment f) (fa_replies f) (fa_rc f) (fa_read f) (fa_meta f) t s1)"

text \<open>
  The results that count as a provider failure: an output that cannot be read; the second loss of
  the session for one message; any status but 0 and the launcher's 69, 75 and 78, unless the output
  names a known session problem or the turn's intents closed its task.
\<close>

definition is_failure :: "sup_cfg \<Rightarrow> failure \<Rightarrow> sup \<Rightarrow> bool" where
  "is_failure g f s =
     (let fresh = fst (begin_turn g (fa_moment f) (fa_work f) (fa_attempt f) s);
          lost = (\<not> fresh \<and> mentions (lower (fst (read_turn_output (fa_read f)))) ''no conversation found'');
          used = (fresh \<and> mentions (lower (fst (read_turn_output (fa_read f)))) ''already in use'');
          rc = (if closed_by_intents (fa_replies f) (fa_work f) then 0 else fa_rc f) in
      \<not> transcript_raises (fa_replies f) (fst (read_turn_output (fa_read f))) \<and>
      (snd (read_turn_output (fa_read f)) \<noteq> None \<or>
       rc \<noteq> 0 \<and> lost \<and> 1 \<le> count_of (m_losses (s_mem s)) (w_id (fa_work f)) \<or>
       rc \<notin> {0, 69, 75, 78} \<and> \<not> lost \<and> \<not> used))"

fun failing_run :: "sup_cfg \<Rightarrow> failure list \<Rightarrow> sup \<Rightarrow> bool" where
  "failing_run g [] s = True"
| "failing_run g (f # fs) s = (is_failure g f s \<and> failing_run g fs (failed_turn g f s))"

text \<open>What a counted failure leaves, from a brake of \<open>b\<close>.\<close>

definition struck :: "sup_cfg \<Rightarrow> pystr \<Rightarrow> int \<Rightarrow> sup \<Rightarrow> bool" where
  "struck g now b s = (m_brake (s_mem s) = b + 1 \<and> (g_burst g \<le> b + 1 \<longrightarrow>
     m_tripped (s_mem s) = PStr now \<and> s_retry s = Never \<and> s_state s = (''FAILED'', ''brake'')))"

lemma struck_logs [simp]: "struck g now b (logs es s) = struck g now b s"
  by (simp add: struck_def sup_proj)

lemma finish_failed_struck: "struck g (n_ts n) (m_brake (s_mem s)) (finish_failed g n rp rc w a refusal s)"
  by (simp add: struck_def finish_failed_def Let_def sup_proj fail_brake_def park_def split: option.split)

lemma persistence_lost_struck: "struck g (n_ts n) (m_brake (s_mem s)) (persistence_lost g n rc w a s)"
proof -
  have "m_brake (s_mem (persistence_recorded g n rc w a s)) = m_brake (s_mem s) + 1"
    "g_burst g \<le> m_brake (s_mem s) + 1 \<Longrightarrow> m_tripped (s_mem (persistence_recorded g n rc w a s)) = PStr (n_ts n)"
    by (simp_all add: persistence_recorded_def Let_def persistence_counted_def sup_proj unbind_def)
  then show ?thesis
    by (auto simp: struck_def persistence_lost_def Let_def sup_proj fail_brake_def park_def split: option.split)
qed

lemma finish_class_struck:
  assumes "refusal \<noteq> None \<or>
      rc \<noteq> 0 \<and> (\<not> fresh \<and> mentions (lower out) ''no conversation found'') \<and> 1 \<le> count_of (m_losses (s_mem s)) (w_id w) \<or>
      rc \<notin> {0, 69, 75, 78} \<and> \<not> (\<not> fresh \<and> mentions (lower out) ''no conversation found'') \<and>
        \<not> (fresh \<and> mentions (lower out) ''already in use'')"
  shows "\<exists>s'. finish_class g n rp rc out h w fresh a refusal s = (None, s') \<and> struck g (n_ts n) (m_brake (s_mem s)) s'"
  using assms
proof (elim disjE)
  assume "rc \<noteq> 0 \<and> (\<not> fresh \<and> mentions (lower out) ''no conversation found'') \<and> 1 \<le> count_of (m_losses (s_mem s)) (w_id w)"
  then show ?thesis
    using finish_failed_struck [of g n s rp rc w a refusal]
      persistence_lost_struck [of g n "mem (\<lambda>m. m\<lparr>m_losses := bump (w_id w) (m_losses m)\<rparr>) s" rc w a]
    by (cases refusal) (simp_all add: finish_class_def Let_def session_lost_def mem_proj)
qed (use finish_failed_struck [of g n s rp rc w a refusal] in \<open>cases refusal; auto simp: finish_class_def Let_def\<close>)+

lemma begin_turn_counts:
  "m_brake (s_mem (snd (begin_turn g n w a s))) = m_brake (s_mem s)"
  "m_losses (s_mem (snd (begin_turn g n w a s))) = m_losses (s_mem s)"
  by (simp_all add: begin_turn_def Let_def sup_proj)

lemma failed_turn_struck:
  assumes "is_failure g f s"
  shows "struck g (n_ts (fa_moment f)) (m_brake (s_mem s)) (failed_turn g f s)"
proof -
  let ?n = "fa_moment f" and ?rp = "fa_replies f" and ?w = "fa_work f" and ?a = "fa_attempt f"
  obtain fresh s0 where b: "begin_turn g ?n ?w ?a s = (fresh, s0)" by fastforce
  obtain out refusal where o: "read_turn_output (fa_read f) = (out, refusal)" by fastforce
  define s1 where "s1 = (case fa_shown f of None \<Rightarrow> s0
      | Some k \<Rightarrow> log ''rejections.preambled'' [(u ''through_seq'', PInt k), (u ''msg_id'', PStr (w_id ?w))] s0)"
  obtain w1 s2 where r: "record_turn_attempt (fa_meta f) ?w ?a (s1\<lparr>s_turn := None\<rparr>) = (w1, s2)" by fastforce
  have w1: "w_id w1 = w_id ?w" "closed_by_intents ?rp w1 = closed_by_intents ?rp ?w"
    using r by (cases ?w; auto simp: record_turn_attempt_def Let_def set_broker_def closed_by_intents_def)+
  have "s_mem s2 = s_mem s0"
    using r by (auto simp: record_turn_attempt_def Let_def sup_proj s1_def split: option.splits)
  then have m: "m_brake (s_mem s2) = m_brake (s_mem s)" "m_losses (s_mem s2) = m_losses (s_mem s)"
    using begin_turn_counts [of g ?n ?w ?a s] by (simp_all add: b)
  have fin: "\<exists>s'. finish_result g ?n ?rp (fa_rc f) out w1 fresh ?a refusal s2 = (None, s') \<and>
      struck g (n_ts ?n) (m_brake (s_mem s)) s'"
  proof -
    let ?s3 = "if w_task w1 \<noteq> None then logs (rp_intent_log ?rp) s2 else s2"
    let ?closed = "closed_by_intents ?rp w1"
    let ?rc = "if ?closed then 0 else fa_rc f" and ?out = "if ?closed \<and> out = [] then u ''task intent applied'' else out"
    have m3: "m_brake (s_mem ?s3) = m_brake (s_mem s)" "m_losses (s_mem ?s3) = m_losses (s_mem s)" by (simp_all add: m sup_proj)
    have t: "\<not> transcript_raises ?rp out" using assms by (simp add: is_failure_def Let_def o)
    have "refusal \<noteq> None \<or>
      ?rc \<noteq> 0 \<and> (\<not> fresh \<and> mentions (lower ?out) ''no conversation found'') \<and> 1 \<le> count_of (m_losses (s_mem ?s3)) (w_id w1) \<or>
      ?rc \<notin> {0, 69, 75, 78} \<and> \<not> (\<not> fresh \<and> mentions (lower ?out) ''no conversation found'') \<and>
        \<not> (fresh \<and> mentions (lower ?out) ''already in use'')"
      using assms unfolding m3 w1 is_failure_def Let_def b o fst_conv snd_conv
      by (cases "closed_by_intents ?rp ?w") simp_all
    from finish_class_struck [OF this, of g ?n ?rp "w_task w1 \<noteq> None \<and> rp_handled ?rp" ?a]
    show ?thesis unfolding finish_result_def Let_def m3 using t by simp
  qed
  then show ?thesis
    by (auto simp: failed_turn_def start_turn_def b s1_def [symmetric] run_collect_def collect_turn_def finish_attempt_def o r)
qed

text \<open>
  C22: Failing turns trip the brake, tasks' turns included: an output that cannot be read, the
  second loss of a message's session, or a status other than 0, 69, 75 and 78 (unless the output names a
  session problem or the intents closed the task) each count one, and as soon as the failures in a
  row reach the limit, the supervisor is FAILED, is never due again and its main loop starts no
  turn. Routines that controls ask for are still started.
\<close>

theorem failures_trip_the_brake:
  assumes "failing_run g fs s" and "fs \<noteq> []" and "g_burst g \<le> m_brake (s_mem s) + int (length fs)"
    and "s' = fold (failed_turn g) fs s"
  shows "m_brake (s_mem s') = m_brake (s_mem s) + int (length fs) \<and> s_state s' = (''FAILED'', ''brake'') \<and>
     s_retry s' = Never \<and> m_tripped (s_mem s') = PStr (n_ts (fa_moment (last fs))) \<and> (\<forall>n. \<not> may_start n s')"
proof -
  have "struck g (n_ts (fa_moment (last fs))) (m_brake (s_mem s) + int (length fs) - 1) (fold (failed_turn g) fs s)"
    using assms(1,2)
  proof (induction fs arbitrary: s)
    case (Cons f fs)
    have f: "struck g (n_ts (fa_moment f)) (m_brake (s_mem s)) (failed_turn g f s)"
      using Cons.prems(1) failed_turn_struck by simp
    show ?case
      using Cons.IH [of "failed_turn g f s"] Cons.prems(1) f
      by (cases "fs = []") (simp_all add: struck_def algebra_simps)
  qed simp
  then show ?thesis using assms(3,4) by (simp add: struck_def may_start_def)
qed

section \<open>Controls\<close>






section \<open>Witnesses\<close>

definition smp_cfg :: sup_cfg where
  "smp_cfg = \<lparr>g_uid = u ''a-b'', g_burst = 2, g_cap = 600, g_base = 10, g_infra_min = 5, g_infra_max = 120, g_blocked_after = 600\<rparr>"

definition smp_now :: moment where
  "smp_now = \<lparr>n_now = 1, n_ts = u ''t'', n_sid = u ''sid'', n_draw = 0, n_wid = u ''w''\<rparr>"

definition smp_replies :: replies where
  "smp_replies = \<lparr>rp_handled = False, rp_intent_log = [], rp_state = [], rp_retry_pending = False, rp_state_ok = [],
     rp_missing_log = [], rp_state_failed = None, rp_fail_log = [], rp_note_present = False, rp_note_sent = True, rp_close_log = [],
     rp_transcript = True\<rparr>"

definition smp_work :: work where
  "smp_work = Work (u ''m1'') False None None False None None None False"

definition smp_boot :: sup where
  "smp_boot = snd (boot (\<lambda>_. []) (\<lambda>_. u ''t'') smp_cfg smp_now smp_replies Orphan_stop (u ''/w'') 7 False (first_run []))"

definition smp_working :: sup where
  "smp_working = run_work smp_cfg smp_now smp_replies (Launched None) 200 smp_work (u ''a1'') smp_boot"




definition smp_failure :: failure where
  "smp_failure = \<lparr>fa_moment = smp_now, fa_replies = smp_replies, fa_shown = None, fa_work = smp_work, fa_attempt = u ''a1'',
     fa_rc = 1, fa_read = Inr (u ''boom''), fa_meta = Inl OSError\<rparr>"

definition smp_unread :: failure where
  "smp_unread = smp_failure\<lparr>fa_work := Work (u ''m2'') False None None False None None
     (Some \<lparr>tr_task = u ''t1'', tr_run = u ''r1'', tr_owner = u ''o'', tr_attempt = None\<rparr>) False, fa_rc := 0, fa_read := Inl OSError\<rparr>"

theorem failures_trip_the_brake_witness:
  "m_tripped (s_mem (fold (failed_turn smp_cfg) [smp_failure, smp_unread] (first_run []))) = PStr (u ''t'')"
proof -
  have "failing_run smp_cfg [smp_failure, smp_unread] (first_run [])" by code_simp
  moreover have "g_burst smp_cfg \<le> m_brake (s_mem (first_run [])) + int (length [smp_failure, smp_unread])"
    by (simp add: smp_cfg_def first_run_def init_mem_def)
  ultimately show ?thesis
    using failures_trip_the_brake [of smp_cfg "[smp_failure, smp_unread]" "first_run []"]
    by (simp add: smp_unread_def smp_failure_def smp_now_def)
qed

definition smp_ctl :: ctl_cfg where
  "smp_ctl = \<lparr>cc_agents = [], cc_protected = PStr [], cc_roles = No_file\<rparr>"



text \<open>
  A life that ends in a routine against the tripped brake: two failing turns, then a request of
  the audit log.
\<close>

definition smp_later :: moment where
  "smp_later = smp_now\<lparr>n_now := 100\<rparr>"

definition smp_once :: sup where
  "smp_once = run_collect smp_cfg smp_now smp_replies 1 (Inr (u ''boom'')) (Inl OSError) (the (s_turn smp_working)) smp_working"

definition smp_again :: sup where
  "smp_again = run_work smp_cfg smp_later smp_replies (Launched None) 200 smp_work (u ''a2'') smp_once"

definition smp_twice :: sup where
  "smp_twice = run_collect smp_cfg smp_later smp_replies 1 (Inr (u ''boom'')) (Inl OSError) (the (s_turn smp_again)) smp_again"

definition smp_audit_log :: pystr where
  "smp_audit_log = dumps (PDict [(u ''seq'', PInt 1), (u ''event'', PStr (u ''ctl.requested'')), (u ''target'', PStr (u ''a-b'')),
     (u ''verb'', PStr (u ''feierabend'')), (u ''caller'', PStr (u ''human:x''))]) @ [10]"

definition smp_leave :: ctl_file where
  "smp_leave = \<lparr>cf_name = u ''a-b.1.feierabend'', cf_owner = Some (1000, Some (Cmd_done 0 (u ''human:x'')), None)\<rparr>"

definition smp_leaving :: "exn option \<times> outcome \<times> sup" where
  "smp_leaving = process_controls (\<lambda>_. []) smp_cfg smp_ctl (Some smp_audit_log) smp_later smp_replies (Killed (Inr []))
     (Launched None) (u ''a3'') (Some [smp_leave]) smp_twice"

lemma smp_life: "(sup_step (\<lambda>_. []) (\<lambda>_. u ''t''))\<^sup>*\<^sup>* (smp_cfg, first_run []) (smp_cfg, snd (snd smp_leaving))"
proof -
  let ?S = "sup_step (\<lambda>_. []) (\<lambda>_. u ''t'')"
  have b: "0 < g_burst smp_cfg" by (simp add: smp_cfg_def)
  have run: "running smp_boot" "running smp_working" "running smp_once" "running smp_again" "running smp_twice"
    and may: "may_start smp_now smp_boot" "may_start smp_later smp_once"
    and turn: "s_turn smp_working \<noteq> None" "s_turn smp_again \<noteq> None" by code_simp+
  obtain e q x where l: "smp_leaving = (e, q, x)" by (metis prod_cases3)
  have one: "?S p q \<Longrightarrow> ?S\<^sup>*\<^sup>* p q" for p q by (rule r_into_rtranclp)
  have "?S\<^sup>*\<^sup>* (smp_cfg, first_run []) (smp_cfg, smp_boot)"
    by (rule one, rule reboot [OF b]) (simp add: smp_boot_def prod_eq_iff)
  also have "?S\<^sup>*\<^sup>* (smp_cfg, smp_boot) (smp_cfg, smp_working)"
    unfolding smp_working_def by (rule one, rule start [OF run(1) may(1)])
  also have "?S\<^sup>*\<^sup>* (smp_cfg, smp_working) (smp_cfg, smp_once)"
    using turn(1) unfolding smp_once_def by (intro one collect [OF run(2)]) auto
  also have "?S\<^sup>*\<^sup>* (smp_cfg, smp_once) (smp_cfg, smp_again)"
    unfolding smp_again_def by (rule one, rule start [OF run(3) may(2)])
  also have "?S\<^sup>*\<^sup>* (smp_cfg, smp_again) (smp_cfg, smp_twice)"
    using turn(2) unfolding smp_twice_def by (intro one collect [OF run(4)]) auto
  also have "?S\<^sup>*\<^sup>* (smp_cfg, smp_twice) (smp_cfg, snd (snd smp_leaving))"
    using controls [OF run(5) l [unfolded smp_leaving_def]] by (simp add: l one)
  finally show ?thesis .
qed

theorem turns_respect_brake_witness:
  "\<exists>t c. s_turn (snd (snd smp_leaving)) = Some t \<and> m_tripped (s_mem (snd (snd smp_leaving))) \<noteq> PNone \<and>
     fl_work t = routine_work (\<lambda>_. []) c"
proof -
  have b: "0 < g_burst smp_cfg" by (simp add: smp_cfg_def)
  have "s_turn (snd (snd smp_leaving)) \<noteq> None" "m_tripped (s_mem (snd (snd smp_leaving))) \<noteq> PNone" by code_simp+
  with turns_respect_brake [OF smp_life b] show ?thesis by blast
qed

section \<open>Observations\<close>

text \<open>
  A file of the control directory whose number is a superscript digit raises \<open>ValueError\<close> while
  the files are sorted; only \<open>OSError\<close> is handled there.
\<close>

lemma superscript_control_ends_supervisor:
  "\<exists>x. process_controls rep smp_cfg c file n rp cr l attempt
     (Some [\<lparr>cf_name = u ''a-b.'' @ [178] @ u ''.x'', cf_owner = None\<rparr>]) s = (Some (ValueError x), Go_on, s)"
proof -
  have "\<exists>x. ctl_candidates (u ''a-b'') [\<lparr>cf_name = u ''a-b.'' @ [178] @ u ''.x'', cf_owner = None\<rparr>] = Inl (ValueError x)"
  proof -
    have "case ctl_candidates (u ''a-b'') [\<lparr>cf_name = u ''a-b.'' @ [178] @ u ''.x'', cf_owner = None\<rparr>] of
        Inl (ValueError x) \<Rightarrow> True | _ \<Rightarrow> False" by code_simp
    then show ?thesis by (auto split: sum.splits exn.splits)
  qed
  then show ?thesis by (auto simp: process_controls_def smp_cfg_def)
qed

text \<open>
  A tripped brake that a successful routine clears is tripped again by the next start: the
  journal's \<open>tripped_at: null\<close> does not reset what an earlier record set.
\<close>

definition smp_tripped :: sup where
  "smp_tripped = fold (failed_turn smp_cfg) [smp_failure, smp_failure] smp_boot"

definition smp_routine :: sup where
  "smp_routine = (let s1 = snd (begin_control_routine (\<lambda>_. []) smp_cfg smp_now smp_replies (Launched None) (u ''a2'')
        \<lparr>c_seq = PInt 1, c_verb = u ''feierabend''\<rparr> smp_tripped) in
     case s_turn s1 of None \<Rightarrow> s1
     | Some t \<Rightarrow> run_collect smp_cfg smp_now smp_replies 0 (Inr (u ''done'')) (Inl OSError) t s1)"

lemma cleared_brake_returns:
  "m_tripped (s_mem smp_routine) = PNone"
  "m_tripped (fst (restore (\<lambda>_. []) 2 (u ''t'') (records_of (\<lambda>_. u ''t'') (s_log smp_routine)) init_mem)) \<noteq> PNone"
  by code_simp+

text \<open>
  Cancelling a turn whose output cannot be read journals a provider failure that the live
  counters do not know: after a restart the message has one failure more.
\<close>

lemma cancelled_turn_counts_only_after_restart:
  "count_of (m_failures (s_mem (cancelled smp_work (u ''a1'') (Some ''unsafe_turn_output'') smp_working))) (u ''m1'') = 0"
  "count_of (m_failures (fst (restore (\<lambda>_. []) 2 (u ''t'')
     (records_of (\<lambda>_. u ''t'') (s_log (cancelled smp_work (u ''a1'') (Some ''unsafe_turn_output'') smp_working))) init_mem))) (u ''m1'') = 1"
  by code_simp+

text \<open>
  An exception between the journaled start of a turn and its launch leaves the turn open in the
  journal, with none in flight: a restart would take it for an orphan.
\<close>

lemma raised_start_leaves_turn_open:
  "let s = run_work smp_cfg smp_now smp_replies (Launch_raised OSError) 200 smp_work (u ''a1'') smp_boot in
     running s \<and> s_turn s = None \<and>
     snd (restore (\<lambda>_. []) 2 (u ''t'') (records_of (\<lambda>_. u ''t'') (s_log s)) init_mem) \<noteq> None"
  by code_simp

end
