(* ===== verification/SupDesk.thy ===== *)
theory SupDesk
  imports SupMemory TaskIntent LedgerRegistry Complex_Main
begin

text \<open>
  What the operations of \<open>lib/aib_supervisor.py\<close> on messages, intents and reports share: the
  journal as the list of its records, the sequence of everything done to the outside world, and
  a small monad of state and exceptions. The outside world (the task and message commands, the
  worker's directory, the outbox, the clock) answers by functions of all that was done before,
  so every behaviour of it, a hostile worker included, is an instance.
\<close>

section \<open>State\<close>

datatype call =
    Task_cmd "pystr list"
  | Message_cmd "pystr list"
  | Helper pystr
  | Worktree pystr
  | Run "pystr list" "pystr list option"
  | Look pystr
  | Unlink pystr
  | Rmdir pystr
  | Store pystr bytes
  | Check_ref pystr pystr
  | Outbox pystr bytes
  | Notify pystr
  | Clock
  | Fresh

text \<open>A remembered refusal is found by attempt or by the digest and the length of a file name.\<close>

datatype taint_key = By_attempt pystr | By_name pyval pyval

record desk =
  d_records :: "pydict list"
  d_calls :: "call list"
  d_index :: "taint_key list option"
  d_cursor :: pystr

text \<open>The private directories of the worker: absent, not as they must be, or open.\<close>

datatype dirs = No_dirs | Bad_dirs pystr | Dirs private_dir

text \<open>The entries of a quarantine directory by number and total size, where it is the supervisor's own.\<close>

datatype quarantine_dir = Bad_store | Quarantine nat nat

record node =
  nd_regular :: bool
  nd_directory :: bool
  nd_inode :: int

record env =
  e_uid :: pystr
  e_team :: pystr
  e_project :: pystr
  e_registry :: pydict
  e_role :: "nat \<times> nat"
  e_poll :: rat
  e_base_branch :: pystr
  e_str :: "pyval \<Rightarrow> pystr"
  e_when :: "pystr \<Rightarrow> rat option"
  e_iso :: "rat \<Rightarrow> pystr"
  e_stamp :: "nat \<Rightarrow> pystr"
  e_now :: "call list \<Rightarrow> rat"
  e_uuid :: "call list \<Rightarrow> pystr"
  e_task :: "call list \<Rightarrow> pystr list \<Rightarrow> int \<times> pystr"
  e_message :: "call list \<Rightarrow> pystr list \<Rightarrow> int \<times> pystr"
  e_dirs :: "call list \<Rightarrow> dirs"
  e_nodes :: "call list \<Rightarrow> (pystr \<times> node option) list"
  e_quarantine :: "call list \<Rightarrow> quarantine_dir"
  e_saved :: "call list \<Rightarrow> bool"
  e_outbox :: "call list \<Rightarrow> bool"
  e_ref :: "call list \<Rightarrow> exn + bool"

section \<open>The monad\<close>

type_synonym 'a act = "desk \<Rightarrow> (exn + 'a) \<times> desk"

definition ret :: "'a \<Rightarrow> 'a act" where
  "ret x d = (Inr x, d)"

definition lift :: "exn + 'a \<Rightarrow> 'a act" where
  "lift r d = (r, d)"

definition bnd :: "'a act \<Rightarrow> ('a \<Rightarrow> 'b act) \<Rightarrow> 'b act" where
  "bnd m f d = (case m d of (Inl e, d') \<Rightarrow> (Inl e, d') | (Inr x, d') \<Rightarrow> f x d')"

definition sq :: "unit act \<Rightarrow> 'b act \<Rightarrow> 'b act" where
  "sq m k = bnd m (\<lambda>_. k)"

definition catch :: "'a act \<Rightarrow> (exn \<Rightarrow> 'a act) \<Rightarrow> 'a act" where
  "catch m h d = (case m d of (Inl e, d') \<Rightarrow> h e d' | (Inr x, d') \<Rightarrow> (Inr x, d'))"

definition look_at :: "(desk \<Rightarrow> 'a) \<Rightarrow> 'a act" where
  "look_at f d = (Inr (f d), d)"

definition ask :: "(call list \<Rightarrow> 'a) \<Rightarrow> call \<Rightarrow> 'a act" where
  "ask f c d = (Inr (f (d_calls d)), d\<lparr>d_calls := d_calls d @ [c]\<rparr>)"

definition tell :: "call \<Rightarrow> unit act" where
  "tell c = ask (\<lambda>_. ()) c"

fun each :: "('x \<Rightarrow> unit act) \<Rightarrow> 'x list \<Rightarrow> unit act" where
  "each f [] = ret ()"
| "each f (x # xs) = sq (f x) (each f xs)"

definition when_do :: "bool \<Rightarrow> unit act \<Rightarrow> unit act" where
  "when_do b m = (if b then m else ret ())"

text \<open>\<open>journal\<close>: the record gets the next number and the time; writing it is taken to succeed.\<close>

definition jot :: "env \<Rightarrow> string \<Rightarrow> pydict \<Rightarrow> unit act" where
  "jot env event fs d = (Inr (), d\<lparr>d_records := d_records d @
     [numbered (int (length (d_records d)) + 1) (e_stamp env (length (d_records d))) (u event) fs]\<rparr>)"

section \<open>Reading the journal\<close>

definition is_event :: "string \<Rightarrow> pydict \<Rightarrow> bool" where
  "is_event event r = (dget r ''event'' = PStr (u event))"

definition record_exists :: "(pydict \<Rightarrow> bool) \<Rightarrow> bool act" where
  "record_exists P = look_at (\<lambda>d. list_ex P (d_records d))"

definition record_count :: "(pydict \<Rightarrow> bool) \<Rightarrow> int act" where
  "record_count P = look_at (\<lambda>d. int (length (filter P (d_records d))))"

definition latest :: "(pydict \<Rightarrow> bool) \<Rightarrow> pydict option act" where
  "latest P = look_at (\<lambda>d. find P (rev (d_records d)))"

section \<open>The commands\<close>

text \<open>\<open>run_helper\<close> gives the status (124 for one that timed out or could not start) and the output.\<close>

definition task_command :: "env \<Rightarrow> pystr list \<Rightarrow> (int \<times> pystr) act" where
  "task_command env argv = ask (\<lambda>h. e_task env h argv) (Task_cmd argv)"

definition message_command :: "env \<Rightarrow> pystr list \<Rightarrow> (int \<times> pystr) act" where
  "message_command env argv = ask (\<lambda>h. e_message env h argv) (Message_cmd argv)"

definition json_decode_error :: exn where
  "json_decode_error = ValueError (u ''json'')"

definition task_show :: "env \<Rightarrow> pystr \<Rightarrow> pydict option act" where
  "task_show env ident = bnd (task_command env [u ''show'', u ''--project'', e_project env, ident]) (\<lambda>(rc, out).
     if rc \<noteq> 0 then ret None
     else case json_loads dict_hook out of
         Inl e \<Rightarrow> if e = json_decode_error then ret None else lift (Inl e)
       | Inr (PDict t) \<Rightarrow> ret (Some t)
       | Inr _ \<Rightarrow> ret None)"

text \<open>\<open>d[k]\<close> and \<open>str(d[k])\<close>.\<close>

definition field :: "pydict \<Rightarrow> string \<Rightarrow> pyval act" where
  "field t k = lift (item (PDict t) k)"

definition str_field :: "env \<Rightarrow> pydict \<Rightarrow> string \<Rightarrow> pystr act" where
  "str_field env t k = bnd (field t k) (\<lambda>v. ret (py_str (e_str env) v))"

datatype event_args =
    Report pystr "pystr option" "pystr option"
  | Cancel "pystr option"
  | Reject pystr pystr
  | Start

definition command_name :: "event_args \<Rightarrow> string" where
  "command_name a = (case a of Report _ _ _ \<Rightarrow> ''report'' | Cancel _ \<Rightarrow> ''cancel'' | Reject _ _ \<Rightarrow> ''reject'' | Start \<Rightarrow> ''start'')"

definition opt_arg :: "string \<Rightarrow> pystr option \<Rightarrow> pystr list" where
  "opt_arg name v = (case v of None \<Rightarrow> [] | Some s \<Rightarrow> [u name @ s])"

definition event_tail :: "event_args \<Rightarrow> pystr list" where
  "event_tail a = (case a of
       Report state ref reason \<Rightarrow> [u ''--state'', state] @ opt_arg ''--result-ref='' ref @ opt_arg ''--reason='' reason
     | Cancel reason \<Rightarrow> opt_arg ''--reason='' reason
     | Reject requested reason \<Rightarrow> [u ''--requested-type='' @ requested, u ''--reason='' @ reason]
     | Start \<Rightarrow> [])"

definition event_argv ::
  "env \<Rightarrow> event_args \<Rightarrow> pystr \<Rightarrow> pystr option \<Rightarrow> pystr \<Rightarrow> string \<Rightarrow> pystr \<Rightarrow> pystr option \<Rightarrow> pystr list" where
  "event_argv env a run_id ident causation actor_type actor_id via =
     [u (command_name a), u ''--project'', e_project env, u ''--team'', e_team env, u ''--actor-type'', u actor_type,
      u ''--actor-id'', actor_id, u ''--causation-id'', causation, u ''--run-id'', run_id] @
     (case ident of None \<Rightarrow> [] | Some i \<Rightarrow> [u ''--task-id'', i]) @ opt_arg ''--via='' via @ event_tail a"

definition task_event ::
  "env \<Rightarrow> event_args \<Rightarrow> pydict \<Rightarrow> pystr \<Rightarrow> string \<Rightarrow> pystr \<Rightarrow> pystr option \<Rightarrow> int act" where
  "task_event env a task causation actor_type actor_id via =
     bnd (str_field env task ''run_id'') (\<lambda>run_id.
     bnd (task_command env (event_argv env a run_id
         (if dget task ''task_id'' = PNone then None else Some (py_str (e_str env) (dget task ''task_id'')))
         causation actor_type actor_id via)) (\<lambda>(rc, out). ret rc))"

definition supervisor_actor :: "env \<Rightarrow> pystr" where
  "supervisor_actor env = u ''supervisor:'' @ e_uid env"

section \<open>The registry\<close>

definition first_lead :: "env \<Rightarrow> exn + pyval" where
  "first_lead env = (case dget_or (e_registry env) ''agents'' (PDict []) of
       PDict agents \<Rightarrow> Inr (case find (\<lambda>(uid, a). is_lead_of (e_team env) a) agents of
           None \<Rightarrow> PNone | Some (uid, _) \<Rightarrow> PStr uid)
     | _ \<Rightarrow> Inl AttributeError)"

definition project_entry :: "env \<Rightarrow> exn + pyval" where
  "project_entry env = (case dget_or (e_registry env) ''projects'' (PDict []) of
       PDict ps \<Rightarrow> Inr (case map_of ps (e_project env) of None \<Rightarrow> PDict [] | Some p \<Rightarrow> p)
     | _ \<Rightarrow> Inl AttributeError)"

definition task_relay :: "env \<Rightarrow> exn + pystr" where
  "task_relay env = bind_res (project_entry env) (\<lambda>p. case p of
       PDict d \<Rightarrow> Inr (py_str (e_str env) (dget_or d ''task_relay'' (PStr (u ''aib-task-relay''))))
     | _ \<Rightarrow> Inl AttributeError)"

section \<open>Texts\<close>

text \<open>\<open>s.replace(old, new)\<close> of a pattern that is not empty.\<close>

function replace_all :: "pystr \<Rightarrow> pystr \<Rightarrow> pystr \<Rightarrow> pystr" where
  "replace_all old new [] = []"
| "replace_all old new (c # s) =
     (if old \<noteq> [] \<and> startswith (c # s) old then new @ replace_all old new (drop (length old) (c # s))
      else c # replace_all old new s)"
  by pat_completeness auto
termination by (relation "measure (\<lambda>(old, new, s). length s)") auto

definition neutralize_task_text :: "pystr \<Rightarrow> pystr" where
  "neutralize_task_text s = replace_all (u ''[task'') (u ''(task'') s"

definition OWNER_RE :: re where
  "OWNER_RE = Alt (Seq (OneOf [Lit (u ''human''), Lit (u ''gateway'')])
      (Seq (Lit (u '':'')) (Seq (Cls ALNUM) (Star (Cls (ALNUM @ [(95, 95), (45, 45)])))))) UID_RE"

text \<open>The task, the run and the requester of a body that starts with a task header.\<close>

definition task_header :: "pystr \<Rightarrow> (pystr \<times> pystr \<times> pystr) option" where
  "task_header body =
     (let t = take 14 (drop 6 body); r1 = drop 20 body; r = take 14 (drop 5 r1); r2 = drop 19 r1;
          r3 = drop 11 r2; o_text = takeWhile (\<lambda>c. c \<noteq> 93) r3 in
      if startswith body (u ''[task '') \<and> fullmatch TASK_RE t \<and> startswith r1 (u '' run '') \<and> fullmatch RUN_RE r \<and>
         startswith r2 (u '' requester '') \<and> fullmatch OWNER_RE o_text \<and> o_text \<noteq> r3
      then Some (t, r, o_text) else None)"

end
