(* ===== verification/SupIntents.thy ===== *)
theory SupIntents
  imports SupDesk
begin

text \<open>
  The intents of a finished turn (\<open>lib/aib_supervisor.py\<close>): reading the worker's intent file,
  closing an attempt, refusing and quarantining files, bounded retries, alarms, reports to the
  requester, and \<open>apply_intent_file\<close>, which turns validated intents into task commands. The
  pause the test seam allows between a ledger command and its record is left out.
\<close>

section \<open>The private directories\<close>

definition open_private_dirs :: "env \<Rightarrow> pystr \<Rightarrow> dirs act" where
  "open_private_dirs env name = bnd (ask (e_dirs env) (Look name)) (\<lambda>d. ret (case d of
       Dirs p \<Rightarrow> if private_dirs_ok (fst (e_role env)) (snd (e_role env)) p then d else Bad_dirs (u ''role_mismatch'')
     | _ \<Rightarrow> d))"

definition unlink_intent :: "env \<Rightarrow> pystr \<Rightarrow> unit act" where
  "unlink_intent env name = bnd (open_private_dirs env name) (\<lambda>d. case d of Dirs p \<Rightarrow> tell (Unlink name) | _ \<Rightarrow> ret ())"

text \<open>
  \<open>_read_intent_bytes\<close>: \<open>FileNotFoundError\<close>, another \<open>OSError\<close>, \<open>IntentReadError\<close> with its evidence,
  or the content.
\<close>

datatype intent_read = Missing | Fault | Unsafe bytes | Content bytes

definition read_entry :: "private_dir \<Rightarrow> pystr \<Rightarrow> intent_read" where
  "read_entry p name = (case map_of (p_files p) name of
       None \<Rightarrow> Missing
     | Some Link \<Rightarrow> Fault
     | Some (Inode f) \<Rightarrow>
         if \<not> f_regular f \<or> f_nlink f \<noteq> 1 \<or> f_uid f \<noteq> fst (p_intents p) \<or> f_gid f \<noteq> snd (p_gids p) \<or>
            f_mode f \<noteq> 384 \<or> MAX_FILE < length (f_data f)
         then Unsafe (if f_regular f \<and> f_nlink f = 1 \<and> length (f_data f) \<le> MAX_FILE then f_data f else [])
         else Content (f_data f))"

definition read_intent :: "env \<Rightarrow> pystr \<Rightarrow> intent_read act" where
  "read_intent env name = bnd (open_private_dirs env name) (\<lambda>d. ret (case d of
       No_dirs \<Rightarrow> Missing | Bad_dirs _ \<Rightarrow> Fault | Dirs p \<Rightarrow> read_entry p name))"

definition sha_hex :: "bytes \<Rightarrow> pystr" where
  "sha_hex bs = hexdigest (sha256 bs)"

section \<open>Identities and taint\<close>

definition bad_intent_name :: "pystr \<Rightarrow> bool" where
  "bad_intent_name name = (\<not> endswith name (u ''.jsonl'') \<or> \<not> fullmatch TOKEN_RE (take (length name - 6) name))"

text \<open>\<open>name.removesuffix(".jsonl")\<close>, and \<open>encode\<close> with \<open>surrogatepass\<close>.\<close>

definition intent_stem :: "pystr \<Rightarrow> pystr" where
  "intent_stem name = (if endswith name (u ''.jsonl'') then take (length name - 6) name else name)"

definition encode_pass :: "pystr \<Rightarrow> bytes" where
  "encode_pass s = concat (map utf8_char s)"

definition intent_identity :: "pystr \<Rightarrow> bool \<Rightarrow> pydict" where
  "intent_identity name invalid =
     (if \<not> invalid \<and> fullmatch TOKEN_RE (intent_stem name) then [(u ''attempt_id'', PStr (intent_stem name))]
      else [(u ''name_sha256'', PStr (take 16 (sha_hex (encode_pass name)))), (u ''name_length'', PInt (int (length name)))])"

definition taint_key :: "pydict \<Rightarrow> taint_key" where
  "taint_key ident = (case dget ident ''attempt_id'' of PStr a \<Rightarrow> By_attempt a
     | _ \<Rightarrow> By_name (dget ident ''name_sha256'') (dget ident ''name_length''))"

definition tainted_keys :: "pydict list \<Rightarrow> taint_key list" where
  "tainted_keys rs = map taint_key (filter (is_event ''intents.tainted'') rs)"

text \<open>The index is the one passed down by a scan, or computed from the journal.\<close>

definition taint_seen :: "pydict \<Rightarrow> bool act" where
  "taint_seen ident = look_at (\<lambda>d. taint_key ident \<in> set (case d_index d of
       Some ks \<Rightarrow> ks | None \<Rightarrow> tainted_keys (d_records d)))"

definition add_index :: "taint_key \<Rightarrow> unit act" where
  "add_index k d = (Inr (), d\<lparr>d_index := map_option (\<lambda>ks. k # ks) (d_index d)\<rparr>)"

definition same_identity :: "pydict \<Rightarrow> pydict \<Rightarrow> bool" where
  "same_identity ident r = list_all (\<lambda>(k, v). case map_of r k of None \<Rightarrow> False | Some w \<Rightarrow> py_eq w v) ident"

section \<open>Alarms\<close>

definition append_outbox_line :: "env \<Rightarrow> pystr \<Rightarrow> pystr \<Rightarrow> bool act" where
  "append_outbox_line env destination line =
     bnd (lift (utf8_encode line)) (\<lambda>b. ask (e_outbox env) (Outbox destination b))"

definition SAFE_DETAIL_RE :: re where
  "SAFE_DETAIL_RE = Plus (Cls [(65, 90), (97, 122), (48, 57), (46, 46), (95, 95), (58, 58), (45, 45)])"

definition safe_detail :: "env \<Rightarrow> pystr \<times> pyval \<Rightarrow> pydict" where
  "safe_detail env kv = (case kv of (k, raw) \<Rightarrow> let v = py_str (e_str env) raw in
     if fullmatch SAFE_DETAIL_RE v \<or> (k = u ''path'' \<and> v \<in> {u ''.aib/intents'', u ''project_home''}) then [(k, PStr v)]
     else [(k @ u ''_sha256'', PStr (take 16 (sha_hex (encode_pass v)))), (k @ u ''_length'', PInt (int (length v)))])"

definition safe_alarm_details :: "env \<Rightarrow> pydict \<Rightarrow> pydict" where
  "safe_alarm_details env details = fold (\<lambda>(k, v) d. dset k v d) (concat (map (safe_detail env) details)) []"

definition first_truthy :: "pyval list \<Rightarrow> pyval" where
  "first_truthy vs = (case find truthy vs of Some v \<Rightarrow> v | None \<Rightarrow> PNone)"

definition alarm_episode :: "pyval \<Rightarrow> pydict \<Rightarrow> pyval" where
  "alarm_episode special safe = first_truthy
     [special, dget safe ''episode'', dget safe ''attempt_id'', dget safe ''task_id'', dget safe ''name_sha256'']"

definition within_hour :: "env \<Rightarrow> rat \<Rightarrow> pydict \<Rightarrow> bool" where
  "within_hour env now r = (case dget r ''ts'' of
       PStr s \<Rightarrow> (case e_when env s of Some t \<Rightarrow> now - t < 3600 | None \<Rightarrow> False) | _ \<Rightarrow> False)"

definition alarm_line :: "env \<Rightarrow> pystr \<Rightarrow> pystr \<Rightarrow> pystr \<Rightarrow> pystr \<Rightarrow> pystr" where
  "alarm_line env now ident addressee body =
     now @ u '' | id:alarm-'' @ ident @ u '' | from:'' @ e_uid env @ u '' | to:human:'' @ addressee @ u '' | state:PERSISTED | '' @ body @ [10]"

definition send_alarm_line :: "env \<Rightarrow> pystr \<Rightarrow> bool act" where
  "send_alarm_line env body = bnd (ask (e_now env) Clock) (\<lambda>now. bnd (ask (e_uuid env) Fresh) (\<lambda>i.
     append_outbox_line env (e_team env) (alarm_line env (e_iso env now) i (e_team env) body)))"

definition alarm_body :: "env \<Rightarrow> string \<Rightarrow> pydict \<Rightarrow> pystr" where
  "alarm_body env kind safe = u ''alarm:'' @ u kind @ u '' agent:'' @ e_uid env @
     concat (map (\<lambda>(k, v). u '' '' @ k @ u '':'' @ py_str (e_str env) v) safe)"

text \<open>\<open>tripped\<close> and \<open>special\<close> are what the memory gives for the kinds that have them.\<close>

definition suppress_alarm :: "env \<Rightarrow> string \<Rightarrow> rat \<Rightarrow> unit act" where
  "suppress_alarm env kind now =
     bnd (record_exists (\<lambda>r. is_event ''alarm.suppressed'' r \<and> dget r ''kind'' = PStr (u kind) \<and> within_hour env now r)) (\<lambda>told.
       if told then ret ()
       else sq (jot env ''alarm.suppressed'' [(u ''kind'', PStr (u kind)), (u ''limit'', PInt 10), (u ''window_s'', PInt 3600)])
         (bnd (send_alarm_line env (u ''alarm:alarm_suppressed agent:'' @ e_uid env @ u '' kind:'' @ u kind)) (\<lambda>sent.
           when_do sent (jot env ''alarm.suppression_notified'' [(u ''kind'', PStr (u kind))]))))"

definition send_alarm :: "env \<Rightarrow> string \<Rightarrow> pyval \<Rightarrow> pyval \<Rightarrow> pydict \<Rightarrow> unit act" where
  "send_alarm env kind tripped episode safe =
     bnd (send_alarm_line env (alarm_body env kind safe)) (\<lambda>sent.
       if \<not> sent then
         sq (jot env ''alarm.failed'' [(u ''kind'', PStr (u kind))])
           (sq (jot env ''attention'' [(u ''reason'', PStr (u ''alarm_failed'')), (u ''kind'', PStr (u kind))])
             (tell (Notify (u ''STATUS=alarm delivery failed: '' @ u kind))))
       else jot env ''alarm.sent'' (fold (\<lambda>(k, v) d. dset k v d) (safe @ (if tripped = PNone then [] else [(u ''tripped_at'', tripped)]))
         [(u ''kind'', PStr (u kind)), (u ''episode'', episode)]))"

definition write_alarm :: "env \<Rightarrow> string \<Rightarrow> pyval \<Rightarrow> pyval \<Rightarrow> pydict \<Rightarrow> unit act" where
  "write_alarm env kind tripped special details =
     (let safe = safe_alarm_details env details; episode = alarm_episode special safe in
      bnd (record_exists (\<lambda>r. is_event ''alarm.sent'' r \<and> dget r ''kind'' = PStr (u kind) \<and> py_eq (dget r ''episode'') episode \<and>
          (kind \<noteq> ''brake_tripped'' \<or> py_eq (dget r ''tripped_at'') tripped))) (\<lambda>known.
        if known then ret ()
        else bnd (ask (e_now env) Clock) (\<lambda>now.
          bnd (record_count (\<lambda>r. is_event ''alarm.sent'' r \<and> dget r ''kind'' = PStr (u kind) \<and> within_hour env now r)) (\<lambda>recent.
            if 10 \<le> recent then suppress_alarm env kind now else send_alarm env kind tripped episode safe))))"

section \<open>Quarantine\<close>

datatype alarm_level = Security | Engine | Attention

text \<open>\<open>Store\<close> holds what is handed to \<open>os.write\<close>; a short write, whose count is not looked at, would keep less.\<close>

definition save_evidence :: "env \<Rightarrow> pydict \<Rightarrow> bytes \<Rightarrow> bool act" where
  "save_evidence env ident data = bnd (ask (e_quarantine env) (Look (u ''.aib-quarantine''))) (\<lambda>q. case q of
       Bad_store \<Rightarrow> ret False
     | Quarantine n used \<Rightarrow>
         if n < 100 \<and> used + length data \<le> 10 * 1024 * 1024
         then bnd (ask (e_uuid env) Fresh) (\<lambda>i. ask (e_saved env)
           (Store (py_str (e_str env) (first_truthy [dget ident ''attempt_id'', dget ident ''name_sha256'']) @ u ''-'' @ i @ u ''.jsonl'') data))
         else ret False)"

text \<open>The evidence is kept if the quarantine has room, and the file goes in any case.\<close>

definition store_evidence :: "env \<Rightarrow> pystr \<Rightarrow> pydict \<Rightarrow> bytes option \<Rightarrow> (bytes \<times> bool) act" where
  "store_evidence env name ident evidence = bnd (open_private_dirs env name) (\<lambda>d. case d of
       Dirs p \<Rightarrow>
         (case (case evidence of
              Some b \<Rightarrow> (b, True)
            | None \<Rightarrow> (case map_of (p_files p) name of
                Some (Inode f) \<Rightarrow> (if f_regular f \<and> f_nlink f = 1 then take (MAX_FILE + 1) (f_data f) else [], True)
              | _ \<Rightarrow> ([], False))) of (data, opened) \<Rightarrow>
          bnd (if opened then save_evidence env ident data else ret False) (\<lambda>stored.
            sq (tell (Unlink name)) (ret (data, stored))))
     | _ \<Rightarrow> ret (case evidence of Some b \<Rightarrow> b | None \<Rightarrow> [], False))"

definition raise_level :: "env \<Rightarrow> alarm_level \<Rightarrow> string \<Rightarrow> pydict \<Rightarrow> unit act" where
  "raise_level env level reason ident = (case level of
       Security \<Rightarrow> write_alarm env ''intents_tainted'' PNone PNone ident
     | Engine \<Rightarrow> write_alarm env ''intent_apply_exhausted'' PNone PNone ident
     | Attention \<Rightarrow> jot env ''attention'' ((u ''reason'', PStr (u reason)) # ident))"

definition quarantine_new :: "env \<Rightarrow> pystr \<Rightarrow> string \<Rightarrow> alarm_level \<Rightarrow> bytes option \<Rightarrow> pydict \<Rightarrow> unit act" where
  "quarantine_new env name reason level evidence ident =
     bnd (store_evidence env name ident evidence) (\<lambda>(data, stored).
       sq (jot env ''intents.tainted'' ((u ''reason'', PStr (u reason)) # ident))
         (sq (add_index (taint_key ident))
           (sq (when_do (\<not> stored) (jot env ''attention'' ([(u ''reason'', PStr (u ''quarantine_capacity'')),
                (u ''size'', PInt (int (length data))), (u ''sha256'', PStr (sha_hex data))] @ ident)))
             (raise_level env level reason ident))))"

definition quarantine_intent :: "env \<Rightarrow> pystr \<Rightarrow> string \<Rightarrow> alarm_level \<Rightarrow> bytes option \<Rightarrow> unit act" where
  "quarantine_intent env name reason level evidence =
     (let ident = intent_identity name (reason = ''invalid_name'' \<or> bad_intent_name name) in
      bnd (taint_seen ident) (\<lambda>seen.
        if seen then
          sq (unlink_intent env name)
            (bnd (record_exists (\<lambda>r. is_event ''intents.tainted_replay'' r \<and> same_identity ident r)) (\<lambda>told.
              when_do (\<not> told) (jot env ''intents.tainted_replay'' ident)))
        else quarantine_new env name reason level evidence ident))"

section \<open>Retries\<close>

definition of_attempt :: "string \<Rightarrow> pystr \<Rightarrow> pydict \<Rightarrow> bool" where
  "of_attempt event attempt r = (is_event event r \<and> dget r ''attempt_id'' = PStr attempt)"

definition intent_retry :: "env \<Rightarrow> pystr \<Rightarrow> pystr \<Rightarrow> pystr \<Rightarrow> unit act" where
  "intent_retry env name attempt reason =
     bnd (record_count (of_attempt ''intent.retry'' attempt)) (\<lambda>n.
       sq (jot env ''intent.retry'' [(u ''attempt_id'', PStr attempt), (u ''n'', PInt (n + 1)), (u ''reason'', PStr reason)])
         (when_do (5 \<le> n + 1) (quarantine_intent env name ''apply_exhausted'' Engine None)))"

definition intent_retry_pending :: "pystr \<Rightarrow> bool act" where
  "intent_retry_pending attempt = bnd (record_exists (of_attempt ''intent.retry'' attempt)) (\<lambda>tried.
     bnd (record_exists (\<lambda>r. of_attempt ''intents.applied'' attempt r \<or> of_attempt ''intents.tainted'' attempt r)) (\<lambda>settled.
       ret (tried \<and> \<not> settled)))"

section \<open>Closing an attempt\<close>

definition closed_intent :: "pystr \<Rightarrow> pydict option act" where
  "closed_intent attempt = latest (of_attempt ''intents.closed'' attempt)"

definition close_intent_attempt :: "env \<Rightarrow> pystr \<Rightarrow> bool \<Rightarrow> pystr \<Rightarrow> unit act" where
  "close_intent_attempt env attempt present digest = bnd (closed_intent attempt) (\<lambda>c.
     when_do (c = None) (jot env ''intents.closed'' [(u ''attempt_id'', PStr attempt), (u ''present'', PBool present), (u ''sha256'', PStr digest)]))"

definition intent_snapshot :: "env \<Rightarrow> pystr \<Rightarrow> (bool \<times> pystr) act" where
  "intent_snapshot env attempt =
     (if \<not> fullmatch TOKEN_RE attempt then ret (False, [])
      else bnd (open_private_dirs env (intent_name attempt)) (\<lambda>d. case d of
          Dirs p \<Rightarrow>
            if map_of (p_files p) (intent_name attempt) = None then ret (False, [])
            else bnd (read_intent env (intent_name attempt)) (\<lambda>r. ret (case r of
                Content b \<Rightarrow> (True, sha_hex b) | _ \<Rightarrow> (True, [])))
        | _ \<Rightarrow> ret (False, [])))"

definition attempt_contexts :: "pydict list \<Rightarrow> (pystr, pydict) dict" where
  "attempt_contexts rs = fold (\<lambda>r d. if is_event ''turn.attempt'' r
     then (case dget r ''attempt_id'' of PStr a \<Rightarrow> dset a r d | _ \<Rightarrow> d) else d) rs []"

definition close_unclosed_attempts :: "env \<Rightarrow> unit act" where
  "close_unclosed_attempts env = bnd (look_at (\<lambda>d. attempt_contexts (d_records d))) (\<lambda>cs.
     each (\<lambda>(a, _). bnd (closed_intent a) (\<lambda>c. when_do (c = None)
       (bnd (intent_snapshot env a) (\<lambda>(present, digest). close_intent_attempt env a present digest)))) cs)"

end
