(* ===== verification/SupApply.thy ===== *)
theory SupApply
  imports SupIntents
begin

text \<open>
  Reports to the requester of a task, service reports, and \<open>apply_intent_file\<close> of
  \<open>lib/aib_supervisor.py\<close>, from the worker's bytes to the task commands, the journal and the
  messages the supervisor sends itself.
\<close>

section \<open>Messages and reports\<close>

definition persist_self_task_message :: "env \<Rightarrow> pydict \<Rightarrow> pystr \<Rightarrow> pystr \<Rightarrow> bool act" where
  "persist_self_task_message env task ident summary =
     bnd (str_field env task ''owner'') (\<lambda>requester.
       if \<not> safe_display_text summary then
         sq (jot env ''attention'' [(u ''reason'', PStr (u ''unsafe_self_message'')), (u ''message_id'', PStr ident)]) (ret False)
       else bnd (str_field env task ''task_id'') (\<lambda>i. bnd (str_field env task ''run_id'') (\<lambda>r.
         let s = neutralize_task_text summary;
             body = u ''[task '' @ i @ u '' run '' @ r @ u '' requester '' @ requester @
               u ''] continue task; previous worker summary: '' @ (if s = [] then u ''none'' else s) in
         bnd (message_command env [u ''send'', e_uid env, body, u ''--id'', ident]) (\<lambda>(rc, out).
           if rc \<noteq> 0 then sq (jot env ''attention'' [(u ''reason'', PStr (u ''self_message_failed'')), (u ''message_id'', PStr ident)]) (ret False)
           else ret True))))"

definition message_event :: "string \<Rightarrow> pystr \<Rightarrow> pydict \<Rightarrow> bool" where
  "message_event event ident r = (is_event event r \<and> dget r ''message_id'' = PStr ident)"

definition failure_alarm_line :: "env \<Rightarrow> pystr \<Rightarrow> pystr \<Rightarrow> pystr \<Rightarrow> pystr \<Rightarrow> pystr" where
  "failure_alarm_line env now i ident tid =
     now @ u '' | id:alarm-'' @ i @ u '' | from:'' @ e_uid env @ u '' | to:human:ops | state:PERSISTED | alarm:task_delivery_failed agent:'' @
     e_uid env @ u '' message_id:'' @ ident @ u '' task_id:'' @ tid @ [10]"

text \<open>The tenth failed delivery of a report is the last one.\<close>

definition give_up_report :: "env \<Rightarrow> pystr \<Rightarrow> string \<Rightarrow> pystr \<Rightarrow> int \<Rightarrow> unit act" where
  "give_up_report env ident reason tid n =
     bnd (record_exists (message_event ''report.undeliverable'' ident)) (\<lambda>known.
       if known then ret ()
       else sq (jot env ''report.undeliverable'' [(u ''message_id'', PStr ident), (u ''task_id'', PStr tid), (u ''n'', PInt n), (u ''reason'', PStr (u reason))])
         (bnd (ask (e_now env) Clock) (\<lambda>now. bnd (ask (e_uuid env) Fresh) (\<lambda>i.
           bnd (append_outbox_line env (u ''_server'') (failure_alarm_line env (e_iso env now) i ident tid)) (\<lambda>sent.
             if sent then jot env ''alarm.sent'' [(u ''kind'', PStr (u ''task_delivery_failed'')), (u ''episode'', PStr ident),
               (u ''message_id'', PStr ident), (u ''task_id'', PStr tid)]
             else sq (jot env ''alarm.failed'' [(u ''kind'', PStr (u ''task_delivery_failed''))])
               (sq (jot env ''attention'' [(u ''reason'', PStr (u ''alarm_failed'')), (u ''kind'', PStr (u ''task_delivery_failed'')), (u ''message_id'', PStr ident)])
                 (tell (Notify (u ''STATUS=alarm delivery failed: task_delivery_failed'')))))))))"

definition record_report_failure :: "env \<Rightarrow> pystr \<Rightarrow> string \<Rightarrow> pystr \<Rightarrow> unit act" where
  "record_report_failure env ident reason tid =
     bnd (latest (message_event ''report.retry'' ident)) (\<lambda>previous.
     bnd (case previous of None \<Rightarrow> ret 1 | Some r \<Rightarrow> lift (bind_res (int_of_value (dget_or r ''n'' (PInt 0))) (\<lambda>k. Inr (k + 1)))) (\<lambda>n.
       sq (when_do (case previous of None \<Rightarrow> True | Some r \<Rightarrow> dget r ''reason'' \<noteq> PStr (u reason))
            (jot env ''attention'' [(u ''reason'', PStr (u reason)), (u ''message_id'', PStr ident)]))
         (if 10 \<le> n then give_up_report env ident reason tid n
          else bnd (ask (e_now env) Clock) (\<lambda>now.
            jot env ''report.retry'' [(u ''message_id'', PStr ident), (u ''task_id'', PStr tid), (u ''n'', PInt n), (u ''reason'', PStr (u reason)),
              (u ''retry_at'', PStr (e_iso env (now + min 300 (e_poll env * 2 ^ nat (n - 1)))))]))))"

text \<open>The body of a report is one line without column separators.\<close>

definition one_line :: "pystr \<Rightarrow> pystr" where
  "one_line s = concat (map (\<lambda>c. if c = 13 \<or> c = 10 then [32] else if c = 124 then u ''%7C'' else [c]) s)"

definition report_body :: "env \<Rightarrow> pystr \<Rightarrow> pystr \<Rightarrow> pystr \<Rightarrow> pyval \<Rightarrow> pystr" where
  "report_body env tid state summary result_ref = one_line (u ''task-report '' @ tid @ u '' state '' @ state @
     (if truthy result_ref then u '' result '' @ py_str (e_str env) result_ref else []) @
     (if summary = [] then [] else u '' summary '' @ summary))"

definition carry_report :: "env \<Rightarrow> pystr \<Rightarrow> pystr \<Rightarrow> pystr \<Rightarrow> pystr \<Rightarrow> bool act" where
  "carry_report env requester ident tid body =
     (if startswith requester (u ''human:'') \<or> startswith requester (u ''gateway:'') then
        bnd (ask (e_now env) Clock) (\<lambda>now.
        bnd (append_outbox_line env (e_team env) (e_iso env now @ u '' | id:'' @ ident @ u '' | from:'' @ e_uid env @ u '' | to:'' @ requester @
            u '' | state:PERSISTED | '' @ body @ [10])) (\<lambda>sent.
          if sent then ret True else sq (record_report_failure env ident ''outbox_unsafe'' tid) (ret False)))
      else bnd (message_command env [u ''send'', requester, body, u ''--id'', ident]) (\<lambda>(rc, out).
          if rc = 0 then ret True else sq (record_report_failure env ident ''report_delivery_failed'' tid) (ret False)))"

definition pend_report :: "env \<Rightarrow> pydict \<Rightarrow> pystr \<Rightarrow> pystr \<Rightarrow> pystr \<Rightarrow> pystr \<Rightarrow> pystr \<Rightarrow> pyval \<Rightarrow> unit act" where
  "pend_report env task ident requester attempt state summary result_ref =
     bnd (record_exists (message_event ''report.pending'' ident)) (\<lambda>known.
       if known then ret ()
       else bnd (field task ''task_id'') (\<lambda>i. jot env ''report.pending'' [(u ''message_id'', PStr ident), (u ''task_id'', i), (u ''run_id'', dget task ''run_id''),
         (u ''requester'', PStr requester), (u ''attempt_id'', PStr attempt), (u ''state'', PStr state), (u ''summary'', PStr summary),
         (u ''result_ref'', result_ref)]))"

definition deliver_task_report :: "env \<Rightarrow> pydict \<Rightarrow> pystr \<Rightarrow> pystr \<Rightarrow> pystr \<Rightarrow> pyval \<Rightarrow> bool \<Rightarrow> bool act" where
  "deliver_task_report env task attempt state summary result_ref record_pending =
     bnd (str_field env task ''task_id'') (\<lambda>i.
       let ident = u ''task-report-'' @ i @ u ''-'' @ attempt; s = neutralize_task_text summary;
           requester = py_str (e_str env) (dget_or task ''owner'' (PStr [])) in
       bnd (record_exists (message_event ''report.delivered'' ident)) (\<lambda>known.
         if known then ret True
         else if \<not> safe_display_text summary then
           sq (jot env ''attention'' [(u ''reason'', PStr (u ''unsafe_report_text'')), (u ''message_id'', PStr ident)]) (ret False)
         else sq (when_do record_pending (pend_report env task ident requester attempt state s result_ref))
           (bnd (carry_report env requester ident i (report_body env i state s result_ref)) (\<lambda>ok.
             if \<not> ok then ret False
             else bnd (field task ''task_id'') (\<lambda>v.
               sq (jot env ''report.delivered'' [(u ''message_id'', PStr ident), (u ''task_id'', v)]) (ret True))))))"

definition settled_reports :: "pydict list \<Rightarrow> pyval list" where
  "settled_reports rs = map (\<lambda>r. dget r ''message_id'') (filter (\<lambda>r. is_event ''report.delivered'' r \<or> is_event ''report.undeliverable'' r) rs)"

definition report_waiting_for_task :: "pystr \<Rightarrow> bool act" where
  "report_waiting_for_task tid = look_at (\<lambda>d. list_ex (\<lambda>r. is_event ''report.pending'' r \<and> dget r ''task_id'' = PStr tid \<and>
     dget r ''message_id'' \<notin> set (settled_reports (d_records d))) (d_records d))"

definition pending_reports :: "pydict list \<Rightarrow> (pystr, pydict) dict" where
  "pending_reports rs = fold (\<lambda>r d. if is_event ''report.pending'' r
     then (case dget r ''message_id'' of PStr i \<Rightarrow> dset i r d | _ \<Rightarrow> d) else d) rs []"

definition retry_due :: "env \<Rightarrow> rat \<Rightarrow> pydict option \<Rightarrow> bool" where
  "retry_due env now r = (case r of None \<Rightarrow> True | Some d \<Rightarrow> (case dget d ''retry_at'' of
       PStr s \<Rightarrow> (case e_when env s of Some t \<Rightarrow> t \<le> now | None \<Rightarrow> True) | _ \<Rightarrow> True))"

definition resend_report :: "env \<Rightarrow> pydict \<Rightarrow> unit act" where
  "resend_report env r = (case (dget r ''task_id'', dget r ''run_id'', dget r ''requester'', dget r ''attempt_id'', dget r ''state'', dget r ''summary'') of
       (PStr i, PStr run_id, PStr owner, PStr attempt, PStr state, PStr summary) \<Rightarrow>
         bnd (deliver_task_report env [(u ''task_id'', PStr i), (u ''run_id'', PStr run_id), (u ''owner'', PStr owner)] attempt state summary
           (if is_str (dget r ''result_ref'') then dget r ''result_ref'' else PNone) False) (\<lambda>_. ret ())
     | _ \<Rightarrow> ret ())"

definition retry_pending_reports :: "env \<Rightarrow> unit act" where
  "retry_pending_reports env = bnd (look_at (\<lambda>d. (settled_reports (d_records d), pending_reports (d_records d)))) (\<lambda>(settled, pending).
     each (\<lambda>(ident, r). if PStr ident \<in> set settled then ret ()
       else bnd (latest (message_event ''report.retry'' ident)) (\<lambda>last_try.
         if last_try = None then resend_report env r
         else bnd (ask (e_now env) Clock) (\<lambda>now. when_do (retry_due env now last_try) (resend_report env r)))) pending)"

text \<open>\<open>_service_block\<close> and \<open>_service_fail\<close>: the supervisor reports for the worker.\<close>

definition service_report :: "env \<Rightarrow> pydict \<Rightarrow> pystr \<Rightarrow> string \<Rightarrow> string \<Rightarrow> string \<Rightarrow> pystr \<Rightarrow> bool act" where
  "service_report env task attempt action state reason causation =
     bnd (task_event env (Report (u state) None (Some (u reason))) task causation ''service'' (supervisor_actor env) None) (\<lambda>rc.
       if rc = 77 then bnd (field task ''task_id'') (\<lambda>i.
         sq (jot env ''service.terminal'' [(u ''task_id'', i), (u ''action'', PStr (u action)), (u ''reason'', PStr (u reason))]) (ret True))
       else if rc \<noteq> 0 then bnd (field task ''task_id'') (\<lambda>i.
         sq (jot env ''service.retry'' [(u ''task_id'', i), (u ''action'', PStr (u action)), (u ''reason'', PStr (u reason)), (u ''rc'', PInt rc)])
           (sq (jot env ''attention'' [(u ''reason'', PStr (u ''service_apply_failed'')), (u ''task_id'', i)]) (ret False)))
       else bnd (deliver_task_report env task attempt (u state) (u reason) PNone True) (\<lambda>_. ret True))"

definition dashed :: "string \<Rightarrow> pystr" where
  "dashed reason = map (\<lambda>c. if c = 95 then 45 else c) (u reason)"

definition service_block :: "env \<Rightarrow> pydict \<Rightarrow> pystr \<Rightarrow> string \<Rightarrow> pystr option \<Rightarrow> bool act" where
  "service_block env task attempt reason causation = service_report env task attempt ''block'' ''blocked'' reason
     (case causation of Some c \<Rightarrow> c | None \<Rightarrow> u ''block-'' @ attempt @ u ''-'' @ dashed reason)"

definition service_fail :: "env \<Rightarrow> pydict \<Rightarrow> pystr \<Rightarrow> string \<Rightarrow> bool act" where
  "service_fail env task attempt reason = service_report env task attempt ''fail'' ''failed'' reason
     (u ''fail-'' @ attempt @ u ''-'' @ dashed reason)"

end
