(* ===== verification/SupIntentFile.thy ===== *)
theory SupIntentFile
  imports SupApply
begin

text \<open>
  \<open>apply_intent_file\<close> of \<open>lib/aib_supervisor.py\<close>: a file is admitted, each of its intents is
  applied once, and the attempt is journaled as applied.
\<close>

section \<open>References to results\<close>

definition BRANCH_RE :: re where
  "BRANCH_RE = Seqs [Lit (u ''aib/''), UID_RE, Lit (u ''/''), TASK_RE]"

definition relative_ok :: "pystr \<Rightarrow> bool" where
  "relative_ok r = (r \<noteq> [] \<and> \<not> startswith r (u ''/'') \<and> \<not> startswith r (u ''-'') \<and>
     list_all (\<lambda>p. p \<notin> {[], u ''.'', u ''..''}) (splitc 47 r))"

definition git_ref_ok :: "env \<Rightarrow> pydict \<Rightarrow> pystr \<Rightarrow> bool act" where
  "git_ref_ok env task body = (case partitionc 64 body of (branch, found, sha) \<Rightarrow>
     if \<not> found \<or> \<not> fullmatch BRANCH_RE branch \<or> \<not> fullmatch (Rep HEX 40 40) sha \<or>
        branch \<noteq> u ''aib/'' @ py_str (e_str env) (dget_or task ''team_uid'' (PStr (e_team env))) @ u ''/'' @
          py_str (e_str env) (dget task ''task_id'')
     then ret False
     else bnd (ask (e_ref env) (Check_ref sha branch)) (\<lambda>r1. bnd (lift r1) (\<lambda>on_task.
       bnd (ask (e_ref env) (Check_ref sha (e_base_branch env))) (\<lambda>r2. bnd (lift r2) (\<lambda>on_base. ret (on_task \<and> \<not> on_base))))))"

definition file_ref_ok :: "env \<Rightarrow> pystr \<Rightarrow> bool act" where
  "file_ref_ok env relative =
     (if \<not> relative_ok relative then ret False
      else bnd (ask (e_ref env) (Check_ref (u ''file'') relative)) (\<lambda>r. case r of
          Inr ok \<Rightarrow> ret ok | Inl e \<Rightarrow> if e = OSError then ret False else lift (Inl e)))"

definition validate_result_ref :: "env \<Rightarrow> pyval \<Rightarrow> pydict \<Rightarrow> bool act" where
  "validate_result_ref env v task = (case v of
       PNone \<Rightarrow> ret True
     | PStr s \<Rightarrow>
         if \<not> list_all (\<lambda>c. c < 128) s \<or> 260 < length s then ret False
         else if startswith s (u ''msg:'') then ret (fullmatch TOKEN_RE (drop 4 s))
         else if startswith s (u ''git:'') then git_ref_ok env task (drop 4 s)
         else if startswith s (u ''file:'') then file_ref_ok env (drop 5 s)
         else ret False
     | _ \<Rightarrow> ret False)"

section \<open>Steps\<close>

record tally =
  tl_handled :: bool
  tl_rejections :: "pystr list"
  tl_continuation :: "(pystr \<times> pystr) option"
  tl_finals :: "(pystr \<times> pystr \<times> pyval) list"

definition empty_tally :: tally where
  "empty_tally = \<lparr>tl_handled = False, tl_rejections = [], tl_continuation = None, tl_finals = []\<rparr>"

text \<open>An intent ends the file, leaves its tally, or has a ledger record to settle.\<close>

datatype step = Stop | Go tally | Settle pydict

definition reject_more :: "pystr \<Rightarrow> tally \<Rightarrow> tally" where
  "reject_more why t = t\<lparr>tl_rejections := tl_rejections t @ [why]\<rparr>"

definition quarantined :: "env \<Rightarrow> pystr \<Rightarrow> string \<Rightarrow> bytes \<Rightarrow> step act" where
  "quarantined env name reason data = sq (quarantine_intent env name reason Security (Some data)) (ret Stop)"

definition retried :: "env \<Rightarrow> pystr \<Rightarrow> pystr \<Rightarrow> pystr \<Rightarrow> step act" where
  "retried env name attempt reason = sq (intent_retry env name attempt reason) (ret Stop)"

definition ledger_note :: "env \<Rightarrow> pystr \<Rightarrow> int \<Rightarrow> pydict \<Rightarrow> pydict \<Rightarrow> unit act" where
  "ledger_note env attempt index task fs = bnd (field task ''task_id'') (\<lambda>i.
     jot env ''intent.ledger'' ([(u ''attempt_id'', PStr attempt), (u ''index'', PInt index), (u ''task_id'', i)] @ fs))"

text \<open>A request the supervisor refuses for the worker is still recorded in the task ledger.\<close>

definition refuse ::
  "env \<Rightarrow> pystr \<Rightarrow> pystr \<Rightarrow> pydict \<Rightarrow> int \<Rightarrow> string \<Rightarrow> pystr \<Rightarrow> string \<Rightarrow> string \<Rightarrow> tally \<Rightarrow> step act" where
  "refuse env name attempt task index requested causation reason rc_reason t =
     bnd (task_event env (Reject (u requested) (u reason)) task causation ''service'' (supervisor_actor env) None) (\<lambda>rc.
       if rc = 75 then retried env name attempt (u ''stream_lock'')
       else if rc \<notin> {0, 77} then retried env name attempt (u rc_reason @ str_of_int rc)
       else sq (ledger_note env attempt index task [(u ''action'', PStr (u ''rejected'')), (u ''reason'', PStr (u reason))])
         (ret (Go (reject_more (u reason) t))))"

definition apply_delegate ::
  "env \<Rightarrow> pystr \<Rightarrow> pystr \<Rightarrow> pydict \<Rightarrow> bytes \<Rightarrow> int \<Rightarrow> pydict \<Rightarrow> pydict option \<Rightarrow> tally \<Rightarrow> step act" where
  "apply_delegate env name attempt task data index intent prior t = (case prior of
       Some r \<Rightarrow> ret (Go (if dget r ''action'' = PStr (u ''rejected'')
         then reject_more (py_str (e_str env) (dget_or r ''reason'' (dget_or r ''state'' (PStr (u ''not_lead''))))) t else t))
     | None \<Rightarrow>
         if \<not> keys_equal intent DELEGATE_KEYS then quarantined env name ''invalid_delegate'' data
         else bnd (field task ''run_id'') (\<lambda>run_id.
           if \<not> py_eq (dget intent ''run_id'') run_id then quarantined env name ''invalid_delegate'' data
           else refuse env name attempt task index ''task.created'' (u ''reject-'' @ attempt @ u ''-'' @ str_of_int index)
             ''not_lead'' ''delegate_reject_rc_'' t))"

definition latest_rejection_reason :: "env \<Rightarrow> pystr \<Rightarrow> pystr act" where
  "latest_rejection_reason env tid =
     bnd (task_command env [u ''list'', u ''--project'', e_project env, u ''--all'']) (\<lambda>(rc, out).
       if rc \<noteq> 0 then ret (u ''rejected'')
       else case json_loads dict_hook out of
           Inl e \<Rightarrow> if is_value_error e then ret (u ''rejected'') else lift (Inl e)
         | Inr (PDict d) \<Rightarrow> (case dget_or d ''rejections'' (PList []) of
             PList rows \<Rightarrow> ret (case find (\<lambda>r. case r of PDict j \<Rightarrow> dget j ''task_id'' = PStr tid \<and> is_str (dget j ''reason'') | _ \<Rightarrow> False) (rev rows) of
                 Some (PDict j) \<Rightarrow> str_or_empty (dget j ''reason'') | _ \<Rightarrow> u ''rejected'')
           | PStr _ \<Rightarrow> ret (u ''rejected'')
           | PDict _ \<Rightarrow> ret (u ''rejected'')
           | _ \<Rightarrow> lift (Inl TypeError))
         | Inr _ \<Rightarrow> ret (u ''rejected''))"

text \<open>\<open>a >= b\<close> for whole numbers; the counts of a task and its budget are.\<close>

definition at_least :: "pyval \<Rightarrow> pyval \<Rightarrow> exn + bool" where
  "at_least a b = (case (int_instance a, int_instance b) of (Some x, Some y) \<Rightarrow> Inr (y \<le> x) | _ \<Rightarrow> Inl TypeError)"

definition turns_used_up :: "pystr \<Rightarrow> pydict \<Rightarrow> pydict option \<Rightarrow> exn + bool" where
  "turns_used_up verb task current =
     bind_res (get_attr (dget_or task ''budget'' (PDict [])) ''max_turns'') (\<lambda>_.
       let budget = (case dget_or task ''budget'' (PDict []) of PDict b \<Rightarrow> dget_or b ''max_turns'' (PInt 8) | _ \<Rightarrow> PInt 8) in
       case current of Some c \<Rightarrow> if verb = u ''continue'' then at_least (dget_or c ''turns'' (PInt 0)) budget else Inr False
       | None \<Rightarrow> Inr False)"

text \<open>The ledger said no.\<close>

definition report_refused ::
  "env \<Rightarrow> pystr \<Rightarrow> pystr \<Rightarrow> pydict \<Rightarrow> int \<Rightarrow> pystr \<Rightarrow> int \<Rightarrow> tally \<Rightarrow> step act" where
  "report_refused env name attempt task index verb rc t =
     bnd (str_field env task ''task_id'') (\<lambda>i. bnd (task_show env i) (\<lambda>current.
     bnd (lift (turns_used_up verb task current)) (\<lambda>used_up.
       if used_up then
         bnd (service_block env task attempt ''turn_budget'' None) (\<lambda>ok.
           if \<not> ok then retried env name attempt (u ''service_block'')
           else sq (ledger_note env attempt index task [(u ''action'', PStr (u ''blocked'')), (u ''state'', PStr (u ''turn_budget''))])
             (ret (Go (t\<lparr>tl_handled := True\<rparr>))))
       else if rc \<notin> {76, 77, 64} then retried env name attempt (u ''apply_rc_'' @ str_of_int rc)
       else bnd (if rc = 76 then ret (u ''concurrent_update'') else if rc = 64 then ret (u ''invalid_argument'')
           else latest_rejection_reason env i) (\<lambda>why.
         sq (ledger_note env attempt index task [(u ''action'', PStr (u ''rejected'')), (u ''reason'', PStr why)])
           (sq (when_do (rc = 64) (jot env ''attention'' [(u ''reason'', PStr (u ''invalid_argument'')), (u ''attempt_id'', PStr attempt)]))
             (ret (Go (reject_more why t))))))))"

definition opt_text :: "env \<Rightarrow> pyval \<Rightarrow> pystr option" where
  "opt_text env v = (if v = PNone then None else Some (py_str (e_str env) v))"

definition own_message_id :: "pystr \<Rightarrow> pystr \<Rightarrow> pystr \<Rightarrow> int \<Rightarrow> pystr" where
  "own_message_id i attempt verb index = (if verb = u ''continue'' then i @ u ''.c.'' @ attempt @ u ''.'' @ str_of_int index
     else u ''task-report-'' @ i @ u ''-'' @ attempt)"

definition send_report ::
  "env \<Rightarrow> pystr \<Rightarrow> pystr \<Rightarrow> pydict \<Rightarrow> int \<Rightarrow> pydict \<Rightarrow> pystr \<Rightarrow> pystr \<Rightarrow> tally \<Rightarrow> step act" where
  "send_report env name attempt task index intent verb state t =
     bnd (task_event env (Report state (opt_text env (dget intent ''result_ref'')) (opt_text env (dget intent ''reason''))) task
        (u ''intent-'' @ attempt @ u ''-'' @ str_of_int index) ''agent'' (e_uid env) (Some (u ''intent:'' @ attempt))) (\<lambda>rc.
       if rc = 75 then retried env name attempt (u ''stream_lock'')
       else if rc \<noteq> 0 then report_refused env name attempt task index verb rc t
       else bnd (str_field env task ''task_id'') (\<lambda>i.
         sq (ledger_note env attempt index task [(u ''action'', PStr verb), (u ''state'', PStr state),
             (u ''summary'', dget_or intent ''summary'' (PStr [])), (u ''result_ref'', dget intent ''result_ref''),
             (u ''message_id'', PStr (own_message_id i attempt verb index))])
           (bnd (look_at (\<lambda>d. last (d_records d))) (\<lambda>r. ret (Settle r)))))"

definition fresh_report ::
  "env \<Rightarrow> pystr \<Rightarrow> pystr \<Rightarrow> pydict \<Rightarrow> bytes \<Rightarrow> int \<Rightarrow> pydict \<Rightarrow> tally \<Rightarrow> step act" where
  "fresh_report env name attempt task data index intent t =
     bnd (lift (in_strset (dget intent ''verb'') [''report'', ''continue''])) (\<lambda>known.
       if \<not> known then quarantined env name ''invalid_verb'' data
       else let verb = str_or_empty (dget intent ''verb'');
                state = (if verb = u ''continue'' then u ''progress'' else py_str (e_str env) (dget_or intent ''state'' (PStr []))) in
         if state \<notin> set (map u [''progress'', ''done'', ''failed'', ''blocked'']) then quarantined env name ''invalid_state'' data
         else bnd (validate_result_ref env (dget intent ''result_ref'') task) (\<lambda>ok.
           if \<not> ok then refuse env name attempt task index ''task.reported'' (u ''reject-ref-'' @ attempt @ u ''-'' @ str_of_int index)
             ''invalid_result_ref'' ''reject_ref_rc_'' t
           else send_report env name attempt task index intent verb state t))"

text \<open>What a ledger record of this attempt, new or found, means for the turn.\<close>

definition settle_report :: "env \<Rightarrow> pystr \<Rightarrow> pydict \<Rightarrow> int \<Rightarrow> pydict \<Rightarrow> pydict \<Rightarrow> tally \<Rightarrow> tally act" where
  "settle_report env attempt task index intent r t =
     (let state = py_str (e_str env) (dget_or intent ''state'' (PStr []));
          recorded = py_str (e_str env) (dget_or r ''reason'' (dget_or r ''state'' (PStr state)));
          summary = py_str (e_str env) (dget_or r ''summary'' (dget_or intent ''summary'' (PStr []))) in
      if dget r ''action'' = PStr (u ''continue'') then
        bnd (str_field env task ''task_id'') (\<lambda>i. ret (t\<lparr>tl_handled := True, tl_continuation := Some
          (py_str (e_str env) (dget_or r ''message_id'' (PStr (i @ u ''.c.'' @ attempt @ u ''.'' @ str_of_int index))), summary)\<rparr>))
      else if dget r ''action'' = PStr (u ''report'') \<and> recorded \<noteq> u ''progress'' then
        ret (t\<lparr>tl_handled := True, tl_finals := tl_finals t @ [(recorded, summary, dget r ''result_ref'')]\<rparr>)
      else if dget r ''action'' = PStr (u ''report'') then ret (t\<lparr>tl_handled := True\<rparr>)
      else if dget r ''action'' = PStr (u ''rejected'') then ret (reject_more recorded t)
      else ret t)"

definition intent_ledger_record :: "pystr \<Rightarrow> int \<Rightarrow> pydict option act" where
  "intent_ledger_record attempt index = latest (\<lambda>r. of_attempt ''intent.ledger'' attempt r \<and> py_eq (dget r ''index'') (PInt index))"

definition apply_report ::
  "env \<Rightarrow> pystr \<Rightarrow> pystr \<Rightarrow> pydict \<Rightarrow> bytes \<Rightarrow> int \<Rightarrow> pydict \<Rightarrow> pydict option \<Rightarrow> tally \<Rightarrow> step act" where
  "apply_report env name attempt task data index intent prior t =
     (let allowed = (if dget intent ''verb'' = PStr (u ''report'') then REPORT_KEYS else CONTINUE_KEYS) in
      if \<not> keys_within intent allowed then quarantined env name ''invalid_schema'' data
      else case dget_or intent ''summary'' (PStr []) of
        PStr s \<Rightarrow> bnd (lift (utf8_encode s)) (\<lambda>b.
          if 2048 < length b then quarantined env name ''invalid_schema'' data
          else bnd (case prior of Some r \<Rightarrow> ret (Settle r) | None \<Rightarrow> fresh_report env name attempt task data index intent t) (\<lambda>s.
            case s of Settle r \<Rightarrow> bnd (settle_report env attempt task index intent r t) (\<lambda>t'. ret (Go t')) | _ \<Rightarrow> ret s))
      | _ \<Rightarrow> quarantined env name ''invalid_schema'' data)"

definition apply_intent ::
  "env \<Rightarrow> pystr \<Rightarrow> pystr \<Rightarrow> pydict \<Rightarrow> bytes \<Rightarrow> int \<Rightarrow> pydict \<Rightarrow> tally \<Rightarrow> step act" where
  "apply_intent env name attempt task data index intent t =
     (let delegate = (dget intent ''verb'' = PStr (u ''delegate'')) in
      bnd (if delegate then ret True else bnd (field task ''task_id'') (\<lambda>i. ret (py_eq (dget intent ''task_id'') i))) (\<lambda>matches.
        if \<not> matches then quarantined env name ''task_mismatch'' data
        else bnd (intent_ledger_record attempt index) (\<lambda>prior.
          if delegate then apply_delegate env name attempt task data index intent prior t
          else apply_report env name attempt task data index intent prior t)))"

fun apply_intents ::
  "env \<Rightarrow> pystr \<Rightarrow> pystr \<Rightarrow> pydict \<Rightarrow> bytes \<Rightarrow> int \<Rightarrow> pyval list \<Rightarrow> tally \<Rightarrow> tally option act" where
  "apply_intents env name attempt task data index [] t = ret (Some t)"
| "apply_intents env name attempt task data index (v # vs) t =
     bnd (apply_intent env name attempt task data index (case v of PDict d \<Rightarrow> d | _ \<Rightarrow> []) t) (\<lambda>s. case s of
         Go t' \<Rightarrow> apply_intents env name attempt task data (index + 1) vs t'
       | _ \<Rightarrow> ret None)"

section \<open>The file\<close>

definition own_messages :: "env \<Rightarrow> pydict \<Rightarrow> pydict \<Rightarrow> pystr \<Rightarrow> tally \<Rightarrow> pystr list act" where
  "own_messages env task fresh attempt t =
     (if dget fresh ''state'' \<noteq> PStr (u ''IN_PROGRESS'') then ret []
      else if tl_handled t \<and> tl_rejections t \<noteq> [] then
        bnd (str_field env task ''task_id'') (\<lambda>i. let ident = i @ u ''.r.'' @ attempt in
          bnd (persist_self_task_message env fresh ident (u ''rejected: '' @ join_with (u '', '') (tl_rejections t))) (\<lambda>ok.
            ret (if ok then [ident] else [])))
      else case tl_continuation t of
          Some (ident, summary) \<Rightarrow> bnd (persist_self_task_message env fresh ident summary) (\<lambda>ok. ret (if ok then [ident] else []))
        | None \<Rightarrow> ret [])"

definition finish_intents :: "env \<Rightarrow> pystr \<Rightarrow> pydict \<Rightarrow> pydict \<Rightarrow> pystr \<Rightarrow> nat \<Rightarrow> tally \<Rightarrow> bool act" where
  "finish_intents env name context task attempt n t =
     bnd (str_field env task ''task_id'') (\<lambda>i. bnd (task_show env i) (\<lambda>shown.
       let fresh = (case shown of Some f \<Rightarrow> if f = [] then task else f | None \<Rightarrow> task) in
       sq (if tl_finals t = [] then ret () else case last (tl_finals t) of (state, summary, ref) \<Rightarrow>
             bnd (deliver_task_report env fresh attempt state summary ref True) (\<lambda>_. ret ()))
         (bnd (own_messages env task fresh attempt t) (\<lambda>ids. bnd (field task ''task_id'') (\<lambda>v.
           sq (jot env ''intents.applied'' [(u ''attempt_id'', PStr attempt), (u ''task_id'', v), (u ''count'', PInt (int n)),
               (u ''message_ids'', PList (map PStr ids))])
             (sq (unlink_intent env name)
               (bnd (case dget context ''msg_id'' of
                    PStr m \<Rightarrow> if m \<noteq> [] \<and> \<not> startswith m (u ''handover-'')
                      then bnd (message_command env [u ''done'', m]) (\<lambda>_. ret ()) else ret ()
                  | _ \<Rightarrow> ret ()) (\<lambda>_. ret (tl_handled t)))))))))"

definition stale_close :: "pystr \<Rightarrow> pydict option \<Rightarrow> bool" where
  "stale_close digest c = (case c of None \<Rightarrow> False | Some r \<Rightarrow>
     dget r ''present'' \<noteq> PBool True \<or> dget r ''sha256'' = PStr [] \<or> dget r ''sha256'' \<noteq> PStr digest)"

definition refused_file :: "env \<Rightarrow> pystr \<Rightarrow> string \<Rightarrow> bytes \<Rightarrow> bool act" where
  "refused_file env name reason evidence = sq (quarantine_intent env name reason Security (Some evidence)) (ret False)"

definition intent_applied :: "pystr \<Rightarrow> bool act" where
  "intent_applied attempt = record_exists (of_attempt ''intents.applied'' attempt)"

text \<open>The exceptions the parser and the validation are guarded against; \<open>RecursionError\<close> is not modelled.\<close>

definition bad_records :: "exn \<Rightarrow> bool" where
  "bad_records e = (is_value_error e \<or> e = TypeError)"

definition apply_validated :: "env \<Rightarrow> pystr \<Rightarrow> pydict \<Rightarrow> pystr \<Rightarrow> bytes \<Rightarrow> pyval list \<Rightarrow> pydict \<Rightarrow> bool act" where
  "apply_validated env name context attempt data intents task =
     bnd (str_field env task ''task_id'') (\<lambda>i. case validate_intent_records intents attempt (Some i) of
         Inl e \<Rightarrow> if bad_records e then refused_file env name ''invalid_intent'' data else lift (Inl e)
       | Inr _ \<Rightarrow> bnd (apply_intents env name attempt task data 1 intents empty_tally) (\<lambda>r. case r of
           None \<Rightarrow> ret False
         | Some t \<Rightarrow> finish_intents env name context task attempt (length intents) t))"

definition apply_parsed :: "env \<Rightarrow> pystr \<Rightarrow> pydict \<Rightarrow> pystr \<Rightarrow> bytes \<Rightarrow> pyval list \<Rightarrow> bool act" where
  "apply_parsed env name context attempt data intents =
     bnd (case dget context ''task_id'' of PStr i \<Rightarrow> task_show env i | _ \<Rightarrow> ret None) (\<lambda>shown. case shown of
         None \<Rightarrow> sq (intent_retry env name attempt (u ''task_lookup'')) (ret False)
       | Some task \<Rightarrow>
           if \<not> py_eq (dget task ''run_id'') (dget context ''run_id'') then refused_file env name ''context_mismatch'' data
           else apply_validated env name context attempt data intents task)"

definition apply_content :: "env \<Rightarrow> pystr \<Rightarrow> pydict \<Rightarrow> pystr \<Rightarrow> bytes \<Rightarrow> bool act" where
  "apply_content env name context attempt data =
     bnd (closed_intent attempt) (\<lambda>closed. bnd (taint_seen (intent_identity name False)) (\<lambda>tainted.
       if tainted then refused_file env name ''tainted_replay'' data
       else if stale_close (sha_hex data) closed then refused_file env name ''stale_attempt'' data
       else bnd (intent_applied attempt) (\<lambda>applied.
         if applied then sq (unlink_intent env name) (ret False)
         else case parse_intents attempt data of
             Inl e \<Rightarrow> if bad_records e then refused_file env name ''invalid_intent'' data else lift (Inl e)
           | Inr intents \<Rightarrow> apply_parsed env name context attempt data intents)))"

definition apply_intent_file :: "env \<Rightarrow> pystr \<Rightarrow> pydict \<Rightarrow> bool \<Rightarrow> bool act" where
  "apply_intent_file env name context close_attempt =
     bnd (str_field env context ''attempt_id'') (\<lambda>attempt. bnd (read_intent env name) (\<lambda>r. case r of
         Missing \<Rightarrow> sq (when_do close_attempt (close_intent_attempt env attempt False [])) (ret False)
       | Unsafe evidence \<Rightarrow> sq (when_do close_attempt (close_intent_attempt env attempt True []))
           (refused_file env name ''invalid_intent'' evidence)
       | Fault \<Rightarrow> sq (when_do close_attempt (close_intent_attempt env attempt True []))
           (refused_file env name ''invalid_intent'' [])
       | Content data \<Rightarrow> sq (when_do close_attempt (close_intent_attempt env attempt True (sha_hex data)))
           (apply_content env name context attempt data)))"

definition apply_pending_intent :: "env \<Rightarrow> pystr \<Rightarrow> pydict \<Rightarrow> bool \<Rightarrow> bool act" where
  "apply_pending_intent env attempt context close_attempt =
     (if \<not> fullmatch TOKEN_RE attempt then ret False
      else bnd (open_private_dirs env (intent_name attempt)) (\<lambda>d. case d of
          Dirs p \<Rightarrow>
            if map_of (p_files p) (intent_name attempt) = None
            then sq (when_do close_attempt (close_intent_attempt env attempt False [])) (ret False)
            else apply_intent_file env (intent_name attempt) context close_attempt
        | _ \<Rightarrow> lift (Inl OSError)))"

end
