(* ===== verification/SupTrace.thy ===== *)
theory SupTrace
  imports SupIntentFile "HOL-Library.Sublist"
begin

text \<open>
  Reasoning about the operations on a desk: \<open>traced B C E m\<close> says that in every state whose journal starts with \<open>B\<close>, \<open>m\<close> only
  appends to the calls and to the journal, calls that satisfy \<open>C\<close> and records whose event and
  fields satisfy \<open>E\<close>. One rule per combinator carries it through the operations.
\<close>

section \<open>The predicate and its rules\<close>

named_theorems traced_rules

definition made :: "(string \<Rightarrow> pydict \<Rightarrow> bool) \<Rightarrow> pydict \<Rightarrow> bool" where
  "made E r = (\<exists>ev fs n ts. r = numbered n ts (u ev) fs \<and> E ev fs)"

definition traced :: "pydict list \<Rightarrow> (call \<Rightarrow> bool) \<Rightarrow> (string \<Rightarrow> pydict \<Rightarrow> bool) \<Rightarrow> 'a act \<Rightarrow> bool" where
  "traced B C E m = (\<forall>d. prefix B (d_records d) \<longrightarrow> (\<exists>cs rs. d_calls (snd (m d)) = d_calls d @ cs \<and> d_records (snd (m d)) = d_records d @ rs \<and>
     list_all C cs \<and> list_all (made E) rs))"

lemma tracedI:
  assumes "\<And>d. prefix B (d_records d) \<Longrightarrow> \<exists>cs rs. d_calls (snd (m d)) = d_calls d @ cs \<and> d_records (snd (m d)) = d_records d @ rs \<and>
     list_all C cs \<and> list_all (made E) rs"
  shows "traced B C E m"
  using assms by (simp add: traced_def)

lemma tracedD:
  assumes "traced B C E m" and "m d = (r, d')" and "prefix B (d_records d)"
  obtains cs rs where "d_calls d' = d_calls d @ cs" "d_records d' = d_records d @ rs" "list_all C cs"
    "list_all (made E) rs"
proof -
  from assms(1,3) obtain cs rs where "d_calls (snd (m d)) = d_calls d @ cs" "d_records (snd (m d)) = d_records d @ rs"
    "list_all C cs" "list_all (made E) rs" unfolding traced_def by blast
  with assms(2) that show ?thesis by simp
qed

lemma traced_still: "(\<And>d. snd (m d) = d) \<Longrightarrow> traced B C E m"
  by (rule tracedI) auto

lemma traced_ret [traced_rules]: "traced B C E (ret x)"
  by (rule traced_still) (simp add: ret_def)

lemma traced_lift [traced_rules]: "traced B C E (lift r)"
  by (rule traced_still) (simp add: lift_def)

lemma traced_look [traced_rules]: "traced B C E (look_at f)"
  by (rule traced_still) (simp add: look_at_def)

lemma traced_add_index [traced_rules]: "traced B C E (add_index k)"
  by (rule tracedI) (simp add: add_index_def)

definition permits :: "(call \<Rightarrow> bool) \<Rightarrow> call \<Rightarrow> bool" where
  "permits C c = C c"

definition journals :: "(string \<Rightarrow> pydict \<Rightarrow> bool) \<Rightarrow> string \<Rightarrow> pydict \<Rightarrow> bool" where
  "journals E ev fs = E ev fs"

lemma traced_ask [traced_rules]: "permits C c \<Longrightarrow> traced B C E (ask f c)"
  by (rule tracedI) (simp add: ask_def permits_def)

lemma traced_tell [traced_rules]: "permits C c \<Longrightarrow> traced B C E (tell c)"
  by (simp add: tell_def traced_ask)

lemma traced_jot [traced_rules]: "journals E ev fs \<Longrightarrow> traced B C E (jot env ev fs)"
  by (rule tracedI) (auto simp: jot_def made_def journals_def)

text \<open>The continuation may use what is known of a result of the first part.\<close>

lemma traced_bnd_result:
  assumes "traced B C E m" and "\<And>x d d'. prefix B (d_records d) \<Longrightarrow> m d = (Inr x, d') \<Longrightarrow> traced B C E (f x)"
  shows "traced B C E (bnd m f)"
proof (rule tracedI)
  fix d :: desk
  assume B: "prefix B (d_records d)"
  obtain r d' where m: "m d = (r, d')" by fastforce
  from assms(1) m B obtain cs rs where 1: "d_calls d' = d_calls d @ cs" "d_records d' = d_records d @ rs" "list_all C cs"
    "list_all (made E) rs" by (rule tracedD)
  show "\<exists>cs rs. d_calls (snd (bnd m f d)) = d_calls d @ cs \<and> d_records (snd (bnd m f d)) = d_records d @ rs \<and>
      list_all C cs \<and> list_all (made E) rs"
  proof (cases r)
    case (Inl e)
    then show ?thesis using m 1 by (auto simp: bnd_def)
  next
    case (Inr x)
    obtain r2 d2 where f: "f x d' = (r2, d2)" by fastforce
    from assms(2) B m Inr have "traced B C E (f x)" by blast
    moreover have "prefix B (d_records d')" using B 1(2) by simp
    moreover note f
    ultimately obtain cs2 rs2 where "d_calls d2 = d_calls d' @ cs2" "d_records d2 = d_records d' @ rs2" "list_all C cs2"
      "list_all (made E) rs2" by (metis tracedD)
    then show ?thesis using m Inr 1 f by (auto simp: bnd_def)
  qed
qed

lemma traced_bnd [traced_rules]: "traced B C E m \<Longrightarrow> (\<And>x. traced B C E (f x)) \<Longrightarrow> traced B C E (bnd m f)"
  by (rule traced_bnd_result)

lemma traced_sq [traced_rules]: "traced B C E m \<Longrightarrow> traced B C E k \<Longrightarrow> traced B C E (sq m k)"
  by (simp add: sq_def traced_bnd)

lemma traced_when [traced_rules]: "(b \<Longrightarrow> traced B C E m) \<Longrightarrow> traced B C E (when_do b m)"
  by (simp add: when_do_def traced_ret)

lemma traced_if [traced_rules]: "(b \<Longrightarrow> traced B C E m) \<Longrightarrow> (\<not> b \<Longrightarrow> traced B C E k) \<Longrightarrow> traced B C E (if b then m else k)"
  by simp

lemma traced_each [traced_rules]: "(\<And>x. x \<in> set xs \<Longrightarrow> traced B C E (f x)) \<Longrightarrow> traced B C E (each f xs)"
  by (induction xs) (auto intro: traced_ret traced_sq)

lemma traced_catch [traced_rules]:
  assumes "traced B C E m" and "\<And>e. traced B C E (h e)" shows "traced B C E (catch m h)"
proof (rule tracedI)
  fix d :: desk
  assume B: "prefix B (d_records d)"
  obtain r d' where m: "m d = (r, d')" by fastforce
  from assms(1) m B obtain cs rs where 1: "d_calls d' = d_calls d @ cs" "d_records d' = d_records d @ rs" "list_all C cs"
    "list_all (made E) rs" by (rule tracedD)
  show "\<exists>cs rs. d_calls (snd (catch m h d)) = d_calls d @ cs \<and> d_records (snd (catch m h d)) = d_records d @ rs \<and>
      list_all C cs \<and> list_all (made E) rs"
  proof (cases r)
    case (Inr x)
    then show ?thesis using m 1 by (auto simp: catch_def)
  next
    case (Inl e)
    obtain r2 d2 where f: "h e d' = (r2, d2)" by fastforce
    have "prefix B (d_records d')" using B 1(2) by simp
    with assms(2) f obtain cs2 rs2 where "d_calls d2 = d_calls d' @ cs2" "d_records d2 = d_records d' @ rs2" "list_all C cs2"
      "list_all (made E) rs2" by (metis tracedD)
    then show ?thesis using m Inl 1 f by (auto simp: catch_def)
  qed
qed

lemma traced_sum [traced_rules]:
  "(\<And>e. r = Inl e \<Longrightarrow> traced B C E (f e)) \<Longrightarrow> (\<And>x. r = Inr x \<Longrightarrow> traced B C E (g x)) \<Longrightarrow> traced B C E (case r of Inl e \<Rightarrow> f e | Inr x \<Rightarrow> g x)"
  by (cases r) simp_all

lemma traced_option [traced_rules]:
  "(v = None \<Longrightarrow> traced B C E m) \<Longrightarrow> (\<And>x. v = Some x \<Longrightarrow> traced B C E (k x)) \<Longrightarrow> traced B C E (case v of None \<Rightarrow> m | Some x \<Rightarrow> k x)"
  by (cases v) simp_all

lemma traced_pair [traced_rules]: "(\<And>a b. p = (a, b) \<Longrightarrow> traced B C E (l a b)) \<Longrightarrow> traced B C E (case p of (a, b) \<Rightarrow> l a b)"
  by (cases p) simp

lemma traced_mono: "traced B C E m \<Longrightarrow> (\<And>c. C c \<Longrightarrow> C' c) \<Longrightarrow> (\<And>ev fs. E ev fs \<Longrightarrow> E' ev fs) \<Longrightarrow> traced B C' E' m"
proof (rule tracedI)
  fix d :: desk
  assume B: "prefix B (d_records d)" and m: "traced B C E m" and mono: "\<And>c. C c \<Longrightarrow> C' c" "\<And>ev fs. E ev fs \<Longrightarrow> E' ev fs"
  from m B obtain cs rs where 1: "d_calls (snd (m d)) = d_calls d @ cs" "d_records (snd (m d)) = d_records d @ rs"
    "list_all C cs" "list_all (made E) rs" unfolding traced_def by blast
  have "list_all C' cs" using 1(3) mono(1) by (auto elim: list.pred_mono_strong)
  moreover have "list_all (made E') rs" using 1(4) mono(2) by (auto simp: made_def elim!: list.pred_mono_strong) blast
  ultimately show "\<exists>cs rs. d_calls (snd (m d)) = d_calls d @ cs \<and> d_records (snd (m d)) = d_records d @ rs \<and>
     list_all C' cs \<and> list_all (made E') rs" using 1(1,2) by blast
qed

lemma traced_dirs [traced_rules]:
  "(d = No_dirs \<Longrightarrow> traced B C E a) \<Longrightarrow> (\<And>x. d = Bad_dirs x \<Longrightarrow> traced B C E (b x)) \<Longrightarrow> (\<And>p. d = Dirs p \<Longrightarrow> traced B C E (c p)) \<Longrightarrow>
     traced B C E (case d of No_dirs \<Rightarrow> a | Bad_dirs x \<Rightarrow> b x | Dirs p \<Rightarrow> c p)"
  by (cases d) simp_all

lemma traced_read [traced_rules]:
  "(r = Missing \<Longrightarrow> traced B C E a) \<Longrightarrow> (r = Fault \<Longrightarrow> traced B C E b) \<Longrightarrow> (\<And>x. r = Unsafe x \<Longrightarrow> traced B C E (c x)) \<Longrightarrow>
     (\<And>x. r = Content x \<Longrightarrow> traced B C E (k x)) \<Longrightarrow>
     traced B C E (case r of Missing \<Rightarrow> a | Fault \<Rightarrow> b | Unsafe x \<Rightarrow> c x | Content x \<Rightarrow> k x)"
  by (cases r) simp_all

lemma traced_quarantine_dir [traced_rules]:
  "(q = Bad_store \<Longrightarrow> traced B C E a) \<Longrightarrow> (\<And>m n. q = Quarantine m n \<Longrightarrow> traced B C E (b m n)) \<Longrightarrow>
     traced B C E (case q of Bad_store \<Rightarrow> a | Quarantine m n \<Rightarrow> b m n)"
  by (cases q) simp_all

lemma traced_level [traced_rules]:
  "(l = Security \<Longrightarrow> traced B C E a) \<Longrightarrow> (l = Engine \<Longrightarrow> traced B C E b) \<Longrightarrow> (l = Attention \<Longrightarrow> traced B C E k) \<Longrightarrow>
     traced B C E (case l of Security \<Rightarrow> a | Engine \<Rightarrow> b | Attention \<Rightarrow> k)"
  by (cases l) simp_all

lemma traced_step [traced_rules]:
  "(s = Stop \<Longrightarrow> traced B C E a) \<Longrightarrow> (\<And>t. s = Go t \<Longrightarrow> traced B C E (b t)) \<Longrightarrow> (\<And>r. s = Settle r \<Longrightarrow> traced B C E (k r)) \<Longrightarrow>
     traced B C E (case s of Stop \<Rightarrow> a | Go t \<Rightarrow> b t | Settle r \<Rightarrow> k r)"
  by (cases s) simp_all

lemma traced_pyval [traced_rules]:
  "(v = PNone \<Longrightarrow> traced B C E a) \<Longrightarrow> (\<And>x. v = PBool x \<Longrightarrow> traced B C E (b x)) \<Longrightarrow> (\<And>x. v = PInt x \<Longrightarrow> traced B C E (i x)) \<Longrightarrow>
     (\<And>x. v = PFloat x \<Longrightarrow> traced B C E (f x)) \<Longrightarrow> (\<And>x. v = PStr x \<Longrightarrow> traced B C E (s x)) \<Longrightarrow> (\<And>x. v = PList x \<Longrightarrow> traced B C E (l x)) \<Longrightarrow>
     (\<And>x. v = PDict x \<Longrightarrow> traced B C E (d x)) \<Longrightarrow>
     traced B C E (case v of PNone \<Rightarrow> a | PBool x \<Rightarrow> b x | PInt x \<Rightarrow> i x | PFloat x \<Rightarrow> f x | PStr x \<Rightarrow> s x | PList x \<Rightarrow> l x | PDict x \<Rightarrow> d x)"
  by (cases v) simp_all

lemma traced_let [traced_rules]: "(\<And>x. x = v \<Longrightarrow> traced B C E (f x)) \<Longrightarrow> traced B C E (Let v f)"
  by simp

section \<open>The operations\<close>

text \<open>What every operation may do besides the commands: look, unlink, store, report, read the clock.\<close>

definition local_call :: "call \<Rightarrow> bool" where
  "local_call c = (case c of Task_cmd _ \<Rightarrow> False | Message_cmd _ \<Rightarrow> False | Helper _ \<Rightarrow> False | Worktree _ \<Rightarrow> False | Run _ _ \<Rightarrow> False | _ \<Rightarrow> True)"

text \<open>The events the operations journal, the ledger record of an intent apart; no field hides the event.\<close>

definition desk_events :: "string list" where
  "desk_events = [''intents.tainted'', ''intents.tainted_replay'', ''attention'', ''alarm.sent'', ''alarm.failed'', ''alarm.suppressed'',
     ''alarm.suppression_notified'', ''intent.retry'', ''intents.closed'', ''intents.applied'', ''report.pending'',
     ''report.delivered'', ''report.retry'', ''report.undeliverable'', ''service.terminal'', ''service.retry'']"

definition no_event_field :: "pydict \<Rightarrow> bool" where
  "no_event_field fs = (u ''event'' \<notin> fst ` set fs)"

definition desk_record :: "string \<Rightarrow> pydict \<Rightarrow> bool" where
  "desk_record ev fs = (ev \<in> set desk_events \<and> no_event_field fs)"

definition local_work :: "(call \<Rightarrow> bool) \<Rightarrow> (string \<Rightarrow> pydict \<Rightarrow> bool) \<Rightarrow> bool" where
  "local_work C E = ((\<forall>c. local_call c \<longrightarrow> C c) \<and> (\<forall>ev fs. desk_record ev fs \<longrightarrow> E ev fs))"

lemma local_workD:
  "local_work C E \<Longrightarrow> local_call c \<Longrightarrow> permits C c"
  "local_work C E \<Longrightarrow> ev \<in> set desk_events \<Longrightarrow> no_event_field fs \<Longrightarrow> journals E ev fs"
  by (auto simp: local_work_def desk_record_def permits_def journals_def)

lemma local_call_simps [simp]:
  "local_call (Look n)" "local_call (Unlink n)" "local_call (Rmdir n)" "local_call (Store n b)" "local_call (Check_ref a n)"
  "local_call (Outbox n b)" "local_call (Notify n)" "local_call Clock" "local_call Fresh"
  by (simp_all add: local_call_def)

lemma no_event_field_simps [simp]:
  "no_event_field []" "no_event_field ((k, v) # fs) \<longleftrightarrow> k \<noteq> u ''event'' \<and> no_event_field fs"
  "no_event_field (fs @ gs) \<longleftrightarrow> no_event_field fs \<and> no_event_field gs"
  by (auto simp: no_event_field_def)

lemma local_permits [traced_rules]:
  assumes "local_work C E"
  shows "permits C (Look n)" "permits C (Unlink n)" "permits C (Rmdir n)" "permits C (Store n b)" "permits C (Check_ref a n)"
    "permits C (Outbox n b)" "permits C (Notify n)" "permits C Clock" "permits C Fresh"
  using assms by (simp_all add: local_workD)

lemmas local_journals [traced_rules] = local_workD(2)

lemma identity_no_event [simp]: "no_event_field (intent_identity name b)"
  by (simp add: intent_identity_def)

lemma traced_dirs_open [traced_rules]: "local_work C E \<Longrightarrow> traced B C E (open_private_dirs env name)"
  unfolding open_private_dirs_def by (intro traced_rules)

lemma traced_unlink_intent [traced_rules]: "local_work C E \<Longrightarrow> traced B C E (unlink_intent env name)"
  unfolding unlink_intent_def by (intro traced_rules)

lemma traced_read_intent [traced_rules]: "local_work C E \<Longrightarrow> traced B C E (read_intent env name)"
  unfolding read_intent_def by (intro traced_rules)

lemma traced_record_look [traced_rules]:
  "traced B C E (record_exists P)" "traced B C E (record_count P)" "traced B C E (latest P)" "traced B C E (taint_seen i)"
  by (simp_all add: record_exists_def record_count_def latest_def taint_seen_def traced_look)

lemma fold_dset_keys: "fst ` set (fold (\<lambda>(k, v) d. dset k v d) xs d) = fst ` set d \<union> fst ` set xs"
proof (induction xs arbitrary: d)
  case (Cons x xs)
  have "fst ` set (dset k v d) = insert k (fst ` set d)" for k v
    by (simp add: dset_def dom_update)
  then show ?case using Cons by (auto split: prod.splits)
qed simp

lemma no_event_fold: "no_event_field (fold (\<lambda>(k, v) d. dset k v d) xs d) \<longleftrightarrow> no_event_field d \<and> no_event_field xs"
  by (auto simp: no_event_field_def fold_dset_keys)

lemma suffixed_key: "k @ u ''_sha256'' \<noteq> u ''event''" "k @ u ''_length'' \<noteq> u ''event''"
proof -
  have "last (k @ u ''_sha256'') = 54" "last (k @ u ''_length'') = 104" "last (u ''event'') = 116"
    by (simp_all add: u_def)
  then show "k @ u ''_sha256'' \<noteq> u ''event''" "k @ u ''_length'' \<noteq> u ''event''" by (metis numeral_eq_iff num.distinct semiring_norm)+
qed

lemma safe_details_no_event:
  assumes "no_event_field details" shows "no_event_field (safe_alarm_details env details)"
proof -
  have "no_event_field (concat (map (safe_detail env) details))"
    using assms by (induction details) (auto simp: safe_detail_def Let_def suffixed_key split: prod.splits)
  then show ?thesis by (simp add: safe_alarm_details_def no_event_fold)
qed



lemma traced_outbox [traced_rules]: "local_work C E \<Longrightarrow> traced B C E (append_outbox_line env dest line)"
  unfolding append_outbox_line_def by (intro traced_rules) simp_all

lemma traced_send_alarm_line [traced_rules]: "local_work C E \<Longrightarrow> traced B C E (send_alarm_line env body)"
  unfolding send_alarm_line_def by (intro traced_rules) simp_all

lemma traced_suppress_alarm [traced_rules]: "local_work C E \<Longrightarrow> traced B C E (suppress_alarm env kind now)"
  unfolding suppress_alarm_def by (intro traced_rules) (simp_all add: desk_events_def)

lemma traced_send_alarm [traced_rules]:
  "local_work C E \<Longrightarrow> no_event_field safe \<Longrightarrow> traced B C E (send_alarm env kind tripped episode safe)"
  unfolding send_alarm_def by (intro traced_rules) (simp_all add: desk_events_def no_event_fold)

lemma traced_write_alarm [traced_rules]:
  "local_work C E \<Longrightarrow> no_event_field details \<Longrightarrow> traced B C E (write_alarm env kind tripped special details)"
  unfolding write_alarm_def by (intro traced_rules) (simp_all add: safe_details_no_event)

lemma traced_raise_level [traced_rules]:
  "local_work C E \<Longrightarrow> no_event_field ident \<Longrightarrow> traced B C E (raise_level env level reason ident)"
  unfolding raise_level_def by (intro traced_rules) (simp_all add: desk_events_def)

lemma traced_store_evidence [traced_rules]: "local_work C E \<Longrightarrow> traced B C E (store_evidence env name ident evidence)"
  unfolding store_evidence_def save_evidence_def by (intro traced_rules) simp_all

lemma traced_quarantine_intent [traced_rules]:
  "local_work C E \<Longrightarrow> traced B C E (quarantine_intent env name reason level evidence)"
  unfolding quarantine_intent_def quarantine_new_def by (intro traced_rules) (simp_all add: desk_events_def)

lemma traced_intent_retry [traced_rules]: "local_work C E \<Longrightarrow> traced B C E (intent_retry env name attempt reason)"
  unfolding intent_retry_def by (intro traced_rules) (simp_all add: desk_events_def)

lemma traced_close [traced_rules]: "local_work C E \<Longrightarrow> traced B C E (close_intent_attempt env attempt present digest)"
  unfolding close_intent_attempt_def closed_intent_def by (intro traced_rules) (simp_all add: desk_events_def)

lemma traced_looks [traced_rules]:
  "traced B C E (closed_intent attempt)" "traced B C E (intent_applied attempt)" "traced B C E (intent_retry_pending attempt)"
  "traced B C E (report_waiting_for_task tid)" "traced B C E (intent_ledger_record attempt index)"
  unfolding closed_intent_def intent_applied_def intent_retry_pending_def report_waiting_for_task_def intent_ledger_record_def
  by (intro traced_rules)+

lemma traced_fields [traced_rules]: "traced B C E (field t k)" "traced B C E (str_field env t k)"
  unfolding field_def str_field_def by (intro traced_rules)+

end
