(* ===== verification/SupConfine.thy ===== *)
theory SupConfine
  imports SupTrace
begin

text \<open>
  What the application of an intent file can do, for any worker and any outside world: the calls
  it may make, for one task and one attempt, and the records it journals.
\<close>

section \<open>Commands\<close>

text \<open>\<open>task show\<close> answers with the task asked for.\<close>

definition shows_by_id :: "env \<Rightarrow> bool" where
  "shows_by_id env = (\<forall>h i out d. e_task env h [u ''show'', u ''--project'', e_project env, i] = (0, out) \<longrightarrow>
     json_loads dict_hook out = Inr (PDict d) \<longrightarrow> dget d ''task_id'' = PStr i)"

lemma task_show_id:
  assumes "shows_by_id env" and "task_show env i d = (Inr (Some t), d')"
  shows "dget t ''task_id'' = PStr i"
proof -
  obtain rc out where r: "e_task env (d_calls d) [u ''show'', u ''--project'', e_project env, i] = (rc, out)" by fastforce
  with assms(2) have "rc = 0" "json_loads dict_hook out = Inr (PDict t)"
    by (auto simp: task_show_def task_command_def bnd_def ask_def ret_def lift_def split: if_splits sum.splits pyval.splits)
  with assms(1) r show ?thesis by (simp add: shows_by_id_def)
qed

lemma traced_task_show [traced_rules]:
  "permits C (Task_cmd [u ''show'', u ''--project'', e_project env, i]) \<Longrightarrow> traced B C E (task_show env i)"
  unfolding task_show_def task_command_def by (intro traced_rules)

lemma traced_message [traced_rules]: "permits C (Message_cmd argv) \<Longrightarrow> traced B C E (message_command env argv)"
  unfolding message_command_def by (intro traced_rules)

text \<open>A task that has an id.\<close>

lemma id_field:
  assumes "dget t ''task_id'' = PStr i"
  shows "bnd (field t ''task_id'') f = f (PStr i)" and "bnd (str_field env t ''task_id'') g = g i"
proof -
  have "has_key t ''task_id''" using assms by (auto simp: has_key_def dget_def split: option.splits)
  then show "bnd (field t ''task_id'') f = f (PStr i)" "bnd (str_field env t ''task_id'') g = g i"
    using assms by (auto simp: fun_eq_iff bnd_def field_def str_field_def item_def lift_def ret_def py_str_def)
qed

lemma traced_task_event:
  assumes "dget task ''task_id'' = PStr i"
    and "\<And>run_id. permits C (Task_cmd (event_argv env a run_id (Some i) causation actor_type actor_id via))"
  shows "traced B C E (task_event env a task causation actor_type actor_id via)"
  unfolding task_event_def task_command_def
  by (intro traced_rules) (use assms in \<open>simp add: py_str_def\<close>)

section \<open>Messages and reports\<close>

lemma traced_persist [traced_rules]:
  assumes "local_work C E" and "\<And>body. permits C (Message_cmd [u ''send'', e_uid env, body, u ''--id'', ident])"
  shows "traced B C E (persist_self_task_message env task ident summary)"
  unfolding persist_self_task_message_def
  by (intro traced_rules) (use assms in \<open>simp_all add: desk_events_def\<close>)

lemma traced_give_up [traced_rules]: "local_work C E \<Longrightarrow> traced B C E (give_up_report env ident reason tid n)"
  unfolding give_up_report_def by (intro traced_rules) (simp_all add: desk_events_def)

lemma traced_report_failure [traced_rules]: "local_work C E \<Longrightarrow> traced B C E (record_report_failure env ident reason tid)"
  unfolding record_report_failure_def by (intro traced_rules) (simp_all add: desk_events_def)

lemma traced_carry [traced_rules]:
  assumes "local_work C E" and "permits C (Message_cmd [u ''send'', requester, body, u ''--id'', ident])"
  shows "traced B C E (carry_report env requester ident tid body)"
  unfolding carry_report_def by (intro traced_rules) (use assms in simp_all)

lemma traced_deliver:
  assumes "local_work C E" and "dget task ''task_id'' = PStr i"
    and "\<And>to body. permits C (Message_cmd [u ''send'', to, body, u ''--id'', u ''task-report-'' @ i @ u ''-'' @ attempt])"
  shows "traced B C E (deliver_task_report env task attempt state summary ref pending)"
  unfolding deliver_task_report_def pend_report_def id_field [OF assms(2)] Let_def
  by (intro traced_rules) (use assms in \<open>simp_all add: desk_events_def\<close>)

lemma traced_service_report:
  assumes "local_work C E" and "dget task ''task_id'' = PStr i"
    and "\<And>to body. permits C (Message_cmd [u ''send'', to, body, u ''--id'', u ''task-report-'' @ i @ u ''-'' @ attempt])"
    and "\<And>run_id. permits C (Task_cmd (event_argv env (Report (u state) None (Some (u reason))) run_id (Some i) causation
      ''service'' (supervisor_actor env) None))"
  shows "traced B C E (service_report env task attempt action state reason causation)"
  unfolding service_report_def id_field [OF assms(2)]
  by (intro traced_rules traced_deliver [OF assms(1,2)] traced_task_event [OF assms(2)])
    (use assms in \<open>simp_all add: desk_events_def\<close>)

section \<open>The application of a file\<close>

text \<open>The intents that have a ledger record, by attempt and number.\<close>

definition ledger_key :: "pydict \<Rightarrow> pyval \<times> pyval" where
  "ledger_key r = (dget r ''attempt_id'', dget r ''index'')"

definition ledger_keys :: "pydict list \<Rightarrow> (pyval \<times> pyval) list" where
  "ledger_keys rs = map ledger_key (filter (is_event ''intent.ledger'') rs)"

definition decided :: "pydict list \<Rightarrow> pystr \<Rightarrow> int set" where
  "decided rs attempt = {i. (PStr attempt, PInt i) \<in> set (ledger_keys rs)}"

lemma undecided:
  assumes "intent_ledger_record attempt index d = (Inr None, d')" and "prefix B (d_records d)"
  shows "index \<notin> decided B attempt"
proof
  assume "index \<in> decided B attempt"
  then obtain r where r: "r \<in> set B" "is_event ''intent.ledger'' r" "dget r ''attempt_id'' = PStr attempt" "dget r ''index'' = PInt index"
    by (auto simp: decided_def ledger_keys_def ledger_key_def)
  then have "r \<in> set (d_records d)" using assms(2) set_mono_prefix by blast
  moreover have "find (\<lambda>r. of_attempt ''intent.ledger'' attempt r \<and> py_eq (dget r ''index'') (PInt index)) (rev (d_records d)) = None"
    using assms(1) by (auto simp: intent_ledger_record_def latest_def look_at_def)
  ultimately show False using r(2-4) by (auto simp: find_None_iff of_attempt_def)
qed

text \<open>
  The task commands the application of attempt \<open>attempt\<close> on task \<open>tid\<close> may issue: show and list, the
  agent's own report through this intent file, the supervisor's report that the turn budget is
  used up, and the supervisor's rejection of what the worker asked for.
\<close>

definition own_event :: "env \<Rightarrow> pystr \<Rightarrow> pystr \<Rightarrow> int set \<Rightarrow> pystr list \<Rightarrow> bool" where
  "own_event env attempt tid D argv = (\<exists>run_id.
     (\<exists>state ref reason index. index \<notin> D \<and> argv = event_argv env (Report state ref reason) run_id (Some tid)
        (u ''intent-'' @ attempt @ u ''-'' @ str_of_int index) ''agent'' (e_uid env) (Some (u ''intent:'' @ attempt))) \<or>
     argv = event_argv env (Report (u ''blocked'') None (Some (u ''turn_budget''))) run_id (Some tid)
        (u ''block-'' @ attempt @ u ''-turn-budget'') ''service'' (supervisor_actor env) None \<or>
     (\<exists>requested reason causation. argv = event_argv env (Reject requested reason) run_id (Some tid) causation
        ''service'' (supervisor_actor env) None))"

text \<open>
  Messages go to the agent itself, carry the report of this attempt, or answer the message the
  attempt worked on.
\<close>

definition confined_call :: "env \<Rightarrow> pystr \<Rightarrow> pystr \<Rightarrow> pyval \<Rightarrow> int set \<Rightarrow> call \<Rightarrow> bool" where
  "confined_call env attempt tid msg D c = (case c of
       Task_cmd argv \<Rightarrow> own_event env attempt tid D argv \<or> argv = [u ''show'', u ''--project'', e_project env, tid] \<or>
         argv = [u ''list'', u ''--project'', e_project env, u ''--all'']
     | Message_cmd argv \<Rightarrow> (\<exists>to body i. argv = [u ''send'', to, body, u ''--id'', i] \<and>
           (to = e_uid env \<or> i = u ''task-report-'' @ tid @ u ''-'' @ attempt)) \<or>
         (\<exists>m. msg = PStr m \<and> argv = [u ''done'', m])
     | Helper _ \<Rightarrow> False
     | Worktree _ \<Rightarrow> False
     | Run _ _ \<Rightarrow> False
     | _ \<Rightarrow> True)"

definition intent_work :: "(call \<Rightarrow> bool) \<Rightarrow> (string \<Rightarrow> pydict \<Rightarrow> bool) \<Rightarrow> env \<Rightarrow> pystr \<Rightarrow> pystr \<Rightarrow> pyval \<Rightarrow> int set \<Rightarrow> bool" where
  "intent_work C E env attempt tid msg D = (local_work C E \<and> (\<forall>c. confined_call env attempt tid msg D c \<longrightarrow> C c) \<and>
     (\<forall>fs. no_event_field fs \<longrightarrow> E ''intent.ledger'' fs))"

lemma intent_work_local: "intent_work C E env attempt tid msg D \<Longrightarrow> local_work C E"
  by (simp add: intent_work_def)

lemma intent_work_permits:
  "intent_work C E env attempt tid msg D \<Longrightarrow> confined_call env attempt tid msg D c \<Longrightarrow> permits C c"
  by (simp add: intent_work_def permits_def)

lemma intent_work_ledger:
  "intent_work C E env attempt tid msg D \<Longrightarrow> no_event_field fs \<Longrightarrow> journals E ''intent.ledger'' fs"
  by (simp add: intent_work_def journals_def)

lemma permits_report_message:
  "intent_work C E env attempt tid msg D \<Longrightarrow> permits C (Message_cmd [u ''send'', to, body, u ''--id'', u ''task-report-'' @ tid @ u ''-'' @ attempt])"
  "intent_work C E env attempt tid msg D \<Longrightarrow> permits C (Message_cmd [u ''send'', e_uid env, body, u ''--id'', i])"
  by (erule intent_work_permits, simp add: confined_call_def)+

lemma permits_task_looks:
  "intent_work C E env attempt tid msg D \<Longrightarrow> permits C (Task_cmd [u ''show'', u ''--project'', e_project env, tid])"
  "intent_work C E env attempt tid msg D \<Longrightarrow> permits C (Task_cmd [u ''list'', u ''--project'', e_project env, u ''--all''])"
  by (erule intent_work_permits, simp add: confined_call_def)+

lemma permits_reject:
  "intent_work C E env attempt tid msg D \<Longrightarrow> permits C (Task_cmd (event_argv env (Reject requested reason) run_id (Some tid) causation
     ''service'' (supervisor_actor env) None))"
  by (erule intent_work_permits) (unfold confined_call_def call.case own_event_def, blast)

lemma permits_own_report:
  "intent_work C E env attempt tid msg D \<Longrightarrow> index \<notin> D \<Longrightarrow> permits C (Task_cmd (event_argv env (Report state ref reason) run_id (Some tid)
     (u ''intent-'' @ attempt @ u ''-'' @ str_of_int index) ''agent'' (e_uid env) (Some (u ''intent:'' @ attempt))))"
  by (erule intent_work_permits) (unfold confined_call_def call.case own_event_def, blast)

lemma permits_budget_block:
  "intent_work C E env attempt tid msg D \<Longrightarrow> permits C (Task_cmd (event_argv env (Report (u ''blocked'') None (Some (u ''turn_budget''))) run_id (Some tid)
     (u ''block-'' @ attempt @ u ''-turn-budget'') ''service'' (supervisor_actor env) None))"
  by (erule intent_work_permits) (unfold confined_call_def call.case own_event_def, blast)

lemmas intent_permits = permits_report_message permits_task_looks permits_reject permits_own_report permits_budget_block

lemma traced_quarantined [traced_rules]: "local_work C E \<Longrightarrow> traced B C E (quarantined env name reason data)"
  unfolding quarantined_def by (intro traced_rules)

lemma traced_retried [traced_rules]: "local_work C E \<Longrightarrow> traced B C E (retried env name attempt reason)"
  unfolding retried_def by (intro traced_rules)

lemma traced_refused_file [traced_rules]: "local_work C E \<Longrightarrow> traced B C E (refused_file env name reason evidence)"
  unfolding refused_file_def by (intro traced_rules)

lemma traced_ledger_note:
  assumes "\<And>fs. no_event_field fs \<Longrightarrow> journals E ''intent.ledger'' fs" and "no_event_field fs"
  shows "traced B C E (ledger_note env attempt index task fs)"
  unfolding ledger_note_def by (intro traced_rules assms(1)) (use assms(2) in simp)

lemma traced_result_ref [traced_rules]: "local_work C E \<Longrightarrow> traced B C E (validate_result_ref env v task)"
  unfolding validate_result_ref_def git_ref_ok_def file_ref_ok_def by (intro traced_rules)

lemma traced_refuse:
  assumes "intent_work C E env attempt tid msg D" and "dget task ''task_id'' = PStr tid"
  shows "traced B C E (refuse env name attempt task index requested causation reason rc_reason t)"
  unfolding refuse_def
  by (intro intent_work_ledger [OF assms(1)] local_journals [OF intent_work_local [OF assms(1)]] traced_rules traced_task_event [OF assms(2)] traced_ledger_note intent_permits [OF assms(1)] intent_work_local [OF assms(1)]
    intent_work_ledger [OF assms(1)]) simp_all

lemma traced_apply_delegate:
  assumes "intent_work C E env attempt tid msg D" and "dget task ''task_id'' = PStr tid"
  shows "traced B C E (apply_delegate env name attempt task data index intent prior t)"
  unfolding apply_delegate_def by (intro intent_work_ledger [OF assms(1)] local_journals [OF intent_work_local [OF assms(1)]] traced_rules traced_refuse [OF assms] intent_work_local [OF assms(1)])

lemma traced_latest_rejection [traced_rules]:
  "permits C (Task_cmd [u ''list'', u ''--project'', e_project env, u ''--all'']) \<Longrightarrow> traced B C E (latest_rejection_reason env tid)"
  unfolding latest_rejection_reason_def task_command_def by (intro traced_rules)

lemma traced_budget_block:
  assumes "intent_work C E env attempt tid msg D" and "dget task ''task_id'' = PStr tid"
  shows "traced B C E (service_block env task attempt ''turn_budget'' None)"
proof -
  have "dashed ''turn_budget'' = u ''turn-budget''" by code_simp
  then have e: "u ''block-'' @ attempt @ u ''-'' @ dashed ''turn_budget'' = u ''block-'' @ attempt @ u ''-turn-budget''"
    by (simp add: u_def)
  show ?thesis unfolding service_block_def option.case e
    by (intro traced_service_report [OF _ assms(2)] intent_permits [OF assms(1)] intent_work_local [OF assms(1)])
qed

lemma traced_report_refused:
  assumes "intent_work C E env attempt tid msg D" and "dget task ''task_id'' = PStr tid"
  shows "traced B C E (report_refused env name attempt task index verb rc t)"
  unfolding report_refused_def id_field [OF assms(2)]
  by (intro intent_work_ledger [OF assms(1)] local_journals [OF intent_work_local [OF assms(1)]] traced_rules traced_budget_block [OF assms] traced_ledger_note intent_permits [OF assms(1)] intent_work_local [OF assms(1)]
    intent_work_ledger [OF assms(1)]) (simp_all add: desk_events_def)

lemma traced_send_report:
  assumes "intent_work C E env attempt tid msg D" and "dget task ''task_id'' = PStr tid" and "index \<notin> D"
  shows "traced B C E (send_report env name attempt task index intent verb state t)"
  unfolding send_report_def id_field [OF assms(2)]
  by (intro intent_work_ledger [OF assms(1)] local_journals [OF intent_work_local [OF assms(1)]] traced_rules traced_task_event [OF assms(2)] traced_report_refused [OF assms(1,2)] traced_ledger_note permits_own_report [OF assms(1,3)] intent_permits [OF assms(1)]
    intent_work_local [OF assms(1)] intent_work_ledger [OF assms(1)]) simp_all

lemma traced_fresh_report:
  assumes "intent_work C E env attempt tid msg D" and "dget task ''task_id'' = PStr tid" and "index \<notin> D"
  shows "traced B C E (fresh_report env name attempt task data index intent t)"
  unfolding fresh_report_def
  by (intro intent_work_ledger [OF assms(1)] local_journals [OF intent_work_local [OF assms(1)]] traced_rules traced_refuse [OF assms(1,2)] traced_send_report [OF assms] intent_work_local [OF assms(1)])

lemma traced_settle [traced_rules]: "traced B C E (settle_report env attempt task index intent r t)"
  unfolding settle_report_def by (intro traced_rules)

lemma traced_apply_report:
  assumes "intent_work C E env attempt tid msg D" and "dget task ''task_id'' = PStr tid" and "prior = None \<Longrightarrow> index \<notin> D"
  shows "traced B C E (apply_report env name attempt task data index intent prior t)"
  unfolding apply_report_def
  by (intro traced_rules traced_fresh_report [OF assms(1,2)] intent_work_local [OF assms(1)] assms(3))

lemma traced_apply_intent:
  assumes "intent_work C E env attempt tid msg (decided B attempt)" and "dget task ''task_id'' = PStr tid"
  shows "traced B C E (apply_intent env name attempt task data index intent t)"
proof -
  have found: "traced B C E (bnd (intent_ledger_record attempt index) (\<lambda>prior.
          if dget intent ''verb'' = PStr (u ''delegate'') then apply_delegate env name attempt task data index intent prior t
          else apply_report env name attempt task data index intent prior t))"
  proof (rule traced_bnd_result)
    fix prior d d'
    assume "prefix B (d_records d)" and "intent_ledger_record attempt index d = (Inr prior, d')"
    then have "prior = None \<Longrightarrow> index \<notin> decided B attempt" using undecided by blast
    then show "traced B C E (if dget intent ''verb'' = PStr (u ''delegate'') then apply_delegate env name attempt task data index intent prior t
          else apply_report env name attempt task data index intent prior t)"
      by (intro traced_rules traced_apply_delegate [OF assms] traced_apply_report [OF assms])
  qed (intro traced_rules)
  show ?thesis
    unfolding apply_intent_def Let_def
    by (intro traced_rules found intent_work_local [OF assms(1)])
qed

lemma traced_apply_intents:
  assumes "intent_work C E env attempt tid msg (decided B attempt)" and "dget task ''task_id'' = PStr tid"
  shows "traced B C E (apply_intents env name attempt task data index vs t)"
  by (induction vs arbitrary: index t) (simp_all, (intro traced_rules traced_apply_intent [OF assms])+)

lemma traced_own_messages:
  assumes "intent_work C E env attempt tid msg D" and "dget task ''task_id'' = PStr tid"
  shows "traced B C E (own_messages env task fresh attempt t)"
  unfolding own_messages_def id_field [OF assms(2)]
  by (intro intent_work_ledger [OF assms(1)] local_journals [OF intent_work_local [OF assms(1)]] traced_rules intent_permits [OF assms(1)] intent_work_local [OF assms(1)])

lemma traced_finish_intents:
  assumes "intent_work C E env attempt tid (dget context ''msg_id'') D" and "dget task ''task_id'' = PStr tid" and "shows_by_id env"
  shows "traced B C E (finish_intents env name context task attempt n t)"
proof -
  have done_ok: "permits C (Message_cmd [u ''done'', m])" if "dget context ''msg_id'' = PStr m" for m
    using that by (intro intent_work_permits [OF assms(1)]) (simp add: confined_call_def)
  show ?thesis
    unfolding finish_intents_def id_field [OF assms(2)]
  proof (rule traced_bnd_result)
    show "traced B C E (task_show env tid)" by (intro intent_work_ledger [OF assms(1)] local_journals [OF intent_work_local [OF assms(1)]] traced_rules intent_permits [OF assms(1)])
  next
    fix shown d d'
    assume "prefix B (d_records d)" and s: "task_show env tid d = (Inr shown, d')"
    let ?fresh = "case shown of Some f \<Rightarrow> if f = [] then task else f | None \<Rightarrow> task"
    have fresh: "dget ?fresh ''task_id'' = PStr tid"
      using assms(2) task_show_id [OF assms(3)] s by (auto split: option.splits)
    note deliver = traced_deliver [OF intent_work_local [OF assms(1)] fresh intent_permits(1) [OF assms(1)]]
    show "traced B C E (let fresh = ?fresh in
         sq (if tl_finals t = [] then ret () else case last (tl_finals t) of (state, summary, ref) \<Rightarrow>
             bnd (deliver_task_report env fresh attempt state summary ref True) (\<lambda>_. ret ()))
         (bnd (own_messages env task fresh attempt t) (\<lambda>ids.
           sq (jot env ''intents.applied'' [(u ''attempt_id'', PStr attempt), (u ''task_id'', PStr tid), (u ''count'', PInt (int n)),
               (u ''message_ids'', PList (map PStr ids))])
             (sq (unlink_intent env name)
               (bnd (case dget context ''msg_id'' of
                    PStr m \<Rightarrow> if m \<noteq> [] \<and> \<not> startswith m (u ''handover-'')
                      then bnd (message_command env [u ''done'', m]) (\<lambda>_. ret ()) else ret ()
                  | _ \<Rightarrow> ret ()) (\<lambda>_. ret (tl_handled t)))))))"
      unfolding Let_def
      by (intro intent_work_ledger [OF assms(1)] local_journals [OF intent_work_local [OF assms(1)]] traced_rules deliver traced_own_messages [OF assms(1,2)] done_ok intent_work_local [OF assms(1)])
        (simp_all add: desk_events_def)
  qed
qed

lemma traced_apply_validated:
  assumes "intent_work C E env attempt tid (dget context ''msg_id'') (decided B attempt)" and "dget task ''task_id'' = PStr tid"
    and "shows_by_id env"
  shows "traced B C E (apply_validated env name context attempt data intents task)"
  unfolding apply_validated_def id_field [OF assms(2)]
  by (intro traced_rules traced_apply_intents [OF assms(1,2)] traced_finish_intents [OF assms] intent_work_local [OF assms(1)])

lemma traced_apply_parsed:
  assumes "intent_work C E env attempt tid (dget context ''msg_id'') (decided B attempt)" and "dget context ''task_id'' = PStr tid"
    and "shows_by_id env"
  shows "traced B C E (apply_parsed env name context attempt data intents)"
  unfolding apply_parsed_def assms(2) pyval.case
proof (rule traced_bnd_result)
  show "traced B C E (task_show env tid)" by (intro traced_rules intent_permits [OF assms(1)])
next
  fix shown d d'
  assume "task_show env tid d = (Inr shown, d')"
  then have "dget task ''task_id'' = PStr tid" if "shown = Some task" for task using that task_show_id [OF assms(3)] by blast
  then show "traced B C E (case shown of
        None \<Rightarrow> sq (intent_retry env name attempt (u ''task_lookup'')) (ret False)
      | Some task \<Rightarrow>
          if \<not> py_eq (dget task ''run_id'') (dget context ''run_id'') then refused_file env name ''context_mismatch'' data
          else apply_validated env name context attempt data intents task)"
    by (intro traced_rules traced_apply_validated [OF assms(1) _ assms(3)] intent_work_local [OF assms(1)])
qed

lemma traced_apply_content:
  assumes "intent_work C E env attempt tid (dget context ''msg_id'') (decided B attempt)" and "dget context ''task_id'' = PStr tid"
    and "shows_by_id env"
  shows "traced B C E (apply_content env name context attempt data)"
  unfolding apply_content_def
  by (intro traced_rules traced_apply_parsed [OF assms] intent_work_local [OF assms(1)])

lemma attempt_field:
  assumes "dget context ''attempt_id'' = PStr a" shows "bnd (str_field env context ''attempt_id'') g = g a"
proof -
  have "has_key context ''attempt_id''" using assms by (auto simp: has_key_def dget_def split: option.splits)
  then show ?thesis using assms by (auto simp: fun_eq_iff bnd_def field_def str_field_def item_def lift_def ret_def py_str_def)
qed

lemma traced_apply_intent_file:
  assumes "intent_work C E env attempt tid (dget context ''msg_id'') (decided B attempt)" and "dget context ''task_id'' = PStr tid"
    and "shows_by_id env" and "dget context ''attempt_id'' = PStr attempt"
  shows "traced B C E (apply_intent_file env name context close_attempt)"
  unfolding apply_intent_file_def attempt_field [OF assms(4)]
  by (intro traced_rules traced_apply_content [OF assms(1-3)] intent_work_local [OF assms(1)])

end
