(* ===== verification/SupIntentProps.thy ===== *)
theory SupIntentProps
  imports SupConfine SupRun
begin

text \<open>
  The properties of the intent machinery: what a worker's file can make the supervisor do, that no
  intent is decided twice, and that retries end.
\<close>

section \<open>Confinement\<close>

definition intent_events :: "string list" where
  "intent_events = ''intent.ledger'' # desk_events"

definition intent_record_ok :: "string \<Rightarrow> pydict \<Rightarrow> bool" where
  "intent_record_ok ev fs = (ev \<in> set intent_events \<and> no_event_field fs)"

lemma intent_work_confined: "intent_work (confined_call env attempt tid msg D) intent_record_ok env attempt tid msg D"
  by (auto simp: intent_work_def local_work_def local_call_def confined_call_def intent_record_ok_def intent_events_def
      desk_record_def split: call.splits)

lemma event_of_numbered: "no_event_field fs \<Longrightarrow> dget (numbered n ts ev fs) ''event'' = PStr ev"
proof -
  assume "no_event_field fs"
  then have "map_of (fold (\<lambda>(k, v) d. dset k v d) fs d) (u ''event'') = map_of d (u ''event'')" for d
    by (induction fs arbitrary: d) auto
  then show ?thesis by (simp add: numbered_def dget_def)
qed

text \<open>None of these events means anything to the memory a restart rebuilds.\<close>

lemma intent_events_quiet: "set intent_events \<inter> set memory_events = {}"
  by code_simp

text \<open>
  C28: A worker's intent file is confined, whatever the file, the worker's directory and the
  outside world are. Every task command its application issues is for the task and the attempt
  of the turn: a look at it, the agent's own report sent through this file for an intent that has
  no ledger record yet, the report of a used-up budget, or a rejection. Every message goes to the
  agent itself, carries the attempt's report or answers the turn's message. And the journal gets
  only records of the intent machinery, none that touches the memory.
\<close>

theorem intents_are_confined:
  assumes "shows_by_id env" and "dget context ''attempt_id'' = PStr attempt" and "dget context ''task_id'' = PStr tid"
    and "apply_intent_file env name context close_attempt d = (r, d')"
  shows "\<exists>cs rs. d_calls d' = d_calls d @ cs \<and> d_records d' = d_records d @ rs \<and>
     list_all (confined_call env attempt tid (dget context ''msg_id'') (decided (d_records d) attempt)) cs \<and>
     (\<forall>x\<in>set rs. \<exists>ev. dget x ''event'' = PStr (u ev) \<and> ev \<in> set intent_events \<and> ev \<notin> set memory_events)"
proof -
  obtain cs rs where 1: "d_calls d' = d_calls d @ cs" "d_records d' = d_records d @ rs"
    "list_all (confined_call env attempt tid (dget context ''msg_id'') (decided (d_records d) attempt)) cs"
    "list_all (made intent_record_ok) rs"
    using tracedD [OF traced_apply_intent_file [OF intent_work_confined assms(3,1,2)] assms(4)] by blast
  have "\<exists>ev. dget x ''event'' = PStr (u ev) \<and> ev \<in> set intent_events \<and> ev \<notin> set memory_events" if "x \<in> set rs" for x
  proof -
    have "made intent_record_ok x" using 1(4) that by (simp add: list_all_iff)
    then obtain ev fs n ts where "x = numbered n ts (u ev) fs" "ev \<in> set intent_events" "no_event_field fs"
      unfolding made_def intent_record_ok_def by blast
    then show ?thesis using event_of_numbered intent_events_quiet by (metis IntI empty_iff)
  qed
  with 1 show ?thesis by blast
qed

section \<open>Every intent is decided once\<close>

text \<open>An operation that journals no ledger record, and one that journals at most one, of a given intent.\<close>

abbreviation silent :: "'a act \<Rightarrow> bool" where
  "silent m \<equiv> traced [] (\<lambda>_. True) desk_record m"

definition at_most :: "pyval \<times> pyval \<Rightarrow> 'a act \<Rightarrow> bool" where
  "at_most k m = (\<forall>d. ledger_keys (d_records (snd (m d))) = ledger_keys (d_records d) \<or>
     ledger_keys (d_records (snd (m d))) = ledger_keys (d_records d) @ [k])"

lemma local_silent: "local_work (\<lambda>_. True) desk_record"
  by (simp add: local_work_def)

lemma permits_any [traced_rules]: "permits (\<lambda>_. True) c"
  by (simp add: permits_def)

lemma silent_ledger:
  assumes "silent m" shows "ledger_keys (d_records (snd (m d))) = ledger_keys (d_records d)"
proof -
  obtain r d' where m: "m d = (r, d')" by fastforce
  obtain cs rs where rs: "d_records d' = d_records d @ rs" "list_all (made desk_record) rs"
    using tracedD [OF assms m] by auto
  have "\<not> is_event ''intent.ledger'' x" if "x \<in> set rs" for x
  proof -
    have "made desk_record x" using rs(2) that by (simp add: list_all_iff)
    then obtain ev fs n ts where x: "x = numbered n ts (u ev) fs" "ev \<in> set desk_events" "no_event_field fs"
      unfolding made_def desk_record_def by blast
    then have "dget x ''event'' = PStr (u ev)" by (simp add: event_of_numbered)
    moreover have "''intent.ledger'' \<notin> set desk_events" by code_simp
    ultimately show ?thesis using x(2) by (auto simp: is_event_def)
  qed
  then have "filter (is_event ''intent.ledger'') rs = []" by (simp add: filter_empty_conv)
  then show ?thesis using m rs(1) by (simp add: ledger_keys_def)
qed

named_theorems once_rules

lemma at_most_silent: "silent m \<Longrightarrow> at_most k m"
  by (simp add: at_most_def silent_ledger)

lemma at_most_bnd [once_rules]: "silent m \<Longrightarrow> (\<And>x. at_most k (f x)) \<Longrightarrow> at_most k (bnd m f)"
proof -
  assume m: "silent m" and f: "\<And>x. at_most k (f x)"
  show ?thesis unfolding at_most_def
  proof
    fix d :: desk
    obtain r d' where md: "m d = (r, d')" by fastforce
    have "ledger_keys (d_records d') = ledger_keys (d_records d)" using silent_ledger [OF m, of d] md by simp
    moreover have "ledger_keys (d_records (snd (f x d'))) = ledger_keys (d_records d') \<or>
        ledger_keys (d_records (snd (f x d'))) = ledger_keys (d_records d') @ [k]" for x
      using f unfolding at_most_def by blast
    ultimately show "ledger_keys (d_records (snd (bnd m f d))) = ledger_keys (d_records d) \<or>
        ledger_keys (d_records (snd (bnd m f d))) = ledger_keys (d_records d) @ [k]"
      using md by (cases r) (auto simp: bnd_def)
  qed
qed

lemma at_most_then: "at_most k m \<Longrightarrow> (\<And>x. silent (f x)) \<Longrightarrow> at_most k (bnd m f)"
proof -
  assume m: "at_most k m" and f: "\<And>x. silent (f x)"
  show ?thesis unfolding at_most_def
  proof
    fix d :: desk
    obtain r d' where md: "m d = (r, d')" by fastforce
    have "ledger_keys (d_records (snd (f x d'))) = ledger_keys (d_records d')" for x using silent_ledger [OF f] .
    moreover have "ledger_keys (d_records d') = ledger_keys (d_records d) \<or> ledger_keys (d_records d') = ledger_keys (d_records d) @ [k]"
      using m md unfolding at_most_def by (metis snd_conv)
    ultimately show "ledger_keys (d_records (snd (bnd m f d))) = ledger_keys (d_records d) \<or>
        ledger_keys (d_records (snd (bnd m f d))) = ledger_keys (d_records d) @ [k]"
      using md by (cases r) (auto simp: bnd_def)
  qed
qed

lemma at_most_sq: "at_most k m \<Longrightarrow> silent n \<Longrightarrow> at_most k (sq m n)"
  by (simp add: sq_def at_most_then)

lemma at_most_if [once_rules]: "(b \<Longrightarrow> at_most k m) \<Longrightarrow> (\<not> b \<Longrightarrow> at_most k n) \<Longrightarrow> at_most k (if b then m else n)"
  by simp

definition plain_fields :: "pydict \<Rightarrow> bool" where
  "plain_fields fs = list_all (\<lambda>(k, v). k \<notin> {u ''event'', u ''attempt_id'', u ''index''}) fs"

lemma fold_dset_other: "k \<notin> fst ` set xs \<Longrightarrow> map_of (fold (\<lambda>(k, v) d. dset k v d) xs d) k = map_of d k"
  by (induction xs arbitrary: d) auto

lemma ledger_note_key:
  assumes "plain_fields fs"
  shows "is_event ''intent.ledger'' (numbered n ts (u ''intent.ledger'') ([(u ''attempt_id'', a), (u ''index'', i), (u ''task_id'', t)] @ fs))"
    and "ledger_key (numbered n ts (u ''intent.ledger'') ([(u ''attempt_id'', a), (u ''index'', i), (u ''task_id'', t)] @ fs)) = (a, i)"
proof -
  have k: "u ''event'' \<notin> fst ` set fs" "u ''attempt_id'' \<notin> fst ` set fs" "u ''index'' \<notin> fst ` set fs"
    using assms by (force simp: plain_fields_def list_all_iff)+
  show "is_event ''intent.ledger'' (numbered n ts (u ''intent.ledger'') ([(u ''attempt_id'', a), (u ''index'', i), (u ''task_id'', t)] @ fs))"
    "ledger_key (numbered n ts (u ''intent.ledger'') ([(u ''attempt_id'', a), (u ''index'', i), (u ''task_id'', t)] @ fs)) = (a, i)"
    by (simp_all add: is_event_def ledger_key_def numbered_def dget_def fold_dset_other k)
qed

lemma at_most_ledger_note:
  assumes "plain_fields fs" shows "at_most (PStr attempt, PInt index) (ledger_note env attempt index task fs)"
proof -
  have "at_most (PStr attempt, PInt index) (jot env ''intent.ledger'' ([(u ''attempt_id'', PStr attempt), (u ''index'', PInt index), (u ''task_id'', t)] @ fs))" for t
    using ledger_note_key [OF assms] by (auto simp: at_most_def jot_def ledger_keys_def)
  then show ?thesis unfolding ledger_note_def by (intro at_most_bnd traced_rules)
qed

lemma silent_work:
  "silent (task_event env a task causation actor_type actor_id via)"
  "silent (quarantined env name reason data)" "silent (retried env name attempt reason2)"
  unfolding task_event_def task_command_def by (intro traced_rules local_silent)+

lemma silent_deliver: "silent (deliver_task_report env task attempt state summary ref pending)"
  unfolding deliver_task_report_def pend_report_def
  by (intro local_journals [OF local_silent] traced_rules local_silent) (simp_all add: desk_events_def)

lemma silent_service: "silent (service_block env task attempt reason causation)"
  unfolding service_block_def service_report_def
  by (intro local_journals [OF local_silent] traced_rules local_silent silent_work silent_deliver) (simp_all add: desk_events_def)

lemma at_most_refuse: "at_most (PStr attempt, PInt index) (refuse env name attempt task index requested causation reason rc_reason t)"
  unfolding refuse_def
  by (intro once_rules silent_work at_most_silent [OF silent_work(3)] at_most_sq at_most_ledger_note traced_rules)
    (simp_all add: plain_fields_def)

lemma at_most_report_refused: "at_most (PStr attempt, PInt index) (report_refused env name attempt task index verb rc t)"
  unfolding report_refused_def
  by (intro once_rules silent_service at_most_silent [OF silent_work(3)] at_most_sq at_most_ledger_note
      local_journals [OF local_silent] traced_rules local_silent) (simp_all add: plain_fields_def desk_events_def)

lemma at_most_send_report: "at_most (PStr attempt, PInt index) (send_report env name attempt task index intent verb state t)"
  unfolding send_report_def
  by (intro once_rules silent_work at_most_report_refused at_most_silent [OF silent_work(3)] at_most_sq at_most_ledger_note
      local_journals [OF local_silent] traced_rules local_silent) (simp_all add: plain_fields_def)

lemma at_most_fresh_report: "at_most (PStr attempt, PInt index) (fresh_report env name attempt task data index intent t)"
  unfolding fresh_report_def Let_def
  by (intro once_rules at_most_refuse at_most_send_report at_most_silent [OF silent_work(2)] traced_rules local_silent)

text \<open>With a ledger record there, an intent journals none; without one, at most one.\<close>

lemma apply_delegate_once:
  "at_most (PStr attempt, PInt index) (apply_delegate env name attempt task data index intent None t)"
  "silent (apply_delegate env name attempt task data index intent (Some r) t)"
  unfolding apply_delegate_def option.case
  by (intro once_rules at_most_refuse at_most_silent [OF silent_work(2)] traced_rules)+

lemma at_most_pyval [once_rules]:
  "at_most k a \<Longrightarrow> (\<And>x. at_most k (b x)) \<Longrightarrow> (\<And>x. at_most k (i x)) \<Longrightarrow> (\<And>x. at_most k (f x)) \<Longrightarrow> (\<And>x. at_most k (s x)) \<Longrightarrow>
     (\<And>x. at_most k (l x)) \<Longrightarrow> (\<And>x. at_most k (d x)) \<Longrightarrow>
     at_most k (case v of PNone \<Rightarrow> a | PBool x \<Rightarrow> b x | PInt x \<Rightarrow> i x | PFloat x \<Rightarrow> f x | PStr x \<Rightarrow> s x | PList x \<Rightarrow> l x | PDict x \<Rightarrow> d x)"
  by (cases v) simp_all

lemma apply_report_once:
  "at_most (PStr attempt, PInt index) (apply_report env name attempt task data index intent None t)"
  "silent (apply_report env name attempt task data index intent (Some r) t)"
  unfolding apply_report_def option.case Let_def
  by (intro once_rules at_most_then at_most_fresh_report at_most_silent [OF silent_work(2)] traced_rules local_silent)
    (intro traced_rules local_silent)+

definition once :: "'a act \<Rightarrow> bool" where
  "once m = (\<forall>d. distinct (ledger_keys (d_records d)) \<longrightarrow> distinct (ledger_keys (d_records (snd (m d)))))"

lemma once_silent: "silent m \<Longrightarrow> once m"
  by (simp add: once_def silent_ledger)

lemma once_bnd: "once m \<Longrightarrow> (\<And>x. once (f x)) \<Longrightarrow> once (bnd m f)"
proof -
  assume m: "once m" and f: "\<And>x. once (f x)"
  show ?thesis unfolding once_def
  proof (intro allI impI)
    fix d :: desk
    assume "distinct (ledger_keys (d_records d))"
    moreover obtain r d' where md: "m d = (r, d')" by fastforce
    ultimately have "distinct (ledger_keys (d_records d'))" using m unfolding once_def by (metis snd_conv)
    then show "distinct (ledger_keys (d_records (snd (bnd m f d))))"
      using f md unfolding once_def by (cases r) (simp_all add: bnd_def)
  qed
qed

text \<open>The look-up comes just before, so the record is the first of its intent.\<close>

lemma once_looked_up:
  assumes "at_most (PStr attempt, PInt index) (f None)" and "\<And>r. silent (f (Some r))"
  shows "once (bnd (intent_ledger_record attempt index) f)"
  unfolding once_def
proof (intro allI impI)
  fix d :: desk
  assume ds: "distinct (ledger_keys (d_records d))"
  obtain prior where p: "intent_ledger_record attempt index d = (Inr prior, d)"
    by (simp add: intent_ledger_record_def latest_def look_at_def)
  show "distinct (ledger_keys (d_records (snd (bnd (intent_ledger_record attempt index) f d))))"
  proof (cases prior)
    case None
    have "(PStr attempt, PInt index) \<notin> set (ledger_keys (d_records d))"
      using undecided [of attempt index d d "d_records d"] p None by (simp add: decided_def)
    moreover have "ledger_keys (d_records (snd (f None d))) \<in> {ledger_keys (d_records d), ledger_keys (d_records d) @ [(PStr attempt, PInt index)]}"
      using assms(1) unfolding at_most_def by blast
    ultimately show ?thesis using p None ds by (auto simp: bnd_def)
  next
    case (Some r)
    then show ?thesis using p ds silent_ledger [OF assms(2)] by (simp add: bnd_def)
  qed
qed

lemma once_apply_intent: "once (apply_intent env name attempt task data index intent t)"
proof -
  let ?step = "\<lambda>prior. if dget intent ''verb'' = PStr (u ''delegate'') then apply_delegate env name attempt task data index intent prior t
    else apply_report env name attempt task data index intent prior t"
  have "at_most (PStr attempt, PInt index) (?step None)" "silent (?step (Some r))" for r
    using apply_delegate_once apply_report_once by simp_all
  then have "once (bnd (intent_ledger_record attempt index) ?step)" by (rule once_looked_up)
  moreover have "once (quarantined env name ''task_mismatch'' data)" by (rule once_silent [OF silent_work(2)])
  ultimately have "once (if \<not> matches then quarantined env name ''task_mismatch'' data
      else bnd (intent_ledger_record attempt index) ?step)" for matches
    by simp
  then show ?thesis
    unfolding apply_intent_def Let_def by (rule once_bnd [rotated]) (intro once_silent traced_rules)
qed

lemma once_apply_intents: "once (apply_intents env name attempt task data index vs t)"
proof (induction vs arbitrary: index t)
  case (Cons v vs)
  have "once (case s of Go t' \<Rightarrow> apply_intents env name attempt task data (index + 1) vs t' | _ \<Rightarrow> ret None)" for s
    using Cons.IH by (cases s) (auto intro: once_silent traced_ret)
  then show ?case by (auto intro!: once_bnd once_apply_intent)
qed (simp add: once_silent traced_ret)

lemma silent_finish: "silent (finish_intents env name context task attempt n t)"
  unfolding finish_intents_def own_messages_def Let_def
  by (intro local_journals [OF local_silent] traced_rules local_silent silent_deliver) (simp_all add: desk_events_def)

lemma once_if: "(b \<Longrightarrow> once m) \<Longrightarrow> (\<not> b \<Longrightarrow> once n) \<Longrightarrow> once (if b then m else n)"
  by simp

lemma once_cases:
  "(\<And>e. r = Inl e \<Longrightarrow> once (f e)) \<Longrightarrow> (\<And>x. r = Inr x \<Longrightarrow> once (g x)) \<Longrightarrow> once (case r of Inl e \<Rightarrow> f e | Inr x \<Rightarrow> g x)"
  by (cases r) simp_all

lemma once_option:
  "(v = None \<Longrightarrow> once m) \<Longrightarrow> (\<And>x. v = Some x \<Longrightarrow> once (k x)) \<Longrightarrow> once (case v of None \<Rightarrow> m | Some x \<Rightarrow> k x)"
  by (cases v) simp_all

lemma once_read:
  "once a \<Longrightarrow> once b \<Longrightarrow> (\<And>x. once (c x)) \<Longrightarrow> (\<And>x. once (k x)) \<Longrightarrow>
     once (case r of Missing \<Rightarrow> a | Fault \<Rightarrow> b | Unsafe x \<Rightarrow> c x | Content x \<Rightarrow> k x)"
  by (cases r) simp_all

lemma silent_refused_file: "silent (refused_file env name reason data)" "silent (intent_retry env name attempt why)"
  by (intro traced_rules local_silent)+

lemma once_apply_validated: "once (apply_validated env name context attempt data intents task)"
  unfolding apply_validated_def
  by (intro once_bnd once_cases once_option once_if once_apply_intents once_silent [OF silent_finish]
      once_silent [OF silent_refused_file(1)] once_silent [OF traced_lift] once_silent [OF traced_ret] once_silent [OF traced_fields(2)])

lemma once_apply_parsed: "once (apply_parsed env name context attempt data intents)"
proof -
  have "silent (case dget context ''task_id'' of PStr i \<Rightarrow> task_show env i | _ \<Rightarrow> ret None)" by (intro traced_rules)
  moreover have "silent (sq (intent_retry env name attempt (u ''task_lookup'')) (ret False))" by (intro traced_rules local_silent)
  ultimately show ?thesis
    unfolding apply_parsed_def
    by (intro once_bnd once_option once_if once_apply_validated once_silent [OF silent_refused_file(1)]) (simp_all add: once_silent)
qed

lemma once_apply_content: "once (apply_content env name context attempt data)"
proof -
  have "silent (sq (unlink_intent env name) (ret False))" by (intro traced_rules local_silent)
  then show ?thesis
    unfolding apply_content_def
    by (intro once_bnd once_cases once_if once_apply_parsed once_silent [OF silent_refused_file(1)] once_silent [OF traced_lift]
        once_silent [OF traced_looks(1)] once_silent [OF traced_looks(2)] once_silent [OF traced_record_look(4)]) (simp_all add: once_silent)
qed

lemma once_apply_intent_file: "once (apply_intent_file env name context close_attempt)"
proof -
  have close: "silent (when_do close_attempt (close_intent_attempt env attempt present digest))" for attempt present digest
    by (intro traced_rules local_silent)
  have closed: "once (sq (when_do close_attempt (close_intent_attempt env attempt present digest)) k)" if "once k" for attempt present digest and k :: "bool act"
    unfolding sq_def by (intro once_bnd once_silent [OF close] that)
  show ?thesis
    unfolding apply_intent_file_def
    by (intro once_bnd once_read closed once_apply_content once_silent [OF silent_refused_file(1)] once_silent [OF traced_ret]
        once_silent [OF traced_fields(2)] once_silent [OF traced_read_intent [OF local_silent]])
qed

text \<open>
  C29: No intent is decided twice. If every intent has at most one ledger record before the
  application of a file, each still has at most one afterwards, whichever way the application ends,
  and the records there were stay first; so a file applied again after a crash takes up where
  the journal says it was.
\<close>

theorem intents_decided_once:
  assumes "distinct (ledger_keys (d_records d))" and "apply_intent_file env name context close_attempt d = (r, d')"
  shows "distinct (ledger_keys (d_records d'))"
  using once_apply_intent_file assms unfolding once_def by (metis snd_conv)

section \<open>Retries end\<close>

definition is_tainted :: "pystr \<Rightarrow> desk \<Rightarrow> bool" where
  "is_tainted attempt d = (By_attempt attempt \<in> set (tainted_keys (d_records d)))"

lemma tainted_later: "is_tainted a d \<Longrightarrow> d_records d' = d_records d @ rs \<Longrightarrow> is_tainted a d'"
  by (auto simp: is_tainted_def tainted_keys_def)

text \<open>The index a scan passes down agrees with the journal.\<close>

definition index_agrees :: "pystr \<Rightarrow> desk \<Rightarrow> bool" where
  "index_agrees a d = (case d_index d of None \<Rightarrow> True | Some ks \<Rightarrow> (By_attempt a \<in> set ks) = is_tainted a d)"

lemma agrees_later:
  assumes "is_tainted a d" and "index_agrees a d" and "d_index d' = d_index d" and "d_records d' = d_records d @ rs"
  shows "is_tainted a d'" and "index_agrees a d'"
  using assms tainted_later [OF assms(1,4)] by (simp_all add: index_agrees_def split: option.splits)

lemma intent_name_identity:
  assumes "fullmatch TOKEN_RE a"
  shows "intent_identity (intent_name a) False = [(u ''attempt_id'', PStr a)]" and "\<not> bad_intent_name (intent_name a)"
proof -
  have "endswith (intent_name a) (u ''.jsonl'')" by (auto simp: intent_name_def endswith_iff)
  moreover have "take (length (intent_name a) - 6) (intent_name a) = a" by (simp add: intent_name_def u_def)
  ultimately show "intent_identity (intent_name a) False = [(u ''attempt_id'', PStr a)]" "\<not> bad_intent_name (intent_name a)"
    using assms by (simp_all add: intent_identity_def intent_stem_def bad_intent_name_def)
qed

lemma run_bnd: "m d = (Inr x, d') \<Longrightarrow> bnd m f d = f x d'"
  by (simp add: bnd_def)

lemma run_sq: "m d = (Inr (), d') \<Longrightarrow> sq m k d = k d'"
  by (simp add: sq_def bnd_def)

lemma traced_records:
  assumes "traced [] C E m" and "m d = (r, d')" shows "\<exists>rs. d_records d' = d_records d @ rs"
  by (rule tracedD [OF assms]) auto

lemma seen_when_tainted:
  assumes "index_agrees a d"
  shows "taint_seen [(u ''attempt_id'', PStr a)] d = (Inr (is_tainted a d), d)"
  using assms by (simp add: taint_seen_def look_at_def taint_key_def is_tainted_def index_agrees_def split: option.splits)

lemma open_dirs_returns: "\<exists>x d'. open_private_dirs env name d = (Inr x, d') \<and> d_records d' = d_records d \<and> d_index d' = d_index d"
  by (simp add: open_private_dirs_def bnd_def ask_def ret_def)

lemma unlink_returns: "\<exists>d'. unlink_intent env name d = (Inr (), d') \<and> d_records d' = d_records d \<and> d_index d' = d_index d"
  by (auto simp: unlink_intent_def open_private_dirs_def bnd_def ask_def ret_def tell_def split: dirs.splits)

lemma read_returns: "\<exists>x d'. read_intent env name d = (Inr x, d') \<and> d_records d' = d_records d \<and> d_index d' = d_index d"
  by (simp add: read_intent_def open_private_dirs_def bnd_def ask_def ret_def)

lemma jot_returns: "\<exists>d'. jot env ev fs d = (Inr (), d') \<and> d_index d' = d_index d \<and> (\<exists>rs. d_records d' = d_records d @ rs)"
  by (simp add: jot_def)

text \<open>A file of a tainted attempt is unlinked, and that is all.\<close>

lemma tainted_quarantine:
  assumes "is_tainted a d" and "index_agrees a d" and "fullmatch TOKEN_RE a" and "reason \<noteq> ''invalid_name''"
  shows "\<exists>d'. quarantine_intent env (intent_name a) reason level evidence d = (Inr (), d')"
proof -
  obtain d1 where d1: "unlink_intent env (intent_name a) d = (Inr (), d1)"
    using unlink_returns by metis
  show ?thesis
    using d1 jot_returns [of env "''intents.tainted_replay''" _ d1] assms(1,4) seen_when_tainted [OF assms(2)]
    by (simp add: quarantine_intent_def intent_name_identity [OF assms(3)] Let_def record_exists_def bnd_def sq_def look_at_def
        when_do_def ret_def) blast
qed

text \<open>A refusal taints the attempt, unless it is tainted already.\<close>

lemma store_returns:
  "\<exists>x d'. store_evidence env name ident evidence d = (Inr x, d') \<and> d_records d' = d_records d \<and> d_index d' = d_index d"
  by (auto simp: store_evidence_def save_evidence_def open_private_dirs_def bnd_def ask_def ret_def tell_def sq_def
      split: dirs.splits quarantine_dir.splits option.splits dir_entry.splits)

lemma quarantine_taints:
  assumes "fullmatch TOKEN_RE a" and "reason \<noteq> ''invalid_name''" and "index_agrees a d"
    and "quarantine_intent env (intent_name a) reason level evidence d = (r, d')"
  shows "is_tainted a d'"
proof (cases "is_tainted a d")
  case True
  have "traced [] (\<lambda>_. True) desk_record (quarantine_intent env (intent_name a) reason level evidence)"
    by (intro traced_rules local_silent)
  then obtain rs where "d_records d' = d_records d @ rs" using traced_records [where m = "quarantine_intent env (intent_name a) reason level evidence" and d = d] assms(4) by blast
  with True show ?thesis by (rule tainted_later)
next
  case False
  have seen: "taint_seen [(u ''attempt_id'', PStr a)] d = (Inr False, d)"
    using False seen_when_tainted [OF assms(3)] by simp
  obtain data stored d1 where d1: "store_evidence env (intent_name a) [(u ''attempt_id'', PStr a)] evidence d = (Inr (data, stored), d1)"
    "d_records d1 = d_records d" using store_returns by (metis surj_pair)
  let ?ident = "[(u ''attempt_id'', PStr a)]"
  let ?d2 = "snd (jot env ''intents.tainted'' ((u ''reason'', PStr (u reason)) # ?ident) d1)"
  let ?rest = "sq (add_index (taint_key ?ident))
           (sq (when_do (\<not> stored) (jot env ''attention'' ([(u ''reason'', PStr (u ''quarantine_capacity'')),
                (u ''size'', PInt (int (length data))), (u ''sha256'', PStr (sha_hex data))] @ ?ident)))
             (raise_level env level reason ?ident))"
  have q: "quarantine_intent env (intent_name a) reason level evidence d = ?rest ?d2"
    using assms(2) d1(1) seen
    by (simp add: quarantine_intent_def quarantine_new_def intent_name_identity [OF assms(1)] Let_def bnd_def sq_def jot_def)
  have "traced [] (\<lambda>_. True) desk_record ?rest"
    by (intro local_journals [OF local_silent] traced_rules local_silent) (simp_all add: desk_events_def)
  then obtain rs where rs: "d_records d' = d_records ?d2 @ rs"
    using traced_records [where m = ?rest and d = ?d2] assms(4) unfolding q by blast
  have "is_tainted a ?d2"
    by (simp add: jot_def is_tainted_def tainted_keys_def is_event_def event_of_numbered taint_key_def numbered_def dget_def)
  then show ?thesis using rs by (rule tainted_later)
qed

lemma tainted_refused:
  assumes "is_tainted a d" and "index_agrees a d" and "fullmatch TOKEN_RE a" and "reason \<noteq> ''invalid_name''"
  shows "\<exists>d'. refused_file env (intent_name a) reason data d = (Inr False, d')"
  using tainted_quarantine [OF assms, of env Security "Some data"] by (auto simp: refused_file_def sq_def bnd_def ret_def)

lemma close_returns:
  "\<exists>d'. when_do b (close_intent_attempt env a present digest) d = (Inr (), d') \<and> d_index d' = d_index d \<and> (\<exists>rs. d_records d' = d_records d @ rs)"
  by (auto simp: when_do_def close_intent_attempt_def closed_intent_def latest_def bnd_def look_at_def ret_def jot_def)

text \<open>For a tainted attempt the application only reads, closes and refuses.\<close>

definition refuse_only :: "env \<Rightarrow> pystr \<Rightarrow> bool \<Rightarrow> bool act" where
  "refuse_only env a close_attempt = bnd (read_intent env (intent_name a)) (\<lambda>r. case r of
         Missing \<Rightarrow> sq (when_do close_attempt (close_intent_attempt env a False [])) (ret False)
       | Unsafe evidence \<Rightarrow> sq (when_do close_attempt (close_intent_attempt env a True []))
           (refused_file env (intent_name a) ''invalid_intent'' evidence)
       | Fault \<Rightarrow> sq (when_do close_attempt (close_intent_attempt env a True []))
           (refused_file env (intent_name a) ''invalid_intent'' [])
       | Content data \<Rightarrow> sq (when_do close_attempt (close_intent_attempt env a True (sha_hex data)))
           (refused_file env (intent_name a) ''tainted_replay'' data))"

lemma tainted_file_refused:
  assumes "is_tainted a d" and "index_agrees a d" and "fullmatch TOKEN_RE a" and "dget context ''attempt_id'' = PStr a"
  shows "apply_intent_file env (intent_name a) context close_attempt d = refuse_only env a close_attempt d"
    and "\<exists>d'. refuse_only env a close_attempt d = (Inr False, d')"
proof -
  obtain x d1 where d1: "read_intent env (intent_name a) d = (Inr x, d1)" "d_records d1 = d_records d" "d_index d1 = d_index d"
    using read_returns by metis
  have closed: "\<exists>d2. when_do close_attempt (close_intent_attempt env a present digest) d1 = (Inr (), d2) \<and> is_tainted a d2 \<and> index_agrees a d2"
    for present digest
    using close_returns [of close_attempt env a present digest d1] d1(2,3) agrees_later [OF assms(1,2)] by (metis (no_types, lifting))
  have content: "apply_content env (intent_name a) context a data d2 = refused_file env (intent_name a) ''tainted_replay'' data d2"
    if "is_tainted a d2" "index_agrees a d2" for data d2
    using seen_when_tainted [OF that(2)] that(1)
    by (simp add: apply_content_def closed_intent_def latest_def bnd_def look_at_def intent_name_identity [OF assms(3)])
  have refused: "\<exists>d3. refused_file env (intent_name a) reason data d2 = (Inr False, d3)"
    if "is_tainted a d2" "index_agrees a d2" "reason \<noteq> ''invalid_name''" for reason data d2
    by (rule tainted_refused [OF that(1,2) assms(3) that(3)])
  have eq: "apply_intent_file env (intent_name a) context close_attempt = bnd (read_intent env (intent_name a)) (\<lambda>r. case r of
         Missing \<Rightarrow> sq (when_do close_attempt (close_intent_attempt env a False [])) (ret False)
       | Unsafe evidence \<Rightarrow> sq (when_do close_attempt (close_intent_attempt env a True []))
           (refused_file env (intent_name a) ''invalid_intent'' evidence)
       | Fault \<Rightarrow> sq (when_do close_attempt (close_intent_attempt env a True []))
           (refused_file env (intent_name a) ''invalid_intent'' [])
       | Content data \<Rightarrow> sq (when_do close_attempt (close_intent_attempt env a True (sha_hex data)))
           (apply_content env (intent_name a) context a data))"
    unfolding apply_intent_file_def by (rule attempt_field [OF assms(4)])
  show "apply_intent_file env (intent_name a) context close_attempt d = refuse_only env a close_attempt d"
  proof (cases x)
    case (Content data)
    then show ?thesis using d1(1) closed [of True "sha_hex data"] content by (auto simp: eq refuse_only_def bnd_def sq_def)
  qed (use d1(1) in \<open>simp_all add: eq refuse_only_def bnd_def\<close>)
  show "\<exists>d'. refuse_only env a close_attempt d = (Inr False, d')"
  proof (cases x)
    case Missing
    then show ?thesis using d1(1) closed [of False "[]"] by (auto simp: refuse_only_def bnd_def sq_def ret_def)
  next
    case Fault
    then show ?thesis using d1(1) closed [of True "[]"] refused by (fastforce simp: refuse_only_def bnd_def sq_def)
  next
    case (Unsafe ev)
    then show ?thesis using d1(1) closed [of True "[]"] refused by (fastforce simp: refuse_only_def bnd_def sq_def)
  next
    case (Content data)
    then show ?thesis using d1(1) closed [of True "sha_hex data"] refused by (fastforce simp: refuse_only_def bnd_def sq_def)
  qed
qed

lemma refuse_only_local: "traced [] local_call desk_record (refuse_only env a close_attempt)"
proof -
  have "local_work local_call desk_record" by (simp add: local_work_def)
  then show ?thesis unfolding refuse_only_def by (intro traced_rules)
qed

lemma fifth_retry_taints:
  assumes "fullmatch TOKEN_RE a" and "index_agrees a d" and "4 \<le> length (filter (of_attempt ''intent.retry'' a) (d_records d))"
    and "intent_retry env (intent_name a) a reason d = (r, d')"
  shows "is_tainted a d'"
proof -
  let ?n = "length (filter (of_attempt ''intent.retry'' a) (d_records d))"
  let ?d1 = "snd (jot env ''intent.retry'' [(u ''attempt_id'', PStr a), (u ''n'', PInt (int ?n + 1)), (u ''reason'', PStr reason)] d)"
  have "quarantine_intent env (intent_name a) ''apply_exhausted'' Engine None ?d1 = (r, d')"
    using assms(3,4) by (simp add: intent_retry_def record_count_def bnd_def look_at_def sq_def when_do_def jot_def)
  moreover have "is_tainted a ?d1 = is_tainted a d"
    by (simp add: jot_def is_tainted_def tainted_keys_def is_event_def event_of_numbered)
  then have "index_agrees a ?d1" using assms(2) by (simp add: index_agrees_def jot_def split: option.splits)
  moreover have "''apply_exhausted'' \<noteq> ''invalid_name''" by simp
  ultimately show ?thesis
    using quarantine_taints [where a = a and reason = "''apply_exhausted''" and d = ?d1 and level = Engine and evidence = None and env = env and r = r and d' = d']
      assms(1) by simp
qed

text \<open>
  The retries of an intent file end. The fifth retry of an attempt quarantines its file and
  taints the attempt for good: at any later time, whatever file of that attempt shows up, its
  application returns without applying anything and sends no task or message command.
\<close>

theorem fifth_retry_is_last:
  assumes "fullmatch TOKEN_RE a" and "index_agrees a d" and "4 \<le> length (filter (of_attempt ''intent.retry'' a) (d_records d))"
    and "intent_retry env (intent_name a) a reason d = (r, d1)"
    and "d_records d2 = d_records d1 @ later" and "index_agrees a d2" and "dget context ''attempt_id'' = PStr a"
  shows "\<exists>d3 cs. apply_intent_file env (intent_name a) context close_attempt d2 = (Inr False, d3) \<and>
     d_calls d3 = d_calls d2 @ cs \<and> list_all local_call cs \<and> is_tainted a d3"
proof -
  have t: "is_tainted a d2" by (rule tainted_later [OF fifth_retry_taints [OF assms(1-4)] assms(5)])
  note refused = tainted_file_refused [OF t assms(6,1,7)]
  from refused(2) obtain d3 where d3: "refuse_only env a close_attempt d2 = (Inr False, d3)" by blast
  obtain cs rs where "d_calls d3 = d_calls d2 @ cs" "d_records d3 = d_records d2 @ rs" "list_all local_call cs"
    by (rule tracedD [OF refuse_only_local d3]) auto
  with refused(1) d3 t show ?thesis using tainted_later by metis
qed

section \<open>Witnesses\<close>

text \<open>A worker has reported progress on its task; the ledger takes every event.\<close>

definition smp_shown_task :: pydict where
  "smp_shown_task = [(u ''task_id'', PStr (u ''t-aaaaaaaaaaaa'')), (u ''run_id'', PStr (u ''r-aaaaaaaaaaaa'')),
     (u ''state'', PStr (u ''IN_PROGRESS''))]"

definition smp_intent_dir :: private_dir where
  "smp_intent_dir = \<lparr>p_opens = True, p_aib = (1001, 448), p_intents = (1001, 448), p_gids = (1001, 1001),
     p_euid = 1001, p_new_gid = 1001, p_room = 65536,
     p_files = [(intent_name (u ''a1''), Inode \<lparr>f_regular = True, f_uid = 1001, f_gid = 1001, f_nlink = 1, f_mode = 384,
       f_data = map byte (json_dumps (\<lambda>_. []) False (PDict (intent_record (u ''a1'')
         (Intent_Progress (u ''t-aaaaaaaaaaaa'') (u ''half'')))) @ [10])\<rparr>)], p_board = None\<rparr>"

definition smp_reply :: "pystr list \<Rightarrow> int \<times> pystr" where
  "smp_reply argv = (if hd argv \<noteq> u ''show'' then (0, [])
     else if last argv = u ''t-aaaaaaaaaaaa'' then (0, json_dumps (\<lambda>_. []) False (PDict smp_shown_task)) else (1, []))"

definition smp_desk_env :: env where
  "smp_desk_env = \<lparr>e_uid = u ''w-1'', e_team = u ''t1'', e_project = u ''p1'', e_registry = [], e_role = (1001, 1001), e_poll = 1,
     e_base_branch = u ''main'', e_str = (\<lambda>_. []), e_when = (\<lambda>_. None), e_iso = (\<lambda>_. []), e_stamp = (\<lambda>_. []), e_now = (\<lambda>_. 0),
     e_uuid = (\<lambda>_. u ''c1''), e_task = (\<lambda>_. smp_reply), e_message = (\<lambda>_ _. (0, [])), e_dirs = (\<lambda>_. Dirs smp_intent_dir),
     e_nodes = (\<lambda>_. []), e_quarantine = (\<lambda>_. Quarantine 0 0), e_saved = (\<lambda>_. True), e_outbox = (\<lambda>_. True), e_ref = (\<lambda>_. Inr True)\<rparr>"

definition smp_context :: pydict where
  "smp_context = [(u ''attempt_id'', PStr (u ''a1'')), (u ''task_id'', PStr (u ''t-aaaaaaaaaaaa'')),
     (u ''run_id'', PStr (u ''r-aaaaaaaaaaaa'')), (u ''msg_id'', PStr (u ''m1''))]"

definition smp_desk :: desk where
  "smp_desk = \<lparr>d_records = map (\<lambda>n. numbered n [] (u ''intent.retry'') [(u ''attempt_id'', PStr (u ''a1'')), (u ''n'', PInt n)]) [1, 2, 3, 4],
     d_calls = [], d_index = None, d_cursor = []\<rparr>"

lemma smp_task_parses: "json_loads dict_hook (json_dumps (\<lambda>_. []) False (PDict smp_shown_task)) = Inr (PDict smp_shown_task)"
  by code_simp

lemma smp_shows: "shows_by_id smp_desk_env"
proof -
  have "dget d ''task_id'' = PStr i"
    if "smp_reply [u ''show'', u ''--project'', u ''p1'', i] = (0, out)" "json_loads dict_hook out = Inr (PDict d)" for i out d
  proof -
    from that(1) have "i = u ''t-aaaaaaaaaaaa''" "out = json_dumps (\<lambda>_. []) False (PDict smp_shown_task)"
      by (auto simp: smp_reply_def split: if_splits)
    moreover with that(2) smp_task_parses have "d = smp_shown_task" by simp
    ultimately show ?thesis by (simp add: smp_shown_task_def dget_def)
  qed
  then show ?thesis by (auto simp: shows_by_id_def smp_desk_env_def)
qed

lemma smp_context_fields:
  "dget smp_context ''attempt_id'' = PStr (u ''a1'')" "dget smp_context ''task_id'' = PStr (u ''t-aaaaaaaaaaaa'')"
  by code_simp+

lemma smp_token: "fullmatch TOKEN_RE (u ''a1'')"
  by code_simp

text \<open>The file is there and is the worker's.\<close>

lemma smp_file: "case read_intent smp_desk_env (intent_name (u ''a1'')) smp_desk of (Inr (Content _), _) \<Rightarrow> True | _ \<Rightarrow> False"
  by code_simp

theorem intents_are_confined_witness:
  "case apply_intent_file smp_desk_env (intent_name (u ''a1'')) smp_context False smp_desk of (r, d') \<Rightarrow>
     \<exists>cs rs. d_calls d' = d_calls smp_desk @ cs \<and> d_records d' = d_records smp_desk @ rs \<and>
       list_all (confined_call smp_desk_env (u ''a1'') (u ''t-aaaaaaaaaaaa'') (dget smp_context ''msg_id'')
         (decided (d_records smp_desk) (u ''a1''))) cs"
  using intents_are_confined [OF smp_shows smp_context_fields, where name = "intent_name (u ''a1'')" and close_attempt = False and d = smp_desk]
  by (auto split: prod.splits)

theorem intents_decided_once_witness:
  "distinct (ledger_keys (d_records (snd (apply_intent_file smp_desk_env (intent_name (u ''a1'')) smp_context False smp_desk))))"
proof -
  have "ledger_keys (d_records smp_desk) = []" by code_simp
  then show ?thesis using intents_decided_once [where d = smp_desk] by (metis distinct.simps(1) prod.collapse)
qed

theorem fifth_retry_is_last_witness:
  "case snd (intent_retry smp_desk_env (intent_name (u ''a1'')) (u ''a1'') (u ''stream_lock'') smp_desk)\<lparr>d_index := None\<rparr> of d2 \<Rightarrow>
     \<exists>d3 cs. apply_intent_file smp_desk_env (intent_name (u ''a1'')) smp_context True d2 = (Inr False, d3) \<and>
       d_calls d3 = d_calls d2 @ cs \<and> list_all local_call cs \<and> is_tainted (u ''a1'') d3"
proof -
  let ?run = "intent_retry smp_desk_env (intent_name (u ''a1'')) (u ''a1'') (u ''stream_lock'') smp_desk"
  let ?d2 = "snd ?run\<lparr>d_index := None\<rparr>"
  have "index_agrees (u ''a1'') smp_desk" by (simp add: index_agrees_def smp_desk_def)
  moreover have "4 \<le> length (filter (of_attempt ''intent.retry'' (u ''a1'')) (d_records smp_desk))" by code_simp
  moreover have "?run = (fst ?run, snd ?run)" "d_records ?d2 = d_records (snd ?run) @ []" by simp_all
  moreover have "index_agrees (u ''a1'') ?d2" by (simp add: index_agrees_def)
  ultimately have "\<exists>d3 cs. apply_intent_file smp_desk_env (intent_name (u ''a1'')) smp_context True ?d2 = (Inr False, d3) \<and>
       d_calls d3 = d_calls ?d2 @ cs \<and> list_all local_call cs \<and> is_tainted (u ''a1'') d3"
    by (rule fifth_retry_is_last [OF smp_token _ _ _ _ _ smp_context_fields(1)])
  then show ?thesis by simp
qed

end
