(* ===== verification/DashReader.thy ===== *)
theory DashReader
  imports TaskViews SupMemory
begin

text \<open>
  The read side of the dashboard (\<open>dashboard/reader.py\<close>): which projection files it accepts, how
  it replaces supervisor and account data of the wrong shape, and the fleet overview. The file
  system answers by \<open>entry\<close> values; ISO timestamps are read by a parameter. \<open>RecursionError\<close> is
  not modelled.
\<close>

section \<open>Shapes\<close>

type_synonym check = "pyval \<Rightarrow> bool"

definition instant :: "(pystr \<Rightarrow> iso_time option) \<Rightarrow> pyval \<Rightarrow> exn + rat" where
  "instant clock v = (case v of
       PStr s \<Rightarrow> (case clock (replace_z s) of
           None \<Rightarrow> Inl (ValueError (u ''isoformat''))
         | Some Naive \<Rightarrow> Inl (ValueError (u ''timestamp without offset''))
         | Some (Aware t) \<Rightarrow> Inr t)
     | _ \<Rightarrow> Inl (ValueError (u ''missing timestamp'')))"

definition is_instant :: "(pystr \<Rightarrow> iso_time option) \<Rightarrow> check" where
  "is_instant clock v = (case instant clock v of Inr _ \<Rightarrow> True | Inl _ \<Rightarrow> False)"

definition null_or :: "check \<Rightarrow> check" where
  "null_or chk v = (v = PNone \<or> chk v)"

definition bounded_text :: check where
  "bounded_text v = (case v of PStr s \<Rightarrow> length s \<le> 200 | _ \<Rightarrow> False)"

definition count_value :: check where
  "count_value v = (case v of PInt n \<Rightarrow> 0 \<le> n | _ \<Rightarrow> False)"

definition is_flag :: check where
  "is_flag v = (case v of PBool _ \<Rightarrow> True | _ \<Rightarrow> False)"

definition list_of :: "check \<Rightarrow> check" where
  "list_of chk v = (case v of PList xs \<Rightarrow> list_all chk xs | _ \<Rightarrow> False)"

definition has_fields :: "(string \<times> check) list \<Rightarrow> check" where
  "has_fields shape v = (case v of PDict d \<Rightarrow> list_all (\<lambda>(k, chk). has_key d k \<and> chk (dget d k)) shape | _ \<Rightarrow> False)"

definition exact_fields :: "(string \<times> check) list \<Rightarrow> check" where
  "exact_fields shape v = (has_fields shape v \<and> (case v of PDict d \<Rightarrow> set (map fst d) = set (map (u \<circ> fst) shape) | _ \<Rightarrow> False))"

definition AGENT_STATES :: "string list" where
  "AGENT_STATES = [''busy'', ''idle'', ''blocked'', ''done'', ''unknown'']"

definition SESSION_STATES :: "string list" where
  "SESSION_STATES = [''READY'', ''WORKING'', ''WAITING'', ''STOPPING'', ''ORPHANED'', ''FAILED'', ''OFFLINE'']"

definition ACCOUNT_STATES :: "string list" where
  "ACCOUNT_STATES = [''absent'', ''ok'', ''expiring'', ''expired'', ''pending'']"

definition CONTROL_VERBS :: "string list" where
  "CONTROL_VERBS = [''status'', ''neustart'', ''feierabend'', ''standup'', ''abschalten'', ''start'', ''reset-brake'', ''say'', ''attach'']"

definition one_of :: "string list \<Rightarrow> check" where
  "one_of xs v = in_tuple v xs"

definition any_value :: check where
  "any_value v = True"

section \<open>The projection\<close>

definition binding_shape :: check where
  "binding_shape = has_fields [(''requested'', null_or is_str), (''resolved'', null_or is_str), (''effective'', null_or is_str),
     (''source'', null_or is_str)]"

definition launch_shape :: check where
  "launch_shape = has_fields [(''provider'', binding_shape), (''model'', binding_shape), (''effort'', binding_shape),
     (''sandbox'', has_fields [(''requested'', null_or is_str), (''effective'', null_or is_str)]),
     (''adapter'', has_fields [(''source'', null_or is_str)]), (''reasons'', is_str), (''attested'', (\<lambda>v. v = PBool True))]"

definition attempt_shape :: "(pystr \<Rightarrow> iso_time option) \<Rightarrow> check" where
  "attempt_shape clock = has_fields [(''id'', is_str), (''decided_at'', is_instant clock), (''decision'', one_of [''allow'', ''deny'']),
     (''open'', is_flag), (''last'', has_fields [(''class'', null_or is_str), (''stage'', null_or is_str), (''ended_at'', null_or (is_instant clock))])]"

definition short_text :: check where
  "short_text v = (case v of PStr s \<Rightarrow> length s \<le> 4 | _ \<Rightarrow> False)"

definition account_shape :: "(pystr \<Rightarrow> iso_time option) \<Rightarrow> check" where
  "account_shape clock = has_fields [(''provider'', bounded_text), (''state'', one_of ACCOUNT_STATES), (''label'', bounded_text),
     (''id_hint'', short_text), (''expires_at'', null_or (is_instant clock)), (''checked_at'', null_or (is_instant clock))]"

definition positive_count :: check where
  "positive_count v = (case v of PInt n \<Rightarrow> 1 \<le> n | _ \<Rightarrow> False)"

definition control_shape :: "(pystr \<Rightarrow> iso_time option) \<Rightarrow> check" where
  "control_shape clock = exact_fields [(''req'', positive_count), (''verb'', one_of CONTROL_VERBS),
     (''outcome'', one_of [''done'', ''rejected'', ''accepted'']), (''reason'', bounded_text), (''at'', is_instant clock)]"

definition at_most_five :: "check \<Rightarrow> check" where
  "at_most_five chk v = (list_of chk v \<and> (case v of PList xs \<Rightarrow> length xs \<le> 5 | _ \<Rightarrow> False))"

definition supervisor_shape :: "(pystr \<Rightarrow> iso_time option) \<Rightarrow> check" where
  "supervisor_shape clock = has_fields [(''mode'', one_of [''supervised'']), (''account'', any_value), (''unit_state'', bounded_text),
     (''disabled'', is_flag), (''session_state'', one_of SESSION_STATES), (''state_reason'', bounded_text),
     (''health'', one_of [''healthy'', ''unhealthy'']), (''tick_seq'', null_or count_value), (''tick_age_s'', null_or count_value),
     (''current_turn'', null_or (has_fields [(''msg_id'', bounded_text), (''started_at'', is_instant clock), (''attempt_id'', bounded_text)])),
     (''session_id_short'', null_or bounded_text), (''turns_in_session'', count_value), (''restarts_24h'', count_value),
     (''brake'', has_fields [(''consecutive'', count_value), (''tripped_at'', null_or (is_instant clock))]), (''off_duty'', is_flag),
     (''inbox_open'', count_value), (''last_control'', at_most_five (control_shape clock)), (''journal_seq'', count_value)]"

definition agent_shape :: "(pystr \<Rightarrow> iso_time option) \<Rightarrow> check" where
  "agent_shape clock = has_fields [(''state'', one_of AGENT_STATES), (''since'', null_or (is_instant clock)), (''message'', is_str),
     (''stale'', is_flag), (''attested'', (\<lambda>v. v = PBool False)), (''attempt'', null_or (attempt_shape clock)),
     (''launch'', null_or launch_shape)]"

definition stream_shape :: check where
  "stream_shape = has_fields [(''status'', one_of [''ok'', ''corrupt'', ''absent'', ''unreadable'']), (''last_seq'', count_value),
     (''anchor'', has_fields [(''value'', null_or count_value), (''relationship'', one_of [''ok'', ''lag'', ''ahead'', ''absent''])]),
     (''torn_tail'', is_flag), (''undecodable_records'', list_of count_value)]"

definition capacity_shape :: "(pystr \<Rightarrow> iso_time option) \<Rightarrow> check" where
  "capacity_shape clock = has_fields [(''limit'', positive_count), (''live'', null_or count_value), (''as_of'', null_or (is_instant clock))]"

definition attention_shape :: "(pystr \<Rightarrow> iso_time option) \<Rightarrow> check" where
  "attention_shape clock = list_of (has_fields [(''kind'', is_str), (''agent'', null_or is_str), (''reason'', is_str),
     (''since'', is_instant clock), (''attested'', is_flag)])"

definition schema_value :: check where
  "schema_value v = (case v of PInt n \<Rightarrow> 2 \<le> n | _ \<Rightarrow> False)"

definition agents_shape :: "(pystr \<Rightarrow> iso_time option) \<Rightarrow> check" where
  "agents_shape clock v = (case v of PDict d \<Rightarrow> list_all (\<lambda>(k, a). agent_shape clock a) d | _ \<Rightarrow> False)"

definition projection :: "(pystr \<Rightarrow> iso_time option) \<Rightarrow> pystr \<Rightarrow> check" where
  "projection clock uid = has_fields [(''schema'', schema_value), (''generated_at'', is_instant clock), (''project_uid'', (\<lambda>v. v = PStr uid)),
     (''attested_sources'', list_of is_str), (''stream'', stream_shape), (''capacity'', capacity_shape clock),
     (''attention'', attention_shape clock), (''agents'', agents_shape clock),
     (''anomalies'', has_fields [(''unregistered_logs'', count_value), (''unparsable_lines'', count_value), (''uid_mismatches'', count_value),
        (''undecodable_records'', count_value), (''launch_malformed'', count_value)])]"

section \<open>Supervisor data\<close>

text \<open>Data of the wrong shape is replaced by \<open>False\<close>, first for the supervisor, then for its account.\<close>

definition sanitize_account :: "(pystr \<Rightarrow> iso_time option) \<Rightarrow> pydict \<Rightarrow> pydict" where
  "sanitize_account clock s = (if dget s ''account'' \<noteq> PNone \<and> \<not> account_shape clock (dget s ''account'')
     then dset (u ''account'') (PBool False) s else s)"

definition sanitize_agent :: "(pystr \<Rightarrow> iso_time option) \<Rightarrow> pyval \<Rightarrow> pyval" where
  "sanitize_agent clock a = (case a of PDict d \<Rightarrow>
       if dget d ''supervisor'' = PNone then a
       else if \<not> supervisor_shape clock (dget d ''supervisor'') then PDict (dset (u ''supervisor'') (PBool False) d)
       else (case dget d ''supervisor'' of PDict s \<Rightarrow> PDict (dset (u ''supervisor'') (PDict (sanitize_account clock s)) d) | _ \<Rightarrow> a)
     | _ \<Rightarrow> a)"

definition sanitize_supervisors :: "(pystr \<Rightarrow> iso_time option) \<Rightarrow> pydict \<Rightarrow> pydict" where
  "sanitize_supervisors clock p = (case dget p ''agents'' of
       PDict as \<Rightarrow> dset (u ''agents'') (PDict (map (\<lambda>(k, a). (k, sanitize_agent clock a)) as)) p
     | _ \<Rightarrow> p)"

section \<open>Files\<close>

definition TOKEN_DASH :: re where
  "TOKEN_DASH = Seq (Cls [(97, 122), (48, 57)]) (Alt Eps (Seq (Star (Cls [(97, 122), (48, 57), (45, 45)])) (Cls [(97, 122), (48, 57)])))"

definition unique_hook :: hook where
  "unique_hook ps = (if distinct (map fst ps) then Inr (PDict ps) else Inl (ValueError (u ''duplicate key'')))"

fun finite_value :: "pyval \<Rightarrow> bool" where
  "finite_value (PFloat f) = (case f of Finite _ _ \<Rightarrow> True | _ \<Rightarrow> False)"
| "finite_value (PList xs) = list_all finite_value xs"
| "finite_value (PDict d) = list_all (\<lambda>(k, v). finite_value v) d"
| "finite_value _ = True"

text \<open>
  \<open>parse_constant\<close> refuses the non-finite literals and \<open>allow_nan\<close> a float that overflowed. Every
  error of this step is one of the four the code catches.
\<close>

definition parse_projection :: "(pyfloat \<Rightarrow> pystr) \<Rightarrow> bytes \<Rightarrow> exn + pyval" where
  "parse_projection fr raw = bind_res (utf8_decode raw) (\<lambda>t. bind_res (json_loads unique_hook t) (\<lambda>v.
     if \<not> finite_value v then Inl (ValueError (u ''nonfinite''))
     else bind_res (utf8_encode (json_dumps fr False v)) (\<lambda>_. Inr v)))"

datatype entry = Absent_entry | Closed_entry | Special_entry | File_entry bytes

definition read_at :: "(pystr \<Rightarrow> iso_time option) \<Rightarrow> (pyfloat \<Rightarrow> pystr) \<Rightarrow> (pystr \<Rightarrow> entry) \<Rightarrow> pystr \<Rightarrow> string + pydict" where
  "read_at clock fr dir uid =
     (if \<not> fullmatch TOKEN_DASH uid then Inl ''invalid_uid''
      else case dir (uid @ u ''.json'') of
          Absent_entry \<Rightarrow> Inl ''missing''
        | Closed_entry \<Rightarrow> Inl ''unreadable''
        | Special_entry \<Rightarrow> Inl ''unreadable''
        | File_entry raw \<Rightarrow> (case parse_projection fr raw of
              Inl _ \<Rightarrow> Inl ''unparsable''
            | Inr v \<Rightarrow> if projection clock uid v then (case v of PDict p \<Rightarrow> Inr (sanitize_supervisors clock p) | _ \<Rightarrow> Inl ''schema'')
                else Inl ''schema''))"

definition read_project ::
  "(pystr \<Rightarrow> iso_time option) \<Rightarrow> (pyfloat \<Rightarrow> pystr) \<Rightarrow> (pystr \<Rightarrow> entry) option \<Rightarrow> pystr \<Rightarrow> string + pydict" where
  "read_project clock fr dir uid =
     (if \<not> fullmatch TOKEN_DASH uid then Inl ''invalid_uid''
      else case dir of None \<Rightarrow> Inl ''root_unavailable'' | Some r \<Rightarrow> read_at clock fr r uid)"

section \<open>The fleet\<close>

text \<open>\<open>FILE\<close>: the name of a projection without its suffix.\<close>

definition projection_uid :: "pystr \<Rightarrow> pystr option" where
  "projection_uid name =
     (if endswith name (u ''.json'') \<and> fullmatch TOKEN_DASH (take (length name - 5) name) then Some (take (length name - 5) name) else None)"

definition text_value :: "string \<Rightarrow> pyval" where
  "text_value s = PStr (u s)"

text \<open>How many agents are in each state, how many supervisors and which of them need attention.\<close>

definition dict_values :: "pyval \<Rightarrow> exn + pyval list" where
  "dict_values v = (case v of PDict d \<Rightarrow> Inr (map snd d) | _ \<Rightarrow> Inl AttributeError)"

fun map_res :: "('a \<Rightarrow> exn + 'b) \<Rightarrow> 'a list \<Rightarrow> exn + 'b list" where
  "map_res f [] = Inr []"
| "map_res f (x # xs) = bind_res (f x) (\<lambda>y. bind_res (map_res f xs) (\<lambda>ys. Inr (y # ys)))"

definition count_states :: "pyval list \<Rightarrow> exn + pyval" where
  "count_states agents = bind_res (map_res (\<lambda>a. item a ''state'') agents) (\<lambda>states.
     Inr (PDict (map (\<lambda>s. (u s, PInt (int (length (filter (\<lambda>v. v = text_value s) states))))) AGENT_STATES)))"

definition supervisors_of :: "pyval list \<Rightarrow> exn + pyval list" where
  "supervisors_of agents = bind_res (map_res (\<lambda>a. get_attr a ''supervisor'') agents) (\<lambda>vs. Inr (filter (\<lambda>v. v \<noteq> PNone) vs))"

definition is_braked :: "pyval \<Rightarrow> exn + bool" where
  "is_braked s = bind_res (item s ''brake'') (\<lambda>b. bind_res (item b ''tripped_at'') (\<lambda>t. Inr (t \<noteq> PNone)))"

definition needs_login :: "pyval \<Rightarrow> exn + bool" where
  "needs_login s = bind_res (item s ''account'') (\<lambda>a.
     if is_dict a then bind_res (item a ''state'') (\<lambda>st. Inr (in_tuple st [''expiring'', ''expired'', ''absent''])) else Inr False)"

definition count_true :: "bool list \<Rightarrow> pyval" where
  "count_true bs = PInt (int (length (filter (\<lambda>b. b) bs)))"

definition supervisor_counts :: "pyval list \<Rightarrow> exn + pydict" where
  "supervisor_counts agents = bind_res (supervisors_of agents) (\<lambda>ss.
     let valid = filter is_dict ss in
     bind_res (map_res is_braked valid) (\<lambda>braked. bind_res (map_res needs_login valid) (\<lambda>logins.
       Inr [(u ''supervised_count'', PInt (int (length ss))), (u ''braked_count'', count_true braked),
            (u ''login_attention_count'', count_true logins)])))"

definition list_length :: "pyval \<Rightarrow> exn + int" where
  "list_length v = (case v of PList xs \<Rightarrow> Inr (int (length xs)) | PStr s \<Rightarrow> Inr (int (length s)) | PDict d \<Rightarrow> Inr (int (length d)) | _ \<Rightarrow> Inl TypeError)"

definition absent_row :: "pystr \<Rightarrow> string \<Rightarrow> pydict" where
  "absent_row uid reason = [(u ''project_uid'', PStr uid), (u ''present'', PBool False), (u ''reason'', text_value reason),
     (u ''generated_at'', PNone), (u ''age_seconds'', PNone), (u ''stale'', PNone), (u ''stream_status'', PNone), (u ''capacity'', PNone),
     (u ''attention_count'', PNone), (u ''agents_by_state'', PNone), (u ''supervised_count'', PInt 0), (u ''braked_count'', PInt 0),
     (u ''login_attention_count'', PInt 0)]"

definition present_row :: "(pystr \<Rightarrow> iso_time option) \<Rightarrow> rat \<Rightarrow> int \<Rightarrow> pystr \<Rightarrow> pydict \<Rightarrow> exn + pydict" where
  "present_row clock now threshold uid p =
     bind_res (item (PDict p) ''generated_at'') (\<lambda>g. bind_res (instant clock g) (\<lambda>t.
     bind_res (item (PDict p) ''agents'') (\<lambda>av. bind_res (dict_values av) (\<lambda>agents.
     bind_res (item (PDict p) ''stream'') (\<lambda>stream. bind_res (item stream ''status'') (\<lambda>status.
     bind_res (item (PDict p) ''capacity'') (\<lambda>capacity.
     bind_res (item (PDict p) ''attention'') (\<lambda>attention. bind_res (list_length attention) (\<lambda>n.
     bind_res (count_states agents) (\<lambda>states. bind_res (supervisor_counts agents) (\<lambda>counts.
       Inr ([(u ''project_uid'', PStr uid), (u ''present'', PBool True), (u ''reason'', PNone), (u ''generated_at'', g),
         (u ''age_seconds'', PInt \<lfloor>now - t\<rfloor>), (u ''stale'', PBool (of_int threshold < now - t)), (u ''stream_status'', status),
         (u ''capacity'', capacity), (u ''attention_count'', PInt n), (u ''agents_by_state'', states)] @ counts))))))))))))"

definition fleet_row ::
  "(pystr \<Rightarrow> iso_time option) \<Rightarrow> (pyfloat \<Rightarrow> pystr) \<Rightarrow> (pystr \<Rightarrow> entry) \<Rightarrow> rat \<Rightarrow> int \<Rightarrow> pystr \<Rightarrow> exn + pydict" where
  "fleet_row clock fr dir now threshold uid = (case read_at clock fr dir uid of
       Inl reason \<Rightarrow> Inr (absent_row uid reason)
     | Inr p \<Rightarrow> present_row clock now threshold uid p)"

text \<open>The directory, when it opens: its entries in any order with whether they are regular files, or an error while listing.\<close>

record root_dir =
  rd_names :: "(pystr \<times> bool) list option"
  rd_entry :: "pystr \<Rightarrow> entry"

definition fleet_value :: "pystr \<Rightarrow> string \<Rightarrow> pyval \<Rightarrow> pydict list \<Rightarrow> pydict" where
  "fleet_value observed status seen rows = [(u ''observed_at'', PStr observed), (u ''root_status'', text_value status),
     (u ''files_seen'', seen), (u ''projects'', PList (map PDict rows))]"

definition fleet ::
  "(pystr \<Rightarrow> iso_time option) \<Rightarrow> (pyfloat \<Rightarrow> pystr) \<Rightarrow> root_dir option \<Rightarrow> pystr \<Rightarrow> rat \<Rightarrow> int \<Rightarrow> exn + pydict" where
  "fleet clock fr dir observed now threshold = (case dir of
       None \<Rightarrow> Inr (fleet_value observed ''unknown'' PNone [])
     | Some r \<Rightarrow> (case rd_names r of
         None \<Rightarrow> Inr (fleet_value observed ''unknown'' PNone [])
       | Some names \<Rightarrow>
           let uids = List.map_filter (\<lambda>(n, regular). if regular then projection_uid n else None) names in
           bind_res (map_res (fleet_row clock fr (rd_entry r) now threshold) (sort uids)) (\<lambda>rows.
             Inr (fleet_value observed ''ok'' (PInt (int (length uids))) rows))))"

end
