(* ===== verification/Html.thy ===== *)
theory Html
  imports PyText
begin

text \<open>
  A strict reader of HTML, as a state machine on characters: which pages count as well formed.
  Elements nest and close, every element and every attribute is of a fixed list, no attribute
  runs code or loads anything, values are quoted, and a link stays on the site. The dashboard
  (\<open>dashboard/render.py\<close>) is measured against it.
\<close>

section \<open>The machine\<close>

datatype mode =
    Between
  | Less
  | Declaration
  | Opening pystr
  | Space pystr
  | Attribute pystr pystr
  | Equals pystr pystr
  | Quoted pystr pystr
  | Unquoted pystr
  | Closing pystr

type_synonym html = "mode \<times> pystr list"

definition page_tags :: "pystr list" where
  "page_tags = map u [''html'', ''head'', ''title'', ''style'', ''body'', ''header'', ''div'', ''span'', ''nav'', ''a'', ''main'',
     ''footer'', ''code'', ''time'', ''article'', ''h1'', ''h2'', ''h3'', ''h4'', ''p'', ''strong'', ''ol'', ''li'', ''table'',
     ''caption'', ''thead'', ''tbody'', ''tr'', ''th'', ''td'', ''section'', ''dl'', ''dt'', ''dd'', ''b'']"

definition page_attributes :: "pystr list" where
  "page_attributes = map u [''lang'', ''charset'', ''name'', ''content'', ''http-equiv'', ''class'', ''aria-label'', ''aria-current'',
     ''aria-valuemin'', ''aria-valuemax'', ''aria-valuenow'', ''href'', ''datetime'', ''data-agent'', ''data-supervisor'',
     ''data-login-state'', ''data-session-state'', ''data-health'', ''data-unit-state'', ''data-off-duty'', ''data-braked'',
     ''data-supervised'', ''data-login-attention'', ''role'', ''tabindex'', ''scope'', ''style'']"

definition name_char :: "nat \<Rightarrow> bool" where
  "name_char c = (97 \<le> c \<and> c \<le> 122 \<or> 48 \<le> c \<and> c \<le> 57 \<or> c = 45)"

text \<open>The end of a start tag; only \<open>meta\<close> has no end tag.\<close>

definition enter :: "pystr \<Rightarrow> pystr list \<Rightarrow> html option" where
  "enter t st = (if t = u ''meta'' then Some (Between, st) else if t \<in> set page_tags then Some (Between, t # st) else None)"

fun feed :: "html \<Rightarrow> nat \<Rightarrow> html option" where
  "feed (Between, st) c = Some (if c = 60 then Less else Between, st)"
| "feed (Less, st) c = (if c = 47 then Some (Closing [], st) else if c = 33 then Some (Declaration, st)
     else if name_char c then Some (Opening [c], st) else None)"
| "feed (Declaration, st) c = (if c = 60 then None else Some (if c = 62 then Between else Declaration, st))"
| "feed (Opening t, st) c = (if c = 62 then enter t st else if c = 32 then Some (Space t, st)
     else if name_char c then Some (Opening (t @ [c]), st) else None)"
| "feed (Space t, st) c = (if name_char c then Some (Attribute t [c], st) else None)"
| "feed (Attribute t a, st) c = (if c = 61 then (if a \<in> set page_attributes then Some (Equals t a, st) else None)
     else if name_char c then Some (Attribute t (a @ [c]), st) else None)"
| "feed (Equals t a, st) c = (if c = 34 then Some (Quoted t a, st) else None)"
| "feed (Quoted t a, st) c = (if c = 34 then Some (Unquoted t, st)
     else if c \<in> {60, 62} \<or> a = u ''href'' \<and> c \<noteq> 47 \<or> a = u ''/'' \<and> c \<in> {47, 92} then None
     else Some (Quoted t (if a = u ''href'' then u ''/'' else if a = u ''/'' then [] else a), st))"
| "feed (Unquoted t, st) c = (if c = 62 then enter t st else if c = 32 then Some (Space t, st) else None)"
| "feed (Closing t, st) c = (if c = 62 then (case st of s # r \<Rightarrow> if s = t then Some (Between, r) else None | [] \<Rightarrow> None)
     else if name_char c then Some (Closing (t @ [c]), st) else None)"

fun feeds :: "html \<Rightarrow> pystr \<Rightarrow> html option" where
  "feeds h [] = Some h"
| "feeds h (c # s) = (case feed h c of None \<Rightarrow> None | Some k \<Rightarrow> feeds k s)"

text \<open>A page is well formed when it is read to the end and every element is closed.\<close>

definition well_formed_html :: "pystr \<Rightarrow> bool" where
  "well_formed_html s = (feeds (Between, []) s = Some (Between, []))"

end
