(* ===== verification/DashRender.thy ===== *)
theory DashRender
  imports DashReader Html
begin

text \<open>
  The pages of the dashboard (\<open>dashboard/render.py\<close>): every function gives the text it builds, or
  the exception its accesses raise on data of another shape. The style sheet, how a float prints,
  the width of the capacity meter with two decimals, and the reading of ISO timestamps are
  parameters.
\<close>

section \<open>Text\<close>

record page_env =
  pe_css :: pystr
  pe_float :: "pyfloat \<Rightarrow> pystr"
  pe_width :: "int \<Rightarrow> int \<Rightarrow> pystr"
  pe_clock :: "pystr \<Rightarrow> iso_time option"

definition escape_char :: "nat \<Rightarrow> pystr" where
  "escape_char c = (if c = 38 then u ''&amp;'' else if c = 60 then u ''&lt;'' else if c = 62 then u ''&gt;''
     else if c = 34 then u ''&quot;'' else if c = 39 then u ''&#x27;'' else [c])"

definition escape_html :: "pystr \<Rightarrow> pystr" where
  "escape_html s = concat (map escape_char s)"

definition shown_text :: "page_env \<Rightarrow> pyval \<Rightarrow> pystr" where
  "shown_text E v = (case v of
       PNone \<Rightarrow> u ''null''
     | PBool b \<Rightarrow> (if b then u ''true'' else u ''false'')
     | PInt n \<Rightarrow> str_of_int n
     | PFloat f \<Rightarrow> pe_float E f
     | PStr s \<Rightarrow> s
     | _ \<Rightarrow> json_dumps (pe_float E) False v)"

definition escaped :: "page_env \<Rightarrow> pyval \<Rightarrow> pystr" where
  "escaped E v = escape_html (shown_text E v)"

definition code :: "page_env \<Rightarrow> pyval \<Rightarrow> pystr" where
  "code E v = u ''<code>'' @ escaped E v @ u ''</code>''"

definition field_html :: "page_env \<Rightarrow> pystr \<Rightarrow> pyval \<Rightarrow> pystr" where
  \<open>field_html E k v = u ''<span class="field"><span class="key">'' @ escape_html k @ u ''</span> '' @ code E v @ u ''</span>''\<close>

definition sub_html :: "pystr \<Rightarrow> pystr" where
  \<open>sub_html s = u ''<span class="sub">'' @ s @ u ''</span>''\<close>

definition stamp_html :: "page_env \<Rightarrow> pyval \<Rightarrow> pystr" where
  \<open>stamp_html E v = (if v = PNone then u ''unknown''
     else u ''<time datetime="'' @ escaped E v @ u ''">'' @ escaped E v @ u ''</time>'')\<close>

definition COLORS :: "(string \<times> string) list" where
  "COLORS = [(''busy'', ''amber''), (''idle'', ''neutral''), (''blocked'', ''coral''), (''done'', ''green''), (''unknown'', ''neutral''),
     (''ok'', ''green''), (''corrupt'', ''coral''), (''absent'', ''neutral''), (''unreadable'', ''neutral''),
     (''READY'', ''green''), (''WORKING'', ''amber''), (''WAITING'', ''neutral''), (''STOPPING'', ''amber''), (''ORPHANED'', ''coral''),
     (''FAILED'', ''coral''), (''OFFLINE'', ''neutral''), (''healthy'', ''green''), (''unhealthy'', ''coral''), (''expiring'', ''amber''),
     (''expired'', ''coral''), (''pending'', ''amber'')]"

definition SESSION_LABELS :: "(string \<times> string) list" where
  "SESSION_LABELS = [(''READY'', ''ready''), (''WORKING'', ''working''), (''WAITING'', ''waiting''), (''STOPPING'', ''stopping''),
     (''ORPHANED'', ''orphaned''), (''FAILED'', ''failed''), (''OFFLINE'', ''offline'')]"

definition ACCOUNT_LABELS :: "(string \<times> string) list" where
  "ACCOUNT_LABELS = [(''absent'', ''login absent''), (''ok'', ''login ok''), (''expiring'', ''login expiring''),
     (''expired'', ''login expired''), (''pending'', ''login pending'')]"

definition OUTCOME_LABELS :: "(string \<times> string) list" where
  "OUTCOME_LABELS = [(''done'', ''done''), (''rejected'', ''rejected''), (''accepted'', ''accepted'')]"

text \<open>\<open>table[v]\<close> and \<open>COLORS.get(v, "neutral")\<close>; an operand that cannot be hashed raises.\<close>

definition entry_of :: "(string \<times> string) list \<Rightarrow> pyval \<Rightarrow> string option" where
  "entry_of table v = (case find (\<lambda>(k, _). v = PStr (u k)) table of Some (_, w) \<Rightarrow> Some w | None \<Rightarrow> None)"

definition label_of :: "(string \<times> string) list \<Rightarrow> pyval \<Rightarrow> exn + string" where
  "label_of table v = (if \<not> hashable v then Inl TypeError
     else case entry_of table v of Some w \<Rightarrow> Inr w | None \<Rightarrow> Inl KeyError)"

definition color_of :: "pyval \<Rightarrow> exn + string" where
  "color_of v = (if \<not> hashable v then Inl TypeError
     else case entry_of COLORS v of Some w \<Rightarrow> Inr w | None \<Rightarrow> Inr ''neutral'')"

definition badge_html :: "page_env \<Rightarrow> string \<Rightarrow> pystr \<Rightarrow> pystr" where
  \<open>badge_html E color label = u ''<span class="badge '' @ u color @ u ''">'' @ escape_html label @ u ''</span>''\<close>

definition badge :: "page_env \<Rightarrow> pyval \<Rightarrow> exn + pystr" where
  "badge E v = bind_res (color_of v) (\<lambda>c. Inr (badge_html E c (shown_text E v)))"

definition labelled_badge :: "page_env \<Rightarrow> (string \<times> string) list \<Rightarrow> pyval \<Rightarrow> exn + pystr" where
  "labelled_badge E table v = bind_res (label_of table v) (\<lambda>l. bind_res (color_of v) (\<lambda>c. Inr (badge_html E c (u l))))"

definition compact_age :: "int \<Rightarrow> pystr" where
  "compact_age s =
     (if s < 90 then str_of_int s @ u '' s''
      else let m = s div 60 in if m < 90 then str_of_int m @ u '' min''
      else let h = m div 60 in if h < 48 then str_of_int h @ u '' h '' @ str_of_int (m mod 60) @ u '' min''
      else str_of_int (h div 24) @ u '' d '' @ str_of_int (h mod 24) @ u '' h'')"

definition MIDDOT :: pystr where "MIDDOT = [183]"

definition freshness :: "int option \<Rightarrow> bool \<Rightarrow> pystr" where
  \<open>freshness age stale = (case age of
       None \<Rightarrow> u ''unknown''
     | Some a \<Rightarrow>
         if a < 0 then u ''<span class="quiet">clock ahead by '' @ escape_html (compact_age (- a)) @ u ''</span>''
         else if stale then u ''<span class="quiet">stale since '' @ escape_html (compact_age a) @ u ''</span>''
         else u ''<span class="quiet">fresh '' @ MIDDOT @ u '' '' @ escape_html (compact_age a) @ u '' old</span>'')\<close>

definition relative_expiry :: "page_env \<Rightarrow> pyval \<Rightarrow> rat \<Rightarrow> exn + pystr" where
  "relative_expiry E v now = bind_res (instant (pe_clock E) v) (\<lambda>t.
     let seconds = t - now; m = \<lfloor>\<bar>seconds\<bar>\<rfloor>;
         amount = (if 86400 \<le> m then str_of_int (m div 86400) @ u '' d''
           else if 3600 \<le> m then str_of_int (m div 3600) @ u '' h'' else str_of_int (m div 60) @ u '' min'') in
     Inr (if 0 \<le> seconds then u ''in '' @ amount else u ''expired '' @ amount @ u '' ago''))"

section \<open>Building with exceptions\<close>

fun cats :: "(exn + pystr) list \<Rightarrow> exn + pystr" where
  "cats [] = Inr []"
| "cats (x # xs) = bind_res x (\<lambda>s. bind_res (cats xs) (\<lambda>t. Inr (s @ t)))"

definition lit :: "string \<Rightarrow> exn + pystr" where
  "lit s = Inr (u s)"

definition item2 :: "pyval \<Rightarrow> string \<Rightarrow> string \<Rightarrow> exn + pyval" where
  "item2 v j k = bind_res (item v j) (\<lambda>w. item w k)"

definition on_item :: "pyval \<Rightarrow> string \<Rightarrow> (pyval \<Rightarrow> pystr) \<Rightarrow> exn + pystr" where
  "on_item v k f = bind_res (item v k) (\<lambda>w. Inr (f w))"

definition elements :: "pyval \<Rightarrow> exn + pyval list" where
  "elements v = (case v of
       PList xs \<Rightarrow> Inr xs | PStr s \<Rightarrow> Inr (map (\<lambda>c. PStr [c]) s) | PDict d \<Rightarrow> Inr (map (\<lambda>(k, _). PStr k) d) | _ \<Rightarrow> Inl TypeError)"

definition dict_items :: "pyval \<Rightarrow> exn + (pystr \<times> pyval) list" where
  "dict_items v = (case v of PDict d \<Rightarrow> Inr d | _ \<Rightarrow> Inl AttributeError)"

definition whole :: "pyval \<Rightarrow> exn + int" where
  "whole v = (case int_instance v of Some n \<Rightarrow> Inr n | None \<Rightarrow> Inl TypeError)"

definition first_ten :: "pyval \<Rightarrow> exn + pyval" where
  "first_ten v = (case v of PStr s \<Rightarrow> Inr (PStr (take 10 s)) | PList xs \<Rightarrow> Inr (PList (take 10 xs)) | _ \<Rightarrow> Inl TypeError)"

section \<open>The card of a supervised agent\<close>

definition login_state :: "pyval \<Rightarrow> exn + pyval" where
  "login_state account = (if account = PNone then Inr (text_value ''none'') else if account = PBool False then Inr (text_value ''invalid'')
     else item account ''state'')"

definition card_attributes :: "page_env \<Rightarrow> pystr \<Rightarrow> pyval \<Rightarrow> bool \<Rightarrow> bool \<Rightarrow> pyval \<Rightarrow> exn + pystr" where
  \<open>card_attributes E uid s stale braked login = cats
     [lit ''<article class="'', lit (if stale then ''sup-card sup-stale'' else ''sup-card''), lit ''" data-agent="'', Inr (escaped E (PStr uid)),
      lit ''" data-session-state="'', on_item s ''session_state'' (escaped E), lit ''" data-health="'', on_item s ''health'' (escaped E),
      lit ''" data-unit-state="'', on_item s ''unit_state'' (escaped E), lit ''" data-off-duty="'', on_item s ''off_duty'' (escaped E),
      lit ''" data-braked="'', Inr (escaped E (PBool braked)), lit ''" data-login-state="'', Inr (escaped E login),
      lit ''"><div class="sup-card-heading"><h3>'', Inr (code E (PStr uid)), lit ''</h3>'',
      bind_res (item s ''session_state'') (labelled_badge E SESSION_LABELS), lit ''</div>'']\<close>

definition card_facts :: "page_env \<Rightarrow> pyval \<Rightarrow> bool \<Rightarrow> exn + pystr" where
  \<open>card_facts E s braked = cats
     [lit ''<p class="sup-reason">'', on_item s ''state_reason'' (escaped E), lit ''</p><div class="sup-facts"><div><span class="key">health</span> '',
      bind_res (item s ''health'') (badge E),
      bind_res (item s ''tick_age_s'') (\<lambda>a. if a = PNone then Inr (sub_html (u ''tick age unknown''))
        else bind_res (whole a) (\<lambda>n. Inr (sub_html (u ''tick age '' @ escape_html (compact_age n))))),
      lit ''</div><div><span class="key">unit</span> '', on_item s ''unit_state'' (code E),
      on_item s ''disabled'' (\<lambda>v. sub_html (field_html E (u ''disabled'') v)), lit ''</div><div><span class="key">brake</span> '',
      bind_res (item2 s ''brake'' ''consecutive'') (\<lambda>v. Inr (code E v)),
      if braked then bind_res (item2 s ''brake'' ''tripped_at'') (\<lambda>v. Inr (sub_html (u ''braked since '' @ stamp_html E v))) else Inr [],
      bind_res (item s ''off_duty'') (\<lambda>v. Inr (if truthy v then sub_html (u ''off duty'') else [])),
      lit ''</div><div><span class="key">activity</span> '', on_item s ''restarts_24h'' (field_html E (u ''restarts 24 h'')),
      on_item s ''inbox_open'' (\<lambda>v. sub_html (field_html E (u ''inbox open'') v)), lit ''</div></div>'']\<close>

definition account_html :: "page_env \<Rightarrow> rat \<Rightarrow> pyval \<Rightarrow> exn + pystr" where
  \<open>account_html E now a =
     (if a = PBool False then lit ''<p>account data invalid</p>''
      else if a = PNone then lit ''<p class="quiet">No account data.</p>''
      else cats
        [lit ''<p>'', bind_res (item a ''state'') (labelled_badge E ACCOUNT_LABELS), lit '' <strong>'', on_item a ''label'' (escaped E), lit ''</strong>'',
         bind_res (item a ''id_hint'') (\<lambda>v. Inr (if truthy v then u '' <span class="quiet">'' @ [8230] @ escaped E v @ u ''</span>'' else [])),
         lit ''</p>'',
         bind_res (item a ''expires_at'') (\<lambda>v. if v = PNone then Inr []
           else cats [lit ''<p>expires <time datetime="'', Inr (escaped E v), lit ''">'', bind_res (first_ten v) (\<lambda>w. Inr (escaped E w)),
             lit ''</time> <span class="quiet">'', bind_res (relative_expiry E v now) (\<lambda>t. Inr (escape_html t)), lit ''</span></p>'']),
         bind_res (item a ''checked_at'') (\<lambda>v. Inr (if v = PNone then [] else u ''<p class="sub">checked '' @ stamp_html E v @ u ''</p>''))])\<close>

definition session_html :: "page_env \<Rightarrow> pyval \<Rightarrow> exn + pystr" where
  \<open>session_html E s = cats
     [bind_res (item s ''current_turn'') (\<lambda>t. if t = PNone then lit ''<p class="quiet">No current turn.</p>''
        else cats [lit ''<p>'', on_item t ''msg_id'' (field_html E (u ''current turn'')),
          on_item t ''attempt_id'' (\<lambda>v. sub_html (field_html E (u ''attempt'') v)), lit ''</p>'']),
      lit ''<p>'', on_item s ''session_id_short'' (\<lambda>v. field_html E (u ''session'') (if v = PNone then PStr [8212] else v)),
      on_item s ''turns_in_session'' (\<lambda>v. sub_html (field_html E (u ''turns'') v)), lit ''</p>'']\<close>

definition control_html :: "page_env \<Rightarrow> pyval \<Rightarrow> exn + pystr" where
  \<open>control_html E c =
     bind_res (item c ''outcome'') (\<lambda>o1. bind_res (label_of OUTCOME_LABELS o1) (\<lambda>outcome. bind_res (item c ''reason'') (\<lambda>reason.
       cats [lit ''<li>'', on_item c ''at'' (stamp_html E), Inr (u '' '' @ MIDDOT @ u '' ''), on_item c ''verb'' (escaped E),
         Inr (u '' '' @ MIDDOT @ u '' ''), Inr (escape_html (u outcome)),
         Inr (if truthy reason then u '' ('' @ escaped E reason @ u '')'' else []), lit ''</li>''])))\<close>

definition controls_html :: "page_env \<Rightarrow> pyval \<Rightarrow> exn + pystr" where
  \<open>controls_html E s = bind_res (item s ''last_control'') (\<lambda>cs.
     if truthy cs then bind_res (elements cs) (\<lambda>xs. cats [lit ''<ol>'', cats (map (control_html E) xs), lit ''</ol>''])
     else lit ''<p class="quiet">No control outcomes.</p>'')\<close>

definition invalid_card :: "page_env \<Rightarrow> pystr \<Rightarrow> pystr" where
  \<open>invalid_card E uid = u ''<article class="sup-card sup-invalid" data-agent="'' @ escaped E (PStr uid) @
     u ''" data-supervisor="invalid" data-login-state="invalid"><h3>'' @ code E (PStr uid) @
     u ''</h3><p>supervisor data invalid</p></article>''\<close>

definition supervised_card :: "page_env \<Rightarrow> rat \<Rightarrow> bool \<Rightarrow> pystr \<times> pyval \<Rightarrow> exn + pystr" where
  \<open>supervised_card E now stale us = (case us of (uid, s) \<Rightarrow>
     if s = PBool False then Inr (invalid_card E uid)
     else bind_res (item s ''account'') (\<lambda>account. bind_res (login_state account) (\<lambda>login.
       bind_res (item2 s ''brake'' ''tripped_at'') (\<lambda>t. let braked = (t \<noteq> PNone) in
       cats [card_attributes E uid s stale braked login, card_facts E s braked,
         lit ''<div class="sup-account"><h4>Account</h4>'', account_html E now account,
         lit ''</div><div class="sup-session"><h4>Session</h4>'', session_html E s,
         lit ''</div><div class="sup-controls"><h4>Last control</h4>'', controls_html E s, lit ''</div></article>'']))))\<close>

section \<open>Pages and tables\<close>

definition theme_link :: "page_env \<Rightarrow> pystr \<Rightarrow> string \<Rightarrow> string \<Rightarrow> pystr" where
  \<open>theme_link E path theme name = u ''<a href="'' @ escape_html path @ u ''?theme='' @ u name @ u ''"'' @
     (if theme = name then u '' aria-current="true"'' else []) @ u ''>'' @ u name @ u ''</a>''\<close>

definition page :: "page_env \<Rightarrow> pystr \<Rightarrow> pystr \<Rightarrow> string \<Rightarrow> pystr option \<Rightarrow> pystr" where
  \<open>page E title body theme uid =
     (let path = (case uid of Some i \<Rightarrow> u ''/p/'' @ i | None \<Rightarrow> u ''/'') in
      u ''<!doctype html><html lang="en"><head><meta charset="utf-8">'' @
      u ''<meta name="viewport" content="width=device-width, initial-scale=1">'' @
      u ''<meta http-equiv="refresh" content="10">'' @
      u ''<title>'' @ escape_html title @ u '' '' @ MIDDOT @ u '' ai-bobnet</title><style>'' @ pe_css E @ u ''</style></head><body'' @
      (if theme \<in> {''dark'', ''light'', ''c64''} then u '' class="'' @ u theme @ u ''"'' else []) @ u ''>'' @
      u ''<header class="topbar"><div class="brand">ai-bobnet <span>Read-only dashboard</span></div>'' @
      u ''<nav aria-label="Main"><a href="/">Fleet</a>'' @
      (case uid of Some i \<Rightarrow> u ''<span aria-current="page">Project: '' @ code E (PStr i) @ u ''</span>'' | None \<Rightarrow> []) @
      u ''</nav><nav class="themes" aria-label="Theme">'' @
      theme_link E path theme ''dark'' @ theme_link E path theme ''light'' @ theme_link E path theme ''c64'' @ u ''</nav></header>'' @
      u ''<main>'' @ body @ u ''</main><footer class="page-footer">Projection snapshots '' @ MIDDOT @ u '' refresh every 10 s '' @ MIDDOT @
      u '' no commands</footer></body></html>'')\<close>

definition table_html :: "string list \<Rightarrow> pystr \<Rightarrow> string \<Rightarrow> string \<Rightarrow> pystr" where
  \<open>table_html headers rows css_class label =
     u ''<div class="table-scroll" role="region" aria-label="'' @ escape_html (u label) @ u ''" tabindex="0">'' @
     u ''<table class="'' @ u css_class @ u ''"><caption class="sr-only">'' @ escape_html (u label) @ u ''</caption>'' @
     u ''<thead><tr>'' @ concat (map (\<lambda>h. u ''<th scope="col">'' @ escape_html (u h) @ u ''</th>'') headers) @
     u ''</tr></thead><tbody>'' @ rows @ u ''</tbody></table></div>''\<close>

definition cells_html :: "pystr list \<Rightarrow> pystr" where
  "cells_html cs = concat (map (\<lambda>c. u ''<td>'' @ c @ u ''</td>'') cs)"

section \<open>The fleet page\<close>

definition optional_whole :: "pyval \<Rightarrow> exn + int option" where
  "optional_whole v = (if v = PNone then Inr None else bind_res (whole v) (\<lambda>n. Inr (Some n)))"

definition states_html :: "page_env \<Rightarrow> (pystr \<times> pyval) list \<Rightarrow> pystr" where
  \<open>states_html E kvs = u ''<span class="states">'' @
     concat (map (\<lambda>(k, v). u ''<span>'' @ escape_html k @ u '' <b>'' @ escaped E v @ u ''</b></span>'') kvs) @ u ''</span>''\<close>

definition live_html :: "page_env \<Rightarrow> pyval \<Rightarrow> exn + pystr" where
  "live_html E capacity = bind_res (item capacity ''live'') (\<lambda>l. bind_res (item capacity ''limit'') (\<lambda>m.
     Inr ((if l = PNone then u ''unknown'' else escaped E l) @ u '' / '' @ escaped E m)))"

definition fleet_cells :: "page_env \<Rightarrow> pyval \<Rightarrow> exn + pystr list" where
  "fleet_cells E p = bind_res (item p ''present'') (\<lambda>present.
     if \<not> truthy present then bind_res (item p ''reason'') (\<lambda>r.
       Inr ((u ''unknown'' @ sub_html (escaped E r)) # replicate 4 (u ''unknown'')))
     else
       bind_res (item p ''agents_by_state'') (\<lambda>st. bind_res (dict_items st) (\<lambda>kvs.
       bind_res (item p ''capacity'') (\<lambda>capacity. bind_res (live_html E capacity) (\<lambda>live.
       bind_res (item p ''age_seconds'') (\<lambda>av. bind_res (optional_whole av) (\<lambda>age. bind_res (item p ''stale'') (\<lambda>stale.
       bind_res (item p ''generated_at'') (\<lambda>g. bind_res (item p ''stream_status'') (\<lambda>ss. bind_res (badge E ss) (\<lambda>status.
       bind_res (item p ''attention_count'') (\<lambda>n.
         Inr [freshness age (truthy stale) @ sub_html (stamp_html E g), status, live, escaped E n, states_html E kvs]))))))))))))"

definition supervision_cell :: "page_env \<Rightarrow> pyval \<Rightarrow> exn + pystr" where
  \<open>supervision_cell E p = bind_res (item p ''supervised_count'') (\<lambda>s. bind_res (item p ''braked_count'') (\<lambda>b.
     bind_res (item p ''login_attention_count'') (\<lambda>l.
       Inr (u ''<td class="sup-counts" data-supervised="'' @ escaped E s @ u ''" data-braked="'' @ escaped E b @
         u ''" data-login-attention="'' @ escaped E l @ u ''">'' @ escaped E s @ u '' supervised'' @
         sub_html (escaped E b @ u '' braked '' @ MIDDOT @ u '' '' @ escaped E l @ u '' login attention'') @ u ''</td>''))))\<close>

definition fleet_row_html :: "page_env \<Rightarrow> pyval \<Rightarrow> exn + pystr" where
  \<open>fleet_row_html E p = bind_res (item p ''project_uid'') (\<lambda>uid. bind_res (fleet_cells E p) (\<lambda>cells.
     bind_res (supervision_cell E p) (\<lambda>sup.
       Inr (u ''<tr><th scope="row"><a href="/p/'' @ escaped E uid @ u ''">'' @ code E uid @ u ''</a></th>'' @ cells_html cells @ sup @ u ''</tr>''))))\<close>

definition fleet_headers :: "string list" where
  "fleet_headers = [''project_uid'', ''generated_at / age'', ''stream.status'', ''capacity live / limit'', ''attention'', ''agents by state'',
     ''supervision'']"

definition fleet_body :: "page_env \<Rightarrow> pystr list \<Rightarrow> pyval \<Rightarrow> pyval \<Rightarrow> pyval \<Rightarrow> int \<Rightarrow> pystr" where
  \<open>fleet_body E rows seen observed status threshold =
     u ''<div class="page-title"><h1>Fleet</h1><span class="eyebrow">'' @
     escape_html (if seen = PNone then u ''unknown project set'' else shown_text E seen @ u '' projection files'') @ u ''</span></div>'' @
     u ''<p class="intro">Observed at '' @ stamp_html E observed @ u ''. Freshness uses generated_at; stale beyond '' @
     escaped E (PInt threshold) @ u '' s.</p>'' @
     (if status \<noteq> text_value ''ok'' then
        u ''<section class="missing"><h2>unknown</h2><p>The projection root is unavailable. No project set can be inferred.</p></section>''
      else if rows = [] then
        u ''<section class="missing"><h2>unknown</h2><p>No projection files published. '' @
        u ''This does not imply an empty registry or idle agents.</p></section>''
      else table_html fleet_headers (concat rows) ''fleet-table'' ''Project projection snapshots'')\<close>

definition fleet_page :: "page_env \<Rightarrow> pyval \<Rightarrow> string \<Rightarrow> int \<Rightarrow> exn + pystr" where
  "fleet_page E f theme threshold = bind_res (item f ''projects'') (\<lambda>ps. bind_res (elements ps) (\<lambda>xs.
     bind_res (map_res (fleet_row_html E) xs) (\<lambda>rows. bind_res (item f ''files_seen'') (\<lambda>seen.
     bind_res (item f ''observed_at'') (\<lambda>observed. bind_res (item f ''root_status'') (\<lambda>status.
       Inr (page E (u ''Fleet'') (fleet_body E rows seen observed status threshold) theme None)))))))"

section \<open>The project page\<close>

definition quiet_launch :: "pyval \<Rightarrow> pystr" where
  \<open>quiet_launch status = u ''<span class="quiet">'' @ (if status = text_value ''ok'' then u ''never launched'' else u ''unknown'') @ u ''</span>''\<close>

definition binding_cell :: "page_env \<Rightarrow> pyval \<Rightarrow> pyval \<Rightarrow> string \<Rightarrow> exn + pystr" where
  "binding_cell E agent status dimension = bind_res (item agent ''launch'') (\<lambda>launch.
     if launch = PNone then Inr (quiet_launch status)
     else bind_res (item launch dimension) (\<lambda>b. bind_res (item b ''effective'') (\<lambda>effective.
       bind_res (item agent ''attempt'') (\<lambda>a. bind_res (if truthy a then item a ''decision'' else Inr PNone) (\<lambda>decision.
       bind_res (get_attr b ''resolved'') (\<lambda>resolved. bind_res (dict_items b) (\<lambda>d. bind_res (item b ''requested'') (\<lambda>requested.
         let primary = (if effective = PNone then (if decision = text_value ''deny'' then text_value ''denied'' else text_value ''unknown'')
               else effective);
             compare = dget_or d ''resolved'' effective in
         Inr (field_html E (u ''effective'') primary @
           (if resolved \<noteq> PNone \<and> \<not> py_eq resolved effective then sub_html (field_html E (u ''resolved'') resolved) else []) @
           (if requested \<noteq> PNone \<and> \<not> py_eq requested compare then sub_html (field_html E (u ''requested'') requested) else []) @
           (if has_key d ''source'' then sub_html (field_html E (u ''source'') (dget d ''source'')) else []))))))))))"

definition attempt_cell :: "page_env \<Rightarrow> pyval \<Rightarrow> pyval \<Rightarrow> exn + pystr" where
  \<open>attempt_cell E a status =
     (if a = PNone then Inr (quiet_launch status)
      else bind_res (item a ''last'') (\<lambda>l. cats
        [lit ''<strong class="attempt-id">'', on_item a ''id'' (code E), lit ''</strong><span class="sub">'',
         on_item a ''decision'' (field_html E (u ''decision'')), Inr (u '' '' @ MIDDOT @ u '' ''), on_item a ''open'' (field_html E (u ''open'')),
         lit ''</span>'', on_item a ''decided_at'' (\<lambda>v. sub_html (u ''decided_at '' @ stamp_html E v)), lit ''<span class="sub">'',
         on_item l ''class'' (field_html E (u ''class'')), Inr (u '' '' @ MIDDOT @ u '' ''), on_item l ''stage'' (field_html E (u ''stage'')),
         lit ''</span>'', on_item l ''ended_at'' (\<lambda>v. sub_html (u ''ended_at '' @ stamp_html E v)),
         Inr (sub_html (u ''broker-attested attempt''))]))\<close>

definition agent_name :: "page_env \<Rightarrow> pystr \<Rightarrow> pyval \<Rightarrow> pyval \<Rightarrow> exn + pystr" where
  \<open>agent_name E uid agent launch = cats
     [lit ''<th scope="row">'', Inr (code E (PStr uid)), lit ''<span class="message">'', on_item agent ''message'' (escaped E), lit ''</span>'',
      bind_res (if truthy launch then item launch ''attested'' else Inr (text_value ''unknown'')) (\<lambda>v. Inr (sub_html (field_html E (u ''launch.attested'') v))),
      (if truthy launch then cats
        [bind_res (item2 launch ''adapter'' ''source'') (\<lambda>v. Inr (sub_html (field_html E (u ''adapter.source'') v))),
         bind_res (item launch ''reasons'') (\<lambda>v. Inr (if truthy v then u ''<span class="reasons">'' @ field_html E (u ''reasons'') v @ u ''</span>'' else []))]
       else Inr []), lit ''</th>'']\<close>

definition agent_state :: "page_env \<Rightarrow> pyval \<Rightarrow> exn + pystr" where
  "agent_state E agent = cats
     [bind_res (item agent ''state'') (badge E), on_item agent ''since'' (\<lambda>v. sub_html (u ''since '' @ stamp_html E v)),
      bind_res (item agent ''stale'') (\<lambda>s. bind_res (item agent ''attested'') (\<lambda>a.
        Inr (sub_html (field_html E (u ''stale'') s @ u '' '' @ MIDDOT @ u '' '' @ field_html E (u ''attested'') a))))]"

definition agent_row :: "page_env \<Rightarrow> pyval \<Rightarrow> pystr \<times> pyval \<Rightarrow> exn + pystr" where
  "agent_row E status ua = (case ua of (uid, agent) \<Rightarrow>
     bind_res (item agent ''launch'') (\<lambda>launch. bind_res (agent_name E uid agent launch) (\<lambda>nm.
     bind_res (agent_state E agent) (\<lambda>st. bind_res (map_res (binding_cell E agent status) [''provider'', ''model'', ''effort'', ''sandbox'']) (\<lambda>bs.
     bind_res (item agent ''attempt'') (\<lambda>a. bind_res (attempt_cell E a status) (\<lambda>at_cell.
       Inr (u ''<tr>'' @ nm @ cells_html ([st] @ bs @ [at_cell]) @ u ''</tr>''))))))))"

definition stream_facts :: "page_env \<Rightarrow> pyval \<Rightarrow> exn + pystr" where
  \<open>stream_facts E stream = cats
     [lit ''<div class="health"><section class="health-box"><h2>Stream</h2><dl>'',
      lit ''<div><dt>status</dt><dd>'', bind_res (item stream ''status'') (badge E), lit ''</dd></div>'',
      lit ''<div><dt>last_seq</dt><dd>'', on_item stream ''last_seq'' (code E), lit ''</dd></div>'',
      lit ''<div><dt>anchor.value</dt><dd>'', bind_res (item2 stream ''anchor'' ''value'') (\<lambda>v. Inr (code E v)), lit ''</dd></div>'',
      lit ''<div><dt>anchor.relationship</dt><dd>'', bind_res (item2 stream ''anchor'' ''relationship'') (\<lambda>v. Inr (code E v)), lit ''</dd></div>'',
      lit ''<div><dt>torn_tail</dt><dd>'', on_item stream ''torn_tail'' (code E), lit ''</dd></div>'',
      lit ''<div><dt>undecodable_records</dt><dd>'', on_item stream ''undecodable_records'' (code E), lit ''</dd></div></dl></section>'']\<close>

definition meter_html :: "page_env \<Rightarrow> pyval \<Rightarrow> exn + pystr" where
  \<open>meter_html E capacity = bind_res (item capacity ''live'') (\<lambda>lv. if lv = PNone then Inr []
     else bind_res (item capacity ''limit'') (\<lambda>mv. bind_res (whole lv) (\<lambda>l. bind_res (whole mv) (\<lambda>m.
       Inr (u ''<div class="capacity-meter" role="meter" aria-label="Capacity live out of limit" aria-valuemin="0" aria-valuemax="'' @ escaped E mv @
         u ''" aria-valuenow="'' @ escaped E lv @ u ''"><span style="width:'' @ (if m \<le> l then u ''100.00'' else pe_width E l m) @ u ''%"></span></div>'')))))\<close>

definition capacity_html :: "page_env \<Rightarrow> pyval \<Rightarrow> exn + pystr" where
  \<open>capacity_html E capacity = cats
     [lit ''<section class="health-box"><h2>Capacity</h2><p class="capacity-value"><strong>'', live_html E capacity,
      lit ''</strong> <span>live / limit</span></p>'', meter_html E capacity, lit ''<p class="sub">as_of '',
      on_item capacity ''as_of'' (stamp_html E), lit ''</p></section></div>'']\<close>

definition attention_item :: "page_env \<Rightarrow> pyval \<Rightarrow> exn + pystr" where
  \<open>attention_item E i = cats
     [lit ''<li><div class="attention-top">'', bind_res (item i ''kind'') (badge E), lit '' '', on_item i ''agent'' (field_html E (u ''agent'')),
      lit ''<span>'', on_item i ''attested'' (field_html E (u ''attested'')), lit ''</span></div><p>'', on_item i ''reason'' (escaped E),
      lit ''</p>'', on_item i ''since'' (\<lambda>v. sub_html (u ''since '' @ stamp_html E v)), lit ''</li>'']\<close>

definition attention_html :: "page_env \<Rightarrow> pyval \<Rightarrow> exn + pystr" where
  \<open>attention_html E att = bind_res (list_length att) (\<lambda>n. cats
     [lit ''<section class="attention"><div class="section-heading"><h2>Attention <span class="count">'', Inr (str_of_int n), lit ''</span></h2></div>'',
      (if truthy att then bind_res (elements att) (\<lambda>xs. cats [lit ''<ol>'', cats (map (attention_item E) xs), lit ''</ol>''])
       else lit ''<p class="quiet">No attention items in this snapshot. Absence is not proof that no help is needed.</p>''),
      lit ''</section>''])\<close>

definition supervised_agents :: "(pystr \<times> pyval) list \<Rightarrow> exn + (pystr \<times> pyval) list" where
  "supervised_agents agents = bind_res (map_res (\<lambda>(uid, a). bind_res (get_attr a ''supervisor'') (\<lambda>s. Inr (uid, s))) agents)
     (\<lambda>us. Inr (filter (\<lambda>(_, s). s \<noteq> PNone) us))"

definition supervised_html :: "page_env \<Rightarrow> rat \<Rightarrow> bool \<Rightarrow> (pystr \<times> pyval) list \<Rightarrow> exn + pystr" where
  \<open>supervised_html E now stale agents = bind_res (supervised_agents agents) (\<lambda>us.
     if us = [] then Inr []
     else cats [lit ''<section class="supervised-section"><div class="section-heading"><h2>Agents (supervised)</h2>'',
       lit ''<span>supervisor, account and control status from the read-only projection</span></div><div class="sup-grid">'',
       cats (map (supervised_card E now stale) us), lit ''</div></section>''])\<close>

definition agent_headers :: "string list" where
  "agent_headers = [''uid'', ''state / since'', ''provider'', ''model'', ''effort'', ''sandbox'', ''last attempt'']"

definition agents_html :: "page_env \<Rightarrow> pyval \<Rightarrow> (pystr \<times> pyval) list \<Rightarrow> exn + pystr" where
  \<open>agents_html E status agents = bind_res (map_res (agent_row E status) agents) (\<lambda>rows.
     Inr (u ''<section class="agent-section"><div class="section-heading"><h2>Agents</h2>'' @
       u ''<span>state is agent-asserted; launch and attempt are broker-attested</span></div>'' @
       u ''<p class="table-hint">effective is the primary value; differences and their source follow below. '' @
       u ''The table scrolls horizontally on narrower screens.</p>'' @
       (if rows = [] then u ''<p class="quiet">No registered agents in this snapshot.</p>''
        else table_html agent_headers (concat rows) ''agents'' ''Agent state and effective launch bindings'') @ u ''</section>''))\<close>

text \<open>\<open>", ".join(xs)\<close> of a list that must hold strings.\<close>

definition joined_texts :: "pyval list \<Rightarrow> exn + pystr" where
  "joined_texts xs = (if list_all is_str xs then Inr (join_with (u '', '') (map str_or_empty xs)) else Inl TypeError)"

definition snapshot_html :: "page_env \<Rightarrow> pyval \<Rightarrow> pyval \<Rightarrow> int \<Rightarrow> bool \<Rightarrow> exn + pystr" where
  \<open>snapshot_html E p uid age stale = cats
     [lit ''<a class="back" href="/">Back to Fleet</a><div class="page-title"><h1>'', Inr (code E uid), lit ''</h1><span class="eyebrow">Project '',
      Inr MIDDOT, lit '' schema '', on_item p ''schema'' (escaped E), lit ''</span></div>'',
      lit ''<div class="snapshot"><span><span class="key">generated_at</span> '', on_item p ''generated_at'' (stamp_html E), lit ''</span>'',
      Inr (freshness (Some age) stale), lit ''<span>'',
      bind_res (item p ''attested_sources'') (\<lambda>ss. bind_res (elements ss) (\<lambda>xs. bind_res (joined_texts xs) (\<lambda>t.
        Inr (field_html E (u ''attested_sources'') (PStr t))))),
      lit ''</span></div>'']\<close>

definition anomalies_html :: "page_env \<Rightarrow> pyval \<Rightarrow> exn + pystr" where
  \<open>anomalies_html E a = bind_res (dict_items a) (\<lambda>kvs.
     Inr (u ''<footer class="anomalies"><strong>Anomalies</strong>'' @ concat (map (\<lambda>(k, v). field_html E k v) kvs) @ u ''</footer>''))\<close>

definition project_body :: "page_env \<Rightarrow> pyval \<Rightarrow> pyval \<Rightarrow> rat \<Rightarrow> int \<Rightarrow> exn + pystr" where
  "project_body E p uid now threshold = bind_res (item p ''generated_at'') (\<lambda>g. bind_res (instant (pe_clock E) g) (\<lambda>t.
     let elapsed = now - t; stale = (of_int threshold < elapsed) in
     bind_res (item p ''stream'') (\<lambda>stream. bind_res (item p ''capacity'') (\<lambda>capacity. bind_res (item p ''agents'') (\<lambda>av.
     bind_res (dict_items av) (\<lambda>agents. bind_res (item stream ''status'') (\<lambda>status.
       cats [snapshot_html E p uid \<lfloor>elapsed\<rfloor> stale, stream_facts E stream, capacity_html E capacity,
         bind_res (item p ''attention'') (attention_html E), supervised_html E now stale agents, agents_html E status agents,
         bind_res (item p ''anomalies'') (anomalies_html E)])))))))"

definition project_page :: "page_env \<Rightarrow> pyval \<Rightarrow> rat \<Rightarrow> int \<Rightarrow> string \<Rightarrow> exn + pystr" where
  "project_page E p now threshold theme = bind_res (item p ''project_uid'') (\<lambda>uid.
     bind_res (project_body E p uid now threshold) (\<lambda>body. case uid of
         PStr i \<Rightarrow> Inr (page E i body theme (Some i))
       | _ \<Rightarrow> Inl TypeError))"

end
