(* ===== verification/DashPages.thy ===== *)
theory DashPages
  imports DashRender
begin

text \<open>
  What the pages are made of, read by the strict reader: data never leaves the place it is put in,
  and every part of a page keeps the open elements as they are.
\<close>

section \<open>Reading pieces\<close>

named_theorems html_parts \<open>what the reader does on a part of a page\<close>

lemma feeds_append [html_parts]: "feeds h (s @ t) = (case feeds h s of None \<Rightarrow> None | Some k \<Rightarrow> feeds k t)"
  by (induction s arbitrary: h) (auto split: option.splits)

lemma feeds_u [html_parts]:
  "feeds h (u []) = Some h"
  "feeds h (u (c # cs)) = (case feed h (of_char c) of None \<Rightarrow> None | Some k \<Rightarrow> feeds k (u cs))"
  by (auto simp: u_def split: option.splits)

lemma u_eq_Cons [html_parts]:
  "u (a # s) = c # t \<longleftrightarrow> of_char a = c \<and> u s = t"
  "c # t = u (a # s) \<longleftrightarrow> c = of_char a \<and> t = u s"
  by (simp_all add: u_def)

lemmas reader_defs = enter_def page_tags_def page_attributes_def name_char_def

text \<open>Text without quotes and angle brackets stays where it is put.\<close>

definition data_safe :: "pystr \<Rightarrow> bool" where
  "data_safe s = list_all (\<lambda>c. c \<notin> {34, 60, 62}) s"

lemma data_safe_append [simp]: "data_safe (s @ t) \<longleftrightarrow> data_safe s \<and> data_safe t"
  by (simp add: data_safe_def)

lemma feeds_data: "data_safe s \<Longrightarrow> feeds (Between, st) s = Some (Between, st)"
  by (induction s) (auto simp: data_safe_def)

lemma feeds_data_quoted:
  "data_safe s \<Longrightarrow> a \<noteq> u ''href'' \<Longrightarrow> a \<noteq> u ''/'' \<Longrightarrow> feeds (Quoted t a, st) s = Some (Quoted t a, st)"
  by (induction s) (auto simp: data_safe_def)

lemma escape_char_safe: "data_safe (escape_char c)"
proof -
  have "data_safe (u ''&amp;'')" "data_safe (u ''&lt;'')" "data_safe (u ''&gt;'')" "data_safe (u ''&quot;'')" "data_safe (u ''&#x27;'')"
    by code_simp+
  then show ?thesis by (simp add: escape_char_def data_safe_def)
qed

lemma escape_safe [simp]: "data_safe (escape_html s)"
  by (induction s) (simp_all add: escape_html_def escape_char_safe, simp add: data_safe_def)

lemma escaped_safe [simp]: "data_safe (escaped E v)"
  by (simp add: escaped_def)

lemma digits_safe [simp]: "data_safe (str_of_int n)"
proof -
  have "\<forall>c\<in>set (str_of_nat k). c \<notin> {34, 60, 62}" for k using str_of_nat_ascii [of _ k] by fastforce
  then show ?thesis by (auto simp: str_of_int_def data_safe_def list_all_iff u_def)
qed

lemmas feeds_escape [html_parts] =
  feeds_data [OF escape_safe] feeds_data_quoted [OF escape_safe] feeds_data [OF escaped_safe] feeds_data_quoted [OF escaped_safe]
  feeds_data [OF digits_safe]

lemma feeds_middot [html_parts]: "feeds (Between, st) MIDDOT = Some (Between, st)"
  by (simp add: MIDDOT_def)

section \<open>Elements\<close>

lemma feeds_code [html_parts]: "feeds (Between, st) (code E v) = Some (Between, st)"
  by (simp add: code_def html_parts reader_defs)

lemma feeds_field [html_parts]: "feeds (Between, st) (field_html E k v) = Some (Between, st)"
  by (simp add: field_html_def html_parts reader_defs)

lemma feeds_sub [html_parts]:
  "(\<And>st. feeds (Between, st) s = Some (Between, st)) \<Longrightarrow> feeds (Between, st) (sub_html s) = Some (Between, st)"
  by (simp add: sub_html_def html_parts reader_defs)

lemma feeds_stamp [html_parts]: "feeds (Between, st) (stamp_html E v) = Some (Between, st)"
  by (simp add: stamp_html_def html_parts reader_defs)

lemma entry_of_mem: "entry_of table v = Some w \<Longrightarrow> \<exists>k. (k, w) \<in> set table \<and> v = PStr (u k)"
  by (auto simp: entry_of_def find_Some_iff split: option.splits) (metis nth_mem)

lemma color_safe:
  assumes "color_of v = Inr c" shows "data_safe (u c)"
proof -
  have "list_all (\<lambda>(_, w). data_safe (u w)) COLORS" "data_safe (u ''neutral'')" by code_simp+
  with assms show ?thesis
    by (auto simp: color_of_def list_all_iff split: if_splits option.splits dest!: entry_of_mem)
qed

lemma feeds_badge_html: "data_safe (u c) \<Longrightarrow> feeds (Between, st) (badge_html E c l) = Some (Between, st)"
  by (simp add: badge_html_def html_parts reader_defs feeds_data_quoted)

lemma feeds_freshness [html_parts]: "feeds (Between, st) (freshness age stale) = Some (Between, st)"
  by (simp add: freshness_def html_parts reader_defs split: option.splits)

section \<open>Parts that may raise\<close>

text \<open>What the reader does on a part; a part that raises is not read.\<close>

definition reads :: "html \<Rightarrow> exn + pystr \<Rightarrow> html option" where
  "reads h r = (case r of Inl _ \<Rightarrow> None | Inr s \<Rightarrow> feeds h s)"

lemma reads_parts [html_parts]:
  "reads h (Inr s) = feeds h s"
  "reads h (lit t) = feeds h (u t)"
  "reads h (cats []) = Some h"
  "reads h (cats (x # xs)) = (case reads h x of None \<Rightarrow> None | Some k \<Rightarrow> reads k (cats xs))"
  by (cases x; cases "cats xs"; simp add: reads_def lit_def feeds_append split: option.splits)+

declare cats.simps [simp del]

text \<open>A part that keeps its place: it does not raise, and the reader comes back to where it was.\<close>

definition keeps :: "exn + pystr \<Rightarrow> bool" where
  "keeps r = (\<forall>st. reads (Between, st) r = Some (Between, st))"

lemma keepsI: "(\<And>st. reads (Between, st) r = Some (Between, st)) \<Longrightarrow> keeps r"
  by (simp add: keeps_def)

lemma keeps_reads: "keeps r \<Longrightarrow> reads (Between, st) r = Some (Between, st)"
  by (simp add: keeps_def)

lemma keeps_map: "(\<And>x. x \<in> set xs \<Longrightarrow> keeps (f x)) \<Longrightarrow> keeps (cats (map f xs))"
  by (induction xs) (auto intro!: keepsI simp: html_parts keeps_reads)

lemma feeds_concat: "(\<And>x. x \<in> set xs \<Longrightarrow> feeds (Between, st) (f x) = Some (Between, st)) \<Longrightarrow>
  feeds (Between, st) (concat (map f xs)) = Some (Between, st)"
  by (induction xs) (auto simp: html_parts)

section \<open>Data of the right shape\<close>

lemma item_key [simp]: "has_key d k \<Longrightarrow> item (PDict d) k = Inr (dget d k)"
  by (simp add: item_def)

lemma has_fieldsE:
  assumes "has_fields shape v"
  obtains d where "v = PDict d" and "list_all (\<lambda>(k, chk). has_key d k \<and> chk (dget d k)) shape"
  using assms by (cases v) (auto simp: has_fields_def)

lemma one_of_str: "one_of xs v \<Longrightarrow> is_str v"
  by (auto simp: one_of_def in_tuple_iff)

lemma keeps_badge: "is_str v \<Longrightarrow> keeps (badge E v)"
  by (rule keepsI) (auto simp: badge_def color_of_def hashable_def is_str_iff reads_def bind_res_def
    intro!: feeds_badge_html color_safe [of v] split: option.splits)

lemma keeps_label:
  assumes "one_of ks v" and "list_all (\<lambda>k. entry_of table (PStr (u k)) \<noteq> None) ks"
  shows "keeps (labelled_badge E table v)"
proof (rule keepsI)
  fix st
  obtain k where k: "v = PStr (u k)" "k \<in> set ks" using assms(1) by (auto simp: one_of_def in_tuple_iff)
  then obtain w where "entry_of table v = Some w" using assms(2) by (auto simp: list_all_iff)
  moreover obtain c where "color_of v = Inr c" using k(1) by (cases "entry_of COLORS v") (auto simp: color_of_def hashable_def)
  ultimately show "reads (Between, st) (labelled_badge E table v) = Some (Between, st)"
    using k(1) by (simp add: labelled_badge_def label_of_def hashable_def reads_def feeds_badge_html color_safe)
qed

section \<open>The card of a supervised agent\<close>

abbreviation clock_of :: "page_env \<Rightarrow> pystr \<Rightarrow> iso_time option" where
  "clock_of E \<equiv> pe_clock E"

lemma keeps_control:
  assumes "control_shape clk c" shows "keeps (control_html E c)"
proof -
  have "has_fields [(''req'', positive_count), (''verb'', one_of CONTROL_VERBS), (''outcome'', one_of [''done'', ''rejected'', ''accepted'']),
      (''reason'', bounded_text), (''at'', is_instant clk)] c"
    using assms by (simp add: control_shape_def exact_fields_def)
  then obtain d where d: "c = PDict d" "has_key d ''verb''" "has_key d ''outcome''" "has_key d ''reason''" "has_key d ''at''"
    "one_of [''done'', ''rejected'', ''accepted''] (dget d ''outcome'')"
    by (rule has_fieldsE) simp
  obtain w where "label_of OUTCOME_LABELS (dget d ''outcome'') = Inr w"
    using d(6) by (auto simp: one_of_def label_of_def hashable_def entry_of_def OUTCOME_LABELS_def)
  then show ?thesis using d(1-5) by (intro keepsI) (simp add: control_html_def on_item_def html_parts reader_defs)
qed

lemma keeps_controls:
  assumes "has_key d ''last_control''" and "at_most_five (control_shape clk) (dget d ''last_control'')"
  shows "keeps (controls_html E (PDict d))"
proof -
  obtain xs where xs: "dget d ''last_control'' = PList xs" "list_all (control_shape clk) xs"
    using assms(2) by (auto simp: at_most_five_def list_of_def split: pyval.splits)
  have "keeps (cats (map (control_html E) xs))" using xs(2) by (intro keeps_map keeps_control) (auto simp: list_all_iff)
  then have "reads (Between, st) (cats (map (control_html E) xs)) = Some (Between, st)" for st by (rule keeps_reads)
  then show ?thesis using assms(1) xs(1)
    by (intro keepsI) (simp add: controls_html_def elements_def truthy_def html_parts reader_defs)
qed

lemma keeps_account:
  assumes "a = PNone \<or> a = PBool False \<or> account_shape (clock_of E) a"
  shows "keeps (account_html E now a)"
proof (cases "a = PNone \<or> a = PBool False")
  case True
  then show ?thesis by (intro keepsI) (auto simp: account_html_def html_parts reader_defs)
next
  case False
  with assms have "account_shape (clock_of E) a" by simp
  then obtain d where d: "a = PDict d" "has_key d ''state''" "has_key d ''label''" "has_key d ''id_hint''" "has_key d ''expires_at''"
    "has_key d ''checked_at''" "one_of ACCOUNT_STATES (dget d ''state'')" "null_or (is_instant (clock_of E)) (dget d ''expires_at'')"
    unfolding account_shape_def by (rule has_fieldsE) simp
  have "keeps (labelled_badge E ACCOUNT_LABELS (dget d ''state''))"
    by (rule keeps_label [OF d(7)]) code_simp
  then have badge: "reads (Between, st) (labelled_badge E ACCOUNT_LABELS (dget d ''state'')) = Some (Between, st)" for st by (rule keeps_reads)
  show ?thesis
  proof (cases "dget d ''expires_at'' = PNone")
    case True
    then show ?thesis using d(1-6) badge False by (intro keepsI) (simp add: account_html_def on_item_def html_parts reader_defs)
  next
    case False
    then obtain s t where s: "dget d ''expires_at'' = PStr s" "instant (clock_of E) (PStr s) = Inr t"
      using d(8) by (auto simp: null_or_def is_instant_def instant_def split: sum.splits pyval.splits)
    then obtain r where "relative_expiry E (PStr s) now = Inr r" by (simp add: relative_expiry_def Let_def)
    then show ?thesis using d(1-6) badge s(1)
      by (intro keepsI) (simp add: account_html_def on_item_def first_ten_def html_parts reader_defs)
  qed
qed

lemma keeps_session:
  assumes "has_key d ''current_turn''" and "has_key d ''session_id_short''" and "has_key d ''turns_in_session''"
    and "null_or (has_fields [(''msg_id'', bounded_text), (''started_at'', is_instant clk), (''attempt_id'', bounded_text)]) (dget d ''current_turn'')"
  shows "keeps (session_html E (PDict d))"
proof (cases "dget d ''current_turn'' = PNone")
  case True
  then show ?thesis using assms(1-3) by (intro keepsI) (simp add: session_html_def on_item_def html_parts reader_defs)
next
  case False
  with assms(4) obtain t where "dget d ''current_turn'' = PDict t" "has_key t ''msg_id''" "has_key t ''attempt_id''"
    unfolding null_or_def by (auto elim!: has_fieldsE)
  then show ?thesis using assms(1-3) by (intro keepsI) (simp add: session_html_def on_item_def html_parts reader_defs)
qed

lemma reads_age:
  assumes "null_or count_value a"
  shows "reads (Between, st) (if a = PNone then Inr (sub_html (u ''tick age unknown''))
    else bind_res (whole a) (\<lambda>n. Inr (sub_html (u ''tick age '' @ escape_html (compact_age n))))) = Some (Between, st)"
proof (cases "a = PNone")
  case False
  then obtain n where "whole a = Inr n"
    using assms by (auto simp: null_or_def count_value_def whole_def int_instance_def split: pyval.splits)
  then show ?thesis using False by (simp add: html_parts reader_defs)
qed (simp add: html_parts reader_defs)

lemma keeps_facts:
  assumes "supervisor_shape clk (PDict d)"
  shows "keeps (card_facts E (PDict d) braked)"
proof -
  have k: "has_key d ''state_reason''" "has_key d ''health''" "has_key d ''tick_age_s''" "has_key d ''unit_state''" "has_key d ''disabled''"
    "has_key d ''brake''" "has_key d ''off_duty''" "has_key d ''restarts_24h''" "has_key d ''inbox_open''"
    and age: "null_or count_value (dget d ''tick_age_s'')" and health: "one_of [''healthy'', ''unhealthy''] (dget d ''health'')"
    and brake: "has_fields [(''consecutive'', count_value), (''tripped_at'', null_or (is_instant clk))] (dget d ''brake'')"
    using assms unfolding supervisor_shape_def by (auto elim!: has_fieldsE)
  from brake obtain b where b: "dget d ''brake'' = PDict b" "has_key b ''consecutive''" "has_key b ''tripped_at''"
    by (rule has_fieldsE) simp
  have h: "reads (Between, st) (badge E (dget d ''health'')) = Some (Between, st)" for st
    by (rule keeps_reads [OF keeps_badge [OF one_of_str [OF health]]])
  show ?thesis
    by (intro keepsI) (simp add: card_facts_def on_item_def item2_def k b h reads_age [OF age] html_parts reader_defs)
qed

lemma reads_attributes:
  assumes "supervisor_shape clk (PDict d)"
  shows "reads (Between, st) (card_attributes E uid (PDict d) stale braked login) = Some (Between, u ''article'' # st)"
proof -
  have k: "has_key d ''session_state''" "has_key d ''health''" "has_key d ''unit_state''" "has_key d ''off_duty''"
    and session: "one_of SESSION_STATES (dget d ''session_state'')"
    using assms unfolding supervisor_shape_def by (auto elim!: has_fieldsE)
  have "keeps (labelled_badge E SESSION_LABELS (dget d ''session_state''))"
    by (rule keeps_label [OF session]) code_simp
  then have b: "reads (Between, st) (labelled_badge E SESSION_LABELS (dget d ''session_state'')) = Some (Between, st)" for st
    by (rule keeps_reads)
  show ?thesis
    by (simp add: card_attributes_def on_item_def k b html_parts reader_defs)
qed

lemma keeps_card:
  assumes "s = PBool False \<or> supervisor_shape (clock_of E) s"
    and "\<And>d. s = PDict d \<Longrightarrow> dget d ''account'' = PNone \<or> dget d ''account'' = PBool False \<or> account_shape (clock_of E) (dget d ''account'')"
  shows "keeps (supervised_card E now stale (uid, s))"
proof (cases "s = PBool False")
  case True
  then show ?thesis by (intro keepsI) (simp add: supervised_card_def invalid_card_def html_parts reader_defs)
next
  case False
  with assms(1) have s: "supervisor_shape (clock_of E) s" by simp
  then obtain d where d: "s = PDict d" unfolding supervisor_shape_def by (rule has_fieldsE)
  note shape = s [unfolded d]
  have k: "has_key d ''account''" "has_key d ''brake''" "has_key d ''current_turn''" "has_key d ''session_id_short''"
      "has_key d ''turns_in_session''" "has_key d ''last_control''"
    and turn: "null_or (has_fields [(''msg_id'', bounded_text), (''started_at'', is_instant (clock_of E)), (''attempt_id'', bounded_text)])
      (dget d ''current_turn'')"
    and controls: "at_most_five (control_shape (clock_of E)) (dget d ''last_control'')"
    and brake: "has_fields [(''consecutive'', count_value), (''tripped_at'', null_or (is_instant (clock_of E)))] (dget d ''brake'')"
    using shape unfolding supervisor_shape_def by (auto elim!: has_fieldsE)
  from brake obtain b where b: "dget d ''brake'' = PDict b" "has_key b ''tripped_at''" by (rule has_fieldsE) simp
  obtain login where login: "login_state (dget d ''account'') = Inr login"
    using assms(2) [OF d] unfolding account_shape_def login_state_def by (auto elim!: has_fieldsE)
  note parts = keeps_reads [OF keeps_account [OF assms(2) [OF d]]] keeps_reads [OF keeps_session [OF k(3-5) turn]]
    keeps_reads [OF keeps_controls [OF k(6) controls]] keeps_reads [OF keeps_facts [OF shape]] reads_attributes [OF shape]
  show ?thesis using False
    by (intro keepsI) (simp add: supervised_card_def d k b login item2_def Let_def parts html_parts reader_defs)
qed

section \<open>The project page\<close>

lemma feeds_quiet_launch [html_parts]: "feeds (Between, st) (quiet_launch status) = Some (Between, st)"
  by (simp add: quiet_launch_def html_parts reader_defs)

lemma keeps_stream:
  assumes "stream_shape stream" shows "reads (Between, st) (stream_facts E stream) = Some (Between, u ''div'' # st)"
    and "\<exists>status. item stream ''status'' = Inr status"
proof -
  obtain d where d: "stream = PDict d" "has_key d ''status''" "has_key d ''last_seq''" "has_key d ''anchor''" "has_key d ''torn_tail''"
      "has_key d ''undecodable_records''"
    and status: "one_of [''ok'', ''corrupt'', ''absent'', ''unreadable''] (dget d ''status'')"
    and anchor: "has_fields [(''value'', null_or count_value), (''relationship'', one_of [''ok'', ''lag'', ''ahead'', ''absent''])] (dget d ''anchor'')"
    using assms unfolding stream_shape_def by (rule has_fieldsE) simp
  from anchor obtain a where a: "dget d ''anchor'' = PDict a" "has_key a ''value''" "has_key a ''relationship''" by (rule has_fieldsE) simp
  have b: "reads (Between, st) (badge E (dget d ''status'')) = Some (Between, st)" for st
    by (rule keeps_reads [OF keeps_badge [OF one_of_str [OF status]]])
  show "reads (Between, st) (stream_facts E stream) = Some (Between, u ''div'' # st)"
    by (simp add: stream_facts_def on_item_def item2_def d a b html_parts reader_defs)
  show "\<exists>status. item stream ''status'' = Inr status" using d by simp
qed

lemma keeps_capacity:
  assumes "capacity_shape clk capacity" and "\<And>l m. data_safe (pe_width E l m)"
  shows "reads (Between, u ''div'' # st) (capacity_html E capacity) = Some (Between, st)"
    and "keeps (live_html E capacity)"
proof -
  obtain d where d: "capacity = PDict d" "has_key d ''limit''" "has_key d ''live''" "has_key d ''as_of''"
      "positive_count (dget d ''limit'')" "null_or count_value (dget d ''live'')"
    using assms(1) unfolding capacity_shape_def by (rule has_fieldsE) simp
  obtain m where m: "dget d ''limit'' = PInt m" using d(5) by (auto simp: positive_count_def split: pyval.splits)
  show live: "keeps (live_html E capacity)"
    by (intro keepsI) (simp add: live_html_def d html_parts)
  have meter: "reads (Between, st) (meter_html E capacity) = Some (Between, st)" for st
  proof (cases "dget d ''live'' = PNone")
    case False
    then obtain l where "dget d ''live'' = PInt l" using d(6) by (auto simp: null_or_def count_value_def split: pyval.splits)
    then show ?thesis by (simp add: meter_html_def d m whole_def int_instance_def html_parts reader_defs feeds_data_quoted [OF assms(2)])
  qed (simp add: meter_html_def d html_parts)
  show "reads (Between, u ''div'' # st) (capacity_html E capacity) = Some (Between, st)"
    using d by (simp add: capacity_html_def on_item_def meter [unfolded d(1)] keeps_reads [OF live [unfolded d(1)]] html_parts reader_defs)
qed

lemma keeps_attention:
  assumes "attention_shape clk att" shows "keeps (attention_html E att)"
proof -
  obtain xs where xs: "att = PList xs" "list_all (has_fields [(''kind'', is_str), (''agent'', null_or is_str), (''reason'', is_str),
      (''since'', is_instant clk), (''attested'', is_flag)]) xs"
    using assms by (auto simp: attention_shape_def list_of_def split: pyval.splits)
  have "keeps (attention_item E i)" if i: "i \<in> set xs" for i
  proof -
    obtain d where d: "i = PDict d" "has_key d ''kind''" "has_key d ''agent''" "has_key d ''reason''" "has_key d ''since''" "has_key d ''attested''"
        "is_str (dget d ''kind'')"
      using bspec [OF xs(2) [unfolded list_all_iff] i] by (rule has_fieldsE) simp
    then show ?thesis using keeps_reads [OF keeps_badge [OF d(7)]]
      by (intro keepsI) (simp add: attention_item_def on_item_def html_parts reader_defs)
  qed
  then have "keeps (cats (map (attention_item E) xs))" by (rule keeps_map)
  then show ?thesis using keeps_reads
    by (intro keepsI) (simp add: attention_html_def xs(1) list_length_def truthy_def elements_def html_parts reader_defs)
qed

lemma binding_fields:
  assumes "binding_shape b \<or> has_fields [(''requested'', null_or is_str), (''effective'', null_or is_str)] b"
  obtains d where "b = PDict d" and "has_key d ''requested''" and "has_key d ''effective''"
  using assms unfolding binding_shape_def by (auto elim!: has_fieldsE)

lemma launch_fields:
  assumes "launch_shape l"
  obtains d where "l = PDict d" and "\<And>slot. slot \<in> {''provider'', ''model'', ''effort'', ''sandbox''} \<Longrightarrow> has_key d slot \<and>
      (binding_shape (dget d slot) \<or> has_fields [(''requested'', null_or is_str), (''effective'', null_or is_str)] (dget d slot))"
    and "has_key d ''attested''" and "has_key d ''adapter''" and "has_fields [(''source'', null_or is_str)] (dget d ''adapter'')"
    and "has_key d ''reasons''"
proof -
  from assms obtain d where d: "l = PDict d" "has_key d ''provider''" "binding_shape (dget d ''provider'')" "has_key d ''model''"
      "binding_shape (dget d ''model'')" "has_key d ''effort''" "binding_shape (dget d ''effort'')" "has_key d ''sandbox''"
      "has_fields [(''requested'', null_or is_str), (''effective'', null_or is_str)] (dget d ''sandbox'')" "has_key d ''attested''"
      "has_key d ''adapter''" "has_fields [(''source'', null_or is_str)] (dget d ''adapter'')" "has_key d ''reasons''"
    unfolding launch_shape_def by (rule has_fieldsE) simp
  show thesis by (rule that [OF d(1) _ d(10-13)]) (use d in auto)
qed

lemma attempt_fields:
  assumes "attempt_shape clk a"
  obtains d l where "a = PDict d" and "has_key d ''id''" and "has_key d ''decided_at''" and "has_key d ''decision''" and "has_key d ''open''"
    and "has_key d ''last''" and "dget d ''last'' = PDict l" and "has_key l ''class''" and "has_key l ''stage''" and "has_key l ''ended_at''"
  using assms unfolding attempt_shape_def by (auto elim!: has_fieldsE)

lemma keeps_binding:
  assumes "has_key d ''launch''" and "has_key d ''attempt''" and "null_or launch_shape (dget d ''launch'')"
    and "null_or (attempt_shape clk) (dget d ''attempt'')" and "slot \<in> {''provider'', ''model'', ''effort'', ''sandbox''}"
  shows "keeps (binding_cell E (PDict d) status slot)"
proof (cases "dget d ''launch'' = PNone")
  case True
  then show ?thesis using assms(1) by (intro keepsI) (simp add: binding_cell_def html_parts)
next
  case False
  then have l: "launch_shape (dget d ''launch'')" using assms(3) by (simp add: null_or_def)
  obtain ld where ld: "dget d ''launch'' = PDict ld" "has_key ld slot"
      "binding_shape (dget ld slot) \<or> has_fields [(''requested'', null_or is_str), (''effective'', null_or is_str)] (dget ld slot)"
    using launch_fields [OF l] assms(5) by metis
  obtain b where b: "dget ld slot = PDict b" "has_key b ''requested''" "has_key b ''effective''" by (rule binding_fields [OF ld(3)])
  obtain dec where "(if truthy (dget d ''attempt'') then item (dget d ''attempt'') ''decision'' else Inr PNone) = Inr dec"
  proof (cases "dget d ''attempt'' = PNone")
    case False
    then have "attempt_shape clk (dget d ''attempt'')" using assms(4) by (simp add: null_or_def)
    then obtain ad where "dget d ''attempt'' = PDict ad" "has_key ad ''decision''" by (rule attempt_fields)
    then show ?thesis using that by (cases ad) (auto simp: truthy_def has_key_def)
  qed (use that in \<open>simp add: truthy_def\<close>)
  then show ?thesis using assms(1,2) ld(1,2) b
    by (intro keepsI) (simp add: binding_cell_def get_attr_def dict_items_def Let_def html_parts)
qed

lemma keeps_attempt:
  assumes "null_or (attempt_shape clk) a" shows "keeps (attempt_cell E a status)"
proof (cases "a = PNone")
  case True
  then show ?thesis by (intro keepsI) (simp add: attempt_cell_def html_parts)
next
  case False
  then have "attempt_shape clk a" using assms by (simp add: null_or_def)
  then show ?thesis
    by (rule attempt_fields) (intro keepsI, simp add: attempt_cell_def on_item_def html_parts reader_defs)
qed

lemma agent_fields:
  assumes "agent_shape clk a"
  obtains d where "a = PDict d" and "has_key d ''state''" and "is_str (dget d ''state'')" and "has_key d ''since''" and "has_key d ''message''"
    and "has_key d ''stale''" and "has_key d ''attested''" and "has_key d ''attempt''" and "null_or (attempt_shape clk) (dget d ''attempt'')"
    and "has_key d ''launch''" and "null_or launch_shape (dget d ''launch'')"
proof -
  from assms obtain d where d: "a = PDict d" "has_key d ''state''" "one_of AGENT_STATES (dget d ''state'')" "has_key d ''since''" "has_key d ''message''"
    "has_key d ''stale''" "has_key d ''attested''" "has_key d ''attempt''" "null_or (attempt_shape clk) (dget d ''attempt'')"
    "has_key d ''launch''" "null_or launch_shape (dget d ''launch'')"
    unfolding agent_shape_def by (rule has_fieldsE) simp
  show thesis by (rule that [OF d(1,2) one_of_str [OF d(3)] d(4-11)])
qed

lemma keeps_name:
  assumes "has_key d ''message''" and "null_or launch_shape launch"
  shows "keeps (agent_name E uid (PDict d) launch)"
proof (cases "truthy launch")
  case True
  then have "launch_shape launch" using assms(2) by (auto simp: null_or_def truthy_def)
  then obtain l where l: "launch = PDict l" "has_key l ''attested''" "has_key l ''adapter''"
      "has_fields [(''source'', null_or is_str)] (dget l ''adapter'')" "has_key l ''reasons''"
    by (rule launch_fields)
  from l(4) obtain ad where "dget l ''adapter'' = PDict ad" "has_key ad ''source''" by (rule has_fieldsE) simp
  then show ?thesis using True assms(1) l(1-3,5)
    by (intro keepsI) (simp add: agent_name_def on_item_def item2_def html_parts reader_defs)
next
  case False
  then show ?thesis using assms(1) by (intro keepsI) (simp add: agent_name_def on_item_def html_parts reader_defs)
qed

lemma reads_InrD: "keeps r \<Longrightarrow> \<exists>s. r = Inr s \<and> (\<forall>st. feeds (Between, st) s = Some (Between, st))"
  by (cases r) (auto simp: keeps_def reads_def)

lemma map_res_parts:
  assumes "\<And>x. x \<in> set xs \<Longrightarrow> keeps (f x)"
  shows "\<exists>ss. map_res f xs = Inr ss \<and> length ss = length xs \<and> (\<forall>s\<in>set ss. \<forall>st. feeds (Between, st) s = Some (Between, st))"
  using assms
proof (induction xs)
  case (Cons x xs)
  then obtain ss where "map_res f xs = Inr ss" "length ss = length xs" "\<forall>s\<in>set ss. \<forall>st. feeds (Between, st) s = Some (Between, st)" by auto
  moreover obtain s where "f x = Inr s" "\<forall>st. feeds (Between, st) s = Some (Between, st)" using reads_InrD Cons.prems by (metis list.set_intros(1))
  ultimately show ?case by auto
qed simp

lemma feeds_cells:
  "(\<And>c st. c \<in> set cs \<Longrightarrow> feeds (Between, st) c = Some (Between, st)) \<Longrightarrow> feeds (Between, st) (cells_html cs) = Some (Between, st)"
  unfolding cells_html_def by (rule feeds_concat) (simp add: html_parts reader_defs)

lemma keeps_agent_row:
  assumes "agent_shape clk a" shows "keeps (agent_row E status (uid, a))"
proof -
  obtain d where d: "a = PDict d" "has_key d ''state''" "is_str (dget d ''state'')" "has_key d ''since''" "has_key d ''message''" "has_key d ''stale''"
      "has_key d ''attested''" "has_key d ''attempt''" "null_or (attempt_shape clk) (dget d ''attempt'')" "has_key d ''launch''"
      "null_or launch_shape (dget d ''launch'')"
    using assms by (rule agent_fields)
  obtain nm where nm: "agent_name E uid (PDict d) (dget d ''launch'') = Inr nm" "\<forall>st. feeds (Between, st) nm = Some (Between, st)"
    using reads_InrD [OF keeps_name [OF d(5,11)]] by blast
  have "keeps (agent_state E (PDict d))"
    using d keeps_reads [OF keeps_badge [OF d(3)]] by (intro keepsI) (simp add: agent_state_def on_item_def html_parts reader_defs)
  then obtain ast where ast: "agent_state E (PDict d) = Inr ast" "\<forall>st. feeds (Between, st) ast = Some (Between, st)"
    using reads_InrD by blast
  obtain bs where bs: "map_res (binding_cell E (PDict d) status) [''provider'', ''model'', ''effort'', ''sandbox''] = Inr bs"
      "\<forall>s\<in>set bs. \<forall>st. feeds (Between, st) s = Some (Between, st)"
    using map_res_parts [of "[''provider'', ''model'', ''effort'', ''sandbox'']" "binding_cell E (PDict d) status"]
      keeps_binding [OF d(10,8,11,9)] by auto
  obtain ac where ac: "attempt_cell E (dget d ''attempt'') status = Inr ac" "\<forall>st. feeds (Between, st) ac = Some (Between, st)"
    using reads_InrD [OF keeps_attempt [OF d(9)]] by blast
  have row: "agent_row E status (uid, a) = Inr (u ''<tr>'' @ nm @ cells_html ([ast] @ bs @ [ac]) @ u ''</tr>'')"
    using bs(1) by (simp add: agent_row_def d nm(1) ast(1) ac(1) del: map_res.simps)
  obtain cells where cells: "cells = cells_html ([ast] @ bs @ [ac])" by simp
  have "feeds (Between, st) cells = Some (Between, st)" for st
    unfolding cells by (rule feeds_cells) (use ast bs ac in auto)
  then show ?thesis unfolding row cells [symmetric] using nm(2) by (intro keepsI) (simp add: html_parts reader_defs)
qed

lemma feeds_table:
  assumes "data_safe (u css_class)" and "\<And>st. feeds (Between, st) rows = Some (Between, st)"
  shows "feeds (Between, st) (table_html headers rows css_class label) = Some (Between, st)"
proof -
  have head: "feeds (Between, st) (concat (map (\<lambda>h. u ''<th scope=\"col\">'' @ escape_html (u h) @ u ''</th>'') headers)) =
      Some (Between, st)" for st
    by (rule feeds_concat) (simp add: html_parts reader_defs)
  show ?thesis
    using assms(2) head by (simp add: table_html_def html_parts reader_defs feeds_data_quoted [OF assms(1)])
qed

lemma keeps_agents:
  assumes "list_all (\<lambda>(k, a). agent_shape clk a) agents" shows "keeps (agents_html E status agents)"
proof -
  have "keeps (agent_row E status x)" if "x \<in> set agents" for x
    using assms that keeps_agent_row by (cases x) (auto simp: list_all_iff)
  then obtain rows where rows: "map_res (agent_row E status) agents = Inr rows" "\<forall>s\<in>set rows. \<forall>st. feeds (Between, st) s = Some (Between, st)"
    using map_res_parts [of agents "agent_row E status"] by blast
  have body: "feeds (Between, st) (concat rows) = Some (Between, st)" for st
    using feeds_concat [of rows st id] rows(2) by simp
  have "data_safe (u ''agents'')" by code_simp
  from feeds_table [OF this body] show ?thesis
    by (intro keepsI) (simp add: agents_html_def rows(1) html_parts reader_defs)
qed

section \<open>What a projection looks like after it was read\<close>

lemma has_key_dset [simp]: "has_key (dset (u j) v d) k \<longleftrightarrow> k = j \<or> has_key d k"
  by (auto simp: has_key_def)

lemma has_fields_dset:
  assumes "has_fields shape (PDict d)" and "list_all (\<lambda>(k, chk). k = j \<longrightarrow> chk v) shape"
  shows "has_fields shape (PDict (dset (u j) v d))"
  using assms by (auto simp: has_fields_def list_all_iff)

lemma sanitized_account:
  "(let s' = sanitize_account clk s in
     dget s' ''account'' = PNone \<or> dget s' ''account'' = PBool False \<or> account_shape clk (dget s' ''account''))"
  by (simp add: sanitize_account_def)

lemma sanitized_supervisor: "supervisor_shape clk (PDict s) \<Longrightarrow> supervisor_shape clk (PDict (sanitize_account clk s))"
  unfolding supervisor_shape_def sanitize_account_def by (auto intro!: has_fields_dset simp: any_value_def)

definition card_ok :: "(pystr \<Rightarrow> iso_time option) \<Rightarrow> pyval \<Rightarrow> bool" where
  "card_ok clk s = (s = PNone \<or> s = PBool False \<or> supervisor_shape clk s \<and>
     (\<forall>d. s = PDict d \<longrightarrow> dget d ''account'' = PNone \<or> dget d ''account'' = PBool False \<or> account_shape clk (dget d ''account'')))"

lemma sanitized_agent:
  assumes "agent_shape clk a"
  shows "agent_shape clk (sanitize_agent clk a)" and "\<exists>d. sanitize_agent clk a = PDict d \<and> card_ok clk (dget d ''supervisor'')"
proof -
  obtain d where d: "a = PDict d" using assms by (rule agent_fields)
  have set: "agent_shape clk (PDict (dset (u ''supervisor'') v d))" for v
    using assms unfolding agent_shape_def d by (rule has_fields_dset) simp
  have "agent_shape clk (sanitize_agent clk a) \<and> (\<exists>d. sanitize_agent clk a = PDict d \<and> card_ok clk (dget d ''supervisor''))"
  proof (cases "supervisor_shape clk (dget d ''supervisor'')")
    case True
    then obtain s where s: "dget d ''supervisor'' = PDict s" unfolding supervisor_shape_def by (rule has_fieldsE)
    have "card_ok clk (PDict (sanitize_account clk s))"
      using sanitized_supervisor [OF True [unfolded s]] sanitized_account [of clk s] by (simp add: card_ok_def Let_def)
    then show ?thesis using True set by (simp add: sanitize_agent_def d s)
  next
    case False
    then show ?thesis using assms set by (auto simp: sanitize_agent_def d card_ok_def)
  qed
  then show "agent_shape clk (sanitize_agent clk a)" "\<exists>d. sanitize_agent clk a = PDict d \<and> card_ok clk (dget d ''supervisor'')" by blast+
qed

definition agents_ok :: "(pystr \<Rightarrow> iso_time option) \<Rightarrow> (pystr \<times> pyval) list \<Rightarrow> bool" where
  "agents_ok clk as = list_all (\<lambda>(_, a). agent_shape clk a \<and> (\<exists>d. a = PDict d \<and> card_ok clk (dget d ''supervisor''))) as"

text \<open>The read projection has the shape the code checked, and its agents carry only data of the right shape.\<close>

lemma read_projection:
  assumes "projection clk uid (PDict p)" and "sanitize_supervisors clk p = q"
  shows "projection clk uid (PDict q)" and "\<exists>as. dget q ''agents'' = PDict as \<and> agents_ok clk as"
proof -
  have "agents_shape clk (dget p ''agents'')" using assms(1) unfolding projection_def by (rule has_fieldsE) simp
  then obtain as where as: "dget p ''agents'' = PDict as" "list_all (\<lambda>(_, a). agent_shape clk a) as"
    by (auto simp: agents_shape_def split: pyval.splits)
  let ?bs = "map (\<lambda>(k, a). (k, sanitize_agent clk a)) as"
  have bs: "agents_ok clk ?bs" using as(2) sanitized_agent by (fastforce simp: agents_ok_def list_all_iff)
  have q: "q = dset (u ''agents'') (PDict ?bs) p" using assms(2) as(1) by (simp add: sanitize_supervisors_def)
  have shape: "agents_shape clk (PDict ?bs)" using bs by (auto simp: agents_shape_def agents_ok_def list_all_iff)
  show "projection clk uid (PDict q)"
    using assms(1) shape unfolding projection_def q by (intro has_fields_dset) simp_all
  show "\<exists>as. dget q ''agents'' = PDict as \<and> agents_ok clk as" using bs by (simp add: q)
qed

lemma supervised_agents_ok:
  assumes "agents_ok clk as"
  shows "\<exists>us. supervised_agents as = Inr us \<and> list_all (\<lambda>(_, s). s \<noteq> PNone \<and> card_ok clk s) us"
proof -
  have "\<exists>us. map_res (\<lambda>(uid, a). bind_res (get_attr a ''supervisor'') (\<lambda>s. Inr (uid, s))) as = Inr us \<and> list_all (\<lambda>(_, s). card_ok clk s) us"
    using assms by (induction as) (auto simp: agents_ok_def get_attr_def)
  then show ?thesis by (auto simp: supervised_agents_def list_all_iff)
qed

lemma keeps_supervised:
  assumes "agents_ok (clock_of E) as" shows "keeps (supervised_html E now stale as)"
proof -
  obtain us where us: "supervised_agents as = Inr us" "list_all (\<lambda>(_, s). s \<noteq> PNone \<and> card_ok (clock_of E) s) us"
    using supervised_agents_ok [OF assms] by blast
  have "keeps (supervised_card E now stale x)" if "x \<in> set us" for x
  proof (cases x)
    case (Pair uid s)
    then have "s \<noteq> PNone" "card_ok (clock_of E) s" using us(2) that by (auto simp: list_all_iff)
    then show ?thesis unfolding Pair by (intro keeps_card) (auto simp: card_ok_def)
  qed
  then have "keeps (cats (map (supervised_card E now stale) us))" by (rule keeps_map)
  from keeps_reads [OF this] show ?thesis
    by (intro keepsI) (simp add: supervised_html_def us(1) html_parts reader_defs)
qed

section \<open>Whole pages\<close>

lemma feeds_no_tag: "60 \<notin> set s \<Longrightarrow> feeds (Between, st) s = Some (Between, st)"
  by (induction s) auto

text \<open>The two parameters that go into a page as they are: the style sheet and the width of the meter.\<close>

definition style_ok :: "page_env \<Rightarrow> bool" where
  "style_ok E = (60 \<notin> set (pe_css E) \<and> (\<forall>l m. data_safe (pe_width E l m)))"

lemma escape_path: "escape_html (u ''/p/'' @ i) = u ''/p/'' @ escape_html i" "escape_html (u ''/'') = u ''/''"
proof -
  have "escape_html (u ''/p/'') = u ''/p/''" by code_simp
  then show "escape_html (u ''/p/'' @ i) = u ''/p/'' @ escape_html i" by (simp add: escape_html_def)
  show "escape_html (u ''/'') = u ''/''" by code_simp
qed

lemma feeds_theme_link [html_parts]:
  assumes "path = u ''/'' \<or> (\<exists>i. path = u ''/p/'' @ i)" and "data_safe (u name)"
  shows "feeds (Between, st) (theme_link E path theme name) = Some (Between, st)"
proof -
  have "escape_html path = u ''/'' \<or> (\<exists>i. escape_html path = u ''/p/'' @ escape_html i)" using assms(1) escape_path by auto
  then show ?thesis
    by (elim disjE exE) (simp_all add: theme_link_def html_parts reader_defs feeds_data [OF assms(2)] feeds_data_quoted [OF assms(2)])
qed

lemma page_well_formed:
  assumes "style_ok E" and "\<And>st. feeds (Between, st) body = Some (Between, st)"
  shows "well_formed_html (page E title body theme uid)"
proof -
  have css: "feeds (Between, st) (pe_css E) = Some (Between, st)" for st using assms(1) by (simp add: style_ok_def feeds_no_tag)
  let ?path = "case uid of Some i \<Rightarrow> u ''/p/'' @ i | None \<Rightarrow> u ''/''"
  have path: "?path = u ''/'' \<or> (\<exists>i. ?path = u ''/p/'' @ i)" by (simp split: option.splits)
  have names: "data_safe (u ''dark'')" "data_safe (u ''light'')" "data_safe (u ''c64'')" by code_simp+
  note links = feeds_theme_link [OF path names(1)] feeds_theme_link [OF path names(2)] feeds_theme_link [OF path names(3)]
  have nav: "feeds (Between, st) (case uid of Some i \<Rightarrow> u ''<span aria-current=\"page\">Project: '' @ code E (PStr i) @ u ''</span>'' | None \<Rightarrow> []) =
      Some (Between, st)" for st
    by (simp add: html_parts reader_defs split: option.splits)
  have "feeds (Between, []) (page E title body theme uid) = Some (Between, [])"
  proof (cases "theme \<in> {''dark'', ''light'', ''c64''}")
    case True
    with names have theme: "data_safe (u theme)" by auto
    show ?thesis using True css assms(2)
      by (simp add: page_def Let_def nav links feeds_data_quoted [OF theme] html_parts reader_defs)
  next
    case False
    then show ?thesis using css assms(2) by (simp add: page_def Let_def nav links html_parts reader_defs)
  qed
  then show ?thesis by (simp add: well_formed_html_def)
qed

lemma keeps_snapshot:
  assumes "projection clk i (PDict p)" shows "keeps (snapshot_html E (PDict p) uid age stale)"
proof -
  have k: "has_key p ''schema''" "has_key p ''generated_at''" "has_key p ''attested_sources''"
    and sources: "list_of is_str (dget p ''attested_sources'')"
    using assms unfolding projection_def by (auto elim!: has_fieldsE)
  obtain xs where "dget p ''attested_sources'' = PList xs" "list_all is_str xs"
    using sources by (auto simp: list_of_def split: pyval.splits)
  then show ?thesis
    by (intro keepsI) (simp add: snapshot_html_def on_item_def k elements_def joined_texts_def html_parts reader_defs)
qed

lemma keeps_anomalies: "keeps (anomalies_html E (PDict d))"
proof (rule keepsI)
  fix st
  have body: "feeds (Between, st') (concat (map (\<lambda>(k, v). field_html E k v) d)) = Some (Between, st')" for st'
    by (rule feeds_concat) (simp add: html_parts split: prod.splits)
  show "reads (Between, st) (anomalies_html E (PDict d)) = Some (Between, st)"
    using body by (simp add: anomalies_html_def dict_items_def html_parts reader_defs)
qed

lemma project_page_shown:
  assumes "projection (clock_of E) i (PDict p)" and "\<exists>as. dget p ''agents'' = PDict as \<and> agents_ok (clock_of E) as" and "style_ok E"
  shows "\<exists>s. project_page E (PDict p) now threshold theme = Inr s \<and> well_formed_html s"
proof -
  have k: "has_key p ''generated_at''" "has_key p ''project_uid''" "has_key p ''stream''" "has_key p ''capacity''" "has_key p ''attention''"
      "has_key p ''agents''" "has_key p ''anomalies''" "is_instant (clock_of E) (dget p ''generated_at'')" "dget p ''project_uid'' = PStr i"
      "stream_shape (dget p ''stream'')" "capacity_shape (clock_of E) (dget p ''capacity'')" "attention_shape (clock_of E) (dget p ''attention'')"
    and anomalies: "has_fields [(''unregistered_logs'', count_value), (''unparsable_lines'', count_value), (''uid_mismatches'', count_value),
        (''undecodable_records'', count_value), (''launch_malformed'', count_value)] (dget p ''anomalies'')"
    using assms(1) unfolding projection_def by - (erule has_fieldsE, simp)+
  obtain as where as: "dget p ''agents'' = PDict as" "agents_ok (clock_of E) as" using assms(2) by blast
  obtain an where an: "dget p ''anomalies'' = PDict an" using anomalies by (rule has_fieldsE)
  obtain t where t: "instant (clock_of E) (dget p ''generated_at'') = Inr t" using k(8) by (auto simp: is_instant_def split: sum.splits)
  obtain status where status: "item (dget p ''stream'') ''status'' = Inr status" using keeps_stream(2) [OF k(10)] by blast
  have shapes: "list_all (\<lambda>(k, a). agent_shape (clock_of E) a) as" using as(2) by (auto simp: agents_ok_def list_all_iff)
  have width: "\<And>l m. data_safe (pe_width E l m)" using assms(3) by (simp add: style_ok_def)
  note parts = keeps_reads [OF keeps_snapshot [OF assms(1)]] keeps_stream(1) [OF k(10)] keeps_capacity(1) [OF k(11) width]
    keeps_reads [OF keeps_attention [OF k(12)]] keeps_reads [OF keeps_supervised [OF as(2)]] keeps_reads [OF keeps_agents [OF shapes]]
    keeps_reads [OF keeps_anomalies]
  have "keeps (project_body E (PDict p) (PStr i) now threshold)"
    by (intro keepsI) (simp add: project_body_def k(1-7) t as(1) an status dict_items_def Let_def html_parts parts)
  then obtain body where body: "project_body E (PDict p) (PStr i) now threshold = Inr body"
      "\<And>st. feeds (Between, st) body = Some (Between, st)"
    using reads_InrD by blast
  show ?thesis using page_well_formed [OF assms(3) body(2)]
    by (simp add: project_page_def k(2,9) body(1))
qed


section \<open>The fleet\<close>

lemma has_key_literal: "has_key ((u j, v) # d) k \<longleftrightarrow> j = k \<or> has_key d k"
  by (auto simp: has_key_def)

lemma map_res_Inr: "(\<And>x. x \<in> set xs \<Longrightarrow> \<exists>y. f x = Inr y) \<Longrightarrow> \<exists>ys. map_res f xs = Inr ys"
  by (induction xs) force+

lemma supervisor_counts_shown:
  assumes "agents_ok clk as"
  obtains s b l where "supervisor_counts (map snd as) =
      Inr [(u ''supervised_count'', PInt s), (u ''braked_count'', PInt b), (u ''login_attention_count'', PInt l)]"
proof -
  have "\<exists>vs. map_res (\<lambda>a. get_attr a ''supervisor'') (map snd as) = Inr vs \<and> list_all (card_ok clk) vs"
    using assms by (induction as) (auto simp: agents_ok_def get_attr_def)
  then obtain vs where vs: "map_res (\<lambda>a. get_attr a ''supervisor'') (map snd as) = Inr vs" "list_all (card_ok clk) vs" by blast
  let ?valid = "filter is_dict (filter (\<lambda>v. v \<noteq> PNone) vs)"
  have valid: "\<exists>d b. s = PDict d \<and> has_key d ''account'' \<and> has_key d ''brake'' \<and> dget d ''brake'' = PDict b \<and> has_key b ''tripped_at'' \<and>
      (is_dict (dget d ''account'') \<longrightarrow> (\<exists>st. item (dget d ''account'') ''state'' = Inr st))" if s: "s \<in> set ?valid" for s
  proof -
    obtain d where d: "s = PDict d" and "card_ok clk s" using s vs(2) by (auto simp: is_dict_iff list_all_iff)
    then have shape: "supervisor_shape clk (PDict d)"
      and account: "dget d ''account'' = PNone \<or> dget d ''account'' = PBool False \<or> account_shape clk (dget d ''account'')"
      by (auto simp: card_ok_def)
    have k: "has_key d ''account''" "has_key d ''brake''"
      "has_fields [(''consecutive'', count_value), (''tripped_at'', null_or (is_instant clk))] (dget d ''brake'')"
      using shape unfolding supervisor_shape_def by - (erule has_fieldsE, simp)+
    from k(3) obtain b where "dget d ''brake'' = PDict b" "has_key b ''tripped_at''" by (rule has_fieldsE) simp
    moreover have "\<exists>st. item (dget d ''account'') ''state'' = Inr st" if "is_dict (dget d ''account'')"
    proof -
      have "account_shape clk (dget d ''account'')" using account that by (auto simp: is_dict_def)
      then show ?thesis unfolding account_shape_def by (rule has_fieldsE) simp
    qed
    ultimately show ?thesis using d k by blast
  qed
  have each: "(\<exists>b. is_braked s = Inr b) \<and> (\<exists>b. needs_login s = Inr b)" if s: "s \<in> set ?valid" for s
    using valid [OF s] by (elim exE conjE) (cases "is_dict (dget (case s of PDict d \<Rightarrow> d) ''account'')",
      auto simp: is_braked_def needs_login_def)
  have "\<exists>bs. map_res is_braked ?valid = Inr bs" by (rule map_res_Inr) (use each in blast)
  moreover have "\<exists>ls. map_res needs_login ?valid = Inr ls" by (rule map_res_Inr) (use each in blast)
  ultimately show thesis using that by (auto simp: supervisor_counts_def supervisors_of_def vs(1) Let_def count_true_def)
qed

lemma finite_get: "finite_value (PDict d) \<Longrightarrow> finite_value (dget d k)"
  by (auto simp: dget_def list_all_iff dest: map_of_SomeD split: option.splits)

lemma present_row_shown:
  assumes "projection (clock_of E) i (PDict p)" and "\<exists>as. dget p ''agents'' = PDict as \<and> agents_ok (clock_of E) as"
    and "finite_value (PDict p)"
  shows "\<exists>d. present_row (clock_of E) now threshold uid p = Inr d \<and> keeps (fleet_row_html E (PDict d)) \<and> finite_value (PDict d)"
proof -
  have k: "has_key p ''generated_at''" "has_key p ''stream''" "has_key p ''capacity''" "has_key p ''attention''"
      "has_key p ''agents''" "is_instant (clock_of E) (dget p ''generated_at'')"
      "stream_shape (dget p ''stream'')" "capacity_shape (clock_of E) (dget p ''capacity'')" "attention_shape (clock_of E) (dget p ''attention'')"
    using assms(1) unfolding projection_def by - (erule has_fieldsE, simp)+
  obtain as where as: "dget p ''agents'' = PDict as" "agents_ok (clock_of E) as" using assms(2) by blast
  obtain t where t: "instant (clock_of E) (dget p ''generated_at'') = Inr t" using k(6) by (auto simp: is_instant_def split: sum.splits)
  obtain status where status: "item (dget p ''stream'') ''status'' = Inr status" "is_str status"
    using k(7) unfolding stream_shape_def by (rule has_fieldsE) (auto dest: one_of_str)
  obtain xs where xs: "dget p ''attention'' = PList xs" using k(9) by (auto simp: attention_shape_def list_of_def split: pyval.splits)
  have "\<exists>vs. map_res (\<lambda>a. item a ''state'') (map snd as) = Inr vs"
    by (rule map_res_Inr) (use as(2) in \<open>fastforce simp: agents_ok_def list_all_iff elim: agent_fields\<close>)
  then obtain kvs where states: "count_states (map snd as) = Inr (PDict kvs)" "list_all (\<lambda>(k, v). finite_value v) kvs"
    by (auto simp: count_states_def AGENT_STATES_def)
  obtain s b l where counts: "supervisor_counts (map snd as) =
      Inr [(u ''supervised_count'', PInt s), (u ''braked_count'', PInt b), (u ''login_attention_count'', PInt l)]"
    using as(2) by (rule supervisor_counts_shown)
  obtain c where c: "dget p ''capacity'' = PDict c" "has_key c ''live''" "has_key c ''limit''"
    using k(8) unfolding capacity_shape_def by (rule has_fieldsE) simp
  obtain bg where bg: "badge E status = Inr bg" "\<forall>st. feeds (Between, st) bg = Some (Between, st)"
    using reads_InrD [OF keeps_badge [OF status(2)]] by blast
  have states_html: "feeds (Between, st) (states_html E kvs) = Some (Between, st)" for st
  proof -
    have "feeds (Between, st') (concat (map (\<lambda>(k, v). u ''<span>'' @ escape_html k @ u '' <b>'' @ escaped E v @ u ''</b></span>'') kvs)) = Some (Between, st')" for st'
      by (rule feeds_concat) (simp add: html_parts reader_defs split: prod.splits)
    then show ?thesis by (simp add: states_html_def html_parts reader_defs)
  qed
  let ?d = "[(u ''project_uid'', PStr uid), (u ''present'', PBool True), (u ''reason'', PNone), (u ''generated_at'', dget p ''generated_at''),
      (u ''age_seconds'', PInt \<lfloor>now - t\<rfloor>), (u ''stale'', PBool (of_int threshold < now - t)), (u ''stream_status'', status),
      (u ''capacity'', dget p ''capacity''), (u ''attention_count'', PInt (int (length xs))), (u ''agents_by_state'', PDict kvs),
      (u ''supervised_count'', PInt s), (u ''braked_count'', PInt b), (u ''login_attention_count'', PInt l)]"
  have "present_row (clock_of E) now threshold uid p = Inr ?d"
    by (simp add: present_row_def k(1-5) t as(1) dict_values_def status(1) xs list_length_def states(1) counts)
  moreover have "keeps (fleet_row_html E (PDict ?d))"
    by (intro keepsI, simp add: fleet_row_html_def fleet_cells_def supervision_cell_def has_key_literal truthy_def
        dict_items_def c live_html_def optional_whole_def whole_def int_instance_def bg states_html cells_html_def html_parts reader_defs)
  moreover have "finite_value status" using status(2) by (auto simp: is_str_iff)
  then have "finite_value (PDict ?d)" using finite_get [OF assms(3)] states(2) by simp
  ultimately show ?thesis by blast
qed

end
