(* ===== verification/DashServer.thy ===== *)
theory DashServer
  imports DashRender
begin

text \<open>
  The routes of the dashboard (\<open>dashboard/server.py\<close>): which response a request gets. Python's URL
  splitter, query parser and cookie parser are parameters, as the replies of the projection
  directory are; the HTTP library underneath, which reads the request line and the headers, and
  the encoding of the body are left out.
\<close>

section \<open>Requests and responses\<close>

record web =
  wb_split :: "pystr \<Rightarrow> (pystr \<times> pystr) option"
  wb_query :: "pystr \<Rightarrow> (pystr \<times> pystr list) list option"
  wb_cookie :: "pystr \<Rightarrow> pystr option option"
  wb_root :: "root_dir option"
  wb_now :: rat
  wb_observed :: pystr
  wb_threshold :: int
  wb_page :: page_env

record request =
  rq_command :: pystr
  rq_target :: pystr
  rq_cookie :: "pystr option"

record response =
  rs_status :: int
  rs_type :: string
  rs_body :: pystr
  rs_cookie :: "string option"
  rs_allow :: bool
  rs_sent :: bool

definition JSON_TYPE :: string where "JSON_TYPE = ''application/json; charset=utf-8''"
definition HTML_TYPE :: string where "HTML_TYPE = ''text/html; charset=utf-8''"

text \<open>The body of a response to \<open>HEAD\<close> is not sent; a refused method is told the allowed ones.\<close>

definition respond :: "request \<Rightarrow> int \<Rightarrow> pystr \<Rightarrow> string \<Rightarrow> string option \<Rightarrow> response" where
  "respond rq status body content_type cookie = \<lparr>rs_status = status, rs_type = content_type, rs_body = body, rs_cookie = cookie,
     rs_allow = (status = 405), rs_sent = (rq_command rq \<noteq> u ''HEAD'')\<rparr>"

text \<open>\<open>allow_nan=False\<close> refuses a float that is not finite.\<close>

definition json_response :: "web \<Rightarrow> request \<Rightarrow> int \<Rightarrow> pydict \<Rightarrow> string option \<Rightarrow> exn + response" where
  "json_response w rq status v cookie = (if \<not> finite_value (PDict v) then Inl (ValueError (u ''nonfinite''))
     else Inr (respond rq status (json_dumps (pe_float (wb_page w)) True (PDict v)) JSON_TYPE cookie))"

section \<open>Themes\<close>

definition THEMES :: "string list" where
  "THEMES = [''dark'', ''light'', ''c64'', ''auto'']"

definition theme_named :: "pystr \<Rightarrow> string option" where
  "theme_named s = find (\<lambda>t. s = u t) THEMES"

text \<open>The theme and the cookie to set; \<open>None\<close> when the query cannot be parsed.\<close>

definition theme_of :: "web \<Rightarrow> pystr \<Rightarrow> pystr option \<Rightarrow> (string \<times> string option) option" where
  "theme_of w query cookie = (case wb_query w query of
       None \<Rightarrow> None
     | Some values \<Rightarrow> Some (case map_of values (u ''theme'') of
         Some choices \<Rightarrow> (case choices of
             [c] \<Rightarrow> (case theme_named c of Some t \<Rightarrow> (t, Some t) | None \<Rightarrow> (''auto'', None))
           | _ \<Rightarrow> (''auto'', None))
       | None \<Rightarrow> (case wb_cookie w (case cookie of Some c \<Rightarrow> c | None \<Rightarrow> []) of
             Some (Some c) \<Rightarrow> (case theme_named c of Some t \<Rightarrow> (t, None) | None \<Rightarrow> (''auto'', None))
           | _ \<Rightarrow> (''auto'', None))))"

section \<open>Routes\<close>

datatype route = Fleet_html | Fleet_json | Project_html pystr | Project_json pystr

definition route_of :: "pystr \<Rightarrow> route option" where
  "route_of path =
     (if path = u ''/'' then Some Fleet_html
      else if path = u ''/api/fleet'' then Some Fleet_json
      else if startswith path (u ''/p/'') \<and> fullmatch TOKEN_DASH (drop 3 path) then Some (Project_html (drop 3 path))
      else if startswith path (u ''/api/project/'') \<and> fullmatch TOKEN_DASH (drop 13 path) then Some (Project_json (drop 13 path))
      else None)"

definition not_found :: "web \<Rightarrow> request \<Rightarrow> string \<Rightarrow> string option \<Rightarrow> exn + response" where
  "not_found w rq reason cookie = json_response w rq 404 [(u ''error'', text_value ''unknown''), (u ''reason'', text_value reason)] cookie"

definition show_fleet :: "web \<Rightarrow> request \<Rightarrow> bool \<Rightarrow> string \<Rightarrow> string option \<Rightarrow> exn + response" where
  "show_fleet w rq html theme cookie =
     bind_res (fleet (pe_clock (wb_page w)) (pe_float (wb_page w)) (wb_root w) (wb_observed w) (wb_now w) (wb_threshold w)) (\<lambda>v.
       if html then bind_res (fleet_page (wb_page w) (PDict v) theme (wb_threshold w)) (\<lambda>s. Inr (respond rq 200 s HTML_TYPE cookie))
       else json_response w rq 200 v cookie)"

definition show_project :: "web \<Rightarrow> request \<Rightarrow> bool \<Rightarrow> pystr \<Rightarrow> string \<Rightarrow> string option \<Rightarrow> exn + response" where
  "show_project w rq html uid theme cookie =
     (case read_project (pe_clock (wb_page w)) (pe_float (wb_page w)) (map_option rd_entry (wb_root w)) uid of
         Inl reason \<Rightarrow> json_response w rq 404 [(u ''error'', text_value ''unknown''), (u ''project_uid'', PStr uid),
           (u ''reason'', text_value reason)] cookie
       | Inr p \<Rightarrow>
           if html then bind_res (project_page (wb_page w) (PDict p) (wb_now w) (wb_threshold w) theme) (\<lambda>s.
             Inr (respond rq 200 s HTML_TYPE cookie))
           else json_response w rq 200 p cookie)"

definition do_get :: "web \<Rightarrow> request \<Rightarrow> exn + response" where
  "do_get w rq = (case wb_split w (rq_target rq) of
       None \<Rightarrow> not_found w rq ''invalid_path'' None
     | Some (path, query) \<Rightarrow> (case theme_of w query (rq_cookie rq) of
         None \<Rightarrow> not_found w rq ''invalid_path'' None
       | Some (theme, cookie) \<Rightarrow> (case route_of path of
           None \<Rightarrow> not_found w rq ''missing_route'' cookie
         | Some Fleet_html \<Rightarrow> show_fleet w rq True theme cookie
         | Some Fleet_json \<Rightarrow> show_fleet w rq False theme cookie
         | Some (Project_html uid) \<Rightarrow> show_project w rq True uid theme cookie
         | Some (Project_json uid) \<Rightarrow> show_project w rq False uid theme cookie)))"

text \<open>\<open>parse_request\<close> admits two methods, which are handled alike.\<close>

definition handle_request :: "web \<Rightarrow> request \<Rightarrow> exn + response" where
  "handle_request w rq = (if rq_command rq \<in> {u ''GET'', u ''HEAD''} then do_get w rq
     else json_response w rq 405 [(u ''error'', text_value ''method_not_allowed'')] None)"

end
