(* ===== verification/DashProps.thy ===== *)
theory DashProps
  imports DashPages DashServer
begin

text \<open>
  The properties of the dashboard: what the reader hands out, and that every request gets a
  response, with a page the strict reader accepts whatever the data are.
\<close>

section \<open>What the reader hands out\<close>

lemma finite_dset: "finite_value (PDict d) \<Longrightarrow> finite_value v \<Longrightarrow> finite_value (PDict (dset k v d))"
  by (induction d) (auto simp: dset_def)

lemma finite_sanitized: "finite_value a \<Longrightarrow> finite_value (sanitize_agent clk a)"
proof (cases a)
  case (PDict d)
  assume fin: "finite_value a"
  have "finite_value (PDict (sanitize_account clk s))" if "dget d ''supervisor'' = PDict s" for s
    using finite_get [of d "''supervisor''"] fin that PDict finite_dset by (simp add: sanitize_account_def del: finite_value.simps(3)) 
  then show ?thesis using fin PDict finite_dset [of d]
    by (auto simp: sanitize_agent_def simp del: finite_value.simps(3) split: pyval.splits)
qed (simp_all add: sanitize_agent_def)

lemma read_at_Inr:
  assumes "read_at clk fr dir uid = Inr p"
  shows "projection clk uid (PDict p)" and "\<exists>as. dget p ''agents'' = PDict as \<and> agents_ok clk as" and "finite_value (PDict p)"
proof -
  obtain raw v where v: "parse_projection fr raw = Inr v" "projection clk uid v"
      "(case v of PDict q \<Rightarrow> Inr (sanitize_supervisors clk q) | _ \<Rightarrow> Inl ''schema'') = (Inr p :: string + pydict)"
    using assms by (auto simp: read_at_def split: if_splits entry.splits sum.splits)
  then obtain q where q: "v = PDict q" "sanitize_supervisors clk q = p" by (auto split: pyval.splits)
  show "projection clk uid (PDict p)" "\<exists>as. dget p ''agents'' = PDict as \<and> agents_ok clk as"
    using read_projection [OF v(2) [unfolded q(1)] q(2)] by blast+
  have fin: "finite_value (PDict q)"
    using v(1) q(1) by (auto simp: parse_projection_def bind_res_Inr split: if_splits)
  have "finite_value (PDict (map (\<lambda>(k, a). (k, sanitize_agent clk a)) as))" if "dget q ''agents'' = PDict as" for as
    using finite_get [OF fin, of "''agents''"] that finite_sanitized by (fastforce simp: list_all_iff)
  then show "finite_value (PDict p)"
    using fin finite_dset [OF fin] q(2) by (auto simp: sanitize_supervisors_def simp del: finite_value.simps(3) split: pyval.splits)
qed

section \<open>The fleet\<close>

lemma replicate4: "replicate 4 x = [x, x, x, x]"
  by (simp add: numeral_eq_Suc)

lemma fleet_row_shown:
  "\<exists>d. fleet_row (clock_of E) fr dir now threshold uid = Inr d \<and> keeps (fleet_row_html E (PDict d)) \<and> finite_value (PDict d)"
proof (cases "read_at (clock_of E) fr dir uid")
  case (Inl reason)
  have "keeps (fleet_row_html E (PDict (absent_row uid reason)))"
    by (intro keepsI) (simp add: absent_row_def text_value_def fleet_row_html_def fleet_cells_def supervision_cell_def has_key_literal truthy_def
        cells_html_def replicate4 html_parts reader_defs)
  then show ?thesis using Inl by (simp add: fleet_row_def absent_row_def text_value_def)
next
  case (Inr p)
  from present_row_shown [OF read_at_Inr [OF Inr]] show ?thesis using Inr by (simp add: fleet_row_def)
qed

lemma fleet_rows_shown:
  "\<exists>rows. map_res (fleet_row (clock_of E) fr dir now threshold) uids = Inr rows \<and>
     list_all (\<lambda>d. keeps (fleet_row_html E (PDict d)) \<and> finite_value (PDict d)) rows"
proof (induction uids)
  case (Cons uid uids)
  then show ?case using fleet_row_shown [of E fr dir now threshold uid] by auto
qed simp

lemma fleet_shown:
  assumes "style_ok E"
  shows "\<exists>f s. fleet (clock_of E) fr dir observed now threshold = Inr f \<and> finite_value (PDict f) \<and>
     fleet_page E (PDict f) theme threshold = Inr s \<and> well_formed_html s"
proof -
  have shown: "\<exists>s. fleet_page E (PDict (fleet_value observed status seen rows)) theme threshold = Inr s \<and> well_formed_html s"
    if rows: "list_all (\<lambda>d. keeps (fleet_row_html E (PDict d)) \<and> finite_value (PDict d)) rows" for status seen rows
  proof -
    have "keeps (fleet_row_html E v)" if "v \<in> set (map PDict rows)" for v using rows that by (auto simp: list_all_iff)
    then obtain hs where hs: "map_res (fleet_row_html E) (map PDict rows) = Inr hs" "\<forall>s\<in>set hs. \<forall>st. feeds (Between, st) s = Some (Between, st)"
      using map_res_parts [of "map PDict rows" "fleet_row_html E"] by blast
    have "feeds (Between, st) (concat hs) = Some (Between, st)" for st using feeds_concat [of hs st id] hs(2) by simp
    moreover have "data_safe (u ''fleet-table'')" by code_simp
    ultimately have table: "feeds (Between, st) (table_html fleet_headers (concat hs) ''fleet-table'' ''Project projection snapshots'') = Some (Between, st)" for st
      using feeds_table by blast
    have "feeds (Between, st) (fleet_body E hs seen (PStr observed) (text_value status) threshold) = Some (Between, st)" for st
      by (simp add: fleet_body_def table html_parts reader_defs)
    from page_well_formed [OF assms this] show ?thesis
      by (simp add: fleet_page_def fleet_value_def has_key_literal elements_def hs(1))
  qed
  have fin: "finite_value (PDict (fleet_value observed status (PInt n) rows))" "finite_value (PDict (fleet_value observed status PNone rows))"
    if "list_all (\<lambda>d. keeps (fleet_row_html E (PDict d)) \<and> finite_value (PDict d)) rows" for status n rows
    using that by (auto simp: fleet_value_def text_value_def list_all_iff)
  have none: "\<exists>s. fleet_page E (PDict (fleet_value observed ''unknown'' PNone [])) theme threshold = Inr s \<and> well_formed_html s"
    "finite_value (PDict (fleet_value observed ''unknown'' PNone []))"
    using shown [of "[]"] fin [of "[]"] by simp_all
  show ?thesis
  proof (cases "\<exists>r names. dir = Some r \<and> rd_names r = Some names")
    case True
    then obtain r names where r: "dir = Some r" "rd_names r = Some names" by blast
    let ?uids = "List.map_filter (\<lambda>(n, regular). if regular then projection_uid n else None) names"
    obtain rows where rows: "map_res (fleet_row (clock_of E) fr (rd_entry r) now threshold) (sort ?uids) = Inr rows"
        "list_all (\<lambda>d. keeps (fleet_row_html E (PDict d)) \<and> finite_value (PDict d)) rows"
      using fleet_rows_shown by blast
    show ?thesis using r rows(1) shown [OF rows(2)] fin(1) [OF rows(2)] by (simp add: fleet_def Let_def)
  next
    case False
    then have "fleet (clock_of E) fr dir observed now threshold = Inr (fleet_value observed ''unknown'' PNone [])"
      by (auto simp: fleet_def split: option.splits)
    with none show ?thesis by blast
  qed
qed

section \<open>Responses\<close>

lemma project_finite: "read_project clk fr dir uid = Inr p \<Longrightarrow> finite_value (PDict p)"
  using read_at_Inr(3) by (auto simp: read_project_def split: if_splits option.splits)

lemma theme_found: "theme_named s = Some t \<Longrightarrow> t \<in> set THEMES"
  by (auto simp: theme_named_def find_Some_iff)

text \<open>What every response satisfies.\<close>

definition response_ok :: "request \<Rightarrow> response \<Rightarrow> bool" where
  "response_ok rq r = (rs_status r \<in> {200, 404, 405} \<and> (rs_allow r = (rs_status r = 405)) \<and>
     (rs_sent r = (rq_command rq \<noteq> u ''HEAD'')) \<and> rs_type r \<in> {JSON_TYPE, HTML_TYPE} \<and>
     (if rs_type r = HTML_TYPE then rs_status r = 200 \<and> well_formed_html (rs_body r) else True) \<and>
     (case rs_cookie r of None \<Rightarrow> True | Some t \<Rightarrow> t \<in> set THEMES))"

lemma types_differ: "JSON_TYPE \<noteq> HTML_TYPE"
  by (simp add: JSON_TYPE_def HTML_TYPE_def)

definition good_cookie :: "string option \<Rightarrow> bool" where
  "good_cookie c = (case c of None \<Rightarrow> True | Some t \<Rightarrow> t \<in> set THEMES)"

lemma json_ok:
  assumes "finite_value (PDict v)" and "status \<in> {200, 404, 405}" and "good_cookie cookie"
  shows "\<exists>r. json_response w rq status v cookie = Inr r \<and> response_ok rq r"
  using assms types_differ by (auto simp: json_response_def respond_def response_ok_def good_cookie_def)

lemma html_ok:
  "well_formed_html s \<Longrightarrow> good_cookie cookie \<Longrightarrow> response_ok rq (respond rq 200 s HTML_TYPE cookie)"
  by (auto simp: respond_def response_ok_def good_cookie_def)

lemma theme_of_cookie: "theme_of w q c = Some (theme, cookie) \<Longrightarrow> good_cookie cookie"
  by (auto simp: theme_of_def good_cookie_def dest: theme_found split: option.splits list.splits if_splits)

lemma fleet_response:
  assumes "style_ok (wb_page w)" and "good_cookie cookie"
  shows "\<exists>r. show_fleet w rq html theme cookie = Inr r \<and> response_ok rq r"
proof -
  obtain f s where f: "fleet (clock_of (wb_page w)) (pe_float (wb_page w)) (wb_root w) (wb_observed w) (wb_now w) (wb_threshold w) = Inr f"
      "finite_value (PDict f)" "fleet_page (wb_page w) (PDict f) theme (wb_threshold w) = Inr s" "well_formed_html s"
    using fleet_shown [OF assms(1)] by blast
  show ?thesis using f html_ok [OF f(4) assms(2)] json_ok [OF f(2) _ assms(2), of 200 w rq]
    by (auto simp: show_fleet_def)
qed

lemma project_response:
  assumes "style_ok (wb_page w)" and "good_cookie cookie"
  shows "\<exists>r. show_project w rq html uid theme cookie = Inr r \<and> response_ok rq r"
proof (cases "read_project (clock_of (wb_page w)) (pe_float (wb_page w)) (map_option rd_entry (wb_root w)) uid")
  case (Inl reason)
  have "finite_value (PDict [(u ''error'', text_value ''unknown''), (u ''project_uid'', PStr uid), (u ''reason'', text_value reason)])"
    by (simp add: text_value_def)
  from json_ok [OF this _ assms(2), of 404 w rq] Inl show ?thesis by (auto simp: show_project_def)
next
  case (Inr p)
  then obtain dir where "read_at (clock_of (wb_page w)) (pe_float (wb_page w)) dir uid = Inr p"
    by (auto simp: read_project_def split: if_splits option.splits)
  from project_page_shown [OF read_at_Inr(1,2) [OF this] assms(1)]
  obtain s where "project_page (wb_page w) (PDict p) (wb_now w) (wb_threshold w) theme = Inr s" "well_formed_html s" by blast
  then show ?thesis using Inr html_ok [OF _ assms(2)] json_ok [OF project_finite [OF Inr] _ assms(2), of 200 w rq]
    by (auto simp: show_project_def)
qed

text \<open>
  C30: Every request gets a response, whatever the projection files, the directory, the path, the
  query and the cookie are: no exception leaves a handler. The status is 200, 404, or 405 with
  the allowed methods; a page is only sent with 200, and it is well-formed HTML in which no data
  opens an element, adds an attribute or leaves its place, and no link leaves the site; a cookie
  only ever holds one of the four themes.
\<close>

theorem requests_are_answered:
  assumes "style_ok (wb_page w)"
  shows "\<exists>r. handle_request w rq = Inr r \<and> response_ok rq r"
proof -
  have missing: "\<exists>r. not_found w rq reason cookie = Inr r \<and> response_ok rq r" if "good_cookie cookie" for reason cookie
    using json_ok [OF _ _ that, of "[(u ''error'', text_value ''unknown''), (u ''reason'', text_value reason)]" 404 w rq]
    by (auto simp: not_found_def text_value_def)
  have none: "good_cookie None" by (simp add: good_cookie_def)
  have "\<exists>r. do_get w rq = Inr r \<and> response_ok rq r"
    using missing none theme_of_cookie fleet_response [OF assms] project_response [OF assms]
    by (auto simp: do_get_def split: option.splits route.splits)
  moreover have "\<exists>r. json_response w rq 405 [(u ''error'', text_value ''method_not_allowed'')] None = Inr r \<and> response_ok rq r"
    by (rule json_ok [OF _ _ none]) (simp_all add: text_value_def)
  ultimately show ?thesis by (simp add: handle_request_def)
qed

text \<open>
  C31: Whatever a projection file holds, what the reader hands out is the projection of the asked
  project in the checked shape, without a float that is not finite; every agent in it carries no
  supervisor data, the mark that they were unusable, or data of the checked shape whose account
  is missing, marked, or of the checked shape. A path that is no project name is never looked up.
\<close>

theorem projections_are_vetted:
  assumes "read_project clk fr dir uid = Inr p"
  shows "fullmatch TOKEN_DASH uid \<and> dget p ''project_uid'' = PStr uid \<and> projection clk uid (PDict p) \<and> finite_value (PDict p) \<and>
     (\<exists>as. dget p ''agents'' = PDict as \<and> agents_ok clk as)"
proof -
  obtain d where d: "read_at clk fr d uid = Inr p" "fullmatch TOKEN_DASH uid"
    using assms by (auto simp: read_project_def split: if_splits option.splits)
  note facts = read_at_Inr [OF d(1)]
  have "dget p ''project_uid'' = PStr uid" using facts(1) unfolding projection_def by (rule has_fieldsE) simp
  with facts d(2) show ?thesis by blast
qed

section \<open>Witnesses\<close>

text \<open>A projection with one agent whose supervisor data are a number, and whose message is markup.\<close>

definition smp_agent :: pyval where
  "smp_agent = PDict [(u ''state'', PStr (u ''busy'')), (u ''since'', PNone), (u ''message'', PStr (u ''<b>'')), (u ''stale'', PBool False),
     (u ''attested'', PBool False), (u ''attempt'', PNone), (u ''launch'', PNone), (u ''supervisor'', PInt 7)]"

definition smp_projection :: pydict where
  "smp_projection = [(u ''schema'', PInt 2), (u ''generated_at'', PStr (u ''2026-01-01T00:00:00Z'')), (u ''project_uid'', PStr (u ''p1'')),
     (u ''attested_sources'', PList []),
     (u ''stream'', PDict [(u ''status'', PStr (u ''ok'')), (u ''last_seq'', PInt 3), (u ''anchor'', PDict [(u ''value'', PNone),
        (u ''relationship'', PStr (u ''absent''))]), (u ''torn_tail'', PBool False), (u ''undecodable_records'', PList [])]),
     (u ''capacity'', PDict [(u ''limit'', PInt 2), (u ''live'', PInt 1), (u ''as_of'', PNone)]), (u ''attention'', PList []),
     (u ''agents'', PDict [(u ''a-1'', smp_agent)]),
     (u ''anomalies'', PDict [(u ''unregistered_logs'', PInt 0), (u ''unparsable_lines'', PInt 0), (u ''uid_mismatches'', PInt 0),
        (u ''undecodable_records'', PInt 0), (u ''launch_malformed'', PInt 0)])]"

definition smp_clock :: "pystr \<Rightarrow> iso_time option" where
  "smp_clock s = (if s = [] then None else Some (Aware 0))"

definition smp_bytes :: bytes where
  "smp_bytes = (case utf8_encode (json_dumps (\<lambda>_. []) False (PDict smp_projection)) of Inr b \<Rightarrow> b | Inl _ \<Rightarrow> [])"

definition smp_entry :: "pystr \<Rightarrow> entry" where
  "smp_entry name = (if name = u ''p1.json'' then File_entry smp_bytes else Absent_entry)"

lemma smp_parsed: "parse_projection (\<lambda>_. []) smp_bytes = Inr (PDict smp_projection)"
proof -
  have enc: "utf8_encode (json_dumps (\<lambda>_. []) False (PDict smp_projection)) = Inr smp_bytes"
  proof -
    have "case utf8_encode (json_dumps (\<lambda>_. []) False (PDict smp_projection)) of Inr _ \<Rightarrow> True | Inl _ \<Rightarrow> False" by code_simp
    then show ?thesis by (simp add: smp_bytes_def split: sum.splits)
  qed
  have "json_plain (PDict smp_projection)" "finite_value (PDict smp_projection)" by code_simp+
  have scalar: "list_all scalar_value (json_dumps (\<lambda>_. []) False (PDict smp_projection))" by code_simp
  have "faithful unique_hook" by (simp add: faithful_def unique_hook_def)
  then have "json_loads unique_hook (json_dumps (\<lambda>_. []) False (PDict smp_projection)) = Inr (PDict smp_projection)"
    using \<open>json_plain (PDict smp_projection)\<close> by (rule json_roundtrip)
  then show ?thesis using \<open>finite_value (PDict smp_projection)\<close> utf8_roundtrip [OF scalar enc] enc
    by (simp add: parse_projection_def del: finite_value.simps)
qed

lemma smp_read:
  "read_project smp_clock (\<lambda>_. []) (Some smp_entry) (u ''p1'') = Inr (sanitize_supervisors smp_clock smp_projection)"
proof -
  have "fullmatch TOKEN_DASH (u ''p1'')" "u ''p1'' @ u ''.json'' = u ''p1.json''" "projection smp_clock (u ''p1'') (PDict smp_projection)" by code_simp+
  then show ?thesis by (simp add: read_project_def read_at_def smp_entry_def smp_parsed)
qed

theorem projections_are_vetted_witness:
  "\<exists>p. read_project smp_clock (\<lambda>_. []) (Some smp_entry) (u ''p1'') = Inr p \<and> dget p ''project_uid'' = PStr (u ''p1'') \<and>
     (\<exists>as. dget p ''agents'' = PDict as \<and> agents_ok smp_clock as)"
  using smp_read projections_are_vetted [OF smp_read] by blast

definition smp_web :: web where
  "smp_web = \<lparr>wb_split = (\<lambda>t. Some (t, [])), wb_query = (\<lambda>_. Some []), wb_cookie = (\<lambda>_. Some None),
     wb_root = Some \<lparr>rd_names = Some [(u ''p1.json'', True), (u ''<x>'', True)], rd_entry = smp_entry\<rparr>, wb_now = 5,
     wb_observed = u ''2026-01-01T00:00:05+00:00'', wb_threshold = 60,
     wb_page = \<lparr>pe_css = u ''body{margin:0}'', pe_float = (\<lambda>_. []), pe_width = (\<lambda>_ _. u ''50.00''), pe_clock = smp_clock\<rparr>\<rparr>"

definition smp_request :: request where
  "smp_request = \<lparr>rq_command = u ''GET'', rq_target = u ''/p/p1'', rq_cookie = None\<rparr>"

theorem requests_are_answered_witness:
  "\<exists>r. handle_request smp_web smp_request = Inr r \<and> response_ok smp_request r"
proof -
  have "60 \<notin> set (u ''body{margin:0}'')" "data_safe (u ''50.00'')" by code_simp+
  then have "style_ok (wb_page smp_web)" by (simp add: style_ok_def smp_web_def)
  then show ?thesis by (rule requests_are_answered)
qed

end
