(* ===== verification/Deployment.thy ===== *)
theory Deployment
  imports SupMemory
begin

text \<open>
  The deployment policy (\<open>lib/aib_deployment.py\<close>): which \<open>deployment.json\<close> counts, and what it
  allows. The file is what \<open>lstat\<close> and reading it give; which characters are printable is a
  parameter, as Python takes it from the Unicode database. \<open>string.Formatter().parse\<close> is
  written out. \<open>RecursionError\<close> is not modelled.
\<close>

section \<open>The file\<close>

record policy_env =
  py_seams :: bool
  py_owner :: "pystr option"
  py_printable :: "nat \<Rightarrow> bool"

text \<open>The type, the owner and the mode of the file, and its content where it can be read.\<close>

record policy_file =
  pf_regular :: bool
  pf_uid :: int
  pf_mode :: nat
  pf_data :: "bytes option"

definition required_owner :: "policy_env \<Rightarrow> exn + int option" where
  "required_owner e = (let raw = (if py_seams e then (case py_owner e of Some s \<Rightarrow> s | None \<Rightarrow> u ''0'') else u ''0'') in
     if \<not> isdigit raw then Inr None else bind_res (int_of_digits raw) (\<lambda>n. Inr (Some n)))"

definition group_or_world_writable :: "nat \<Rightarrow> bool" where
  "group_or_world_writable m = (m div 16 mod 2 = 1 \<or> m div 2 mod 2 = 1)"

definition someone_reads :: "nat \<Rightarrow> bool" where
  "someone_reads m = (m div 256 mod 2 = 1 \<or> m div 32 mod 2 = 1 \<or> m div 4 mod 2 = 1)"

definition safe_policy_file :: "int \<Rightarrow> policy_file \<Rightarrow> bool" where
  "safe_policy_file owner f = (pf_regular f \<and> pf_uid f = owner \<and> \<not> group_or_world_writable (pf_mode f) \<and> someone_reads (pf_mode f))"

definition unique_object :: hook where
  "unique_object ps = (if distinct (map fst ps) then Inr (PDict ps) else Inl (ValueError (u ''duplicate deployment key'')))"

text \<open>The errors of reading and parsing are all caught.\<close>

definition policy_value :: "policy_file \<Rightarrow> pyval option" where
  "policy_value f = (case pf_data f of None \<Rightarrow> None
     | Some b \<Rightarrow> (case bind_res (utf8_decode b) (json_loads unique_object) of Inr v \<Rightarrow> Some v | Inl _ \<Rightarrow> None))"

section \<open>Format strings\<close>

text \<open>
  One item of a format string: its field, format specification and conversion, if it has a field.
  \<open>None\<close> stands for the \<open>ValueError\<close> of a malformed string.
\<close>

type_synonym format_item = "(pystr \<times> pystr \<times> nat option) option"

abbreviation "LBRACE \<equiv> (123 :: nat)"
abbreviation "RBRACE \<equiv> (125 :: nat)"

text \<open>The name of a field up to one of \<open>}:!\<close>; brackets hide them.\<close>

fun field_name :: "bool \<Rightarrow> pystr \<Rightarrow> (pystr \<times> nat \<times> pystr) option" where
  "field_name hidden [] = None"
| "field_name hidden (c # s) =
     (if \<not> hidden \<and> c = LBRACE then None
      else if \<not> hidden \<and> c \<in> {RBRACE, 58, 33} then Some ([], c, s)
      else map_option (\<lambda>(n, d, r). (c # n, d, r)) (field_name (if hidden then c \<noteq> 93 else c = 91) s))"

text \<open>A format specification up to the matching brace.\<close>

fun format_spec :: "nat \<Rightarrow> pystr \<Rightarrow> (pystr \<times> pystr) option" where
  "format_spec depth [] = None"
| "format_spec depth (c # s) =
     (if c = RBRACE \<and> depth = 0 then Some ([], s)
      else map_option (\<lambda>(t, r). (c # t, r))
        (format_spec (if c = LBRACE then depth + 1 else if c = RBRACE then depth - 1 else depth) s))"

definition parse_field :: "pystr \<Rightarrow> (format_item \<times> pystr) option" where
  "parse_field s = (case field_name False s of
       None \<Rightarrow> None
     | Some (n, d, r) \<Rightarrow>
         if d = RBRACE then Some (Some (n, [], None), r)
         else if d = 58 then map_option (\<lambda>(spec, r'). (Some (n, spec, None), r')) (format_spec 0 r)
         else (case r of
             [] \<Rightarrow> None
           | [_] \<Rightarrow> None
           | c # e # r' \<Rightarrow>
               if e = RBRACE then Some (Some (n, [], Some c), r')
               else if e = 58 then map_option (\<lambda>(spec, r''). (Some (n, spec, Some c), r'')) (format_spec 0 r')
               else None))"

lemma field_name_length: "field_name h s = Some (n, d, r) \<Longrightarrow> length r < length s"
  by (induction h s arbitrary: n rule: field_name.induct) (fastforce simp: Let_def split: if_splits)+

lemma format_spec_length: "format_spec k s = Some (t, r) \<Longrightarrow> length r < length s"
  by (induction k s arbitrary: t rule: format_spec.induct) (fastforce simp: Let_def split: if_splits)+

lemma parse_field_length: "parse_field s = Some (i, r) \<Longrightarrow> length r < length s"
  by (fastforce simp: parse_field_def split: option.splits prod.splits if_splits list.splits
      dest: field_name_length format_spec_length)

text \<open>\<open>string.Formatter().parse\<close>; doubled braces are literal text.\<close>

function format_items :: "pystr \<Rightarrow> format_item list option" where
  "format_items [] = Some []"
| "format_items (c # s) =
     (if c = LBRACE then
        (case s of
            [] \<Rightarrow> None
          | d # r \<Rightarrow> if d = LBRACE then map_option (\<lambda>is. None # is) (format_items r)
              else (case parse_field s of None \<Rightarrow> None | Some (i, r') \<Rightarrow> map_option (\<lambda>is. i # is) (format_items r')))
      else if c = RBRACE then
        (case s of d # r \<Rightarrow> if d = RBRACE then map_option (\<lambda>is. None # is) (format_items r) else None | [] \<Rightarrow> None)
      else format_items s)"
  by pat_completeness auto
termination by (relation "measure length") (auto dest: parse_field_length)

definition plain_item :: "format_item \<Rightarrow> bool" where
  "plain_item i = (case i of None \<Rightarrow> True
     | Some (n, spec, conversion) \<Rightarrow> n \<in> {u ''display_name'', u ''team''} \<and> spec = [] \<and> conversion = None)"

section \<open>The policy\<close>

definition email_ok :: "pystr \<Rightarrow> bool" where
  "email_ok s = (case partitionc 64 s of (a, found, b) \<Rightarrow>
     found \<and> a \<noteq> [] \<and> b \<noteq> [] \<and> list_all (\<lambda>c. c \<notin> {9, 10, 11, 12, 13, 32, 64}) (a @ b))"

definition identity_ok :: "pyval \<Rightarrow> bool" where
  "identity_ok v = (case v of
       PDict d \<Rightarrow> set (map fst d) = {u ''name_template'', u ''email''} \<and>
         (case dget d ''name_template'' of
            PStr t \<Rightarrow> t \<noteq> [] \<and> length t \<le> 128 \<and> list_all (\<lambda>c. c \<notin> {0, 13, 10}) t \<and>
              (case format_items t of Some is \<Rightarrow> list_all plain_item is | None \<Rightarrow> False)
          | _ \<Rightarrow> False) \<and>
         (case dget d ''email'' of PStr s \<Rightarrow> email_ok s | _ \<Rightarrow> False)
     | _ \<Rightarrow> False)"

definition PROVIDER_RE :: re where
  "PROVIDER_RE = Seq (Plus (Cls [(97, 122), (48, 57)])) (Star (Seq (Lit (u ''-'')) (Plus (Cls [(97, 122), (48, 57)]))))"

definition ACCOUNT_FIELDS :: "string list" where
  "ACCOUNT_FIELDS = [''label'', ''credential_mode'', ''credential_source'']"

definition policy_account_ok :: "policy_env \<Rightarrow> pystr \<times> pyval \<Rightarrow> bool" where
  "policy_account_ok e pa = (case pa of
       (provider, PDict a) \<Rightarrow> fullmatch PROVIDER_RE provider \<and> list_all (\<lambda>(k, _). k \<in> set (map u ACCOUNT_FIELDS)) a \<and>
         (has_key a ''label'' \<longrightarrow> (case dget a ''label'' of PStr l \<Rightarrow> length l \<le> 64 \<and> list_all (py_printable e) l | _ \<Rightarrow> False)) \<and>
         in_tuple (dget_or a ''credential_mode'' (PStr (u ''file''))) [''file'', ''fd'', ''shared'', ''proxy''] \<and>
         in_tuple (dget_or a ''credential_source'' (PStr (u ''login''))) [''login'', ''setup_token'']
     | _ \<Rightarrow> False)"

definition is_bool :: "pyval \<Rightarrow> bool" where
  "is_bool v = (case v of PBool _ \<Rightarrow> True | _ \<Rightarrow> False)"

definition ALLOW_KEYS :: "string list" where
  "ALLOW_KEYS = [''customer_code'', ''comms_secrets'']"

definition deployment_ok :: "policy_env \<Rightarrow> pydict \<Rightarrow> bool" where
  "deployment_ok e d =
     ((case dget d ''deployment_id'' of PStr s \<Rightarrow> s \<noteq> [] | _ \<Rightarrow> False) \<and>
      (case dget d ''allow'' of PDict a \<Rightarrow> list_all (\<lambda>k. is_bool (dget a k)) ALLOW_KEYS | _ \<Rightarrow> False) \<and>
      (has_key d ''profile'' \<longrightarrow> is_str (dget d ''profile'')) \<and>
      (has_key d ''allowed_projects'' \<longrightarrow> (case dget d ''allowed_projects'' of PList xs \<Rightarrow> list_all is_str xs | _ \<Rightarrow> False)) \<and>
      (has_key d ''role_map'' \<longrightarrow> (case dget d ''role_map'' of PDict m \<Rightarrow> list_all (\<lambda>(_, v). is_str v) m | _ \<Rightarrow> False)) \<and>
      (has_key d ''commit_identity'' \<longrightarrow> identity_ok (dget d ''commit_identity'')) \<and>
      (has_key d ''accounts'' \<longrightarrow> (case dget d ''accounts'' of PDict as \<Rightarrow> list_all (policy_account_ok e) as | _ \<Rightarrow> False)))"

text \<open>The file may be missing; \<open>None\<close> means that no policy counts.\<close>

definition load_deployment :: "policy_env \<Rightarrow> policy_file option \<Rightarrow> exn + pydict option" where
  "load_deployment e file = bind_res (required_owner e) (\<lambda>owner. Inr (case (owner, file) of
       (Some n, Some f) \<Rightarrow>
         if \<not> safe_policy_file n f then None
         else (case policy_value f of Some (PDict d) \<Rightarrow> if deployment_ok e d then Some d else None | _ \<Rightarrow> None)
     | _ \<Rightarrow> None))"

definition deployment_allows :: "policy_env \<Rightarrow> policy_file option \<Rightarrow> string \<Rightarrow> exn + bool" where
  "deployment_allows e file key = bind_res (load_deployment e file) (\<lambda>v. case v of
       None \<Rightarrow> Inr False
     | Some d \<Rightarrow> bind_res (item (PDict d) ''allow'') (\<lambda>a. bind_res (item a key) (\<lambda>x. Inr (x = PBool True))))"

section \<open>The command\<close>

datatype policy_command =
    Account_field pystr pystr
  | Account_present pystr
  | Allow_key pystr
  | Bad_usage

text \<open>The arguments after the root and the file; what the path arguments name is \<open>file\<close>.\<close>

definition policy_args :: "pystr list \<Rightarrow> policy_command" where
  "policy_args argv = (case argv of
       [_, _, a, provider, field] \<Rightarrow> if a = u ''--account'' then Account_field provider field else Bad_usage
     | [_, _, a, provider] \<Rightarrow> if a = u ''--account-present'' then Account_present provider else Bad_usage
     | [_, _, key] \<Rightarrow> if key \<in> set (map u ('''' # ALLOW_KEYS)) then Allow_key key else Bad_usage
     | _ \<Rightarrow> Bad_usage)"

definition policy_accounts :: "pydict \<Rightarrow> pystr \<Rightarrow> pyval option" where
  "policy_accounts d provider = (case dget_or d ''accounts'' (PDict []) of PDict as \<Rightarrow> map_of as provider | _ \<Rightarrow> None)"

text \<open>The exit status and what is printed.\<close>

definition policy_main :: "policy_env \<Rightarrow> policy_file option \<Rightarrow> pystr list \<Rightarrow> exn + int \<times> pyval option" where
  "policy_main e file argv = (case policy_args argv of
       Bad_usage \<Rightarrow> Inr (2, None)
     | Account_field provider field \<Rightarrow>
         if field \<notin> set (map u ACCOUNT_FIELDS) then Inr (2, None)
         else bind_res (load_deployment e file) (\<lambda>v. Inr (case v of
             Some d \<Rightarrow> (case policy_accounts d provider of
                 Some (PDict a) \<Rightarrow> (case map_of a field of Some x \<Rightarrow> (0, Some x) | None \<Rightarrow> (1, None)) | _ \<Rightarrow> (1, None))
           | None \<Rightarrow> (1, None)))
     | Account_present provider \<Rightarrow> bind_res (load_deployment e file) (\<lambda>v. Inr (case v of
           Some d \<Rightarrow> (if policy_accounts d provider \<noteq> None then 0 else 1, None) | None \<Rightarrow> (1, None)))
     | Allow_key key \<Rightarrow> bind_res (load_deployment e file) (\<lambda>v. case v of
           None \<Rightarrow> Inr (1, None)
         | Some d \<Rightarrow> if key = [] then Inr (0, None)
             else bind_res (item (PDict d) ''allow'') (\<lambda>a. Inr (case a of
               PDict m \<Rightarrow> (if map_of m key = Some (PBool True) then 0 else 1, None) | _ \<Rightarrow> (1, None)))))"

section \<open>Fail closed\<close>

text \<open>What an admission rests on.\<close>

definition admitted :: "policy_env \<Rightarrow> policy_file option \<Rightarrow> string \<Rightarrow> bool" where
  "admitted e file key = (\<exists>f d a owner. file = Some f \<and> required_owner e = Inr (Some owner) \<and> (py_seams e \<or> owner = 0) \<and>
     pf_regular f \<and> pf_uid f = owner \<and> \<not> group_or_world_writable (pf_mode f) \<and>
     policy_value f = Some (PDict d) \<and> deployment_ok e d \<and> dget d ''allow'' = PDict a \<and> dget a key = PBool True)"

lemma owner_root: "\<not> py_seams e \<Longrightarrow> required_owner e = Inr (Some 0)"
  by (simp add: required_owner_def) code_simp

lemma load_cases:
  "load_deployment e file = (case required_owner e of Inl x \<Rightarrow> Inl x | Inr None \<Rightarrow> Inr None | Inr (Some n) \<Rightarrow>
     Inr (case file of None \<Rightarrow> None | Some f \<Rightarrow> if \<not> safe_policy_file n f then None
       else (case policy_value f of Some (PDict d) \<Rightarrow> if deployment_ok e d then Some d else None | _ \<Rightarrow> None)))"
  by (auto simp: load_deployment_def split: sum.splits option.splits)

lemma load_Some:
  assumes "load_deployment e file = Inr (Some d)"
  obtains f owner where "file = Some f" and "required_owner e = Inr (Some owner)" and "safe_policy_file owner f"
    and "policy_value f = Some (PDict d)" and "deployment_ok e d"
  using assms by (auto simp: load_cases split: sum.splits option.splits if_splits pyval.splits)

lemma allow_dict: "deployment_ok e d \<Longrightarrow> \<exists>a. dget d ''allow'' = PDict a \<and> has_key d ''allow''"
  by (auto simp: deployment_ok_def has_key_def dget_def split: pyval.splits option.splits)

lemma map_of_dget: "map_of m (u key) = Some v \<Longrightarrow> dget m key = v"
  by (simp add: dget_def)

text \<open>
  C32: The policy fails closed. The command reports a permission as granted only for a regular file
  of the required owner that neither group nor world can write, whose content is a JSON object
  without duplicate keys that passes every check of the policy and holds the literal true for this
  permission; without test seams the required owner is root, and no exception leaves the command.
\<close>

theorem policy_fails_closed:
  assumes "key \<in> set ALLOW_KEYS"
  shows "(case policy_main e file [root_path, path, u key] of
       Inl _ \<Rightarrow> py_seams e
     | Inr (status, out) \<Rightarrow> status \<in> {0, 1} \<and> out = None \<and> (if status = 0 then admitted e file key else True))"
proof -
  have key: "key \<noteq> ''''" "u key \<in> set (map u ('''' # ALLOW_KEYS))" using assms by (auto simp: ALLOW_KEYS_def)
  then have args: "policy_args [root_path, path, u key] = Allow_key (u key)" by (simp add: policy_args_def)
  show ?thesis
  proof (cases "load_deployment e file")
    case (Inl x)
    then have "py_seams e" using owner_root [of e] by (cases "py_seams e") (auto simp: load_cases)
    then show ?thesis using Inl by (simp add: policy_main_def args)
  next
    case (Inr v)
    show ?thesis
    proof (cases v)
      case None
      then show ?thesis using Inr by (simp add: policy_main_def args)
    next
      case (Some d)
      with Inr obtain f owner where f: "file = Some f" "required_owner e = Inr (Some owner)" "safe_policy_file owner f"
          "policy_value f = Some (PDict d)" "deployment_ok e d" by (auto elim: load_Some)
      obtain a where a: "dget d ''allow'' = PDict a" "has_key d ''allow''" using allow_dict [OF f(5)] by blast
      have "admitted e file key" if "map_of a (u key) = Some (PBool True)"
        using f a(1) map_of_dget [OF that] owner_root [of e] unfolding admitted_def safe_policy_file_def by auto
      then show ?thesis using Inr Some key(1) a by (simp add: policy_main_def args item_def)
    qed
  qed
qed

text \<open>A policy of root that allows customer code.\<close>

definition smp_policy :: pydict where
  "smp_policy = [(u ''deployment_id'', PStr (u ''d1'')), (u ''allow'', PDict [(u ''customer_code'', PBool True), (u ''comms_secrets'', PBool False)]),
     (u ''commit_identity'', PDict [(u ''name_template'', PStr (u ''{display_name} ({{{team}}})'')), (u ''email'', PStr (u ''a@b''))])]"

definition smp_policy_bytes :: bytes where
  "smp_policy_bytes = (case utf8_encode (json_dumps (\<lambda>_. []) False (PDict smp_policy)) of Inr b \<Rightarrow> b | Inl _ \<Rightarrow> [])"

definition smp_policy_file :: policy_file where
  "smp_policy_file = \<lparr>pf_regular = True, pf_uid = 0, pf_mode = 420, pf_data = Some smp_policy_bytes\<rparr>"

definition smp_policy_env :: policy_env where
  "smp_policy_env = \<lparr>py_seams = False, py_owner = None, py_printable = (\<lambda>_. True)\<rparr>"

lemma smp_policy_value: "policy_value smp_policy_file = Some (PDict smp_policy)"
proof -
  have "case utf8_encode (json_dumps (\<lambda>_. []) False (PDict smp_policy)) of Inr _ \<Rightarrow> True | Inl _ \<Rightarrow> False" by code_simp
  then have enc: "utf8_encode (json_dumps (\<lambda>_. []) False (PDict smp_policy)) = Inr smp_policy_bytes"
    by (simp add: smp_policy_bytes_def split: sum.splits)
  have plain: "json_plain (PDict smp_policy)" and scalar: "list_all scalar_value (json_dumps (\<lambda>_. []) False (PDict smp_policy))" by code_simp+
  have "faithful unique_object" by (simp add: faithful_def unique_object_def)
  from json_roundtrip [OF this plain] show ?thesis
    using utf8_roundtrip [OF scalar enc] by (simp add: policy_value_def smp_policy_file_def)
qed

lemma smp_template: "format_items (u ''{display_name} ({{{team}}})'') = Some [Some (u ''display_name'', [], None), None, Some (u ''team'', [], None), None]"
  by (simp add: u_def parse_field_def)

lemma smp_parts: "email_ok (u ''a@b'')" "list_all (\<lambda>c. 0 < c \<and> c \<noteq> 13 \<and> c \<noteq> 10) (u ''{display_name} ({{{team}}})'')"
  by code_simp+

lemma has_key_pairs: "has_key ((u j, v) # d) k \<longleftrightarrow> j = k \<or> has_key d k" "\<not> has_key [] k"
  by (auto simp: has_key_def)

lemma smp_policy_granted:
  "policy_main smp_policy_env (Some smp_policy_file) [[], [], u ''customer_code''] = Inr (0, None)"
proof -
  have ok: "deployment_ok smp_policy_env smp_policy"
    by (simp add: deployment_ok_def smp_policy_def identity_ok_def smp_template smp_parts has_key_pairs ALLOW_KEYS_def is_bool_def plain_item_def)
  have safe: "safe_policy_file 0 smp_policy_file" by (simp add: safe_policy_file_def smp_policy_file_def group_or_world_writable_def someone_reads_def)
  have "required_owner smp_policy_env = Inr (Some 0)" by (rule owner_root) (simp add: smp_policy_env_def)
  then have load: "load_deployment smp_policy_env (Some smp_policy_file) = Inr (Some smp_policy)"
    by (simp add: load_deployment_def safe smp_policy_value ok)
  have "policy_args [[], [], u ''customer_code''] = Allow_key (u ''customer_code'')" by code_simp
  moreover have "item (PDict smp_policy) ''allow'' = Inr (PDict [(u ''customer_code'', PBool True), (u ''comms_secrets'', PBool False)])" by code_simp
  ultimately show ?thesis by (simp add: policy_main_def load)
qed

theorem policy_fails_closed_witness:
  "admitted smp_policy_env (Some smp_policy_file) ''customer_code'' \<and>
   policy_main smp_policy_env (Some smp_policy_file) [[], [], u ''customer_code''] = Inr (0, None)"
proof -
  have "''customer_code'' \<in> set ALLOW_KEYS" by (simp add: ALLOW_KEYS_def)
  from policy_fails_closed [OF this, of smp_policy_env "Some smp_policy_file" "[]" "[]"] show ?thesis
    by (simp add: smp_policy_granted)
qed

end
