(* ===== verification/Login.thy ===== *)
theory Login
  imports SupMemory
begin

text \<open>
  The helpers of the login store (\<open>lib/aib_login.py\<close>): its settings and the longest turn that fits
  the lifetime of a token, which credential files are trusted, and when a token expires, with the
  lenient base64 of Python. The user database and the clock are arguments; locking, atomic
  writing and the alarm line are left out.
\<close>

section \<open>Settings\<close>

text \<open>The environment counts where test seams are enabled.\<close>

record login_env =
  le_seams :: bool
  le_vars :: "pystr \<Rightarrow> pystr option"

definition setting :: "login_env \<Rightarrow> string \<Rightarrow> pystr \<Rightarrow> pystr" where
  "setting e name def_value = (case le_vars e (u name) of
       Some v \<Rightarrow> if le_seams e \<and> v \<noteq> [] then v else def_value | None \<Rightarrow> def_value)"

definition RUNTIME_RE :: re where
  "RUNTIME_RE = Seq (Alt Eps (Lit (u ''-''))) (Rep [(48, 57)] 1 9)"

definition runtime_integer :: "login_env \<Rightarrow> string \<Rightarrow> int \<Rightarrow> exn + int" where
  "runtime_integer e name def_value = (let v = (case le_vars e (u name) of Some v \<Rightarrow> v | None \<Rightarrow> []) in
     if fullmatch RUNTIME_RE v then int_of_text v else Inr def_value)"

definition integer :: "login_env \<Rightarrow> string \<Rightarrow> int \<Rightarrow> int" where
  "integer e name def_value = (case int_of_text (setting e name (str_of_int def_value)) of
       Inl _ \<Rightarrow> def_value | Inr n \<Rightarrow> if 0 \<le> n then n else def_value)"

definition login_margin_seconds :: "login_env \<Rightarrow> int" where
  "login_margin_seconds e = integer e ''AIB_LOGIN_MARGIN_S'' 300"

definition login_slack_seconds :: "login_env \<Rightarrow> int" where
  "login_slack_seconds e = integer e ''AIB_LOGIN_SLACK_S'' 600"

definition access_lifetime :: "login_env \<Rightarrow> int" where
  "access_lifetime e = integer e ''AIB_LOGIN_ACCESS_LIFETIME_S'' 3600"

definition refresh_cadence_seconds :: "login_env \<Rightarrow> int" where
  "refresh_cadence_seconds e = max 1 (access_lifetime e div 2 - 1)"

definition derived_turn :: "login_env \<Rightarrow> int" where
  "derived_turn e = max 1 (access_lifetime e - refresh_cadence_seconds e - login_margin_seconds e - login_slack_seconds e - 1)"

definition login_max_turn_seconds :: "login_env \<Rightarrow> int" where
  "login_max_turn_seconds e = integer e ''AIB_LOGIN_MAX_TURN_S'' (derived_turn e)"

section \<open>The store\<close>

definition PROVIDERS :: "(string \<times> string) list" where
  "PROVIDERS = [(''claude-code'', ''.credentials.json''), (''codex'', ''auth.json'')]"

definition provider_file :: "pystr \<Rightarrow> string option" where
  "provider_file p = map_option snd (find (\<lambda>(k, _). p = u k) PROVIDERS)"

definition PROVIDER_NAME_RE :: re where
  "PROVIDER_NAME_RE = Seq (Plus (Cls [(97, 122), (48, 57)])) (Star (Seq (Lit (u ''-'')) (Plus (Cls [(97, 122), (48, 57)]))))"

definition provider_valid :: "pystr \<Rightarrow> bool" where
  "provider_valid p = (provider_file p \<noteq> None \<and> fullmatch PROVIDER_NAME_RE p)"

text \<open>\<open>root / provider / file\<close>; an unknown provider raises.\<close>

definition credential_path :: "login_env \<Rightarrow> pystr option \<Rightarrow> pystr \<Rightarrow> exn + pystr list" where
  "credential_path e dir p = (case provider_file p of None \<Rightarrow> Inl KeyError
     | Some f \<Rightarrow> Inr [case dir of Some r \<Rightarrow> r | None \<Rightarrow> setting e ''AIB_LOGIN_ROOT'' (u ''/var/lib/aib/login''), p, u f])"

text \<open>\<open>int\<close> of a decimal string, or the id the user database has for the name.\<close>

definition account_id :: "(pystr \<Rightarrow> int option) \<Rightarrow> pystr \<Rightarrow> exn + int option" where
  "account_id db name = (if isdecimal name then bind_res (int_of_digits name) (\<lambda>n. Inr (Some n)) else Inr (db name))"

definition expected_store_ids ::
  "login_env \<Rightarrow> (pystr \<Rightarrow> int option) \<Rightarrow> (pystr \<Rightarrow> int option) \<Rightarrow> int \<Rightarrow> int \<Rightarrow> exn + int option \<times> int option" where
  "expected_store_ids e users groups euid egid =
     bind_res (account_id users (setting e ''AIB_LOGIN_STORE_OWNER'' (if le_seams e then str_of_int euid else u ''aib-broker''))) (\<lambda>owner.
     bind_res (account_id groups (setting e ''AIB_LOGIN_STORE_GROUP'' (if le_seams e then str_of_int egid else u ''aib-login''))) (\<lambda>gr.
       Inr (owner, gr)))"

record store_file =
  sf_regular :: bool
  sf_mode :: nat
  sf_uid :: int
  sf_gid :: int

definition trusted_store_file ::
  "login_env \<Rightarrow> (pystr \<Rightarrow> int option) \<Rightarrow> (pystr \<Rightarrow> int option) \<Rightarrow> int \<Rightarrow> int \<Rightarrow> store_file option \<Rightarrow> nat \<Rightarrow> exn + bool" where
  "trusted_store_file e users groups euid egid file mode = (case file of None \<Rightarrow> Inr False
     | Some f \<Rightarrow> bind_res (expected_store_ids e users groups euid egid) (\<lambda>(owner, gr). Inr (
         owner \<noteq> None \<and> gr \<noteq> None \<and> sf_regular f \<and> sf_mode f = mode \<and> Some (sf_uid f) = owner \<and> Some (sf_gid f) = gr)))"

definition regular_mode :: "store_file option \<Rightarrow> nat option \<Rightarrow> bool" where
  "regular_mode file mode = (case file of None \<Rightarrow> False
     | Some f \<Rightarrow> sf_regular f \<and> (case mode of None \<Rightarrow> True | Some m \<Rightarrow> sf_mode f = m))"

text \<open>
  A decoding or syntax error is caught; the \<open>ValueError\<close> of an integer with too many digits is not a
  \<open>JSONDecodeError\<close> and leaves the function.
\<close>

definition read_object :: "bytes option \<Rightarrow> exn + pydict option" where
  "read_object data = (case data of None \<Rightarrow> Inr None
     | Some b \<Rightarrow> (case bind_res (utf8_decode b) (json_loads dict_hook) of
         Inr (PDict d) \<Rightarrow> Inr (Some d)
       | Inr _ \<Rightarrow> Inr None
       | Inl x \<Rightarrow> if x = ValueError (u ''int'') then Inl x else Inr None))"

section \<open>Tokens\<close>

definition sextet :: "nat \<Rightarrow> nat option" where
  "sextet c = (if 65 \<le> c \<and> c \<le> 90 then Some (c - 65) else if 97 \<le> c \<and> c \<le> 122 then Some (c - 71)
     else if 48 \<le> c \<and> c \<le> 57 then Some (c + 4) else if c = 43 \<or> c = 45 then Some 62 else if c = 47 \<or> c = 95 then Some 63 else None)"

text \<open>
  \<open>binascii.a2b_base64\<close> as \<open>urlsafe_b64decode\<close> calls it: the place in the group of four, the bits
  left over and the padding seen. Other characters are skipped; enough padding ends the data.
\<close>

fun base64_from :: "nat \<Rightarrow> nat \<Rightarrow> nat \<Rightarrow> pystr \<Rightarrow> nat list option" where
  "base64_from q left pads [] = (if q = 0 then Some [] else None)"
| "base64_from q left pads (c # s) =
     (if c = 61 then (if 2 \<le> q \<and> 4 \<le> q + pads + 1 then Some [] else base64_from q left (if 2 \<le> q then pads + 1 else pads) s)
      else case sextet c of
          None \<Rightarrow> base64_from q left pads s
        | Some v \<Rightarrow>
            if q = 0 then base64_from 1 v 0 s
            else if q = 1 then map_option ((#) ((left * 4 + v div 16) mod 256)) (base64_from 2 (v mod 16) 0 s)
            else if q = 2 then map_option ((#) ((left * 16 + v div 4) mod 256)) (base64_from 3 (v mod 4) 0 s)
            else map_option ((#) ((left * 64 + v) mod 256)) (base64_from 0 0 0 s))"

definition urlsafe_b64decode :: "pystr \<Rightarrow> exn + bytes" where
  "urlsafe_b64decode s = (if \<not> list_all (\<lambda>c. c < 128) s then Inl (ValueError (u ''ascii''))
     else case base64_from 0 0 0 s of Some ns \<Rightarrow> Inr (map byte ns) | None \<Rightarrow> Inl (ValueError (u ''base64'')))"

definition jwt_exp :: "pyval \<Rightarrow> exn + int option" where
  "jwt_exp token = (case token of
       PStr t \<Rightarrow> (case splitc 46 t of
           [_, p, _] \<Rightarrow>
             (case bind_res (urlsafe_b64decode (p @ replicate ((4 - length p mod 4) mod 4) 61)) (\<lambda>b.
                bind_res (utf8_decode b) (\<lambda>s. bind_res (json_loads dict_hook s) (\<lambda>payload. get_attr payload ''exp''))) of
                Inr (PInt n) \<Rightarrow> Inr (Some n)
              | Inr _ \<Rightarrow> Inr None
              | Inl x \<Rightarrow> if is_value_error x then Inr None else Inl x)
         | _ \<Rightarrow> Inr None)
     | _ \<Rightarrow> Inr None)"

definition access_expiry :: "pystr \<Rightarrow> pydict \<Rightarrow> exn + int option" where
  "access_expiry provider d =
     (if provider = u ''claude-code'' then Inr (case dget d ''claudeAiOauth'' of
          PDict o_auth \<Rightarrow> (case dget o_auth ''expiresAt'' of PInt n \<Rightarrow> Some (n div 1000) | _ \<Rightarrow> None) | _ \<Rightarrow> None)
      else case dget d ''tokens'' of PDict ts \<Rightarrow> jwt_exp (dget ts ''access_token'') | _ \<Rightarrow> Inr None)"

section \<open>Turns and tokens\<close>

lemma digit_text: "digit_chars (str_of_nat n)"
proof -
  have "digit_chars ds" if "ds \<noteq> []" "\<forall>c\<in>set ds. 48 \<le> c \<and> c \<le> 57" for ds
    using that by (induction ds rule: digit_chars.induct) (auto simp: digit_value_ascii_char)
  then show ?thesis using str_of_nat_ascii str_of_nat_nonempty by blast
qed

lemma strip_digits_text:
  assumes "\<forall>c\<in>set s. 48 \<le> c \<and> c \<le> 57" shows "str_strip s = s"
proof -
  have "\<not> py_space c" if "48 \<le> c" "c \<le> 57" for c using that by (auto simp: py_space_def in_charset_def)
  then have plain: "\<forall>c\<in>set s. \<not> py_space c" using assms by blast
  have keep: "dropWhile py_space t = t" if "\<forall>c\<in>set t. \<not> py_space c" for t using that by (cases t) auto
  have "dropWhile py_space s = s" "dropWhile py_space (rev s) = rev s"
    using keep [OF plain] keep [of "rev s"] plain by simp_all
  then show ?thesis unfolding str_strip_def by simp
qed

lemma int_of_nat_text:
  assumes "int_of_text (str_of_nat n) = Inr k" shows "k = int n"
proof -
  have digits: "\<forall>c\<in>set (str_of_nat n). 48 \<le> c \<and> c \<le> 57" using str_of_nat_ascii by blast
  then have "filter (\<lambda>c. c \<noteq> 95) (str_of_nat n) = str_of_nat n" by (auto intro!: filter_True)
  moreover have "\<not> startswith (str_of_nat n) [45]" "\<not> startswith (str_of_nat n) [43]"
    using digits by (cases "str_of_nat n"; auto)+
  ultimately show ?thesis
    using assms by (simp add: int_of_text_def strip_digits_text [OF digits] digits_value_str_of_nat Let_def split: if_splits)
qed

lemma integer_default: "0 \<le> d \<Longrightarrow> setting e name (str_of_int d) = str_of_int d \<Longrightarrow> integer e name d = d"
  by (auto simp: integer_def str_of_int_def dest: int_of_nat_text split: sum.splits)

lemma integer_production: "\<not> le_seams e \<Longrightarrow> 0 \<le> d \<Longrightarrow> integer e name d = d"
  by (rule integer_default) (auto simp: setting_def split: option.splits)

lemma integer_nonneg: "0 \<le> d \<Longrightarrow> 0 \<le> integer e name d"
  by (auto simp: integer_def split: sum.splits)

lemma production_turn: "\<not> le_seams e \<Longrightarrow> login_max_turn_seconds e = 900"
  by (simp add: login_max_turn_seconds_def derived_turn_def refresh_cadence_seconds_def access_lifetime_def login_margin_seconds_def
      login_slack_seconds_def integer_production)

text \<open>
  The turn the supervisor grants on a shared login fits the token. Whatever the settings are,
  unless the limit itself is overridden, the longest turn is at least a second, and it is a single
  second or ends, after the worst wait for a refresh, before the margin and the slack of the token
  begin; in production it is 900 seconds.
\<close>

theorem turn_fits_token:
  assumes "le_vars e (u ''AIB_LOGIN_MAX_TURN_S'') = None"
  shows "1 \<le> login_max_turn_seconds e \<and>
     (login_max_turn_seconds e = 1 \<or>
      login_max_turn_seconds e + refresh_cadence_seconds e + login_margin_seconds e + login_slack_seconds e < access_lifetime e) \<and>
     (le_seams e \<or> login_max_turn_seconds e = 900)"
proof -
  have turn: "login_max_turn_seconds e = derived_turn e"
    unfolding login_max_turn_seconds_def by (rule integer_default) (simp_all add: derived_turn_def setting_def assms)
  show ?thesis using production_turn [of e] by (auto simp: turn derived_turn_def)
qed

text \<open>Settings of a test: a token that lives 4000 seconds.\<close>

definition smp_login_env :: login_env where
  "smp_login_env = \<lparr>le_seams = True, le_vars = (\<lambda>n. if n = u ''AIB_LOGIN_ACCESS_LIFETIME_S'' then Some (u ''4000'') else None)\<rparr>"

theorem turn_fits_token_witness:
  "login_max_turn_seconds smp_login_env + refresh_cadence_seconds smp_login_env + login_margin_seconds smp_login_env +
     login_slack_seconds smp_login_env < access_lifetime smp_login_env \<and> login_max_turn_seconds smp_login_env = 1100"
proof -
  have "le_vars smp_login_env (u ''AIB_LOGIN_MAX_TURN_S'') = None" by (simp add: smp_login_env_def)
  from turn_fits_token [OF this] have fits: "login_max_turn_seconds smp_login_env = 1 \<or>
      login_max_turn_seconds smp_login_env + refresh_cadence_seconds smp_login_env + login_margin_seconds smp_login_env +
      login_slack_seconds smp_login_env < access_lifetime smp_login_env" by blast
  have "login_max_turn_seconds smp_login_env = 1100" by code_simp
  with fits show ?thesis by simp
qed

text \<open>
  \<open>jwt_exp\<close> guards decoding and parsing, but not the payload's type: for a token whose payload is a
  JSON list, \<open>get\<close> raises an \<open>AttributeError\<close> no caller expects.
\<close>

lemma list_payload_escapes: "jwt_exp (PStr (u ''a.W10.c'')) = Inl AttributeError"
  by code_simp

end
