(* ===== verification/SupMessages.thy ===== *)
theory SupMessages
  imports SupApply
begin

text \<open>
  From the inbox to the prompt (\<open>lib/aib_supervisor.py\<close>): reading the inbox, choosing a message,
  binding a message to a task of the ledger, and the text the agent gets. A message that claims to
  be a work order but is not bound loses its header.
\<close>

section \<open>The rest of the outside world\<close>

text \<open>
  Besides the desk's environment: the sidecar directory of the project, what preparing the worktree
  of a task gives (its path, or the exception), the output of the attempts command, the texts of an
  exception's class and of a directory that is not there, and when the supervisor started.
\<close>

record loop_env =
  lp_env :: env
  lp_bodies :: "call list \<Rightarrow> body_store"
  lp_worktree :: "call list \<Rightarrow> exn + pystr"
  lp_bindings :: "call list \<Rightarrow> int \<times> pystr"
  lp_kind :: "exn \<Rightarrow> pystr"
  lp_absent :: pystr
  lp_started :: pystr

section \<open>Texts\<close>

text \<open>\<open>s.split(sep, n)\<close> of a separator that is not empty, and \<open>sub in s\<close>.\<close>

fun cut_at :: "pystr \<Rightarrow> pystr \<Rightarrow> (pystr \<times> pystr) option" where
  "cut_at sep [] = None"
| "cut_at sep (c # s) =
     (if startswith (c # s) sep then Some ([], drop (length sep) (c # s))
      else map_option (\<lambda>(a, b). (c # a, b)) (cut_at sep s))"

fun split_max :: "nat \<Rightarrow> pystr \<Rightarrow> pystr \<Rightarrow> pystr list" where
  "split_max 0 sep s = [s]"
| "split_max (Suc n) sep s = (case cut_at sep s of None \<Rightarrow> [s] | Some (a, b) \<Rightarrow> a # split_max n sep b)"

definition has_text :: "pystr \<Rightarrow> pystr \<Rightarrow> bool" where
  "has_text sub s = (cut_at sub s \<noteq> None)"

section \<open>The inbox\<close>

record message =
  ms_id :: pystr
  ms_state :: pystr
  ms_from :: pystr
  ms_body :: pystr
  ms_order :: nat

definition message_of :: "nat \<Rightarrow> pystr \<Rightarrow> message option" where
  "message_of order line = (case split_max 3 (u '' | '') line of
       [a, b, c, body] \<Rightarrow>
         (let fs = fold (\<lambda>part d. case partitionc 58 part of (k, _, v) \<Rightarrow> dset k v d) [a, b, c] [];
              get = (\<lambda>k. case map_of fs (u k) of Some v \<Rightarrow> v | None \<Rightarrow> []) in
          Some \<lparr>ms_id = get ''id'', ms_state = get ''state'', ms_from = get ''from'', ms_body = body, ms_order = order\<rparr>)
     | _ \<Rightarrow> None)"

definition inbox_messages :: "pystr \<Rightarrow> message list" where
  "inbox_messages out = List.map_filter (\<lambda>(order, line). message_of order line) (enumerate 0 (str_splitlines out))"

text \<open>Whether the inbox was unavailable the last time is passed along.\<close>

definition open_messages :: "env \<Rightarrow> bool \<Rightarrow> (bool \<times> message list) act" where
  "open_messages env down = bnd (message_command env [u ''inbox'']) (\<lambda>(rc, out).
     if rc \<noteq> 0 then sq (when_do (\<not> down) (jot env ''inbox.unavailable'' [(u ''rc'', PInt rc)])) (ret (True, []))
     else sq (when_do down (jot env ''inbox.recovered'' [])) (ret (False, inbox_messages out)))"

section \<open>Choosing a message\<close>

definition body_ref_id :: "env \<Rightarrow> pydict \<Rightarrow> pystr" where
  "body_ref_id env task = removeprefix (py_str (e_str env) (dget_or task ''body_ref'' (PStr []))) (u ''msg:'')"

definition header_matches :: "env \<Rightarrow> pydict \<Rightarrow> pystr \<Rightarrow> pystr \<Rightarrow> bool" where
  "header_matches env task run_id owner =
     (dget task ''run_id'' = PStr run_id \<and> dget task ''owner'' = PStr owner \<and> dget task ''assignee'' = PStr (e_uid env))"

text \<open>0 for the agent itself, 1 for humans, 2 for a task message that is bound, 3 for the rest.\<close>

definition lane :: "env \<Rightarrow> message \<Rightarrow> nat act" where
  "lane env m =
     (if ms_from m = e_uid env then ret 0
      else if startswith (ms_from m) (u ''human:'') then ret 1
      else case task_header (ms_body m) of
          None \<Rightarrow> ret 3
        | Some (tid, run_id, owner) \<Rightarrow>
            bnd (task_show env tid) (\<lambda>shown. bnd (lift (first_lead env)) (\<lambda>lead. case shown of
                None \<Rightarrow> ret 3
              | Some task \<Rightarrow>
                  if header_matches env task run_id owner \<and> ms_id m = body_ref_id env task
                  then bnd (lift (task_relay env)) (\<lambda>relay. ret (if
                    PStr (ms_from m) = lead \<or> ms_from m = py_str (e_str env) (dget_or task ''owner'' (PStr [])) \<or> ms_from m = relay
                    then 2 else 3))
                  else ret 3)))"

fun lanes :: "env \<Rightarrow> message list \<Rightarrow> ((nat \<times> nat) \<times> message) list act" where
  "lanes env [] = ret []"
| "lanes env (m # ms) = bnd (lane env m) (\<lambda>k. bnd (lanes env ms) (\<lambda>ks. ret (((k, ms_order m), m) # ks)))"

definition lane_before :: "nat \<times> nat \<Rightarrow> nat \<times> nat \<Rightarrow> bool" where
  "lane_before p q = (fst p < fst q \<or> (fst p = fst q \<and> snd p < snd q))"

definition first_lane :: "((nat \<times> nat) \<times> message) list \<Rightarrow> message option" where
  "first_lane ks = (case ks of [] \<Rightarrow> None
     | k # r \<Rightarrow> Some (snd (fold (\<lambda>x best. if lane_before (fst x) (fst best) then x else best) r k)))"

record job =
  jb_id :: pystr
  jb_from :: pystr
  jb_body :: pystr
  jb_synthetic :: bool
  jb_retry :: bool
  jb_downgraded :: bool
  jb_task :: "pydict option"

definition job_of :: "message \<Rightarrow> job" where
  "job_of m = \<lparr>jb_id = ms_id m, jb_from = ms_from m, jb_body = ms_body m, jb_synthetic = False,
     jb_retry = (ms_state m = u ''SEEN''), jb_downgraded = False, jb_task = None\<rparr>"

definition choose_message :: "env \<Rightarrow> bool \<Rightarrow> (bool \<times> job option) act" where
  "choose_message env down = bnd (open_messages env down) (\<lambda>(down', ms).
     bnd (lanes env ms) (\<lambda>ks. case first_lane ks of
         None \<Rightarrow> ret (down', None)
       | Some m \<Rightarrow>
           if ms_state m = u ''SEEN'' then ret (down', Some (job_of m))
           else bnd (message_command env [u ''seen'', ms_id m]) (\<lambda>(rc, out).
             ret (down', if rc \<noteq> 0 then None else Some (job_of m)))))"

section \<open>Binding a message to a task\<close>

text \<open>
  What preparing a message comes to: it is ready (the working directory to be checked or not), it is
  dropped, it waits for another try, or an exception leaves with the message as changed so far.
\<close>

datatype prep = Ready job bool | Dropped | Waits job | Raised exn job

definition open_preparations :: "pystr \<Rightarrow> pydict list \<Rightarrow> nat" where
  "open_preparations i rs = fold (\<lambda>r n.
     if dget r ''msg_id'' \<noteq> PStr i then n
     else if is_event ''message.preparing'' r then n + 1
     else if (is_event ''message.prepared'' r \<or> is_event ''message.preparation_failed'' r) \<and> n \<noteq> 0 then n - 1 else n) rs 0"

definition engine_error :: "env \<Rightarrow> pystr \<Rightarrow> job \<Rightarrow> prep act" where
  "engine_error env kind job =
     bnd (look_at (\<lambda>d. 1 + open_preparations (jb_id job) (d_records d) +
        length (filter (\<lambda>r. is_event ''message.engine_error'' r \<and> dget r ''msg_id'' = PStr (jb_id job)) (d_records d)))) (\<lambda>n.
     sq (jot env ''message.engine_error'' [(u ''msg_id'', PStr (jb_id job)), (u ''n'', PInt (int n)), (u ''detail'', PStr kind)])
       (if n < 3 then ret (Waits job)
        else sq (if jb_synthetic job then ret () else bnd (message_command env [u ''fail'', jb_id job, u ''engine_error'']) (\<lambda>_. ret ()))
          (sq (jot env ''attention'' [(u ''reason'', PStr (u ''message_engine_error'')), (u ''msg_id'', PStr (jb_id job))])
            (ret Dropped))))"

definition OWN_SUFFIX_RE :: re where
  "OWN_SUFFIX_RE = Seq (Lit (u ''.'')) (OneOf
     [Seq (Lit (u ''c.'')) (Plus (Cls [(65, 90), (97, 122), (48, 57), (46, 46), (45, 45)])),
      Seq (Lit (u ''n.a'')) (Plus (Cls [(48, 57)])),
      Seq (Lit (u ''r.'')) (Plus (Cls [(65, 90), (97, 122), (48, 57), (46, 46), (45, 45)]))])"

definition own_engine_id :: "env \<Rightarrow> pydict \<Rightarrow> job \<Rightarrow> bool" where
  "own_engine_id env task job = (let i = py_str (e_str env) (dget task ''task_id'') in
     jb_from job = e_uid env \<and> startswith (jb_id job) i \<and> fullmatch OWN_SUFFIX_RE (drop (length i) (jb_id job)))"

definition downgrade :: "env \<Rightarrow> job \<Rightarrow> prep act" where
  "downgrade env job = sq (jot env ''lane.downgraded'' [(u ''msg_id'', PStr (jb_id job)), (u ''reason'', PStr (u ''task_binding''))])
     (ret (Ready (job\<lparr>jb_body := neutralize_task_text (jb_body job), jb_downgraded := True\<rparr>) False))"

definition work_states :: "string list" where
  "work_states = [''ASSIGNED'', ''IN_PROGRESS'']"

text \<open>A message of a task that went elsewhere or ended.\<close>

definition stale_message :: "env \<Rightarrow> pydict \<Rightarrow> exn + bool" where
  "stale_message env task =
     (if dget task ''assignee'' \<noteq> PStr (e_uid env) \<or> dget task ''team_uid'' \<noteq> PStr (e_team env) then Inr True
      else bind_res (in_strset (dget task ''state'') work_states) (\<lambda>b. Inr (\<not> b)))"

definition sender_ok :: "env \<Rightarrow> pydict \<Rightarrow> job \<Rightarrow> pyval \<Rightarrow> pystr \<Rightarrow> exn + bool" where
  "sender_ok env task job lead relay =
     (if \<not> hashable (dget task ''owner'') then Inl TypeError
      else Inr (PStr (jb_from job) \<in> {lead, dget task ''owner'', PStr relay} \<or> own_engine_id env task job))"

definition binding_matches :: "env \<Rightarrow> pydict \<Rightarrow> pystr \<Rightarrow> pystr \<Rightarrow> bool \<Rightarrow> exn + bool" where
  "binding_matches env task run_id owner rest =
     (if \<not> header_matches env task run_id owner \<or> dget task ''team_uid'' \<noteq> PStr (e_team env) then Inr False
      else bind_res (in_strset (dget task ''state'') work_states) (\<lambda>b. Inr (b \<and> rest)))"

text \<open>The order the agent reads: the header from the ledger, the body from the sidecar.\<close>

definition order_text :: "env \<Rightarrow> pydict \<Rightarrow> pystr \<Rightarrow> pystr act" where
  "order_text env task side =
     bnd (str_field env task ''task_id'') (\<lambda>i. bnd (str_field env task ''run_id'') (\<lambda>r. bnd (str_field env task ''owner'') (\<lambda>w.
       ret (u ''[task '' @ i @ u '' run '' @ r @ u '' requester '' @ w @ u '']'' @ [10] @ side))))"

text \<open>Starting the task; from here on the message carries it.\<close>

definition start_task :: "env \<Rightarrow> pydict \<Rightarrow> job \<Rightarrow> prep act" where
  "start_task env task job =
     (let job' = job\<lparr>jb_task := Some task\<rparr> in
      if dget task ''state'' \<noteq> PStr (u ''ASSIGNED'') then ret (Ready job' True)
      else bnd (str_field env task ''task_id'') (\<lambda>i.
        bnd (task_event env Start task (u ''start-'' @ i @ u ''-a'' @ py_str (e_str env) (dget_or task ''assignments'' (PInt 1)))
          ''service'' (supervisor_actor env) None) (\<lambda>rc.
        ret (if rc \<noteq> 0 then Raised OSError job'
          else Ready (job\<lparr>jb_task := Some (dset (u ''state'') (PStr (u ''IN_PROGRESS'')) task)\<rparr>) True))))"

definition place_task :: "loop_env \<Rightarrow> pydict \<Rightarrow> job \<Rightarrow> prep act" where
  "place_task le task job =
     (let env = lp_env le; ids = [(u ''msg_id'', PStr (jb_id job)), (u ''task_id'', dget task ''task_id'')] in
      bnd (look_at (\<lambda>d. open_preparations (jb_id job) (d_records d))) (\<lambda>n.
        if 2 \<le> n then engine_error env (lp_kind le OSError) job
        else sq (jot env ''message.preparing'' ids)
          (bnd (ask (lp_worktree le) (Worktree (py_str (e_str env) (dget task ''task_id'')))) (\<lambda>r. case r of
              Inl e \<Rightarrow>
                if e = OSError \<or> is_value_error e then
                  sq (jot env ''message.preparation_failed'' ids)
                    (sq (jot env ''attention'' [(u ''reason'', PStr (u ''worktree_unavailable'')), (u ''task_id'', dget task ''task_id'')])
                      (ret (Raised OSError job)))
                else ret (Raised e job)
            | Inr path \<Rightarrow> sq (jot env ''message.prepared'' ids)
                (start_task env (dset (u ''worktree'') (PStr path) task) job)))))"

definition take_order :: "loop_env \<Rightarrow> pydict \<Rightarrow> job \<Rightarrow> prep act" where
  "take_order le task job = (let env = lp_env le in
     bnd (str_field env task ''task_id'') (\<lambda>i.
     bnd (ask (\<lambda>h. read_body_sidecar i (lp_bodies le h)) (Look (body_name i))) (\<lambda>r. case r of
         Inl (LedgerError _) \<Rightarrow>
           sq (jot env ''attention'' [(u ''reason'', PStr (u ''unsafe_body_sidecar'')), (u ''task_id'', dget task ''task_id'')])
             (bnd (message_command env [u ''fail'', jb_id job, u ''unsafe_body_sidecar'']) (\<lambda>_. ret Dropped))
       | Inl e \<Rightarrow> lift (Inl e)
       | Inr side \<Rightarrow> bnd (order_text env task side) (\<lambda>text. place_task le task (job\<lparr>jb_body := text\<rparr>)))))"

definition bind_task :: "loop_env \<Rightarrow> job \<Rightarrow> pystr \<Rightarrow> pystr \<Rightarrow> pydict option \<Rightarrow> prep act" where
  "bind_task le job run_id owner shown = (let env = lp_env le in case shown of
       None \<Rightarrow> bnd (lift (first_lead env)) (\<lambda>_. bnd (lift (task_relay env)) (\<lambda>_. downgrade env job))
     | Some task \<Rightarrow>
         if task = [] then bnd (lift (first_lead env)) (\<lambda>_. bnd (lift (task_relay env)) (\<lambda>_. downgrade env job))
         else let id_form = (jb_id job = body_ref_id env task \<or> own_engine_id env task job) in
           bnd (if id_form then lift (stale_message env task) else ret False) (\<lambda>stale.
             if stale then bnd (message_command env [u ''done'', jb_id job]) (\<lambda>_.
               sq (jot env ''task.stale_message'' [(u ''msg_id'', PStr (jb_id job)), (u ''task_id'', dget task ''task_id'')]) (ret Dropped))
             else bnd (lift (first_lead env)) (\<lambda>lead. bnd (lift (task_relay env)) (\<lambda>relay.
               bnd (lift (sender_ok env task job lead relay)) (\<lambda>trusted.
               bnd (lift (binding_matches env task run_id owner (id_form \<and> trusted))) (\<lambda>matches.
                 if matches then take_order le task job else downgrade env job))))))"

definition prepare_task_work :: "loop_env \<Rightarrow> job \<Rightarrow> prep act" where
  "prepare_task_work le job = (let env = lp_env le in
     if jb_synthetic job \<or> jb_task job \<noteq> None then ret (Ready job False)
     else case task_header (jb_body job) of
         None \<Rightarrow> if has_text (u ''[task'') (jb_body job) then downgrade env job else ret (Ready job False)
       | Some (tid, run_id, owner) \<Rightarrow> bnd (task_show env tid) (bind_task le job run_id owner))"

text \<open>As \<open>guarded_start_turn\<close> calls it: an exception counts as an engine error of the message.\<close>

definition guarded_prepare :: "loop_env \<Rightarrow> job \<Rightarrow> prep act" where
  "guarded_prepare le job d = (case prepare_task_work le job d of
       (Inl e, d') \<Rightarrow> engine_error (lp_env le) (lp_kind le e) job d'
     | (Inr (Raised e job'), d') \<Rightarrow> engine_error (lp_env le) (lp_kind le e) job' d'
     | r \<Rightarrow> r)"

section \<open>The prompt\<close>

fun ints_of :: "pyval list \<Rightarrow> exn + int list" where
  "ints_of [] = Inr []"
| "ints_of (v # vs) = bind_res (int_of_value v) (\<lambda>n. bind_res (ints_of vs) (\<lambda>ns. Inr (n # ns)))"

definition preambled_through :: "pydict list \<Rightarrow> exn + int" where
  "preambled_through rs = bind_res (ints_of (map (\<lambda>r. dget_or r ''through_seq'' (PInt 0)) (filter (is_event ''rejections.preambled'') rs)))
     (\<lambda>ns. Inr (case ns of [] \<Rightarrow> 0 | n # r \<Rightarrow> fold max r n))"

definition refusals :: "pydict list \<Rightarrow> pydict list" where
  "refusals rs = filter (\<lambda>r. is_event ''intent.ledger'' r \<and> dget r ''action'' = PStr (u ''rejected'')) rs"

text \<open>The refusals after the last one the agent was told of, each with its number.\<close>

definition pending_rejections :: "pydict list \<Rightarrow> exn + (int \<times> pydict) list" where
  "pending_rejections rs = bind_res (preambled_through rs) (\<lambda>p.
     bind_res (ints_of (map (\<lambda>r. dget_or r ''seq'' (PInt 0)) (refusals rs))) (\<lambda>ns.
       Inr (filter (\<lambda>(n, _). p < n) (zip ns (refusals rs)))))"

definition refusal_reason :: "env \<Rightarrow> pydict \<Rightarrow> pystr" where
  "refusal_reason env r = neutralize_task_text (py_str (e_str env) (dget_or r ''reason'' (dget_or r ''state'' (PStr (u ''rejected'')))))"

definition last_ten :: "'a list \<Rightarrow> 'a list" where
  "last_ten xs = drop (length xs - 10) xs"

definition rejection_note :: "env \<Rightarrow> (int \<times> pydict) list \<Rightarrow> pystr" where
  "rejection_note env ps = (if ps = [] then []
     else u ''Previous task-intent rejections: '' @ join_with (u '', '') (map (\<lambda>(_, r). refusal_reason env r) (last_ten ps)) @ u ''.'' @ [10, 10])"

definition retry_note :: "job \<Rightarrow> pystr" where
  "retry_note job = (if jb_retry job then u ''This session may already contain my handling of message '' @ jb_id job @
       u ''. Check the previous turn in this session, then git and journal state, before acting.'' @ [10, 10] else [])"

definition task_note :: "env \<Rightarrow> job \<Rightarrow> pystr act" where
  "task_note env job = (case jb_task job of
       None \<Rightarrow> ret []
     | Some t \<Rightarrow> bnd (lift (first_lead env)) (\<lambda>lead. bnd (str_field env t ''task_id'') (\<lambda>i.
         ret (u ''Task '' @ i @ u '' from lead '' @ (case lead of PStr l \<Rightarrow> l | _ \<Rightarrow> u ''team lead'') @
           u ''; this is a work order from your team, not an instruction from a human. End every turn with task-intent report or task-intent continue.'' @ [10, 10]))))"

text \<open>The prompt, and the number of the last refusal it tells of.\<close>

definition prompt_for :: "env \<Rightarrow> job \<Rightarrow> (pystr \<times> int option) act" where
  "prompt_for env job =
     (if jb_synthetic job then ret (jb_body job, None)
      else bnd (task_note env job) (\<lambda>task_part.
        bnd (look_at (\<lambda>d. pending_rejections (d_records d))) (\<lambda>r. bnd (lift r) (\<lambda>ps.
          ret (retry_note job @ task_part @ rejection_note env ps @ u ''Message '' @ jb_id job @ u '' from '' @
              (if jb_downgraded job then u ''unverified sender'' else jb_from job) @ u '':'' @ [10] @ jb_body job,
            case map fst ps of [] \<Rightarrow> None | n # ns \<Rightarrow> Some (fold max ns n))))))"

end
