(* ===== verification/SupMessageProps.thy ===== *)
theory SupMessageProps
  imports SupMessages
begin

text \<open>
  What binding a message to a task guarantees: the agent never reads a work order the ledger does
  not know, whoever wrote the message.
\<close>

section \<open>Neutral text\<close>

lemma neutral_step:
  "neutralize_task_text (c # s) =
     (if startswith (c # s) (u ''[task'') then u ''(task'' @ neutralize_task_text (drop 5 (c # s)) else c # neutralize_task_text s)"
proof -
  have "u ''[task'' \<noteq> []" by (simp add: u_def)
  then show ?thesis by (simp add: neutralize_task_text_def) (simp add: eval_nat_numeral)
qed

lemma neutral_nil [simp]: "neutralize_task_text [] = []"
  by (simp add: neutralize_task_text_def)

lemma neutral_induct [case_names Nil Header Other]:
  assumes "P []" and "\<And>c s. startswith (c # s) (u ''[task'') \<Longrightarrow> P (drop 5 (c # s)) \<Longrightarrow> P (c # s)"
    and "\<And>c s. \<not> startswith (c # s) (u ''[task'') \<Longrightarrow> P s \<Longrightarrow> P (c # s)"
  shows "P s"
proof (induction s rule: length_induct)
  case (1 s)
  show ?case
  proof (cases s)
    case (Cons c r)
    have "P (drop 5 (c # r))" "P r" using 1 by (simp_all add: Cons)
    then show ?thesis using assms(2,3) unfolding Cons by blast
  qed (simp add: assms(1))
qed

text \<open>What is put in contains no bracket, so a prefix without a parenthesis was there before.\<close>

lemma neutral_prefix: "startswith (neutralize_task_text s) p \<Longrightarrow> 40 \<notin> set p \<Longrightarrow> startswith s p"
proof (induction s arbitrary: p rule: neutral_induct)
  case (Header c s)
  then have "p = []" by (cases p) (auto simp: neutral_step u_def)
  then show ?case by simp
next
  case (Other c s)
  then show ?case by (cases p) (auto simp: neutral_step)
qed simp

lemma cut_at_append: "(\<And>r. \<not> startswith (c # a @ r) sep) \<Longrightarrow> cut_at sep (c # a @ s) \<noteq> None \<longleftrightarrow> cut_at sep (a @ s) \<noteq> None"
  by auto

lemma no_header_start: "c \<noteq> 91 \<Longrightarrow> has_text (u ''[task'') (c # s) \<longleftrightarrow> has_text (u ''[task'') s"
  by (simp add: has_text_def u_def)

lemma neutral_no_header: "\<not> has_text (u ''[task'') (neutralize_task_text s)"
proof (induction s rule: neutral_induct)
  case (Header c s)
  then show ?case by (simp add: neutral_step) (simp add: u_def no_header_start [unfolded u_def, simplified])
next
  case (Other c s)
  have "\<not> startswith (c # neutralize_task_text s) (u ''[task'')"
  proof
    assume "startswith (c # neutralize_task_text s) (u ''[task'')"
    then have "c = 91" "startswith (neutralize_task_text s) (u ''task'')" by (simp_all add: u_def)
    then have "startswith (c # s) (u ''[task'')" using neutral_prefix [of s "u ''task''"] by (simp add: u_def)
    with Other show False by simp
  qed
  with Other show ?case by (simp add: neutral_step has_text_def)
qed (simp add: has_text_def)

section \<open>Results\<close>

text \<open>Whatever the outside world answers, a result of the operation satisfies \<open>Q\<close>.\<close>

definition ensures :: "('a \<Rightarrow> bool) \<Rightarrow> 'a act \<Rightarrow> bool" where
  "ensures Q m = (\<forall>d x d'. m d = (Inr x, d') \<longrightarrow> Q x)"

lemma ensuresD: "ensures Q m \<Longrightarrow> m d = (Inr x, d') \<Longrightarrow> Q x"
  by (auto simp: ensures_def)

lemma ensures_bnd: "ensures P m \<Longrightarrow> (\<And>x. P x \<Longrightarrow> ensures Q (f x)) \<Longrightarrow> ensures Q (bnd m f)"
  by (fastforce simp: ensures_def bnd_def split: prod.splits sum.splits)

named_theorems ensures_rules

lemma ensures_any [ensures_rules]: "(\<And>x. ensures Q (f x)) \<Longrightarrow> ensures Q (bnd m f)"
  by (rule ensures_bnd [where P = "\<lambda>_. True"]) (simp_all add: ensures_def)

lemma ensures_sq [ensures_rules]: "ensures Q k \<Longrightarrow> ensures Q (sq m k)"
  unfolding sq_def by (rule ensures_any)

lemma ensures_ret [ensures_rules]: "Q x \<Longrightarrow> ensures Q (ret x)"
  by (simp add: ensures_def ret_def)

lemma ensures_lift: "(\<And>x. r = Inr x \<Longrightarrow> Q x) \<Longrightarrow> ensures Q (lift r)"
  by (simp add: ensures_def lift_def)

lemma ensures_raise [ensures_rules]: "ensures Q (lift (Inl e))"
  by (simp add: ensures_def lift_def)

lemma ensures_if [ensures_rules]: "(b \<Longrightarrow> ensures Q m) \<Longrightarrow> (\<not> b \<Longrightarrow> ensures Q k) \<Longrightarrow> ensures Q (if b then m else k)"
  by simp

lemma ensures_sum [ensures_rules]:
  "(\<And>e. r = Inl e \<Longrightarrow> ensures Q (f e)) \<Longrightarrow> (\<And>x. r = Inr x \<Longrightarrow> ensures Q (g x)) \<Longrightarrow> ensures Q (case r of Inl e \<Rightarrow> f e | Inr x \<Rightarrow> g x)"
  by (cases r) simp_all

lemma ensures_option [ensures_rules]:
  "(v = None \<Longrightarrow> ensures Q m) \<Longrightarrow> (\<And>x. v = Some x \<Longrightarrow> ensures Q (f x)) \<Longrightarrow> ensures Q (case v of None \<Rightarrow> m | Some x \<Rightarrow> f x)"
  by (cases v) simp_all

lemma ensures_let [ensures_rules]: "ensures Q (f v) \<Longrightarrow> ensures Q (Let v f)"
  by simp

lemma ensures_field: "ensures Q (f (py_str (e_str env) (dget t k))) \<Longrightarrow> ensures Q (bnd (str_field env t k) f)"
  by (rule ensures_bnd [where P = "\<lambda>x. x = py_str (e_str env) (dget t k)"])
    (auto simp: ensures_def str_field_def field_def item_def bnd_def lift_def ret_def split: prod.splits sum.splits if_splits)

section \<open>Preparing a message\<close>

definition if_ready :: "(job \<Rightarrow> bool) \<Rightarrow> prep \<Rightarrow> bool" where
  "if_ready P p = (case p of Ready j _ \<Rightarrow> P j | _ \<Rightarrow> True)"

lemma if_ready_simps [simp]:
  "if_ready P (Ready j b) = P j" "if_ready P Dropped" "if_ready P (Waits j)" "if_ready P (Raised e j)"
  by (simp_all add: if_ready_def)

lemma ready_weaken: "ensures (if_ready P) m \<Longrightarrow> (\<And>j. P j \<Longrightarrow> Q j) \<Longrightarrow> ensures (if_ready Q) m"
  by (fastforce simp: ensures_def if_ready_def split: prep.splits)

lemma engine_error_not_ready [ensures_rules]: "ensures (if_ready P) (engine_error env kind job)"
  unfolding engine_error_def by (intro ensures_rules) simp_all

lemma downgrade_neutral [ensures_rules]:
  assumes "\<And>j. \<not> has_text (u ''[task'') (jb_body j) \<Longrightarrow> jb_task j = jb_task job \<Longrightarrow> P j"
  shows "ensures (if_ready P) (downgrade env job)"
  unfolding downgrade_def by (intro ensures_rules) (simp add: assms neutral_no_header)

text \<open>The message now carries the task.\<close>

definition carries :: "pydict \<Rightarrow> pystr \<Rightarrow> job \<Rightarrow> bool" where
  "carries task body j = (jb_body j = body \<and> (\<exists>t. jb_task j = Some t \<and> dget t ''task_id'' = dget task ''task_id''))"

lemma dget_dset_other: "k \<noteq> l \<Longrightarrow> dget (dset (u l) v d) k = dget d k"
  by (simp add: dget_def)

lemma start_task_carries: "ensures (if_ready (carries task (jb_body job))) (start_task env task job)"
  unfolding start_task_def by (intro ensures_rules) (auto simp: carries_def dget_dset_other intro!: ensures_rules)

lemma place_task_carries: "ensures (if_ready (carries task (jb_body job))) (place_task le task job)"
proof -
  have "carries (dset (u ''worktree'') p task) b j \<Longrightarrow> carries task b j" for p b j
    by (auto simp: carries_def dget_dset_other)
  then have "ensures (if_ready (carries task (jb_body job))) (start_task (lp_env le) (dset (u ''worktree'') p task) job)" for p
    using start_task_carries [of "dset (u ''worktree'') p task" job "lp_env le"] by (fastforce simp: ensures_def if_ready_def split: prep.splits)
  then show ?thesis unfolding place_task_def by (intro ensures_rules) simp_all
qed

definition order_header :: "pystr \<Rightarrow> pystr \<Rightarrow> pystr \<Rightarrow> pystr" where
  "order_header tid run_id owner = u ''[task '' @ tid @ u '' run '' @ run_id @ u '' requester '' @ owner @ u '']'' @ [10]"

lemma order_text_ensures:
  assumes "header_matches env task run_id owner"
  shows "ensures (\<lambda>text. text = order_header (py_str (e_str env) (dget task ''task_id'')) run_id owner @ side) (order_text env task side)"
  unfolding order_text_def by (intro ensures_field ensures_ret) (use assms in \<open>auto simp: header_matches_def order_header_def py_str_def\<close>)

text \<open>
  What a work order rests on: the ledger shows the task with the run and the requester of the
  header, open and assigned to this agent; the message is the one the ledger names, or one of the
  agent's own; the lead, the requester or the relay sent it, or the agent itself; and what the
  agent reads is the ledger's header and the content of the sidecar.
\<close>

definition bound_order :: "loop_env \<Rightarrow> job \<Rightarrow> pystr \<Rightarrow> pystr \<Rightarrow> pydict \<Rightarrow> job \<Rightarrow> bool" where
  "bound_order le job run_id owner shown j = (let env = lp_env le; i = py_str (e_str env) (dget shown ''task_id'') in
     header_matches env shown run_id owner \<and> dget shown ''team_uid'' = PStr (e_team env) \<and> in_tuple (dget shown ''state'') work_states \<and>
     (jb_id job = body_ref_id env shown \<or> own_engine_id env shown job) \<and>
     (jb_from job = owner \<or> first_lead env = Inr (PStr (jb_from job)) \<or> task_relay env = Inr (jb_from job) \<or> own_engine_id env shown job) \<and>
     (\<exists>h side. read_body_sidecar i (lp_bodies le h) = Inr side \<and> carries shown (order_header i run_id owner @ side) j))"

lemma take_order_bound:
  assumes "header_matches (lp_env le) task run_id owner"
  shows "ensures (if_ready (\<lambda>j. \<exists>h side. read_body_sidecar (py_str (e_str (lp_env le)) (dget task ''task_id'')) (lp_bodies le h) = Inr side \<and>
     carries task (order_header (py_str (e_str (lp_env le)) (dget task ''task_id'')) run_id owner @ side) j)) (take_order le task job)"
proof -
  let ?i = "py_str (e_str (lp_env le)) (dget task ''task_id'')"
  let ?Q = "if_ready (\<lambda>j. \<exists>h side. read_body_sidecar ?i (lp_bodies le h) = Inr side \<and> carries task (order_header ?i run_id owner @ side) j)"
  have place: "ensures ?Q (place_task le task (job\<lparr>jb_body := b\<rparr>))"
    if "read_body_sidecar ?i (lp_bodies le h) = Inr side" "b = order_header ?i run_id owner @ side" for h side b
    using place_task_carries [of task "job\<lparr>jb_body := b\<rparr>" le] that
    by (fastforce simp: ensures_def if_ready_def split: prep.splits)
  have read: "ensures (\<lambda>r. \<exists>h. r = read_body_sidecar ?i (lp_bodies le h)) (ask (\<lambda>h. read_body_sidecar ?i (lp_bodies le h)) c)" for c
    by (auto simp: ensures_def ask_def)
  have known: "ensures ?Q (bnd (order_text (lp_env le) task side) (\<lambda>b. place_task le task (job\<lparr>jb_body := b\<rparr>)))"
    if "read_body_sidecar ?i (lp_bodies le h) = Inr side" for h side
    by (rule ensures_bnd [OF order_text_ensures [OF assms]]) (rule place [OF that])
  have step: "ensures ?Q (case r of Inl (LedgerError x) \<Rightarrow> m x | Inl e \<Rightarrow> lift (Inl e) |
      Inr side \<Rightarrow> bnd (order_text (lp_env le) task side) (\<lambda>b. place_task le task (job\<lparr>jb_body := b\<rparr>)))"
    if "\<exists>h. r = read_body_sidecar ?i (lp_bodies le h)" "\<And>x. ensures ?Q (m x)" for r m
    using that known by (auto split: sum.splits exn.splits intro: ensures_raise)
  show ?thesis unfolding take_order_def Let_def
    by (intro ensures_field ensures_bnd [OF read] step) (auto intro!: ensures_rules)
qed

lemma bind_task_bound:
  assumes "jb_task job = None"
  shows "ensures (if_ready (\<lambda>j. (jb_task j = None \<and> \<not> has_text (u ''[task'') (jb_body j)) \<or>
     (\<exists>task. shown = Some task \<and> bound_order le job run_id owner task j))) (bind_task le job run_id owner shown)"
proof -
  let ?Q = "if_ready (\<lambda>j. (jb_task j = None \<and> \<not> has_text (u ''[task'') (jb_body j)) \<or>
     (\<exists>task. shown = Some task \<and> bound_order le job run_id owner task j))"
  let ?env = "lp_env le"
  have low: "ensures ?Q (downgrade ?env job)" using assms by (intro downgrade_neutral) simp
  have take: "ensures ?Q (take_order le task job)"
    if shown: "shown = Some task" and lead: "first_lead ?env = Inr lead" and relay: "task_relay ?env = Inr relay"
      and trust: "sender_ok ?env task job lead relay = Inr trusted"
      and matches: "binding_matches ?env task run_id owner ((jb_id job = body_ref_id ?env task \<or> own_engine_id ?env task job) \<and> trusted) = Inr True"
    for task lead relay trusted
  proof -
    from matches have m: "header_matches ?env task run_id owner" "dget task ''team_uid'' = PStr (e_team ?env)"
      "in_tuple (dget task ''state'') work_states" "jb_id job = body_ref_id ?env task \<or> own_engine_id ?env task job" trusted
      by (auto simp: binding_matches_def in_strset_def bind_res_Inr split: if_splits)
    have s: "jb_from job = owner \<or> first_lead ?env = Inr (PStr (jb_from job)) \<or> task_relay ?env = Inr (jb_from job) \<or> own_engine_id ?env task job"
      using trust m(1,5) lead relay by (auto simp: sender_ok_def header_matches_def split: if_splits)
    show ?thesis
      by (rule ready_weaken [OF take_order_bound [OF m(1)]]) (simp add: bound_order_def Let_def shown m(1-4) s)
  qed
  have lifted: "ensures (\<lambda>x. r = Inr x) (lift r)" for r :: "exn + 'a" by (simp add: ensures_lift)
  show ?thesis
  proof (cases "shown = None \<or> shown = Some []")
    case True
    then have "bind_task le job run_id owner shown = bnd (lift (first_lead ?env)) (\<lambda>_. bnd (lift (task_relay ?env)) (\<lambda>_. downgrade ?env job))"
      by (auto simp: bind_task_def Let_def)
    then show ?thesis by (simp only:) (intro ensures_any low)
  next
    case False
    then obtain task where shown: "shown = Some task" "task \<noteq> []" by auto
    have rest: "ensures ?Q (bnd (lift (first_lead ?env)) (\<lambda>lead. bnd (lift (task_relay ?env)) (\<lambda>relay.
        bnd (lift (sender_ok ?env task job lead relay)) (\<lambda>trusted.
        bnd (lift (binding_matches ?env task run_id owner ((jb_id job = body_ref_id ?env task \<or> own_engine_id ?env task job) \<and> trusted))) (\<lambda>matches.
          if matches then take_order le task job else downgrade ?env job)))))"
      by (intro ensures_bnd [OF lifted] ensures_if low) (rule take [OF shown(1)]; simp)
    have other: "bind_task le job run_id owner shown = bind_task le job run_id owner (Some task)" by (simp add: shown)
    show ?thesis
      unfolding other unfolding bind_task_def Let_def option.case if_not_P [OF shown(2)]
      by (rule ensures_any, rule ensures_if, (intro ensures_any ensures_sq ensures_ret, simp), rule rest)
  qed
qed

text \<open>
  C33: Nobody forges a work order. When a message that is not the supervisor's own work is prepared
  for the agent, either its text contains no task header any more, or it carries a task: then the
  ledger, asked at that moment, showed the task its header names, with the same run and requester,
  assigned to this agent and open, the message is the one the ledger names or one of the agent's
  own, it comes from the lead, the requester or the relay, and the text is the ledger's header with
  the content of the protected sidecar.
\<close>

theorem orders_are_bound:
  assumes "prepare_task_work le job d = (Inr (Ready j check), d')" and "\<not> jb_synthetic job" and "jb_task job = None"
  shows "(jb_task j = None \<and> \<not> has_text (u ''[task'') (jb_body j)) \<or>
     (\<exists>tid run_id owner out shown. task_header (jb_body job) = Some (tid, run_id, owner) \<and>
       e_task (lp_env le) (d_calls d) [u ''show'', u ''--project'', e_project (lp_env le), tid] = (0, out) \<and>
       json_loads dict_hook out = Inr (PDict shown) \<and> bound_order le job run_id owner shown j)"
proof (cases "task_header (jb_body job)")
  case None
  have "ensures (if_ready (\<lambda>j. jb_task j = None \<and> \<not> has_text (u ''[task'') (jb_body j))) (prepare_task_work le job)"
    unfolding prepare_task_work_def Let_def using assms(2,3) by (auto simp: None intro!: ensures_rules)
  with assms(1) show ?thesis by (auto dest: ensuresD)
next
  case (Some h)
  obtain tid run_id owner where h: "h = (tid, run_id, owner)" by (cases h)
  obtain r d1 where shown: "task_show (lp_env le) tid d = (r, d1)" by fastforce
  with assms Some h have "\<exists>x. r = Inr x \<and> bind_task le job run_id owner x d1 = (Inr (Ready j check), d')"
    by (auto simp: prepare_task_work_def Let_def bnd_def split: sum.splits)
  then obtain x where x: "r = Inr x" "bind_task le job run_id owner x d1 = (Inr (Ready j check), d')" by blast
  have "(jb_task j = None \<and> \<not> has_text (u ''[task'') (jb_body j)) \<or> (\<exists>task. x = Some task \<and> bound_order le job run_id owner task j)"
    using ensuresD [OF bind_task_bound [OF assms(3)] x(2)] by simp
  moreover have "\<exists>out. e_task (lp_env le) (d_calls d) [u ''show'', u ''--project'', e_project (lp_env le), tid] = (0, out) \<and>
      json_loads dict_hook out = Inr (PDict task)" if "x = Some task" for task
    using shown unfolding x that
    by (auto simp: task_show_def task_command_def bnd_def ask_def ret_def lift_def split: if_splits sum.splits pyval.splits prod.splits)
  ultimately show ?thesis using Some h by blast
qed

section \<open>A task that could not be started\<close>

text \<open>
  The exception of a failed start leaves the task on the message. The next try takes the message as
  prepared: the task is not started again, and the working directory is not checked.
\<close>

lemma failed_start_is_forgotten:
  assumes "start_task env task job d = (Inr (Raised e j), d1)"
  shows "jb_task j = Some task \<and> prepare_task_work le j d2 = (Inr (Ready j False), d2)"
proof -
  have "ensures (\<lambda>p. \<forall>e j. p = Raised e j \<longrightarrow> jb_task j = Some task) (start_task env task job)"
    unfolding start_task_def Let_def by (intro ensures_any ensures_if ensures_ret) (simp_all split: if_splits)
  with assms have "jb_task j = Some task" by (auto dest: ensuresD)
  then show ?thesis by (simp add: prepare_task_work_def ret_def)
qed

section \<open>A sample\<close>

text \<open>A task of the agent, its sidecar, and the message of the lead that names it.\<close>

definition smp_order_task :: pydict where
  "smp_order_task = [(u ''task_id'', PStr (u ''t-aaaaaaaaaaaa'')), (u ''run_id'', PStr (u ''r-aaaaaaaaaaaa'')),
     (u ''owner'', PStr (u ''human:a'')), (u ''assignee'', PStr (u ''w-1'')), (u ''team_uid'', PStr (u ''t1'')),
     (u ''state'', PStr (u ''IN_PROGRESS'')), (u ''body_ref'', PStr (u ''msg:m1''))]"

definition smp_order_text :: pystr where
  "smp_order_text = json_dumps (\<lambda>_. []) False (PDict smp_order_task)"

definition smp_order_reply :: "pystr list \<Rightarrow> int \<times> pystr" where
  "smp_order_reply argv = (if hd argv = u ''show'' then (0, smp_order_text) else (0, []))"

definition smp_order_env :: env where
  "smp_order_env = \<lparr>e_uid = u ''w-1'', e_team = u ''t1'', e_project = u ''p1'', e_registry = [], e_role = (1001, 1001), e_poll = 1,
     e_base_branch = u ''main'', e_str = (\<lambda>_. []), e_when = (\<lambda>_. None), e_iso = (\<lambda>_. []), e_stamp = (\<lambda>_. []), e_now = (\<lambda>_. 0),
     e_uuid = (\<lambda>_. u ''c1''), e_task = (\<lambda>_. smp_order_reply), e_message = (\<lambda>_ _. (0, [])), e_dirs = (\<lambda>_. No_dirs),
     e_nodes = (\<lambda>_. []), e_quarantine = (\<lambda>_. Quarantine 0 0), e_saved = (\<lambda>_. True), e_outbox = (\<lambda>_. True), e_ref = (\<lambda>_. Inr True)\<rparr>"

definition smp_side :: body_store where
  "smp_side = \<lparr>b_dirs_open = True, b_gid = 1000, b_new_gid = 1000, b_euid = 0, b_test_seam = False, b_room = 0,
     b_files = [(u ''t-aaaaaaaaaaaa.md'', Inode \<lparr>f_regular = True, f_uid = 0, f_gid = 1000, f_nlink = 1, f_mode = 416,
       f_data = map byte (u ''build'')\<rparr>)]\<rparr>"

definition smp_loop :: loop_env where
  "smp_loop = \<lparr>lp_env = smp_order_env, lp_bodies = (\<lambda>_. smp_side), lp_worktree = (\<lambda>_. Inr (u ''/w'')), lp_bindings = (\<lambda>_. (0, [])),
     lp_kind = (\<lambda>_. u ''OSError''), lp_absent = [], lp_started = []\<rparr>"

definition smp_order_job :: job where
  "smp_order_job = \<lparr>jb_id = u ''m1'', jb_from = u ''human:a'',
     jb_body = u ''[task t-aaaaaaaaaaaa run r-aaaaaaaaaaaa requester human:a] hello'',
     jb_synthetic = False, jb_retry = False, jb_downgraded = False, jb_task = None\<rparr>"

definition smp_empty_desk :: desk where
  "smp_empty_desk = \<lparr>d_records = [], d_calls = [], d_index = None, d_cursor = []\<rparr>"

definition smp_shown_desk :: desk where
  "smp_shown_desk = smp_empty_desk\<lparr>d_calls := [Task_cmd [u ''show'', u ''--project'', u ''p1'', u ''t-aaaaaaaaaaaa'']]\<rparr>"

lemma smp_order_parses: "json_loads dict_hook smp_order_text = Inr (PDict smp_order_task)"
  by code_simp

lemma smp_order_header: "task_header (jb_body smp_order_job) = Some (u ''t-aaaaaaaaaaaa'', u ''r-aaaaaaaaaaaa'', u ''human:a'')"
  by code_simp

lemma smp_order_shown:
  "task_show (lp_env smp_loop) (u ''t-aaaaaaaaaaaa'') smp_empty_desk = (Inr (Some smp_order_task), smp_shown_desk)"
  by (simp add: task_show_def task_command_def bnd_def ask_def ret_def smp_loop_def smp_order_env_def smp_order_reply_def
      smp_order_parses smp_empty_desk_def smp_shown_desk_def)

lemma smp_order_bound:
  "case bind_task smp_loop smp_order_job (u ''r-aaaaaaaaaaaa'') (u ''human:a'') (Some smp_order_task) smp_shown_desk of
     (Inr (Ready j _), _) \<Rightarrow> jb_task j \<noteq> None \<and>
       jb_body j = order_header (u ''t-aaaaaaaaaaaa'') (u ''r-aaaaaaaaaaaa'') (u ''human:a'') @ u ''build''
   | _ \<Rightarrow> False"
  by code_simp

theorem orders_are_bound_witness:
  "\<exists>j c d' out shown. prepare_task_work smp_loop smp_order_job smp_empty_desk = (Inr (Ready j c), d') \<and>
     json_loads dict_hook out = Inr (PDict shown) \<and>
     bound_order smp_loop smp_order_job (u ''r-aaaaaaaaaaaa'') (u ''human:a'') shown j \<and>
     jb_body j = u ''[task t-aaaaaaaaaaaa run r-aaaaaaaaaaaa requester human:a]'' @ [10] @ u ''build''"
proof -
  have fresh: "\<not> jb_synthetic smp_order_job" "jb_task smp_order_job = None" by (simp_all add: smp_order_job_def)
  obtain j c d' where j: "bind_task smp_loop smp_order_job (u ''r-aaaaaaaaaaaa'') (u ''human:a'') (Some smp_order_task) smp_shown_desk = (Inr (Ready j c), d')"
      "jb_task j \<noteq> None" "jb_body j = order_header (u ''t-aaaaaaaaaaaa'') (u ''r-aaaaaaaaaaaa'') (u ''human:a'') @ u ''build''"
    using smp_order_bound by (auto split: prod.splits sum.splits prep.splits)
  then have ready: "prepare_task_work smp_loop smp_order_job smp_empty_desk = (Inr (Ready j c), d')"
    using fresh by (simp add: prepare_task_work_def Let_def smp_order_header bnd_def smp_order_shown)
  have "order_header (u ''t-aaaaaaaaaaaa'') (u ''r-aaaaaaaaaaaa'') (u ''human:a'') @ u ''build'' =
      u ''[task t-aaaaaaaaaaaa run r-aaaaaaaaaaaa requester human:a]'' @ [10] @ u ''build''" by code_simp
  with orders_are_bound [OF ready fresh] ready j(2,3) smp_order_header show ?thesis by auto
qed

end
