(* ===== verification/SupOrphans.thy ===== *)
theory SupOrphans
  imports SupMessages "HOL-Library.List_Lexorder"
begin

text \<open>
  The attempts of turns whose supervisor died (\<open>lib/aib_supervisor.py\<close>, \<open>_adopt_orphan_attempt\<close> and
  around it): which intent files nobody claims, which of them belong to the dead turn according to
  the attempts stream, and what happens while that stream cannot be read. A Python set is walked in
  the order of its sorted elements here.
\<close>

section \<open>The directory\<close>

definition last_fs_record :: "pystr \<Rightarrow> pydict option act" where
  "last_fs_record path = latest (\<lambda>r. (is_event ''fs.unsafe'' r \<or> is_event ''fs.safe'' r) \<and> dget r ''path'' = PStr path)"

text \<open>The number of the record just written is the number of records.\<close>

definition journal_fs_unsafe :: "env \<Rightarrow> pystr \<Rightarrow> pystr \<Rightarrow> unit act" where
  "journal_fs_unsafe env path reason = bnd (last_fs_record path) (\<lambda>before.
     if (case before of Some r \<Rightarrow> is_event ''fs.unsafe'' r \<and> dget r ''reason'' = PStr reason | None \<Rightarrow> False) then ret ()
     else sq (jot env ''fs.unsafe'' [(u ''path'', PStr path), (u ''reason'', PStr reason)])
       (bnd (look_at (\<lambda>d. length (d_records d))) (\<lambda>n.
         write_alarm env ''fs_unsafe'' PNone PNone [(u ''path'', PStr path), (u ''episode'', PStr (str_of_nat n))])))"

definition journal_fs_safe :: "env \<Rightarrow> pystr \<Rightarrow> unit act" where
  "journal_fs_safe env path = bnd (last_fs_record path) (\<lambda>before.
     when_do (case before of Some r \<Rightarrow> is_event ''fs.unsafe'' r | None \<Rightarrow> False) (jot env ''fs.safe'' [(u ''path'', PStr path)]))"

definition INTENT_PATH :: pystr where
  "INTENT_PATH = u ''.aib/intents''"

text \<open>The entries of the directory in order, each with what \<open>stat\<close> gives; or why it does not open.\<close>

definition list_intents :: "loop_env \<Rightarrow> (pystr + (pystr \<times> node option) list) act" where
  "list_intents le = bnd (open_private_dirs (lp_env le) INTENT_PATH) (\<lambda>d. case d of
       No_dirs \<Rightarrow> ret (Inl (lp_absent le))
     | Bad_dirs why \<Rightarrow> ret (Inl why)
     | Dirs p \<Rightarrow> bnd (ask (e_nodes (lp_env le)) (Look INTENT_PATH)) (\<lambda>ns. ret (Inr (sort_key fst ns))))"

definition applied_in :: "pydict list \<Rightarrow> pystr \<Rightarrow> bool" where
  "applied_in rs attempt = list_ex (of_attempt ''intents.applied'' attempt) rs"

definition pending_orphan_intents :: "loop_env \<Rightarrow> pystr list act" where
  "pending_orphan_intents le = bnd (list_intents le) (\<lambda>r. case r of
       Inl why \<Rightarrow> sq (journal_fs_unsafe (lp_env le) INTENT_PATH why) (ret [])
     | Inr ns \<Rightarrow> look_at (\<lambda>d. filter (\<lambda>a. \<not> applied_in (d_records d) a)
         (map (\<lambda>(n, _). take (length n - 6) n) (filter (\<lambda>(n, _). \<not> bad_intent_name n) ns))))"

section \<open>Deferrals\<close>

definition active_orphan_deferrals :: "pydict list \<Rightarrow> (pystr, pydict) dict" where
  "active_orphan_deferrals rs = fold (\<lambda>r active. case dget r ''local_attempt'' of
       PStr a \<Rightarrow>
         if is_event ''orphan.deferred'' r then dset a r active
         else if is_event ''orphan.resolved'' r \<or> is_event ''orphan.exhausted'' r then filter (\<lambda>(k, _). k \<noteq> a) active
         else active
     | _ \<Rightarrow> active) rs []"

text \<open>The first hundred names, how many there are, and the digest of all.\<close>

definition pending_intent_summary :: "pystr list \<Rightarrow> exn + pystr list \<times> nat \<times> pystr" where
  "pending_intent_summary pending = (let ordered = sort (remdups pending) in
     bind_res (utf8_encode (join_with [10] ordered)) (\<lambda>b. Inr (take 100 ordered, length ordered, sha_hex b)))"

definition journal_orphan_deferral :: "env \<Rightarrow> pydict \<Rightarrow> pystr \<Rightarrow> pystr list \<Rightarrow> int \<Rightarrow> pystr \<Rightarrow> unit act" where
  "journal_orphan_deferral env unfinished local pending n retry_at =
     bnd (lift (pending_intent_summary pending)) (\<lambda>(names, how_many, digest).
       jot env ''orphan.deferred'' [(u ''local_attempt'', PStr local), (u ''pending'', PList (map PStr names)),
         (u ''pending_count'', PInt (int how_many)), (u ''pending_sha256'', PStr digest), (u ''n'', PInt n), (u ''retry_at'', PStr retry_at),
         (u ''started_at'', dget unfinished ''ts''), (u ''sid'', dget unfinished ''sid''), (u ''msg_id'', dget unfinished ''msg_id''),
         (u ''task_id'', dget unfinished ''task_id''), (u ''run_id'', dget unfinished ''run_id''), (u ''requester'', dget unfinished ''requester'')])"

definition claimed_attempts :: "pydict list \<Rightarrow> pyval list" where
  "claimed_attempts rs = map (\<lambda>r. dget r ''attempt_id'') (filter (is_event ''turn.attempt'') rs)"

definition unclaimed :: "pyval list \<Rightarrow> pystr list \<Rightarrow> pystr list" where
  "unclaimed claimed names = filter (\<lambda>a. PStr a \<notin> set claimed) names"

definition record_names :: "pyval list \<Rightarrow> pyval list \<Rightarrow> pystr list" where
  "record_names claimed vs = unclaimed claimed (concat (map (\<lambda>v. case v of PStr s \<Rightarrow> [s] | _ \<Rightarrow> []) vs))"

text \<open>
  A record that names only a part of its files stands for all unclaimed ones while these are still
  as they were; the directory is read once.
\<close>

fun deferred_names :: "loop_env \<Rightarrow> pyval list \<Rightarrow> pydict list \<Rightarrow> pystr list option \<Rightarrow> pystr list act" where
  "deferred_names le claimed [] known = ret []"
| "deferred_names le claimed (r # rs) known = (case dget r ''pending'' of
       PList vs \<Rightarrow>
         (case int_instance (dget r ''pending_count'') of
            Some n \<Rightarrow>
              if int (length vs) < n then
                bnd (case known of Some k \<Rightarrow> ret k
                  | None \<Rightarrow> bnd (pending_orphan_intents le) (\<lambda>p. ret (unclaimed claimed p))) (\<lambda>k.
                bnd (lift (pending_intent_summary k)) (\<lambda>(_, how_many, digest).
                bnd (deferred_names le claimed rs (Some k)) (\<lambda>names.
                  ret (record_names claimed vs @ (if int how_many = n \<and> dget r ''pending_sha256'' = PStr digest then k else []) @ names))))
              else bnd (deferred_names le claimed rs known) (\<lambda>names. ret (record_names claimed vs @ names))
          | None \<Rightarrow> bnd (deferred_names le claimed rs known) (\<lambda>names. ret (record_names claimed vs @ names)))
     | _ \<Rightarrow> deferred_names le claimed rs known)"

definition deferred_intent_names :: "loop_env \<Rightarrow> pystr list act" where
  "deferred_intent_names le = bnd (look_at (\<lambda>d. (claimed_attempts (d_records d), map snd (active_orphan_deferrals (d_records d)))))
     (\<lambda>(claimed, rs). deferred_names le claimed rs None)"

section \<open>Bindings\<close>

fun parse_bindings :: "pystr list \<Rightarrow> exn + pydict list" where
  "parse_bindings [] = Inr []"
| "parse_bindings (l # ls) = bind_res (json_loads dict_hook l) (\<lambda>v. bind_res (parse_bindings ls) (\<lambda>ds.
     Inr (case v of PDict d \<Rightarrow> d # ds | _ \<Rightarrow> ds)))"

text \<open>What the attempts command prints; \<open>None\<close> where it fails or prints no JSON.\<close>

definition attempt_bindings :: "loop_env \<Rightarrow> pydict list option act" where
  "attempt_bindings le = bnd (ask (lp_bindings le) (Helper (u ''attempts''))) (\<lambda>(rc, out).
     if rc \<noteq> 0 then ret None
     else case parse_bindings (str_splitlines out) of
         Inl e \<Rightarrow> if e = json_decode_error then ret None else lift (Inl e)
       | Inr ds \<Rightarrow> ret (Some ds))"

definition timestamp :: "env \<Rightarrow> pyval \<Rightarrow> rat option" where
  "timestamp env v = (case v of PStr s \<Rightarrow> e_when env s | _ \<Rightarrow> None)"

definition mux_session :: "env \<Rightarrow> exn + pystr" where
  "mux_session env = bind_res (project_entry env) (\<lambda>p. case p of
       PDict d \<Rightarrow> Inr (py_str (e_str env) (dget_or d ''mux_session'' (PStr []))) | _ \<Rightarrow> Inl AttributeError)"

text \<open>A launch of this agent that has ended, decided while the dead turn ran, and that nobody claimed.\<close>

definition binding_fits ::
  "loop_env \<Rightarrow> pystr list \<Rightarrow> pyval list \<Rightarrow> pystr \<Rightarrow> pyval \<Rightarrow> pydict \<Rightarrow> exn + bool" where
  "binding_fits le pending claimed session started b = (let env = lp_env le; a = dget b ''attempt_id'' in
     if \<not> hashable a then Inl TypeError
     else Inr (a \<in> set (map PStr pending) \<and> a \<notin> set claimed \<and> dget b ''agent_uid'' = PStr (e_uid env) \<and>
       dget b ''decision'' = PStr (u ''allow'') \<and> dget b ''session_id'' = PStr session \<and> dget b ''running'' = PBool False \<and>
       (case (timestamp env started, e_when env (lp_started le), timestamp env (dget b ''decided_at'')) of
          (Some s, Some r, Some t) \<Rightarrow> s \<le> t \<and> t \<le> r | _ \<Rightarrow> False)))"

fun filter_res :: "('a \<Rightarrow> exn + bool) \<Rightarrow> 'a list \<Rightarrow> exn + 'a list" where
  "filter_res f [] = Inr []"
| "filter_res f (x # xs) = bind_res (f x) (\<lambda>b. bind_res (filter_res f xs) (\<lambda>ys. Inr (if b then x # ys else ys)))"

section \<open>Adoption\<close>

definition close_snapshot :: "env \<Rightarrow> pystr \<Rightarrow> unit act" where
  "close_snapshot env attempt = bnd (intent_snapshot env attempt) (\<lambda>(present, digest). close_intent_attempt env attempt present digest)"

definition resolve_orphan :: "env \<Rightarrow> pystr \<Rightarrow> unit act" where
  "resolve_orphan env local = jot env ''orphan.resolved'' [(u ''local_attempt'', PStr local)]"

definition quarantine_unbound :: "env \<Rightarrow> pystr list \<Rightarrow> unit act" where
  "quarantine_unbound env attempts = each (\<lambda>a. quarantine_intent env (intent_name a) ''unbound_attempt'' Attention None) attempts"

text \<open>
  While the bindings cannot be read the adoption is deferred; the fifth time the unclaimed files go
  to quarantine, as many as the budget of the round allows. The budget left is the result.
\<close>

definition exhaust_orphan ::
  "loop_env \<Rightarrow> pydict \<Rightarrow> pystr \<Rightarrow> pystr list \<Rightarrow> int \<Rightarrow> int option \<Rightarrow> int option act" where
  "exhaust_orphan le unfinished local names n budget = (let env = lp_env le; ordered = sort (remdups names);
       limit = (case budget of None \<Rightarrow> 500 | Some b \<Rightarrow> min 500 (max 0 b));
       batch = take (nat limit) ordered; left = drop (length batch) ordered;
       budget' = map_option (\<lambda>b. b - int (length batch)) budget in
     sq (quarantine_unbound env batch)
       (if left \<noteq> [] then bnd (ask (e_now env) Clock) (\<lambda>now.
          sq (journal_orphan_deferral env unfinished local left n (e_iso env now)) (ret budget'))
        else sq (jot env ''attention'' [(u ''reason'', PStr (u ''unbound_attempt'')), (u ''local_attempt'', PStr local)])
          (sq (jot env ''orphan.exhausted'' [(u ''local_attempt'', PStr local), (u ''n'', PInt n)]) (ret budget'))))"

definition defer_orphan ::
  "loop_env \<Rightarrow> pydict \<Rightarrow> pystr \<Rightarrow> pystr list \<Rightarrow> int \<Rightarrow> int option \<Rightarrow> int option act" where
  "defer_orphan le unfinished local names n budget = (let env = lp_env le in
     if 5 \<le> n then exhaust_orphan le unfinished local names n budget
     else bnd (record_exists (\<lambda>r. is_event ''attention'' r \<and> dget r ''reason'' = PStr (u ''attempt_bindings_unavailable'') \<and>
          dget r ''local_attempt'' = PStr local)) (\<lambda>told.
       sq (when_do (\<not> told) (jot env ''attention'' [(u ''reason'', PStr (u ''attempt_bindings_unavailable'')), (u ''local_attempt'', PStr local)]))
         (bnd (ask (e_now env) Clock) (\<lambda>now.
           sq (journal_orphan_deferral env unfinished local names n (e_iso env (now + min 300 (e_poll env * 2 ^ nat (n - 1)))))
             (ret budget)))))"

definition bind_orphan ::
  "loop_env \<Rightarrow> pydict \<Rightarrow> pystr \<Rightarrow> pystr list \<Rightarrow> pyval list \<Rightarrow> pydict list \<Rightarrow> unit act" where
  "bind_orphan le unfinished local pending claimed bindings = (let env = lp_env le in
     bnd (lift (mux_session env)) (\<lambda>session.
     bnd (lift (filter_res (binding_fits le pending claimed session (dget unfinished ''ts'')) bindings)) (\<lambda>matches.
     sq (tell (Unlink (u ''.turn-'' @ local @ u ''.attempt'')))
       (case matches of
          [b] \<Rightarrow>
            bnd (str_field env b ''attempt_id'') (\<lambda>attempt.
            sq (jot env ''turn.attempt'' [(u ''attempt_id'', PStr attempt), (u ''local_attempt_id'', PStr local),
                (u ''msg_id'', dget unfinished ''msg_id''), (u ''task_id'', dget unfinished ''task_id''), (u ''run_id'', dget unfinished ''run_id''),
                (u ''requester'', dget unfinished ''requester''), (u ''adopted'', PBool True)])
              (sq (close_snapshot env attempt) (resolve_orphan env local)))
        | _ \<Rightarrow> sq (quarantine_unbound env (sort (remdups (unclaimed claimed pending)))) (resolve_orphan env local)))))"

definition adopt_orphan_attempt ::
  "loop_env \<Rightarrow> pydict \<Rightarrow> pystr \<Rightarrow> int \<Rightarrow> int option \<Rightarrow> int option act" where
  "adopt_orphan_attempt le unfinished local retry_n budget = (let env = lp_env le in
     bnd (latest (\<lambda>r. is_event ''turn.attempt'' r \<and> dget r ''local_attempt_id'' = PStr local)) (\<lambda>existing. case existing of
         Some r \<Rightarrow>
           sq (case dget r ''attempt_id'' of
                PStr a \<Rightarrow> bnd (closed_intent a) (\<lambda>c. when_do (c = None) (close_snapshot env a))
              | _ \<Rightarrow> ret ())
             (sq (resolve_orphan env local) (ret budget))
       | None \<Rightarrow>
           bnd (pending_orphan_intents le) (\<lambda>pending.
           bnd (look_at (\<lambda>d. claimed_attempts (d_records d))) (\<lambda>claimed.
           bnd (attempt_bindings le) (\<lambda>bindings. case bindings of
               None \<Rightarrow> defer_orphan le unfinished local (unclaimed claimed pending) (retry_n + 1) budget
             | Some bs \<Rightarrow> sq (bind_orphan le unfinished local pending claimed bs) (ret budget))))))"

text \<open>What a deferral remembers of the turn.\<close>

definition deferred_turn :: "pydict \<Rightarrow> pydict" where
  "deferred_turn r = [(u ''ts'', dget r ''started_at''), (u ''sid'', dget r ''sid''), (u ''msg_id'', dget r ''msg_id''),
     (u ''task_id'', dget r ''task_id''), (u ''run_id'', dget r ''run_id''), (u ''requester'', dget r ''requester'')]"

fun retry_deferrals :: "loop_env \<Rightarrow> rat \<Rightarrow> (pystr \<times> pydict) list \<Rightarrow> int option \<Rightarrow> unit act" where
  "retry_deferrals le now [] budget = ret ()"
| "retry_deferrals le now ((local, r) # rs) budget =
     (if (case timestamp (lp_env le) (dget r ''retry_at'') of Some t \<Rightarrow> now < t | None \<Rightarrow> False) then retry_deferrals le now rs budget
      else bnd (lift (int_of_value (dget_or r ''n'' (PInt 1)))) (\<lambda>n.
        bnd (adopt_orphan_attempt le (deferred_turn r) local n budget) (\<lambda>budget'. retry_deferrals le now rs budget')))"

definition retry_deferred_orphans :: "loop_env \<Rightarrow> unit act" where
  "retry_deferred_orphans le = bnd (ask (e_now (lp_env le)) Clock) (\<lambda>now.
     bnd (look_at (\<lambda>d. active_orphan_deferrals (d_records d))) (\<lambda>ds. retry_deferrals le now ds (Some 500)))"

end
