(* ===== verification/SupScan.thy ===== *)
theory SupScan
  imports SupOrphans SupIntentFile
begin

text \<open>
  What the loop of \<open>lib/aib_supervisor.py\<close> does between turns: \<open>scan_intents\<close> visits the worker's
  directory, \<open>sweep_missing_reports\<close> asks for reports that never came, and \<open>scan_task_dlq\<close> turns
  messages that could not be delivered into cancelled tasks. Listing an open directory is taken to
  succeed; what \<open>stat\<close> says of its entries belongs to the reply.
\<close>

section \<open>Missing reports\<close>

definition no_report :: "pyval \<Rightarrow> int \<Rightarrow> pydict \<Rightarrow> bool" where
  "no_report tid assignment r = (is_event ''task.no_report'' r \<and> py_eq (dget r ''task_id'') tid \<and> py_eq (dget r ''assignment'') (PInt assignment))"

definition rejected_reasons :: "env \<Rightarrow> pystr \<Rightarrow> pydict list \<Rightarrow> pystr list" where
  "rejected_reasons env attempt rs = map (\<lambda>r. py_str (e_str env) (dget_or r ''reason'' (dget r ''state'')))
     (filter (\<lambda>r. of_attempt ''intent.ledger'' attempt r \<and> dget r ''action'' = PStr (u ''rejected'')) rs)"

text \<open>The first time the agent gets a reminder, the second time the task is blocked.\<close>

definition handle_missing_report :: "env \<Rightarrow> pydict \<Rightarrow> pystr \<Rightarrow> unit act" where
  "handle_missing_report env task attempt =
     bnd (lift (int_of_value (dget_or task ''assignments'' (PInt 1)))) (\<lambda>assignment.
     bnd (field task ''task_id'') (\<lambda>tid. let i = py_str (e_str env) tid in
     bnd (record_count (no_report tid assignment)) (\<lambda>before.
     sq (if 2 \<le> before + 1 then
           bnd (service_block env task attempt ''no_report'' (Some (u ''noreport-'' @ i @ u ''-a'' @ str_of_int assignment))) (\<lambda>_. ret ())
         else
           bnd (look_at (\<lambda>d. rejected_reasons env attempt (d_records d))) (\<lambda>reasons.
           bnd (persist_self_task_message env task (i @ u ''.n.a'' @ str_of_int assignment)
             (u ''no report received'' @ (if reasons = [] then [] else u ''; rejected: '' @ join_with (u '', '') reasons))) (\<lambda>_. ret ())))
       (jot env ''task.no_report'' [(u ''task_id'', tid), (u ''attempt_id'', PStr attempt), (u ''assignment'', PInt assignment),
          (u ''count'', PInt (before + 1))]))))"

definition recheck_missing_report :: "env \<Rightarrow> pystr \<Rightarrow> pydict \<Rightarrow> bool \<Rightarrow> unit act" where
  "recheck_missing_report env attempt context handled = (case dget context ''task_id'' of
       PStr i \<Rightarrow>
         if handled then ret ()
         else bnd (task_show env i) (\<lambda>shown. case shown of
             Some task \<Rightarrow>
               if dget task ''state'' = PStr (u ''IN_PROGRESS'') then
                 bnd (report_waiting_for_task i) (\<lambda>waits. when_do (\<not> waits) (handle_missing_report env task attempt))
               else ret ()
           | None \<Rightarrow> ret ())
     | _ \<Rightarrow> ret ())"

text \<open>The tasks whose attempt still has intents to be tried again, or is deferred.\<close>

definition retried_tasks :: "pydict list \<Rightarrow> pyval list" where
  "retried_tasks rs = (let
       settled = map (\<lambda>r. dget r ''attempt_id'') (filter (\<lambda>r. is_event ''intents.applied'' r \<or> is_event ''intents.tainted'' r) rs);
       tried = filter (\<lambda>v. v \<notin> set settled) (map (\<lambda>r. dget r ''attempt_id'') (filter (is_event ''intent.retry'') rs)) in
     map (\<lambda>r. dget r ''task_id'') (filter (\<lambda>r. is_event ''turn.attempt'' r \<and> dget r ''attempt_id'' \<in> set tried) rs) @
     map (\<lambda>(_, r). dget r ''task_id'') (active_orphan_deferrals rs))"

definition mentions_task :: "pystr \<Rightarrow> message \<Rightarrow> bool" where
  "mentions_task tid m = (startswith (ms_id m) (tid @ u ''.'') \<or>
     (case task_header (ms_body m) of Some (i, _, _) \<Rightarrow> i = tid | None \<Rightarrow> False))"

definition sweep_task :: "env \<Rightarrow> pyval list \<Rightarrow> message list \<Rightarrow> pyval \<Rightarrow> unit act" where
  "sweep_task env busy messages v = (case v of
       PDict task \<Rightarrow>
         if dget task ''assignee'' \<noteq> PStr (e_uid env) \<or> dget task ''state'' \<noteq> PStr (u ''IN_PROGRESS'') then ret ()
         else let tid = py_str (e_str env) (dget_or task ''task_id'' (PStr [])) in
           bnd (report_waiting_for_task tid) (\<lambda>waits.
             if PStr tid \<in> set busy \<or> waits \<or> list_ex (mentions_task tid) messages then ret ()
             else bnd (lift (int_of_value (dget_or task ''assignments'' (PInt 1)))) (\<lambda>assignment.
               bnd (latest (no_report (PStr tid) assignment)) (\<lambda>before.
                 handle_missing_report env task (case before of None \<Rightarrow> u ''startup-'' @ tid
                   | Some r \<Rightarrow> py_str (e_str env) (dget_or r ''attempt_id'' (PStr (u ''startup-'' @ tid)))))))
     | _ \<Rightarrow> ret ())"

text \<open>Strings and objects can be walked too, but hold no task.\<close>

definition walk :: "pyval \<Rightarrow> exn + pyval list" where
  "walk v = (case v of PList vs \<Rightarrow> Inr vs | PStr _ \<Rightarrow> Inr [] | PDict _ \<Rightarrow> Inr [] | _ \<Rightarrow> Inl TypeError)"

definition sweep_missing_reports :: "env \<Rightarrow> bool \<Rightarrow> bool act" where
  "sweep_missing_reports env down =
     bnd (task_command env [u ''list'', u ''--project'', e_project env, u ''--team'', e_team env, u ''--all'']) (\<lambda>(rc, out).
       if rc \<noteq> 0 then ret down
       else case json_loads dict_hook out of
           Inl e \<Rightarrow> if is_value_error e then ret down else lift (Inl e)
         | Inr (PDict d) \<Rightarrow>
             bnd (open_messages env down) (\<lambda>(down', messages).
             bnd (look_at (\<lambda>d. retried_tasks (d_records d))) (\<lambda>busy.
             bnd (lift (walk (dget_or d ''tasks'' (PList [])))) (\<lambda>vs.
               sq (each (sweep_task env busy messages) vs) (ret down'))))
         | Inr _ \<Rightarrow> ret down)"

section \<open>Undeliverable messages\<close>

definition token_char :: "nat \<Rightarrow> bool" where
  "token_char c = in_charset c [(65, 90), (97, 122), (48, 57), (46, 46), (95, 95), (45, 45)]"

text \<open>\<open>^id:([A-Za-z0-9._-]+) \<close> at the start of a line.\<close>

definition dlq_id :: "pystr \<Rightarrow> pystr option" where
  "dlq_id line = (let i = takeWhile token_char (drop 3 line) in
     if startswith line (u ''id:'') \<and> i \<noteq> [] \<and> startswith (drop (3 + length i) line) [32] then Some i else None)"

text \<open>\<open>(?:^| \| )from:([^ |]+)\<close> anywhere in a line.\<close>

definition sender_token :: "pystr \<Rightarrow> pystr \<Rightarrow> pystr" where
  "sender_token start s = (if startswith s start then takeWhile (\<lambda>c. c \<noteq> 32 \<and> c \<noteq> 124) (drop (length start) s) else [])"

fun later_sender :: "pystr \<Rightarrow> pystr" where
  "later_sender [] = []"
| "later_sender (c # s) = (let t = sender_token (u '' | from:'') (c # s) in if t \<noteq> [] then t else later_sender s)"

definition dlq_sender :: "pystr \<Rightarrow> pystr" where
  "dlq_sender line = (let t = sender_token (u ''from:'') line in if t \<noteq> [] then t else later_sender line)"

definition dlq_processed :: "env \<Rightarrow> pystr \<Rightarrow> pystr \<Rightarrow> unit act" where
  "dlq_processed env i outcome = jot env ''task.dlq_processed'' [(u ''message_id'', PStr i), (u ''outcome'', PStr outcome)]"

text \<open>The message is not the one the ledger names for the task, or comes from somebody else.\<close>

definition dlq_unbound :: "env \<Rightarrow> pydict \<Rightarrow> pystr \<Rightarrow> pystr \<Rightarrow> pyval \<Rightarrow> pystr \<Rightarrow> exn + bool" where
  "dlq_unbound env task i sender lead relay =
     (if i \<noteq> body_ref_id env task then Inr True
      else if \<not> hashable (dget task ''owner'') then Inl TypeError
      else Inr (PStr sender \<notin> {lead, dget task ''owner'', PStr relay}))"

definition cancel_undelivered :: "env \<Rightarrow> pydict \<Rightarrow> pystr \<Rightarrow> pystr act" where
  "cancel_undelivered env task i =
     bnd (str_field env task ''task_id'') (\<lambda>tid.
     bnd (task_event env (Cancel (Some (u ''delivery_failed''))) task (u ''delivery-'' @ tid) ''service'' (supervisor_actor env) None) (\<lambda>rc.
       if rc \<noteq> 0 then ret (u ''task_rc_'' @ str_of_int rc)
       else bnd (field task ''task_id'') (\<lambda>v.
         sq (jot env ''task.delivery_failed'' [(u ''task_id'', v), (u ''message_id'', PStr i)])
           (bnd (deliver_task_report env task (u ''delivery-failed'') (u ''cancelled'') (u ''delivery attempts exhausted'') PNone True) (\<lambda>_.
             sq (write_alarm env ''task_delivery_failed'' PNone PNone [(u ''task_id'', v)]) (ret (u ''cancelled'')))))))"

text \<open>What becomes of a message that claims to carry a task; the outcome is journaled by the caller.\<close>

definition dlq_task :: "env \<Rightarrow> pystr \<Rightarrow> pystr \<Rightarrow> pystr \<Rightarrow> pystr \<Rightarrow> pystr \<Rightarrow> pystr act" where
  "dlq_task env line i tid run_id owner =
     bnd (task_show env tid) (\<lambda>shown. bnd (lift (first_lead env)) (\<lambda>lead. bnd (lift (task_relay env)) (\<lambda>relay. case shown of
         None \<Rightarrow> ret (u ''stale'')
       | Some task \<Rightarrow> bnd (lift (dlq_unbound env task i (dlq_sender line) lead relay)) (\<lambda>unbound.
           if unbound then ret (u ''unbound'')
           else if \<not> header_matches env task run_id owner \<or> dget task ''state'' \<noteq> PStr (u ''ASSIGNED'') then ret (u ''stale'')
           else cancel_undelivered env task i))))"

definition dlq_line :: "env \<Rightarrow> pystr \<Rightarrow> unit act" where
  "dlq_line env line = (case dlq_id line of
       None \<Rightarrow> ret ()
     | Some i \<Rightarrow> bnd (record_exists (message_event ''task.dlq_processed'' i)) (\<lambda>known.
         if known then ret ()
         else case task_header (last (split_max 4 (u '' | '') line)) of
             None \<Rightarrow> dlq_processed env i (u ''not_task'')
           | Some (tid, run_id, owner) \<Rightarrow> bnd (dlq_task env line i tid run_id owner) (dlq_processed env i)))"

definition scan_task_dlq :: "env \<Rightarrow> unit act" where
  "scan_task_dlq env = bnd (open_private_dirs env INTENT_PATH) (\<lambda>d. case d of
       Dirs p \<Rightarrow> bnd (message_command env [u ''dlq'']) (\<lambda>(rc, out).
         if rc \<noteq> 0 then ret () else each (dlq_line env) (str_splitlines out))
     | _ \<Rightarrow> ret ())"

section \<open>The scan of the intents\<close>

definition SCAN_LIMIT :: nat where
  "SCAN_LIMIT = 500"

text \<open>The part of an ordered directory that one scan visits, and where the next one starts.\<close>

definition scan_window :: "pystr \<Rightarrow> pystr list \<Rightarrow> pystr list \<times> pystr" where
  "scan_window cursor names =
     (if length names \<le> SCAN_LIMIT then (names, [])
      else let k = length (takeWhile (\<lambda>n. \<not> cursor < n) names); start = (if k < length names then k else 0);
               visited = take SCAN_LIMIT (drop start names @ take start names) in (visited, last visited))"

definition set_cursor :: "pystr \<Rightarrow> unit act" where
  "set_cursor c d = (Inr (), d\<lparr>d_cursor := c\<rparr>)"

definition scan_entries :: "(pystr \<times> node option) list \<Rightarrow> (pystr \<times> node) list act" where
  "scan_entries ns = bnd (look_at d_cursor) (\<lambda>cursor. case scan_window cursor (map fst ns) of
     (visited, cursor') \<Rightarrow> sq (set_cursor cursor')
       (ret (List.map_filter (\<lambda>name. case map_of ns name of Some (Some nd) \<Rightarrow> Some (name, nd) | _ \<Rightarrow> None) visited)))"

text \<open>A directory, a link or anything else that is no file is reported once and removed.\<close>

definition remove_odd_entry :: "env \<Rightarrow> pystr \<Rightarrow> node \<Rightarrow> unit act" where
  "remove_odd_entry env name nd = (let ident = intent_identity name (bad_intent_name name) in
     bnd (record_exists (\<lambda>r. is_event ''intents.tainted'' r \<and> dget r ''reason'' = PStr (u ''non_regular'') \<and>
        py_eq (dget r ''inode'') (PInt (nd_inode nd)) \<and> same_identity ident r)) (\<lambda>seen.
     sq (if seen then ret ()
         else sq (jot env ''intents.tainted'' ([(u ''reason'', PStr (u ''non_regular'')), (u ''inode'', PInt (nd_inode nd))] @ ident))
           (write_alarm env ''intents_tainted'' PNone PNone ident))
       (bnd (open_private_dirs env name) (\<lambda>d. case d of
           Dirs p \<Rightarrow> tell (if nd_directory nd then Rmdir name else Unlink name) | _ \<Rightarrow> ret ()))))"

text \<open>An exception of the application is a failed try, whatever it is.\<close>

definition try_pending_intent :: "loop_env \<Rightarrow> pystr \<Rightarrow> pystr \<Rightarrow> pydict \<Rightarrow> bool act" where
  "try_pending_intent le name attempt context = (let env = lp_env le in
     catch (apply_pending_intent env attempt context False)
       (\<lambda>e. case e of SystemExit _ \<Rightarrow> lift (Inl e) | _ \<Rightarrow> sq (intent_retry env name attempt (lp_kind le e)) (ret False)))"

definition scan_attempt :: "loop_env \<Rightarrow> pystr \<Rightarrow> pystr \<Rightarrow> pydict \<Rightarrow> unit act" where
  "scan_attempt le name attempt context = (let env = lp_env le in
     bnd (intent_retry_pending attempt) (\<lambda>was_pending.
     bnd (try_pending_intent le name attempt context) (\<lambda>handled.
       if was_pending then bnd (intent_retry_pending attempt) (\<lambda>pending.
         if pending then ret () else recheck_missing_report env attempt context handled)
       else ret ())))"

definition scan_entry :: "loop_env \<Rightarrow> (pystr, pydict) dict \<Rightarrow> pystr list \<Rightarrow> pystr \<times> node \<Rightarrow> unit act" where
  "scan_entry le contexts deferred e = (case e of (name, nd) \<Rightarrow> let env = lp_env le; attempt = intent_stem name in
     if \<not> nd_regular nd then remove_odd_entry env name nd
     else if bad_intent_name name then quarantine_intent env name ''invalid_name'' Security None
     else if attempt \<in> set deferred then ret ()
     else case map_of contexts attempt of
         None \<Rightarrow> quarantine_intent env name ''foreign_attempt'' Security None
       | Some context \<Rightarrow>
           if is_str (dget context ''task_id'') then scan_attempt le name attempt context
           else quarantine_intent env name ''intent_without_task'' Attention None)"

text \<open>The refusals known when the scan starts are passed down and grow with its own.\<close>

definition set_index :: "taint_key list option \<Rightarrow> unit act" where
  "set_index k d = (Inr (), d\<lparr>d_index := k\<rparr>)"

definition scan_listed :: "loop_env \<Rightarrow> (pystr \<times> node option) list \<Rightarrow> unit act" where
  "scan_listed le ns = bnd (scan_entries ns) (\<lambda>entries.
     sq (journal_fs_safe (lp_env le) INTENT_PATH)
       (bnd (look_at (\<lambda>d. attempt_contexts (d_records d))) (\<lambda>contexts.
         bnd (deferred_intent_names le) (\<lambda>deferred. each (scan_entry le contexts deferred) entries))))"

text \<open>A raised exception drops the index with the call that holds it.\<close>

definition scan_intents :: "loop_env \<Rightarrow> unit act" where
  "scan_intents le =
     sq (retry_pending_reports (lp_env le)) (sq (retry_deferred_orphans le)
       (bnd (look_at (\<lambda>d. tainted_keys (d_records d))) (\<lambda>known.
         sq (set_index (Some known))
           (catch (sq (bnd (list_intents le) (\<lambda>r. case r of
               Inl why \<Rightarrow> journal_fs_unsafe (lp_env le) INTENT_PATH why
             | Inr ns \<Rightarrow> scan_listed le ns)) (set_index None))
             (\<lambda>e. sq (set_index None) (lift (Inl e)))))))"

end
