(* ===== verification/SupScanFair.thy ===== *)
theory SupScanFair
  imports SupScan
begin

text \<open>
  The rotating window of \<open>scan_intents\<close>: however large the worker's directory is, every file that
  stays in it is visited after boundedly many scans.
\<close>

section \<open>Cyclic order\<close>

text \<open>Walking upwards from \<open>c\<close>, and from the bottom again, \<open>y\<close> comes before \<open>x\<close>.\<close>

definition comes_before :: "pystr \<Rightarrow> pystr \<Rightarrow> pystr \<Rightarrow> bool" where
  "comes_before c x y = (if c < x then c < y \<and> y < x else c < y \<or> y < x)"

lemma comes_before_advances:
  "comes_before c x m \<Longrightarrow> comes_before m x y \<Longrightarrow> comes_before c x y \<and> y \<noteq> m \<and> \<not> comes_before c m y"
  unfolding comes_before_def by (smt (verit) less_asym less_trans linorder_neqE)

lemma takeWhile_sorted: "sorted_wrt (<) (zs :: pystr list) \<Longrightarrow> x \<in> set zs \<Longrightarrow> takeWhile (\<lambda>y. y \<noteq> x) zs = filter (\<lambda>y. y < x) zs"
proof (induction zs)
  case (Cons z zs)
  show ?case
  proof (cases "z = x")
    case True
    then have "filter (\<lambda>y. y < x) zs = []" using Cons.prems by (auto simp: filter_empty_conv)
    then show ?thesis using True by simp
  qed (use Cons in auto)
qed simp

definition rotated :: "pystr \<Rightarrow> pystr list \<Rightarrow> pystr list" where
  "rotated c names = filter (\<lambda>n. c < n) names @ filter (\<lambda>n. \<not> c < n) names"

lemma takeWhile_not_above:
  "sorted_wrt (<) (zs :: pystr list) \<Longrightarrow> takeWhile (\<lambda>n. \<not> c < n) zs = filter (\<lambda>n. \<not> c < n) zs \<and> dropWhile (\<lambda>n. \<not> c < n) zs = filter (\<lambda>n. c < n) zs"
proof (induction zs)
  case (Cons z zs)
  show ?case
  proof (cases "c < z")
    case True
    then have "\<forall>n\<in>set zs. c < n" using Cons.prems by auto
    then show ?thesis using True by (auto simp: filter_empty_conv filter_id_conv)
  qed (use Cons in auto)
qed simp

lemma scan_window_rotated:
  assumes "sorted_wrt (<) names" and "SCAN_LIMIT < length names"
  shows "scan_window c names = (take SCAN_LIMIT (rotated c names), last (take SCAN_LIMIT (rotated c names)))"
proof -
  let ?k = "length (takeWhile (\<lambda>n. \<not> c < n) names)"
  note tw = takeWhile_not_above [OF assms(1), of c]
  have parts: "drop ?k names = filter (\<lambda>n. c < n) names" "take ?k names = filter (\<lambda>n. \<not> c < n) names"
    using tw dropWhile_eq_drop [of "\<lambda>n. \<not> c < n" names] takeWhile_eq_take [of "\<lambda>n. \<not> c < n" names] by metis+
  have eq: "drop (if ?k < length names then ?k else 0) names @ take (if ?k < length names then ?k else 0) names = rotated c names"
  proof (cases "?k < length names")
    case False
    then have "filter (\<lambda>n. c < n) names = []" "filter (\<lambda>n. \<not> c < n) names = names" using parts by simp_all
    then show ?thesis using False by (simp add: rotated_def)
  qed (simp add: parts rotated_def)
  have "\<not> length names \<le> SCAN_LIMIT" using assms(2) by simp
  then show ?thesis unfolding scan_window_def Let_def eq by simp
qed

lemma rotated_before:
  assumes "sorted_wrt (<) names" and "x \<in> set names"
  shows "set (takeWhile (\<lambda>y. y \<noteq> x) (rotated c names)) = {y \<in> set names. comes_before c x y}"
proof -
  have s: "sorted_wrt (<) (filter P names)" for P using assms(1) by (rule sorted_wrt_filter)
  show ?thesis
  proof (cases "c < x")
    case True
    then have x: "x \<in> set (filter (\<lambda>n. c < n) names)" using assms(2) by simp
    then have "takeWhile (\<lambda>y. y \<noteq> x) (rotated c names) = filter (\<lambda>y. y < x) (filter (\<lambda>n. c < n) names)"
      unfolding rotated_def takeWhile_sorted [OF s x, symmetric] by (subst takeWhile_append1 [of x]) auto
    then show ?thesis using True by (auto simp: comes_before_def)
  next
    case False
    then have x: "x \<in> set (filter (\<lambda>n. \<not> c < n) names)" "\<forall>y\<in>set (filter (\<lambda>n. c < n) names). y \<noteq> x" using assms(2) by auto
    then have "takeWhile (\<lambda>y. y \<noteq> x) (rotated c names) = filter (\<lambda>n. c < n) names @ filter (\<lambda>y. y < x) (filter (\<lambda>n. \<not> c < n) names)"
      unfolding rotated_def takeWhile_sorted [OF s x(1), symmetric] by (subst takeWhile_append2) auto
    then show ?thesis using False by (auto simp: comes_before_def)
  qed
qed

lemma rotated_set [simp]: "set (rotated c names) = set names" "length (rotated c names) = length names"
  by (auto simp: rotated_def sum_length_filter_compl)

lemma rotated_distinct: "distinct names \<Longrightarrow> distinct (rotated c names)"
  by (auto simp: rotated_def)

text \<open>How many entries come before \<open>x\<close>.\<close>

definition ahead :: "pystr \<Rightarrow> pystr \<Rightarrow> pystr set \<Rightarrow> nat" where
  "ahead c x names = card {y \<in> names. comes_before c x y}"

lemma take_position: "distinct ys \<Longrightarrow> x \<in> set ys \<Longrightarrow> x \<notin> set (take m ys) \<Longrightarrow> m \<le> length (takeWhile (\<lambda>y. y \<noteq> x) ys)"
proof (induction ys arbitrary: m)
  case (Cons y ys)
  then show ?case by (cases m) (auto split: if_splits)
qed simp

lemma takeWhile_nth: "m < length (takeWhile (\<lambda>y. y \<noteq> x) ys) \<Longrightarrow> distinct ys \<Longrightarrow>
    takeWhile (\<lambda>y. y \<noteq> ys ! m) ys = take m ys \<and> ys ! m \<in> set (takeWhile (\<lambda>y. y \<noteq> x) ys)"
proof (induction ys arbitrary: m)
  case (Cons y ys)
  show ?case
  proof (cases m)
    case 0
    then have "y \<noteq> x" using Cons.prems(1) by (cases "y = x") simp_all
    then show ?thesis by (simp add: 0)
  next
    case (Suc k)
    then have k: "k < length (takeWhile (\<lambda>y. y \<noteq> x) ys)" "y \<noteq> x" using Cons.prems(1) by (auto split: if_splits)
    moreover have "k < length ys" using k(1) length_takeWhile_le [of "\<lambda>y. y \<noteq> x" ys] by linarith
    ultimately show ?thesis using Cons by (auto simp: Suc)
  qed
qed simp

text \<open>A file that is not visited gets closer by the size of the window.\<close>

lemma window_advances:
  assumes names: "sorted_wrt (<) names" and x: "x \<in> set names" "x \<notin> set (fst (scan_window c names))"
    and fewer: "names' \<subseteq> set names"
  shows "SCAN_LIMIT + ahead (snd (scan_window c names)) x names' \<le> ahead c x (set names)"
proof -
  have many: "SCAN_LIMIT < length names" using x by (auto simp: scan_window_def split: if_splits)
  let ?r = "rotated c names" and ?t = "takeWhile (\<lambda>y. y \<noteq> x) (rotated c names)"
  have d: "distinct names" using names by (simp add: strict_sorted_iff)
  then have dr: "distinct ?r" by (rule rotated_distinct)
  note win = scan_window_rotated [OF names many, of c]
  have w: "SCAN_LIMIT \<le> length ?t" using take_position [OF dr] x win by simp
  define m where "m = ?r ! (SCAN_LIMIT - 1)"
  have "0 < SCAN_LIMIT" by (simp add: SCAN_LIMIT_def)
  have len: "length (take SCAN_LIMIT ?r) = SCAN_LIMIT" using many by simp
  then have "take SCAN_LIMIT ?r \<noteq> []" using \<open>0 < SCAN_LIMIT\<close> by fastforce
  from last_conv_nth [OF this] have m: "snd (scan_window c names) = m" using win \<open>0 < SCAN_LIMIT\<close> by (simp add: m_def min_absorb2 [OF less_imp_le [OF many]])
  have "SCAN_LIMIT - 1 < length ?t" using w \<open>0 < SCAN_LIMIT\<close> by simp
  note nth = takeWhile_nth [OF this dr, folded m_def]
  have min: "m \<in> set names" "comes_before c x m" using nth rotated_before [OF names x(1), of c] by auto
  have before_m: "set (take (SCAN_LIMIT - 1) ?r) = {y \<in> set names. comes_before c m y}"
    using nth rotated_before [OF names min(1), of c] by simp
  let ?V = "insert m {y \<in> set names. comes_before c m y}" and ?A = "{y \<in> names'. comes_before m x y}"
  have "card (set (take (SCAN_LIMIT - 1) ?r)) = SCAN_LIMIT - 1"
    using many dr by (simp add: distinct_card)
  moreover have "m \<notin> set (take (SCAN_LIMIT - 1) ?r)" unfolding before_m by (simp add: comes_before_def)
  ultimately have size: "card ?V = SCAN_LIMIT" using \<open>0 < SCAN_LIMIT\<close> unfolding before_m [symmetric] by simp
  have disjoint: "?V \<inter> ?A = {}" using comes_before_advances [OF min(2)] by auto
  have finite: "finite ?V" "finite ?A" using fewer by (auto intro: finite_subset)
  have "SCAN_LIMIT + card ?A = card (?V \<union> ?A)" by (simp only: card_Un_disjoint [OF finite disjoint] size)
  also have "\<dots> \<le> card {y \<in> set names. comes_before c x y}"
  proof (rule card_mono)
    have "set (take SCAN_LIMIT ?r) \<subseteq> set ?t"
      using w by (metis set_take_subset take_all takeWhile_eq_take take_take min.absorb1 set_take_subset_set_take)
    moreover have "?V \<subseteq> set (take SCAN_LIMIT ?r)"
    proof -
      have "take SCAN_LIMIT ?r = take (SCAN_LIMIT - 1) ?r @ [m]"
        using many \<open>0 < SCAN_LIMIT\<close> take_Suc_conv_app_nth [of "SCAN_LIMIT - 1" ?r] by (simp add: m_def)
      then show ?thesis by (auto simp flip: before_m)
    qed
    ultimately have "?V \<subseteq> {y \<in> set names. comes_before c x y}" using rotated_before [OF names x(1), of c] by auto
    moreover have "?A \<subseteq> {y \<in> set names. comes_before c x y}" using comes_before_advances [OF min(2)] fewer by auto
    ultimately show "?V \<union> ?A \<subseteq> {y \<in> set names. comes_before c x y}" by blast
  qed simp
  finally show ?thesis by (simp add: ahead_def m)
qed


section \<open>Successive scans\<close>

text \<open>The entries visited by scans of successive listings.\<close>

fun scan_rounds :: "(pystr \<times> node option) list list \<Rightarrow> desk \<Rightarrow> (pystr \<times> node) list" where
  "scan_rounds [] d = []"
| "scan_rounds (ns # nss) d = (case scan_entries ns d of (Inr es, d') \<Rightarrow> es @ scan_rounds nss d' | (Inl e, d') \<Rightarrow> [])"

lemma scan_entries_result:
  "scan_entries ns d = (Inr (List.map_filter (\<lambda>name. case map_of ns name of Some (Some nd) \<Rightarrow> Some (name, nd) | _ \<Rightarrow> None)
      (fst (scan_window (d_cursor d) (map fst ns)))), d\<lparr>d_cursor := snd (scan_window (d_cursor d) (map fst ns))\<rparr>)"
  by (simp add: scan_entries_def bnd_def look_at_def sq_def set_cursor_def ret_def split: prod.split)

lemma visited_entry:
  assumes "x \<in> set names" and "map_of ns x = Some (Some nd)"
  shows "x \<in> fst ` set (List.map_filter (\<lambda>name. case map_of ns name of Some (Some nd) \<Rightarrow> Some (name, nd) | _ \<Rightarrow> None) names)"
  using assms by (force simp: List.map_filter_def)

lemma scanned_within:
  assumes "\<forall>ns\<in>set nss. sorted_wrt (<) (map fst ns) \<and> (\<exists>nd. map_of ns x = Some (Some nd))"
    and "sorted_wrt (\<lambda>a b. set (map fst b) \<subseteq> set (map fst a)) nss" and "nss \<noteq> []"
    and "ahead (d_cursor d) x (set (map fst (hd nss))) < SCAN_LIMIT * length nss"
  shows "x \<in> fst ` set (scan_rounds nss d)"
  using assms
proof (induction nss arbitrary: d)
  case (Cons ns nss)
  obtain nd where nd: "map_of ns x = Some (Some nd)" and s: "sorted_wrt (<) (map fst ns)" using Cons.prems(1) by auto
  then have x: "x \<in> set (map fst ns)" by (auto dest: map_of_SomeD intro: rev_image_eqI)
  let ?w = "scan_window (d_cursor d) (map fst ns)" and ?d = "d\<lparr>d_cursor := snd (scan_window (d_cursor d) (map fst ns))\<rparr>"
  show ?case
  proof (cases "x \<in> set (fst ?w)")
    case True
    then show ?thesis using visited_entry [OF True nd] by (auto simp: scan_entries_result)
  next
    case False
    have rest: "nss \<noteq> [] \<and> ahead (snd ?w) x (set (map fst (hd nss))) < SCAN_LIMIT * length nss"
    proof (cases nss)
      case Nil
      have "SCAN_LIMIT + ahead (snd ?w) x {} \<le> ahead (d_cursor d) x (set (map fst ns))"
        by (rule window_advances [OF s x False]) simp
      then show ?thesis using Cons.prems(4) Nil by simp
    next
      case (Cons ms mss)
      then have "set (map fst ms) \<subseteq> set (map fst ns)" using Cons.prems(2) by simp
      from window_advances [OF s x False this] show ?thesis using Cons.prems(4) Cons by simp
    qed
    have "x \<in> fst ` set (scan_rounds nss ?d)"
      by (rule Cons.IH) (use Cons.prems rest in auto)
    then show ?thesis by (auto simp: scan_entries_result)
  qed
qed simp

text \<open>
  C34: Every file is scanned. As long as no new entries appear in the worker's directory, a file that
  stays in it is among the entries visited by as many successive scans as the directory has
  windows of 500 entries, wherever the first scan starts.
\<close>

theorem every_file_is_scanned:
  assumes "\<forall>ns\<in>set nss. sorted_wrt (<) (map fst ns) \<and> (\<exists>nd. map_of ns x = Some (Some nd))"
    and "sorted_wrt (\<lambda>a b. set (map fst b) \<subseteq> set (map fst a)) nss" and "nss \<noteq> []"
    and "length (hd nss) \<le> 500 * length nss"
  shows "x \<in> fst ` set (scan_rounds nss d)"
proof (rule scanned_within [OF assms(1-3)])
  let ?names = "set (map fst (hd nss))"
  have "x \<in> ?names" using assms(1,3) by (cases nss) (auto dest: map_of_SomeD intro: rev_image_eqI)
  moreover have "\<not> comes_before (d_cursor d) x x" by (simp add: comes_before_def)
  ultimately have "{y \<in> ?names. comes_before (d_cursor d) x y} \<subset> ?names" by blast
  then have "ahead (d_cursor d) x ?names < card ?names" unfolding ahead_def by (intro psubset_card_mono) auto
  also have "\<dots> \<le> length (hd nss)" using card_length [of "map fst (hd nss)"] by simp
  finally show "ahead (d_cursor d) x ?names < SCAN_LIMIT * length nss" using assms(4) by (simp add: SCAN_LIMIT_def)
qed


text \<open>A directory of one file, scanned once, with the cursor left behind the file.\<close>

definition smp_listing :: "(pystr \<times> node option) list" where
  "smp_listing = [(u ''a.jsonl'', Some \<lparr>nd_regular = True, nd_directory = False, nd_inode = 7\<rparr>)]"

theorem every_file_is_scanned_witness:
  "u ''a.jsonl'' \<in> fst ` set (scan_rounds [smp_listing] \<lparr>d_records = [], d_calls = [], d_index = None, d_cursor = u ''b''\<rparr>)"
  by (rule every_file_is_scanned) (simp_all add: smp_listing_def)

end
