(* ===== verification/SupScanProps.thy ===== *)
theory SupScanProps
  imports SupScan SupIntentProps
begin

text \<open>
  What the loop between turns promises: every file of the worker is looked at after boundedly many
  scans, no undeliverable message is processed twice, and no attempt is adopted that somebody
  already claimed.
\<close>

section \<open>Records that come once\<close>

text \<open>The values of one field over all records of one event; what operations do to them.\<close>

definition ids_of :: "string \<Rightarrow> string \<Rightarrow> pydict list \<Rightarrow> pyval list" where
  "ids_of event key rs = map (\<lambda>r. dget r key) (filter (is_event event) rs)"

lemma ids_of_append [simp]: "ids_of ev k (rs @ ss) = ids_of ev k rs @ ids_of ev k ss"
  by (simp add: ids_of_def)

definition same_ids :: "string \<Rightarrow> string \<Rightarrow> 'a act \<Rightarrow> bool" where
  "same_ids ev k m = (\<forall>d. ids_of ev k (d_records (snd (m d))) = ids_of ev k (d_records d))"

text \<open>At most one value is added, and it satisfies \<open>P\<close>.\<close>

definition adds :: "string \<Rightarrow> string \<Rightarrow> (pyval \<Rightarrow> bool) \<Rightarrow> 'a act \<Rightarrow> bool" where
  "adds ev k P m = (\<forall>d. \<exists>vs. ids_of ev k (d_records (snd (m d))) = ids_of ev k (d_records d) @ vs \<and> length vs \<le> 1 \<and> (\<forall>v\<in>set vs. P v))"

definition keeps_distinct :: "string \<Rightarrow> string \<Rightarrow> 'a act \<Rightarrow> bool" where
  "keeps_distinct ev k m = (\<forall>d. distinct (ids_of ev k (d_records d)) \<longrightarrow> distinct (ids_of ev k (d_records (snd (m d)))))"

text \<open>
  The interface: an event whose records are to have distinct values, and the records the rest of
  the operations may write.
\<close>

locale once =
  fixes event key :: string and may :: "string \<Rightarrow> pydict \<Rightarrow> bool"
  assumes others: "may ev fs \<Longrightarrow> ev \<noteq> event \<and> no_event_field fs"
begin

lemma made_other: "made may r \<Longrightarrow> \<not> is_event event r"
proof -
  assume "made may r"
  then obtain ev fs n ts where r: "r = numbered n ts (u ev) fs" "may ev fs" by (auto simp: made_def)
  then have "no_event_field fs" "ev \<noteq> event" using others by blast+
  moreover from this have "dget r ''event'' = PStr (u ev)" by (simp add: r event_of_numbered)
  ultimately show ?thesis by (simp add: is_event_def)
qed

lemma traced_same: "traced [] C may m \<Longrightarrow> same_ids event key m"
proof -
  assume t: "traced [] C may m"
  have "ids_of event key (d_records (snd (m d))) = ids_of event key (d_records d)" for d
  proof -
    obtain r d' where m: "m d = (r, d')" by fastforce
    from t m obtain cs rs where "d_records d' = d_records d @ rs" "list_all (made may) rs" by (rule tracedD) simp
    then show ?thesis using made_other by (simp add: m ids_of_def list_all_iff filter_empty_conv)
  qed
  then show ?thesis by (simp add: same_ids_def)
qed

lemma adds_before:
  assumes "same_ids event key m" and "\<And>x. adds event key P (f x)" shows "adds event key P (bnd m f)"
  unfolding adds_def
proof
  fix d
  obtain r d' where m: "m d = (r, d')" by fastforce
  have same: "ids_of event key (d_records d') = ids_of event key (d_records d)"
    using assms(1) unfolding same_ids_def by (metis m snd_conv)
  show "\<exists>vs. ids_of event key (d_records (snd (bnd m f d))) = ids_of event key (d_records d) @ vs \<and> length vs \<le> 1 \<and> (\<forall>v\<in>set vs. P v)"
  proof (cases r)
    case (Inl e)
    then show ?thesis using same by (simp add: bnd_def m)
  next
    case (Inr x)
    then show ?thesis using assms(2) [of x] unfolding adds_def by (simp add: bnd_def m flip: same)
  qed
qed

lemma adds_after:
  assumes "adds event key P m" and "\<And>x. same_ids event key (f x)" shows "adds event key P (bnd m f)"
  unfolding adds_def
proof
  fix d
  obtain r d' where m: "m d = (r, d')" by fastforce
  obtain vs where vs: "ids_of event key (d_records d') = ids_of event key (d_records d) @ vs" "length vs \<le> 1" "\<forall>v\<in>set vs. P v"
    using assms(1) unfolding adds_def by (metis m snd_conv)
  have "ids_of event key (d_records (snd (bnd m f d))) = ids_of event key (d_records d')"
    using assms(2) by (simp add: bnd_def m same_ids_def split: sum.split)
  with vs show "\<exists>vs. ids_of event key (d_records (snd (bnd m f d))) = ids_of event key (d_records d) @ vs \<and> length vs \<le> 1 \<and> (\<forall>v\<in>set vs. P v)"
    by auto
qed

lemma adds_same: "same_ids event key m \<Longrightarrow> adds event key P m"
  by (auto simp: adds_def same_ids_def)

lemma adds_lift: "(\<And>x. r = Inr x \<Longrightarrow> adds event key P (f x)) \<Longrightarrow> adds event key P (bnd (lift r) f)"
  by (cases r) (auto simp: adds_def bnd_def lift_def)

lemma keeps_fresh:
  assumes "\<And>c. adds event key (\<lambda>v. v \<notin> set c) (f c)"
  shows "keeps_distinct event key (bnd (look_at (\<lambda>d. ids_of event key (d_records d))) f)"
  unfolding keeps_distinct_def
proof safe
  fix d :: desk
  assume d: "distinct (ids_of event key (d_records d))"
  let ?c = "ids_of event key (d_records d)"
  obtain vs where "ids_of event key (d_records (snd (f ?c d))) = ?c @ vs" "length vs \<le> 1" "\<forall>v\<in>set vs. v \<notin> set ?c"
    using assms [of ?c] unfolding adds_def by blast
  with d show "distinct (ids_of event key (d_records (snd (bnd (look_at (\<lambda>d. ids_of event key (d_records d))) f d))))"
    by (cases vs) (auto simp: bnd_def look_at_def)
qed

lemma keeps_same: "same_ids event key m \<Longrightarrow> keeps_distinct event key m"
  by (simp add: same_ids_def keeps_distinct_def)

lemma keeps_bnd: "keeps_distinct event key m \<Longrightarrow> (\<And>x. keeps_distinct event key (f x)) \<Longrightarrow> keeps_distinct event key (bnd m f)"
  unfolding keeps_distinct_def bnd_def by (auto split: prod.split sum.split)

lemma keeps_sq: "keeps_distinct event key m \<Longrightarrow> keeps_distinct event key k \<Longrightarrow> keeps_distinct event key (sq m k)"
  by (simp add: sq_def keeps_bnd)

lemma keeps_ret: "keeps_distinct event key (ret x)"
  by (simp add: keeps_distinct_def ret_def)

lemma keeps_each: "(\<And>x. keeps_distinct event key (f x)) \<Longrightarrow> keeps_distinct event key (each f xs)"
  by (induction xs) (simp_all add: keeps_ret keeps_sq)

end

section \<open>The operations between turns\<close>

definition scan_events :: "string list" where
  "scan_events = desk_events @ [''orphan.resolved'', ''orphan.deferred'', ''orphan.exhausted'', ''fs.unsafe'', ''fs.safe'', ''task.delivery_failed'']"

definition scan_record :: "string \<Rightarrow> pydict \<Rightarrow> bool" where
  "scan_record ev fs = (ev \<in> set scan_events \<and> no_event_field fs)"

interpretation dead_letters: once "''task.dlq_processed''" "''message_id''" scan_record
  by unfold_locales (auto simp: scan_record_def scan_events_def desk_events_def)

interpretation launches: once "''turn.attempt''" "''attempt_id''" scan_record
  by unfold_locales (auto simp: scan_record_def scan_events_def desk_events_def)

text \<open>Any call, but only these records.\<close>

abbreviation any_call :: "call \<Rightarrow> bool" where
  "any_call \<equiv> \<lambda>_. True"

lemma any_permitted [traced_rules]: "permits any_call c"
  by (simp add: permits_def)

lemma scan_journals: "ev \<in> set scan_events \<Longrightarrow> no_event_field fs \<Longrightarrow> journals scan_record ev fs"
  by (simp add: journals_def scan_record_def)

lemma scan_local [traced_rules]: "local_work any_call scan_record"
  by (auto simp: local_work_def desk_record_def scan_record_def scan_events_def)

declare local_journals [traced_rules del]

lemma traced_free_event [traced_rules]: "traced B any_call E (task_event env a task causation actor_type actor_id via)"
  unfolding task_event_def task_command_def by (intro traced_rules)

lemma traced_free_report [traced_rules]:
  "traced B any_call scan_record (deliver_task_report env task attempt state summary ref pending)"
  unfolding deliver_task_report_def pend_report_def Let_def
  by (intro traced_rules scan_journals) (simp_all add: scan_events_def desk_events_def)

lemma traced_fs_unsafe [traced_rules]: "traced B any_call scan_record (journal_fs_unsafe env path reason)"
  unfolding journal_fs_unsafe_def last_fs_record_def
  by (intro traced_rules scan_journals) (simp_all add: scan_events_def)

lemma traced_list_intents [traced_rules]: "traced B any_call scan_record (list_intents le)"
  unfolding list_intents_def by (intro traced_rules scan_journals)

lemma traced_pending_orphans [traced_rules]: "traced B any_call scan_record (pending_orphan_intents le)"
  unfolding pending_orphan_intents_def by (intro traced_rules scan_journals)

lemma traced_deferral [traced_rules]: "traced B any_call scan_record (journal_orphan_deferral env unfinished local pending n retry_at)"
  unfolding journal_orphan_deferral_def by (intro traced_rules scan_journals) (simp_all add: scan_events_def)

lemma traced_snapshot [traced_rules]: "traced B any_call scan_record (close_snapshot env attempt)"
  unfolding close_snapshot_def intent_snapshot_def by (intro traced_rules scan_journals)

lemma traced_resolve [traced_rules]: "traced B any_call scan_record (resolve_orphan env local)"
  unfolding resolve_orphan_def by (intro traced_rules scan_journals) (simp_all add: scan_events_def)

lemma traced_unbound [traced_rules]: "traced B any_call scan_record (quarantine_unbound env attempts)"
  unfolding quarantine_unbound_def by (intro traced_rules scan_journals)

lemma traced_bindings [traced_rules]: "traced B any_call scan_record (attempt_bindings le)"
  unfolding attempt_bindings_def by (intro traced_rules scan_journals)

lemma traced_exhaust [traced_rules]: "traced B any_call scan_record (exhaust_orphan le unfinished local names n budget)"
  unfolding exhaust_orphan_def Let_def by (intro traced_rules scan_journals) (simp_all add: scan_events_def desk_events_def)

lemma traced_defer [traced_rules]: "traced B any_call scan_record (defer_orphan le unfinished local names n budget)"
  unfolding defer_orphan_def Let_def by (intro traced_rules scan_journals) (simp_all add: scan_events_def desk_events_def)

section \<open>Undeliverable messages\<close>

lemma traced_dlq_task: "traced B any_call scan_record (dlq_task env line i tid run_id owner)"
  unfolding dlq_task_def cancel_undelivered_def
  by (intro traced_rules scan_journals) (simp_all add: scan_events_def)

lemma dlq_processed_adds: "adds ''task.dlq_processed'' ''message_id'' (\<lambda>v. v = PStr i) (dlq_processed env i outcome)"
  by (auto simp: adds_def dlq_processed_def jot_def ids_of_def numbered_def is_event_def dget_def)

text \<open>
  C35: No undeliverable message is processed twice. Scanning the dead letters keeps the journal free of
  two records of one message, whatever the message and task commands answer, and a message with a
  record triggers nothing any more.
\<close>

theorem dead_letters_handled_once:
  assumes "distinct (ids_of ''task.dlq_processed'' ''message_id'' (d_records d))"
  shows "distinct (ids_of ''task.dlq_processed'' ''message_id'' (d_records (snd (scan_task_dlq env d)))) \<and>
     (\<forall>line i. dlq_id line = Some i \<and> PStr i \<in> set (ids_of ''task.dlq_processed'' ''message_id'' (d_records d)) \<longrightarrow> dlq_line env line d = (Inr (), d))"
proof -
  have known: "record_exists (message_event ''task.dlq_processed'' i) d =
      (Inr (PStr i \<in> set (ids_of ''task.dlq_processed'' ''message_id'' (d_records d))), d)" for i d
    by (force simp: record_exists_def look_at_def message_event_def ids_of_def list_ex_iff)
  have line: "keeps_distinct ''task.dlq_processed'' ''message_id'' (dlq_line env line)" for line
  proof (cases "dlq_id line")
    case None
    then show ?thesis by (simp add: dlq_line_def dead_letters.keeps_ret)
  next
    case (Some i)
    let ?work = "case task_header (last (split_max 4 (u '' | '') line)) of None \<Rightarrow> dlq_processed env i (u ''not_task'')
      | Some (tid, run_id, owner) \<Rightarrow> bnd (dlq_task env line i tid run_id owner) (dlq_processed env i)"
    have "adds ''task.dlq_processed'' ''message_id'' (\<lambda>v. v = PStr i) ?work"
      by (auto split: option.split prod.split intro!: dlq_processed_adds dead_letters.adds_before dead_letters.traced_same traced_dlq_task)
    then have "adds ''task.dlq_processed'' ''message_id'' (\<lambda>v. v \<notin> set c) (if PStr i \<in> set c then ret () else ?work)" for c
      by (auto simp: adds_def ret_def) (metis)
    then have "keeps_distinct ''task.dlq_processed'' ''message_id''
        (bnd (look_at (\<lambda>d. ids_of ''task.dlq_processed'' ''message_id'' (d_records d))) (\<lambda>c. if PStr i \<in> set c then ret () else ?work))"
      by (rule dead_letters.keeps_fresh)
    moreover have "dlq_line env line = bnd (look_at (\<lambda>d. ids_of ''task.dlq_processed'' ''message_id'' (d_records d))) (\<lambda>c. if PStr i \<in> set c then ret () else ?work)"
      by (auto simp: fun_eq_iff dlq_line_def Some bnd_def known look_at_def)
    ultimately show ?thesis by simp
  qed
  have open_dirs: "keeps_distinct ''task.dlq_processed'' ''message_id'' (open_private_dirs env INTENT_PATH)"
    and messages: "keeps_distinct ''task.dlq_processed'' ''message_id'' (message_command env argv)" for argv
    by (intro dead_letters.keeps_same dead_letters.traced_same [where C = any_call] traced_rules)+
  have "keeps_distinct ''task.dlq_processed'' ''message_id'' (scan_task_dlq env)"
    unfolding scan_task_dlq_def
    by (intro dead_letters.keeps_bnd open_dirs)
      (auto split: dirs.split intro!: dead_letters.keeps_bnd messages dead_letters.keeps_each line dead_letters.keeps_ret)
  moreover have "dlq_line env line d = (Inr (), d)"
    if "dlq_id line = Some i" "PStr i \<in> set (ids_of ''task.dlq_processed'' ''message_id'' (d_records d))" for line i
    using that by (simp add: dlq_line_def bnd_def known ret_def)
  ultimately show ?thesis using assms by (auto simp: keeps_distinct_def)
qed


section \<open>Adoption\<close>

lemma unbound_same: "same_ids ''turn.attempt'' ''attempt_id'' (sq (quarantine_unbound env names) (resolve_orphan env local))"
  by (intro launches.traced_same [where C = any_call] traced_rules)

lemma filter_res_in: "filter_res f xs = Inr ys \<Longrightarrow> y \<in> set ys \<Longrightarrow> f y = Inr True"
  by (induction xs arbitrary: ys) (auto simp: bind_res_Inr split: if_splits)

lemma adopted_adds:
  assumes "dget b ''attempt_id'' = PStr a"
  shows "adds ''turn.attempt'' ''attempt_id'' (\<lambda>v. v = PStr a)
     (bnd (str_field env b ''attempt_id'') (\<lambda>attempt. sq (jot env ''turn.attempt'' [(u ''attempt_id'', PStr attempt),
        (u ''local_attempt_id'', PStr local), (u ''msg_id'', m), (u ''task_id'', t), (u ''run_id'', r), (u ''requester'', q), (u ''adopted'', PBool True)])
      (sq (close_snapshot env attempt) (resolve_orphan env local))))" (is "adds _ _ ?P (bnd _ ?f)")
proof -
  have tail: "same_ids ''turn.attempt'' ''attempt_id'' (sq (close_snapshot env x) (resolve_orphan env local))" for x
    by (intro launches.traced_same [where C = any_call] traced_rules)
  have "adds ''turn.attempt'' ''attempt_id'' ?P (?f a)" unfolding sq_def [of "jot _ _ _"]
    by (rule launches.adds_after [OF _ tail]) (auto simp: adds_def jot_def ids_of_def numbered_def is_event_def dget_def)
  moreover have "bnd (str_field env b ''attempt_id'') ?f = ?f a"
  proof -
    have "has_key b ''attempt_id''" using assms by (auto simp: has_key_def dget_def split: option.splits)
    then show ?thesis using assms by (simp add: fun_eq_iff str_field_def field_def item_def bnd_def lift_def ret_def py_str_def)
  qed
  ultimately show ?thesis by simp
qed

lemma bind_orphan_adds:
  "adds ''turn.attempt'' ''attempt_id'' (\<lambda>v. v \<notin> set claimed) (bind_orphan le unfinished local pending claimed bindings)"
proof -
  let ?env = "lp_env le"
  let ?P = "\<lambda>v. v \<notin> set claimed"
  have unlink: "same_ids ''turn.attempt'' ''attempt_id'' (tell c)" for c
    by (intro launches.traced_same [where C = any_call] traced_rules)
  have "adds ''turn.attempt'' ''attempt_id'' ?P (bnd (str_field ?env b ''attempt_id'') (\<lambda>attempt. sq (jot ?env ''turn.attempt'' [(u ''attempt_id'', PStr attempt),
        (u ''local_attempt_id'', PStr local), (u ''msg_id'', m), (u ''task_id'', t), (u ''run_id'', r), (u ''requester'', q), (u ''adopted'', PBool True)])
      (sq (close_snapshot ?env attempt) (resolve_orphan ?env local))))"
    if "filter_res (binding_fits le pending claimed session started) bindings = Inr [b]" for b session started m t r q
  proof -
    have "binding_fits le pending claimed session started b = Inr True" using filter_res_in [OF that] by simp
    then obtain a where a: "dget b ''attempt_id'' = PStr a" "PStr a \<notin> set claimed"
      by (auto simp: binding_fits_def Let_def split: if_splits)
    show ?thesis using adopted_adds [OF a(1), of ?env local m t r q] a(2) unfolding adds_def by metis
  qed
  then show ?thesis unfolding bind_orphan_def Let_def sq_def [of "tell _"]
    by (auto intro!: launches.adds_lift launches.adds_before [OF unlink] launches.adds_same [OF unbound_same] split: list.split)
qed

lemma adopt_keeps: "keeps_distinct ''turn.attempt'' ''attempt_id'' (adopt_orphan_attempt le unfinished local n budget)"
proof -
  have claimed: "claimed_attempts = ids_of ''turn.attempt'' ''attempt_id''" by (auto simp: fun_eq_iff claimed_attempts_def ids_of_def)
  have look: "keeps_distinct ''turn.attempt'' ''attempt_id'' (latest P)" for P
    by (intro launches.keeps_same launches.traced_same [where C = any_call] traced_rules)
  have settled: "keeps_distinct ''turn.attempt'' ''attempt_id'' (sq (case dget r ''attempt_id'' of
      PStr a \<Rightarrow> bnd (closed_intent a) (\<lambda>c. when_do (c = None) (close_snapshot (lp_env le) a)) | _ \<Rightarrow> ret ()) (sq (resolve_orphan (lp_env le) local) (ret budget)))" for r
    by (intro launches.keeps_same launches.traced_same [where C = any_call] traced_rules)
  have pending: "keeps_distinct ''turn.attempt'' ''attempt_id'' (pending_orphan_intents le)"
    by (intro launches.keeps_same launches.traced_same [where C = any_call] traced_rules)
  have "adds ''turn.attempt'' ''attempt_id'' (\<lambda>v. v \<notin> set c) (bnd (attempt_bindings le) (\<lambda>bindings. case bindings of
       None \<Rightarrow> defer_orphan le unfinished local (unclaimed c p) (n + 1) budget | Some bs \<Rightarrow> sq (bind_orphan le unfinished local p c bs) (ret budget)))" for c p
  proof -
    have b: "same_ids ''turn.attempt'' ''attempt_id'' (attempt_bindings le)"
      and defers: "same_ids ''turn.attempt'' ''attempt_id'' (defer_orphan le unfinished local (unclaimed c p) (n + 1) budget)"
      and quiet: "same_ids ''turn.attempt'' ''attempt_id'' (ret budget)"
      by (intro launches.traced_same [where C = any_call] traced_rules)+
    show ?thesis unfolding sq_def
      by (rule launches.adds_before [OF b])
        (auto split: option.split intro!: launches.adds_same [OF defers] launches.adds_after [OF bind_orphan_adds quiet])
  qed
  then have "keeps_distinct ''turn.attempt'' ''attempt_id'' (bnd (pending_orphan_intents le) (\<lambda>p. bnd (look_at (\<lambda>d. claimed_attempts (d_records d))) (\<lambda>c.
     bnd (attempt_bindings le) (\<lambda>bindings. case bindings of
       None \<Rightarrow> defer_orphan le unfinished local (unclaimed c p) (n + 1) budget | Some bs \<Rightarrow> sq (bind_orphan le unfinished local p c bs) (ret budget)))))"
    unfolding claimed by (intro launches.keeps_bnd [OF pending] launches.keeps_fresh)
  then show ?thesis unfolding adopt_orphan_attempt_def Let_def
    by (intro launches.keeps_bnd [OF look]) (auto split: option.split intro: settled)
qed

text \<open>
  No launch is adopted twice. Trying the deferred adoptions again, whatever the worker's directory
  and the attempts command show, never adds a launch that a record already claims.
\<close>

theorem launches_claimed_once:
  assumes "distinct (ids_of ''turn.attempt'' ''attempt_id'' (d_records d))"
  shows "distinct (ids_of ''turn.attempt'' ''attempt_id'' (d_records (snd (retry_deferred_orphans le d))))"
proof -
  have "keeps_distinct ''turn.attempt'' ''attempt_id'' (retry_deferrals le now ds budget)" for now ds budget
  proof (induction ds arbitrary: budget)
    case (Cons x ds)
    have n: "keeps_distinct ''turn.attempt'' ''attempt_id'' (lift v)" for v :: "exn + int"
      by (intro launches.keeps_same launches.traced_same [where C = any_call] traced_rules)
    show ?case using Cons by (cases x) (auto intro!: launches.keeps_bnd [OF n] launches.keeps_bnd [OF adopt_keeps])
  qed (simp add: launches.keeps_ret)
  then have "keeps_distinct ''turn.attempt'' ''attempt_id'' (retry_deferred_orphans le)"
    unfolding retry_deferred_orphans_def
    by (intro launches.keeps_bnd) (auto intro!: launches.keeps_same launches.traced_same [where C = any_call] traced_rules)
  with assms show ?thesis by (simp add: keeps_distinct_def)
qed


section \<open>Samples\<close>

text \<open>A dead letter that was processed, and another supervisor's leftovers.\<close>

definition smp_scan_desk :: desk where
  "smp_scan_desk = smp_desk\<lparr>d_records :=
     [numbered 1 [] (u ''task.dlq_processed'') [(u ''message_id'', PStr (u ''m1'')), (u ''outcome'', PStr (u ''stale''))],
      numbered 2 [] (u ''turn.attempt'') [(u ''attempt_id'', PStr (u ''a1''))],
      numbered 3 [] (u ''orphan.deferred'') [(u ''local_attempt'', PStr (u ''l1'')), (u ''n'', PInt 1)]]\<rparr>"

definition smp_scan_loop :: loop_env where
  "smp_scan_loop = \<lparr>lp_env = smp_desk_env, lp_bodies = (\<lambda>_. \<lparr>b_dirs_open = False, b_gid = 0, b_new_gid = 0, b_euid = 0, b_test_seam = False, b_room = 0, b_files = []\<rparr>),
     lp_worktree = (\<lambda>_. Inl OSError), lp_bindings = (\<lambda>_. (0, [])), lp_kind = (\<lambda>_. []), lp_absent = [], lp_started = []\<rparr>"

lemma smp_scan_ids:
  "ids_of ''task.dlq_processed'' ''message_id'' (d_records smp_scan_desk) = [PStr (u ''m1'')]"
  "ids_of ''turn.attempt'' ''attempt_id'' (d_records smp_scan_desk) = [PStr (u ''a1'')]"
  by code_simp+

theorem dead_letters_handled_once_witness:
  "distinct (ids_of ''task.dlq_processed'' ''message_id'' (d_records (snd (scan_task_dlq smp_desk_env smp_scan_desk)))) \<and>
   dlq_line smp_desk_env (u ''id:m1 | x'') smp_scan_desk = (Inr (), smp_scan_desk)"
proof -
  have "dlq_id (u ''id:m1 | x'') = Some (u ''m1'')" by code_simp
  with dead_letters_handled_once [of smp_scan_desk smp_desk_env] show ?thesis by (simp add: smp_scan_ids)
qed

theorem launches_claimed_once_witness:
  "distinct (ids_of ''turn.attempt'' ''attempt_id'' (d_records (snd (retry_deferred_orphans smp_scan_loop smp_scan_desk))))"
  by (rule launches_claimed_once) (simp add: smp_scan_ids)

end
