(* ===== verification/SupConfig.thy ===== *)
theory SupConfig
  imports Deployment Login SupMessages
begin

text \<open>
  How the supervisor of \<open>lib/aib_supervisor.py\<close> configures itself (\<open>configure\<close>): which registries,
  environments and deployment policies it starts under, and what it takes from them; and how it
  reads the broker's answer about leases. Reading a number of seconds from the environment is a
  parameter. Ids in the registry are taken as strings: a number does not index a list here.
\<close>

section \<open>The environment\<close>

text \<open>
  The bytes of the registry where it can be read, the variables, and the policy file as the nth
  read of it finds it.
\<close>

record config_env =
  cf_uid :: pystr
  cf_invalid :: bool
  cf_registry :: "bytes option"
  cf_seam :: bool
  cf_role_uid :: "pystr option"
  cf_role_gid :: "pystr option"
  cf_groups :: pystr
  cf_euid :: int
  cf_egid :: int
  cf_policy :: policy_env
  cf_deployment :: "nat \<Rightarrow> policy_file option"
  cf_login :: login_env
  cf_backoff :: "(exn + pyfloat) option"

record config =
  cg_project :: pystr
  cg_home :: pystr
  cg_standup :: pystr
  cg_provider :: pystr
  cg_team :: pyval
  cg_data_class :: pyval
  cg_protected :: pyval
  cg_base_branch :: pystr
  cg_role :: "int \<times> int"
  cg_groups :: "int list"
  cg_cap_timeout :: int
  cg_session_max_turns :: int
  cg_brake_burst :: int
  cg_backoff_cap :: pyfloat
  cg_deployment :: pydict

datatype refusal = Config_invalid | Unknown_agent | Not_supervised | Deployment_denied

section \<open>Values\<close>

text \<open>\<open>v[k]\<close> and \<open>k in v\<close>.\<close>

definition item_at :: "pyval \<Rightarrow> pyval \<Rightarrow> exn + pyval" where
  "item_at v k = (case v of
       PDict d \<Rightarrow> (case k of
           PStr s \<Rightarrow> (case map_of d s of Some w \<Rightarrow> Inr w | None \<Rightarrow> Inl KeyError)
         | _ \<Rightarrow> if hashable k then Inl KeyError else Inl TypeError)
     | _ \<Rightarrow> Inl TypeError)"

definition contains_key :: "pyval \<Rightarrow> string \<Rightarrow> exn + bool" where
  "contains_key v k = (case v of
       PDict d \<Rightarrow> Inr (has_key d k)
     | PList vs \<Rightarrow> Inr (list_ex (\<lambda>w. w = PStr (u k)) vs)
     | PStr s \<Rightarrow> Inr (has_text (u k) s)
     | _ \<Rightarrow> Inl TypeError)"

text \<open>\<open>v.get(k, default)\<close>.\<close>

definition get_default :: "pyval \<Rightarrow> string \<Rightarrow> pyval \<Rightarrow> exn + pyval" where
  "get_default v k def_value = (case v of PDict d \<Rightarrow> Inr (dget_or d k def_value) | _ \<Rightarrow> Inl AttributeError)"

definition value_error :: exn where
  "value_error = ValueError (u ''config'')"

definition positive_int :: "pyval \<Rightarrow> int \<Rightarrow> exn + int" where
  "positive_int v def_value = (case v of
       PNone \<Rightarrow> Inr def_value
     | PStr s \<Rightarrow> if \<not> isdigit s then Inl value_error
         else bind_res (int_of_digits s) (\<lambda>n. if n \<le> 0 then Inl value_error else Inr n)
     | _ \<Rightarrow> Inl value_error)"

text \<open>\<open>float(n)\<close> of a positive whole number; beyond the largest float it raises. The exact value is kept.\<close>

definition float_of_int :: "int \<Rightarrow> exn + pyfloat" where
  "float_of_int n = (if n < 2 ^ 53 then Inr (Finite n 0)
     else if 2 ^ 1024 - 2 ^ 970 \<le> n then Inl OverflowError else Inr (Finite n 0))"

definition not_positive :: "pyfloat \<Rightarrow> bool" where
  "not_positive f = (case f of Finite m e \<Rightarrow> m \<le> 0 | NegInf \<Rightarrow> True | _ \<Rightarrow> False)"

definition interval :: "(exn + pyfloat) option \<Rightarrow> pyfloat \<Rightarrow> exn + pyfloat" where
  "interval var def_value = (case var of
       None \<Rightarrow> Inr def_value
     | Some r \<Rightarrow> bind_res r (\<lambda>f. if not_positive f then Inl value_error else Inr f))"

section \<open>The parts of the configuration\<close>

definition role_ids :: "config_env \<Rightarrow> exn + int \<times> int" where
  "role_ids ce = (case (cf_role_uid ce, cf_role_gid ce) of
       (Some a, Some b) \<Rightarrow>
         if \<not> isdecimal a \<or> \<not> isdecimal b then Inl value_error
         else bind_res (int_of_digits a) (\<lambda>x. bind_res (int_of_digits b) (\<lambda>y. Inr (x, y)))
     | _ \<Rightarrow> if cf_seam ce then Inr (cf_euid ce, cf_egid ce) else Inl value_error)"

fun digit_parts :: "pystr list \<Rightarrow> exn + int list" where
  "digit_parts [] = Inr []"
| "digit_parts (p # ps) = bind_res (int_of_digits p) (\<lambda>n. bind_res (digit_parts ps) (\<lambda>ns. Inr (n # ns)))"

definition role_group_ids :: "pystr \<Rightarrow> exn + int list" where
  "role_group_ids raw = (if raw = [] then Inr []
     else if \<not> list_all isdecimal (splitc 44 raw) then Inl value_error else digit_parts (splitc 44 raw))"

definition provider_of :: "pydict \<Rightarrow> pyval \<Rightarrow> pyval \<Rightarrow> exn + pyval" where
  "provider_of agent team project = (if has_key agent ''provider'' then Inr (dget agent ''provider'')
     else bind_res (contains_key team ''provider'') (\<lambda>b. if b then item team ''provider'' else item project ''provider''))"

definition filled :: "pyval \<Rightarrow> exn + pystr" where
  "filled v = (case v of PStr s \<Rightarrow> if s \<noteq> [] then Inr s else Inl value_error | _ \<Rightarrow> Inl value_error)"

text \<open>\<open>Path\<close> takes only strings; its text is never empty.\<close>

definition path_value :: "pyval \<Rightarrow> exn + pystr" where
  "path_value v = (case v of PStr s \<Rightarrow> Inr (if s = [] then u ''.'' else s) | _ \<Rightarrow> Inl TypeError)"

definition branch_name :: "pyval \<Rightarrow> exn + pystr" where
  "branch_name v = bind_res (filled v) (\<lambda>s. if startswith s (u ''-'') then Inl value_error else Inr s)"

text \<open>Where the login of the account is shared, a turn must fit the token.\<close>

definition shared_login :: "pydict option \<Rightarrow> pystr \<Rightarrow> exn + bool" where
  "shared_login deployment provider = (case deployment of
       None \<Rightarrow> Inr False
     | Some d \<Rightarrow> (case dget_or d ''accounts'' (PDict []) of
         PDict as \<Rightarrow> Inr (case map_of as provider of
             Some (PDict a) \<Rightarrow> dget_or a ''credential_mode'' (PStr (u ''file'')) = PStr (u ''shared'') \<or>
               (dget_or a ''credential_mode'' (PStr (u ''file'')) = PStr (u ''fd'') \<and>
                dget_or a ''credential_source'' (PStr (u ''login'')) = PStr (u ''login''))
           | _ \<Rightarrow> False)
       | _ \<Rightarrow> Inl AttributeError))"

definition turn_cap :: "config_env \<Rightarrow> int \<Rightarrow> pydict option \<Rightarrow> pystr \<Rightarrow> exn + int" where
  "turn_cap ce cap deployment provider_uid = bind_res (shared_login deployment provider_uid) (\<lambda>shared.
     Inr (if shared then min cap (login_max_turn_seconds (cf_login ce)) else cap))"

section \<open>The configuration\<close>

definition agent_config :: "config_env \<Rightarrow> pydict \<Rightarrow> pydict \<Rightarrow> exn + config" where
  "agent_config ce registry agent =
     bind_res (role_ids ce) (\<lambda>role. bind_res (role_group_ids (cf_groups ce)) (\<lambda>groups.
     bind_res (item (PDict agent) ''project'') (\<lambda>project_uid.
     bind_res (bind_res (item (PDict registry) ''projects'') (\<lambda>v. item_at v project_uid)) (\<lambda>project.
     bind_res (item (PDict agent) ''team_uid'') (\<lambda>team_uid.
     bind_res (bind_res (item (PDict registry) ''teams'') (\<lambda>v. item_at v team_uid)) (\<lambda>team.
     bind_res (provider_of agent team project) (\<lambda>provider_uid.
     bind_res (bind_res (item (PDict registry) ''providers'') (\<lambda>v. item_at v provider_uid)) (\<lambda>provider.
     bind_res (item project ''home'') (\<lambda>home.
     bind_res (bind_res (item project ''standup_dir'') path_value) (\<lambda>standup.
     bind_res (get_default project ''data_class'' (PStr (u ''customer''))) (\<lambda>data_class.
     bind_res (get_default project ''base_branch'' (PStr (u ''main''))) (\<lambda>base.
     bind_res (filled project_uid) (\<lambda>p. bind_res (filled home) (\<lambda>h. bind_res (filled provider_uid) (\<lambda>pr.
     bind_res (branch_name base) (\<lambda>b.
     bind_res (get_default provider ''cap_timeout'' PNone) (\<lambda>cap_value. bind_res (positive_int cap_value 900) (\<lambda>own_cap.
     bind_res (load_deployment (cf_policy ce) (cf_deployment ce 0)) (\<lambda>deployment.
     bind_res (turn_cap ce own_cap deployment pr) (\<lambda>cap.
     bind_res (positive_int (dget agent ''session_max_turns'') 200) (\<lambda>turns.
     bind_res (positive_int (dget agent ''restart_burst'') 5) (\<lambda>burst.
     bind_res (positive_int (dget agent ''restart_interval_s'') 900) (\<lambda>_.
     bind_res (positive_int (dget agent ''restart_turn_backoff_cap_s'') 600) (\<lambda>backoff.
     bind_res (float_of_int backoff) (\<lambda>f. bind_res (interval (cf_backoff ce) f) (\<lambda>cap_s.
       Inr \<lparr>cg_project = p, cg_home = h, cg_standup = standup, cg_provider = pr, cg_team = team_uid, cg_data_class = data_class,
         cg_protected = dget_or agent ''protected'' (PStr []), cg_base_branch = b, cg_role = role, cg_groups = groups,
         cg_cap_timeout = cap, cg_session_max_turns = turns, cg_brake_burst = burst, cg_backoff_cap = cap_s,
         cg_deployment = (case deployment of Some d \<Rightarrow> d | None \<Rightarrow> [])\<rparr>))))))))))))))))))))))))))"

definition config_error :: "exn \<Rightarrow> bool" where
  "config_error e = (e = KeyError \<or> e = TypeError \<or> is_value_error e)"

text \<open>What the policy has to allow, with the file read anew each time.\<close>

definition allowed :: "config_env \<Rightarrow> config \<Rightarrow> exn + bool" where
  "allowed ce c =
     (let internal = (cg_data_class c = PStr (u ''internal'')); gateway = (cg_protected c = PStr (u ''gateway'')) in
      bind_res (if internal then Inr True else deployment_allows (cf_policy ce) (cf_deployment ce 1) ''customer_code'') (\<lambda>code_ok.
        if \<not> code_ok then Inr False
        else if \<not> gateway then Inr True
        else deployment_allows (cf_policy ce) (cf_deployment ce (if internal then 1 else 2)) ''comms_secrets''))"

definition configure_agent :: "config_env \<Rightarrow> pydict \<Rightarrow> pydict \<Rightarrow> exn + (refusal + config)" where
  "configure_agent ce registry agent = (let mode = dget_or agent ''mode'' (PStr (u ''oneshot'')) in
     if mode \<noteq> PStr (u ''supervised'') then
       Inr (Inl (if mode = PStr (u ''oneshot'') \<or> mode = PNone then Not_supervised else Config_invalid))
     else case agent_config ce registry agent of
         Inl e \<Rightarrow> if config_error e then Inr (Inl Config_invalid) else Inl e
       | Inr c \<Rightarrow> bind_res (allowed ce c) (\<lambda>ok. Inr (if ok then Inr c else Inl Deployment_denied)))"

text \<open>Only a registry that cannot be read or parsed is caught when it is loaded.\<close>

definition configure :: "config_env \<Rightarrow> exn + (refusal + config)" where
  "configure ce = (if cf_invalid ce then Inr (Inl Config_invalid) else case cf_registry ce of
       None \<Rightarrow> Inr (Inl Config_invalid)
     | Some b \<Rightarrow> (case bind_res (utf8_decode b) (json_loads dict_hook) of
         Inl e \<Rightarrow> if e = json_decode_error then Inr (Inl Config_invalid) else Inl e
       | Inr (PDict registry) \<Rightarrow>
           if \<not> py_eq (dget registry ''schema_version'') (PInt 5) then Inr (Inl Config_invalid)
           else (case dget registry ''agents'' of
               PDict agents \<Rightarrow> (case map_of agents (cf_uid ce) of
                   Some (PDict agent) \<Rightarrow> configure_agent ce registry agent
                 | _ \<Rightarrow> Inr (Inl Unknown_agent))
             | _ \<Rightarrow> Inr (Inl Unknown_agent))
       | Inr _ \<Rightarrow> Inl AttributeError))"

section \<open>Leases\<close>

fun lease_fields :: "pystr list \<Rightarrow> (pystr, pystr) dict \<Rightarrow> (pystr, pystr) dict option" where
  "lease_fields [] d = Some d"
| "lease_fields (l # ls) d = (case partitionc 61 l of (k, found, v) \<Rightarrow>
     if \<not> found \<or> k = [] \<or> k \<in> fst ` set d then None else lease_fields ls (dset k v d))"

definition broker_leases :: "int \<Rightarrow> pystr \<Rightarrow> int option" where
  "broker_leases rc out = (if rc \<noteq> 0 then None
     else case lease_fields (str_splitlines out) [] of
         None \<Rightarrow> None
       | Some d \<Rightarrow>
           if set (map fst d) \<noteq> {u ''supervised'', u ''other'', u ''end''} \<or> map_of d (u ''end'') \<noteq> Some (u ''ok'') then None
           else (case (map_option int_of_text (map_of d (u ''supervised'')), map_option int_of_text (map_of d (u ''other''))) of
               (Some (Inr s), Some (Inr oth)) \<Rightarrow> if s < 0 \<or> oth < 0 then None else Some s
             | _ \<Rightarrow> None))"

section \<open>What a configuration guarantees\<close>

lemma positive_int_pos: "positive_int v d = Inr n \<Longrightarrow> 0 < d \<Longrightarrow> 0 < n"
  by (auto simp: positive_int_def bind_res_Inr split: pyval.splits if_splits)

lemma branch_name_ok: "branch_name v = Inr s \<Longrightarrow> s \<noteq> [] \<and> \<not> startswith s (u ''-'')"
  by (auto simp: branch_name_def filled_def bind_res_Inr split: pyval.splits if_splits)

lemma interval_positive: "interval v f = Inr x \<Longrightarrow> \<not> not_positive f \<Longrightarrow> \<not> not_positive x"
  by (auto simp: interval_def bind_res_Inr split: option.splits if_splits)

lemma role_ids_given:
  assumes "role_ids ce = Inr r" and "\<not> cf_seam ce"
  shows "0 \<le> fst r \<and> 0 \<le> snd r \<and> cf_role_uid ce \<noteq> None \<and> cf_role_gid ce \<noteq> None"
  using assms by (auto simp: role_ids_def bind_res_Inr int_of_digits_def split: option.splits if_splits)

text \<open>The parts of an accepted configuration.\<close>

lemma agent_config_parts:
  "agent_config ce registry agent = Inr c \<Longrightarrow>
     role_ids ce = Inr (cg_role c) \<and> (\<exists>v. branch_name v = Inr (cg_base_branch c)) \<and>
     (\<exists>v own deployment. positive_int v 900 = Inr own \<and> turn_cap ce own deployment (cg_provider c) = Inr (cg_cap_timeout c) \<and>
       cg_deployment c = (case deployment of Some d \<Rightarrow> d | None \<Rightarrow> [])) \<and>
     (\<exists>v. positive_int v 200 = Inr (cg_session_max_turns c)) \<and> (\<exists>v. positive_int v 5 = Inr (cg_brake_burst c)) \<and>
     (\<exists>v n f. positive_int v 600 = Inr n \<and> float_of_int n = Inr f \<and> interval (cf_backoff ce) f = Inr (cg_backoff_cap c))"
  unfolding agent_config_def bind_res_Inr sum.inject
  apply (elim exE conjE)
  apply hypsubst
  apply (unfold config.simps)
  apply (intro conjI)
       apply assumption
      apply (rule exI, assumption)
     apply (rule exI, rule exI, rule exI, intro conjI, assumption, assumption, rule refl)
    apply (rule exI, assumption)
   apply (rule exI, assumption)
  apply (rule exI, rule exI, rule exI, intro conjI, assumption, assumption, assumption)
  done

text \<open>
  C36: A supervisor starts only within its limits. A configuration it accepts comes from a registry
  of schema 5 that has the agent in supervised mode; its turn cap, session length, failure limit and backoff are positive (a shared
  login caps the turn by what the token allows, and outside of tests never to zero), its base
  branch cannot be read as an option of git, outside of tests it runs under the role the caller
  gave, and the deployment policy admitted customer code unless the data are internal, and
  communication secrets for a gateway.
\<close>

theorem configured_within_limits:
  assumes "configure ce = Inr (Inr c)"
  shows "(\<exists>b registry agents agent. cf_registry ce = Some b \<and> bind_res (utf8_decode b) (json_loads dict_hook) = Inr (PDict registry) \<and>
       py_eq (dget registry ''schema_version'') (PInt 5) \<and> dget registry ''agents'' = PDict agents \<and>
       map_of agents (cf_uid ce) = Some (PDict agent) \<and> dget_or agent ''mode'' (PStr (u ''oneshot'')) = PStr (u ''supervised'')) \<and>
     0 \<le> cg_cap_timeout c \<and> (le_seams (cf_login ce) \<or> 0 < cg_cap_timeout c) \<and>
     0 < cg_session_max_turns c \<and> 0 < cg_brake_burst c \<and> \<not> not_positive (cg_backoff_cap c) \<and>
     cg_base_branch c \<noteq> [] \<and> \<not> startswith (cg_base_branch c) (u ''-'') \<and>
     (cf_seam ce \<or> role_ids ce = Inr (cg_role c) \<and> 0 \<le> fst (cg_role c) \<and> 0 \<le> snd (cg_role c) \<and> cf_role_uid ce \<noteq> None \<and> cf_role_gid ce \<noteq> None) \<and>
     (shared_login (Some (cg_deployment c)) (cg_provider c) = Inr True \<and> cg_deployment c \<noteq> [] \<longrightarrow> cg_cap_timeout c \<le> login_max_turn_seconds (cf_login ce)) \<and>
     (cg_data_class c = PStr (u ''internal'') \<or> (\<exists>n. deployment_allows (cf_policy ce) (cf_deployment ce n) ''customer_code'' = Inr True)) \<and>
     (cg_protected c \<noteq> PStr (u ''gateway'') \<or> (\<exists>n. deployment_allows (cf_policy ce) (cf_deployment ce n) ''comms_secrets'' = Inr True))"
proof -
  obtain b registry agents agent where named: "cf_registry ce = Some b" "bind_res (utf8_decode b) (json_loads dict_hook) = Inr (PDict registry)"
      "py_eq (dget registry ''schema_version'') (PInt 5)" "dget registry ''agents'' = PDict agents"
      "map_of agents (cf_uid ce) = Some (PDict agent)" and accepted: "configure_agent ce registry agent = Inr (Inr c)"
    using assms by (auto simp: configure_def split: if_splits option.splits sum.splits pyval.splits)
  have mode: "dget_or agent ''mode'' (PStr (u ''oneshot'')) = PStr (u ''supervised'')" and
    config: "agent_config ce registry agent = Inr c" and allow: "allowed ce c = Inr True"
    using accepted by (auto simp: configure_agent_def bind_res_Inr Let_def split: if_splits sum.splits)
  note parts = agent_config_parts [OF config]
  then obtain v own deployment where cap: "positive_int v 900 = Inr own" "turn_cap ce own deployment (cg_provider c) = Inr (cg_cap_timeout c)"
      "cg_deployment c = (case deployment of Some d \<Rightarrow> d | None \<Rightarrow> [])" by blast
  have "0 < cg_session_max_turns c" "0 < cg_brake_burst c" using parts by (auto dest: positive_int_pos)
  moreover have "\<not> not_positive (cg_backoff_cap c)"
    using parts interval_positive positive_int_pos by (fastforce simp: float_of_int_def not_positive_def split: if_splits)
  moreover have "cg_base_branch c \<noteq> [] \<and> \<not> startswith (cg_base_branch c) (u ''-'')" using parts branch_name_ok by blast
  moreover have "cf_seam ce \<or> role_ids ce = Inr (cg_role c) \<and> 0 \<le> fst (cg_role c) \<and> 0 \<le> snd (cg_role c) \<and> cf_role_uid ce \<noteq> None \<and> cf_role_gid ce \<noteq> None"
    using parts role_ids_given by blast
  moreover have "cg_data_class c = PStr (u ''internal'') \<or> (\<exists>n. deployment_allows (cf_policy ce) (cf_deployment ce n) ''customer_code'' = Inr True)"
    "cg_protected c \<noteq> PStr (u ''gateway'') \<or> (\<exists>n. deployment_allows (cf_policy ce) (cf_deployment ce n) ''comms_secrets'' = Inr True)"
    using allow by (auto simp: allowed_def Let_def bind_res_Inr split: if_splits)
  moreover have "0 \<le> cg_cap_timeout c \<and> (le_seams (cf_login ce) \<or> 0 < cg_cap_timeout c) \<and>
    (shared_login (Some (cg_deployment c)) (cg_provider c) = Inr True \<and> cg_deployment c \<noteq> [] \<longrightarrow> cg_cap_timeout c \<le> login_max_turn_seconds (cf_login ce))"
  proof -
    obtain shared where d: "shared_login deployment (cg_provider c) = Inr shared"
        "cg_cap_timeout c = (if shared then min own (login_max_turn_seconds (cf_login ce)) else own)"
      using cap by (auto simp: turn_cap_def bind_res_Inr)
    moreover have "0 \<le> login_max_turn_seconds (cf_login ce)"
      unfolding login_max_turn_seconds_def by (rule integer_nonneg) (simp add: derived_turn_def)
    moreover have "0 < own" using cap(1) by (rule positive_int_pos) simp
    ultimately show ?thesis using production_turn [of "cf_login ce"] cap(3)
      by (cases "le_seams (cf_login ce)"; cases deployment) (auto split: if_splits)
  qed
  ultimately show ?thesis using named mode by blast
qed

section \<open>A sample\<close>

definition smp_config_agent :: pydict where
  "smp_config_agent = [(u ''mode'', PStr (u ''supervised'')), (u ''project'', PStr (u ''p1'')), (u ''team_uid'', PStr (u ''t1''))]"

definition smp_config_registry :: "pyval \<Rightarrow> pydict" where
  "smp_config_registry provider = [(u ''schema_version'', PInt 5), (u ''agents'', PDict [(u ''w-1'', PDict smp_config_agent)]),
     (u ''projects'', PDict [(u ''p1'', PDict [(u ''home'', PStr (u ''/h'')), (u ''standup_dir'', PStr (u ''/s'')),
        (u ''provider'', PStr (u ''c'')), (u ''data_class'', PStr (u ''internal''))])]),
     (u ''teams'', PDict [(u ''t1'', PDict [])]), (u ''providers'', PDict [(u ''c'', provider)])]"

definition smp_config_bytes :: bytes where
  "smp_config_bytes = (case utf8_encode (json_dumps (\<lambda>_. []) False (PDict (smp_config_registry (PDict [])))) of Inr b \<Rightarrow> b | Inl _ \<Rightarrow> [])"

definition smp_config_env :: "bytes \<Rightarrow> config_env" where
  "smp_config_env b = \<lparr>cf_uid = u ''w-1'', cf_invalid = False, cf_registry = Some b, cf_seam = False, cf_role_uid = Some (u ''1001''),
     cf_role_gid = Some (u ''1002''), cf_groups = u ''7,8'', cf_euid = 0, cf_egid = 0, cf_policy = smp_policy_env, cf_deployment = (\<lambda>_. None),
     cf_login = \<lparr>le_seams = False, le_vars = (\<lambda>_. None)\<rparr>, cf_backoff = None\<rparr>"

lemma smp_config_loads:
  "bind_res (utf8_decode smp_config_bytes) (json_loads dict_hook) = Inr (PDict (smp_config_registry (PDict [])))"
proof -
  have "case utf8_encode (json_dumps (\<lambda>_. []) False (PDict (smp_config_registry (PDict [])))) of Inr _ \<Rightarrow> True | Inl _ \<Rightarrow> False" by code_simp
  then have enc: "utf8_encode (json_dumps (\<lambda>_. []) False (PDict (smp_config_registry (PDict [])))) = Inr smp_config_bytes"
    by (simp add: smp_config_bytes_def split: sum.splits)
  have plain: "json_plain (PDict (smp_config_registry (PDict [])))"
    and scalar: "list_all scalar_value (json_dumps (\<lambda>_. []) False (PDict (smp_config_registry (PDict []))))" by code_simp+
  from json_roundtrip [OF faithful_dict_hook plain] show ?thesis using utf8_roundtrip [OF scalar enc] by simp
qed

lemma smp_config_accepted:
  "case configure_agent (smp_config_env b) (smp_config_registry (PDict [])) smp_config_agent of
     Inr (Inr c) \<Rightarrow> cg_cap_timeout c = 900 \<and> cg_role c = (1001, 1002) | _ \<Rightarrow> False"
  by code_simp

theorem configured_within_limits_witness:
  "\<exists>c. configure (smp_config_env smp_config_bytes) = Inr (Inr c) \<and> cg_cap_timeout c = 900 \<and> fst (cg_role c) = 1001 \<and>
     0 < cg_session_max_turns c \<and> \<not> not_positive (cg_backoff_cap c)"
proof -
  obtain c where c: "configure_agent (smp_config_env smp_config_bytes) (smp_config_registry (PDict [])) smp_config_agent = Inr (Inr c)"
      "cg_cap_timeout c = 900" "cg_role c = (1001, 1002)"
    using smp_config_accepted [of smp_config_bytes] by (auto split: sum.splits)
  have "py_eq (dget (smp_config_registry (PDict [])) ''schema_version'') (PInt 5)"
    "dget (smp_config_registry (PDict [])) ''agents'' = PDict [(u ''w-1'', PDict smp_config_agent)]" by code_simp+
  then have "configure (smp_config_env smp_config_bytes) = Inr (Inr c)"
    using c(1) by (simp add: configure_def smp_config_env_def smp_config_loads)
  from configured_within_limits [OF this] this show ?thesis using c(2,3) by auto
qed

text \<open>
  Two registries end the supervisor with a traceback where it means to refuse: a provider that is no
  object, and bytes that are no UTF-8.
\<close>

lemma provider_text_escapes: "configure_agent (smp_config_env []) (smp_config_registry (PStr (u ''c''))) smp_config_agent = Inl AttributeError"
  by code_simp

lemma registry_bytes_escape: "configure (smp_config_env [255]) = Inl UnicodeError"
  by code_simp

end
