(* ===== verification/SupGit.thy ===== *)
theory SupGit
  imports SupConfig
begin

text \<open>
  The worktree of a task (\<open>lib/aib_supervisor.py\<close>, \<open>activate_task_worktree\<close> and what it runs): every
  command line the supervisor gives to git and the sandbox it runs it in. What the commands
  answer, the directories, resolving links and the clock are replies; writing git's configuration
  is one effect with its content. \<open>TimeoutError\<close> stands for \<open>subprocess.TimeoutExpired\<close>; how a
  command is waited for and killed is not modelled.
\<close>

section \<open>Paths\<close>

text \<open>A path as \<open>pathlib\<close> has it: the leading slashes (none, one or two) and the parts.\<close>

type_synonym purepath = "nat \<times> pystr list"

definition leading_slashes :: "pystr \<Rightarrow> nat" where
  "leading_slashes s = (if \<not> startswith s [47] then 0 else if startswith s [47, 47] \<and> \<not> startswith s [47, 47, 47] then 2 else 1)"

definition pure_path :: "pystr \<Rightarrow> purepath" where
  "pure_path s = (leading_slashes s, filter (\<lambda>p. p \<notin> {[], u ''.''}) (splitc 47 s))"

definition path_text :: "purepath \<Rightarrow> pystr" where
  "path_text p = (case p of (n, ps) \<Rightarrow> if n = 0 \<and> ps = [] then u ''.'' else replicate n 47 @ join_with [47] ps)"

text \<open>\<open>p / s\<close>.\<close>

definition child :: "purepath \<Rightarrow> pystr \<Rightarrow> purepath" where
  "child p s = (if startswith s [47] then pure_path s else (fst p, snd p @ snd (pure_path s)))"

definition below :: "purepath \<Rightarrow> purepath \<Rightarrow> bool" where
  "below p r = (fst p = fst r \<and> startswith (snd p) (snd r))"

text \<open>\<open>os.path.normpath\<close>.\<close>

fun norm_parts :: "bool \<Rightarrow> pystr list \<Rightarrow> pystr list \<Rightarrow> pystr list" where
  "norm_parts rooted kept [] = rev kept"
| "norm_parts rooted kept (p # ps) =
     (if p = [] \<or> p = u ''.'' then norm_parts rooted kept ps
      else if p \<noteq> u ''..'' \<or> (\<not> rooted \<and> kept = []) \<or> (kept \<noteq> [] \<and> hd kept = u ''..'') then norm_parts rooted (p # kept) ps
      else norm_parts rooted (tl kept) ps)"

definition normpath :: "pystr \<Rightarrow> pystr" where
  "normpath s = (let n = leading_slashes s; t = replicate n 47 @ join_with [47] (norm_parts (n \<noteq> 0) [] (splitc 47 s)) in
     if t = [] then u ''.'' else t)"

section \<open>The environment\<close>

text \<open>
  The desk, the variables and settings, and the replies: the chain of directories down to the project
  (or why it does not open), writing git's configuration, a command, the clock, a resolved path.
\<close>

record git_env =
  ge_env :: env
  ge_seam :: bool
  ge_confine :: pystr
  ge_confine_exists :: bool
  ge_home :: pystr
  ge_state :: pystr
  ge_role :: "int \<times> int"
  ge_groups :: "int list"
  ge_deployment :: pydict
  ge_agent :: pydict
  ge_git_timeout :: rat
  ge_activation_timeout :: rat
  ge_activation_text :: pystr
  ge_chain :: "call list \<Rightarrow> pystr + (int \<times> nat \<times> int)"
  ge_config :: "call list \<Rightarrow> exn + unit"
  ge_parent :: "call list \<Rightarrow> exn + unit"
  ge_run :: "call list \<Rightarrow> exn + (int \<times> pystr)"
  ge_mono :: "call list \<Rightarrow> rat"
  ge_resolve :: "call list \<Rightarrow> exn + purepath"

definition repo :: "git_env \<Rightarrow> purepath" where
  "repo ge = pure_path (ge_home ge)"

definition worktree_path :: "git_env \<Rightarrow> purepath" where
  "worktree_path ge = child (child (child (repo ge) (u ''.aib'')) (u ''wt'')) (e_uid (ge_env ge))"

text \<open>The group of the project directory; the mode \<open>0o2770\<close> is 1528.\<close>

definition open_project_home :: "git_env \<Rightarrow> int act" where
  "open_project_home ge =
     (let unsafe = (\<lambda>why. sq (jot (ge_env ge) ''fs.unsafe'' [(u ''path'', PStr (u ''project_home'')), (u ''reason'', PStr why)]) (lift (Inl OSError))) in
      if fst (repo ge) = 0 \<or> list_ex (\<lambda>p. p \<in> {[], u ''.'', u ''..''}) (snd (repo ge)) then lift (Inl OSError)
      else bnd (ask (ge_chain ge) (Look (path_text (repo ge)))) (\<lambda>r. case r of
          Inl why \<Rightarrow> unsafe why
        | Inr (uid, mode, gid) \<Rightarrow>
            if \<not> ge_seam ge \<and> (uid \<noteq> 0 \<or> mode \<noteq> 1528) then unsafe (u ''unsafe project home ownership or mode'') else ret gid))"

section \<open>Running a command as the role\<close>

definition config_root :: "git_env \<Rightarrow> purepath" where
  "config_root ge = (if ge_seam ge then child (pure_path (ge_state ge)) (u ''.git-config'') else pure_path (u ''/run/aib/git''))"

definition config_name :: "git_env \<Rightarrow> pystr" where
  "config_name ge = e_uid (ge_env ge) @ u ''.gitconfig''"

definition write_git_config :: "git_env \<Rightarrow> pystr act" where
  "write_git_config ge =
     bnd (lift (utf8_encode (concat (map (\<lambda>p. u ''[safe]'' @ [10, 9] @ u ''directory = '' @ path_text p @ [10]) [repo ge, worktree_path ge])))) (\<lambda>b.
     bnd (ask (ge_config ge) (Store (config_name ge) b)) (\<lambda>r. bnd (lift r) (\<lambda>_.
       ret (path_text (child (config_root ge) (config_name ge))))))"

text \<open>The variables of the command; a commit also gets name and email.\<close>

definition inner_env :: "pystr \<Rightarrow> (pystr \<times> pystr) option \<Rightarrow> pystr list" where
  "inner_env config identity =
     map u [''PATH=/usr/bin:/bin'', ''HOME=/nonexistent'', ''LANG=C'', ''GIT_CONFIG_NOSYSTEM=1'', ''GIT_ATTR_NOSYSTEM=1'', ''GIT_TERMINAL_PROMPT=0''] @
     [u ''GIT_CONFIG_GLOBAL='' @ config] @
     (case identity of None \<Rightarrow> []
      | Some (name, email) \<Rightarrow> [u ''GIT_AUTHOR_NAME='' @ name, u ''GIT_COMMITTER_NAME='' @ name,
          u ''GIT_AUTHOR_EMAIL='' @ email, u ''GIT_COMMITTER_EMAIL='' @ email])"

definition shell_prefix :: "pystr list" where
  "shell_prefix = [u ''/bin/sh'', u ''-c'', u ''umask 002; exec '' @ [34] @ u ''$@'' @ [34], u ''sh'']"

definition role_command ::
  "git_env \<Rightarrow> int \<Rightarrow> pystr list \<Rightarrow> (pystr \<times> pystr) option \<Rightarrow> pystr \<Rightarrow> exn + pystr list \<times> pystr list option" where
  "role_command ge gid argv identity config =
     (let tail = [u ''/usr/bin/env'', u ''-i''] @ inner_env config identity @ shell_prefix @ argv in
      if ge_seam ge \<and> ge_confine ge = [] then Inr (tail, None)
      else if ge_confine ge = [] \<or> \<not> ge_confine_exists ge then Inl OSError
      else if gid \<notin> set (ge_groups ge) then Inl OSError
      else Inr ([ge_confine ge, u ''--uid'', str_of_int (fst (ge_role ge)), u ''--gid'', str_of_int (snd (ge_role ge)),
           u ''--groups'', str_of_int gid] @ tail,
         Some [u ''PATH=/usr/bin:/bin'', u ''LL_RO=/'', u ''LL_RW=/tmp:/var/tmp:/dev:'' @ path_text (repo ge),
           u ''AIB_ROLE_UIDS='' @ str_of_int (fst (ge_role ge)), u ''AIB_ROLE_GROUPS='' @ str_of_int gid]))"

definition run_as_role :: "git_env \<Rightarrow> int \<Rightarrow> pystr list \<Rightarrow> bool \<Rightarrow> (pystr \<times> pystr) option \<Rightarrow> (int \<times> pystr) act" where
  "run_as_role ge gid argv check identity =
     bnd (write_git_config ge) (\<lambda>config.
     bnd (lift (role_command ge gid argv identity config)) (\<lambda>(command, variables).
     bnd (ask (ge_run ge) (Run command variables)) (\<lambda>r. bnd (lift r) (\<lambda>(rc, out).
       if check \<and> rc \<noteq> 0 then lift (Inl OSError) else ret (rc, out)))))"

definition hardening :: "pystr list" where
  "hardening = map u [''-c'', ''core.hooksPath=/dev/null'', ''-c'', ''core.fsmonitor=false'', ''-c'', ''core.untrackedCache=false'',
     ''-c'', ''core.pager=cat'', ''-c'', ''commit.gpgSign=false'', ''-c'', ''credential.helper='', ''-c'', ''protocol.allow=never'',
     ''-c'', ''gc.auto=0'', ''-c'', ''maintenance.auto=false'', ''--no-replace-objects'']"

definition lexical :: "purepath \<Rightarrow> purepath" where
  "lexical p = pure_path (normpath (path_text p))"

definition git_argv :: "purepath \<Rightarrow> pystr list \<Rightarrow> pystr list" where
  "git_argv cwd args = u ''git'' # hardening @ [u ''-C'', path_text (lexical cwd)] @ args"

text \<open>With a deadline, time must be left.\<close>

definition in_time :: "git_env \<Rightarrow> rat option \<Rightarrow> unit act" where
  "in_time ge deadline = (case deadline of None \<Rightarrow> ret ()
     | Some t \<Rightarrow> bnd (ask (ge_mono ge) Clock) (\<lambda>now. if min (ge_git_timeout ge) (t - now) \<le> 0 then lift (Inl OSError) else ret ()))"

definition no_timeout :: "'a act \<Rightarrow> 'a act" where
  "no_timeout m = catch m (\<lambda>e. lift (Inl (if e = TimeoutError then OSError else e)))"

definition git_as_role ::
  "git_env \<Rightarrow> rat option \<Rightarrow> purepath \<Rightarrow> pystr list \<Rightarrow> bool \<Rightarrow> (pystr \<times> pystr) option \<Rightarrow> (int \<times> pystr) act" where
  "git_as_role ge deadline cwd args check identity =
     bnd (open_project_home ge) (\<lambda>gid.
       if \<not> below (lexical cwd) (repo ge) then lift (Inl OSError)
       else sq (in_time ge deadline) (no_timeout (run_as_role ge gid (git_argv cwd args) check identity)))"

text \<open>Without and with the demand that git succeeds.\<close>

definition git_asks :: "git_env \<Rightarrow> rat option \<Rightarrow> purepath \<Rightarrow> pystr list \<Rightarrow> (int \<times> pystr) act" where
  "git_asks ge deadline cwd args = git_as_role ge deadline cwd args False None"

definition git_does :: "git_env \<Rightarrow> rat option \<Rightarrow> purepath \<Rightarrow> pystr list \<Rightarrow> pystr act" where
  "git_does ge deadline cwd args = bnd (git_as_role ge deadline cwd args True None) (\<lambda>(rc, out). ret out)"

section \<open>The helper programs\<close>

definition RESULT_FILE_CHECK :: pystr where
  \<open>RESULT_FILE_CHECK = concat (map (\<lambda>l. u l @ [10]) [''import os'', ''import stat'', ''import sys'', '''',
     ''flags = os.O_RDONLY | os.O_DIRECTORY | os.O_NOFOLLOW | os.O_CLOEXEC'', ''fd = os.open(sys.argv[1], flags)'',
     ''parts = sys.argv[2].split("/")'', ''for component in parts[:-1]:'', ''    child = os.open(component, flags, dir_fd=fd)'',
     ''    os.close(fd)'', ''    fd = child'', ''info = os.stat(parts[-1], dir_fd=fd, follow_symlinks=False)'',
     ''raise SystemExit(0 if stat.S_ISREG(info.st_mode) and info.st_size <= 1024 * 1024 else 1)''])\<close>

definition STALE_LOCK_CLEANUP :: pystr where
  \<open>STALE_LOCK_CLEANUP = concat (map (\<lambda>l. u l @ [10]) [''import os'', ''import stat'', ''import sys'', ''import time'', '''',
     ''path, minimum_age = sys.argv[1], float(sys.argv[2])'', ''try:'', ''    info = os.lstat(path)'', ''except FileNotFoundError:'',
     ''    raise SystemExit(0)'', ''if not stat.S_ISREG(info.st_mode) or info.st_nlink != 1:'', ''    raise SystemExit(1)'',
     ''if time.time() - info.st_mtime <= minimum_age:'', ''    raise SystemExit(0)'', ''os.unlink(path)''])\<close>

definition python_argv :: "pystr \<Rightarrow> pystr list \<Rightarrow> pystr list" where
  "python_argv program args = [u ''/usr/bin/python3'', u ''-I'', u ''-c'', program] @ args"

definition validate_file_ref_as_role :: "git_env \<Rightarrow> purepath \<Rightarrow> pystr \<Rightarrow> bool act" where
  "validate_file_ref_as_role ge worktree relative =
     bnd (open_project_home ge) (\<lambda>gid.
       if lexical worktree \<noteq> worktree_path ge then ret False
       else bnd (run_as_role ge gid (python_argv RESULT_FILE_CHECK [path_text worktree, relative]) False None) (\<lambda>(rc, out). ret (rc = 0)))"

section \<open>A stale lock\<close>

definition resolve_path :: "git_env \<Rightarrow> purepath \<Rightarrow> (exn + purepath) act" where
  "resolve_path ge p = ask (ge_resolve ge) (Look (path_text p))"

text \<open>Where git says the lock of the index is, made absolute.\<close>

definition made_absolute :: "purepath \<Rightarrow> pystr \<Rightarrow> purepath" where
  "made_absolute cwd s = (if fst (pure_path s) \<noteq> 0 then pure_path s else lexical (child cwd s))"

text \<open>The lock is removed only where it is the lock of a worktree of this repository.\<close>

definition remove_lock_at :: "git_env \<Rightarrow> rat option \<Rightarrow> int \<Rightarrow> purepath \<Rightarrow> purepath \<Rightarrow> purepath \<Rightarrow> unit act" where
  "remove_lock_at ge deadline gid lock git_dir common =
     bnd (resolve_path ge lock) (\<lambda>r1. bnd (resolve_path ge git_dir) (\<lambda>r2. bnd (resolve_path ge common) (\<lambda>r3.
       case bind_res r1 (\<lambda>a. bind_res r2 (\<lambda>b. bind_res r3 (\<lambda>c. Inr (a, b, c)))) of
         Inl e \<Rightarrow> if e = OSError \<or> is_value_error e then ret () else lift (Inl e)
       | Inr (a, b, c) \<Rightarrow>
           if \<not> below b (child c (u ''worktrees'')) \<or> a \<noteq> child b (u ''index.lock'') then ret ()
           else sq (if deadline = None \<and> ge_git_timeout ge \<le> 0 then lift (Inl OSError) else in_time ge deadline)
             (bnd (no_timeout (run_as_role ge gid (python_argv STALE_LOCK_CLEANUP [path_text a, ge_activation_text ge]) False None)) (\<lambda>_. ret ())))))"

definition remove_stale_index_lock :: "git_env \<Rightarrow> rat option \<Rightarrow> purepath \<Rightarrow> unit act" where
  "remove_stale_index_lock ge deadline cwd =
     bnd (open_project_home ge) (\<lambda>gid.
     bnd (resolve_path ge cwd) (\<lambda>r1. bnd (resolve_path ge (worktree_path ge)) (\<lambda>r2. case (r1, r2) of
         (Inl e, _) \<Rightarrow> if e = OSError then ret () else lift (Inl e)
       | (_, Inl e) \<Rightarrow> if e = OSError then ret () else lift (Inl e)
       | (Inr a, Inr b) \<Rightarrow>
           if a \<noteq> b then ret ()
           else bnd (git_asks ge deadline cwd (map u [''rev-parse'', ''--git-path'', ''index.lock''])) (\<lambda>(rc, out).
             if rc \<noteq> 0 \<or> str_strip out = [] then ret ()
             else bnd (git_asks ge deadline cwd (map u [''rev-parse'', ''--absolute-git-dir''])) (\<lambda>(rc1, out1).
               bnd (git_asks ge deadline (repo ge) (map u [''rev-parse'', ''--git-common-dir''])) (\<lambda>(rc2, out2).
                 if rc1 \<noteq> 0 \<or> rc2 \<noteq> 0 then ret ()
                 else remove_lock_at ge deadline gid (made_absolute cwd (str_strip out)) (pure_path (str_strip out1))
                   (if fst (pure_path (str_strip out2)) \<noteq> 0 then pure_path (str_strip out2) else child (repo ge) (str_strip out2))))))))"

section \<open>The identity of a commit\<close>

text \<open>
  \<open>template.format(...)\<close> for the templates the policy admits: plain fields and doubled braces. For any
  other template, which no validated policy holds, the model raises.
\<close>

function format_text :: "(pystr \<Rightarrow> pystr option) \<Rightarrow> pystr \<Rightarrow> exn + pystr" where
  "format_text f [] = Inr []"
| "format_text f (c # s) =
     (if c = LBRACE then
        (case s of
            [] \<Rightarrow> Inl (ValueError (u ''format''))
          | d # r \<Rightarrow> if d = LBRACE then bind_res (format_text f r) (\<lambda>t. Inr (LBRACE # t))
              else (case parse_field s of
                  Some (Some (n, [], None), r') \<Rightarrow> (case f n of
                      Some v \<Rightarrow> bind_res (format_text f r') (\<lambda>t. Inr (v @ t)) | None \<Rightarrow> Inl KeyError)
                | _ \<Rightarrow> Inl (ValueError (u ''format''))))
      else if c = RBRACE then
        (case s of d # r \<Rightarrow> if d = RBRACE then bind_res (format_text f r) (\<lambda>t. Inr (RBRACE # t)) else Inl (ValueError (u ''format''))
         | [] \<Rightarrow> Inl (ValueError (u ''format'')))
      else bind_res (format_text f s) (\<lambda>t. Inr (c # t)))"
  by pat_completeness auto
termination by (relation "measure (\<lambda>(f, s). length s)") (auto dest: parse_field_length)

definition commit_identity :: "git_env \<Rightarrow> exn + pystr \<times> pystr" where
  "commit_identity ge =
     (let env = ge_env ge; configured = (case dget_or (ge_deployment ge) ''commit_identity'' (PDict []) of PDict d \<Rightarrow> d | _ \<Rightarrow> []);
          display = py_str (e_str env) (dget_or (ge_agent ge) ''display_name'' (PStr (e_uid env))) in
      case dget_or configured ''name_template'' (PStr (u ''{display_name} ({team})'')) of
        PStr t \<Rightarrow> bind_res (format_text (\<lambda>n. if n = u ''display_name'' then Some display else if n = u ''team'' then Some (e_team env) else None) t) (\<lambda>name.
          Inr (name, py_str (e_str env) (dget_or configured ''email'' (PStr (u ''agents@example.invalid'')))))
      | _ \<Rightarrow> Inl AttributeError)"

section \<open>The worktree of a task\<close>

definition task_branch :: "git_env \<Rightarrow> pystr \<Rightarrow> pystr" where
  "task_branch ge tid = u ''aib/'' @ e_team (ge_env ge) @ u ''/'' @ tid"

text \<open>What the worker left is committed on the branch it is on, before the switch.\<close>

definition save_work :: "git_env \<Rightarrow> rat option \<Rightarrow> pystr \<Rightarrow> unit act" where
  "save_work ge deadline tid =
     bnd (git_does ge deadline (worktree_path ge) (map u [''status'', ''--porcelain''])) (\<lambda>out.
       if out = [] then ret ()
       else sq (bnd (git_does ge deadline (worktree_path ge) (map u [''add'', ''-A'', ''--'', ''.'', '':(exclude).aib''])) (\<lambda>_. ret ()))
         (bnd (lift (commit_identity ge)) (\<lambda>who.
           bnd (git_as_role ge deadline (worktree_path ge)
             (map u [''commit'', ''--no-verify'', ''--no-gpg-sign'', ''-m''] @ [u ''WIP before '' @ tid]) True (Some who)) (\<lambda>_. ret ()))))"

definition switch_branch :: "git_env \<Rightarrow> rat option \<Rightarrow> pystr \<Rightarrow> unit act" where
  "switch_branch ge deadline tid =
     bnd (git_asks ge deadline (repo ge) [u ''show-ref'', u ''--verify'', u ''refs/heads/'' @ task_branch ge tid]) (\<lambda>(rc, out).
     bnd (git_does ge deadline (worktree_path ge) (if rc = 0 then [u ''switch'', task_branch ge tid]
       else [u ''switch'', u ''-c'', task_branch ge tid, e_base_branch (ge_env ge)])) (\<lambda>_. ret ()))"

definition registered_worktrees :: "pystr \<Rightarrow> pystr list" where
  "registered_worktrees out = map (\<lambda>l. normpath (removeprefix l (u ''worktree ''))) (filter (\<lambda>l. startswith l (u ''worktree '')) (str_splitlines out))"

definition check_repository :: "git_env \<Rightarrow> rat option \<Rightarrow> unit act" where
  "check_repository ge deadline =
     bnd (git_does ge deadline (repo ge) (map u [''rev-parse'', ''--is-inside-work-tree''])) (\<lambda>inside.
       if str_strip inside \<noteq> u ''true'' then lift (Inl OSError)
       else bnd (git_asks ge deadline (repo ge) [u ''check-ref-format'', u ''--branch'', e_base_branch (ge_env ge)]) (\<lambda>(rc, out).
         if rc \<noteq> 0 then lift (Inl value_error)
         else bnd (git_asks ge deadline (repo ge) (map u [''config'', ''--get'', ''core.sharedRepository''])) (\<lambda>(rc1, out1).
           when_do (rc1 \<noteq> 0 \<or> str_strip out1 \<noteq> u ''group'')
             (jot (ge_env ge) ''attention'' [(u ''reason'', PStr (u ''shared_repository_unprovisioned''))]))))"

definition prepare_worktree :: "git_env \<Rightarrow> rat option \<Rightarrow> pystr \<Rightarrow> purepath act" where
  "prepare_worktree ge deadline tid =
     (let wt = worktree_path ge in
      sq (bnd (open_project_home ge) (\<lambda>_. ret ()))
      (sq (check_repository ge deadline)
      (sq (if ge_seam ge then bnd (ask (ge_parent ge) (Worktree (path_text (child (child (repo ge) (u ''.aib'')) (u ''wt''))))) lift else ret ())
      (bnd (git_does ge deadline (repo ge) (map u [''worktree'', ''list'', ''--porcelain''])) (\<lambda>out.
      sq (if normpath (path_text wt) \<in> set (registered_worktrees out) then ret ()
          else bnd (git_does ge deadline (repo ge) [u ''worktree'', u ''add'', u ''--detach'', path_text wt, e_base_branch (ge_env ge)]) (\<lambda>_. ret ()))
      (sq (remove_stale_index_lock ge deadline wt)
      (bnd (git_does ge deadline wt (map u [''branch'', ''--show-current''])) (\<lambda>current.
      sq (if str_strip current = task_branch ge tid then ret () else sq (save_work ge deadline tid) (switch_branch ge deadline tid))
        (ret wt)))))))))"

definition activate_task_worktree :: "git_env \<Rightarrow> pydict \<Rightarrow> purepath act" where
  "activate_task_worktree ge task = bnd (ask (ge_mono ge) Clock) (\<lambda>now. case dget task ''task_id'' of
       PStr tid \<Rightarrow>
         if \<not> fullmatch TASK_RE tid \<or> dget task ''team_uid'' \<noteq> PStr (e_team (ge_env ge)) then lift (Inl value_error)
         else prepare_worktree ge (Some (now + ge_activation_timeout ge)) tid
     | _ \<Rightarrow> lift (Inl value_error))"

end
