(* ===== verification/SupGitProps.thy ===== *)
theory SupGitProps
  imports SupGit SupConfine SupMessageProps
begin

text \<open>
  Preparing a worktree runs nothing but the listed git commands, below the project, with hooks and
  transports switched off, and in the sandbox of the role.
\<close>

section \<open>What may run\<close>

text \<open>
  The git commands for one task; the only branch that is made or switched to is the task's. Beside
  them runs the script that removes a stale lock, on the index of a linked worktree.
\<close>

definition git_commands :: "git_env \<Rightarrow> pystr \<Rightarrow> pystr list list" where
  "git_commands ge tid = (let base = e_base_branch (ge_env ge) in
     map (map u) [[''rev-parse'', ''--is-inside-work-tree''], [''config'', ''--get'', ''core.sharedRepository''],
       [''worktree'', ''list'', ''--porcelain''], [''rev-parse'', ''--git-path'', ''index.lock''], [''rev-parse'', ''--absolute-git-dir''],
       [''rev-parse'', ''--git-common-dir''], [''branch'', ''--show-current''], [''status'', ''--porcelain''],
       [''add'', ''-A'', ''--'', ''.'', '':(exclude).aib'']] @
     [[u ''check-ref-format'', u ''--branch'', base],
      [u ''worktree'', u ''add'', u ''--detach'', path_text (worktree_path ge), base],
      map u [''commit'', ''--no-verify'', ''--no-gpg-sign'', ''-m''] @ [u ''WIP before '' @ tid],
      [u ''show-ref'', u ''--verify'', u ''refs/heads/'' @ task_branch ge tid],
      [u ''switch'', task_branch ge tid],
      [u ''switch'', u ''-c'', task_branch ge tid, base]])"

definition program_allowed :: "git_env \<Rightarrow> pystr \<Rightarrow> pystr list \<Rightarrow> bool" where
  "program_allowed ge tid argv = ((\<exists>dir common. below dir (child common (u ''worktrees'')) \<and>
        argv = python_argv STALE_LOCK_CLEANUP [path_text (child dir (u ''index.lock'')), ge_activation_text ge]) \<or>
     (\<exists>cwd args. argv = git_argv cwd args \<and> below (lexical cwd) (repo ge) \<and> args \<in> set (git_commands ge tid)))"

text \<open>
  Run by the confining program as the role, with the project's group, which the role has, an emptied
  environment, and write access to the project and temporary files only.
\<close>

definition sandboxed :: "git_env \<Rightarrow> pystr list \<Rightarrow> pystr list \<Rightarrow> pystr list option \<Rightarrow> bool" where
  "sandboxed ge argv command variables = (\<exists>gid inner. gid \<in> set (ge_groups ge) \<and>
     command = [ge_confine ge, u ''--uid'', str_of_int (fst (ge_role ge)), u ''--gid'', str_of_int (snd (ge_role ge)), u ''--groups'', str_of_int gid,
       u ''/usr/bin/env'', u ''-i''] @ inner @ shell_prefix @ argv \<and>
     variables = Some [u ''PATH=/usr/bin:/bin'', u ''LL_RO=/'', u ''LL_RW=/tmp:/var/tmp:/dev:'' @ path_text (repo ge),
       u ''AIB_ROLE_UIDS='' @ str_of_int (fst (ge_role ge)), u ''AIB_ROLE_GROUPS='' @ str_of_int gid])"

definition git_call :: "git_env \<Rightarrow> pystr \<Rightarrow> call \<Rightarrow> bool" where
  "git_call ge tid c = (case c of
       Run command variables \<Rightarrow> \<exists>argv. program_allowed ge tid argv \<and> (ge_seam ge \<and> ge_confine ge = [] \<or> sandboxed ge argv command variables)
     | Look _ \<Rightarrow> True
     | Clock \<Rightarrow> True
     | Store name _ \<Rightarrow> name = config_name ge
     | Worktree path \<Rightarrow> ge_seam ge \<and> path = path_text (child (child (repo ge) (u ''.aib'')) (u ''wt''))
     | _ \<Rightarrow> False)"

lemma role_command_sandboxed:
  "role_command ge gid argv identity config = Inr (command, variables) \<Longrightarrow>
     ge_seam ge \<and> ge_confine ge = [] \<or> sandboxed ge argv command variables"
  by (auto simp: role_command_def sandboxed_def Let_def split: if_splits)

section \<open>The operations\<close>

definition git_record :: "string \<Rightarrow> pydict \<Rightarrow> bool" where
  "git_record ev fs = (ev = ''fs.unsafe'' \<or> ev = ''attention'')"

lemma git_permits [traced_rules]:
  "permits (git_call ge tid) (Look n)" "permits (git_call ge tid) Clock" "permits (git_call ge tid) (Store (config_name ge) b)"
  by (simp_all add: permits_def git_call_def)

lemma git_journals [traced_rules]: "journals git_record ''fs.unsafe'' fs" "journals git_record ''attention'' fs"
  by (simp_all add: journals_def git_record_def)

declare local_journals [traced_rules del]

lemma traced_git_home [traced_rules]: "traced B (git_call ge tid) git_record (open_project_home ge)"
  unfolding open_project_home_def Let_def by (intro traced_rules)

lemma traced_git_config [traced_rules]: "traced B (git_call ge tid) git_record (write_git_config ge)"
  unfolding write_git_config_def by (intro traced_rules)

lemma traced_run:
  assumes "program_allowed ge tid argv"
  shows "traced B (git_call ge tid) git_record (run_as_role ge gid argv check identity)"
proof -
  have run: "traced B (git_call ge tid) git_record (bnd (ask (ge_run ge) (Run command variables)) k)"
    if "role_command ge gid argv identity config = Inr (command, variables)" "\<And>r. traced B (git_call ge tid) git_record (k r)"
    for config command variables and k :: "exn + int \<times> pystr \<Rightarrow> (int \<times> pystr) act"
    using assms role_command_sandboxed [OF that(1)]
    by (intro traced_bnd traced_ask that) (auto simp: permits_def git_call_def)
  have lifted: "traced B (git_call ge tid) git_record (bnd (lift r) k)"
    if "\<And>x. r = Inr x \<Longrightarrow> traced B (git_call ge tid) git_record (k x)" for r :: "exn + 'x" and k :: "'x \<Rightarrow> 'y act"
    using that by (intro traced_bnd_result [OF traced_lift]) (auto simp: lift_def)
  have rest: "traced B (git_call ge tid) git_record (case x of (command, variables) \<Rightarrow> bnd (ask (ge_run ge) (Run command variables)) k)"
    if "role_command ge gid argv identity config = Inr x" "\<And>r. traced B (git_call ge tid) git_record (k r)"
    for config x and k :: "exn + int \<times> pystr \<Rightarrow> (int \<times> pystr) act"
    using that by (cases x) (simp add: run)
  show ?thesis unfolding run_as_role_def
    by (rule traced_bnd [OF traced_git_config], rule lifted, erule rest) (intro traced_rules)
qed

lemma traced_no_timeout [traced_rules]: "traced B C E m \<Longrightarrow> traced B C E (no_timeout m)"
  unfolding no_timeout_def by (intro traced_rules)

lemma traced_in_time [traced_rules]: "traced B (git_call ge tid) git_record (in_time ge deadline)"
  unfolding in_time_def by (intro traced_rules)

lemma traced_git:
  assumes "args \<in> set (git_commands ge tid)"
  shows "traced B (git_call ge tid) git_record (git_as_role ge deadline cwd args check identity)"
proof -
  have "program_allowed ge tid (git_argv cwd args)" if "below (lexical cwd) (repo ge)"
    using assms that unfolding program_allowed_def by blast
  then show ?thesis unfolding git_as_role_def by (intro traced_rules traced_run) simp_all
qed

lemma traced_asks: "args \<in> set (git_commands ge tid) \<Longrightarrow> traced B (git_call ge tid) git_record (git_asks ge deadline cwd args)"
  unfolding git_asks_def by (rule traced_git)

lemma traced_does: "args \<in> set (git_commands ge tid) \<Longrightarrow> traced B (git_call ge tid) git_record (git_does ge deadline cwd args)"
  unfolding git_does_def by (intro traced_rules traced_git)

lemmas git_rules = traced_asks traced_does traced_rules

lemma cleanup_allowed:
  "below dir (child common (u ''worktrees'')) \<Longrightarrow> lock = child dir (u ''index.lock'') \<Longrightarrow>
     program_allowed ge tid (python_argv STALE_LOCK_CLEANUP [path_text lock, ge_activation_text ge])"
  unfolding program_allowed_def by blast

lemma traced_lock [traced_rules]: "traced B (git_call ge tid) git_record (remove_stale_index_lock ge deadline cwd)"
  unfolding remove_stale_index_lock_def remove_lock_at_def resolve_path_def
  by (intro git_rules traced_run) (auto simp: git_commands_def Let_def intro: cleanup_allowed)

lemma traced_repository [traced_rules]: "traced B (git_call ge tid) git_record (check_repository ge deadline)"
  unfolding check_repository_def by (intro git_rules) (simp_all add: git_commands_def Let_def)

lemma traced_save [traced_rules]: "traced B (git_call ge tid) git_record (save_work ge deadline tid)"
  unfolding save_work_def by (intro git_rules traced_git) (simp_all add: git_commands_def Let_def)

lemma traced_switch [traced_rules]: "traced B (git_call ge tid) git_record (switch_branch ge deadline tid)"
  unfolding switch_branch_def by (intro git_rules) (simp_all add: git_commands_def Let_def)

lemma traced_prepare: "traced B (git_call ge tid) git_record (prepare_worktree ge deadline tid)"
  unfolding prepare_worktree_def Let_def
  by (intro git_rules traced_lock traced_repository traced_save traced_switch)
    (simp_all add: git_commands_def Let_def permits_def git_call_def)

text \<open>
  C37: Git runs confined. Whatever the repository, the worker and the commands answer, preparing the
  worktree of a task issues only the listed git commands, hardened and below the project, and the
  clean-up of a stale lock, each in the sandbox of the role outside of tests; it runs any of them
  only for a well-formed task id of this team; and if it succeeds, its result is the agent's own
  worktree.
\<close>

theorem git_is_confined:
  assumes "activate_task_worktree ge task d = (r, d')"
  shows "\<exists>cs. d_calls d' = d_calls d @ cs \<and> (\<forall>path. r = Inr path \<longrightarrow> path = worktree_path ge) \<and>
     (list_all (\<lambda>c. c = Clock) cs \<or>
      (\<exists>tid. dget task ''task_id'' = PStr tid \<and> fullmatch TASK_RE tid \<and> dget task ''team_uid'' = PStr (e_team (ge_env ge)) \<and>
        list_all (git_call ge tid) cs))"
proof -
  let ?start = "d\<lparr>d_calls := d_calls d @ [Clock]\<rparr>"
  let ?deadline = "Some (ge_mono ge (d_calls d) + ge_activation_timeout ge)"
  have start: "activate_task_worktree ge task d = (case dget task ''task_id'' of
       PStr tid \<Rightarrow> if \<not> fullmatch TASK_RE tid \<or> dget task ''team_uid'' \<noteq> PStr (e_team (ge_env ge)) then (Inl value_error, ?start)
         else prepare_worktree ge ?deadline tid ?start
     | _ \<Rightarrow> (Inl value_error, ?start))"
    by (simp add: activate_task_worktree_def bnd_def ask_def lift_def split: pyval.split)
  show ?thesis
  proof (cases "\<exists>tid. dget task ''task_id'' = PStr tid \<and> fullmatch TASK_RE tid \<and> dget task ''team_uid'' = PStr (e_team (ge_env ge))")
    case True
    then obtain tid where tid: "dget task ''task_id'' = PStr tid" "fullmatch TASK_RE tid" "dget task ''team_uid'' = PStr (e_team (ge_env ge))" by blast
    then have run: "prepare_worktree ge ?deadline tid ?start = (r, d')" using start assms by simp
    obtain cs where cs: "d_calls d' = d_calls ?start @ cs" "list_all (git_call ge tid) cs"
      using tracedD [OF traced_prepare [of "[]"] run] by (metis Nil_prefix)
    have "ensures (\<lambda>p. p = worktree_path ge) (prepare_worktree ge ?deadline tid)"
      unfolding prepare_worktree_def Let_def by (intro ensures_sq ensures_any ensures_ret refl)
    then have "\<forall>path. r = Inr path \<longrightarrow> path = worktree_path ge" using run by (auto dest: ensuresD)
    moreover have "list_all (git_call ge tid) (Clock # cs)" using cs(2) by (simp add: git_call_def)
    moreover have "d_calls d' = d_calls d @ Clock # cs" using cs(1) by simp
    ultimately show ?thesis using tid by blast
  next
    case False
    then have "(r, d') = (Inl value_error, ?start)" using start assms by (auto split: pyval.splits if_splits)
    then show ?thesis by (intro exI [of _ "[Clock]"]) simp
  qed
qed

section \<open>A sample project\<close>

definition smp_git_desk_env :: env where
  "smp_git_desk_env = \<lparr>e_uid = u ''w-1'', e_team = u ''t1'', e_project = u ''p1'', e_registry = [], e_role = (1001, 1001), e_poll = 1,
     e_base_branch = u ''main'', e_str = (\<lambda>_. []), e_when = (\<lambda>_. None), e_iso = (\<lambda>_. []), e_stamp = (\<lambda>_. []), e_now = (\<lambda>_. 0),
     e_uuid = (\<lambda>_. u ''c1''), e_task = (\<lambda>_ _. (0, [])), e_message = (\<lambda>_ _. (0, [])), e_dirs = (\<lambda>_. No_dirs),
     e_nodes = (\<lambda>_. []), e_quarantine = (\<lambda>_. Quarantine 0 0), e_saved = (\<lambda>_. True), e_outbox = (\<lambda>_. True), e_ref = (\<lambda>_. Inr True)\<rparr>"

definition commands_run :: "call list \<Rightarrow> pystr list list" where
  "commands_run cs = concat (map (\<lambda>c. case c of Run command _ \<Rightarrow> [command] | _ \<Rightarrow> []) cs)"

text \<open>A registered worktree on the branch of the task; git has no lock to name.\<close>

definition smp_answers :: "(int \<times> pystr) list" where
  "smp_answers = [(0, u ''true''), (0, []), (0, u ''group''), (0, u ''worktree /h/.aib/wt/w-1''), (1, []), (0, u ''aib/t1/t-aaaaaaaaaaaa'')]"

definition smp_git :: git_env where
  "smp_git = \<lparr>ge_env = smp_git_desk_env, ge_seam = False, ge_confine = u ''/c'', ge_confine_exists = True, ge_home = u ''/h'',
     ge_state = u ''/s'', ge_role = (1001, 1002), ge_groups = [7], ge_deployment = [], ge_agent = [], ge_git_timeout = 30,
     ge_activation_timeout = 60, ge_activation_text = u ''60.0'', ge_chain = (\<lambda>_. Inr (0, 1528, 7)), ge_config = (\<lambda>_. Inr ()),
     ge_parent = (\<lambda>_. Inr ()),
     ge_run = (\<lambda>cs. Inr (smp_answers ! length (commands_run cs))),
     ge_mono = (\<lambda>_. 5), ge_resolve = (\<lambda>_. Inr (1, [u ''h'']))\<rparr>"

definition smp_git_task :: pydict where
  "smp_git_task = [(u ''task_id'', PStr (u ''t-aaaaaaaaaaaa'')), (u ''team_uid'', PStr (u ''t1''))]"

definition smp_git_desk :: desk where
  "smp_git_desk = \<lparr>d_records = [], d_calls = [], d_index = None, d_cursor = []\<rparr>"

text \<open>From \<open>n\<close> commands run to \<open>k\<close>, with result \<open>x\<close>.\<close>

definition steps :: "nat \<Rightarrow> 'a act \<Rightarrow> 'a \<Rightarrow> nat \<Rightarrow> bool" where
  "steps n m x k = (\<forall>d. length (commands_run (d_calls d)) = n \<longrightarrow> (\<exists>d1. m d = (Inr x, d1) \<and> length (commands_run (d_calls d1)) = k))"

lemma steps_bnd: "\<lbrakk>steps n m x k; steps k (f x) y j\<rbrakk> \<Longrightarrow> steps n (bnd m f) y j"
  unfolding steps_def bnd_def by fastforce

lemma steps_sq: "\<lbrakk>steps n m x k; steps k m2 y j\<rbrakk> \<Longrightarrow> steps n (sq m m2) y j"
  unfolding sq_def by (rule steps_bnd)

lemma steps_ret: "steps n (ret x) x n"
  by (simp add: steps_def ret_def)

lemma steps_ask: "\<lbrakk>\<And>cs. f cs = x; commands_run [c] = []\<rbrakk> \<Longrightarrow> steps n (ask f c) x n"
  by (simp add: steps_def ask_def commands_run_def)

lemma steps_lift: "r = Inr x \<Longrightarrow> steps n (lift r) x n"
  by (simp add: steps_def lift_def)

lemma steps_catch: "steps n m x k \<Longrightarrow> steps n (catch m h) x k"
  unfolding steps_def catch_def by fastforce

lemma smp_git_paths:
  "repo smp_git = (1, [u ''h''])" "worktree_path smp_git = (1, map u [''h'', ''.aib'', ''wt'', ''w-1''])"
  by code_simp+

lemma smp_below:
  "below (lexical (repo smp_git)) (repo smp_git)" "below (lexical (worktree_path smp_git)) (repo smp_git)"
  by code_simp+

lemma steps_home: "steps n (open_project_home smp_git) 7 n"
proof -
  have "\<not> list_ex (\<lambda>p. p \<in> {[], u ''.'', u ''..''}) [u ''h'']" by code_simp
  then show ?thesis
    by (simp add: open_project_home_def Let_def smp_git_paths)
      (rule steps_bnd [OF steps_ask [where x = "Inr (0, 1528, 7)"]], simp_all add: smp_git_def steps_ret commands_run_def)
qed

lemma steps_config: "\<exists>config. steps n (write_git_config smp_git) config n"
proof -
  obtain b where b: "utf8_encode (concat (map (\<lambda>p. u ''[safe]'' @ [10, 9] @ u ''directory = '' @ path_text p @ [10]) [repo smp_git, worktree_path smp_git])) = Inr b"
  proof -
    have "case utf8_encode (concat (map (\<lambda>p. u ''[safe]'' @ [10, 9] @ u ''directory = '' @ path_text p @ [10]) [repo smp_git, worktree_path smp_git])) of
        Inl _ \<Rightarrow> False | Inr _ \<Rightarrow> True" by code_simp
    then show ?thesis using that by (auto split: sum.splits)
  qed
  have "steps n (bnd (ask (ge_config smp_git) (Store name b)) (\<lambda>r. bnd (lift r) (\<lambda>_. ret config))) config n" for name config
    by (rule steps_bnd [OF steps_ask [where x = "Inr ()"]]) (auto simp: smp_git_def commands_run_def intro: steps_bnd steps_lift steps_ret)
  then show ?thesis unfolding write_git_config_def by (intro exI) (rule steps_bnd [OF steps_lift [OF b]])
qed

lemma steps_run:
  assumes "\<not> check \<or> fst (smp_answers ! n) = 0"
  shows "steps n (run_as_role smp_git 7 argv check None) (smp_answers ! n) (Suc n)"
proof -
  obtain config where config: "steps n (write_git_config smp_git) config n" using steps_config by blast
  obtain command variables where c: "role_command smp_git 7 argv None config = Inr (command, variables)"
    by (simp add: role_command_def Let_def smp_git_def)
  have "steps n (ask (ge_run smp_git) (Run command variables)) (Inr (smp_answers ! n)) (Suc n)"
    by (simp add: steps_def ask_def smp_git_def commands_run_def)
  moreover have "steps k (bnd (lift (Inr (smp_answers ! n))) (\<lambda>(rc, out). if check \<and> rc \<noteq> 0 then lift (Inl OSError) else ret (rc, out)))
      (smp_answers ! n) k" for k
    by (rule steps_bnd [OF steps_lift]) (use assms in \<open>auto split: prod.split intro: steps_ret\<close>)
  ultimately show ?thesis unfolding run_as_role_def
    using c by (intro steps_bnd [OF config] steps_bnd [OF steps_lift]) (auto intro: steps_bnd)
qed

lemma steps_git:
  assumes "below (lexical cwd) (repo smp_git)" "\<not> check \<or> fst (smp_answers ! n) = 0"
  shows "steps n (git_as_role smp_git (Some 65) cwd args check None) (smp_answers ! n) (Suc n)"
proof -
  have "steps n (in_time smp_git (Some 65)) () n" unfolding in_time_def option.case
    by (rule steps_bnd [OF steps_ask [where x = 5]]) (simp_all add: smp_git_def commands_run_def steps_ret)
  then show ?thesis unfolding git_as_role_def no_timeout_def using assms
    by (intro steps_bnd [OF steps_home]) (simp add: steps_sq steps_catch steps_run)
qed

lemma steps_asks: "\<lbrakk>below (lexical cwd) (repo smp_git); smp_answers ! n = x; k = Suc n\<rbrakk> \<Longrightarrow> steps n (git_asks smp_git (Some 65) cwd args) x k"
  unfolding git_asks_def using steps_git [of cwd False n] by simp

lemma steps_does: "\<lbrakk>below (lexical cwd) (repo smp_git); smp_answers ! n = (0, out); k = Suc n\<rbrakk> \<Longrightarrow> steps n (git_does smp_git (Some 65) cwd args) out k"
  unfolding git_does_def by (rule steps_bnd [OF steps_git]) (simp_all add: steps_ret)

lemma steps_check: "steps 0 (check_repository smp_git (Some 65)) () 3"
proof -
  have words: "str_strip (u ''true'') = u ''true''" "str_strip (u ''group'') = u ''group''" by code_simp+
  show ?thesis unfolding check_repository_def
    by (rule steps_bnd [OF steps_does [where out = "u ''true''" and k = 1]], simp_all add: smp_below smp_answers_def words)
      (rule steps_bnd [OF steps_asks [where x = "(0, [])" and k = 2]], simp_all add: smp_below smp_answers_def,
       rule steps_bnd [OF steps_asks [where x = "(0, u ''group'')" and k = 3]],
       simp_all add: smp_below smp_answers_def words when_do_def steps_ret)
qed

lemma steps_no_lock: "steps 4 (remove_stale_index_lock smp_git (Some 65) (worktree_path smp_git)) () 5"
proof -
  have resolved: "steps n (resolve_path smp_git p) (Inr (1, [u ''h''])) n" for n p
    unfolding resolve_path_def by (rule steps_ask) (simp_all add: smp_git_def commands_run_def)
  show ?thesis unfolding remove_stale_index_lock_def
    by (rule steps_bnd [OF steps_home], rule steps_bnd [OF resolved], rule steps_bnd [OF resolved], simp)
      (rule steps_bnd [OF steps_asks [where x = "(1, [])" and k = 5]], simp_all add: smp_below smp_answers_def steps_ret)
qed

lemma smp_git_prepares: "steps 0 (prepare_worktree smp_git (Some 65) (u ''t-aaaaaaaaaaaa'')) (worktree_path smp_git) 6"
proof -
  have listed: "normpath (path_text (worktree_path smp_git)) \<in> set (registered_worktrees (u ''worktree /h/.aib/wt/w-1''))"
    and branch: "str_strip (u ''aib/t1/t-aaaaaaaaaaaa'') = task_branch smp_git (u ''t-aaaaaaaaaaaa'')" by code_simp+
  have home: "steps 0 (bnd (open_project_home smp_git) (\<lambda>_. ret ())) () 0" by (rule steps_bnd [OF steps_home steps_ret])
  have lists: "steps 3 (git_does smp_git (Some 65) (repo smp_git) args) (u ''worktree /h/.aib/wt/w-1'') 4" for args
    by (rule steps_does) (simp_all add: smp_below smp_answers_def)
  have current: "steps 5 (git_does smp_git (Some 65) (worktree_path smp_git) args) (u ''aib/t1/t-aaaaaaaaaaaa'') 6" for args
    by (rule steps_does) (simp_all add: smp_below smp_answers_def)
  have skip: "steps n (if b then ret () else m) () n" if b for b n m
    using that by (simp add: steps_ret)
  have no_seam: "steps 3 (if ge_seam smp_git then m else ret ()) () 3" for m
    by (simp add: smp_git_def steps_ret)
  show ?thesis unfolding prepare_worktree_def Let_def
    by (rule steps_sq [OF home], rule steps_sq [OF steps_check], rule steps_sq [OF no_seam], rule steps_bnd [OF lists],
      rule steps_sq [OF skip [OF listed]], rule steps_sq [OF steps_no_lock], rule steps_bnd [OF current],
      rule steps_sq [OF skip [OF branch]], rule steps_ret)
qed


theorem git_is_confined_witness:
  "\<exists>cs path d'. activate_task_worktree smp_git smp_git_task smp_git_desk = (Inr path, d') \<and> d_calls d' = cs \<and> length (commands_run cs) = 6 \<and>
     path = worktree_path smp_git \<and> list_all (git_call smp_git (u ''t-aaaaaaaaaaaa'')) cs"
proof -
  let ?start = "smp_git_desk\<lparr>d_calls := [Clock]\<rparr>"
  have task: "dget smp_git_task ''task_id'' = PStr (u ''t-aaaaaaaaaaaa'')" "fullmatch TASK_RE (u ''t-aaaaaaaaaaaa'')"
    "dget smp_git_task ''team_uid'' = PStr (u ''t1'')" by code_simp+
  obtain d' where prepared: "prepare_worktree smp_git (Some 65) (u ''t-aaaaaaaaaaaa'') ?start = (Inr (worktree_path smp_git), d')"
      "length (commands_run (d_calls d')) = 6"
    using smp_git_prepares unfolding steps_def by (elim allE [of _ ?start]) (auto simp: commands_run_def [of "[Clock]"])
  have "ge_mono smp_git cs + ge_activation_timeout smp_git = 65" "e_team (ge_env smp_git) = u ''t1''" for cs
    by (simp_all add: smp_git_def smp_git_desk_env_def)
  then have run: "activate_task_worktree smp_git smp_git_task smp_git_desk = (Inr (worktree_path smp_git), d')"
    using task prepared(1) by (simp add: activate_task_worktree_def bnd_def ask_def smp_git_desk_def)
  have "commands_run cs = []" if "list_all (\<lambda>c. c = Clock) cs" for cs
    using that by (induction cs) (auto simp: commands_run_def)
  then show ?thesis using git_is_confined [OF run] run prepared(2) task(1) by (auto simp: smp_git_desk_def)
qed

end
