(* ===== verification/SupWait.thy ===== *)
theory SupWait
  imports SupGit
begin

text \<open>
  How the supervisor waits for the commands it runs (\<open>lib/aib_supervisor.py\<close>, the second half of
  \<open>_run_as_role\<close>, and \<open>run_helper\<close>): polling with a watchdog message, then SIGTERM, then SIGKILL. The
  process and the monotonic clock answer by functions of everything done before.
\<close>

section \<open>The process\<close>

datatype wait_step = Read_clock | Feed_watchdog | Communicate rat | Signal_group nat | Close_pipes | Wait_for rat | Kill

datatype sent = Sent | Gone | Denied

text \<open>
  The clock; what \<open>communicate\<close> brings (\<open>None\<close> is \<open>TimeoutExpired\<close>), with the output where it ends the
  process; \<open>killpg\<close>; whether \<open>poll\<close> or \<open>wait\<close> see the end.
\<close>

record waits =
  wt_clock :: "wait_step list \<Rightarrow> rat"
  wt_answer :: "wait_step list \<Rightarrow> (exn + int \<times> pystr) option"
  wt_signal :: "wait_step list \<Rightarrow> sent"
  wt_ended :: "wait_step list \<Rightarrow> bool"

section \<open>Git as the role\<close>

definition git_poll_interval :: rat where
  "git_poll_interval = 1"

text \<open>One wait until a point in time; the loop ends when it does.\<close>

partial_function (option) communicate_until ::
  "waits \<Rightarrow> rat \<Rightarrow> wait_step list \<Rightarrow> ((exn + int \<times> pystr) option \<times> wait_step list) option" where
  "communicate_until w stop_at es =
     (let remaining = stop_at - wt_clock w es; now = es @ [Read_clock] in
      if remaining \<le> 0 then Some (None, now)
      else let tried = now @ [Feed_watchdog, Communicate (min git_poll_interval remaining)] in
        case wt_answer w tried of
          Some r \<Rightarrow> Some (Some r, tried)
        | None \<Rightarrow> communicate_until w stop_at tried)"

definition terminate_group :: "waits \<Rightarrow> nat \<Rightarrow> wait_step list \<Rightarrow> (exn + unit) \<times> wait_step list" where
  "terminate_group w sig es = (case wt_signal w (es @ [Signal_group sig]) of
       Denied \<Rightarrow> (Inl OSError, es @ [Signal_group sig])
     | _ \<Rightarrow> (Inr (), es @ [Signal_group sig]))"

text \<open>A signal, and at most a second for the process to end; an answer then does not count any more.\<close>

definition await_end :: "waits \<Rightarrow> nat \<Rightarrow> wait_step list \<Rightarrow> ((exn + int \<times> pystr) option \<times> rat \<times> wait_step list) option" where
  "await_end w sig es = (case terminate_group w sig es of
       (Inl e, es1) \<Rightarrow> Some (Some (Inl e), 0, es1)
     | (Inr _, es1) \<Rightarrow> let stop_at = wt_clock w es1 + 1 in
         map_option (\<lambda>(r, es2). (r, stop_at, es2)) (communicate_until w stop_at (es1 @ [Read_clock])))"

definition too_late :: "exn + int \<times> pystr \<Rightarrow> exn + int \<times> pystr" where
  "too_late r = (case r of Inl e \<Rightarrow> Inl e | Inr _ \<Rightarrow> Inl TimeoutError)"

text \<open>After SIGKILL the pipes are closed, and the end is awaited for what is left of the second.\<close>

definition abandon :: "waits \<Rightarrow> rat \<Rightarrow> wait_step list \<Rightarrow> wait_step list" where
  "abandon w stop_at es = (let es1 = es @ [Close_pipes] in
     if wt_ended w es1 then es1
     else es1 @ [Feed_watchdog, Read_clock, Wait_for (max (1 / 100) (stop_at - wt_clock w (es1 @ [Feed_watchdog])))])"

definition await_command :: "waits \<Rightarrow> rat \<Rightarrow> wait_step list \<Rightarrow> ((exn + int \<times> pystr) \<times> wait_step list) option" where
  "await_command w limit es = (case communicate_until w (wt_clock w es + limit) (es @ [Read_clock]) of
       None \<Rightarrow> None
     | Some (Some r, es1) \<Rightarrow> Some (r, es1)
     | Some (None, es1) \<Rightarrow> (case await_end w 15 es1 of
           None \<Rightarrow> None
         | Some (Some r, _, es2) \<Rightarrow> Some (too_late r, es2)
         | Some (None, _, es2) \<Rightarrow> (case await_end w 9 es2 of
               None \<Rightarrow> None
             | Some (Some r, _, es3) \<Rightarrow> Some (too_late r, es3)
             | Some (None, stop_at, es3) \<Rightarrow> Some (Inl TimeoutError, abandon w stop_at es3))))"

section \<open>Helpers\<close>

text \<open>
  \<open>run_helper\<close>: a command that hangs is killed and counts as exit 124, like one that does not start.
  Not waiting on a killed process is bounded by three more seconds; the last \<open>wait\<close> is not guarded.
\<close>

definition helper_output :: "bool \<Rightarrow> pystr \<Rightarrow> pystr option" where
  "helper_output capture out = (if capture then Some out else None)"

definition drain_helper :: "waits \<Rightarrow> bool \<Rightarrow> wait_step list \<Rightarrow> (exn + int \<times> pystr option) \<times> wait_step list" where
  "drain_helper w capture es = (let es1 = es @ [Communicate 1] in
     case wt_answer w es1 of
       Some (Inl e) \<Rightarrow> (Inl e, es1)
     | Some (Inr (rc, out)) \<Rightarrow> (Inr (124, helper_output capture out), es1)
     | None \<Rightarrow> let es2 = es1 @ [Close_pipes, Wait_for 1] in
         if wt_ended w es2 then (Inr (124, helper_output capture []), es2)
         else if wt_signal w (es2 @ [Kill]) = Denied then (Inl OSError, es2 @ [Kill])
         else let es3 = es2 @ [Kill, Wait_for 1] in
           if wt_ended w es3 then (Inr (124, helper_output capture []), es3) else (Inl TimeoutError, es3))"

definition run_helper :: "waits \<Rightarrow> (exn + unit) \<Rightarrow> rat \<Rightarrow> bool \<Rightarrow> (exn + int \<times> pystr option) \<times> wait_step list" where
  "run_helper w started call_timeout capture =
     (let failed = (\<lambda>(r, es). (if r = Inl OSError then Inr (124, helper_output capture []) else r, es)) in
      case started of
        Inl e \<Rightarrow> failed (Inl e, [])
      | Inr _ \<Rightarrow> let es = [Communicate call_timeout] in
          case wt_answer w es of
            Some (Inl e) \<Rightarrow> failed (Inl e, es)
          | Some (Inr (rc, out)) \<Rightarrow> (Inr (rc, helper_output capture out), es)
          | None \<Rightarrow> (case terminate_group w 9 es of
                (Inl e, es1) \<Rightarrow> failed (Inl e, es1)
              | (Inr _, es1) \<Rightarrow> failed (drain_helper w capture es1)))"

section \<open>Time\<close>

text \<open>
  A wait that times out took its time; no step takes longer than what it waits for and a slack; and the
  clock does not run backwards.
\<close>

definition step_time :: "wait_step \<Rightarrow> rat" where
  "step_time s = (case s of Communicate x \<Rightarrow> max 0 x | Wait_for x \<Rightarrow> max 0 x | _ \<Rightarrow> 0)"

definition punctual :: "waits \<Rightarrow> rat \<Rightarrow> bool" where
  "punctual w slack = (\<forall>es s. wt_clock w es \<le> wt_clock w (es @ [s]) \<and>
     wt_clock w (es @ [s]) \<le> wt_clock w es + step_time s + slack \<and>
     (\<forall>x. s = Communicate x \<longrightarrow> wt_answer w (es @ [s]) = None \<longrightarrow> wt_clock w es + x \<le> wt_clock w (es @ [s])))"


text \<open>Every \<open>communicate\<close> lasts at most the poll interval and comes right after a watchdog message.\<close>

primrec fed :: "bool \<Rightarrow> wait_step list \<Rightarrow> bool" where
  "fed just [] = True"
| "fed just (s # ss) = ((case s of Communicate x \<Rightarrow> just \<and> x \<le> git_poll_interval | _ \<Rightarrow> True) \<and> fed (s = Feed_watchdog) ss)"

lemma fed_mono: "fed False ss \<Longrightarrow> fed just ss"
  by (cases ss) (auto split: wait_step.splits)

lemma fed_append: "fed just a \<Longrightarrow> fed False b \<Longrightarrow> fed just (a @ b)"
  by (induction a arbitrary: just) (auto intro: fed_mono)

lemma punctual_step:
  assumes "punctual w slack"
  shows "wt_clock w es \<le> wt_clock w (es @ [s])" "wt_clock w (es @ [s]) \<le> wt_clock w es + step_time s + slack" "0 \<le> slack"
proof -
  show a: "wt_clock w es \<le> wt_clock w (es @ [s])" "wt_clock w (es @ [s]) \<le> wt_clock w es + step_time s + slack" for es s
    using assms by (simp_all add: punctual_def)
  show "0 \<le> slack" using a [of "[]" Read_clock] by (simp add: step_time_def)
qed

lemma ceiling_nearer:
  assumes "a \<le> max (b - 1) 0" and "0 < (b :: rat)"
  shows "nat \<lceil>a\<rceil> < nat \<lceil>b\<rceil>"
proof -
  have b: "0 < \<lceil>b\<rceil>" using assms(2) by simp
  have "\<lceil>a\<rceil> < \<lceil>b\<rceil>"
  proof (cases "a \<le> b - 1")
    case True
    then have "\<lceil>a\<rceil> \<le> \<lceil>b - 1\<rceil>" by (rule ceiling_mono)
    then show ?thesis by simp
  next
    case False
    then have "\<lceil>a\<rceil> \<le> 0" using assms(1) by (simp add: ceiling_le_iff)
    from this b show ?thesis by (rule le_less_trans)
  qed
  then show ?thesis using b by simp
qed

text \<open>
  A wait ends: each poll that times out brings the end at least one interval or the whole rest nearer.
  It ends by the given time and four slacks, and gives up no sooner than that time.
\<close>

lemma until_ends:
  assumes p: "punctual w slack"
  shows "\<exists>r ss. communicate_until w T es = Some (r, es @ ss) \<and> fed False ss \<and> (\<forall>sig. Signal_group sig \<notin> set ss) \<and>
     wt_clock w (es @ ss) \<le> max (wt_clock w es + slack) (T + 4 * slack) \<and>
     (case r of Some x \<Rightarrow> wt_answer w (es @ ss) = Some x | None \<Rightarrow> T \<le> wt_clock w (es @ ss))"
proof (induction "nat \<lceil>T - wt_clock w es\<rceil>" arbitrary: es rule: less_induct)
  case less
  let ?rest = "T - wt_clock w es" and ?now = "es @ [Read_clock]"
  let ?x = "min git_poll_interval ?rest"
  let ?tried = "?now @ [Feed_watchdog, Communicate ?x]"
  note step = punctual_step [OF p]
  have now: "wt_clock w es \<le> wt_clock w ?now" "wt_clock w ?now \<le> wt_clock w es + slack"
    using step(1,2) [of es Read_clock] by (simp_all add: step_time_def)
  show ?case
  proof (cases "?rest \<le> 0")
    case True
    then have "communicate_until w T es = Some (None, ?now)" by (subst communicate_until.simps) (simp add: Let_def)
    then show ?thesis using True now step(3) by (intro exI [of _ None] exI [of _ "[Read_clock]"]) auto
  next
    case False
    have fed: "wt_clock w ?now \<le> wt_clock w (?now @ [Feed_watchdog])" "wt_clock w (?now @ [Feed_watchdog]) \<le> wt_clock w ?now + slack"
      using step(1,2) [of ?now Feed_watchdog] by (simp_all add: step_time_def)
    have tried: "wt_clock w (?now @ [Feed_watchdog]) \<le> wt_clock w ?tried" "wt_clock w ?tried \<le> wt_clock w (?now @ [Feed_watchdog]) + ?x + slack"
      using step(1,2) [of "?now @ [Feed_watchdog]" "Communicate ?x"] False
      by (simp_all add: step_time_def git_poll_interval_def max_def min_def split: if_splits)
    have late: "wt_clock w ?tried \<le> T + 3 * slack" using now fed tried by simp
    show ?thesis
    proof (cases "wt_answer w ?tried")
      case (Some r)
      then have "communicate_until w T es = Some (Some r, ?tried)" using False by (subst communicate_until.simps) (simp add: Let_def)
      then show ?thesis using Some late step(3)
        by (intro exI [of _ "Some r"] exI [of _ "[Read_clock, Feed_watchdog, Communicate ?x]"]) auto
    next
      case None
      have "wt_clock w (?now @ [Feed_watchdog]) + ?x \<le> wt_clock w ?tried"
        using p None unfolding punctual_def by (metis append_Cons append_Nil append_assoc)
      then have "T - wt_clock w ?tried \<le> ?rest - ?x" using now fed by simp
      also have "\<dots> \<le> max (?rest - 1) 0" by (simp add: git_poll_interval_def min_def max_def)
      finally have "nat \<lceil>T - wt_clock w ?tried\<rceil> < nat \<lceil>?rest\<rceil>" using False by (intro ceiling_nearer) simp_all
      from less [OF this] obtain r ss where rec: "communicate_until w T ?tried = Some (r, ?tried @ ss)" "fed False ss"
        "\<forall>sig. Signal_group sig \<notin> set ss" "wt_clock w (?tried @ ss) \<le> max (wt_clock w ?tried + slack) (T + 4 * slack)"
        "case r of Some x \<Rightarrow> wt_answer w (?tried @ ss) = Some x | None \<Rightarrow> T \<le> wt_clock w (?tried @ ss)" by blast
      have "communicate_until w T es = Some (r, ?tried @ ss)" using False None rec(1) by (subst communicate_until.simps) (simp add: Let_def)
      then show ?thesis using rec(2-5) late step(3)
        by (intro exI [of _ r] exI [of _ "[Read_clock, Feed_watchdog, Communicate ?x] @ ss"]) (auto split: option.splits)
    qed
  qed
qed

text \<open>One round of a signal and a second's wait.\<close>

lemma await_end_ends:
  assumes p: "punctual w slack"
  shows "\<exists>r stop_at ss. await_end w sig es = Some (r, stop_at, es @ Signal_group sig # ss) \<and> fed False ss \<and>
     (\<forall>n. Signal_group n \<notin> set ss) \<and> wt_clock w (es @ Signal_group sig # ss) \<le> wt_clock w es + 1 + 6 * slack \<and>
     (r = None \<longrightarrow> stop_at \<le> wt_clock w es + 1 + slack)"
proof -
  note step = punctual_step [OF p]
  let ?sent = "es @ [Signal_group sig]"
  let ?stop = "wt_clock w ?sent + 1"
  have sent: "wt_clock w ?sent \<le> wt_clock w es + slack"
    using step(2) [of es "Signal_group sig"] by (simp add: step_time_def)
  show ?thesis
  proof (cases "wt_signal w ?sent = Denied")
    case True
    then have "await_end w sig es = Some (Some (Inl OSError), 0, ?sent)" by (simp add: await_end_def terminate_group_def)
    then show ?thesis using sent step(3) by (intro exI [of _ "Some (Inl OSError)"] exI [of _ 0] exI [of _ "[]"]) simp
  next
    case False
    then have signalled: "terminate_group w sig es = (Inr (), ?sent)" by (cases "wt_signal w ?sent") (simp_all add: terminate_group_def)
    obtain r ss where until: "communicate_until w ?stop (?sent @ [Read_clock]) = Some (r, (?sent @ [Read_clock]) @ ss)" "fed False ss"
      "\<forall>n. Signal_group n \<notin> set ss"
      "wt_clock w ((?sent @ [Read_clock]) @ ss) \<le> max (wt_clock w (?sent @ [Read_clock]) + slack) (?stop + 4 * slack)"
      using until_ends [OF p, of ?stop "?sent @ [Read_clock]"] by blast
    have "wt_clock w (?sent @ [Read_clock]) \<le> wt_clock w ?sent + slack"
      using step(2) [of ?sent Read_clock] by (simp add: step_time_def)
    then have "wt_clock w ((?sent @ [Read_clock]) @ ss) \<le> wt_clock w es + 1 + 6 * slack" using until(4) sent step(3) by simp
    moreover have "await_end w sig es = Some (r, ?stop, (?sent @ [Read_clock]) @ ss)"
      using until(1) by (simp add: await_end_def signalled Let_def)
    ultimately show ?thesis using until(2,3) sent
      by (intro exI [of _ r] exI [of _ ?stop] exI [of _ "Read_clock # ss"]) simp
  qed
qed

lemma abandon_ends:
  assumes p: "punctual w slack"
  shows "\<exists>ss. abandon w stop_at es = es @ ss \<and> fed False ss \<and> (\<forall>n. Signal_group n \<notin> set ss) \<and>
     wt_clock w (abandon w stop_at es) \<le> max (wt_clock w es + 1 / 100) stop_at + 4 * slack"
proof -
  note step = punctual_step [OF p]
  let ?closed = "es @ [Close_pipes]"
  let ?fed = "?closed @ [Feed_watchdog]"
  let ?read = "?fed @ [Read_clock]"
  let ?x = "max (1 / 100) (stop_at - wt_clock w ?fed)"
  have times: "wt_clock w ?closed \<le> wt_clock w es + slack" "wt_clock w ?fed \<le> wt_clock w ?closed + slack"
    "wt_clock w ?read \<le> wt_clock w ?fed + slack" "wt_clock w (?read @ [Wait_for ?x]) \<le> wt_clock w ?read + ?x + slack"
    using step(2) [of es Close_pipes] step(2) [of ?closed Feed_watchdog] step(2) [of ?fed Read_clock] step(2) [of ?read "Wait_for ?x"]
    by (simp_all add: step_time_def)
  show ?thesis
  proof (cases "wt_ended w ?closed")
    case True
    then show ?thesis using times(1) step(3) by (intro exI [of _ "[Close_pipes]"]) (simp add: abandon_def Let_def)
  next
    case False
    then have "abandon w stop_at es = ?read @ [Wait_for ?x]" by (simp add: abandon_def Let_def)
    moreover have "wt_clock w (?read @ [Wait_for ?x]) \<le> max (wt_clock w es + 1 / 100) stop_at + 4 * slack"
      using times step(3) by (simp add: max_def split: if_splits)
    ultimately show ?thesis by (intro exI [of _ "[Close_pipes, Feed_watchdog, Read_clock, Wait_for ?x]"]) simp
  qed
qed

text \<open>
  C39: A command for git cannot hold the supervisor. If the clock is sound and a wait takes its time,
  waiting for the command always ends, within the limit, two seconds and a hundredth, and the slack of twenty
  steps, whatever the command does; on the way the watchdog is fed before every poll, and no poll is
  longer than a second. A result without a signal is what the command answered, and SIGTERM is
  sent at most once, no sooner than the limit has passed; whoever was signalled yields no output.
\<close>

theorem git_wait_is_bounded:
  assumes "punctual w slack" and "0 \<le> limit"
  shows "\<exists>r es. await_command w limit [] = Some (r, es) \<and>
     wt_clock w es \<le> wt_clock w [] + limit + 201 / 100 + 20 * slack \<and> fed False es \<and>
     ((\<forall>n. Signal_group n \<notin> set es) \<and> wt_answer w es = Some r \<or>
      (\<exists>before after. es = before @ Signal_group 15 # after \<and> (\<forall>n. Signal_group n \<notin> set before) \<and>
         Signal_group 15 \<notin> set after \<and> wt_clock w [] + limit \<le> wt_clock w before \<and> (\<exists>e. r = Inl e)))"
proof -
  note p = assms(1)
  note step = punctual_step [OF p]
  let ?T = "wt_clock w [] + limit"
  have start: "wt_clock w [Read_clock] \<le> wt_clock w [] + slack" using step(2) [of "[]" Read_clock] by (simp add: step_time_def)
  obtain r1 s1 where one: "communicate_until w ?T [Read_clock] = Some (r1, [Read_clock] @ s1)" "fed False s1"
      "\<forall>n. Signal_group n \<notin> set s1" "wt_clock w ([Read_clock] @ s1) \<le> max (wt_clock w [Read_clock] + slack) (?T + 4 * slack)"
      "case r1 of Some x \<Rightarrow> wt_answer w ([Read_clock] @ s1) = Some x | None \<Rightarrow> ?T \<le> wt_clock w ([Read_clock] @ s1)"
    using until_ends [OF p, of ?T "[Read_clock]"] by blast
  let ?e1 = "Read_clock # s1"
  have t1: "wt_clock w ?e1 \<le> ?T + 4 * slack" using one(4) start step(3) assms(2) by simp
  show ?thesis
  proof (cases r1)
    case (Some r)
    then have "await_command w limit [] = Some (r, ?e1)" using one(1) by (simp add: await_command_def)
    then show ?thesis using Some one(2,3,5) t1 step(3) by (intro exI [of _ r] exI [of _ ?e1]) simp
  next
    case None
    obtain r2 stop2 s2 where two: "await_end w 15 ?e1 = Some (r2, stop2, ?e1 @ Signal_group 15 # s2)" "fed False s2"
        "\<forall>n. Signal_group n \<notin> set s2" "wt_clock w (?e1 @ Signal_group 15 # s2) \<le> wt_clock w ?e1 + 1 + 6 * slack"
      using await_end_ends [OF p, of 15 ?e1] by blast
    let ?e2 = "?e1 @ Signal_group 15 # s2"
    obtain r3 stop3 s3 where three: "await_end w 9 ?e2 = Some (r3, stop3, ?e2 @ Signal_group 9 # s3)" "fed False s3"
        "\<forall>n. Signal_group n \<notin> set s3" "wt_clock w (?e2 @ Signal_group 9 # s3) \<le> wt_clock w ?e2 + 1 + 6 * slack"
        "r3 = None \<longrightarrow> stop3 \<le> wt_clock w ?e2 + 1 + slack"
      using await_end_ends [OF p, of 9 ?e2] by blast
    let ?e3 = "?e2 @ Signal_group 9 # s3"
    obtain s4 where four: "abandon w stop3 ?e3 = ?e3 @ s4" "fed False s4" "\<forall>n. Signal_group n \<notin> set s4"
        "wt_clock w (abandon w stop3 ?e3) \<le> max (wt_clock w ?e3 + 1 / 100) stop3 + 4 * slack"
      using abandon_ends [OF p, of stop3 ?e3] by blast
    have limit: "?T \<le> wt_clock w ?e1" using one(5) None by simp
    have late: "\<exists>e. too_late x = Inl e" for x by (cases x) (simp_all add: too_late_def)
    obtain e where run: "\<exists>tail. await_command w limit [] = Some (Inl e, ?e1 @ Signal_group 15 # tail) \<and> fed False tail \<and>
        Signal_group 15 \<notin> set tail \<and> wt_clock w (?e1 @ Signal_group 15 # tail) \<le> ?T + 201 / 100 + 20 * slack"
    proof (cases r2)
      case (Some x)
      then have "await_command w limit [] = Some (too_late x, ?e2)" using one(1) None two(1) by (simp add: await_command_def)
      then show ?thesis using that late [of x] two t1 step(3) by fastforce
    next
      case none2: None
      show ?thesis
      proof (cases r3)
        case (Some x)
        then have "await_command w limit [] = Some (too_late x, ?e3)" using one(1) None two(1) none2 three(1) by (simp add: await_command_def)
        moreover have "fed False (s2 @ Signal_group 9 # s3)" using two(2) three(2) by (intro fed_append) simp_all
        moreover have "wt_clock w ?e3 \<le> ?T + 201 / 100 + 20 * slack" using three(4) two(4) t1 step(3) by simp
        ultimately show ?thesis using that late [of x] two(3) three(3) by fastforce
      next
        case none3: None
        then have "await_command w limit [] = Some (Inl TimeoutError, ?e3 @ s4)"
          using one(1) None two(1) none2 three(1) four(1) by (simp add: await_command_def)
        moreover have "fed False (s2 @ Signal_group 9 # s3 @ s4)" using two(2) by (rule fed_append) (simp add: fed_append three(2) four(2))
        moreover have "wt_clock w (?e3 @ s4) \<le> ?T + 201 / 100 + 20 * slack"
          using four(1,4) three(4,5) none3 two(4) t1 step(3) by simp
        ultimately show ?thesis using that two(3) three(3) four(3) by fastforce
      qed
    qed
    then obtain tail where tail: "await_command w limit [] = Some (Inl e, ?e1 @ Signal_group 15 # tail)" "fed False tail"
        "Signal_group 15 \<notin> set tail" "wt_clock w (?e1 @ Signal_group 15 # tail) \<le> ?T + 201 / 100 + 20 * slack" by blast
    have fed: "fed False (?e1 @ Signal_group 15 # tail)" using one(2) tail(2) by (intro fed_append) simp_all
    have "\<exists>before after. ?e1 @ Signal_group 15 # tail = before @ Signal_group 15 # after \<and> (\<forall>n. Signal_group n \<notin> set before) \<and>
        Signal_group 15 \<notin> set after \<and> ?T \<le> wt_clock w before \<and> (\<exists>a. Inl e = (Inl a :: exn + int \<times> pystr))"
      using one(3) tail(3) limit by (intro exI [of _ ?e1] exI [of _ tail]) simp
    with tail(1,4) fed show ?thesis by blast
  qed
qed

section \<open>A process that never answers\<close>

definition smp_hanging :: "bool \<Rightarrow> waits" where
  "smp_hanging ended = \<lparr>wt_clock = (\<lambda>es. sum_list (map step_time es)), wt_answer = (\<lambda>_. None), wt_signal = (\<lambda>_. Sent),
     wt_ended = (\<lambda>_. ended)\<rparr>"

theorem git_wait_is_bounded_witness:
  "\<exists>e es. await_command (smp_hanging True) 45 [] = Some (Inl e, es) \<and> wt_clock (smp_hanging True) es \<le> 4701 / 100 \<and>
     Signal_group 15 \<in> set es \<and> fed False es"
proof -
  have p: "punctual (smp_hanging True) 0" by (auto simp: punctual_def smp_hanging_def step_time_def split: wait_step.splits)
  have "wt_answer (smp_hanging True) es = None" "wt_clock (smp_hanging True) [] = 0" for es by (simp_all add: smp_hanging_def)
  with git_wait_is_bounded [OF p, of 45] show ?thesis by auto
qed

text \<open>
  A helper whose end is not seen within a second of the last \<open>kill\<close> raises instead of counting as exit 124.
\<close>

lemma unkillable_helper_escapes: "run_helper (smp_hanging False) (Inr ()) 30 capture = (Inl TimeoutError,
    [Communicate 30, Signal_group 9, Communicate 1, Close_pipes, Wait_for 1, Kill, Wait_for 1])"
  by (simp add: run_helper_def drain_helper_def terminate_group_def smp_hanging_def Let_def)

end
