(* ===== verification/SupFiles.thy ===== *)
theory SupFiles
  imports SupJournal SupDesk
begin

text \<open>
  Two files of the supervisor (\<open>lib/aib_supervisor.py\<close>): the outbox of a team, to which
  \<open>_append_outbox_line\<close> adds reports and alarms, and \<open>live.json\<close>, whose counter of ticks is carried
  over a restart (\<open>write_live\<close>, \<open>_old_tick_seq\<close>).
\<close>

section \<open>The outbox\<close>

record dir_info =
  di_uid :: nat
  di_gid :: nat
  di_mode :: nat

text \<open>An entry of the outbox root: a directory with its \<open>outbox.md\<close>, or anything else, which does not open as one.\<close>

datatype team_entry = Team_dir dir_info "dir_entry option" | Other_entry

datatype root_entry = No_root | Odd_root | Root_dir dir_info

text \<open>
  The effective user, the group of what it creates, the bytes each write will take (none left is an
  \<open>OSError\<close>) and whether \<open>fsync\<close> works.
\<close>

record outbox =
  ox_euid :: nat
  ox_gid :: nat
  ox_seam :: bool
  ox_root :: root_entry
  ox_teams :: "(pystr, team_entry) dict"
  ox_counts :: "int list"
  ox_sync :: bool

text \<open>\<open>0o755\<close> is 493, \<open>0o002\<close> is 2, \<open>0o750\<close> is 488, \<open>0o770\<close> is 504 and \<open>0o660\<close> is 432.\<close>

definition outbox_root :: "outbox \<Rightarrow> root_entry" where
  "outbox_root ox = (if ox_seam ox \<and> ox_root ox = No_root then Root_dir \<lparr>di_uid = ox_euid ox, di_gid = ox_gid ox, di_mode = 493\<rparr>
     else ox_root ox)"

definition root_ok :: "outbox \<Rightarrow> bool" where
  "root_ok ox = (case outbox_root ox of Root_dir di \<Rightarrow> di_uid di = ox_euid ox \<and> \<not> bit (di_mode di) 1 | _ \<Rightarrow> False)"

definition team_mode :: "pystr \<Rightarrow> nat" where
  "team_mode destination = (if destination = u ''_server'' then 488 else 504)"

definition team_ok :: "outbox \<Rightarrow> pystr \<Rightarrow> dir_info \<Rightarrow> bool" where
  "team_ok ox destination di = (di_uid di = ox_euid ox \<and> di_mode di mod 512 = team_mode destination)"

text \<open>The directory as it is found or made.\<close>

definition team_dir :: "outbox \<Rightarrow> pystr \<Rightarrow> team_entry" where
  "team_dir ox destination = (case map_of (ox_teams ox) destination of
       Some e \<Rightarrow> e
     | None \<Rightarrow> Team_dir \<lparr>di_uid = ox_euid ox, di_gid = ox_gid ox, di_mode = team_mode destination\<rparr> None)"

definition outbox_file :: "outbox \<Rightarrow> dir_info \<Rightarrow> dir_entry option \<Rightarrow> body_file option" where
  "outbox_file ox di f = (case f of
       None \<Rightarrow> Some \<lparr>f_regular = True, f_uid = ox_euid ox, f_gid = di_gid di, f_nlink = 1, f_mode = 432, f_data = []\<rparr>
     | Some (Inode i) \<Rightarrow> Some i
     | Some Link \<Rightarrow> None)"

definition file_ok :: "dir_info \<Rightarrow> body_file \<Rightarrow> bool" where
  "file_ok di i = (f_regular i \<and> f_nlink i = 1 \<and> f_mode i mod 512 = 432 \<and> f_gid i = di_gid di)"

text \<open>The bytes the loop of writes got out, and whether that was the line.\<close>

fun write_out :: "int list \<Rightarrow> bytes \<Rightarrow> bytes \<times> bool" where
  "write_out counts [] = ([], True)"
| "write_out [] (b # bs) = ([], False)"
| "write_out (c # cs) (b # bs) =
     (if c \<le> 0 then ([], False)
      else case write_out cs (drop (nat c) (b # bs)) of (out, ok) \<Rightarrow> (take (nat c) (b # bs) @ out, ok))"

definition append_outbox_line :: "outbox \<Rightarrow> bytes \<Rightarrow> pystr \<Rightarrow> bool \<times> outbox" where
  "append_outbox_line ox line destination =
     (let rooted = ox\<lparr>ox_root := outbox_root ox\<rparr> in
      if \<not> root_ok ox then (False, rooted)
      else let entry = team_dir ox destination; made = rooted\<lparr>ox_teams := dset destination entry (ox_teams ox)\<rparr> in
        case entry of
          Other_entry \<Rightarrow> (False, made)
        | Team_dir di f \<Rightarrow>
            if \<not> team_ok ox destination di then (False, made)
            else case outbox_file ox di f of
                None \<Rightarrow> (False, made)
              | Some i \<Rightarrow> let opened = (\<lambda>j. made\<lparr>ox_teams := dset destination (Team_dir di (Some (Inode j))) (ox_teams ox)\<rparr>) in
                  if \<not> file_ok di i then (False, opened i)
                  else case write_out (ox_counts ox) line of (out, ok) \<Rightarrow>
                    (ok \<and> ox_sync ox, opened (i\<lparr>f_data := f_data i @ out\<rparr>)))"

text \<open>What a team finds in its outbox.\<close>

definition entry_data :: "team_entry \<Rightarrow> bytes" where
  "entry_data e = (case e of Team_dir di (Some (Inode i)) \<Rightarrow> f_data i | _ \<Rightarrow> [])"

definition outbox_data :: "outbox \<Rightarrow> pystr \<Rightarrow> bytes" where
  "outbox_data ox destination = (case map_of (ox_teams ox) destination of Some e \<Rightarrow> entry_data e | None \<Rightarrow> [])"

lemma entry_data_simps [simp]: "entry_data (Team_dir di (Some (Inode i))) = f_data i" "entry_data (team_dir ox destination) = outbox_data ox destination"
  by (auto simp: entry_data_def outbox_data_def team_dir_def split: option.splits)

lemma outbox_file_data: "outbox_file ox di f = Some i \<Longrightarrow> f_data i = entry_data (Team_dir di f)"
  by (auto simp: outbox_file_def entry_data_def split: option.splits dir_entry.splits)

lemma write_out_prefix: "write_out cs line = (out, ok) \<Longrightarrow> \<exists>rest. line = out @ rest \<and> (ok \<longrightarrow> rest = [])"
proof (induction cs line arbitrary: out rule: write_out.induct)
  case (3 c cs b bs)
  show ?case
  proof (cases "c \<le> 0")
    case False
    obtain o2 where o2: "write_out cs (drop (nat c) (b # bs)) = (o2, ok)" "out = take (nat c) (b # bs) @ o2"
      using 3(2) False by (auto split: prod.splits)
    with 3(1) [OF False o2(1)] show ?thesis by (metis append.assoc append_take_drop_id)
  qed (use 3(2) in auto)
qed auto

lemma write_out_done: "list_all (\<lambda>c. 0 < c) cs \<Longrightarrow> length line \<le> length cs \<Longrightarrow> write_out cs line = (line, True)"
proof (induction cs line rule: write_out.induct)
  case (3 c cs b bs)
  then have "write_out cs (drop (nat c) (b # bs)) = (drop (nat c) (b # bs), True)" by (intro "3.IH") auto
  then show ?case using 3(2) by simp
qed auto

text \<open>Everything is as it must be, or does not exist yet, and every write takes something.\<close>

definition outbox_ready :: "outbox \<Rightarrow> pystr \<Rightarrow> bytes \<Rightarrow> bool" where
  "outbox_ready ox destination line = (root_ok ox \<and>
     (case team_dir ox destination of
        Team_dir di f \<Rightarrow> team_ok ox destination di \<and> (case outbox_file ox di f of Some i \<Rightarrow> file_ok di i | None \<Rightarrow> False)
      | Other_entry \<Rightarrow> False) \<and>
     ox_sync ox \<and> list_all (\<lambda>c. 0 < c) (ox_counts ox) \<and> length line \<le> length (ox_counts ox))"

text \<open>
  C40: Appending to an outbox is exact. A line that is reported written is the new end of the team's
  file, in a directory of the engine's own user with the team's mode, and in a regular file with a single
  link, mode 0660 and the directory's group; the owner of the file is not looked at. A failed append
  leaves at most the beginning of the line, and may leave a directory or an empty file that it made.
  In either case the bytes that were there before stay in front, and no other team's entry changes. A
  file that is not as it must be is not written to. Where all is as it must be and the device takes the
  bytes, the append succeeds.
\<close>

theorem outbox_append_is_exact:
  assumes "append_outbox_line ox line destination = (ok, ox')"
  shows "(\<exists>out rest. line = out @ rest \<and> outbox_data ox' destination = outbox_data ox destination @ out \<and>
       (ok \<longrightarrow> rest = []) \<and>
       (ok \<or> out \<noteq> [] \<longrightarrow> root_ok ox \<and> (\<exists>di i. map_of (ox_teams ox') destination = Some (Team_dir di (Some (Inode i))) \<and>
          team_ok ox destination di \<and> file_ok di i))) \<and>
     (outbox_ready ox destination line \<longrightarrow> ok) \<and>
     (\<forall>other. other \<noteq> destination \<longrightarrow> map_of (ox_teams ox') other = map_of (ox_teams ox) other)"
proof -
  obtain out fin where w: "write_out (ox_counts ox) line = (out, fin)" by fastforce
  obtain rest where rest: "line = out @ rest" "fin \<longrightarrow> rest = []" using write_out_prefix [OF w] by blast
  have ready: "outbox_ready ox destination line \<longrightarrow> ok"
    using assms write_out_done [of "ox_counts ox" line]
    by (auto simp: outbox_ready_def append_outbox_line_def Let_def split: team_entry.splits option.splits prod.splits)
  show ?thesis
  proof (cases "root_ok ox")
    case False
    then have "ok = False" "ox_teams ox' = ox_teams ox" using assms by (auto simp: append_outbox_line_def Let_def)
    then show ?thesis using ready by (auto simp: outbox_data_def)
  next
    case True
    show ?thesis
    proof (cases "\<exists>di f i. team_dir ox destination = Team_dir di f \<and> team_ok ox destination di \<and> outbox_file ox di f = Some i \<and> file_ok di i")
      case True
      then obtain di f i where f: "team_dir ox destination = Team_dir di f" "team_ok ox destination di"
        "outbox_file ox di f = Some i" "file_ok di i" by blast
      have ox': "ok = (fin \<and> ox_sync ox)" "ox_teams ox' = dset destination (Team_dir di (Some (Inode (i\<lparr>f_data := f_data i @ out\<rparr>)))) (ox_teams ox)"
        using assms \<open>root_ok ox\<close> f w by (auto simp: append_outbox_line_def Let_def)
      have "outbox_data ox destination = f_data i" using f(1) outbox_file_data [OF f(3)] by (metis entry_data_simps(2))
      moreover have "file_ok di (i\<lparr>f_data := f_data i @ out\<rparr>)" using f(4) by (simp add: file_ok_def)
      ultimately show ?thesis using rest ox' f(2) \<open>root_ok ox\<close> ready
        by (intro conjI exI [of _ out] exI [of _ rest]) (auto simp: outbox_data_def)
    next
      case False
      have "\<not> ok \<and> (\<exists>e. ox_teams ox' = dset destination e (ox_teams ox) \<and> entry_data e = outbox_data ox destination)"
      proof (cases "team_dir ox destination")
        case (Team_dir di f)
        show ?thesis
        proof (cases "team_ok ox destination di \<and> outbox_file ox di f \<noteq> None")
          case True
          then obtain i where i: "outbox_file ox di f = Some i" by blast
          then have "\<not> file_ok di i" using False Team_dir True by blast
          then have "\<not> ok" "ox_teams ox' = dset destination (Team_dir di (Some (Inode i))) (ox_teams ox)"
            using assms \<open>root_ok ox\<close> Team_dir True i by (auto simp: append_outbox_line_def Let_def)
          moreover have "f_data i = outbox_data ox destination" using outbox_file_data [OF i] Team_dir by (metis entry_data_simps(2))
          ultimately show ?thesis by (metis entry_data_simps(1))
        next
          case odd: False
          then have "\<not> ok" "ox_teams ox' = dset destination (team_dir ox destination) (ox_teams ox)"
            using assms \<open>root_ok ox\<close> Team_dir by (auto simp: append_outbox_line_def Let_def split: option.splits if_splits)
          then show ?thesis by (metis entry_data_simps(2))
        qed
      next
        case Other_entry
        then have "\<not> ok" "ox_teams ox' = dset destination (team_dir ox destination) (ox_teams ox)"
          using assms \<open>root_ok ox\<close> by (auto simp: append_outbox_line_def Let_def)
        then show ?thesis by (metis entry_data_simps(2))
      qed
      then show ?thesis using ready by (intro conjI exI [of _ "[]"] exI [of _ line]) (auto simp: outbox_data_def)
    qed
  qed
qed

section \<open>A sample\<close>

definition smp_outbox :: "int list \<Rightarrow> outbox" where
  "smp_outbox counts = \<lparr>ox_euid = 0, ox_gid = 50, ox_seam = False, ox_root = Root_dir \<lparr>di_uid = 0, di_gid = 0, di_mode = 493\<rparr>,
     ox_teams = [(u ''t1'', Team_dir \<lparr>di_uid = 0, di_gid = 60, di_mode = 1528\<rparr> (Some (Inode
       \<lparr>f_regular = True, f_uid = 0, f_gid = 60, f_nlink = 1, f_mode = 432, f_data = [1, 10]\<rparr>)))],
     ox_counts = counts, ox_sync = True\<rparr>"

theorem outbox_append_is_exact_witness:
  "\<exists>ox'. append_outbox_line (smp_outbox [2, 9]) [2, 3, 10] (u ''t1'') = (True, ox') \<and> outbox_data ox' (u ''t1'') = [1, 10, 2, 3, 10]"
proof -
  obtain ok ox' where run: "append_outbox_line (smp_outbox [2, 9]) [2, 3, 10] (u ''t1'') = (ok, ox')" by fastforce
  have "case append_outbox_line (smp_outbox [2, 9]) [2, 3, 10] (u ''t1'') of (ok, _) \<Rightarrow> ok" "outbox_data (smp_outbox [2, 9]) (u ''t1'') = [1, 10]"
    by code_simp+
  then show ?thesis using outbox_append_is_exact [OF run] run by auto
qed

text \<open>The beginning that a failed append leaves is not taken back: the next line runs on from it.\<close>

lemma torn_line_runs_on:
  "case append_outbox_line (smp_outbox [1]) [2, 3, 10] (u ''t1'') of (ok, ox') \<Rightarrow> \<not> ok \<and>
     (case append_outbox_line (ox'\<lparr>ox_counts := [9]\<rparr>) [4, 10] (u ''t1'') of (ok2, ox2) \<Rightarrow>
        ok2 \<and> outbox_data ox2 (u ''t1'') = [1, 10, 2, 4, 10])"
  by code_simp

section \<open>The live file\<close>

definition MAX_LIVE_STATE_BYTES :: nat where
  "MAX_LIVE_STATE_BYTES = 64 * 1024"

definition live_fields :: "int \<Rightarrow> pystr \<Rightarrow> pyfloat \<Rightarrow> int \<Rightarrow> pystr \<times> pystr \<Rightarrow> pyval \<Rightarrow> sup_mem \<Rightarrow> pydict" where
  "live_fields seq ts tick pid state turn m =
     [(u ''seq'', PInt seq), (u ''ts'', PStr ts), (u ''interval_s'', PFloat tick), (u ''pid'', PInt pid),
      (u ''state'', PStr (fst state)), (u ''state_reason'', PStr (snd state)), (u ''turn'', turn),
      (u ''brake'', PDict [(u ''consecutive'', PInt (m_brake m)), (u ''tripped_at'', m_tripped m)]),
      (u ''session_id'', m_session m), (u ''turns_in_session'', PInt (m_turns m)), (u ''off_duty'', PBool (m_off m))]"

text \<open>
  The state directory by name; what is in the way of the temporary file is removed, which fails only
  for a directory. The new file takes the place of the old one.
\<close>

definition live_temporary :: "int \<Rightarrow> pystr" where
  "live_temporary pid = u ''.live.'' @ str_of_int pid @ u ''.tmp''"

definition write_live ::
  "(pyfloat \<Rightarrow> pystr) \<Rightarrow> nat \<times> nat \<Rightarrow> (pystr \<Rightarrow> bool) \<Rightarrow> int \<Rightarrow> pydict \<Rightarrow> (pystr, dir_entry) dict \<Rightarrow> (exn + unit) \<times> (pystr, dir_entry) dict" where
  "write_live fr owner is_directory pid live files =
     (if is_directory (live_temporary pid) then (Inl OSError, files)
      else (Inr (), dset (u ''live.json'') (Inode \<lparr>f_regular = True, f_uid = fst owner, f_gid = snd owner, f_nlink = 1, f_mode = 420,
          f_data = ascii_bytes (json_dumps fr True (PDict live) @ [10])\<rparr>) (dpop (live_temporary pid) files)))"

definition read_state_text :: "dir_entry option \<Rightarrow> nat \<Rightarrow> exn + pystr option" where
  "read_state_text e max_bytes = bind_res (open_state_file False e) (\<lambda>f. case f of
       None \<Rightarrow> Inr None
     | Some i \<Rightarrow> if max_bytes < length (f_data i) then Inl OSError else map_sum id Some (utf8_decode (f_data i)))"

text \<open>An unsafe file is refused; one that does not parse counts as none.\<close>

definition old_tick_seq :: "dir_entry option \<Rightarrow> exn + int" where
  "old_tick_seq e = (case read_state_text e MAX_LIVE_STATE_BYTES of
       Inl x \<Rightarrow> if x = UnicodeError then Inr 0 else Inl x
     | Inr None \<Rightarrow> Inr 0
     | Inr (Some s) \<Rightarrow> (case json_loads dict_hook s of
           Inl x \<Rightarrow> if x = json_decode_error then Inr 0 else Inl x
         | Inr (PDict d) \<Rightarrow> Inr (case dget_or d ''seq'' (PInt 0) of PInt n \<Rightarrow> n | _ \<Rightarrow> 0)
         | Inr _ \<Rightarrow> Inl AttributeError))"

text \<open>Valid JSON that is no object ends the start with an \<open>AttributeError\<close>.\<close>

lemma live_list_escapes:
  "old_tick_seq (Some (Inode \<lparr>f_regular = True, f_uid = 0, f_gid = 0, f_nlink = 1, f_mode = 420, f_data = [91, 93]\<rparr>)) = Inl AttributeError"
  by code_simp

end
