(* ===== verification/SupBoard.thy ===== *)
theory SupBoard
  imports SupIntents TaskViewProps "HOL-Library.Multiset"
begin

text \<open>
  The board of a worker (\<open>lib/aib_supervisor.py\<close>, \<open>write_board_snapshot\<close>): the view that \<open>bin/task list
  --worker-view\<close> prints is read back and stored in the worker's directory. The properties join the
  two programs: the trimming of the view and the limit on the board.
\<close>

section \<open>Printing with sorted keys\<close>

text \<open>\<open>sort_keys=True\<close>.\<close>

fun sorted_value :: "pyval \<Rightarrow> pyval" where
  "sorted_value (PList vs) = PList (map sorted_value vs)"
| "sorted_value (PDict d) = PDict (sort_key fst (map (\<lambda>(k, v). (k, sorted_value v)) d))"
| "sorted_value v = v"

definition print_sorted :: "(pyfloat \<Rightarrow> pystr) \<Rightarrow> pyval \<Rightarrow> pystr" where
  "print_sorted fr v = json_dumps fr True (sorted_value v) @ [10]"

section \<open>The snapshot\<close>

definition BOARD_LIMIT :: nat where
  "BOARD_LIMIT = 32 * 1024"

definition board_argv :: "env \<Rightarrow> pystr list" where
  "board_argv env = [u ''list'', u ''--project'', e_project env, u ''--worker-view'', u ''--team'', e_team env, u ''--agent'', e_uid env]"

text \<open>
  Writing the temporary file and putting it in place is one effect, which may fail. \<open>os.write\<close> may
  take only the first \<open>took\<close> bytes; its count is not looked at, so what it took is put in place.
\<close>

definition store_board :: "env \<Rightarrow> (pyfloat \<Rightarrow> pystr) \<Rightarrow> nat \<Rightarrow> int \<times> pystr \<Rightarrow> unit act" where
  "store_board env fr took reply = (case reply of (rc, out) \<Rightarrow>
     if rc \<noteq> 0 then lift (Inl OSError)
     else bnd (lift (json_loads dict_hook out)) (\<lambda>v. let encoded = ascii_bytes (print_sorted fr v) in
       if BOARD_LIMIT < length encoded then lift (Inl OSError)
       else bnd (ask (e_saved env) (Store (u ''board.json'') (take took encoded))) (\<lambda>ok. if ok then ret () else lift (Inl OSError))))"

definition board_stale :: "env \<Rightarrow> unit act" where
  "board_stale env = sq (jot env ''board.stale'' []) (jot env ''attention'' [(u ''reason'', PStr (u ''board_stale''))])"

definition write_board_snapshot :: "env \<Rightarrow> (pyfloat \<Rightarrow> pystr) \<Rightarrow> nat \<Rightarrow> unit act" where
  "write_board_snapshot env fr took = catch
     (bnd (open_private_dirs env (u ''.aib'')) (\<lambda>d. case d of
          Dirs p \<Rightarrow> bnd (task_command env (board_argv env)) (store_board env fr took)
        | _ \<Rightarrow> lift (Inl OSError)))
     (\<lambda>e. if e = OSError \<or> is_value_error e then board_stale env else lift (Inl e))"

section \<open>Sorting keeps what is printed\<close>

lemma mset_map_sort: "mset (map f (sort_key k xs)) = mset (map f xs)"
  by simp

lemma sum_list_sort: "sum_list (map f (sort_key k xs)) = sum_list (map f xs :: nat list)"
  by (metis mset_map_sort sum_mset_sum_list)

lemma sorted_safe: "json_safe ascii v \<Longrightarrow> json_safe ascii (sorted_value v)"
proof (induction v)
  case (PDict d)
  let ?d = "map (\<lambda>(k, v). (k, sorted_value v)) d"
  have "mset (map fst (sort_key fst ?d)) = mset (map fst ?d)" by (rule mset_map_sort)
  then have "distinct (map fst (sort_key fst ?d)) = distinct (map fst ?d)" by (rule mset_eq_imp_distinct_iff)
  also have "map fst ?d = map fst d" by (simp add: case_prod_beta' comp_def)
  finally have "distinct (map fst (sort_key fst ?d))" using PDict.prems by simp
  moreover have "list_all (\<lambda>(k, v). str_safe ascii k \<and> json_safe ascii v) (sort_key fst ?d)"
    using PDict by (fastforce simp: list_all_iff)
  ultimately show ?case by simp
qed (auto simp: list_all_iff)

lemma sorted_twice: "sorted_value (sorted_value v) = sorted_value v"
proof (induction v)
  case (PDict d)
  let ?h = "\<lambda>(k, v). (k, sorted_value v)"
  have "?h x = x" if "x \<in> set (sort_key fst (map ?h d))" for x
    using that PDict.IH by (auto simp: sndI)
  then have "map ?h (sort_key fst (map ?h d)) = sort_key fst (map ?h d)" by (intro map_idI)
  then show ?case by (simp add: sort_key_id_if_sorted [OF sorted_sort_key])
qed simp_all

lemma sep_by_length: "length (sep_by c xs) = sum_list (map length xs) + (length xs - 1)"
  by (induction c xs rule: sep_by.induct) auto

lemma sorted_length: "length (json_dumps fr ascii (sorted_value v)) = length (json_dumps fr ascii v)"
proof (induction v)
  case (PList vs)
  then have "map length (map (json_dumps fr ascii) (map sorted_value vs)) = map length (map (json_dumps fr ascii) vs)" by simp
  then show ?case by (simp add: sep_by_length del: map_map)
next
  case (PDict d)
  let ?len = "\<lambda>(k, v). length (dump_string ascii k @ 58 # json_dumps fr ascii v)"
  let ?h = "\<lambda>(k, v). (k, sorted_value v)"
  have "sum_list (map ?len (sort_key fst (map ?h d))) = sum_list (map ?len (map ?h d))"
    by (rule sum_list_sort)
  also have "map ?len (map ?h d) = map ?len d" using PDict by (auto simp: sndI)
  finally show ?case by (simp add: sep_by_length case_prod_beta' comp_def)
qed simp_all

text \<open>Without a character beyond \<open>~\<close> nothing is escaped that is not escaped anyway.\<close>

lemma dump_char_plain: "list_all (\<lambda>c. c \<le> 126) (dump_char False c) \<Longrightarrow> dump_char True c = dump_char False c"
  by (auto simp: dump_char_def split: option.splits if_splits)

lemma dump_string_plain: "list_all (\<lambda>c. c \<le> 126) (dump_string False s) \<Longrightarrow> dump_string True s = dump_string False s"
  by (auto simp: dump_string_def list_all_iff intro!: arg_cong [where f = concat] map_cong dump_char_plain)

lemma sep_by_plain: "list_all P (sep_by c xs) \<Longrightarrow> x \<in> set xs \<Longrightarrow> list_all P x"
  by (induction c xs rule: sep_by.induct) auto

lemma dumps_plain: "list_all (\<lambda>c. c \<le> 126) (json_dumps fr False v) \<Longrightarrow> json_dumps fr True v = json_dumps fr False v"
proof (induction v)
  case (PList vs)
  then show ?case using sep_by_plain by (fastforce intro!: arg_cong [where f = "sep_by 44"] map_cong)
next
  case (PDict d)
  have "dump_string True k @ 58 # json_dumps fr True v = dump_string False k @ 58 # json_dumps fr False v" if "(k, v) \<in> set d" for k v
  proof -
    have "list_all (\<lambda>c. c \<le> 126) (sep_by 44 (map (\<lambda>(k, v). dump_string False k @ 58 # json_dumps fr False v) d))"
      using PDict.prems by simp
    moreover have "dump_string False k @ 58 # json_dumps fr False v \<in> set (map (\<lambda>(k, v). dump_string False k @ 58 # json_dumps fr False v) d)"
      using that by force
    ultimately have "list_all (\<lambda>c. c \<le> 126) (dump_string False k @ 58 # json_dumps fr False v)" by (rule sep_by_plain)
    then show ?thesis using PDict.IH [OF that] by (simp add: dump_string_plain)
  qed
  then have "map (\<lambda>(k, v). dump_string True k @ 58 # json_dumps fr True v) d = map (\<lambda>(k, v). dump_string False k @ 58 # json_dumps fr False v) d"
    by (intro map_cong refl) (auto split: prod.split)
  then show ?case by (simp del: map_eq_conv)
qed (simp_all add: dump_string_plain)

text \<open>A page of plain text prints with one byte more than its size.\<close>

lemma plain_page_size:
  assumes "page_size fr p = Inr n" and "list_all (\<lambda>c. c \<le> 126) (json_dumps fr False (PDict (page_json p)))"
  shows "length (print_sorted fr (PDict (page_json p))) = n + 1"
proof -
  have utf8: "length (concat (map utf8_char s)) = length s" if "list_all (\<lambda>c. c \<le> 126) s" for s :: pystr
    using that by (induction s) (auto simp: utf8_char_def)
  have "n = length (json_dumps fr False (PDict (page_json p)))"
    using assms utf8 by (auto simp: page_size_eq split: if_splits simp del: json_dumps.simps)
  then show ?thesis using dumps_plain [OF assms(2)] by (simp add: print_sorted_def sorted_length del: json_dumps.simps sorted_value.simps)
qed

section \<open>The view and the board\<close>

lemma worker_rows_length: "worker_rows clock now team agent ts = Inr rows \<Longrightarrow> length rows \<le> length ts"
  by (induction ts arbitrary: rows) (fastforce simp: bind_res_Inr split: if_splits)+

lemma worker_runs_length: "worker_runs clock now team rs = Inr rows \<Longrightarrow> length rows \<le> length rs"
  by (induction rs arbitrary: rows) (fastforce simp: bind_res_Inr split: if_splits)+

lemma worker_view_size:
  assumes "worker_view fr clock now v team agent = Inr p" and "small_view v"
  shows "\<exists>n. page_size fr p = Inr n \<and> n \<le> BOARD_LIMIT"
proof -
  obtain rows rrows where rows: "worker_rows clock now team agent (dvalues (tasks (folded v))) = Inr rows"
    and rrows: "worker_runs clock now team (dvalues (runs (folded v))) = Inr rrows"
    and trim: "trim_page fr (first_page v team rows rrows) = Inr p"
    using assms(1) by (auto simp: worker_view_def bind_res_Inr)
  have le: "length rows \<le> length (filter (\<lambda>_. True) (dvalues (tasks (folded v))))"
    "length rrows \<le> length (filter (\<lambda>_. True) (dvalues (runs (folded v))))"
    using worker_rows_length [OF rows] worker_runs_length [OF rrows] by simp_all
  obtain n where n: "page_size fr p = Inr n" "n \<le> 32 * 1024 \<or> wp_tasks p = [] \<and> wp_runs p = [] \<and> wp_rejections p = []"
    using trim_fits [OF trim] by blast
  have "page_numbers 1000 p" by (rule trimmed_numbers [OF trim_trimmed [OF trim] le assms(2)])
  then have "n \<le> 32 * 1024" by (rule page_fits [OF n])
  then show ?thesis using n(1) by (simp add: BOARD_LIMIT_def)
qed

text \<open>The command's output is read back and printed as it came.\<close>

lemma board_reply:
  assumes "json_safe True (PDict pg)"
  shows "store_board env fr took (0, print_sorted fr (PDict pg)) =
     (if BOARD_LIMIT < length (print_sorted fr (PDict pg)) then lift (Inl OSError)
      else bnd (ask (e_saved env) (Store (u ''board.json'') (take took (ascii_bytes (print_sorted fr (PDict pg))))))
        (\<lambda>ok. if ok then ret () else lift (Inl OSError)))"
proof -
  obtain d where d: "sorted_value (PDict pg) = PDict d" by simp
  have safe: "json_safe True (PDict d)" using sorted_safe [OF assms] d by simp
  have "print_sorted fr (PDict pg) = adumps True (PDict d) @ [10]"
    unfolding print_sorted_def d by (rule arg_cong [where f = "\<lambda>s. s @ [10]"], rule dumps_no_float [OF safe])
  then have loads: "json_loads dict_hook (print_sorted fr (PDict pg)) = Inr (PDict d)"
    using json_roundtrip_line [OF faithful_dict_hook safe] by (simp only:)
  have same: "print_sorted fr (PDict d) = print_sorted fr (PDict pg)"
    unfolding print_sorted_def d [symmetric] sorted_twice ..
  have first: "bnd (lift (Inr x)) k = k x" for x :: pyval and k :: "pyval \<Rightarrow> unit act"
    by (simp add: bnd_def lift_def fun_eq_iff)
  have size: "length (ascii_bytes s) = length s" for s by (simp add: ascii_bytes_def)
  show ?thesis by (simp only: store_board_def prod.case loads first same Let_def size simp_thms if_False)
qed

definition board_calls :: "env \<Rightarrow> call list" where
  "board_calls env = [Look (u ''.aib''), Task_cmd (board_argv env)]"

text \<open>
  C38: The board is the worker's view, where it fits. Let the task command exit with 0 and print the
  worker's view (with counts of at most 1000 digits, no float and no repeated key), both private
  directories be in order, and the file be put in place. When the printed
  text is at most 32 KiB, the supervisor reads it back and stores what \<open>os.write\<close> takes of it: all of
  it, byte for byte as it was printed, or, after a short write that nothing notices, its beginning.
  When the text is larger, nothing is stored and the board is journaled as stale. The turn goes on
  either way. A view of printable ASCII always fits but for the line feed.
\<close>

theorem board_is_the_view:
  assumes "worker_view fr clock now v (e_team env) (e_uid env) = Inr p" and "small_view v" and "json_safe True (PDict (page_json p))"
    and "\<forall>h. e_dirs env h = Dirs q" and "private_dirs_ok (fst (e_role env)) (snd (e_role env)) q"
    and "\<forall>h. e_task env h (board_argv env) = (0, print_sorted fr (PDict (page_json p)))" and "\<forall>h. e_saved env h"
  shows "\<exists>d'. write_board_snapshot env fr took d = (Inr (), d') \<and>
     (length (print_sorted fr (PDict (page_json p))) \<le> BOARD_LIMIT \<longrightarrow> d_records d' = d_records d \<and>
        d_calls d' = d_calls d @ board_calls env @
          [Store (u ''board.json'') (take took (ascii_bytes (print_sorted fr (PDict (page_json p)))))] \<and>
        (length (print_sorted fr (PDict (page_json p))) \<le> took \<longrightarrow> take took (ascii_bytes (print_sorted fr (PDict (page_json p)))) =
           ascii_bytes (print_sorted fr (PDict (page_json p))))) \<and>
     (BOARD_LIMIT < length (print_sorted fr (PDict (page_json p))) \<longrightarrow> d_calls d' = d_calls d @ board_calls env \<and>
        map (\<lambda>r. dget r ''event'') (d_records d') = map (\<lambda>r. dget r ''event'') (d_records d) @ [PStr (u ''board.stale''), PStr (u ''attention'')]) \<and>
     (list_all (\<lambda>c. c \<le> 126) (json_dumps fr False (PDict (page_json p))) \<longrightarrow> length (print_sorted fr (PDict (page_json p))) \<le> BOARD_LIMIT + 1)"
proof -
  let ?t = "print_sorted fr (PDict (page_json p))"
  let ?asked = "d\<lparr>d_calls := d_calls d @ board_calls env\<rparr>"
  have body: "write_board_snapshot env fr took d = catch (store_board env fr took (0, ?t)) (\<lambda>e. if e = OSError \<or> is_value_error e then board_stale env else lift (Inl e)) ?asked"
    using assms(4-6) by (simp add: write_board_snapshot_def open_private_dirs_def task_command_def bnd_def ask_def ret_def catch_def board_calls_def)
  have plain: "list_all (\<lambda>c. c \<le> 126) (json_dumps fr False (PDict (page_json p))) \<longrightarrow> length ?t \<le> BOARD_LIMIT + 1"
    using worker_view_size [OF assms(1,2)] plain_page_size by (metis add_le_mono1)
  show ?thesis
  proof (cases "BOARD_LIMIT < length ?t")
    case True
    then have "write_board_snapshot env fr took d = board_stale env ?asked"
      unfolding body board_reply [OF assms(3)] by (simp add: catch_def lift_def)
    then show ?thesis using True plain by (auto simp: board_stale_def sq_def bnd_def jot_def numbered_def dget_def)
  next
    case False
    then have "write_board_snapshot env fr took d =
        (Inr (), ?asked\<lparr>d_calls := d_calls ?asked @ [Store (u ''board.json'') (take took (ascii_bytes ?t))]\<rparr>)"
      unfolding body board_reply [OF assms(3)] using assms(7) by (simp add: catch_def bnd_def ask_def ret_def)
    moreover have "length (ascii_bytes ?t) = length ?t" by (simp add: ascii_bytes_def)
    ultimately show ?thesis using False plain by simp
  qed
qed

text \<open>No answer of the task command and no fault of the directory ends the turn.\<close>

lemma board_never_raises: "\<exists>d'. write_board_snapshot env fr took d = (Inr (), d')"
proof -
  have parse: "e = OSError \<or> is_value_error e" if "store_board env fr took reply x = (Inl e, x')" for reply x x' e
  proof (cases reply)
    case (Pair rc out)
    have "is_value_error e" if "json_loads dict_hook out = Inl e" for e
      using json_loads_raises [of dict_hook out] that by (auto simp: raises_value_def dict_hook_def)
    with that Pair show ?thesis
      by (auto simp: store_board_def bnd_def lift_def ask_def ret_def Let_def split: if_splits sum.splits)
  qed
  have stale: "\<exists>d'. board_stale env x = (Inr (), d')" for x by (simp add: board_stale_def sq_def bnd_def jot_def)
  show ?thesis
    unfolding write_board_snapshot_def catch_def open_private_dirs_def task_command_def
    using parse stale
    by (auto simp: bnd_def ask_def ret_def lift_def split: sum.splits prod.splits dirs.splits if_splits) (metis surj_pair)
qed

section \<open>Samples\<close>

definition smp_page :: worker_page where
  "smp_page = (case worker_view (\<lambda>_. []) smp_clock 200 smp_view (u ''acme-engine'') (u ''acme-dev1'') of Inr p \<Rightarrow> p
     | Inl _ \<Rightarrow> \<lparr>wp_seq = 0, wp_invalid = 0, wp_tasks = [], wp_runs = [], wp_rejections = [], wp_truncated = False,
         wp_dropped_tasks = 0, wp_dropped_runs = 0, wp_dropped_rejections = 0\<rparr>)"

definition smp_board_dir :: private_dir where
  "smp_board_dir = \<lparr>p_opens = True, p_aib = (1001, 448), p_intents = (1001, 448), p_gids = (1001, 1001), p_euid = 0, p_new_gid = 0,
     p_room = 0, p_files = [], p_board = None\<rparr>"

definition smp_board_env :: env where
  "smp_board_env = \<lparr>e_uid = u ''acme-dev1'', e_team = u ''acme-engine'', e_project = u ''p1'', e_registry = [], e_role = (1001, 1001), e_poll = 1,
     e_base_branch = u ''main'', e_str = (\<lambda>_. []), e_when = (\<lambda>_. None), e_iso = (\<lambda>_. []), e_stamp = (\<lambda>_. []), e_now = (\<lambda>_. 0),
     e_uuid = (\<lambda>_. u ''c1''), e_task = (\<lambda>_ _. (0, print_sorted (\<lambda>_. []) (PDict (page_json smp_page)))), e_message = (\<lambda>_ _. (0, [])),
     e_dirs = (\<lambda>_. Dirs smp_board_dir), e_nodes = (\<lambda>_. []), e_quarantine = (\<lambda>_. Quarantine 0 0), e_saved = (\<lambda>_. True),
     e_outbox = (\<lambda>_. True), e_ref = (\<lambda>_. Inr True)\<rparr>"

lemma smp_page_view: "worker_view (\<lambda>_. []) smp_clock 200 smp_view (u ''acme-engine'') (u ''acme-dev1'') = Inr smp_page"
proof -
  have "case worker_view (\<lambda>_. []) smp_clock 200 smp_view (u ''acme-engine'') (u ''acme-dev1'') of Inr _ \<Rightarrow> True | Inl _ \<Rightarrow> False" by code_simp
  then show ?thesis by (simp add: smp_page_def split: sum.splits)
qed

lemma smp_page_plain: "json_safe True (PDict (page_json smp_page))" "length (print_sorted (\<lambda>_. []) (PDict (page_json smp_page))) \<le> BOARD_LIMIT"
  by code_simp+

theorem board_is_the_view_witness:
  "\<exists>d'. write_board_snapshot smp_board_env (\<lambda>_. []) BOARD_LIMIT \<lparr>d_records = [], d_calls = [], d_index = None, d_cursor = []\<rparr> = (Inr (), d') \<and>
     d_records d' = [] \<and> Store (u ''board.json'') (ascii_bytes (print_sorted (\<lambda>_. []) (PDict (page_json smp_page)))) \<in> set (d_calls d')"
proof -
  have view: "worker_view (\<lambda>_. []) smp_clock 200 smp_view (e_team smp_board_env) (e_uid smp_board_env) = Inr smp_page"
    using smp_page_view by (simp add: smp_board_env_def)
  have "\<forall>h. e_dirs smp_board_env h = Dirs smp_board_dir" "private_dirs_ok (fst (e_role smp_board_env)) (snd (e_role smp_board_env)) smp_board_dir"
    "\<forall>h. e_task smp_board_env h (board_argv smp_board_env) = (0, print_sorted (\<lambda>_. []) (PDict (page_json smp_page)))"
    "\<forall>h. e_saved smp_board_env h"
    by (simp_all add: smp_board_env_def smp_board_dir_def private_dirs_ok_def)
  from board_is_the_view [OF view smp_view_small smp_page_plain(1) this, of BOARD_LIMIT "\<lparr>d_records = [], d_calls = [], d_index = None, d_cursor = []\<rparr>"]
  show ?thesis using smp_page_plain(2) by (auto simp del: json_dumps.simps sorted_value.simps)
qed

text \<open>
  Thirty rows with titles and summaries of umlauts, as long as the ledger admits: the view is within
  its limit and not trimmed, but printed with escapes it is too large for the board.
\<close>

definition wide_text :: "nat \<Rightarrow> pystr" where
  "wide_text n = replicate n 252"

definition wide_row :: pyval where
  "wide_row = PDict [(u ''id'', PStr (u ''t-aaaaaaaaaaaa'')), (u ''run_id'', PStr (u ''r-aaaaaaaaaaaa'')), (u ''assignee'', PStr (u ''acme-dev1'')),
     (u ''state'', PStr (u ''ASSIGNED'')), (u ''age'', PInt 60), (u ''deadline_at'', PNone), (u ''turns'', PInt 1), (u ''assignments'', PInt 1),
     (u ''title'', PStr (wide_text 120)), (u ''last_summary'', PStr (wide_text 200))]"

definition wide_page :: worker_page where
  "wide_page = \<lparr>wp_seq = 90, wp_invalid = 0, wp_tasks = replicate 30 wide_row, wp_runs = [], wp_rejections = [], wp_truncated = False,
     wp_dropped_tasks = 0, wp_dropped_runs = 0, wp_dropped_rejections = 0\<rparr>"

definition utf8_length :: "pystr \<Rightarrow> nat" where
  "utf8_length s = length (concat (map utf8_char s))"

lemma utf8_length_simps: "utf8_length [] = 0" "utf8_length (c # s) = length (utf8_char c) + utf8_length s" "utf8_length (s @ t) = utf8_length s + utf8_length t"
  by (simp_all add: utf8_length_def)

lemma utf8_length_sep: "c < 128 \<Longrightarrow> utf8_length (sep_by c xs) = sum_list (map utf8_length xs) + (length xs - 1)"
  by (induction c xs rule: sep_by.induct) (auto simp: utf8_length_simps utf8_char_def)

lemma wide_row_size:
  "utf8_length (json_dumps (\<lambda>_. []) False wide_row) < 1000" "1900 < length (json_dumps (\<lambda>_. []) True wide_row)"
  "encodes (\<lambda>_. []) wide_row"
  by code_simp+

lemma wide_keys:
  "utf8_length (dump_string False (u ''highest_seq'')) = 13" "utf8_length (dump_string False (u ''invalid'')) = 9"
  "utf8_length (dump_string False (u ''tasks'')) = 7" "utf8_length (dump_string False (u ''runs'')) = 6"
  "utf8_length (dump_string False (u ''own_rejections'')) = 16" "utf8_length (dump_string False (u ''truncated'')) = 11"
  "utf8_length (dump_string False (u ''dropped'')) = 9" "utf8_length (dump_string False (u ''rejections'')) = 12"
  "utf8_length (str_of_int 90) = 2" "utf8_length (str_of_int 0) = 1" "utf8_length (u ''false'') = 5"
  "length (utf8_char 44) = 1" "length (utf8_char 58) = 1" "length (utf8_char 91) = 1" "length (utf8_char 93) = 1"
  "length (utf8_char 123) = 1" "length (utf8_char 125) = 1"
  by code_simp+

lemma wide_view_is_stale:
  "trim_page (\<lambda>_. []) wide_page = Inr wide_page" "BOARD_LIMIT < length (print_sorted (\<lambda>_. []) (PDict (page_json wide_page)))"
proof -
  let ?row = "utf8_length (json_dumps (\<lambda>_. []) False wide_row)"
  have "utf8_length (sep_by 44 (map (json_dumps (\<lambda>_. []) False) (replicate 30 wide_row))) = 30 * ?row + 29"
    by (simp add: utf8_length_sep sum_list_replicate del: json_dumps.simps)
  then have "utf8_length (json_dumps (\<lambda>_. []) False (PList (replicate 30 wide_row))) = 30 * ?row + 31"
    by (simp only: json_dumps.simps utf8_length_simps wide_keys)
  then have "utf8_length (json_dumps (\<lambda>_. []) False (PDict (page_json wide_page))) \<le> 32 * 1024"
    using wide_row_size(1)
    by (simp add: page_json_def wide_page_def utf8_length_simps wide_keys)
  moreover have "encodes (\<lambda>_. []) (PDict (page_json wide_page))"
    using wide_row_size(3) by (simp only: page_encodes) (simp add: wide_page_def del: json_dumps.simps)
  ultimately have "page_size (\<lambda>_. []) wide_page = Inr (utf8_length (json_dumps (\<lambda>_. []) False (PDict (page_json wide_page))))"
    "utf8_length (json_dumps (\<lambda>_. []) False (PDict (page_json wide_page))) \<le> 32 * 1024"
    by (simp_all only: page_size_eq utf8_length_def if_True simp_thms)
  then show "trim_page (\<lambda>_. []) wide_page = Inr wide_page" by (subst trim_page.simps) (simp del: json_dumps.simps)
  have "length (sep_by 44 (map (json_dumps (\<lambda>_. []) True) (replicate 30 wide_row))) = 30 * length (json_dumps (\<lambda>_. []) True wide_row) + 29"
    by (simp add: sep_by_length sum_list_replicate del: json_dumps.simps)
  then have "32 * 1024 < length (json_dumps (\<lambda>_. []) True (PDict (page_json wide_page)))"
    using wide_row_size(2) by (simp add: page_json_def wide_page_def)
  then show "BOARD_LIMIT < length (print_sorted (\<lambda>_. []) (PDict (page_json wide_page)))"
    by (simp add: print_sorted_def sorted_length BOARD_LIMIT_def del: json_dumps.simps sorted_value.simps)
qed

end
