(* ===== verification/LoginStore.thy ===== *)
theory LoginStore
  imports Login TaskBody
begin

text \<open>
  Writing to the login store (\<open>lib/aib_login.py\<close>): the lock file, the atomic replacement of a
  credential file (\<open>atomic_json\<close>) and the line of an alarm. A directory is a dictionary of entries;
  which system call fails, if any, is an argument.
\<close>

section \<open>The lock\<close>

text \<open>\<open>store_lock\<close>: no link is followed, and only a regular file of the caller's is taken; \<open>0o600\<close> is 384.\<close>

definition store_lock :: "nat \<Rightarrow> nat \<Rightarrow> dir_entry option \<Rightarrow> exn + dir_entry" where
  "store_lock euid egid e = (case e of
       None \<Rightarrow> Inr (Inode \<lparr>f_regular = True, f_uid = euid, f_gid = egid, f_nlink = 1, f_mode = 384, f_data = []\<rparr>)
     | Some Link \<Rightarrow> Inl OSError
     | Some (Inode f) \<Rightarrow> if \<not> f_regular f \<or> f_uid f \<noteq> euid then Inl OSError else Inr (Inode (f\<lparr>f_mode := 384\<rparr>)))"

section \<open>Atomic replacement\<close>

datatype store_call = Make_dir | Make_temp | Write_temp nat | Chmod_temp | Replace

record login_dir =
  ld_files :: "(pystr, dir_entry) dict"
  ld_uid :: nat
  ld_gid :: nat

definition temp_file :: "login_dir \<Rightarrow> nat \<Rightarrow> bytes \<Rightarrow> dir_entry" where
  "temp_file l mode data = Inode \<lparr>f_regular = True, f_uid = ld_uid l, f_gid = ld_gid l, f_nlink = 1, f_mode = mode, f_data = data\<rparr>"

definition put_file :: "pystr \<Rightarrow> dir_entry \<Rightarrow> login_dir \<Rightarrow> login_dir" where
  "put_file n e l = l\<lparr>ld_files := dset n e (ld_files l)\<rparr>"

text \<open>
  The states of the directory, one after each system call, until one fails (\<open>Write_temp k\<close>: after \<open>k\<close>
  bytes); the temporary file is removed on every way out. \<open>tmp\<close> is the fresh name of \<open>mkstemp\<close>.
\<close>

definition atomic_steps ::
  "(pyfloat \<Rightarrow> pystr) \<Rightarrow> store_call option \<Rightarrow> pystr \<Rightarrow> pystr \<Rightarrow> pydict \<Rightarrow> nat \<Rightarrow> login_dir \<Rightarrow> (exn + unit) \<times> login_dir list" where
  "atomic_steps fr fails tmp name d mode l =
     (if fails = Some Make_dir \<or> fails = Some Make_temp then (Inl OSError, [l])
      else let empty = put_file tmp (temp_file l 384 []) l in
        case utf8_encode (json_dumps fr False (PDict d)) of
          Inl e \<Rightarrow> (Inl e, [l, empty, l])
        | Inr data \<Rightarrow> (case fails of
              Some (Write_temp k) \<Rightarrow> (Inl OSError, [l, empty, put_file tmp (temp_file l 384 (take k data)) l, l])
            | Some Chmod_temp \<Rightarrow> (Inl OSError, [l, empty, put_file tmp (temp_file l 384 data) l, l])
            | Some Replace \<Rightarrow> (Inl OSError, [l, empty, put_file tmp (temp_file l 384 data) l, put_file tmp (temp_file l mode data) l, l])
            | _ \<Rightarrow> (Inr (), [l, empty, put_file tmp (temp_file l 384 data) l, put_file tmp (temp_file l mode data) l,
                put_file name (temp_file l mode data) l])))"

definition atomic_json ::
  "(pyfloat \<Rightarrow> pystr) \<Rightarrow> store_call option \<Rightarrow> pystr \<Rightarrow> pystr \<Rightarrow> pydict \<Rightarrow> nat \<Rightarrow> login_dir \<Rightarrow> (exn + unit) \<times> login_dir" where
  "atomic_json fr fails tmp name d mode l = (case atomic_steps fr fails tmp name d mode l of (r, ls) \<Rightarrow> (r, last ls))"

text \<open>
  A credential file is replaced as a whole: at every moment, a crash included, a reader finds the old
  entry or the complete new one in its final mode, no other file changes but for the temporary one, and
  that is gone at the end; a failure leaves the directory as it was.
\<close>

lemma credential_replaced_atomically:
  assumes "atomic_steps fr fails tmp name d mode l = (r, ls)" and "tmp \<noteq> name"
  shows "s \<in> set ls \<Longrightarrow> map_of (ld_files s) name = map_of (ld_files l) name \<or>
       (\<exists>data. utf8_encode (json_dumps fr False (PDict d)) = Inr data \<and> map_of (ld_files s) name = Some (temp_file l mode data))"
    and "s \<in> set ls \<Longrightarrow> other \<noteq> tmp \<Longrightarrow> other \<noteq> name \<Longrightarrow> map_of (ld_files s) other = map_of (ld_files l) other"
    and "map_of (ld_files (last ls)) tmp = map_of (ld_files l) tmp"
    and "r \<noteq> Inr () \<Longrightarrow> last ls = l"
    and "r = Inr () \<Longrightarrow> \<exists>data. utf8_encode (json_dumps fr False (PDict d)) = Inr data \<and>
       map_of (ld_files (last ls)) name = Some (temp_file l mode data)"
  using assms
  by (auto simp: atomic_steps_def Let_def put_file_def split: if_splits sum.splits option.splits store_call.splits simp del: json_dumps.simps)

section \<open>Alarms\<close>

datatype outbox_place = Real_directory | Other_place

text \<open>The time is printed outside; the alarm is one line appended to \<open>_server/outbox.md\<close>.\<close>

definition alarm_text :: "pystr \<Rightarrow> int \<Rightarrow> int \<Rightarrow> pystr \<Rightarrow> pystr \<Rightarrow> pystr" where
  "alarm_text stamp pid micros source body = stamp @ u '' | id:alarm-'' @ str_of_int pid @ u ''-'' @ str_of_int micros @ u '' | from:'' @ source @
     u '' | to:human:ops | state:PERSISTED | '' @ body @ [10]"

definition login_alarm ::
  "outbox_place option \<Rightarrow> bool \<Rightarrow> pystr \<Rightarrow> int \<Rightarrow> int \<Rightarrow> pystr \<Rightarrow> pystr \<Rightarrow> bytes \<Rightarrow> exn + bool \<times> bytes" where
  "login_alarm place writable stamp pid micros source body file =
     (if place \<noteq> Some Real_directory \<or> \<not> writable then Inr (False, file)
      else bind_res (utf8_encode (alarm_text stamp pid micros source body)) (\<lambda>line. Inr (True, file @ line)))"

end
