(* ===== verification/Spec2Isabelle.thy ===== *)
theory Spec2Isabelle
  imports LedgerProps TaskProps StreamProps AttemptsProps IntentProps TaskViewProps BrokerProps ControlProps SupJournalProps SupProps SupIntentProps DashProps Deployment Login SupMessageProps SupScanFair SupScanProps SupConfig SupGitProps SupWait SupFiles SupBoard LoginStore
begin

text \<open>
  The Python core of AI-Bobnet: an event-sourced ledger of tasks, the supervisor that runs one
  agent's turns, the files and streams between them and a confined worker, and a read-only
  dashboard. The theories below translate the code under \<open>src/\<close> definition by definition and prove
  the numbered properties (C1, C2 and so on) of these definitions.

  \<^bold>\<open>The program.\<close> \<open>bin/task\<close> (\<open>lib/task_cli.py\<close>) is the only writer of a project's task stream: it
  checks its arguments, reads the committed records, folds them into a ledger and lets the decision
  engine (\<open>lib/task_ledger.py\<close>) accept or refuse one new event. Everybody else folds the same
  stream. A worker runs confined to its own directory and queues intents there
  (\<open>lib/task_intent.py\<close>); after its turn the supervisor (\<open>lib/aib_supervisor.py\<close>) reads, validates
  and applies them through \<open>bin/task\<close>. The supervisor keeps a journal of its own, from which a restart
  restores its memory, and takes control requests from a directory. Attempts to launch workers are a
  second kind of stream (\<open>lib/attempts_fold.py\<close>); the broker that launches them answers in a framed
  protocol (\<open>lib/aib_broker_response.py\<close>) and admits peers by policy (\<open>lib/aib_broker_security.py\<close>,
  \<open>lib/aib_control.py\<close>); a deployment policy (\<open>lib/aib_deployment.py\<close>) and a login store
  (\<open>lib/aib_login.py\<close>) configure what may run. The dashboard (\<open>dashboard/\<close>) shows projection files.

  \<^bold>\<open>Python.\<close> \<open>Prelude\<close>: strings as lists of code points, dictionaries as association lists in insertion
  order, exceptions as the left side of a sum, and two interfaces as locales, the keyed store
  (interpreted by dictionaries) and the machine whose steps may raise (interpreted by the fold of the
  task stream and by the fold of the attempts stream). \<open>PyValue\<close>: JSON values with Python's equality,
  truth, \<open>int\<close>, \<open>str\<close>, \<open>get\<close> and hashing, and the exceptions they raise. \<open>PyRegex\<close>: patterns on a
  derivative matcher, proved equal to the language of the pattern. \<open>PyText\<close>, \<open>CivilTime\<close>, \<open>Sha256\<close>: text
  methods, UTF-8, calendar time, the digest. \<open>PyJson\<close>, \<open>JsonBytes\<close>: reading and writing JSON with
  object hooks, and the round trip between both. The JSON reader recurses under a fuel of twice the
  text's length and two; the round trip shows that this is enough for every text the program writes.

  \<^bold>\<open>Task ledger.\<close> \<open>LedgerText\<close> (identifiers, display text), \<open>LedgerFold\<close> (\<open>fold\<close>, one handler per event
  type), \<open>LedgerRegistry\<close> and \<open>LedgerDecide\<close> (\<open>decide\<close>), \<open>TaskBody\<close> (sidecar files), \<open>TaskCli\<close> (\<open>main\<close> of
  the command), \<open>TaskViews\<close> (\<open>list_view\<close>, \<open>worker_view\<close> and the read commands). \<open>LedgerInv\<close> and
  \<open>LedgerProps\<close> show the invariant of the ledger, finality, authorization and the isolation of faulty
  events for arbitrary streams. \<open>TaskCliLemmas\<close>, \<open>TaskAgree\<close>, \<open>TaskCommit\<close>, \<open>TaskMain\<close>, \<open>TaskLimits\<close> and
  \<open>TaskReach\<close> compose the two halves: what \<open>decide\<close> accepts the fold takes, and streams written only by
  the command, each run with a registry of its own (the inductive predicate \<open>written\<close>), keep every
  bound that the delegation limits in force never exceeded (\<open>TaskProps\<close>).
  \<open>TaskViewProps\<close>: the trimming loop of the worker view ends, and the view is confined.

  \<^bold>\<open>Streams.\<close> \<open>StreamFrames\<close> (checksum, scan and appending of framed records), \<open>AttemptsFold\<close>; properties
  in \<open>StreamProps\<close> and \<open>AttemptsProps\<close>.

  \<^bold>\<open>Broker, control channel, configuration.\<close> \<open>BrokerResponse\<close>, \<open>ControlChannel\<close> with \<open>BrokerProps\<close> and
  \<open>ControlProps\<close>; \<open>Deployment\<close>, \<open>Login\<close> and \<open>LoginStore\<close> hold their models and properties.

  \<^bold>\<open>Supervisor.\<close> \<open>SupJournal\<close> (loading with the repair of a torn tail, appending; \<open>SupJournalProps\<close>),
  \<open>SupMemory\<close> (\<open>restore\<close>, brake, sessions), \<open>SupTurn\<close> (starting, collecting and classifying a turn),
  \<open>SupControls\<close> (\<open>process_controls\<close>), \<open>SupRun\<close> (the loop as the inductive relation \<open>sup_step\<close>, which
  assumes nothing of what it is handed in, and its part \<open>regular_step\<close>, whose exclusions are listed
  there). \<open>SupTrack\<close>, \<open>SupInv\<close>, \<open>SupLife\<close> and \<open>SupReach\<close> show by rule induction that in every state
  reached by regular steps the memory is the one the journal restores; \<open>SupBrake\<close> shows of every step
  that the brake holds; \<open>SupProps\<close> has the consequences, and lemmas on what goes wrong outside the
  regular steps. The operations on the worker's
  directory, messages and reports run on a desk (\<open>SupDesk\<close>): the journal as a list of records and the
  list of all calls made to the outside world. \<open>SupIntents\<close>, \<open>SupApply\<close> and \<open>SupIntentFile\<close> are these
  operations up to \<open>apply_intent_file\<close>; \<open>SupTrace\<close> is a logic for them (\<open>traced\<close>: only permitted calls,
  only permitted records), \<open>SupConfine\<close> and \<open>SupIntentProps\<close> apply it. \<open>TaskIntent\<close> models the worker's
  side, \<open>IntentProps\<close> both ends of a file together.

  \<open>SupMessages\<close> is the way of a message to the agent (inbox, choice, binding to a task, prompt) and
  \<open>SupMessageProps\<close> the binding of orders; \<open>SupOrphans\<close> the adoption of orphans and missing reports;
  \<open>SupScan\<close> the scans of intents and dead letters, with \<open>SupScanFair\<close> (the rotating window of 500
  entries visits every file) and \<open>SupScanProps\<close>, whose locale \<open>once\<close> (an operation that looks a key up
  before it journals it) is interpreted for dead letters and for claimed launches. \<open>SupConfig\<close> is
  \<open>configure\<close> and the broker's leases; \<open>SupGit\<close> the worktree of a task with every command line for git
  and the sandbox around it, and \<open>SupGitProps\<close> shows that nothing else is run. \<open>SupWait\<close> is the
  waiting for commands, with signals and the watchdog; \<open>SupFiles\<close> the outbox files and the live file;
  \<open>SupBoard\<close> the board, with the view of \<open>bin/task\<close> on one side and the worker's directory on the other.

  \<^bold>\<open>Dashboard.\<close> \<open>DashReader\<close> (what counts as a projection), \<open>DashRender\<close> (the pages), \<open>DashServer\<close> (the
  routes). \<open>Html\<close> is a strict reader of HTML as a state machine on characters; \<open>DashPages\<close> shows that
  every part of a page keeps its state, and \<open>DashProps\<close> that every request is answered by a page it
  accepts.

  \<^bold>\<open>The outside world.\<close> What is not under \<open>src/\<close> is an argument: clocks, the user and group databases,
  the process table, the replies of commands (on a desk, functions of all calls made before, so that a
  hostile worker or a failing command is an instance), the file system as what a read returns, the
  printing of floats, the reading of ISO timestamps by \<open>fromisoformat\<close>, Python's URL, query and cookie
  parsers, the style sheet and the set of printable characters. Hypotheses on them are named
  predicates. Those of \<open>regular_step\<close>, on which only the property on restarts rests: \<open>sound_controls\<close> (audit numbers are
  integers, the output of a killed turn is readable, no routine is asked for under a tripped brake),
  \<open>quiet_replies\<close>, \<open>quiet\<close> and \<open>orphan_quiet\<close> (code that is left out journals no event of the turn's
  own, and the transcript can be written), \<open>launches\<close> (no exception between the journaled start and
  the launch), \<open>good_moment\<close> (the clock's text and a fresh session id are not empty). Elsewhere:
  \<open>readable_view\<close> and \<open>small_view\<close> (timestamps with a zone, encodable texts, counts of at most 1000
  digits), \<open>shows_by_id\<close> (\<open>task show\<close> answers with the task
  asked for), \<open>style_ok\<close> (the style sheet closes no element). Each property that uses one has a witness
  at a concrete instance. Appends to journal and audit log by the running supervisor are taken to
  succeed; \<open>SupJournalProps\<close> treats the torn ones.

  \<^bold>\<open>Termination.\<close> Loops of the code are structural recursions or functions with a measure: the
  trimming of the worker view by the rows left, scans by the bytes left, the format parser by the
  text left. Waiting for a command is a partial function, which returns \<open>None\<close> only where the loop does
  not end; the property on it shows that it ends. The only fuel is the one of the JSON reader.

  \<^bold>\<open>Not modelled.\<close> The shell tools, the native launcher and unit files; argument parsing by
  \<open>argparse\<close>; sockets, processes, signals and the HTTP library; Python's limit on recursion; locks,
  which are taken as held (but for the check of the login store's lock file); of the supervisor the
  contents of the transcript, signals, its own lock file and re-execution; the encoding of response bodies and lone
  surrogates in them.
  Listing an open directory is taken to succeed, the order of a Python set is taken as sorted, and ids
  in the registry are taken as strings. The operations of \<open>SupMessages\<close>, \<open>SupOrphans\<close> and \<open>SupScan\<close>
  stand on a desk of their own: in the step relation of \<open>SupRun\<close> they enter as what they journal, under
  the hypotheses \<open>quiet\<close> and \<open>orphan_quiet\<close> in the regular steps, and as any records in \<open>sup_step\<close>.
  The evidence stored in the quarantine is what is handed to \<open>os.write\<close>.
\<close>

end
